(* ===== verification/Prelude.thy ===== *)
theory Prelude
  imports Complex_Main "HOL-Library.FSet" "HOL-Library.List_Lexorder" "HOL-Library.Char_ord"
    "HOL-Library.Sublist" "HOL-Library.Product_Lexorder" "HOL-Library.Multiset"
begin

text \<open>
  The vocabulary every component of the EDN OS model shares.

  \<^item> A Python call that may raise is a value of \<open>'a result\<close>: \<open>Inl e\<close> is the raised
    exception, \<open>Inr x\<close> the returned value; \<open>rbind\<close> sequences two such calls and
    \<open>traverse\<close> runs one over a tuple or list.
  \<^item> A dataclass \<open>__post_init__\<close> is a list of checks run in source order
    (\<open>construct\<close>): the first failing check is the exception the constructor raises.
  \<^item> A stateful call is a \<open>('s, 'a) stm\<close>, a state transformer that returns the new state
    even when it raises, because the code commits several SQLite transactions in one call;
    \<open>transaction\<close> is the context manager that rolls back on an exception.
  \<^item> Python strings are lists of characters whose code points are below 256; string order
    is the lexicographic order on code points, which is also Python's.
\<close>

named_theorems codec_simps \<open>evaluation of encoders and decoders\<close>
named_theorems check_simps \<open>characterisation of constructor checks\<close>
named_theorems stm_simps \<open>evaluation of state transformers\<close>

section \<open>Exceptions and results\<close>

datatype py_error =
    ValueError string
  | KeyError string
  | TypeError string
  | AttributeError string
  | RuntimeError string
  | IntegrityError string
  | OperationalError string
  | AssertionError string
  | OverflowError string
  | PermissionError string
  | OSError string
  | DelegationError string
  | BudgetError string
  | PreflightError string
  | DispatchError string string  \<comment> \<open>failure code, detail\<close>
  | ConnectorExc string string bool "string option"
    \<comment> \<open>machine code, explanation, transient, connector id\<close>

type_synonym 'a result = "py_error + 'a"

definition rbind :: "'a result \<Rightarrow> ('a \<Rightarrow> 'b result) \<Rightarrow> 'b result" where
  "rbind r f = (case r of Inl e \<Rightarrow> Inl e | Inr x \<Rightarrow> f x)"

fun traverse :: "('a \<Rightarrow> 'b result) \<Rightarrow> 'a list \<Rightarrow> 'b list result" where
  "traverse f [] = Inr []"
| "traverse f (x # xs) = rbind (f x) (\<lambda>y. rbind (traverse f xs) (\<lambda>ys. Inr (y # ys)))"

definition returns :: "'a result \<Rightarrow> bool" where
  "returns r = (case r of Inl _ \<Rightarrow> False | Inr _ \<Rightarrow> True)"

section \<open>Constructor checks\<close>

type_synonym check = "py_error option"

fun first_error :: "check list \<Rightarrow> check" where
  "first_error [] = None"
| "first_error (c # cs) = (case c of None \<Rightarrow> first_error cs | Some e \<Rightarrow> Some e)"

definition require :: "bool \<Rightarrow> string \<Rightarrow> check" where
  "require b msg = (if b then None else Some (ValueError msg))"

definition when_some :: "'a option \<Rightarrow> ('a \<Rightarrow> check) \<Rightarrow> check" where
  "when_some v f = (case v of None \<Rightarrow> None | Some x \<Rightarrow> f x)"

definition check_all :: "'a list \<Rightarrow> ('a \<Rightarrow> check) \<Rightarrow> check" where
  "check_all xs f = first_error (map f xs)"

definition construct :: "check list \<Rightarrow> 'a \<Rightarrow> 'a result" where
  "construct cs x = (case first_error cs of None \<Rightarrow> Inr x | Some e \<Rightarrow> Inl e)"

definition check_of :: "'a result \<Rightarrow> check" where
  "check_of r = (case r of Inl e \<Rightarrow> Some e | Inr _ \<Rightarrow> None)"

section \<open>State transformers\<close>

type_synonym ('s, 'a) stm = "'s \<Rightarrow> 'a result \<times> 's"

definition ret :: "'a \<Rightarrow> ('s, 'a) stm" where
  "ret x s = (Inr x, s)"

definition throw :: "py_error \<Rightarrow> ('s, 'a) stm" where
  "throw e s = (Inl e, s)"

definition sbind :: "('s, 'a) stm \<Rightarrow> ('a \<Rightarrow> ('s, 'b) stm) \<Rightarrow> ('s, 'b) stm" where
  "sbind m f s = (case m s of (Inl e, s') \<Rightarrow> (Inl e, s') | (Inr x, s') \<Rightarrow> f x s')"

definition lift :: "'a result \<Rightarrow> ('s, 'a) stm" where
  "lift r s = (r, s)"

definition transaction :: "('s, 'a) stm \<Rightarrow> ('s, 'a) stm" where
  "transaction m s = (case m s of (Inl e, _) \<Rightarrow> (Inl e, s) | (Inr x, s') \<Rightarrow> (Inr x, s'))"

section \<open>Strings\<close>

definition code :: "char \<Rightarrow> nat" where
  "code c = of_char c"

definition py_space :: "char \<Rightarrow> bool" where
  "py_space c = (let n = code c in 9 \<le> n \<and> n \<le> 13 \<or> 28 \<le> n \<and> n \<le> 32 \<or> n = 133 \<or> n = 160)"

definition blank :: "string \<Rightarrow> bool" where
  "blank s = list_all py_space s"

definition strip :: "string \<Rightarrow> string" where
  "strip s = rev (dropWhile py_space (rev (dropWhile py_space s)))"

definition is_digit :: "char \<Rightarrow> bool" where
  "is_digit c = (48 \<le> code c \<and> code c \<le> 57)"

definition is_alnum :: "char \<Rightarrow> bool" where
  "is_alnum c = (is_digit c \<or> 65 \<le> code c \<and> code c \<le> 90 \<or> 97 \<le> code c \<and> code c \<le> 122)"

definition lower_char :: "char \<Rightarrow> char" where
  "lower_char c = (if 65 \<le> code c \<and> code c \<le> 90 then char_of (code c + 32) else c)"

definition casefold :: "string \<Rightarrow> string" where
  "casefold s = map lower_char s"

fun py_in :: "string \<Rightarrow> string \<Rightarrow> bool" where
  "py_in sub [] = (sub = [])"
| "py_in sub (c # s) = (prefix sub (c # s) \<or> py_in sub s)"

function py_replace :: "string \<Rightarrow> string \<Rightarrow> string \<Rightarrow> string" where
  \<comment> \<open>\<open>s.replace(old, new)\<close> for a nonempty \<open>old\<close>\<close>
  "py_replace old new [] = []"
| "py_replace old new (c # s) =
     (if old \<noteq> [] \<and> prefix old (c # s) then new @ py_replace old new (drop (length old) (c # s))
      else c # py_replace old new s)"
  by pat_completeness auto
termination
  by (relation "measure (\<lambda>(old, new, s). length s)") (auto simp: Suc_diff_le neq_Nil_conv)

definition multiline :: "string \<Rightarrow> bool" where
  "multiline s = (CHR 0x0D \<in> set s \<or> CHR 0x0A \<in> set s)"

definition is_sha256 :: "string \<Rightarrow> bool" where
  "is_sha256 s = (length s = 64 \<and> list_all (\<lambda>c. c \<in> set ''0123456789abcdef'') s)"

section \<open>Dictionaries as association lists\<close>

type_synonym 'v dict = "(string \<times> 'v) list"

fun dict_set :: "string \<Rightarrow> 'v \<Rightarrow> 'v dict \<Rightarrow> 'v dict" where
  "dict_set k v [] = [(k, v)]"
| "dict_set k v ((k', v') # d) = (if k = k' then (k, v) # d else (k', v') # dict_set k v d)"

definition dict_del :: "string \<Rightarrow> 'v dict \<Rightarrow> 'v dict" where
  "dict_del k d = filter (\<lambda>(k', v). k' \<noteq> k) d"

fun nub_by :: "('a \<Rightarrow> 'a \<Rightarrow> bool) \<Rightarrow> 'a list \<Rightarrow> 'a list" where
  \<comment> \<open>\<open>frozenset(xs)\<close> for elements with their own equality: the first of equal ones stays\<close>
  "nub_by eq [] = []"
| "nub_by eq (x # xs) = x # filter (\<lambda>y. \<not> eq x y) (nub_by eq xs)"

definition dedup :: "'a list \<Rightarrow> 'a list" where
  \<comment> \<open>\<open>dict.fromkeys\<close>: the first occurrence of every element, in order\<close>
  "dedup xs = rev (remdups (rev xs))"

section \<open>Shared lemmas\<close>

lemma rbind_simps [simp, codec_simps]:
  "rbind (Inl e) f = Inl e"
  "rbind (Inr x) f = f x"
  by (simp_all add: rbind_def)

lemma rbind_Inr_iff: "rbind r f = Inr y \<longleftrightarrow> (\<exists>x. r = Inr x \<and> f x = Inr y)"
  by (cases r) simp_all

lemma rbind_InrE [elim]:
  assumes "rbind r f = Inr y"
  obtains x where "r = Inr x" "f x = Inr y"
  using assms by (auto simp: rbind_Inr_iff)

lemma traverse_map: "traverse f (map g xs) = traverse (f \<circ> g) xs"
  by (induction xs) simp_all

lemma traverse_Inr: "(\<And>x. x \<in> set xs \<Longrightarrow> f x = Inr (g x)) \<Longrightarrow> traverse f xs = Inr (map g xs)"
  by (induction xs) simp_all

lemma traverse_Inr_iff: "traverse f xs = Inr ys \<longleftrightarrow> list_all2 (\<lambda>x y. f x = Inr y) xs ys"
  by (induction xs arbitrary: ys) (auto simp: rbind_Inr_iff list_all2_Cons1)

lemma returns_simps [simp]: "returns (Inr x)" "\<not> returns (Inl e)"
  by (simp_all add: returns_def)

lemma first_error_Cons [simp]:
  "first_error (None # cs) = first_error cs"
  "first_error (Some e # cs) = Some e"
  by simp_all

declare first_error.simps(2) [simp del]

lemma first_error_None [check_simps]:
  "first_error (c # cs) = None \<longleftrightarrow> c = None \<and> first_error cs = None"
  by (cases c) simp_all

lemma first_error_None_iff: "first_error cs = None \<longleftrightarrow> (\<forall>c \<in> set cs. c = None)"
  by (induction cs) (auto simp: check_simps)

lemma first_error_append:
  "first_error (cs @ ds) = None \<longleftrightarrow> first_error cs = None \<and> first_error ds = None"
  by (auto simp: first_error_None_iff)

lemma first_error_Some_in: "first_error cs = Some e \<Longrightarrow> Some e \<in> set cs"
  by (induction cs) (auto simp: first_error.simps(2) split: option.splits)

lemma require_None [check_simps]: "require b m = None \<longleftrightarrow> b"
  by (simp add: require_def)

lemma require_simps [simp]: "require True m = None" "require False m = Some (ValueError m)"
  by (simp_all add: require_def)

lemma when_some_simps [simp]: "when_some None f = None" "when_some (Some x) f = f x"
  by (simp_all add: when_some_def)

lemma when_some_None [check_simps]:
  "when_some v f = None \<longleftrightarrow> (\<forall>x. v = Some x \<longrightarrow> f x = None)"
  by (cases v) simp_all

lemma check_all_None [check_simps]: "check_all xs f = None \<longleftrightarrow> (\<forall>x \<in> set xs. f x = None)"
  by (auto simp: check_all_def first_error_None_iff)

lemma construct_Inr_iff [check_simps]:
  "construct cs x = Inr y \<longleftrightarrow> y = x \<and> first_error cs = None"
  by (auto simp: construct_def split: option.splits)

lemma construct_ok: "first_error cs = None \<Longrightarrow> construct cs x = Inr x"
  by (simp add: construct_def)

lemma returns_construct [simp]: "returns (construct cs x) \<longleftrightarrow> first_error cs = None"
  by (simp add: construct_def split: option.splits)

lemma sbind_simps [simp, stm_simps]:
  "sbind (ret x) f = f x"
  "sbind (throw e) g = throw e"
  "sbind (lift (Inr x)) f = f x"
  "sbind (lift (Inl e)) g = throw e"
  by (simp_all add: sbind_def ret_def throw_def lift_def fun_eq_iff)

lemma sbind_Inr_iff:
  "sbind m f s = (Inr y, t) \<longleftrightarrow> (\<exists>x u. m s = (Inr x, u) \<and> f x u = (Inr y, t))"
  by (auto simp: sbind_def split: prod.splits sum.splits)

lemma sbind_Inl_iff:
  "sbind m f s = (Inl e, t) \<longleftrightarrow>
     m s = (Inl e, t) \<or> (\<exists>x u. m s = (Inr x, u) \<and> f x u = (Inl e, t))"
  by (auto simp: sbind_def split: prod.splits sum.splits)

lemma lift_iff: "lift r s = (r', t) \<longleftrightarrow> r = r' \<and> t = s"
  by (auto simp: lift_def)

lemma ret_iff: "ret x s = (r, t) \<longleftrightarrow> r = Inr x \<and> t = s"
  by (auto simp: ret_def)

lemma throw_iff: "throw e s = (r, t) \<longleftrightarrow> r = Inl e \<and> t = s"
  by (auto simp: throw_def)

lemmas stm_iffs = sbind_Inr_iff sbind_Inl_iff lift_iff ret_iff throw_iff

text \<open>A transaction that raises leaves no trace; one that returns is its body.\<close>

lemma transaction_Inl [stm_simps]: "transaction m s = (Inl e, t) \<Longrightarrow> t = s"
  by (auto simp: transaction_def split: prod.splits sum.splits)

lemma transaction_Inr_iff [stm_simps]: "transaction m s = (Inr x, t) \<longleftrightarrow> m s = (Inr x, t)"
  by (auto simp: transaction_def split: prod.splits sum.splits)

lemma transaction_keeps:
  assumes "P s" and "\<And>x t. m s = (Inr x, t) \<Longrightarrow> P t"
  shows "P (snd (transaction m s))"
  using assms by (auto simp: transaction_def split: prod.splits sum.splits)

lemma blank_simps [simp]:
  "blank []"
  "blank (c # s) \<longleftrightarrow> py_space c \<and> blank s"
  "blank (s @ t) \<longleftrightarrow> blank s \<and> blank t"
  by (simp_all add: blank_def)

lemma blank_strip: "blank s \<longleftrightarrow> strip s = []"
  by (auto simp: blank_def strip_def list_all_iff dropWhile_eq_Nil_conv
      dest: set_dropWhileD) (metis UnE set_append set_takeWhileD takeWhile_dropWhile_id)

lemma py_in_append: "py_in sub (a @ sub @ b)"
proof (induction a)
  case Nil
  have "prefix sub (sub @ b)" by simp
  then show ?case by (cases "sub @ b") auto
next
  case (Cons c a)
  then show ?case by simp
qed

lemma py_in_iff: "py_in sub s \<longleftrightarrow> (\<exists>a b. s = a @ sub @ b)"
proof
  show "py_in sub s \<Longrightarrow> \<exists>a b. s = a @ sub @ b"
  proof (induction s)
    case Nil
    then show ?case by simp
  next
    case (Cons c s)
    then show ?case
    proof (cases "prefix sub (c # s)")
      case True
      then show ?thesis by (metis append_Nil prefix_def)
    next
      case False
      with Cons obtain a b where "s = a @ sub @ b" by auto
      then have "c # s = (c # a) @ sub @ b" by simp
      then show ?thesis by blast
    qed
  qed
qed (auto simp: py_in_append)

lemma py_replace_skip:
  "c \<notin> set a \<Longrightarrow> py_replace (c # old) new (a @ s) = a @ py_replace (c # old) new s"
  by (induction a) auto

lemma py_replace_hit: "old \<noteq> [] \<Longrightarrow> py_replace old new old = new"
  by (cases old) auto

lemma list_less_append:
  fixes a b :: "'a::linorder list"
  assumes "length a = length b"
  shows "a @ x < b @ y \<longleftrightarrow> a < b \<or> a = b \<and> x < y"
  using assms by (induction a b rule: list_induct2) auto

lemma map_of_dict_set [simp]: "map_of (dict_set k v d) = (map_of d)(k \<mapsto> v)"
  by (induction k v d rule: dict_set.induct) (auto simp: fun_eq_iff)

lemma keys_dict_set: "fst ` set (dict_set k v d) = insert k (fst ` set d)"
  by (induction k v d rule: dict_set.induct) auto

lemma distinct_dict_set: "distinct (map fst d) \<Longrightarrow> distinct (map fst (dict_set k v d))"
proof (induction k v d rule: dict_set.induct)
  case (2 k v k' v' d)
  then show ?case
    by (auto simp: keys_dict_set)
qed simp

lemma dict_set_fresh: "k \<notin> fst ` set d \<Longrightarrow> dict_set k v d = d @ [(k, v)]"
  by (induction k v d rule: dict_set.induct) auto

lemma map_of_dict_del [simp]: "map_of (dict_del k d) = (map_of d)(k := None)"
  by (induction d) (auto simp: dict_del_def fun_eq_iff)

lemma distinct_dict_del: "distinct (map fst d) \<Longrightarrow> distinct (map fst (dict_del k d))"
  by (induction d) (auto simp: dict_del_def)

lemma set_dedup [simp]: "set (dedup xs) = set xs"
  by (simp add: dedup_def)

lemma distinct_dedup [simp]: "distinct (dedup xs)"
  by (simp add: dedup_def)

lemma dedup_id: "distinct xs \<Longrightarrow> dedup xs = xs"
  by (simp add: dedup_def distinct_remdups_id)

lemma nub_by_id: "distinct (map f xs) \<Longrightarrow> (\<And>x y. eq x y \<longleftrightarrow> f x = f y) \<Longrightarrow> nub_by eq xs = xs"
  by (induction xs) (auto simp: filter_id_conv)

lemma set_nub_by: "set (nub_by eq xs) \<subseteq> set xs"
  by (induction xs) auto

lemma sort_key_idem: "sort_key f (sort_key f xs) = sort_key f xs"
  by (rule sort_key_id_if_sorted) simp

lemma sort_key_Nil_iff [simp]: "sort_key f xs = [] \<longleftrightarrow> xs = []"
  by (metis length_0_conv length_sort)

lemma distinct_map_sort_key: "distinct (map g (sort_key f xs)) = distinct (map g xs)"
proof -
  have "mset (map g (sort_key f xs)) = mset (map g xs)" by simp
  then show ?thesis by (rule mset_eq_imp_distinct_iff)
qed

end
