(* ===== verification/PyTime.thy ===== *)
theory PyTime
  imports Prelude "HOL-Library.Monad_Syntax"
begin

text \<open>
  The part of Python's \<open>datetime\<close> the repository uses. A datetime is its wall-clock reading,
  in microseconds since 0001-01-01T00:00:00 on the proleptic Gregorian calendar, and, for
  an aware value, a fixed UTC offset in minutes. Two aware values compare by the instant
  they denote; comparing a naive with an aware value raises \<open>TypeError\<close>.

  \<open>isoformat\<close> renders the text that is stored in SQLite columns and JSON payloads and
  \<open>fromisoformat\<close> reads the forms \<open>isoformat\<close> produces (seconds, optional six-digit
  fraction, optional offset). The lemmas show that reading inverts writing and that, at one
  UTC offset, the order of the texts is the order of the instants, which is what the SQL
  comparisons of the stores rely on.
\<close>

section \<open>Calendar\<close>

definition is_leap :: "int \<Rightarrow> bool" where
  "is_leap y = (y mod 4 = 0 \<and> (y mod 100 \<noteq> 0 \<or> y mod 400 = 0))"

definition leap_days :: "int \<Rightarrow> int" where
  "leap_days y = (if is_leap y then 1 else 0)"

definition days_before_year :: "int \<Rightarrow> int" where
  "days_before_year y =
     (y - 1) * 365 + (y - 1) div 4 - (y - 1) div 100 + (y - 1) div 400"

definition days_before_month :: "int \<Rightarrow> int \<Rightarrow> int" where
  "days_before_month y m =
     (let l = leap_days y in
      if m \<le> 1 then 0 else if m = 2 then 31 else if m = 3 then 59 + l else if m = 4 then 90 + l
      else if m = 5 then 120 + l else if m = 6 then 151 + l else if m = 7 then 181 + l
      else if m = 8 then 212 + l else if m = 9 then 243 + l else if m = 10 then 273 + l
      else if m = 11 then 304 + l else if m = 12 then 334 + l else 365 + l)"

definition days_in_month :: "int \<Rightarrow> int \<Rightarrow> int" where
  "days_in_month y m = days_before_month y (m + 1) - days_before_month y m"

definition valid_ymd :: "int \<times> int \<times> int \<Rightarrow> bool" where
  "valid_ymd = (\<lambda>(y, m, d). 1 \<le> y \<and> y \<le> 9999 \<and> 1 \<le> m \<and> m \<le> 12 \<and>
     1 \<le> d \<and> d \<le> days_in_month y m)"

definition ymd2ord :: "int \<times> int \<times> int \<Rightarrow> int" where
  "ymd2ord = (\<lambda>(y, m, d). days_before_year y + days_before_month y m + d)"

lemma days_before_year_ge: "0 \<le> y \<Longrightarrow> 365 * y \<le> days_before_year (y + 1)"
proof -
  assume "0 \<le> y"
  then have "y div 100 \<le> y div 4" and "0 \<le> y div 400"
    by (simp_all add: zdiv_mono2)
  then show ?thesis by (simp add: days_before_year_def)
qed

function year_from :: "int \<Rightarrow> int \<Rightarrow> int" where
  "year_from n y = (if 1 \<le> y \<and> days_before_year (y + 1) < n then year_from n (y + 1) else y)"
  by pat_completeness auto
termination
proof (relation "measure (\<lambda>(n, y). nat (n - 365 * y))", goal_cases)
  case (2 n y)
  then have "365 * y < n" using days_before_year_ge [of y] by linarith
  then show ?case by simp
qed simp

declare year_from.simps [simp del]

definition month_from :: "int \<Rightarrow> int \<Rightarrow> int" where
  "month_from y doy =
     (let l = leap_days y in
      if doy \<le> 31 then 1 else if doy \<le> 59 + l then 2 else if doy \<le> 90 + l then 3
      else if doy \<le> 120 + l then 4 else if doy \<le> 151 + l then 5 else if doy \<le> 181 + l then 6
      else if doy \<le> 212 + l then 7 else if doy \<le> 243 + l then 8 else if doy \<le> 273 + l then 9
      else if doy \<le> 304 + l then 10 else if doy \<le> 334 + l then 11 else 12)"

definition ord2ymd :: "int \<Rightarrow> int \<times> int \<times> int" where
  "ord2ymd n =
     (let y = year_from n ((n - 1) div 366 + 1);
          doy = n - days_before_year y;
          m = month_from y doy
      in (y, m, doy - days_before_month y m))"

section \<open>Datetimes\<close>

datatype datetime = Naive int | Aware int int

definition day_us :: int where "day_us = 86400000000"
definition minute_us :: int where "minute_us = 60000000"
definition max_wall :: int where "max_wall = 3652059 * day_us"

fun tzinfo_None :: "datetime \<Rightarrow> bool" where
  "tzinfo_None (Naive _) = True"
| "tzinfo_None (Aware _ _) = False"

fun wall :: "datetime \<Rightarrow> int" where
  "wall (Naive w) = w"
| "wall (Aware w _) = w"

fun utcoffset :: "datetime \<Rightarrow> int" where
  "utcoffset (Naive _) = 0"
| "utcoffset (Aware _ off) = off"

definition instant :: "datetime \<Rightarrow> int" where
  "instant d = wall d - utcoffset d * minute_us"

definition to_utc :: "datetime \<Rightarrow> datetime" where
  \<comment> \<open>\<open>astimezone(UTC)\<close> of an aware value\<close>
  "to_utc d = (if tzinfo_None d then d else Aware (instant d) 0)"

definition dt_eq :: "datetime \<Rightarrow> datetime \<Rightarrow> bool" where
  "dt_eq a b = (tzinfo_None a = tzinfo_None b \<and> instant a = instant b)"

definition dt_less :: "datetime \<Rightarrow> datetime \<Rightarrow> bool result" where
  "dt_less a b =
     (if tzinfo_None a = tzinfo_None b then Inr (instant a < instant b)
      else Inl (TypeError ''can't compare offset-naive and offset-aware datetimes''))"

definition dt_ok :: "datetime \<Rightarrow> bool" where
  \<comment> \<open>the values Python can represent, whose UTC reading is representable too\<close>
  "dt_ok d = (0 \<le> wall d \<and> wall d < max_wall \<and> 0 \<le> instant d \<and> instant d < max_wall \<and>
     \<bar>utcoffset d\<bar> < 1440)"

section \<open>Text form\<close>

definition digit :: "nat \<Rightarrow> char" where
  "digit n = char_of (48 + n)"

fun pad :: "nat \<Rightarrow> nat \<Rightarrow> string" where
  "pad 0 n = []"
| "pad (Suc k) n = pad k (n div 10) @ [digit (n mod 10)]"

definition num :: "string \<Rightarrow> nat" where
  "num s = foldl (\<lambda>n c. 10 * n + (code c - 48)) 0 s"

definition iso_offset :: "int \<Rightarrow> string" where
  "iso_offset off = (if off < 0 then ''-'' else ''+'') @
     pad 2 (nat \<bar>off\<bar> div 60) @ '':'' @ pad 2 (nat \<bar>off\<bar> mod 60)"

definition iso_date :: "int \<times> int \<times> int \<Rightarrow> string" where
  "iso_date = (\<lambda>(y, m, d). pad 4 (nat y) @ ''-'' @ pad 2 (nat m) @ ''-'' @ pad 2 (nat d))"

definition iso_seconds :: "int \<Rightarrow> string" where
  "iso_seconds t = pad 2 (nat (t div 3600)) @ '':'' @ pad 2 (nat (t div 60 mod 60)) @ '':'' @
     pad 2 (nat (t mod 60))"

definition iso_fraction :: "int \<Rightarrow> string" where
  "iso_fraction us = (if us = 0 then [] else ''.'' @ pad 6 (nat us))"

definition iso_wall :: "int \<Rightarrow> string" where
  "iso_wall w = iso_date (ord2ymd (w div day_us + 1)) @ ''T'' @
     iso_seconds (w mod day_us div 1000000) @ iso_fraction (w mod 1000000)"

fun isoformat :: "datetime \<Rightarrow> string" where
  "isoformat (Naive w) = iso_wall w"
| "isoformat (Aware w off) = iso_wall w @ iso_offset off"

definition digits :: "nat \<Rightarrow> string \<Rightarrow> (nat \<times> string) option" where
  "digits k s = (if k \<le> length s \<and> list_all is_digit (take k s)
     then Some (num (take k s), drop k s) else None)"

definition expect :: "char \<Rightarrow> string \<Rightarrow> string option" where
  "expect c s = (case s of [] \<Rightarrow> None | x # xs \<Rightarrow> if x = c then Some xs else None)"

definition parse_fraction :: "string \<Rightarrow> (nat \<times> string) option" where
  "parse_fraction s = (case expect (CHR ''.'') s of None \<Rightarrow> Some (0, s) | Some r \<Rightarrow> digits 6 r)"

definition parse_offset :: "string \<Rightarrow> int option option" where
  "parse_offset s =
     (if s = [] then Some None
      else do {
        let sign = hd s;
        (if sign = CHR ''+'' \<or> sign = CHR ''-'' then Some () else None);
        (h, s) \<leftarrow> digits 2 (tl s); s \<leftarrow> expect (CHR '':'') s; (m, s) \<leftarrow> digits 2 s;
        (if s = [] \<and> h < 24 \<and> m < 60 then
           Some (Some ((if sign = CHR ''-'' then -1 else 1) * int (60 * h + m))) else None)})"

definition parse_iso :: "string \<Rightarrow> datetime option" where
  "parse_iso s = do {
     (y, s) \<leftarrow> digits 4 s; s \<leftarrow> expect (CHR ''-'') s;
     (m, s) \<leftarrow> digits 2 s; s \<leftarrow> expect (CHR ''-'') s;
     (d, s) \<leftarrow> digits 2 s; s \<leftarrow> expect (CHR ''T'') s;
     (h, s) \<leftarrow> digits 2 s; s \<leftarrow> expect (CHR '':'') s;
     (mi, s) \<leftarrow> digits 2 s; s \<leftarrow> expect (CHR '':'') s;
     (sec, s) \<leftarrow> digits 2 s;
     (us, s) \<leftarrow> parse_fraction s;
     off \<leftarrow> parse_offset s;
     (if valid_ymd (int y, int m, int d) \<and> h < 24 \<and> mi < 60 \<and> sec < 60 then
        (let w = (ymd2ord (int y, int m, int d) - 1) * day_us +
               int (3600 * h + 60 * mi + sec) * 1000000 + int us
         in Some (case off of None \<Rightarrow> Naive w | Some off \<Rightarrow> Aware w off))
      else None)}"

definition fromisoformat :: "string \<Rightarrow> datetime result" where
  "fromisoformat s = (case parse_iso s of
     None \<Rightarrow> Inl (ValueError ''Invalid isoformat string'') | Some d \<Rightarrow> Inr d)"

definition format_utc :: "datetime \<Rightarrow> string" where
  \<comment> \<open>\<open>value.astimezone(UTC).isoformat().replace("+00:00", "Z")\<close>\<close>
  "format_utc d = py_replace ''+00:00'' ''Z'' (isoformat (to_utc d))"

definition parse_z :: "string \<Rightarrow> datetime result" where
  \<comment> \<open>\<open>datetime.fromisoformat(value.replace("Z", "+00:00"))\<close>\<close>
  "parse_z s = fromisoformat (py_replace ''Z'' ''+00:00'' s)"

section \<open>Calendar lemmas\<close>

lemma leap_days_cases: "leap_days y = 0 \<or> leap_days y = 1"
  by (simp add: leap_days_def)

lemma div_step: "0 < (k::int) \<Longrightarrow> y div k = (y - 1) div k + (if y mod k = 0 then 1 else 0)"
proof -
  assume k: "0 < k"
  have "y div k = (y - 1 + 1) div k" by simp
  also have "\<dots> = (y - 1) div k + (if k dvd y then 1 else 0)"
  proof (cases "k dvd y")
    case True
    then obtain q where "y = k * q" ..
    moreover have "(k * q - 1) div k = q - 1"
      using k by (intro div_pos_geq [THEN trans] int_div_pos_eq [where r = "k - 1"])
        (simp_all add: algebra_simps)
    ultimately show ?thesis using k by simp
  next
    case False
    then have "0 < y mod k"
      using k pos_mod_sign [of k y] by (simp add: dvd_eq_mod_eq_0 order_le_less)
    moreover have "y - 1 = k * (y div k) + (y mod k - 1)" by (simp add: algebra_simps)
    ultimately have "(y - 1) div k = y div k"
      using k less_imp_le [OF pos_mod_bound [OF k, of y]]
      by (intro int_div_pos_eq [where r = "y mod k - 1"]) linarith+
    with False show ?thesis by simp
  qed
  finally show ?thesis by (simp add: dvd_eq_mod_eq_0)
qed

lemma leap_days_mod:
  "leap_days y = (if y mod 4 = 0 then 1 else 0) - (if y mod 100 = 0 then 1 else 0) +
     (if y mod 400 = 0 then 1 else 0)"
proof -
  have "y mod 100 = 0" if "y mod 400 = 0"
    using that dvd_trans [of 100 400 y] by (simp add: dvd_eq_mod_eq_0)
  moreover have "y mod 4 = 0" if "y mod 100 = 0"
    using that dvd_trans [of 4 100 y] by (simp add: dvd_eq_mod_eq_0)
  ultimately show ?thesis
    by (cases "y mod 4 = 0"; cases "y mod 100 = 0"; cases "y mod 400 = 0")
      (simp_all add: leap_days_def is_leap_def)
qed

lemma days_before_year_Suc: "days_before_year (y + 1) = days_before_year y + 365 + leap_days y"
proof -
  define a b c where "a = (y - 1) div 4" and "b = (y - 1) div 100" and "c = (y - 1) div 400"
  have "y div 4 = a + (if y mod 4 = 0 then 1 else 0)"
    "y div 100 = b + (if y mod 100 = 0 then 1 else 0)"
    "y div 400 = c + (if y mod 400 = 0 then 1 else 0)"
    unfolding a_def b_def c_def by (rule div_step, simp)+
  then show ?thesis
    unfolding days_before_year_def leap_days_mod add_diff_cancel_right'
      a_def [symmetric] b_def [symmetric] c_def [symmetric]
    by (simp only: left_diff_distrib)
qed

lemma days_before_year_mono: "y \<le> z \<Longrightarrow> days_before_year y \<le> days_before_year z"
proof (induction z rule: int_ge_induct)
  case base
  show ?case by simp
next
  case (step i)
  then show ?case using leap_days_cases [of i] by (auto simp: days_before_year_Suc)
qed

lemma year_from_spec:
  "1 \<le> y \<Longrightarrow> days_before_year y < n \<Longrightarrow>
     1 \<le> year_from n y \<and> days_before_year (year_from n y) < n \<and>
     n \<le> days_before_year (year_from n y + 1)"
proof (induction n y rule: year_from.induct)
  case (1 n y)
  show ?case
  proof (cases "days_before_year (y + 1) < n")
    case True
    with "1" show ?thesis by (simp add: year_from.simps [of n y])
  next
    case False
    with "1.prems" show ?thesis by (simp add: year_from.simps [of n y])
  qed
qed

lemma year_start: "1 \<le> n \<Longrightarrow> days_before_year ((n - 1) div 366 + 1) < n"
proof -
  assume n: "1 \<le> n"
  define k where "k = (n - 1) div 366"
  have k: "366 * k \<le> n - 1" and "0 \<le> k" using n by (simp_all add: k_def)
  then have "k div 4 - k div 100 + k div 400 \<le> k" by (simp add: zdiv_mono2)
  with k show ?thesis by (simp add: days_before_year_def flip: k_def)
qed

lemma month_from_spec:
  assumes "1 \<le> doy" and "doy \<le> 365 + leap_days y"
  shows "1 \<le> month_from y doy \<and> month_from y doy \<le> 12 \<and>
    days_before_month y (month_from y doy) < doy \<and>
    doy \<le> days_before_month y (month_from y doy + 1)"
  using assms leap_days_cases [of y]
  by (auto simp: month_from_def days_before_month_def Let_def)

lemma ord2ymd_inverse: "1 \<le> n \<Longrightarrow> ymd2ord (ord2ymd n) = n"
  by (simp add: ord2ymd_def ymd2ord_def Let_def)

lemma days_before_month_bound:
  "1 \<le> m \<Longrightarrow> m \<le> 12 \<Longrightarrow> days_before_month y (m + 1) \<le> 365 + leap_days y \<and> 0 \<le> days_before_month y m"
  using leap_days_cases [of y] by (auto simp: days_before_month_def Let_def)

lemma days_before_month_mono:
  "m < m' \<Longrightarrow> m' \<le> 12 \<Longrightarrow> 1 \<le> m \<Longrightarrow> days_before_month y (m + 1) \<le> days_before_month y m'"
  using leap_days_cases [of y] by (auto simp: days_before_month_def Let_def; presburger)

lemma ord2ymd_valid:
  assumes "1 \<le> n" and "n \<le> 3652059"
  shows "valid_ymd (ord2ymd n)"
proof -
  define y where "y = year_from n ((n - 1) div 366 + 1)"
  define doy where "doy = n - days_before_year y"
  have y: "1 \<le> y" "days_before_year y < n" "n \<le> days_before_year (y + 1)"
    using year_from_spec [of "(n - 1) div 366 + 1" n] year_start [OF assms(1)] assms(1)
    by (auto simp: y_def)
  have "y \<le> 9999"
  proof (rule ccontr)
    assume "\<not> y \<le> 9999"
    then have "days_before_year 10000 \<le> days_before_year y" by (intro days_before_year_mono) simp
    with y(2) assms(2) show False by (simp add: days_before_year_def)
  qed
  moreover have "1 \<le> doy" "doy \<le> 365 + leap_days y"
    using y by (simp_all add: doy_def days_before_year_Suc)
  ultimately show ?thesis
    using y(1) month_from_spec [of doy y]
    by (simp add: ord2ymd_def valid_ymd_def days_in_month_def Let_def flip: y_def doy_def)
qed

lemma ymd2ord_less:
  assumes "valid_ymd a" and "valid_ymd b" and "a < b"
  shows "ymd2ord a < ymd2ord b"
proof -
  obtain y m d y' m' d' where ab: "a = (y, m, d)" "b = (y', m', d')"
    by (cases a, cases b) auto
  have b1: "days_before_month y m + d \<le> days_before_month y (m + 1)" "1 \<le> d" "1 \<le> d'"
    "1 \<le> m" "m \<le> 12" "1 \<le> m'" "m' \<le> 12"
    using assms(1,2) by (auto simp: ab valid_ymd_def days_in_month_def)
  consider "y < y'" | "y = y'" "m < m'" | "y = y'" "m = m'" "d < d'"
    using assms(3) by (fastforce simp: ab order_le_less)
  then show ?thesis
  proof cases
    case 1
    then have "days_before_year (y + 1) \<le> days_before_year y'"
      by (intro days_before_year_mono) simp
    with b1 days_before_month_bound [of m y] days_before_month_bound [of m' y'] show ?thesis
      by (simp add: ab ymd2ord_def days_before_year_Suc)
  next
    case 2
    with b1 days_before_month_mono [of m m' y] show ?thesis by (simp add: ab ymd2ord_def)
  next
    case 3
    then show ?thesis by (simp add: ab ymd2ord_def)
  qed
qed

lemma ord2ymd_mono:
  assumes "1 \<le> n" "n \<le> 3652059" "1 \<le> m" "m \<le> 3652059"
  shows "ord2ymd n < ord2ymd m \<longleftrightarrow> n < m"
  using assms ymd2ord_less [of "ord2ymd n" "ord2ymd m"] ymd2ord_less [of "ord2ymd m" "ord2ymd n"]
  by (metis linorder_less_linear ord2ymd_inverse ord2ymd_valid order_less_asym)

section \<open>Text lemmas\<close>

lemma code_digit: "n < 10 \<Longrightarrow> code (digit n) = 48 + n"
  by (simp add: code_def digit_def)

lemma is_digit_digit: "n < 10 \<Longrightarrow> is_digit (digit n)"
  by (simp add: is_digit_def code_digit)

lemma digit_less: "m < 10 \<Longrightarrow> n < 10 \<Longrightarrow> digit m < digit n \<longleftrightarrow> m < n"
  by (simp add: less_char_def digit_def)

lemma digit_inj: "m < 10 \<Longrightarrow> n < 10 \<Longrightarrow> digit m = digit n \<longleftrightarrow> m = n"
  by (metis add_left_cancel code_digit)

lemma length_pad [simp]: "length (pad k n) = k"
  by (induction k arbitrary: n) simp_all

lemma pad_digits: "list_all is_digit (pad k n)"
  by (induction k arbitrary: n) (simp_all add: is_digit_digit)

lemma num_snoc: "num (s @ [c]) = 10 * num s + (code c - 48)"
  by (simp add: num_def)

lemma num_pad: "n < 10 ^ k \<Longrightarrow> num (pad k n) = n"
proof (induction k arbitrary: n)
  case 0
  then show ?case by (simp add: num_def)
next
  case (Suc k)
  then have "n div 10 < 10 ^ k" by (simp add: less_mult_imp_div_less mult.commute)
  with Suc.IH show ?case by (simp add: num_snoc code_digit)
qed

lemma digits_pad [simp]: "n < 10 ^ k \<Longrightarrow> digits k (pad k n @ s) = Some (n, s)"
  by (simp add: digits_def num_pad pad_digits)

lemma digits_pad_Nil [simp]: "n < 10 ^ k \<Longrightarrow> digits k (pad k n) = Some (n, [])"
  using digits_pad [of n k "[]"] by simp

lemma less_div_mod_10:
  "(m::nat) < n \<longleftrightarrow> m div 10 < n div 10 \<or> m div 10 = n div 10 \<and> m mod 10 < n mod 10"
proof -
  define a b c d where "a = m div 10" and "b = m mod 10" and "c = n div 10" and "d = n mod 10"
  have "m = 10 * a + b" "n = 10 * c + d" "b < 10" "d < 10"
    by (simp_all add: a_def b_def c_def d_def)
  then show ?thesis by (auto simp flip: a_def b_def c_def d_def)
qed

lemma pad_less: "m < 10 ^ k \<Longrightarrow> n < 10 ^ k \<Longrightarrow> pad k m < pad k n \<longleftrightarrow> m < n"
proof (induction k arbitrary: m n)
  case 0
  then show ?case by simp
next
  case (Suc k)
  then have b: "m div 10 < 10 ^ k" "n div 10 < 10 ^ k"
    by (simp_all add: less_mult_imp_div_less mult.commute)
  then have "pad k (m div 10) = pad k (n div 10) \<longleftrightarrow> m div 10 = n div 10"
    by (metis num_pad)
  then show ?case
    using Suc.IH [OF b] less_div_mod_10 [of m n] by (simp add: list_less_append digit_less)
qed

lemma pad_eq: "m < 10 ^ k \<Longrightarrow> n < 10 ^ k \<Longrightarrow> pad k m = pad k n \<longleftrightarrow> m = n"
  by (metis num_pad)

lemma expect_simps [simp]: "expect c (c # s) = Some s" "c \<noteq> d \<Longrightarrow> expect c (d # s) = None"
  by (simp_all add: expect_def)

lemma pad_no_char: "\<not> is_digit c \<Longrightarrow> c \<notin> set (pad k n)"
  using pad_digits by (auto simp: list_all_iff)

text \<open>The shape of a valid wall reading: a valid date and a time within the day.\<close>

lemma wall_parts:
  assumes "0 \<le> w" and "w < max_wall"
  shows "valid_ymd (ord2ymd (w div day_us + 1))"
    and "1 \<le> w div day_us + 1" and "w div day_us + 1 \<le> 3652059"
    and "0 \<le> w mod day_us div 1000000" and "w mod day_us div 1000000 < 86400"
proof -
  have d: "0 \<le> w div day_us" "w div day_us < 3652059"
    using assms by (simp_all add: day_us_def max_wall_def)
  then show "valid_ymd (ord2ymd (w div day_us + 1))" by (intro ord2ymd_valid) simp_all
  from d show "1 \<le> w div day_us + 1" "w div day_us + 1 \<le> 3652059" by simp_all
  have "0 \<le> w mod day_us" "w mod day_us < 86400 * 1000000"
    by (simp_all add: day_us_def)
  then show "0 \<le> w mod day_us div 1000000" "w mod day_us div 1000000 < 86400"
    by simp_all
qed

lemma seconds_split:
  fixes t :: int
  assumes "0 \<le> t"
  shows "3600 * (t div 3600) + 60 * (t div 60 mod 60) + t mod 60 = t"
proof -
  have "t div 3600 = t div 60 div 60" by (simp add: zdiv_zmult2_eq [symmetric])
  moreover have "60 * (t div 60 div 60) + t div 60 mod 60 = t div 60" by simp
  moreover have "60 * (t div 60) + t mod 60 = t" by simp
  ultimately show ?thesis by linarith
qed

lemma wall_split: "w div day_us * day_us + w mod day_us div 1000000 * 1000000 + w mod 1000000 = w"
proof -
  have "w mod day_us mod 1000000 = w mod 1000000"
    by (simp add: day_us_def mod_mod_cancel)
  moreover have "w mod day_us div 1000000 * 1000000 + w mod day_us mod 1000000 = w mod day_us"
    by simp
  moreover have "w div day_us * day_us + w mod day_us = w" by simp
  ultimately show ?thesis by linarith
qed

lemma parse_fraction_iso:
  assumes "0 \<le> us" and "us < 1000000" and "s = [] \<or> hd s \<noteq> CHR ''.''"
  shows "parse_fraction (iso_fraction us @ s) = Some (nat us, s)"
  using assms by (cases s) (auto simp: parse_fraction_def iso_fraction_def expect_def nat_less_iff)

lemma parse_offset_iso:
  assumes "\<bar>off\<bar> < 1440"
  shows "parse_offset (iso_offset off) = Some (Some off)"
proof -
  define n where "n = nat \<bar>off\<bar>"
  have n: "n < 1440" "int n = \<bar>off\<bar>" using assms by (simp_all add: n_def)
  then have "n div 60 < 24" "n mod 60 < 60" by simp_all
  then show ?thesis
    using n by (simp add: parse_offset_def iso_offset_def flip: n_def)
qed

lemma parse_iso_text:
  assumes "y < 10 ^ 4" "m < 10 ^ 2" "d < 10 ^ 2" "h < 24" "mi < 60" "sec < 60"
    and "valid_ymd (int y, int m, int d)"
    and "parse_fraction (fr @ s) = Some (us, s)" and "parse_offset s = Some off"
    and "(ymd2ord (int y, int m, int d) - 1) * day_us +
      int (3600 * h + 60 * mi + sec) * 1000000 + int us = w"
  shows "parse_iso (pad 4 y @ ''-'' @ pad 2 m @ ''-'' @ pad 2 d @ ''T'' @
      pad 2 h @ '':'' @ pad 2 mi @ '':'' @ pad 2 sec @ fr @ s) =
    Some (case off of None \<Rightarrow> Naive w | Some off \<Rightarrow> Aware w off)"
proof -
  have b: "h < 10 ^ 2" "mi < 10 ^ 2" "sec < 10 ^ 2" using assms(4-6) by simp_all
  show ?thesis
    unfolding assms(10) [symmetric]
    by (simp add: parse_iso_def assms(4-9) digits_pad [OF assms(1)] digits_pad [OF assms(2)]
        digits_pad [OF assms(3)] digits_pad [OF b(1)] digits_pad [OF b(2)] digits_pad [OF b(3)]
        Let_def del: of_nat_add of_nat_mult)
qed

lemma parse_iso_wall:
  assumes w: "0 \<le> w" "w < max_wall" and off: "parse_offset s = Some off"
    and s: "s = [] \<or> hd s \<noteq> CHR ''.''"
  shows "parse_iso (iso_wall w @ s) =
    Some (case off of None \<Rightarrow> Naive w | Some off \<Rightarrow> Aware w off)"
proof -
  obtain y m d where ymd: "ord2ymd (w div day_us + 1) = (y, m, d)" by (metis prod_cases3)
  define t where "t = w mod day_us div 1000000"
  have v: "valid_ymd (y, m, d)" and t: "0 \<le> t" "t < 86400"
    using wall_parts [OF w] by (simp_all add: ymd t_def)
  have dim: "days_in_month y m \<le> 31"
    using v leap_days_cases [of y]
    by (auto simp: valid_ymd_def days_in_month_def days_before_month_def Let_def)
  have b: "nat y < 10 ^ 4" "nat m < 10 ^ 2" "nat d < 10 ^ 2"
    and pos: "int (nat y) = y" "int (nat m) = m" "int (nat d) = d"
    using v dim by (simp_all add: valid_ymd_def nat_less_iff)
  have r: "nat (t div 3600) < 24" "nat (t div 60 mod 60) < 60" "nat (t mod 60) < 60"
    using t by (simp_all add: nat_less_iff)
  have A: "ymd2ord (y, m, d) = w div day_us + 1"
    using ord2ymd_inverse [of "w div day_us + 1"] wall_parts(2) [OF w] by (simp add: ymd)
  have B: "int (3600 * nat (t div 3600) + 60 * nat (t div 60 mod 60) + nat (t mod 60)) = t"
    using t seconds_split [of t] by (simp add: pos_imp_zdiv_nonneg_iff)
  have C: "int (nat (w mod 1000000)) = w mod 1000000" by simp
  have eq: "(ymd2ord (int (nat y), int (nat m), int (nat d)) - 1) * day_us +
      int (3600 * nat (t div 3600) + 60 * nat (t div 60 mod 60) + nat (t mod 60)) * 1000000 +
      int (nat (w mod 1000000)) = w"
    unfolding pos A B C add_diff_cancel_right' unfolding t_def by (rule wall_split)
  have f: "parse_fraction (iso_fraction (w mod 1000000) @ s) = Some (nat (w mod 1000000), s)"
    by (rule parse_fraction_iso) (use s in simp_all)
  have "iso_wall w @ s = pad 4 (nat y) @ ''-'' @ pad 2 (nat m) @ ''-'' @ pad 2 (nat d) @ ''T'' @
      pad 2 (nat (t div 3600)) @ '':'' @ pad 2 (nat (t div 60 mod 60)) @ '':'' @
      pad 2 (nat (t mod 60)) @ iso_fraction (w mod 1000000) @ s"
    unfolding iso_wall_def iso_date_def iso_seconds_def ymd t_def [symmetric] by simp
  then show ?thesis
    using parse_iso_text [OF b r _ f off eq] v by (simp only: pos)
qed

lemma hd_iso_offset: "iso_offset off \<noteq> []" "hd (iso_offset off) \<noteq> CHR ''.''"
  by (simp_all add: iso_offset_def)

lemma fromisoformat_isoformat:
  assumes "0 \<le> wall d" and "wall d < max_wall" and "\<bar>utcoffset d\<bar> < 1440"
  shows "fromisoformat (isoformat d) = Inr d"
proof (cases d)
  case (Naive w)
  with assms parse_iso_wall [of w "[]" None] show ?thesis
    by (simp add: fromisoformat_def parse_offset_def)
next
  case (Aware w off)
  with assms parse_iso_wall [of w "iso_offset off" "Some off"] show ?thesis
    by (simp add: fromisoformat_def parse_offset_iso hd_iso_offset)
qed

lemma iso_wall_chars:
  assumes "\<not> is_digit c" "c \<noteq> CHR ''-''" "c \<noteq> CHR '':''" "c \<noteq> CHR ''T''" "c \<noteq> CHR ''.''"
  shows "c \<notin> set (iso_wall w)"
proof -
  obtain y m d where "ord2ymd (w div day_us + 1) = (y, m, d)" by (metis prod_cases3)
  then show ?thesis
    using assms pad_no_char [OF assms(1)]
    by (simp add: iso_wall_def iso_date_def iso_seconds_def iso_fraction_def)
qed

lemma iso_offset_0: "iso_offset 0 = ''+00:00''"
  by code_simp

lemma format_utc_eq: "format_utc (Aware w off) = iso_wall (w - off * minute_us) @ ''Z''"
  using py_replace_hit [of "''+00:00''" "''Z''"]
  by (simp add: format_utc_def to_utc_def instant_def iso_offset_0 is_digit_def code_def
      py_replace_skip iso_wall_chars del: py_replace.simps)

text \<open>Reading back what \<open>_format_datetime\<close> wrote gives the same instant, in UTC.\<close>

lemma parse_z_format_utc:
  assumes "dt_ok d" and "\<not> tzinfo_None d"
  shows "parse_z (format_utc d) = Inr (to_utc d)"
proof (cases d)
  case (Aware w off)
  define u where "u = w - off * minute_us"
  have "parse_z (format_utc d) = fromisoformat (isoformat (Aware u 0))"
    using py_replace_hit [of "''Z''" "''+00:00''"]
    by (simp add: parse_z_def Aware format_utc_eq py_replace_skip iso_wall_chars is_digit_def
        code_def iso_offset_0 flip: u_def del: py_replace.simps)
  also have "\<dots> = Inr (Aware u 0)"
    using assms by (intro fromisoformat_isoformat) (simp_all add: Aware dt_ok_def instant_def u_def)
  finally show ?thesis by (simp add: Aware to_utc_def instant_def u_def)
qed (use assms in simp)

section \<open>Order of the texts\<close>

lemma lex_base:
  fixes a b x y k :: int
  assumes "0 \<le> x" "x < k" "0 \<le> y" "y < k"
  shows "a * k + x < b * k + y \<longleftrightarrow> a < b \<or> a = b \<and> x < y"
    and "a * k + x = b * k + y \<longleftrightarrow> a = b \<and> x = y"
proof -
  have lt: "c * k + u < d * k + v" if "c < d" "u < k" "0 \<le> v" for c d u v
  proof -
    have "(c + 1) * k \<le> d * k" using that assms by (intro mult_right_mono) simp_all
    then show ?thesis using that by (simp add: distrib_right)
  qed
  show "a * k + x < b * k + y \<longleftrightarrow> a < b \<or> a = b \<and> x < y"
    using assms lt [of a b x y] lt [of b a y x] by (cases a b rule: linorder_cases) auto
  show "a * k + x = b * k + y \<longleftrightarrow> a = b \<and> x = y"
    using assms lt [of a b x y] lt [of b a y x] by (cases a b rule: linorder_cases) auto
qed

lemma wall_lex:
  fixes n t f n' t' f' :: int
  assumes "0 \<le> t" "t < 86400" "0 \<le> t'" "t' < 86400" "0 \<le> f" "f < 1000000" "0 \<le> f'" "f' < 1000000"
  shows "(n < n' \<or> n = n' \<and> (t < t' \<or> t = t' \<and> f < f')) \<longleftrightarrow>
    n * 86400000000 + t * 1000000 + f < n' * 86400000000 + t' * 1000000 + f'"
proof -
  have "0 \<le> t * 1000000 + f" "t * 1000000 + f < 86400000000"
    "0 \<le> t' * 1000000 + f'" "t' * 1000000 + f' < 86400000000" using assms by linarith+
  from lex_base(1) [OF this, of n n'] show ?thesis
    by (simp only: lex_base(1) [OF assms(5-8)] add.assoc)
qed

lemma seconds_lex:
  fixes h m s h' m' s' :: int
  assumes "0 \<le> m" "m < 60" "0 \<le> m'" "m' < 60" "0 \<le> s" "s < 60" "0 \<le> s'" "s' < 60"
  shows "(h < h' \<or> h = h' \<and> (m < m' \<or> m = m' \<and> s < s')) \<longleftrightarrow>
    3600 * h + 60 * m + s < 3600 * h' + 60 * m' + s'"
   and "(h = h' \<and> m = m' \<and> s = s') \<longleftrightarrow> 3600 * h + 60 * m + s = 3600 * h' + 60 * m' + s'"
proof -
  have e: "3600 * h + 60 * m + s = (h * 60 + m) * 60 + s" for h m s :: int by simp
  show "(h < h' \<or> h = h' \<and> (m < m' \<or> m = m' \<and> s < s')) \<longleftrightarrow>
    3600 * h + 60 * m + s < 3600 * h' + 60 * m' + s'"
    unfolding e lex_base [OF assms(5-8)] lex_base [OF assms(1-4)] by blast
  show "(h = h' \<and> m = m' \<and> s = s') \<longleftrightarrow> 3600 * h + 60 * m + s = 3600 * h' + 60 * m' + s'"
    unfolding e lex_base [OF assms(5-8)] lex_base [OF assms(1-4)] by blast
qed
lemma iso_date_less:
  assumes "valid_ymd a" and "valid_ymd b"
  shows "iso_date a < iso_date b \<longleftrightarrow> a < b" and "iso_date a = iso_date b \<longleftrightarrow> a = b"
    and "length (iso_date a) = 10"
proof -
  obtain y m d y' m' d' where ab: "a = (y, m, d)" "b = (y', m', d')"
    by (cases a, cases b) auto
  have dim: "days_in_month y m \<le> 31" "days_in_month y' m' \<le> 31"
    using assms leap_days_cases [of y] leap_days_cases [of y']
    by (auto simp: ab valid_ymd_def days_in_month_def days_before_month_def Let_def)
  have b: "nat y < 10 ^ 4" "nat m < 10 ^ 2" "nat d < 10 ^ 2"
     "nat y' < 10 ^ 4" "nat m' < 10 ^ 2" "nat d' < 10 ^ 2"
    and pos: "0 < y" "0 < m" "0 < d" "0 < y'" "0 < m'" "0 < d'"
    using assms dim by (simp_all add: ab valid_ymd_def nat_less_iff)
  show "iso_date a < iso_date b \<longleftrightarrow> a < b"
    using pos by (simp add: ab iso_date_def list_less_append pad_less [OF b(1,4)] pad_less [OF b(2,5)]
        pad_less [OF b(3,6)] pad_eq [OF b(1,4)] pad_eq [OF b(2,5)] order_le_less nat_eq_iff2) linarith
  show "iso_date a = iso_date b \<longleftrightarrow> a = b"
    using pos by (auto simp: ab iso_date_def pad_eq [OF b(1,4)] pad_eq [OF b(2,5)]
        pad_eq [OF b(3,6)] nat_eq_iff2)
  show "length (iso_date a) = 10" by (simp add: ab iso_date_def)
qed

lemma iso_seconds_less:
  assumes "0 \<le> t" "t < 86400" "0 \<le> u" "u < 86400"
  shows "iso_seconds t < iso_seconds u \<longleftrightarrow> t < u" and "iso_seconds t = iso_seconds u \<longleftrightarrow> t = u"
    and "length (iso_seconds t) = 8"
proof -
  define h m s h' m' s' where "h = t div 3600" and "m = t div 60 mod 60" and "s = t mod 60"
    and "h' = u div 3600" and "m' = u div 60 mod 60" and "s' = u mod 60"
  have eq: "3600 * h + 60 * m + s = t" "3600 * h' + 60 * m' + s' = u"
    unfolding h_def m_def s_def h'_def m'_def s'_def
    using assms by (simp_all only: seconds_split)
  have r: "0 \<le> m" "m < 60" "0 \<le> s" "s < 60" "0 \<le> m'" "m' < 60" "0 \<le> s'" "s' < 60"
    by (simp_all add: m_def s_def m'_def s'_def)
  have h: "0 \<le> h" "h < 24" "0 \<le> h'" "h' < 24" using assms by (simp_all add: h_def h'_def)
  have b: "nat h < 10 ^ 2" "nat m < 10 ^ 2" "nat s < 10 ^ 2"
    "nat h' < 10 ^ 2" "nat m' < 10 ^ 2" "nat s' < 10 ^ 2"
    using r h by (simp_all add: nat_less_iff)
  note ps = pad_less [OF b(1,4)] pad_less [OF b(2,5)] pad_less [OF b(3,6)]
    pad_eq [OF b(1,4)] pad_eq [OF b(2,5)] pad_eq [OF b(3,6)]
  have "iso_seconds t < iso_seconds u \<longleftrightarrow>
      h < h' \<or> h = h' \<and> (m < m' \<or> m = m' \<and> s < s')"
    unfolding iso_seconds_def h_def [symmetric] m_def [symmetric] s_def [symmetric]
      h'_def [symmetric] m'_def [symmetric] s'_def [symmetric]
    using r h by (auto simp: list_less_append ps nat_less_eq_zless nat_eq_iff2)
  also have "\<dots> \<longleftrightarrow> t < u" unfolding eq [symmetric] by (rule seconds_lex) (use r in simp_all)
  finally show "iso_seconds t < iso_seconds u \<longleftrightarrow> t < u" .
  have "iso_seconds t = iso_seconds u \<longleftrightarrow> h = h' \<and> m = m' \<and> s = s'"
    unfolding iso_seconds_def h_def [symmetric] m_def [symmetric] s_def [symmetric]
      h'_def [symmetric] m'_def [symmetric] s'_def [symmetric]
    using r h by (auto simp: ps nat_eq_iff2)
  also have "\<dots> \<longleftrightarrow> t = u" unfolding eq [symmetric] by (rule seconds_lex) (use r in simp_all)
  finally show "iso_seconds t = iso_seconds u \<longleftrightarrow> t = u" .
  show "length (iso_seconds t) = 8" by (simp add: iso_seconds_def)
qed

lemma iso_fraction_less:
  assumes "0 \<le> a" "a < 1000000" "0 \<le> b" "b < 1000000"
  shows "iso_fraction a @ iso_offset off < iso_fraction b @ iso_offset off \<longleftrightarrow> a < b"
proof -
  have n: "nat a < 10 ^ 6" "nat b < 10 ^ 6" using assms by (simp_all add: nat_less_iff)
  show ?thesis
    using assms pad_less [OF n] pad_eq [OF n]
    by (auto simp: iso_fraction_def iso_offset_def list_less_append)
qed

text \<open>At one UTC offset, the stored texts are ordered as the instants they denote.\<close>

lemma isoformat_less:
  assumes "dt_ok (Aware w off)" and "dt_ok (Aware w' off)"
  shows "isoformat (Aware w off) < isoformat (Aware w' off) \<longleftrightarrow> w < w'"
proof -
  have w: "0 \<le> w" "w < max_wall" and w': "0 \<le> w'" "w' < max_wall"
    using assms by (simp_all add: dt_ok_def)
  define n t f n' t' f' where "n = w div day_us" and "t = w mod day_us div 1000000"
    and "f = w mod 1000000" and "n' = w' div day_us" and "t' = w' mod day_us div 1000000"
    and "f' = w' mod 1000000"
  have p: "valid_ymd (ord2ymd (n + 1))" "1 \<le> n + 1" "n + 1 \<le> 3652059" "0 \<le> t" "t < 86400"
    using wall_parts [OF w] by (simp_all only: n_def t_def)
  have p': "valid_ymd (ord2ymd (n' + 1))" "1 \<le> n' + 1" "n' + 1 \<le> 3652059" "0 \<le> t'" "t' < 86400"
    using wall_parts [OF w'] by (simp_all only: n'_def t'_def)
  have f: "0 \<le> f" "f < 1000000" "0 \<le> f'" "f' < 1000000" by (simp_all add: f_def f'_def)
  have eq: "w = n * day_us + t * 1000000 + f" "w' = n' * day_us + t' * 1000000 + f'"
    unfolding n_def t_def f_def n'_def t'_def f'_def by (simp_all only: wall_split)
  note d = iso_date_less [OF p(1) p'(1)] iso_date_less(3) [OF p'(1) p(1)]
  note s = iso_seconds_less [OF p(4,5) p'(4,5)] iso_seconds_less(3) [OF p'(4,5) p(4,5)]
  have "ord2ymd (n + 1) = ord2ymd (n' + 1) \<longleftrightarrow> n = n'"
    by (metis add_right_cancel ord2ymd_inverse [OF p(2)] ord2ymd_inverse [OF p'(2)])
  then have "isoformat (Aware w off) < isoformat (Aware w' off) \<longleftrightarrow>
      n < n' \<or> n = n' \<and> (t < t' \<or> t = t' \<and> f < f')"
    unfolding isoformat.simps iso_wall_def n_def [symmetric] t_def [symmetric] f_def [symmetric]
      n'_def [symmetric] t'_def [symmetric] f'_def [symmetric]
    by (simp add: list_less_append d s iso_fraction_less [OF f] ord2ymd_mono [OF p(2,3) p'(2,3)])
      linarith
  also have "\<dots> \<longleftrightarrow> w < w'"
    unfolding eq day_us_def by (rule wall_lex) (use f p(4,5) p'(4,5) in simp_all)
  finally show ?thesis .
qed

lemma isoformat_le:
  assumes "dt_ok (Aware w off)" and "dt_ok (Aware w' off)"
  shows "isoformat (Aware w off) \<le> isoformat (Aware w' off) \<longleftrightarrow> w \<le> w'"
  using isoformat_less [OF assms(2,1)] by (simp add: not_less [symmetric])

end
