(* ===== verification/Json.thy ===== *)
theory Json
  imports PyTime
begin

text \<open>
  JSON documents and the reading helpers the dataclasses share: \<open>str()\<close>, \<open>int()\<close>,
  \<open>float()\<close> on decoded values, the strict readers \<open>_dict\<close>, \<open>_string_tuple\<close>,
  \<open>_string_set\<close>, \<open>_optional_str\<close>, \<open>_optional_int\<close>, \<open>_strict_bool\<close>,
  \<open>_format_datetime\<close>, \<open>_parse_datetime\<close>, and the schema-version guard. A decoded
  document is a tree; an object is an association list whose first binding of a key counts.
  Floats are exact rationals: the code only scales them by powers of two and compares them.

  Two interfaces are stated here as locales. \<open>str_enum\<close> is a \<open>StrEnum\<close>: an injective
  table of values, from which reading a member back follows. \<open>codec\<close> is a
  \<open>to_dict\<close>/\<open>from_dict\<close> pair: decoding an encoded well-formed value returns its normal
  form (timestamps in UTC, sets in sorted order), from which lists, optional fields,
  re-encoding and injectivity follow once for every class.
\<close>

datatype json =
    JNull
  | JBool bool
  | JInt int
  | JFloat rat
  | JStr string
  | JList "json list"
  | JObj "(string \<times> json) list"

type_synonym jobj = "(string \<times> json) list"

definition SCHEMA_VERSION :: string where
  "SCHEMA_VERSION = ''1.0.0''"

section \<open>Python conversions\<close>

fun show_nat :: "nat \<Rightarrow> string" where
  "show_nat n = (if n < 10 then [digit n] else show_nat (n div 10) @ [digit (n mod 10)])"

declare show_nat.simps [simp del]

definition show_int :: "int \<Rightarrow> string" where
  "show_int n = (if n < 0 then ''-'' else []) @ show_nat (nat \<bar>n\<bar>)"

fun fraction_digits :: "nat \<Rightarrow> rat \<Rightarrow> string" where
  "fraction_digits 0 r = []"
| "fraction_digits (Suc k) r =
     (if r = 0 then []
      else digit (nat \<lfloor>10 * r\<rfloor>) # fraction_digits k (10 * r - of_int \<lfloor>10 * r\<rfloor>))"

definition float_repr :: "rat \<Rightarrow> string" where
  "float_repr q = (let a = \<bar>q\<bar>; f = fraction_digits 17 (a - of_int \<lfloor>a\<rfloor>) in
     (if q < 0 then ''-'' else []) @ show_int \<lfloor>a\<rfloor> @ ''.'' @ (if f = [] then ''0'' else f))"

definition hex_digit :: "nat \<Rightarrow> char" where
  "hex_digit n = (if n < 10 then char_of (48 + n) else char_of (87 + n))"

definition repr_char :: "char \<Rightarrow> char \<Rightarrow> string" where
  "repr_char q c = (let n = code c; b = CHR 0x5C in
     if c = q \<or> c = b then [b, c]
     else if n = 10 then [b, CHR ''n''] else if n = 13 then [b, CHR ''r'']
     else if n = 9 then [b, CHR ''t'']
     else if n < 32 \<or> 127 \<le> n \<and> n \<le> 160 \<or> n = 173
       then [b, CHR ''x'', hex_digit (n div 16), hex_digit (n mod 16)]
     else [c])"

definition repr_str :: "string \<Rightarrow> string" where
  "repr_str s = (let q = (if CHR 0x27 \<in> set s \<and> CHR 0x22 \<notin> set s then CHR 0x22 else CHR 0x27)
     in [q] @ concat (map (repr_char q) s) @ [q])"

fun join :: "string \<Rightarrow> string list \<Rightarrow> string" where
  "join sep [] = []"
| "join sep [x] = x"
| "join sep (x # xs) = x @ sep @ join sep xs"

primrec py_repr :: "json \<Rightarrow> string" where
  "py_repr JNull = ''None''"
| "py_repr (JBool b) = (if b then ''True'' else ''False'')"
| "py_repr (JInt n) = show_int n"
| "py_repr (JFloat q) = float_repr q"
| "py_repr (JStr s) = repr_str s"
| "py_repr (JList xs) = ''['' @ join '', '' (map py_repr xs) @ '']''"
| "py_repr (JObj kvs) = ''{'' @
     join '', '' (map (\<lambda>(k, v). repr_str k @ '': '' @ v) (map (map_prod id py_repr) kvs)) @ ''}''"

definition py_str :: "json \<Rightarrow> string" where
  "py_str v = (case v of JStr s \<Rightarrow> s | _ \<Rightarrow> py_repr v)"

definition split_sign :: "string \<Rightarrow> bool \<times> string" where
  "split_sign s = (case s of [] \<Rightarrow> (False, [])
     | c # r \<Rightarrow> if c = CHR ''-'' then (True, r) else if c = CHR ''+'' then (False, r) else (False, s))"

definition digit_run :: "string \<Rightarrow> nat option" where
  \<comment> \<open>ASCII digits with single underscores between them\<close>
  "digit_run s = (let ds = filter (\<lambda>c. c \<noteq> CHR ''_'') s in
     if ds \<noteq> [] \<and> list_all is_digit ds \<and> hd s \<noteq> CHR ''_'' \<and> last s \<noteq> CHR ''_'' \<and>
        \<not> py_in ''__'' s
     then Some (num ds) else None)"

definition parse_int :: "string \<Rightarrow> int option" where
  "parse_int s = (let (neg, r) = split_sign (strip s) in
     map_option (\<lambda>n. if neg then - int n else int n) (digit_run r))"

definition split_at :: "(char \<Rightarrow> bool) \<Rightarrow> string \<Rightarrow> string \<times> string option" where
  "split_at P s = (let a = takeWhile (\<lambda>c. \<not> P c) s; r = dropWhile (\<lambda>c. \<not> P c) s in
     (a, case r of [] \<Rightarrow> None | _ # b \<Rightarrow> Some b))"

definition parse_float :: "string \<Rightarrow> rat option" where
  \<comment> \<open>finite decimal literals\<close>
  "parse_float s =
     (let (neg, r) = split_sign (strip s);
          (m, e) = split_at (\<lambda>c. c = CHR ''e'' \<or> c = CHR ''E'') r;
          (a, b) = split_at (\<lambda>c. c = CHR ''.'') m;
          frac = (case b of None \<Rightarrow> [] | Some f \<Rightarrow> f)
      in do {
        i \<leftarrow> (if a = [] then (if frac = [] then None else Some 0) else digit_run a);
        f \<leftarrow> (if frac = [] then Some 0 else digit_run frac);
        x \<leftarrow> (case e of None \<Rightarrow> Some 0 | Some es \<Rightarrow>
               (let (eneg, er) = split_sign es in
                map_option (\<lambda>n. if eneg then - int n else int n) (digit_run er)));
        (let q = of_nat i + of_nat f / 10 ^ length (filter is_digit frac);
             v = (if 0 \<le> x then q * 10 ^ nat x else q / 10 ^ nat (- x))
         in Some (if neg then - v else v))})"

definition py_int :: "json \<Rightarrow> int result" where
  "py_int v = (case v of
       JInt n \<Rightarrow> Inr n
     | JBool b \<Rightarrow> Inr (if b then 1 else 0)
     | JFloat q \<Rightarrow> Inr (if q < 0 then \<lceil>q\<rceil> else \<lfloor>q\<rfloor>)
     | JStr s \<Rightarrow> (case parse_int s of
           None \<Rightarrow> Inl (ValueError ''invalid literal for int() with base 10'') | Some n \<Rightarrow> Inr n)
     | _ \<Rightarrow> Inl (TypeError ''int() argument must be a string or a real number''))"

definition py_float :: "json \<Rightarrow> rat result" where
  "py_float v = (case v of
       JInt n \<Rightarrow> Inr (of_int n)
     | JBool b \<Rightarrow> Inr (if b then 1 else 0)
     | JFloat q \<Rightarrow> Inr q
     | JStr s \<Rightarrow> (case parse_float s of
           None \<Rightarrow> Inl (ValueError ''could not convert string to float'') | Some q \<Rightarrow> Inr q)
     | _ \<Rightarrow> Inl (TypeError ''float() argument must be a string or a real number''))"

section \<open>Reading objects\<close>

definition item :: "jobj \<Rightarrow> string \<Rightarrow> json result" where
  \<comment> \<open>\<open>value[k]\<close>\<close>
  "item d k = (case map_of d k of None \<Rightarrow> Inl (KeyError k) | Some v \<Rightarrow> Inr v)"

definition getd :: "jobj \<Rightarrow> string \<Rightarrow> json" where
  \<comment> \<open>\<open>value.get(k)\<close>\<close>
  "getd d k = (case map_of d k of None \<Rightarrow> JNull | Some v \<Rightarrow> v)"

definition getdef :: "jobj \<Rightarrow> string \<Rightarrow> json \<Rightarrow> json" where
  \<comment> \<open>\<open>value.get(k, default)\<close>\<close>
  "getdef d k v0 = (case map_of d k of None \<Rightarrow> v0 | Some v \<Rightarrow> v)"

definition str_item :: "jobj \<Rightarrow> string \<Rightarrow> string result" where
  \<comment> \<open>\<open>str(value[k])\<close>\<close>
  "str_item d k = rbind (item d k) (\<lambda>v. Inr (py_str v))"

definition require_schema :: "jobj \<Rightarrow> unit result" where
  "require_schema d = (if getd d ''schema_version'' = JStr SCHEMA_VERSION then Inr ()
     else Inl (ValueError ''unsupported or missing schema_version''))"

definition as_dict :: "string \<Rightarrow> json \<Rightarrow> jobj result" where
  "as_dict msg v = (case v of JObj d \<Rightarrow> Inr d | _ \<Rightarrow> Inl (ValueError msg))"

definition as_optional_str :: "json \<Rightarrow> string option" where
  "as_optional_str v = (case v of JNull \<Rightarrow> None | _ \<Rightarrow> Some (py_str v))"

fun is_JStr :: "json \<Rightarrow> bool" where
  "is_JStr (JStr s) = True"
| "is_JStr _ = False"

definition string_tuple :: "json \<Rightarrow> string \<Rightarrow> string list result" where
  "string_tuple v field = (case v of
       JList xs \<Rightarrow> if list_all is_JStr xs then Inr (map py_str xs)
         else Inl (ValueError (field @ '' must be a list of strings''))
     | _ \<Rightarrow> Inl (ValueError (field @ '' must be a list of strings'')))"

definition string_set :: "json \<Rightarrow> string \<Rightarrow> string fset result" where
  "string_set v field = rbind (string_tuple v field) (\<lambda>xs. Inr (fset_of_list xs))"

definition strict_bool :: "json \<Rightarrow> string \<Rightarrow> bool result" where
  "strict_bool v msg = (case v of JBool b \<Rightarrow> Inr b | _ \<Rightarrow> Inl (ValueError msg))"

definition optional_int :: "json \<Rightarrow> int option result" where
  "optional_int v = (case v of JNull \<Rightarrow> Inr None | JInt n \<Rightarrow> Inr (Some n)
     | _ \<Rightarrow> Inl (ValueError ''value must be an integer''))"

definition opt :: "('a \<Rightarrow> json) \<Rightarrow> 'a option \<Rightarrow> json" where
  "opt f v = (case v of None \<Rightarrow> JNull | Some x \<Rightarrow> f x)"

definition format_datetime :: "datetime option \<Rightarrow> json" where
  "format_datetime v = opt (\<lambda>d. JStr (format_utc d)) v"

definition parse_datetime :: "string \<Rightarrow> json \<Rightarrow> datetime option result" where
  "parse_datetime what v = (case v of
       JNull \<Rightarrow> Inr None
     | JStr s \<Rightarrow> rbind (parse_z s) (\<lambda>d.
         if tzinfo_None d then Inl (ValueError (what @ '' must be timezone-aware''))
         else Inr (Some d))
     | _ \<Rightarrow> Inl (ValueError (what @ '' must be an ISO 8601 string'')))"

definition required_datetime :: "string \<Rightarrow> json \<Rightarrow> datetime result" where
  "required_datetime field v = rbind (parse_datetime ''timestamp'' v) (\<lambda>d.
     case d of None \<Rightarrow> Inl (ValueError (field @ '' is required'')) | Some d \<Rightarrow> Inr d)"

definition optional_model :: "string \<Rightarrow> (jobj \<Rightarrow> 'a result) \<Rightarrow> json \<Rightarrow> 'a option result" where
  "optional_model msg loader v = (case v of JNull \<Rightarrow> Inr None
     | _ \<Rightarrow> rbind (as_dict msg v) (\<lambda>d. rbind (loader d) (\<lambda>x. Inr (Some x))))"

definition strs :: "string list \<Rightarrow> json" where
  "strs xs = JList (map JStr xs)"

definition enum_of :: "'a list \<Rightarrow> ('a \<Rightarrow> string) \<Rightarrow> json \<Rightarrow> 'a result" where
  \<comment> \<open>\<open>SomeStrEnum(value)\<close>\<close>
  "enum_of members val v = (case v of
       JStr s \<Rightarrow> (case find (\<lambda>x. val x = s) members of
           None \<Rightarrow> Inl (ValueError (repr_str s @ '' is not a valid member'')) | Some x \<Rightarrow> Inr x)
     | _ \<Rightarrow> Inl (ValueError (py_repr v @ '' is not a valid member'')))"

definition optional_enum :: "(json \<Rightarrow> 'a result) \<Rightarrow> json \<Rightarrow> 'a option result" where
  "optional_enum f v = (case v of JNull \<Rightarrow> Inr None | _ \<Rightarrow> rbind (f v) (\<lambda>x. Inr (Some x)))"

section \<open>Lemmas on the readers\<close>

lemma py_str_JStr [simp, codec_simps]: "py_str (JStr s) = s"
  by (simp add: py_str_def)

lemma item_simps [simp, codec_simps]:
  "item ((k, v) # d) k = Inr v"
  "k' \<noteq> k \<Longrightarrow> item ((k', v) # d) k = item d k"
  by (simp_all add: item_def)

lemma str_item_simps [simp, codec_simps]:
  "str_item ((k, v) # d) k = Inr (py_str v)"
  "k' \<noteq> k \<Longrightarrow> str_item ((k', v) # d) k = str_item d k"
  by (simp_all add: str_item_def)

lemma getd_simps [simp, codec_simps]:
  "getd ((k, v) # d) k = v"
  "k' \<noteq> k \<Longrightarrow> getd ((k', v) # d) k = getd d k"
  "getd [] k = JNull"
  by (simp_all add: getd_def)

lemma getdef_simps [simp, codec_simps]:
  "getdef ((k, v) # d) k v0 = v"
  "k' \<noteq> k \<Longrightarrow> getdef ((k', v) # d) k v0 = getdef d k v0"
  "getdef [] k v0 = v0"
  by (simp_all add: getdef_def)

lemma opt_simps [simp, codec_simps]: "opt f None = JNull" "opt f (Some x) = f x"
  by (simp_all add: opt_def)

lemma as_dict_JObj [simp, codec_simps]: "as_dict msg (JObj d) = Inr d"
  by (simp add: as_dict_def)

lemma as_optional_str_opt [simp, codec_simps]: "as_optional_str (opt JStr v) = v"
  by (cases v) (simp_all add: as_optional_str_def)

lemma string_tuple_strs [simp, codec_simps]: "string_tuple (strs xs) field = Inr xs"
  by (simp add: string_tuple_def strs_def list.pred_map comp_def list_all_iff)

lemma string_set_sorted [simp, codec_simps]:
  "string_set (strs (sorted_list_of_fset s)) field = Inr s"
  by (simp add: string_set_def)

lemma strict_bool_JBool [simp, codec_simps]: "strict_bool (JBool b) msg = Inr b"
  by (simp add: strict_bool_def)

lemma optional_int_opt [simp, codec_simps]: "optional_int (opt JInt v) = Inr v"
  by (cases v) (simp_all add: optional_int_def)

lemma py_int_JInt [simp, codec_simps]: "py_int (JInt n) = Inr n"
  by (simp add: py_int_def)

lemma py_float_JFloat [simp, codec_simps]: "py_float (JFloat q) = Inr q"
  by (simp add: py_float_def)

lemma tzinfo_to_utc [simp]: "tzinfo_None (to_utc d) = tzinfo_None d"
  by (simp add: to_utc_def)

lemma instant_to_utc [simp]: "instant (to_utc d) = instant d"
  by (simp add: to_utc_def instant_def)

lemma to_utc_idem [simp]: "to_utc (to_utc d) = to_utc d"
  unfolding to_utc_def by (simp add: instant_def)

lemma dt_ok_to_utc [simp]: "dt_ok d \<Longrightarrow> dt_ok (to_utc d)"
  unfolding to_utc_def by (auto simp: dt_ok_def instant_def)

lemma dt_eq_to_utc [simp]: "dt_eq (to_utc d) d"
  by (simp add: dt_eq_def)

lemma format_utc_to_utc [simp]: "format_utc (to_utc d) = format_utc d"
  by (simp add: format_utc_def)

text \<open>A stamp is an aware, representable datetime: what every timestamp field must be.\<close>

definition stamp :: "datetime \<Rightarrow> bool" where
  "stamp d = (dt_ok d \<and> \<not> tzinfo_None d)"

definition opt_stamp :: "datetime option \<Rightarrow> bool" where
  "opt_stamp v = (case v of None \<Rightarrow> True | Some d \<Rightarrow> stamp d)"

lemma stamp_to_utc [simp]: "stamp d \<Longrightarrow> stamp (to_utc d)"
  by (simp add: stamp_def)

lemma fromisoformat_stamp [simp]: "stamp d \<Longrightarrow> fromisoformat (isoformat d) = Inr d"
  by (simp add: stamp_def dt_ok_def fromisoformat_isoformat)

lemma opt_stamp_simps [simp]: "opt_stamp None" "opt_stamp (Some d) = stamp d"
  by (simp_all add: opt_stamp_def)

lemma opt_stamp_to_utc [simp]: "opt_stamp v \<Longrightarrow> opt_stamp (map_option to_utc v)"
  by (cases v) simp_all

lemma map_option_to_utc_idem [simp]:
  "map_option to_utc (map_option to_utc v) = map_option to_utc v"
  by (cases v) simp_all

lemma format_datetime_to_utc [simp]: "format_datetime (map_option to_utc v) = format_datetime v"
  by (cases v) (simp_all add: format_datetime_def)

lemma format_datetime_Some_to_utc [simp]:
  "format_datetime (Some (to_utc d)) = format_datetime (Some d)"
  by (simp add: format_datetime_def)

lemma parse_format_datetime [simp, codec_simps]:
  "opt_stamp v \<Longrightarrow> parse_datetime what (format_datetime v) = Inr (map_option to_utc v)"
  by (cases v) (simp_all add: parse_datetime_def format_datetime_def parse_z_format_utc stamp_def)

lemma required_format_datetime [simp, codec_simps]:
  "stamp d \<Longrightarrow> required_datetime field (format_datetime (Some d)) = Inr (to_utc d)"
  by (simp add: required_datetime_def)

lemma require_schema_ok [simp, codec_simps]:
  "require_schema ((''schema_version'', JStr SCHEMA_VERSION) # d) = Inr ()"
  by (simp add: require_schema_def)

section \<open>Interfaces\<close>

locale str_enum =
  fixes members :: "'a list" and val :: "'a \<Rightarrow> string"
  assumes complete: "x \<in> set members"
    and values_distinct: "distinct (map val members)"
begin

lemma val_inj: "val x = val y \<Longrightarrow> x = y"
  using values_distinct complete by (auto simp: distinct_map dest: inj_onD)

lemma find_val: "find (\<lambda>y. val y = val x) members = Some x"
proof -
  have "find (\<lambda>y. val y = val x) members \<noteq> None"
    using complete [of x] by (auto simp: find_None_iff)
  then obtain y where y: "find (\<lambda>y. val y = val x) members = Some y" by auto
  then have "val y = val x" by (auto simp: find_Some_iff)
  with y show ?thesis by (auto dest: val_inj)
qed

lemma of_val: "enum_of members val (JStr (val x)) = Inr x"
  by (simp add: enum_of_def find_val)

lemma optional_of_val:
  "optional_enum (enum_of members val) (opt (\<lambda>x. JStr (val x)) v) = Inr v"
  by (cases v) (simp_all add: optional_enum_def of_val)

lemma of_Inr_iff: "enum_of members val v = Inr x \<longleftrightarrow> v = JStr (val x)"
  by (auto simp: enum_of_def of_val find_val find_Some_iff split: json.splits option.splits
      dest: val_inj)

end

locale codec =
  fixes enc :: "'a \<Rightarrow> jobj" and dec :: "jobj \<Rightarrow> 'a result"
    and wf :: "'a \<Rightarrow> bool" and norm :: "'a \<Rightarrow> 'a"
  assumes dec_enc: "wf x \<Longrightarrow> dec (enc x) = Inr (norm x)"
    and wf_norm: "wf x \<Longrightarrow> wf (norm x)"
    and enc_norm: "wf x \<Longrightarrow> enc (norm x) = enc x"
begin

lemma norm_idem: "wf x \<Longrightarrow> norm (norm x) = norm x"
  using dec_enc [of x] dec_enc [of "norm x"] by (simp add: wf_norm enc_norm)

lemma dec_dict: "wf x \<Longrightarrow> rbind (as_dict msg (JObj (enc x))) dec = Inr (norm x)"
  by (simp add: dec_enc)

lemma dec_option:
  "(\<And>x. v = Some x \<Longrightarrow> wf x) \<Longrightarrow>
     optional_model msg dec (opt (\<lambda>x. JObj (enc x)) v) = Inr (map_option norm v)"
  by (cases v) (simp_all add: optional_model_def dec_enc)

lemma dec_list:
  "(\<And>x. x \<in> set xs \<Longrightarrow> wf x) \<Longrightarrow>
     traverse (\<lambda>v. rbind (as_dict msg v) dec) (map (\<lambda>x. JObj (enc x)) xs) = Inr (map norm xs)"
  by (simp add: traverse_map dec_enc comp_def traverse_Inr)

lemma reencode: "wf x \<Longrightarrow> rbind (dec (enc x)) (\<lambda>y. Inr (enc y)) = Inr (enc x)"
  by (simp add: dec_enc enc_norm)

lemma enc_inj: "wf x \<Longrightarrow> wf y \<Longrightarrow> enc x = enc y \<Longrightarrow> norm x = norm y"
  using dec_enc [of x] dec_enc [of y] by simp

end

end
