(* ===== verification/Security.thy ===== *)
theory Security
  imports Json
begin

text \<open>
  \<open>src/edn/core/security.py\<close>: durable identifiers, security domains, purposes,
  classifications and the authenticated principal. Equality of domains, purposes and
  classifications ignores the descriptive fields the dataclasses declare with
  \<open>compare=False\<close>; a frozenset of domains is a list without two equal members, in the
  order the set iterates. The principal's \<open>allows_domain\<close> is the tenant boundary all
  later components rely on.
\<close>

section \<open>Identifiers\<close>

definition identifier_char :: "char \<Rightarrow> bool" where
  "identifier_char c = (is_alnum c \<or> c \<in> set ''._:-'')"

definition identifier_match :: "string \<Rightarrow> bool" where
  \<comment> \<open>\<open>_IDENTIFIER.fullmatch\<close>\<close>
  "identifier_match s = (case s of [] \<Rightarrow> False
     | c # r \<Rightarrow> is_alnum c \<and> list_all identifier_char r \<and> length r \<le> 127)"

definition valid_identifier :: "string \<Rightarrow> bool" where
  "valid_identifier s = (identifier_match s \<and>
     \<not> (py_in ''::'' s \<or> last s = CHR ''.'' \<or> last s = CHR '':''))"

definition validate_identifier :: "string \<Rightarrow> string \<Rightarrow> check" where
  "validate_identifier s field =
     require (valid_identifier s) (field @ '' is not a valid durable identifier'')"

definition optional_identifier :: "string option \<Rightarrow> string \<Rightarrow> check" where
  "optional_identifier v field = when_some v (\<lambda>s. validate_identifier s field)"

definition not_blank :: "string \<Rightarrow> string \<Rightarrow> check" where
  "not_blank s field = require (\<not> blank s) (field @ '' must not be blank'')"

definition validate_list :: "string list \<Rightarrow> string \<Rightarrow> check" where
  \<comment> \<open>\<open>for v in values: validate_identifier(v, field)\<close> over a tuple\<close>
  "validate_list xs field = check_all xs (\<lambda>v. validate_identifier v field)"

definition validate_set :: "string fset \<Rightarrow> string \<Rightarrow> check" where
  \<comment> \<open>the same over a frozenset: the message does not depend on the iteration order\<close>
  "validate_set xs field = require (fBall xs valid_identifier)
     (field @ '' is not a valid durable identifier'')"

section \<open>Security domains\<close>

record SecurityDomain =
  sd_domain_id :: string
  sd_label :: string
  sd_tenant_id :: "string option"
  sd_owner_id :: "string option"

definition SecurityDomain_eq :: "SecurityDomain \<Rightarrow> SecurityDomain \<Rightarrow> bool" where
  "SecurityDomain_eq a b = (sd_domain_id a = sd_domain_id b \<and> sd_tenant_id a = sd_tenant_id b)"

definition domain_key :: "SecurityDomain \<Rightarrow> string \<times> string option" where
  "domain_key d = (sd_domain_id d, sd_tenant_id d)"

definition SecurityDomain_checks :: "SecurityDomain \<Rightarrow> check list" where
  "SecurityDomain_checks d =
     [validate_identifier (sd_domain_id d) ''domain_id'',
      not_blank (sd_label d) ''label'',
      optional_identifier (sd_tenant_id d) ''tenant_id'',
      optional_identifier (sd_owner_id d) ''owner_id'']"

definition SecurityDomain_init :: "SecurityDomain \<Rightarrow> SecurityDomain result" where
  "SecurityDomain_init d = construct (SecurityDomain_checks d) d"

definition SecurityDomain_scoped ::
  "string \<Rightarrow> string \<Rightarrow> string \<Rightarrow> string \<Rightarrow> string option \<Rightarrow> SecurityDomain result" where
  "SecurityDomain_scoped namespace stable_id label tenant_id owner_id =
     rbind (construct [validate_identifier namespace ''namespace'',
                       validate_identifier stable_id ''stable_id''] ())
       (\<lambda>_. SecurityDomain_init
         \<lparr>sd_domain_id = namespace @ '':'' @ stable_id, sd_label = label,
          sd_tenant_id = Some tenant_id, sd_owner_id = owner_id\<rparr>)"

definition SecurityDomain_to_dict :: "SecurityDomain \<Rightarrow> jobj" where
  "SecurityDomain_to_dict d =
     [(''schema_version'', JStr SCHEMA_VERSION),
      (''domain_id'', JStr (sd_domain_id d)),
      (''label'', JStr (sd_label d)),
      (''tenant_id'', opt JStr (sd_tenant_id d)),
      (''owner_id'', opt JStr (sd_owner_id d))]"

definition SecurityDomain_from_dict :: "jobj \<Rightarrow> SecurityDomain result" where
  "SecurityDomain_from_dict v =
     rbind (require_schema v) (\<lambda>_.
     rbind (str_item v ''domain_id'') (\<lambda>domain_id.
     rbind (str_item v ''label'') (\<lambda>label.
     SecurityDomain_init
       \<lparr>sd_domain_id = domain_id, sd_label = label,
        sd_tenant_id = as_optional_str (getd v ''tenant_id''),
        sd_owner_id = as_optional_str (getd v ''owner_id'')\<rparr>)))"

section \<open>Purposes and classifications\<close>

record Purpose =
  pu_purpose_id :: string
  pu_description :: string

definition Purpose_eq :: "Purpose \<Rightarrow> Purpose \<Rightarrow> bool" where
  "Purpose_eq a b = (pu_purpose_id a = pu_purpose_id b)"

definition Purpose_init :: "Purpose \<Rightarrow> Purpose result" where
  "Purpose_init p = construct
     [validate_identifier (pu_purpose_id p) ''purpose_id'',
      not_blank (pu_description p) ''description''] p"

definition Purpose_to_dict :: "Purpose \<Rightarrow> jobj" where
  "Purpose_to_dict p =
     [(''schema_version'', JStr SCHEMA_VERSION),
      (''purpose_id'', JStr (pu_purpose_id p)),
      (''description'', JStr (pu_description p))]"

definition Purpose_from_dict :: "jobj \<Rightarrow> Purpose result" where
  "Purpose_from_dict v =
     rbind (require_schema v) (\<lambda>_.
     rbind (str_item v ''purpose_id'') (\<lambda>purpose_id.
     rbind (str_item v ''description'') (\<lambda>description.
     Purpose_init \<lparr>pu_purpose_id = purpose_id, pu_description = description\<rparr>)))"

record Classification =
  cl_scheme_id :: string
  cl_level_id :: string
  cl_display_name :: string
  cl_rank :: "int option"

definition Classification_eq :: "Classification \<Rightarrow> Classification \<Rightarrow> bool" where
  "Classification_eq a b = (cl_scheme_id a = cl_scheme_id b \<and> cl_level_id a = cl_level_id b)"

definition Classification_init :: "Classification \<Rightarrow> Classification result" where
  "Classification_init c = construct
     [validate_identifier (cl_scheme_id c) ''scheme_id'',
      validate_identifier (cl_level_id c) ''level_id'',
      not_blank (cl_display_name c) ''display_name'',
      when_some (cl_rank c) (\<lambda>r. require (0 \<le> r) ''rank must not be negative'')] c"

definition Classification_to_dict :: "Classification \<Rightarrow> jobj" where
  "Classification_to_dict c =
     [(''schema_version'', JStr SCHEMA_VERSION),
      (''scheme_id'', JStr (cl_scheme_id c)),
      (''level_id'', JStr (cl_level_id c)),
      (''display_name'', JStr (cl_display_name c)),
      (''rank'', opt JInt (cl_rank c))]"

definition Classification_from_dict :: "jobj \<Rightarrow> Classification result" where
  "Classification_from_dict v =
     rbind (require_schema v) (\<lambda>_.
     rbind (str_item v ''scheme_id'') (\<lambda>scheme_id.
     rbind (str_item v ''level_id'') (\<lambda>level_id.
     rbind (str_item v ''display_name'') (\<lambda>display_name.
     rbind (case getd v ''rank'' of JNull \<Rightarrow> Inr None
              | r \<Rightarrow> rbind (py_int r) (\<lambda>n. Inr (Some n))) (\<lambda>rank.
     Classification_init
       \<lparr>cl_scheme_id = scheme_id, cl_level_id = level_id, cl_display_name = display_name,
        cl_rank = rank\<rparr>)))))"

section \<open>Principals\<close>

record PrincipalContext =
  pc_principal_id :: string
  pc_tenant_id :: string
  pc_active_domains :: "SecurityDomain list"
  pc_authenticated :: bool
  pc_principal_kind :: string
  pc_delegated_by :: "string option"

definition tenant_admits :: "string \<Rightarrow> SecurityDomain \<Rightarrow> bool" where
  \<comment> \<open>\<open>domain.tenant_id in (None, tenant_id)\<close>\<close>
  "tenant_admits tenant d = (sd_tenant_id d = None \<or> sd_tenant_id d = Some tenant)"

definition PrincipalContext_eq :: "PrincipalContext \<Rightarrow> PrincipalContext \<Rightarrow> bool" where
  "PrincipalContext_eq a b =
     (pc_principal_id a = pc_principal_id b \<and> pc_tenant_id a = pc_tenant_id b \<and>
      set (map domain_key (pc_active_domains a)) = set (map domain_key (pc_active_domains b)) \<and>
      pc_authenticated a = pc_authenticated b \<and> pc_principal_kind a = pc_principal_kind b \<and>
      pc_delegated_by a = pc_delegated_by b)"

definition PrincipalContext_init :: "PrincipalContext \<Rightarrow> PrincipalContext result" where
  "PrincipalContext_init p = construct
     [validate_identifier (pc_principal_id p) ''principal_id'',
      validate_identifier (pc_tenant_id p) ''tenant_id'',
      validate_identifier (pc_principal_kind p) ''principal_kind'',
      optional_identifier (pc_delegated_by p) ''delegated_by'',
      require (pc_authenticated p) ''principal context must be authenticated'',
      require (pc_active_domains p \<noteq> []) ''active_domains must not be empty'',
      require (list_all (tenant_admits (pc_tenant_id p)) (pc_active_domains p))
        ''active domain belongs to another tenant'',
      require (pc_delegated_by p \<noteq> Some (pc_principal_id p))
        ''principal cannot delegate to itself''] p"

definition allows_domain :: "PrincipalContext \<Rightarrow> SecurityDomain \<Rightarrow> bool" where
  "allows_domain p d =
     (if \<not> tenant_admits (pc_tenant_id p) d then False
      else list_ex (SecurityDomain_eq d) (pc_active_domains p))"

definition PrincipalContext_to_dict :: "PrincipalContext \<Rightarrow> jobj" where
  "PrincipalContext_to_dict p =
     [(''schema_version'', JStr SCHEMA_VERSION),
      (''principal_id'', JStr (pc_principal_id p)),
      (''tenant_id'', JStr (pc_tenant_id p)),
      (''active_domains'', JList (map (\<lambda>d. JObj (SecurityDomain_to_dict d))
         (sort_key sd_domain_id (pc_active_domains p)))),
      (''authenticated'', JBool (pc_authenticated p)),
      (''principal_kind'', JStr (pc_principal_kind p)),
      (''delegated_by'', opt JStr (pc_delegated_by p))]"

definition domain_item :: "json \<Rightarrow> SecurityDomain result" where
  "domain_item i = (case i of JObj d \<Rightarrow> SecurityDomain_from_dict d
     | _ \<Rightarrow> Inl (AttributeError ''get''))"

definition PrincipalContext_from_dict :: "jobj \<Rightarrow> PrincipalContext result" where
  "PrincipalContext_from_dict v =
     rbind (require_schema v) (\<lambda>_.
     rbind (case getd v ''active_domains'' of JList xs \<Rightarrow> Inr xs
              | _ \<Rightarrow> Inl (ValueError ''active_domains must be a list'')) (\<lambda>domains.
     rbind (str_item v ''principal_id'') (\<lambda>principal_id.
     rbind (str_item v ''tenant_id'') (\<lambda>tenant_id.
     rbind (traverse domain_item domains) (\<lambda>ds.
     PrincipalContext_init
       \<lparr>pc_principal_id = principal_id, pc_tenant_id = tenant_id,
        pc_active_domains = nub_by SecurityDomain_eq ds,
        pc_authenticated = (getd v ''authenticated'' = JBool True),
        pc_principal_kind = py_str (getdef v ''principal_kind'' (JStr ''person'')),
        pc_delegated_by = as_optional_str (getd v ''delegated_by'')\<rparr>)))))"

section \<open>Well-formed values\<close>

definition SecurityDomain_wf :: "SecurityDomain \<Rightarrow> bool" where
  "SecurityDomain_wf d = returns (SecurityDomain_init d)"

definition Purpose_wf :: "Purpose \<Rightarrow> bool" where
  "Purpose_wf p = returns (Purpose_init p)"

definition Classification_wf :: "Classification \<Rightarrow> bool" where
  "Classification_wf c = returns (Classification_init c)"

definition PrincipalContext_wf :: "PrincipalContext \<Rightarrow> bool" where
  "PrincipalContext_wf p =
     (returns (PrincipalContext_init p) \<and> list_all SecurityDomain_wf (pc_active_domains p) \<and>
      distinct (map domain_key (pc_active_domains p)))"

definition PrincipalContext_norm :: "PrincipalContext \<Rightarrow> PrincipalContext" where
  "PrincipalContext_norm p =
     p\<lparr>pc_active_domains := sort_key sd_domain_id (pc_active_domains p)\<rparr>"

section \<open>Lemmas\<close>

lemma validate_identifier_None [check_simps]:
  "validate_identifier s field = None \<longleftrightarrow> valid_identifier s"
  by (simp add: validate_identifier_def check_simps)

lemma optional_identifier_None [check_simps]:
  "optional_identifier v field = None \<longleftrightarrow> (\<forall>s. v = Some s \<longrightarrow> valid_identifier s)"
  by (simp add: optional_identifier_def check_simps)

lemma not_blank_None [check_simps]: "not_blank s field = None \<longleftrightarrow> \<not> blank s"
  by (simp add: not_blank_def check_simps)

lemma validate_list_None [check_simps]:
  "validate_list xs field = None \<longleftrightarrow> list_all valid_identifier xs"
  by (auto simp: validate_list_def check_simps list_all_iff)

lemma validate_set_None [check_simps]:
  "validate_set xs field = None \<longleftrightarrow> fBall xs valid_identifier"
  by (simp add: validate_set_def check_simps)

lemma alnum_not_space: "is_alnum c \<Longrightarrow> \<not> py_space c"
  by (auto simp: is_alnum_def is_digit_def py_space_def Let_def)

lemma identifier_bounds: "valid_identifier s \<Longrightarrow> 1 \<le> length s \<and> length s \<le> 128"
  by (auto simp: valid_identifier_def identifier_match_def split: list.splits)

lemma valid_identifier_not_blank: "valid_identifier s \<Longrightarrow> \<not> blank s"
  by (auto simp: valid_identifier_def identifier_match_def alnum_not_space split: list.splits)

lemma identifier_single_line: "valid_identifier s \<Longrightarrow> \<not> multiline s"
proof -
  have "\<not> identifier_char (CHR 0x0D)" "\<not> identifier_char (CHR 0x0A)"
    by (simp_all add: identifier_char_def is_alnum_def is_digit_def code_def)
  moreover assume "valid_identifier s"
  then have "\<forall>c \<in> set s. identifier_char c"
    by (auto simp: valid_identifier_def identifier_match_def identifier_char_def list_all_iff
        split: list.splits)
  ultimately show ?thesis by (auto simp: multiline_def)
qed

text \<open>Joining two identifiers by a colon creates no \<open>::\<close>.\<close>

lemma double_colon_join:
  assumes "py_in ''::'' (a @ CHR '':'' # b)" "a \<noteq> []" "last a \<noteq> CHR '':''"
    and "b \<noteq> []" "hd b \<noteq> CHR '':''"
  shows "py_in ''::'' a \<or> py_in ''::'' b"
  using assms
proof (induction a)
  case (Cons c a)
  show ?case
  proof (cases "a = []")
    case True
    with Cons.prems show ?thesis by (cases b) auto
  next
    case False
    then obtain d a' where a: "a = d # a'" by (cases a) auto
    from Cons.prems(1) consider "prefix ''::'' (c # d # a')" | "py_in ''::'' (a @ CHR '':'' # b)"
      by (auto simp: a)
    then show ?thesis
    proof cases
      case 1
      then have "py_in ''::'' (c # a)" unfolding a by (simp only: py_in.simps simp_thms)
      then show ?thesis ..
    next
      case 2
      then have "py_in ''::'' a \<or> py_in ''::'' b"
        using Cons.prems False by (intro Cons.IH) simp_all
      then show ?thesis by auto
    qed
  qed
qed simp

lemma valid_join:
  assumes "valid_identifier a" and "valid_identifier b"
  shows "valid_identifier (a @ '':'' @ b) \<longleftrightarrow> length a + length b \<le> 127"
proof -
  obtain c r where a: "a = c # r" "is_alnum c" "list_all identifier_char r"
    using assms(1) by (auto simp: valid_identifier_def identifier_match_def split: list.splits)
  obtain d q where b: "b = d # q" "is_alnum d" "list_all identifier_char q"
    using assms(2) by (auto simp: valid_identifier_def identifier_match_def split: list.splits)
  have ne: "a \<noteq> []" "b \<noteq> []" "hd b \<noteq> CHR '':''"
    using a b(1,2) by (auto simp: is_alnum_def is_digit_def code_def)
  have "last a \<noteq> CHR '':''" "\<not> py_in ''::'' a" "\<not> py_in ''::'' b"
    using assms by (simp_all add: valid_identifier_def)
  then have "\<not> py_in ''::'' (a @ '':'' @ b)"
    using double_colon_join [of a b] ne by (auto simp del: py_in.simps)
  moreover have "last (a @ '':'' @ b) = last b" using b by simp
  moreover have "identifier_match (a @ '':'' @ b) \<longleftrightarrow> length a + length b \<le> 127"
    using a b by (simp add: identifier_match_def identifier_char_def)
  ultimately show ?thesis
    using assms(2) by (simp add: valid_identifier_def)
qed

lemma SecurityDomain_eq_key: "SecurityDomain_eq a b \<longleftrightarrow> domain_key a = domain_key b"
  by (simp add: SecurityDomain_eq_def domain_key_def)

lemma allows_domain_iff:
  "allows_domain p d \<longleftrightarrow>
     tenant_admits (pc_tenant_id p) d \<and> domain_key d \<in> domain_key ` set (pc_active_domains p)"
  by (auto simp: allows_domain_def list_ex_iff SecurityDomain_eq_key)

lemma tenant_admits_key: "domain_key d = domain_key e \<Longrightarrow> tenant_admits t d = tenant_admits t e"
  by (simp add: domain_key_def tenant_admits_def)

lemma PrincipalContext_init_iff:
  "returns (PrincipalContext_init p) \<longleftrightarrow>
     valid_identifier (pc_principal_id p) \<and> valid_identifier (pc_tenant_id p) \<and>
     valid_identifier (pc_principal_kind p) \<and>
     (\<forall>s. pc_delegated_by p = Some s \<longrightarrow> valid_identifier s) \<and> pc_authenticated p \<and>
     pc_active_domains p \<noteq> [] \<and> list_all (tenant_admits (pc_tenant_id p)) (pc_active_domains p) \<and>
     pc_delegated_by p \<noteq> Some (pc_principal_id p)"
  by (simp add: PrincipalContext_init_def check_simps)

lemma returns_ok: "returns r \<longleftrightarrow> (\<exists>x. r = Inr x)"
  by (cases r) simp_all

lemma construct_returns: "returns (construct cs x) \<Longrightarrow> construct cs x = Inr x"
  by (simp add: construct_def split: option.splits)

interpretation sd: codec SecurityDomain_to_dict SecurityDomain_from_dict SecurityDomain_wf id
proof unfold_locales
  fix x :: SecurityDomain
  assume "SecurityDomain_wf x"
  then have "SecurityDomain_init x = Inr x"
    by (simp add: SecurityDomain_wf_def SecurityDomain_init_def construct_returns)
  then show "SecurityDomain_from_dict (SecurityDomain_to_dict x) = Inr (id x)"
    by (cases x) (simp add: SecurityDomain_from_dict_def SecurityDomain_to_dict_def str_item_def)
qed simp_all

interpretation pu: codec Purpose_to_dict Purpose_from_dict Purpose_wf id
proof unfold_locales
  fix x :: Purpose
  assume "Purpose_wf x"
  then have "Purpose_init x = Inr x"
    by (simp add: Purpose_wf_def Purpose_init_def construct_returns)
  then show "Purpose_from_dict (Purpose_to_dict x) = Inr (id x)"
    by (cases x) (simp add: Purpose_from_dict_def Purpose_to_dict_def str_item_def)
qed simp_all

interpretation cl: codec Classification_to_dict Classification_from_dict Classification_wf id
proof unfold_locales
  fix x :: Classification
  assume "Classification_wf x"
  then have "Classification_init x = Inr x"
    by (simp add: Classification_wf_def Classification_init_def construct_returns)
  moreover have "(case opt JInt v of JNull \<Rightarrow> Inr None
      | r \<Rightarrow> rbind (py_int r) (\<lambda>n. Inr (Some n))) = Inr v" for v
    by (cases v) simp_all
  ultimately show "Classification_from_dict (Classification_to_dict x) = Inr (id x)"
    by (cases x) (simp add: Classification_from_dict_def Classification_to_dict_def str_item_def)
qed simp_all

lemma PrincipalContext_wf_norm: "PrincipalContext_wf p \<Longrightarrow> PrincipalContext_wf (PrincipalContext_norm p)"
  by (auto simp: PrincipalContext_wf_def PrincipalContext_init_iff PrincipalContext_norm_def
      list_all_iff distinct_map_sort_key)

lemma traverse_domains:
  "list_all SecurityDomain_wf ds \<Longrightarrow>
     traverse domain_item (map (\<lambda>d. JObj (SecurityDomain_to_dict d)) ds) = Inr ds"
  using traverse_Inr [of ds "\<lambda>d. SecurityDomain_from_dict (SecurityDomain_to_dict d)" id]
  by (simp add: traverse_map comp_def sd.dec_enc domain_item_def list_all_iff)

interpretation pc: codec PrincipalContext_to_dict PrincipalContext_from_dict PrincipalContext_wf
  PrincipalContext_norm
proof unfold_locales
  fix x :: PrincipalContext
  assume wf: "PrincipalContext_wf x"
  let ?y = "PrincipalContext_norm x"
  have "PrincipalContext_init ?y = Inr ?y"
    using PrincipalContext_wf_norm [OF wf]
    by (simp add: PrincipalContext_wf_def PrincipalContext_init_def construct_returns)
  moreover have "nub_by SecurityDomain_eq (sort_key sd_domain_id (pc_active_domains x)) =
      sort_key sd_domain_id (pc_active_domains x)"
    using wf by (intro nub_by_id [of domain_key])
      (simp_all add: PrincipalContext_wf_def distinct_map_sort_key SecurityDomain_eq_key)
  moreover have "list_all SecurityDomain_wf (sort_key sd_domain_id (pc_active_domains x))"
    using wf by (simp add: PrincipalContext_wf_def list_all_iff)
  ultimately show "PrincipalContext_from_dict (PrincipalContext_to_dict x) = Inr ?y"
    by (cases x) (simp add: PrincipalContext_from_dict_def PrincipalContext_to_dict_def str_item_def
        traverse_domains PrincipalContext_norm_def)
next
  fix x assume "PrincipalContext_wf x"
  then show "PrincipalContext_wf (PrincipalContext_norm x)" by (rule PrincipalContext_wf_norm)
  show "PrincipalContext_to_dict (PrincipalContext_norm x) = PrincipalContext_to_dict x"
    by (simp add: PrincipalContext_to_dict_def PrincipalContext_norm_def sort_key_idem)
qed

end
