(* ===== verification/Capabilities.thy ===== *)
theory Capabilities
  imports Security
begin

text \<open>
  \<open>src/edn/core/capabilities.py\<close>: capability declarations and availability decisions.
  A frozenset of strings is a finite set, written to JSON as its sorted list.
\<close>

datatype CapabilityStatus =
    CS_READY | CS_UNAVAILABLE | CS_AUTHENTICATION_REQUIRED | CS_PERMISSION_REQUIRED
  | CS_APPROVAL_REQUIRED | CS_DEGRADED | CS_DISABLED | CS_INDETERMINATE

fun CapabilityStatus_value :: "CapabilityStatus \<Rightarrow> string" where
  "CapabilityStatus_value CS_READY = ''ready''"
| "CapabilityStatus_value CS_UNAVAILABLE = ''unavailable''"
| "CapabilityStatus_value CS_AUTHENTICATION_REQUIRED = ''authentication_required''"
| "CapabilityStatus_value CS_PERMISSION_REQUIRED = ''permission_required''"
| "CapabilityStatus_value CS_APPROVAL_REQUIRED = ''approval_required''"
| "CapabilityStatus_value CS_DEGRADED = ''degraded''"
| "CapabilityStatus_value CS_DISABLED = ''disabled''"
| "CapabilityStatus_value CS_INDETERMINATE = ''indeterminate''"

definition CapabilityStatus_members :: "CapabilityStatus list" where
  "CapabilityStatus_members =
     [CS_READY, CS_UNAVAILABLE, CS_AUTHENTICATION_REQUIRED, CS_PERMISSION_REQUIRED,
      CS_APPROVAL_REQUIRED, CS_DEGRADED, CS_DISABLED, CS_INDETERMINATE]"

abbreviation CapabilityStatus_of :: "json \<Rightarrow> CapabilityStatus result" where
  "CapabilityStatus_of \<equiv> enum_of CapabilityStatus_members CapabilityStatus_value"

record CapabilityManifest =
  cm_capability_id :: string
  cm_provider_id :: string
  cm_connector_id :: string
  cm_version :: string
  cm_operations :: "string fset"
  cm_required_permissions :: "string fset"
  cm_supported_domain_scopes :: "string fset"
  cm_risk_level :: string
  cm_dependencies :: "string fset"
  cm_manifest_hash :: "string option"

definition CapabilityManifest_init :: "CapabilityManifest \<Rightarrow> CapabilityManifest result" where
  "CapabilityManifest_init m = construct
     [validate_identifier (cm_capability_id m) ''capability_id'',
      validate_identifier (cm_provider_id m) ''provider_id'',
      validate_identifier (cm_connector_id m) ''connector_id'',
      validate_identifier (cm_version m) ''version'',
      validate_identifier (cm_risk_level m) ''risk_level'',
      require (cm_operations m \<noteq> {||}) ''operations must not be empty'',
      validate_set (cm_operations m) ''operations'',
      validate_set (cm_required_permissions m) ''required_permissions'',
      require (cm_supported_domain_scopes m \<noteq> {||}) ''supported_domain_scopes must not be empty'',
      validate_set (cm_supported_domain_scopes m) ''supported_domain_scopes'',
      validate_set (cm_dependencies m) ''dependencies'',
      when_some (cm_manifest_hash m)
        (\<lambda>h. require (is_sha256 h) ''manifest_hash must be a lowercase SHA-256 value'')] m"

definition CapabilityManifest_to_dict :: "CapabilityManifest \<Rightarrow> jobj" where
  "CapabilityManifest_to_dict m =
     [(''schema_version'', JStr SCHEMA_VERSION),
      (''capability_id'', JStr (cm_capability_id m)),
      (''provider_id'', JStr (cm_provider_id m)),
      (''connector_id'', JStr (cm_connector_id m)),
      (''version'', JStr (cm_version m)),
      (''operations'', strs (sorted_list_of_fset (cm_operations m))),
      (''required_permissions'', strs (sorted_list_of_fset (cm_required_permissions m))),
      (''supported_domain_scopes'', strs (sorted_list_of_fset (cm_supported_domain_scopes m))),
      (''risk_level'', JStr (cm_risk_level m)),
      (''dependencies'', strs (sorted_list_of_fset (cm_dependencies m))),
      (''manifest_hash'', opt JStr (cm_manifest_hash m))]"

definition CapabilityManifest_from_dict :: "jobj \<Rightarrow> CapabilityManifest result" where
  "CapabilityManifest_from_dict v =
     rbind (require_schema v) (\<lambda>_.
     rbind (str_item v ''capability_id'') (\<lambda>capability_id.
     rbind (str_item v ''provider_id'') (\<lambda>provider_id.
     rbind (str_item v ''connector_id'') (\<lambda>connector_id.
     rbind (str_item v ''version'') (\<lambda>version.
     rbind (string_set (getd v ''operations'') ''operations'') (\<lambda>operations.
     rbind (string_set (getd v ''required_permissions'') ''required_permissions'') (\<lambda>permissions.
     rbind (string_set (getd v ''supported_domain_scopes'') ''supported_domain_scopes'') (\<lambda>scopes.
     rbind (str_item v ''risk_level'') (\<lambda>risk_level.
     rbind (string_set (getdef v ''dependencies'' (JList [])) ''dependencies'') (\<lambda>dependencies.
     CapabilityManifest_init
       \<lparr>cm_capability_id = capability_id, cm_provider_id = provider_id,
        cm_connector_id = connector_id, cm_version = version, cm_operations = operations,
        cm_required_permissions = permissions, cm_supported_domain_scopes = scopes,
        cm_risk_level = risk_level, cm_dependencies = dependencies,
        cm_manifest_hash = as_optional_str (getd v ''manifest_hash'')\<rparr>))))))))))"

record CapabilityDecision =
  cd_capability_id :: string
  cd_status :: CapabilityStatus
  cd_reason_code :: string
  cd_explanation :: string
  cd_missing_requirements :: "string list"
  cd_approval_could_resolve :: bool

definition CapabilityDecision_init :: "CapabilityDecision \<Rightarrow> CapabilityDecision result" where
  "CapabilityDecision_init d = construct
     [validate_identifier (cd_capability_id d) ''capability_id'',
      validate_identifier (cd_reason_code d) ''reason_code'',
      not_blank (cd_explanation d) ''explanation'',
      validate_list (cd_missing_requirements d) ''missing_requirements'',
      require (\<not> (cd_approval_could_resolve d \<and>
          cd_status d \<notin> {CS_APPROVAL_REQUIRED, CS_PERMISSION_REQUIRED}))
        ''approval cannot resolve this capability status''] d"

definition CapabilityDecision_is_usable :: "CapabilityDecision \<Rightarrow> bool" where
  "CapabilityDecision_is_usable d = (cd_status d = CS_READY)"

definition CapabilityDecision_to_dict :: "CapabilityDecision \<Rightarrow> jobj" where
  "CapabilityDecision_to_dict d =
     [(''schema_version'', JStr SCHEMA_VERSION),
      (''capability_id'', JStr (cd_capability_id d)),
      (''status'', JStr (CapabilityStatus_value (cd_status d))),
      (''reason_code'', JStr (cd_reason_code d)),
      (''explanation'', JStr (cd_explanation d)),
      (''missing_requirements'', strs (cd_missing_requirements d)),
      (''approval_could_resolve'', JBool (cd_approval_could_resolve d))]"

definition CapabilityDecision_from_dict :: "jobj \<Rightarrow> CapabilityDecision result" where
  "CapabilityDecision_from_dict v =
     rbind (require_schema v) (\<lambda>_.
     rbind (string_tuple (getd v ''missing_requirements'') ''missing_requirements'') (\<lambda>missing.
     rbind (strict_bool (getd v ''approval_could_resolve'')
              ''approval_could_resolve must be a boolean'') (\<lambda>approval.
     rbind (str_item v ''capability_id'') (\<lambda>capability_id.
     rbind (rbind (item v ''status'') CapabilityStatus_of) (\<lambda>status.
     rbind (str_item v ''reason_code'') (\<lambda>reason_code.
     rbind (str_item v ''explanation'') (\<lambda>explanation.
     CapabilityDecision_init
       \<lparr>cd_capability_id = capability_id, cd_status = status, cd_reason_code = reason_code,
        cd_explanation = explanation, cd_missing_requirements = missing,
        cd_approval_could_resolve = approval\<rparr>)))))))"

section \<open>Well-formed values\<close>

definition CapabilityManifest_wf :: "CapabilityManifest \<Rightarrow> bool" where
  "CapabilityManifest_wf m = returns (CapabilityManifest_init m)"

definition CapabilityDecision_wf :: "CapabilityDecision \<Rightarrow> bool" where
  "CapabilityDecision_wf d = returns (CapabilityDecision_init d)"

section \<open>Lemmas\<close>

interpretation cs: str_enum CapabilityStatus_members CapabilityStatus_value
proof unfold_locales
  fix x show "x \<in> set CapabilityStatus_members"
    by (cases x) (simp_all add: CapabilityStatus_members_def)
qed (simp add: CapabilityStatus_members_def)

lemma CapabilityManifest_wf_iff:
  "CapabilityManifest_wf m \<longleftrightarrow>
     valid_identifier (cm_capability_id m) \<and> valid_identifier (cm_provider_id m) \<and>
     valid_identifier (cm_connector_id m) \<and> valid_identifier (cm_version m) \<and>
     valid_identifier (cm_risk_level m) \<and> cm_operations m \<noteq> {||} \<and>
     fBall (cm_operations m) valid_identifier \<and> fBall (cm_required_permissions m) valid_identifier \<and>
     cm_supported_domain_scopes m \<noteq> {||} \<and>
     fBall (cm_supported_domain_scopes m) valid_identifier \<and>
     fBall (cm_dependencies m) valid_identifier \<and>
     (\<forall>h. cm_manifest_hash m = Some h \<longrightarrow> is_sha256 h)"
  by (simp add: CapabilityManifest_wf_def CapabilityManifest_init_def check_simps)

lemma CapabilityDecision_wf_iff:
  "CapabilityDecision_wf d \<longleftrightarrow>
     valid_identifier (cd_capability_id d) \<and> valid_identifier (cd_reason_code d) \<and>
     \<not> blank (cd_explanation d) \<and> list_all valid_identifier (cd_missing_requirements d) \<and>
     (cd_approval_could_resolve d \<longrightarrow> cd_status d \<in> {CS_APPROVAL_REQUIRED, CS_PERMISSION_REQUIRED})"
  by (auto simp: CapabilityDecision_wf_def CapabilityDecision_init_def check_simps)

interpretation cm: codec CapabilityManifest_to_dict CapabilityManifest_from_dict
  CapabilityManifest_wf id
proof unfold_locales
  fix x :: CapabilityManifest
  assume "CapabilityManifest_wf x"
  then have "CapabilityManifest_init x = Inr x"
    by (simp add: CapabilityManifest_wf_def CapabilityManifest_init_def construct_returns)
  then show "CapabilityManifest_from_dict (CapabilityManifest_to_dict x) = Inr (id x)"
    by (cases x) (simp add: CapabilityManifest_from_dict_def CapabilityManifest_to_dict_def
        str_item_def)
qed simp_all

interpretation cd: codec CapabilityDecision_to_dict CapabilityDecision_from_dict
  CapabilityDecision_wf id
proof unfold_locales
  fix x :: CapabilityDecision
  assume "CapabilityDecision_wf x"
  then have "CapabilityDecision_init x = Inr x"
    by (simp add: CapabilityDecision_wf_def CapabilityDecision_init_def construct_returns)
  then show "CapabilityDecision_from_dict (CapabilityDecision_to_dict x) = Inr (id x)"
    by (cases x) (simp add: CapabilityDecision_from_dict_def CapabilityDecision_to_dict_def
        str_item_def cs.of_val)
qed simp_all

end
