(* ===== verification/Registry.thy ===== *)
theory Registry
  imports Capabilities
begin

text \<open>
  \<open>src/edn/core/registry.py\<close>: runtime facts of a capability, the in-memory registry (a
  dictionary in insertion order) and the resolution of a capability, operation and domain to
  an availability decision. Registering and unregistering are state transformers on the
  dictionary; an exception leaves it unchanged.
\<close>

datatype AuthenticationStatus =
    AS_NOT_REQUIRED | AS_VALID | AS_MISSING | AS_EXPIRED | AS_ERROR | AS_INDETERMINATE

fun AuthenticationStatus_value :: "AuthenticationStatus \<Rightarrow> string" where
  "AuthenticationStatus_value AS_NOT_REQUIRED = ''not_required''"
| "AuthenticationStatus_value AS_VALID = ''valid''"
| "AuthenticationStatus_value AS_MISSING = ''missing''"
| "AuthenticationStatus_value AS_EXPIRED = ''expired''"
| "AuthenticationStatus_value AS_ERROR = ''error''"
| "AuthenticationStatus_value AS_INDETERMINATE = ''indeterminate''"

definition AuthenticationStatus_members :: "AuthenticationStatus list" where
  "AuthenticationStatus_members =
     [AS_NOT_REQUIRED, AS_VALID, AS_MISSING, AS_EXPIRED, AS_ERROR, AS_INDETERMINATE]"

abbreviation AuthenticationStatus_of :: "json \<Rightarrow> AuthenticationStatus result" where
  "AuthenticationStatus_of \<equiv> enum_of AuthenticationStatus_members AuthenticationStatus_value"

section \<open>Runtime state and registered capabilities\<close>

record CapabilityRuntimeState =
  rt_status :: CapabilityStatus
  rt_authentication_status :: AuthenticationStatus
  rt_unavailable_dependencies :: "string list"
  rt_missing_permissions :: "string list"
  rt_health :: string
  rt_last_verified_at :: "datetime option"
  rt_explanation :: "string option"

definition aware :: "datetime option \<Rightarrow> string \<Rightarrow> check" where
  \<comment> \<open>\<open>if v is not None and v.tzinfo is None: raise\<close>\<close>
  "aware v msg = when_some v (\<lambda>d. require (\<not> tzinfo_None d) msg)"

definition CapabilityRuntimeState_init :: "CapabilityRuntimeState \<Rightarrow> CapabilityRuntimeState result" where
  "CapabilityRuntimeState_init r = construct
     [validate_identifier (rt_health r) ''health'',
      validate_list (rt_unavailable_dependencies r) ''unavailable_dependencies'',
      validate_list (rt_missing_permissions r) ''missing_permissions'',
      aware (rt_last_verified_at r) ''last_verified_at must be timezone-aware'',
      when_some (rt_explanation r) (\<lambda>e. not_blank e ''explanation'')] r"

definition CapabilityRuntimeState_to_dict :: "CapabilityRuntimeState \<Rightarrow> jobj" where
  "CapabilityRuntimeState_to_dict r =
     [(''schema_version'', JStr SCHEMA_VERSION),
      (''status'', JStr (CapabilityStatus_value (rt_status r))),
      (''authentication_status'', JStr (AuthenticationStatus_value (rt_authentication_status r))),
      (''unavailable_dependencies'', strs (rt_unavailable_dependencies r)),
      (''missing_permissions'', strs (rt_missing_permissions r)),
      (''health'', JStr (rt_health r)),
      (''last_verified_at'', format_datetime (rt_last_verified_at r)),
      (''explanation'', opt JStr (rt_explanation r))]"

definition CapabilityRuntimeState_from_dict :: "jobj \<Rightarrow> CapabilityRuntimeState result" where
  "CapabilityRuntimeState_from_dict v =
     rbind (require_schema v) (\<lambda>_.
     rbind (rbind (item v ''status'') CapabilityStatus_of) (\<lambda>status.
     rbind (rbind (item v ''authentication_status'') AuthenticationStatus_of) (\<lambda>authentication.
     rbind (string_tuple (getd v ''unavailable_dependencies'') ''unavailable_dependencies'') (\<lambda>dependencies.
     rbind (string_tuple (getd v ''missing_permissions'') ''missing_permissions'') (\<lambda>permissions.
     rbind (str_item v ''health'') (\<lambda>health.
     rbind (parse_datetime ''timestamp'' (getd v ''last_verified_at'')) (\<lambda>last_verified_at.
     CapabilityRuntimeState_init
       \<lparr>rt_status = status, rt_authentication_status = authentication,
        rt_unavailable_dependencies = dependencies, rt_missing_permissions = permissions,
        rt_health = health, rt_last_verified_at = last_verified_at,
        rt_explanation = as_optional_str (getd v ''explanation'')\<rparr>)))))))"

record RegisteredCapability =
  rc_manifest :: CapabilityManifest
  rc_runtime :: CapabilityRuntimeState

definition RegisteredCapability_to_dict :: "RegisteredCapability \<Rightarrow> jobj" where
  "RegisteredCapability_to_dict c =
     [(''schema_version'', JStr SCHEMA_VERSION),
      (''manifest'', JObj (CapabilityManifest_to_dict (rc_manifest c))),
      (''runtime'', JObj (CapabilityRuntimeState_to_dict (rc_runtime c)))]"

definition RegisteredCapability_from_dict :: "jobj \<Rightarrow> RegisteredCapability result" where
  "RegisteredCapability_from_dict v =
     rbind (require_schema v) (\<lambda>_.
     rbind (rbind (item v ''manifest'') (as_dict ''serialized nested model must be an object'')) (\<lambda>m.
     rbind (CapabilityManifest_from_dict m) (\<lambda>manifest.
     rbind (rbind (item v ''runtime'') (as_dict ''serialized nested model must be an object'')) (\<lambda>r.
     rbind (CapabilityRuntimeState_from_dict r) (\<lambda>runtime.
     Inr \<lparr>rc_manifest = manifest, rc_runtime = runtime\<rparr>)))))"

section \<open>The registry\<close>

type_synonym registry = "RegisteredCapability dict"

definition registry_register ::
  "CapabilityManifest \<Rightarrow> CapabilityRuntimeState \<Rightarrow> (registry, RegisteredCapability) stm" where
  "registry_register manifest runtime reg =
     (if map_of reg (cm_capability_id manifest) \<noteq> None
      then (Inl (ValueError (''capability already registered: '' @ cm_capability_id manifest)), reg)
      else let capability = \<lparr>rc_manifest = manifest, rc_runtime = runtime\<rparr>
           in (Inr capability, dict_set (cm_capability_id manifest) capability reg))"

fun register_all :: "RegisteredCapability list \<Rightarrow> (registry, unit) stm" where
  "register_all [] = ret ()"
| "register_all (c # cs) =
     sbind (registry_register (rc_manifest c) (rc_runtime c)) (\<lambda>_. register_all cs)"

definition CapabilityRegistry_init :: "RegisteredCapability list \<Rightarrow> registry result" where
  "CapabilityRegistry_init capabilities = (case register_all capabilities [] of
     (Inl e, _) \<Rightarrow> Inl e | (Inr _, reg) \<Rightarrow> Inr reg)"

definition registry_unregister :: "string \<Rightarrow> (registry, RegisteredCapability) stm" where
  "registry_unregister capability_id =
     sbind (lift (construct [validate_identifier capability_id ''capability_id''] ())) (\<lambda>_ reg.
       case map_of reg capability_id of
         None \<Rightarrow> (Inl (KeyError (''capability not registered: '' @ capability_id)), reg)
       | Some c \<Rightarrow> (Inr c, dict_del capability_id reg))"

definition registry_get :: "registry \<Rightarrow> string \<Rightarrow> RegisteredCapability option result" where
  "registry_get reg capability_id =
     rbind (construct [validate_identifier capability_id ''capability_id''] ())
       (\<lambda>_. Inr (map_of reg capability_id))"

definition registry_list ::
  "registry \<Rightarrow> CapabilityStatus option \<Rightarrow> string option \<Rightarrow> RegisteredCapability list result" where
  "registry_list reg status operation =
     rbind (construct [when_some operation (\<lambda>op. validate_identifier op ''operation'')] ())
       (\<lambda>_. Inr (sort_key (\<lambda>i. cm_capability_id (rc_manifest i))
          (filter (\<lambda>i. (case status of None \<Rightarrow> True | Some s \<Rightarrow> rt_status (rc_runtime i) = s) \<and>
                   (case operation of None \<Rightarrow> True | Some op \<Rightarrow> op |\<in>| cm_operations (rc_manifest i)))
             (map snd reg))))"

definition decision ::
  "string \<Rightarrow> CapabilityStatus \<Rightarrow> string \<Rightarrow> string \<Rightarrow> string list \<Rightarrow> bool \<Rightarrow> CapabilityDecision result" where
  "decision capability_id status reason_code explanation missing approval_could_resolve =
     CapabilityDecision_init
       \<lparr>cd_capability_id = capability_id, cd_status = status, cd_reason_code = reason_code,
        cd_explanation = explanation, cd_missing_requirements = missing,
        cd_approval_could_resolve = approval_could_resolve\<rparr>"

fun reason_code_of :: "CapabilityStatus \<Rightarrow> string result" where
  \<comment> \<open>the dictionary \<open>reason_codes\<close>\<close>
  "reason_code_of CS_READY = Inr ''ready''"
| "reason_code_of CS_DEGRADED = Inr ''capability_degraded''"
| "reason_code_of CS_APPROVAL_REQUIRED = Inr ''approval_required''"
| "reason_code_of CS_PERMISSION_REQUIRED = Inr ''permission_required''"
| "reason_code_of CS_AUTHENTICATION_REQUIRED = Inr ''authentication_required''"
| "reason_code_of CS_UNAVAILABLE = Inr ''capability_unavailable''"
| "reason_code_of s = Inl (KeyError (CapabilityStatus_value s))"

definition or_text :: "string option \<Rightarrow> string \<Rightarrow> string" where
  \<comment> \<open>\<open>explanation or default\<close>: an empty text counts as missing\<close>
  "or_text v dflt = (case v of None \<Rightarrow> dflt | Some s \<Rightarrow> if s = [] then dflt else s)"

definition resolve_registered ::
  "RegisteredCapability \<Rightarrow> string \<Rightarrow> string \<Rightarrow> SecurityDomain \<Rightarrow> CapabilityDecision result" where
  "resolve_registered capability capability_id operation domain =
     (let manifest = rc_manifest capability; runtime = rc_runtime capability in
      if operation |\<notin>| cm_operations manifest then
        decision capability_id CS_UNAVAILABLE ''operation_not_supported''
          (''Capability does not support operation '' @ operation @ ''.'') [operation] False
      else if sd_domain_id domain |\<notin>| cm_supported_domain_scopes manifest then
        decision capability_id CS_UNAVAILABLE ''domain_not_supported''
          ''Capability does not support the requested security domain.'' [sd_domain_id domain] False
      else if rt_status runtime = CS_DISABLED then
        decision capability_id CS_DISABLED ''capability_disabled''
          (or_text (rt_explanation runtime) ''Capability is disabled.'') [] False
      else if rt_status runtime = CS_INDETERMINATE then
        decision capability_id CS_INDETERMINATE ''runtime_indeterminate''
          (or_text (rt_explanation runtime) ''Capability runtime state is indeterminate.'') [] False
      else if rt_authentication_status runtime \<notin> {AS_NOT_REQUIRED, AS_VALID} then
        decision capability_id CS_AUTHENTICATION_REQUIRED ''authentication_required''
          (or_text (rt_explanation runtime) ''Valid authentication is required.'')
          [AuthenticationStatus_value (rt_authentication_status runtime)] False
      else if rt_unavailable_dependencies runtime \<noteq> [] then
        decision capability_id CS_UNAVAILABLE ''dependency_unavailable''
          ''One or more capability dependencies are unavailable.''
          (rt_unavailable_dependencies runtime) False
      else if rt_missing_permissions runtime \<noteq> [] then
        decision capability_id CS_PERMISSION_REQUIRED ''permission_required''
          ''One or more external permissions are missing.'' (rt_missing_permissions runtime) True
      else
        let status = rt_status runtime in
        rbind (reason_code_of status) (\<lambda>code.
          decision capability_id status code
            (or_text (rt_explanation runtime)
               (''Capability status is '' @ CapabilityStatus_value status @ ''.'')) []
            (status \<in> {CS_APPROVAL_REQUIRED, CS_PERMISSION_REQUIRED})))"

definition registry_resolve ::
  "registry \<Rightarrow> string \<Rightarrow> string \<Rightarrow> SecurityDomain \<Rightarrow> CapabilityDecision result" where
  "registry_resolve reg capability_id operation domain =
     rbind (construct [validate_identifier capability_id ''capability_id'',
                       validate_identifier operation ''operation''] ()) (\<lambda>_.
     case map_of reg capability_id of
       None \<Rightarrow> decision capability_id CS_INDETERMINATE ''capability_not_registered''
         ''The requested capability is not registered.'' [capability_id] False
     | Some capability \<Rightarrow> resolve_registered capability capability_id operation domain)"

section \<open>Well-formed values and the registry invariant\<close>

definition CapabilityRuntimeState_wf :: "CapabilityRuntimeState \<Rightarrow> bool" where
  "CapabilityRuntimeState_wf r =
     (returns (CapabilityRuntimeState_init r) \<and> opt_stamp (rt_last_verified_at r))"

definition CapabilityRuntimeState_norm :: "CapabilityRuntimeState \<Rightarrow> CapabilityRuntimeState" where
  "CapabilityRuntimeState_norm r =
     r\<lparr>rt_last_verified_at := map_option to_utc (rt_last_verified_at r)\<rparr>"

definition RegisteredCapability_wf :: "RegisteredCapability \<Rightarrow> bool" where
  "RegisteredCapability_wf c =
     (CapabilityManifest_wf (rc_manifest c) \<and> CapabilityRuntimeState_wf (rc_runtime c))"

definition RegisteredCapability_norm :: "RegisteredCapability \<Rightarrow> RegisteredCapability" where
  "RegisteredCapability_norm c = c\<lparr>rc_runtime := CapabilityRuntimeState_norm (rc_runtime c)\<rparr>"

definition registry_ok :: "registry \<Rightarrow> bool" where
  "registry_ok reg =
     (distinct (map fst reg) \<and>
      list_all (\<lambda>(k, c). k = cm_capability_id (rc_manifest c) \<and> RegisteredCapability_wf c) reg)"

definition usable_now :: "RegisteredCapability \<Rightarrow> string \<Rightarrow> SecurityDomain \<Rightarrow> bool" where
  \<comment> \<open>the conditions under which a registered capability can serve an operation in a domain\<close>
  "usable_now c operation domain =
     (operation |\<in>| cm_operations (rc_manifest c) \<and>
      sd_domain_id domain |\<in>| cm_supported_domain_scopes (rc_manifest c) \<and>
      rt_status (rc_runtime c) = CS_READY \<and>
      rt_authentication_status (rc_runtime c) \<in> {AS_NOT_REQUIRED, AS_VALID} \<and>
      rt_unavailable_dependencies (rc_runtime c) = [] \<and>
      rt_missing_permissions (rc_runtime c) = [])"

section \<open>Interfaces\<close>

text \<open>
  A keyed store in which an insertion never replaces a binding: what the registry's clients
  rely on.
\<close>

locale unique_store =
  fixes lookup :: "'s \<Rightarrow> string \<Rightarrow> 'v option"
    and insert_new :: "'v \<Rightarrow> ('s, 'v) stm"
    and remove :: "string \<Rightarrow> ('s, 'v) stm"
    and key :: "'v \<Rightarrow> string" and invar :: "'s \<Rightarrow> bool" and ok :: "'v \<Rightarrow> bool"
  assumes insert_fresh: "invar s \<Longrightarrow> ok v \<Longrightarrow> lookup s (key v) = None \<Longrightarrow>
      \<exists>s'. insert_new v s = (Inr v, s') \<and> invar s' \<and> lookup s' = (lookup s)(key v \<mapsto> v)"
    and insert_taken: "lookup s (key v) \<noteq> None \<Longrightarrow> \<exists>e. insert_new v s = (Inl e, s)"
    and remove_present: "invar s \<Longrightarrow> lookup s k = Some v \<Longrightarrow>
      \<exists>s'. remove k s = (Inr v, s') \<and> invar s' \<and> lookup s' = (lookup s)(k := None)"
    and remove_absent: "lookup s k = None \<Longrightarrow> \<exists>e. remove k s = (Inl e, s)"
    and key_of: "invar s \<Longrightarrow> lookup s k = Some v \<Longrightarrow> key v = k \<and> ok v"
begin

lemma insert_then_remove:
  assumes "invar s" "ok v" "lookup s (key v) = None"
  shows "\<exists>s' s''. insert_new v s = (Inr v, s') \<and> remove (key v) s' = (Inr v, s'') \<and>
    lookup s'' = lookup s \<and> invar s''"
proof -
  obtain s' where s': "insert_new v s = (Inr v, s')" "invar s'" "lookup s' = (lookup s)(key v \<mapsto> v)"
    using insert_fresh [OF assms] by blast
  then obtain s'' where "remove (key v) s' = (Inr v, s'')" "invar s''"
      "lookup s'' = (lookup s')(key v := None)"
    using remove_present [of s' "key v" v] by auto
  with s' assms(3) show ?thesis by (auto simp: fun_upd_idem)
qed

lemma insert_twice_fails:
  assumes "invar s" "ok v" "insert_new v s = (r, s')" "r = Inr w"
  shows "\<exists>e. insert_new v s' = (Inl e, s')"
proof (cases "lookup s (key v)")
  case None
  then show ?thesis using insert_fresh [OF assms(1,2) None] assms(3) insert_taken [of s' v] by auto
next
  case (Some u)
  then show ?thesis using insert_taken [of s v] assms(3,4) by auto
qed

end

section \<open>Lemmas\<close>

interpretation au: str_enum AuthenticationStatus_members AuthenticationStatus_value
proof unfold_locales
  fix x show "x \<in> set AuthenticationStatus_members"
    by (cases x) (simp_all add: AuthenticationStatus_members_def)
qed (simp add: AuthenticationStatus_members_def)

lemma aware_None [check_simps]: "aware v msg = None \<longleftrightarrow> (\<forall>d. v = Some d \<longrightarrow> \<not> tzinfo_None d)"
  by (simp add: aware_def check_simps)

lemma CapabilityRuntimeState_init_iff:
  "returns (CapabilityRuntimeState_init r) \<longleftrightarrow>
     valid_identifier (rt_health r) \<and> list_all valid_identifier (rt_unavailable_dependencies r) \<and>
     list_all valid_identifier (rt_missing_permissions r) \<and>
     (\<forall>d. rt_last_verified_at r = Some d \<longrightarrow> \<not> tzinfo_None d) \<and>
     (\<forall>e. rt_explanation r = Some e \<longrightarrow> \<not> blank e)"
  by (simp add: CapabilityRuntimeState_init_def check_simps)

lemma CapabilityRuntimeState_wf_norm:
  "CapabilityRuntimeState_wf r \<Longrightarrow> CapabilityRuntimeState_wf (CapabilityRuntimeState_norm r)"
  by (auto simp: CapabilityRuntimeState_wf_def CapabilityRuntimeState_norm_def
      CapabilityRuntimeState_init_iff)

interpretation rt: codec CapabilityRuntimeState_to_dict CapabilityRuntimeState_from_dict
  CapabilityRuntimeState_wf CapabilityRuntimeState_norm
proof unfold_locales
  fix x :: CapabilityRuntimeState
  assume wf: "CapabilityRuntimeState_wf x"
  have "CapabilityRuntimeState_init (CapabilityRuntimeState_norm x) =
      Inr (CapabilityRuntimeState_norm x)"
    using CapabilityRuntimeState_wf_norm [OF wf]
    by (simp add: CapabilityRuntimeState_wf_def CapabilityRuntimeState_init_def construct_returns)
  then show "CapabilityRuntimeState_from_dict (CapabilityRuntimeState_to_dict x) =
      Inr (CapabilityRuntimeState_norm x)"
    using wf by (cases x) (simp add: CapabilityRuntimeState_from_dict_def str_item_def cs.of_val
        au.of_val CapabilityRuntimeState_to_dict_def CapabilityRuntimeState_norm_def
        CapabilityRuntimeState_wf_def)
next
  fix x assume "CapabilityRuntimeState_wf x"
  then show "CapabilityRuntimeState_wf (CapabilityRuntimeState_norm x)"
    by (rule CapabilityRuntimeState_wf_norm)
  show "CapabilityRuntimeState_to_dict (CapabilityRuntimeState_norm x) =
      CapabilityRuntimeState_to_dict x"
    by (simp add: CapabilityRuntimeState_to_dict_def CapabilityRuntimeState_norm_def)
qed

interpretation rc: codec RegisteredCapability_to_dict RegisteredCapability_from_dict
  RegisteredCapability_wf RegisteredCapability_norm
proof unfold_locales
  fix x :: RegisteredCapability
  assume wf: "RegisteredCapability_wf x"
  then show "RegisteredCapability_from_dict (RegisteredCapability_to_dict x) =
      Inr (RegisteredCapability_norm x)"
    by (cases x) (simp add: RegisteredCapability_from_dict_def RegisteredCapability_to_dict_def
        RegisteredCapability_norm_def RegisteredCapability_wf_def cm.dec_enc rt.dec_enc)
  show "RegisteredCapability_wf (RegisteredCapability_norm x)"
    using wf by (simp add: RegisteredCapability_wf_def RegisteredCapability_norm_def
        CapabilityRuntimeState_wf_norm)
  show "RegisteredCapability_to_dict (RegisteredCapability_norm x) = RegisteredCapability_to_dict x"
    using wf by (simp add: RegisteredCapability_to_dict_def RegisteredCapability_norm_def
        RegisteredCapability_wf_def rt.enc_norm)
qed

lemma registry_ok_lookup:
  "registry_ok reg \<Longrightarrow> map_of reg k = Some c \<Longrightarrow>
     cm_capability_id (rc_manifest c) = k \<and> RegisteredCapability_wf c"
  by (auto simp: registry_ok_def list_all_iff dest!: map_of_SomeD)

lemma registry_ok_set:
  assumes "registry_ok reg" "RegisteredCapability_wf c"
  shows "registry_ok (dict_set (cm_capability_id (rc_manifest c)) c reg)"
proof -
  have "list_all P (dict_set k v d)" if "list_all P d" "P (k, v)"
    for P and k :: string and v :: RegisteredCapability and d
    using that by (induction k v d rule: dict_set.induct) auto
  with assms show ?thesis by (simp add: registry_ok_def distinct_dict_set)
qed

lemma registry_ok_del: "registry_ok reg \<Longrightarrow> registry_ok (dict_del k reg)"
  using distinct_dict_del [of reg k] by (auto simp: registry_ok_def dict_del_def list_all_iff)

interpretation reg: unique_store map_of "\<lambda>c. registry_register (rc_manifest c) (rc_runtime c)"
  registry_unregister "\<lambda>c. cm_capability_id (rc_manifest c)" registry_ok RegisteredCapability_wf
proof unfold_locales
  fix s :: registry and v :: RegisteredCapability
  assume "registry_ok s" "RegisteredCapability_wf v"
    "map_of s (cm_capability_id (rc_manifest v)) = None"
  then show "\<exists>s'. registry_register (rc_manifest v) (rc_runtime v) s = (Inr v, s') \<and>
      registry_ok s' \<and> map_of s' = (map_of s)(cm_capability_id (rc_manifest v) \<mapsto> v)"
    using registry_ok_set [of s v] by (cases v) (simp add: registry_register_def Let_def)
next
  fix s :: registry and v :: RegisteredCapability
  assume "map_of s (cm_capability_id (rc_manifest v)) \<noteq> None"
  then show "\<exists>e. registry_register (rc_manifest v) (rc_runtime v) s = (Inl e, s)"
    by (simp add: registry_register_def)
next
  fix s :: registry and k v
  assume "registry_ok s" "map_of s k = Some v"
  moreover from this have "valid_identifier k"
    using registry_ok_lookup [of s k v]
    by (auto simp: RegisteredCapability_wf_def CapabilityManifest_wf_iff)
  ultimately show "\<exists>s'. registry_unregister k s = (Inr v, s') \<and> registry_ok s' \<and>
      map_of s' = (map_of s)(k := None)"
    by (simp add: registry_unregister_def sbind_def lift_def construct_ok check_simps
        registry_ok_del)
next
  fix s :: registry and k
  assume "map_of s k = None"
  then show "\<exists>e. registry_unregister k s = (Inl e, s)"
    by (simp add: registry_unregister_def sbind_def lift_def construct_def split: option.splits)
qed (simp add: registry_ok_lookup)

lemma decision_eq_Inr:
  "decision c s r e m a = Inr d \<longleftrightarrow>
     d = \<lparr>cd_capability_id = c, cd_status = s, cd_reason_code = r, cd_explanation = e,
          cd_missing_requirements = m, cd_approval_could_resolve = a\<rparr> \<and> CapabilityDecision_wf d"
  by (auto simp: decision_def CapabilityDecision_wf_def CapabilityDecision_init_def check_simps)

lemma or_text_not_blank:
  "\<not> blank d \<Longrightarrow> (\<forall>e. v = Some e \<longrightarrow> \<not> blank e) \<Longrightarrow> \<not> blank (or_text v d)"
  by (auto simp: or_text_def split: option.splits)

lemma valid_identifier_literals:
  "valid_identifier ''operation_not_supported''" "valid_identifier ''domain_not_supported''"
  "valid_identifier ''capability_disabled''" "valid_identifier ''runtime_indeterminate''"
  "valid_identifier ''authentication_required''" "valid_identifier ''dependency_unavailable''"
  "valid_identifier ''permission_required''" "valid_identifier ''ready''"
  "valid_identifier ''capability_degraded''" "valid_identifier ''approval_required''"
  "valid_identifier ''capability_unavailable''" "valid_identifier ''capability_not_registered''"
  by code_simp+

lemma authentication_value_valid: "valid_identifier (AuthenticationStatus_value a)"
proof -
  have "list_all (\<lambda>a. valid_identifier (AuthenticationStatus_value a)) AuthenticationStatus_members"
    by code_simp
  then show ?thesis by (simp add: list_all_iff au.complete)
qed

lemma resolve_registered_total:
  assumes c: "RegisteredCapability_wf c" and ids: "valid_identifier i" "valid_identifier op"
    "valid_identifier (sd_domain_id sd)"
  shows "\<exists>d. resolve_registered c i op sd = Inr d \<and> CapabilityDecision_wf d \<and>
    cd_capability_id d = i \<and> (cd_status d = CS_READY \<longleftrightarrow> usable_now c op sd)"
proof -
  let ?r = "rc_runtime c"
  have r: "list_all valid_identifier (rt_unavailable_dependencies ?r)"
    "list_all valid_identifier (rt_missing_permissions ?r)"
    and e: "\<forall>e. rt_explanation ?r = Some e \<longrightarrow> \<not> blank e"
    using c by (auto simp: RegisteredCapability_wf_def CapabilityRuntimeState_wf_def
        CapabilityRuntimeState_init_iff)
  have ot: "\<not> blank (or_text (rt_explanation ?r) (ch # t))" if "\<not> py_space ch" for ch t
    using that e by (intro or_text_not_blank) simp_all
  have sp: "\<not> py_space (CHR ''C'')" "\<not> py_space (CHR ''V'')" "\<not> py_space (CHR ''O'')"
    by (simp_all add: py_space_def code_def)
  show ?thesis
    using r ids
    by (cases "rt_status ?r")
      (auto simp: resolve_registered_def Let_def decision_eq_Inr CapabilityDecision_wf_iff
        valid_identifier_literals authentication_value_valid usable_now_def ot sp)
qed

lemma resolve_total:
  assumes "registry_ok reg" and "valid_identifier i" "valid_identifier op"
    "valid_identifier (sd_domain_id sd)"
  shows "\<exists>d. registry_resolve reg i op sd = Inr d \<and> CapabilityDecision_wf d \<and>
    cd_capability_id d = i \<and>
    (cd_status d = CS_READY \<longleftrightarrow> (\<exists>c. map_of reg i = Some c \<and> usable_now c op sd))"
proof (cases "map_of reg i")
  case None
  have "\<not> py_space (CHR ''T'')" by (simp add: py_space_def code_def)
  with None assms(2,3) show ?thesis
    by (simp add: registry_resolve_def construct_ok check_simps decision_eq_Inr
        CapabilityDecision_wf_iff valid_identifier_literals)
next
  case (Some c)
  then have "RegisteredCapability_wf c" using registry_ok_lookup [OF assms(1)] by simp
  from resolve_registered_total [OF this assms(2-4)] Some assms(2,3) show ?thesis
    by (simp add: registry_resolve_def construct_ok check_simps)
qed

lemma register_all_ok:
  assumes "registry_ok reg" "list_all RegisteredCapability_wf cs" "register_all cs reg = (r, reg')"
  shows "registry_ok reg'"
  using assms
proof (induction cs arbitrary: reg)
  case (Cons c cs)
  then show ?case
    using reg.insert_fresh [of reg c] reg.insert_taken [of reg c]
    by (cases "map_of reg (cm_capability_id (rc_manifest c))") (fastforce simp: sbind_def)+
qed (simp add: ret_def)

lemma registry_list_iff:
  assumes "registry_list reg st op = Inr xs"
  shows "set xs = {c. c \<in> snd ` set reg \<and> (\<forall>s. st = Some s \<longrightarrow> rt_status (rc_runtime c) = s) \<and>
      (\<forall>p. op = Some p \<longrightarrow> p |\<in>| cm_operations (rc_manifest c))}"
    and "sorted (map (\<lambda>c. cm_capability_id (rc_manifest c)) xs)"
  using assms by (cases st; cases op; force simp: registry_list_def rbind_Inr_iff check_simps)+

lemma registry_list_distinct:
  assumes "registry_ok reg" "registry_list reg st op = Inr xs"
  shows "distinct (map (\<lambda>c. cm_capability_id (rc_manifest c)) xs)"
proof -
  have "map (\<lambda>c. cm_capability_id (rc_manifest c)) (map snd reg) = map fst reg"
    using assms(1) by (auto simp: registry_ok_def list_all_iff)
  then have "distinct (map (\<lambda>c. cm_capability_id (rc_manifest c)) (map snd reg))"
    using assms(1) unfolding registry_ok_def by metis
  then show ?thesis
    using assms(2) by (auto simp: registry_list_def rbind_Inr_iff distinct_map_sort_key
        distinct_map_filter simp del: map_map)
qed

end
