(* ===== verification/Permissions.thy ===== *)
theory Permissions
  imports Registry
begin

text \<open>
  \<open>src/edn/core/permissions.py\<close>: permission requests and decisions. A decision carries an
  expiry exactly when it is temporary, and \<open>is_allowed\<close> is the only reading of a decision
  as authority.
\<close>

datatype PermissionOutcome =
    PO_ALLOWED | PO_ALLOWED_WITHIN_SCOPE | PO_APPROVAL_REQUIRED | PO_TEMPORARILY_ALLOWED
  | PO_PROHIBITED | PO_INDETERMINATE

fun PermissionOutcome_value :: "PermissionOutcome \<Rightarrow> string" where
  "PermissionOutcome_value PO_ALLOWED = ''allowed''"
| "PermissionOutcome_value PO_ALLOWED_WITHIN_SCOPE = ''allowed_within_scope''"
| "PermissionOutcome_value PO_APPROVAL_REQUIRED = ''approval_required''"
| "PermissionOutcome_value PO_TEMPORARILY_ALLOWED = ''temporarily_allowed''"
| "PermissionOutcome_value PO_PROHIBITED = ''prohibited''"
| "PermissionOutcome_value PO_INDETERMINATE = ''indeterminate''"

definition PermissionOutcome_members :: "PermissionOutcome list" where
  "PermissionOutcome_members = [PO_ALLOWED, PO_ALLOWED_WITHIN_SCOPE, PO_APPROVAL_REQUIRED,
     PO_TEMPORARILY_ALLOWED, PO_PROHIBITED, PO_INDETERMINATE]"

abbreviation PermissionOutcome_of :: "json \<Rightarrow> PermissionOutcome result" where
  "PermissionOutcome_of \<equiv> enum_of PermissionOutcome_members PermissionOutcome_value"

definition nested :: "jobj \<Rightarrow> string \<Rightarrow> (jobj \<Rightarrow> 'a result) \<Rightarrow> 'a result" where
  \<comment> \<open>\<open>Class.from_dict(_dict(value[k]))\<close>\<close>
  "nested v k loader =
     rbind (rbind (item v k) (as_dict ''serialized nested model must be an object'')) loader"

section \<open>Requests\<close>

record PermissionRequest =
  pr_request_id :: string
  pr_principal :: PrincipalContext
  pr_purpose :: Purpose
  pr_capability_id :: string
  pr_operation :: string
  pr_security_domain :: SecurityDomain
  pr_classification :: Classification
  pr_resource_scope :: "string list"
  pr_requested_duration_seconds :: "int option"

definition PermissionRequest_init :: "PermissionRequest \<Rightarrow> PermissionRequest result" where
  "PermissionRequest_init r = construct
     [validate_identifier (pr_request_id r) ''request_id'',
      validate_identifier (pr_capability_id r) ''capability_id'',
      validate_identifier (pr_operation r) ''operation'',
      require (tenant_admits (pc_tenant_id (pr_principal r)) (pr_security_domain r))
        ''requested domain belongs to another tenant'',
      validate_list (pr_resource_scope r) ''resource_scope'',
      when_some (pr_requested_duration_seconds r)
        (\<lambda>n. require (0 < n) ''requested_duration_seconds must be positive'')] r"

definition PermissionRequest_to_dict :: "PermissionRequest \<Rightarrow> jobj" where
  "PermissionRequest_to_dict r =
     [(''schema_version'', JStr SCHEMA_VERSION),
      (''request_id'', JStr (pr_request_id r)),
      (''principal'', JObj (PrincipalContext_to_dict (pr_principal r))),
      (''purpose'', JObj (Purpose_to_dict (pr_purpose r))),
      (''capability_id'', JStr (pr_capability_id r)),
      (''operation'', JStr (pr_operation r)),
      (''security_domain'', JObj (SecurityDomain_to_dict (pr_security_domain r))),
      (''classification'', JObj (Classification_to_dict (pr_classification r))),
      (''resource_scope'', strs (pr_resource_scope r)),
      (''requested_duration_seconds'', opt JInt (pr_requested_duration_seconds r))]"

definition int_or_none :: "json \<Rightarrow> int option result" where
  \<comment> \<open>\<open>None if v is None else int(v)\<close>\<close>
  "int_or_none v = (case v of JNull \<Rightarrow> Inr None | _ \<Rightarrow> rbind (py_int v) (\<lambda>n. Inr (Some n)))"

definition PermissionRequest_from_dict :: "jobj \<Rightarrow> PermissionRequest result" where
  "PermissionRequest_from_dict v =
     rbind (require_schema v) (\<lambda>_.
     rbind (string_tuple (getd v ''resource_scope'') ''resource_scope'') (\<lambda>scope.
     rbind (str_item v ''request_id'') (\<lambda>request_id.
     rbind (nested v ''principal'' PrincipalContext_from_dict) (\<lambda>principal.
     rbind (nested v ''purpose'' Purpose_from_dict) (\<lambda>purpose.
     rbind (str_item v ''capability_id'') (\<lambda>capability_id.
     rbind (str_item v ''operation'') (\<lambda>operation.
     rbind (nested v ''security_domain'' SecurityDomain_from_dict) (\<lambda>domain.
     rbind (nested v ''classification'' Classification_from_dict) (\<lambda>classification.
     rbind (int_or_none (getd v ''requested_duration_seconds'')) (\<lambda>duration.
     PermissionRequest_init
       \<lparr>pr_request_id = request_id, pr_principal = principal, pr_purpose = purpose,
        pr_capability_id = capability_id, pr_operation = operation, pr_security_domain = domain,
        pr_classification = classification, pr_resource_scope = scope,
        pr_requested_duration_seconds = duration\<rparr>))))))))))"

section \<open>Decisions\<close>

record PermissionDecision =
  pd_request_id :: string
  pd_outcome :: PermissionOutcome
  pd_reason :: string
  pd_policy_ref :: "string option"
  pd_effective_scope :: "string list"
  pd_expires_at :: "datetime option"
  pd_approver_id :: "string option"
  pd_approval_ref :: "string option"

definition temporary_check ::
  "PermissionOutcome \<Rightarrow> datetime option \<Rightarrow> string option \<Rightarrow> string \<Rightarrow> check" where
  \<comment> \<open>expiry and approval reference belong to temporary authority, and only to it\<close>
  "temporary_check outcome expires_at approval_ref what =
     (if outcome = PO_TEMPORARILY_ALLOWED then
        require (expires_at \<noteq> None \<and> approval_ref \<noteq> None)
          (''temporary '' @ what @ '' requires expiry and approval reference'')
      else require (expires_at = None) ''expiry is only valid for temporary authority'')"

definition PermissionDecision_init :: "PermissionDecision \<Rightarrow> PermissionDecision result" where
  "PermissionDecision_init d = construct
     [validate_identifier (pd_request_id d) ''request_id'',
      not_blank (pd_reason d) ''reason'',
      optional_identifier (pd_policy_ref d) ''policy_ref'',
      optional_identifier (pd_approver_id d) ''approver_id'',
      optional_identifier (pd_approval_ref d) ''approval_ref'',
      validate_list (pd_effective_scope d) ''effective_scope'',
      aware (pd_expires_at d) ''expires_at must be timezone-aware'',
      temporary_check (pd_outcome d) (pd_expires_at d) (pd_approval_ref d) ''authority'',
      require (\<not> (pd_outcome d = PO_ALLOWED_WITHIN_SCOPE \<and> pd_effective_scope d = []))
        ''scoped authority requires an effective scope''] d"

definition PermissionDecision_is_allowed ::
  "PermissionDecision \<Rightarrow> datetime option \<Rightarrow> datetime \<Rightarrow> bool result" where
  \<comment> \<open>the last argument is the reading of \<open>datetime.now(UTC)\<close>\<close>
  "PermissionDecision_is_allowed d at_time clock =
     (if pd_outcome d \<in> {PO_ALLOWED, PO_ALLOWED_WITHIN_SCOPE} then Inr True
      else if pd_outcome d \<noteq> PO_TEMPORARILY_ALLOWED then Inr False
      else case pd_expires_at d of
        None \<Rightarrow> Inr False
      | Some expires_at \<Rightarrow>
          let moment = (case at_time of None \<Rightarrow> clock | Some t \<Rightarrow> t) in
          if tzinfo_None moment then Inl (ValueError ''decision time must be timezone-aware'')
          else dt_less moment expires_at)"

definition PermissionDecision_to_dict :: "PermissionDecision \<Rightarrow> jobj" where
  "PermissionDecision_to_dict d =
     [(''schema_version'', JStr SCHEMA_VERSION),
      (''request_id'', JStr (pd_request_id d)),
      (''outcome'', JStr (PermissionOutcome_value (pd_outcome d))),
      (''reason'', JStr (pd_reason d)),
      (''policy_ref'', opt JStr (pd_policy_ref d)),
      (''effective_scope'', strs (pd_effective_scope d)),
      (''expires_at'', format_datetime (pd_expires_at d)),
      (''approver_id'', opt JStr (pd_approver_id d)),
      (''approval_ref'', opt JStr (pd_approval_ref d))]"

definition PermissionDecision_from_dict :: "jobj \<Rightarrow> PermissionDecision result" where
  "PermissionDecision_from_dict v =
     rbind (require_schema v) (\<lambda>_.
     rbind (str_item v ''request_id'') (\<lambda>request_id.
     rbind (rbind (item v ''outcome'') PermissionOutcome_of) (\<lambda>outcome.
     rbind (str_item v ''reason'') (\<lambda>reason.
     rbind (string_tuple (getd v ''effective_scope'') ''effective_scope'') (\<lambda>scope.
     rbind (parse_datetime ''expires_at'' (getd v ''expires_at'')) (\<lambda>expires_at.
     PermissionDecision_init
       \<lparr>pd_request_id = request_id, pd_outcome = outcome, pd_reason = reason,
        pd_policy_ref = as_optional_str (getd v ''policy_ref''), pd_effective_scope = scope,
        pd_expires_at = expires_at, pd_approver_id = as_optional_str (getd v ''approver_id''),
        pd_approval_ref = as_optional_str (getd v ''approval_ref'')\<rparr>))))))"

section \<open>Well-formed values\<close>

definition PermissionRequest_wf :: "PermissionRequest \<Rightarrow> bool" where
  "PermissionRequest_wf r =
     (returns (PermissionRequest_init r) \<and> PrincipalContext_wf (pr_principal r) \<and>
      Purpose_wf (pr_purpose r) \<and> SecurityDomain_wf (pr_security_domain r) \<and>
      Classification_wf (pr_classification r))"

definition PermissionRequest_norm :: "PermissionRequest \<Rightarrow> PermissionRequest" where
  "PermissionRequest_norm r = r\<lparr>pr_principal := PrincipalContext_norm (pr_principal r)\<rparr>"

definition PermissionDecision_wf :: "PermissionDecision \<Rightarrow> bool" where
  "PermissionDecision_wf d =
     (returns (PermissionDecision_init d) \<and> opt_stamp (pd_expires_at d))"

definition PermissionDecision_norm :: "PermissionDecision \<Rightarrow> PermissionDecision" where
  "PermissionDecision_norm d = d\<lparr>pd_expires_at := map_option to_utc (pd_expires_at d)\<rparr>"

section \<open>Lemmas\<close>

interpretation po: str_enum PermissionOutcome_members PermissionOutcome_value
proof unfold_locales
  fix x show "x \<in> set PermissionOutcome_members"
    by (cases x) (simp_all add: PermissionOutcome_members_def)
qed (simp add: PermissionOutcome_members_def)

lemma nested_JObj [simp, codec_simps]:
  "item v k = Inr (JObj d) \<Longrightarrow> nested v k loader = loader d"
  by (simp add: nested_def)

lemma int_or_none_opt [simp, codec_simps]: "int_or_none (opt JInt v) = Inr v"
  by (cases v) (simp_all add: int_or_none_def)

lemma temporary_check_None [check_simps]:
  "temporary_check out ex ap what = None \<longleftrightarrow>
     (out = PO_TEMPORARILY_ALLOWED \<longleftrightarrow> ex \<noteq> None) \<and> (out = PO_TEMPORARILY_ALLOWED \<longrightarrow> ap \<noteq> None)"
  by (auto simp: temporary_check_def check_simps)

lemma PermissionRequest_init_iff:
  "returns (PermissionRequest_init r) \<longleftrightarrow>
     valid_identifier (pr_request_id r) \<and> valid_identifier (pr_capability_id r) \<and>
     valid_identifier (pr_operation r) \<and>
     tenant_admits (pc_tenant_id (pr_principal r)) (pr_security_domain r) \<and>
     list_all valid_identifier (pr_resource_scope r) \<and>
     (\<forall>n. pr_requested_duration_seconds r = Some n \<longrightarrow> 0 < n)"
  by (simp add: PermissionRequest_init_def check_simps)

lemma PermissionDecision_init_iff:
  "returns (PermissionDecision_init d) \<longleftrightarrow>
     valid_identifier (pd_request_id d) \<and> \<not> blank (pd_reason d) \<and>
     (\<forall>s. pd_policy_ref d = Some s \<longrightarrow> valid_identifier s) \<and>
     (\<forall>s. pd_approver_id d = Some s \<longrightarrow> valid_identifier s) \<and>
     (\<forall>s. pd_approval_ref d = Some s \<longrightarrow> valid_identifier s) \<and>
     list_all valid_identifier (pd_effective_scope d) \<and>
     (\<forall>t. pd_expires_at d = Some t \<longrightarrow> \<not> tzinfo_None t) \<and>
     (pd_outcome d = PO_TEMPORARILY_ALLOWED \<longleftrightarrow> pd_expires_at d \<noteq> None) \<and>
     (pd_outcome d = PO_TEMPORARILY_ALLOWED \<longrightarrow> pd_approval_ref d \<noteq> None) \<and>
     (pd_outcome d = PO_ALLOWED_WITHIN_SCOPE \<longrightarrow> pd_effective_scope d \<noteq> [])"
  by (auto simp: PermissionDecision_init_def check_simps)

lemma PermissionDecision_init_Inr:
  "PermissionDecision_init d = Inr d' \<longleftrightarrow> d' = d \<and> returns (PermissionDecision_init d)"
  by (auto simp: PermissionDecision_init_def check_simps)

lemma PermissionRequest_init_Inr:
  "PermissionRequest_init r = Inr r' \<longleftrightarrow> r' = r \<and> returns (PermissionRequest_init r)"
  by (auto simp: PermissionRequest_init_def check_simps)

lemma PermissionRequest_wf_norm:
  "PermissionRequest_wf r \<Longrightarrow> PermissionRequest_wf (PermissionRequest_norm r)"
  by (simp add: PermissionRequest_wf_def PermissionRequest_init_iff PermissionRequest_norm_def
      pc.wf_norm) (simp add: PrincipalContext_norm_def)

interpretation pr: codec PermissionRequest_to_dict PermissionRequest_from_dict
  PermissionRequest_wf PermissionRequest_norm
proof unfold_locales
  fix x :: PermissionRequest
  assume wf: "PermissionRequest_wf x"
  then have "PermissionRequest_init (PermissionRequest_norm x) = Inr (PermissionRequest_norm x)"
    using PermissionRequest_wf_norm [OF wf]
    by (simp add: PermissionRequest_wf_def PermissionRequest_init_Inr)
  then show "PermissionRequest_from_dict (PermissionRequest_to_dict x) = Inr (PermissionRequest_norm x)"
    using wf by (cases x) (simp add: PermissionRequest_from_dict_def str_item_def
        PermissionRequest_to_dict_def PermissionRequest_norm_def PermissionRequest_wf_def
        pc.dec_enc pu.dec_enc sd.dec_enc cl.dec_enc)
next
  fix x assume wf: "PermissionRequest_wf x"
  then show "PermissionRequest_wf (PermissionRequest_norm x)" by (rule PermissionRequest_wf_norm)
  from wf show "PermissionRequest_to_dict (PermissionRequest_norm x) = PermissionRequest_to_dict x"
    by (simp add: PermissionRequest_to_dict_def PermissionRequest_norm_def PermissionRequest_wf_def
        pc.enc_norm)
qed

lemma PermissionDecision_wf_norm:
  "PermissionDecision_wf d \<Longrightarrow> PermissionDecision_wf (PermissionDecision_norm d)"
  by (auto simp: PermissionDecision_wf_def PermissionDecision_norm_def PermissionDecision_init_iff)

interpretation pd: codec PermissionDecision_to_dict PermissionDecision_from_dict
  PermissionDecision_wf PermissionDecision_norm
proof unfold_locales
  fix x :: PermissionDecision
  assume wf: "PermissionDecision_wf x"
  then have "PermissionDecision_init (PermissionDecision_norm x) = Inr (PermissionDecision_norm x)"
    using PermissionDecision_wf_norm [OF wf]
    by (simp add: PermissionDecision_wf_def PermissionDecision_init_Inr)
  then show "PermissionDecision_from_dict (PermissionDecision_to_dict x) =
      Inr (PermissionDecision_norm x)"
    using wf by (cases x) (simp add: PermissionDecision_from_dict_def str_item_def po.of_val
        PermissionDecision_to_dict_def PermissionDecision_norm_def PermissionDecision_wf_def)
next
  fix x assume wf: "PermissionDecision_wf x"
  then show "PermissionDecision_wf (PermissionDecision_norm x)" by (rule PermissionDecision_wf_norm)
  from wf show "PermissionDecision_to_dict (PermissionDecision_norm x) = PermissionDecision_to_dict x"
    by (simp add: PermissionDecision_to_dict_def PermissionDecision_norm_def)
qed

lemma is_allowed_outcome:
  "PermissionDecision_is_allowed d at_time clock = Inr True \<Longrightarrow>
     pd_outcome d \<in> {PO_ALLOWED, PO_ALLOWED_WITHIN_SCOPE, PO_TEMPORARILY_ALLOWED}"
  by (auto simp: PermissionDecision_is_allowed_def split: if_splits)

end
