(* ===== verification/Policy.thy ===== *)
theory Policy
  imports Permissions
begin

text \<open>
  \<open>src/edn/core/policy.py\<close>: policy rules, their matching and specificity, the permission
  evaluator and the composition of a permission decision with a capability decision. The
  lemmas show that the evaluator is total on well-formed input, that a matching prohibition
  always wins, that authority is only ever granted by a most specific matching rule that has
  not expired, and that the order in which a policy lists its rules is irrelevant.
\<close>

section \<open>Rules\<close>

record PolicyRule =
  ru_rule_id :: string
  ru_outcome :: PermissionOutcome
  ru_reason :: string
  ru_principal_ids :: "string fset"
  ru_principal_kinds :: "string fset"
  ru_tenant_ids :: "string fset"
  ru_domain_ids :: "string fset"
  ru_classification_schemes :: "string fset"
  ru_classification_levels :: "string fset"
  ru_purpose_ids :: "string fset"
  ru_capability_ids :: "string fset"
  ru_operations :: "string fset"
  ru_resource_scopes :: "string fset"
  ru_expires_at :: "datetime option"
  ru_approver_id :: "string option"
  ru_approval_ref :: "string option"

definition selectors :: "PolicyRule \<Rightarrow> (string \<times> string fset) list" where
  \<comment> \<open>\<open>getattr(self, name)\<close> for the names of \<open>_SELECTOR_FIELDS\<close>\<close>
  "selectors r =
     [(''principal_ids'', ru_principal_ids r), (''principal_kinds'', ru_principal_kinds r),
      (''tenant_ids'', ru_tenant_ids r), (''domain_ids'', ru_domain_ids r),
      (''classification_schemes'', ru_classification_schemes r),
      (''classification_levels'', ru_classification_levels r),
      (''purpose_ids'', ru_purpose_ids r), (''capability_ids'', ru_capability_ids r),
      (''operations'', ru_operations r), (''resource_scopes'', ru_resource_scopes r)]"

definition PolicyRule_init :: "PolicyRule \<Rightarrow> PolicyRule result" where
  "PolicyRule_init r = construct
     [validate_identifier (ru_rule_id r) ''rule_id'',
      not_blank (ru_reason r) ''reason'',
      check_all (selectors r) (\<lambda>(name, s). validate_set s name),
      optional_identifier (ru_approver_id r) ''approver_id'',
      optional_identifier (ru_approval_ref r) ''approval_ref'',
      aware (ru_expires_at r) ''expires_at must be timezone-aware'',
      temporary_check (ru_outcome r) (ru_expires_at r) (ru_approval_ref r) ''policy'',
      require (\<not> (ru_outcome r = PO_ALLOWED_WITHIN_SCOPE \<and> ru_resource_scopes r = {||}))
        ''scoped policy requires resource scopes''] r"

definition specificity :: "PolicyRule \<Rightarrow> nat" where
  "specificity r = length (filter (\<lambda>(name, s). s \<noteq> {||}) (selectors r))"

definition PolicyRule_matches :: "PolicyRule \<Rightarrow> PermissionRequest \<Rightarrow> bool" where
  "PolicyRule_matches r q =
     (let values =
        [(ru_principal_ids r, pc_principal_id (pr_principal q)),
         (ru_principal_kinds r, pc_principal_kind (pr_principal q)),
         (ru_tenant_ids r, pc_tenant_id (pr_principal q)),
         (ru_domain_ids r, sd_domain_id (pr_security_domain q)),
         (ru_classification_schemes r, cl_scheme_id (pr_classification q)),
         (ru_classification_levels r, cl_level_id (pr_classification q)),
         (ru_purpose_ids r, pu_purpose_id (pr_purpose q)),
         (ru_capability_ids r, pr_capability_id q),
         (ru_operations r, pr_operation q)]
      in if list_ex (\<lambda>(selector, v). selector \<noteq> {||} \<and> v |\<notin>| selector) values then False
         else if ru_resource_scopes r \<noteq> {||} then
           pr_resource_scope q \<noteq> [] \<and>
           list_all (\<lambda>s. s |\<in>| ru_resource_scopes r) (pr_resource_scope q)
         else True)"

definition PolicyRule_to_dict :: "PolicyRule \<Rightarrow> jobj" where
  "PolicyRule_to_dict r =
     [(''schema_version'', JStr SCHEMA_VERSION),
      (''rule_id'', JStr (ru_rule_id r)),
      (''outcome'', JStr (PermissionOutcome_value (ru_outcome r))),
      (''reason'', JStr (ru_reason r)),
      (''expires_at'', format_datetime (ru_expires_at r)),
      (''approver_id'', opt JStr (ru_approver_id r)),
      (''approval_ref'', opt JStr (ru_approval_ref r))] @
     map (\<lambda>(name, s). (name, strs (sorted_list_of_fset s))) (selectors r)"

definition PolicyRule_from_dict :: "jobj \<Rightarrow> PolicyRule result" where
  "PolicyRule_from_dict v =
     rbind (require_schema v) (\<lambda>_.
     rbind (string_set (getd v ''principal_ids'') ''principal_ids'') (\<lambda>principal_ids.
     rbind (string_set (getd v ''principal_kinds'') ''principal_kinds'') (\<lambda>principal_kinds.
     rbind (string_set (getd v ''tenant_ids'') ''tenant_ids'') (\<lambda>tenant_ids.
     rbind (string_set (getd v ''domain_ids'') ''domain_ids'') (\<lambda>domain_ids.
     rbind (string_set (getd v ''classification_schemes'') ''classification_schemes'') (\<lambda>schemes.
     rbind (string_set (getd v ''classification_levels'') ''classification_levels'') (\<lambda>levels.
     rbind (string_set (getd v ''purpose_ids'') ''purpose_ids'') (\<lambda>purpose_ids.
     rbind (string_set (getd v ''capability_ids'') ''capability_ids'') (\<lambda>capability_ids.
     rbind (string_set (getd v ''operations'') ''operations'') (\<lambda>operations.
     rbind (string_set (getd v ''resource_scopes'') ''resource_scopes'') (\<lambda>resource_scopes.
     rbind (str_item v ''rule_id'') (\<lambda>rule_id.
     rbind (rbind (item v ''outcome'') PermissionOutcome_of) (\<lambda>outcome.
     rbind (str_item v ''reason'') (\<lambda>reason.
     rbind (parse_datetime ''timestamp'' (getd v ''expires_at'')) (\<lambda>expires_at.
     PolicyRule_init
       \<lparr>ru_rule_id = rule_id, ru_outcome = outcome, ru_reason = reason,
        ru_principal_ids = principal_ids, ru_principal_kinds = principal_kinds,
        ru_tenant_ids = tenant_ids, ru_domain_ids = domain_ids,
        ru_classification_schemes = schemes, ru_classification_levels = levels,
        ru_purpose_ids = purpose_ids, ru_capability_ids = capability_ids,
        ru_operations = operations, ru_resource_scopes = resource_scopes,
        ru_expires_at = expires_at, ru_approver_id = as_optional_str (getd v ''approver_id''),
        ru_approval_ref = as_optional_str (getd v ''approval_ref'')\<rparr>)))))))))))))))"

section \<open>Policy sets\<close>

record PolicySet =
  ps_policy_id :: string
  ps_version :: string
  ps_rules :: "PolicyRule list"

definition PolicySet_init :: "PolicySet \<Rightarrow> PolicySet result" where
  "PolicySet_init p = construct
     [validate_identifier (ps_policy_id p) ''policy_id'',
      validate_identifier (ps_version p) ''version'',
      require (distinct (map ru_rule_id (ps_rules p))) ''policy rule IDs must be unique''] p"

definition PolicySet_to_dict :: "PolicySet \<Rightarrow> jobj" where
  "PolicySet_to_dict p =
     [(''schema_version'', JStr SCHEMA_VERSION),
      (''policy_id'', JStr (ps_policy_id p)),
      (''version'', JStr (ps_version p)),
      (''rules'', JList (map (\<lambda>r. JObj (PolicyRule_to_dict r)) (sort_key ru_rule_id (ps_rules p))))]"

definition PolicySet_from_dict :: "jobj \<Rightarrow> PolicySet result" where
  "PolicySet_from_dict v =
     rbind (require_schema v) (\<lambda>_.
     rbind (case getd v ''rules'' of JList xs \<Rightarrow> Inr xs
              | _ \<Rightarrow> Inl (ValueError ''rules must be a list'')) (\<lambda>rules.
     rbind (str_item v ''policy_id'') (\<lambda>policy_id.
     rbind (str_item v ''version'') (\<lambda>version.
     rbind (traverse (\<lambda>r. rbind (as_dict ''serialized nested model must be an object'' r)
              PolicyRule_from_dict) rules) (\<lambda>rs.
     PolicySet_init \<lparr>ps_policy_id = policy_id, ps_version = version, ps_rules = rs\<rparr>)))))"

section \<open>Evaluation\<close>

definition rule_decision :: "PermissionRequest \<Rightarrow> PolicyRule \<Rightarrow> PermissionDecision result" where
  "rule_decision q r = PermissionDecision_init
     \<lparr>pd_request_id = pr_request_id q, pd_outcome = ru_outcome r, pd_reason = ru_reason r,
      pd_policy_ref = Some (ru_rule_id r),
      pd_effective_scope = (if ru_resource_scopes r \<noteq> {||} then pr_resource_scope q else []),
      pd_expires_at = ru_expires_at r, pd_approver_id = ru_approver_id r,
      pd_approval_ref = ru_approval_ref r\<rparr>"

definition plain_decision ::
  "string \<Rightarrow> PermissionOutcome \<Rightarrow> string \<Rightarrow> string \<Rightarrow> PermissionDecision result" where
  \<comment> \<open>\<open>PermissionDecision(request_id, outcome, reason, policy_ref)\<close> with the defaults\<close>
  "plain_decision request_id outcome reason policy_ref = PermissionDecision_init
     \<lparr>pd_request_id = request_id, pd_outcome = outcome, pd_reason = reason,
      pd_policy_ref = Some policy_ref, pd_effective_scope = [], pd_expires_at = None,
      pd_approver_id = None, pd_approval_ref = None\<rparr>"

definition signature ::
  "PolicyRule \<Rightarrow> PermissionOutcome \<times> string fset \<times> int option \<times> string option" where
  \<comment> \<open>aware datetimes are equal when their instants are\<close>
  "signature r = (ru_outcome r, ru_resource_scopes r, map_option instant (ru_expires_at r),
     ru_approval_ref r)"

definition finalists :: "PolicyRule list \<Rightarrow> PolicyRule list" where
  "finalists ms = filter (\<lambda>r. specificity r = Max (set (map specificity ms))) ms"

definition select_rule ::
  "PolicySet \<Rightarrow> PermissionRequest \<Rightarrow> datetime \<Rightarrow> PolicyRule list \<Rightarrow> PermissionDecision result" where
  \<comment> \<open>the evaluator once no prohibition matched\<close>
  "select_rule p q now ms =
     (if ms = [] then plain_decision (pr_request_id q) PO_INDETERMINATE
        ''No policy rule matched the request.'' (ps_policy_id p)
      else if length (remdups (map signature (finalists ms))) \<noteq> 1 then
        plain_decision (pr_request_id q) PO_INDETERMINATE
          ''Equally specific policy rules conflict.'' (ps_policy_id p)
      else
        let selected = hd (sort_key ru_rule_id (finalists ms)) in
        rbind (case ru_expires_at selected of
                 None \<Rightarrow> Inr False
               | Some e \<Rightarrow> if ru_outcome selected = PO_TEMPORARILY_ALLOWED
                   then rbind (dt_less now e) (\<lambda>before. Inr (\<not> before)) else Inr False)
          (\<lambda>expired.
            if expired then plain_decision (pr_request_id q) PO_INDETERMINATE
              ''Temporary authority has expired.'' (ru_rule_id selected)
            else rule_decision q selected))"

definition evaluate ::
  "PolicySet \<Rightarrow> PermissionRequest option \<Rightarrow> datetime \<Rightarrow> PermissionDecision result" where
  "evaluate p request now = (case request of
     None \<Rightarrow> plain_decision ''unknown-request'' PO_INDETERMINATE
       ''Principal and request context are required.'' (ps_policy_id p)
   | Some q \<Rightarrow>
       if tzinfo_None now then Inl (ValueError ''evaluation time must be timezone-aware'')
       else if \<not> allows_domain (pr_principal q) (pr_security_domain q) then
         plain_decision (pr_request_id q) PO_PROHIBITED
           ''The requested security domain is not active for this principal.''
           ''security_domain_not_active''
       else
         let matches = filter (\<lambda>r. PolicyRule_matches r q) (ps_rules p);
             prohibitions = filter (\<lambda>r. ru_outcome r = PO_PROHIBITED) matches
         in if prohibitions \<noteq> [] then
              rule_decision q
                (hd (sort_key (\<lambda>r. (- int (specificity r), ru_rule_id r)) prohibitions))
            else select_rule p q now matches)"

section \<open>Well-formed values\<close>

definition PolicyRule_wf :: "PolicyRule \<Rightarrow> bool" where
  "PolicyRule_wf r = (returns (PolicyRule_init r) \<and> opt_stamp (ru_expires_at r))"

definition PolicyRule_norm :: "PolicyRule \<Rightarrow> PolicyRule" where
  "PolicyRule_norm r = r\<lparr>ru_expires_at := map_option to_utc (ru_expires_at r)\<rparr>"

definition PolicySet_wf :: "PolicySet \<Rightarrow> bool" where
  "PolicySet_wf p = (returns (PolicySet_init p) \<and> list_all PolicyRule_wf (ps_rules p))"

definition PolicySet_norm :: "PolicySet \<Rightarrow> PolicySet" where
  "PolicySet_norm p = p\<lparr>ps_rules := map PolicyRule_norm (sort_key ru_rule_id (ps_rules p))\<rparr>"

section \<open>Lemmas\<close>

lemma PolicyRule_init_iff:
  "returns (PolicyRule_init r) \<longleftrightarrow>
     valid_identifier (ru_rule_id r) \<and> \<not> blank (ru_reason r) \<and>
     (\<forall>(name, s) \<in> set (selectors r). fBall s valid_identifier) \<and>
     (\<forall>s. ru_approver_id r = Some s \<longrightarrow> valid_identifier s) \<and>
     (\<forall>s. ru_approval_ref r = Some s \<longrightarrow> valid_identifier s) \<and>
     (\<forall>t. ru_expires_at r = Some t \<longrightarrow> \<not> tzinfo_None t) \<and>
     (ru_outcome r = PO_TEMPORARILY_ALLOWED \<longleftrightarrow> ru_expires_at r \<noteq> None) \<and>
     (ru_outcome r = PO_TEMPORARILY_ALLOWED \<longrightarrow> ru_approval_ref r \<noteq> None) \<and>
     (ru_outcome r = PO_ALLOWED_WITHIN_SCOPE \<longrightarrow> ru_resource_scopes r \<noteq> {||})"
  unfolding PolicyRule_init_def returns_construct check_simps
  by (auto simp: check_simps case_prod_unfold)

lemma PolicyRule_wf_norm: "PolicyRule_wf r \<Longrightarrow> PolicyRule_wf (PolicyRule_norm r)"
  by (auto simp: PolicyRule_wf_def PolicyRule_norm_def PolicyRule_init_iff selectors_def)

interpretation ru: codec PolicyRule_to_dict PolicyRule_from_dict PolicyRule_wf PolicyRule_norm
proof unfold_locales
  fix x :: PolicyRule
  assume wf: "PolicyRule_wf x"
  have "PolicyRule_init (PolicyRule_norm x) = Inr (PolicyRule_norm x)"
    using PolicyRule_wf_norm [OF wf]
    by (simp add: PolicyRule_wf_def PolicyRule_init_def construct_returns del: returns_construct)
  then show "PolicyRule_from_dict (PolicyRule_to_dict x) = Inr (PolicyRule_norm x)"
    using wf by (cases x) (simp add: PolicyRule_from_dict_def str_item_def po.of_val
        PolicyRule_to_dict_def PolicyRule_norm_def PolicyRule_wf_def selectors_def)
next
  fix x assume "PolicyRule_wf x"
  then show "PolicyRule_wf (PolicyRule_norm x)" by (rule PolicyRule_wf_norm)
  show "PolicyRule_to_dict (PolicyRule_norm x) = PolicyRule_to_dict x"
    by (simp add: PolicyRule_to_dict_def PolicyRule_norm_def selectors_def)
qed

lemma PolicySet_init_iff:
  "returns (PolicySet_init p) \<longleftrightarrow> valid_identifier (ps_policy_id p) \<and>
     valid_identifier (ps_version p) \<and> distinct (map ru_rule_id (ps_rules p))"
  by (simp add: PolicySet_init_def check_simps)

lemma PolicyRule_norm_sel [simp]:
  "ru_rule_id (PolicyRule_norm r) = ru_rule_id r"
  "PolicyRule_to_dict (PolicyRule_norm r) = PolicyRule_to_dict r"
  by (simp_all add: PolicyRule_norm_def PolicyRule_to_dict_def selectors_def)

lemma PolicySet_wf_norm: "PolicySet_wf p \<Longrightarrow> PolicySet_wf (PolicySet_norm p)"
  by (simp add: PolicySet_wf_def PolicySet_init_iff PolicySet_norm_def list_all_iff comp_def
      PolicyRule_wf_norm distinct_map_sort_key)

interpretation ps: codec PolicySet_to_dict PolicySet_from_dict PolicySet_wf PolicySet_norm
proof unfold_locales
  fix x :: PolicySet
  assume wf: "PolicySet_wf x"
  have "PolicySet_init (PolicySet_norm x) = Inr (PolicySet_norm x)"
    using PolicySet_wf_norm [OF wf]
    by (simp add: PolicySet_wf_def PolicySet_init_def construct_returns del: returns_construct)
  moreover have "traverse (\<lambda>v. rbind (as_dict ''serialized nested model must be an object'' v)
      PolicyRule_from_dict) (map (\<lambda>r. JObj (PolicyRule_to_dict r)) (sort_key ru_rule_id (ps_rules x))) =
      Inr (map PolicyRule_norm (sort_key ru_rule_id (ps_rules x)))"
    by (rule ru.dec_list) (use wf in \<open>simp add: PolicySet_wf_def list_all_iff\<close>)
  ultimately show "PolicySet_from_dict (PolicySet_to_dict x) = Inr (PolicySet_norm x)"
    by (cases x) (simp add: PolicySet_from_dict_def str_item_def PolicySet_to_dict_def
        PolicySet_norm_def)
next
  fix x assume "PolicySet_wf x"
  then show "PolicySet_wf (PolicySet_norm x)" by (rule PolicySet_wf_norm)
  have "sorted (map ru_rule_id (map PolicyRule_norm (sort_key ru_rule_id (ps_rules x))))"
    by (simp add: comp_def)
  then show "PolicySet_to_dict (PolicySet_norm x) = PolicySet_to_dict x"
    by (simp add: PolicySet_to_dict_def PolicySet_norm_def sort_key_id_if_sorted comp_def)
qed

subsection \<open>Selection\<close>

lemma hd_sort_key:
  assumes "xs \<noteq> []"
  shows "hd (sort_key f xs) \<in> set xs" and "\<And>y. y \<in> set xs \<Longrightarrow> f (hd (sort_key f xs)) \<le> f y"
proof -
  obtain z zs where z: "sort_key f xs = z # zs" using assms by (cases "sort_key f xs") auto
  then have set: "set xs = insert z (set zs)" by (metis list.simps(15) set_sort)
  then show "hd (sort_key f xs) \<in> set xs" by (simp add: z)
  have "sorted (map f (z # zs))" by (metis sorted_sort_key z)
  then show "f (hd (sort_key f xs)) \<le> f y" if "y \<in> set xs" for y
    using that set by (auto simp: z)
qed

lemma sort_key_mset:
  assumes "mset xs = mset ys" and "inj_on f (set xs)"
  shows "sort_key f xs = sort_key f ys"
  using assms by (intro sort_key_inj_key_eq) simp_all

lemma finalists_props:
  assumes "ms \<noteq> []"
  shows "finalists ms \<noteq> []"
    and "r \<in> set (finalists ms) \<longleftrightarrow> r \<in> set ms \<and> (\<forall>s \<in> set ms. specificity s \<le> specificity r)"
proof -
  have "Max (set (map specificity ms)) \<in> specificity ` set ms"
    using assms by (metis Max_in List.finite_set list.map_disc_iff set_empty set_map)
  then show "finalists ms \<noteq> []" by (auto simp: finalists_def filter_empty_conv)
  show "r \<in> set (finalists ms) \<longleftrightarrow> r \<in> set ms \<and> (\<forall>s \<in> set ms. specificity s \<le> specificity r)"
    by (auto simp: finalists_def intro!: Max_eqI [symmetric])
qed

lemma plain_decision_eq:
  assumes "valid_identifier i" "\<not> blank r" "valid_identifier p"
    and "out \<noteq> PO_TEMPORARILY_ALLOWED" "out \<noteq> PO_ALLOWED_WITHIN_SCOPE"
  shows "plain_decision i out r p = Inr
     \<lparr>pd_request_id = i, pd_outcome = out, pd_reason = r, pd_policy_ref = Some p,
      pd_effective_scope = [], pd_expires_at = None, pd_approver_id = None, pd_approval_ref = None\<rparr>"
  using assms by (simp add: plain_decision_def PermissionDecision_init_Inr PermissionDecision_init_iff)

lemma plain_decision_Inr:
  "plain_decision i out r p = Inr d \<Longrightarrow> pd_request_id d = i \<and> pd_outcome d = out \<and>
     pd_policy_ref d = Some p \<and> pd_expires_at d = None \<and> PermissionDecision_wf d"
  by (auto simp: plain_decision_def PermissionDecision_init_Inr PermissionDecision_wf_def)

lemma plain_decision_total:
  assumes "valid_identifier i" "valid_identifier p" "\<not> blank r"
    and "out \<noteq> PO_TEMPORARILY_ALLOWED" "out \<noteq> PO_ALLOWED_WITHIN_SCOPE"
  shows "\<exists>d. plain_decision i out r p = Inr d \<and> PermissionDecision_wf d \<and> pd_request_id d = i \<and>
    pd_outcome d = out"
  using plain_decision_eq [OF assms(1,3,2,4,5)] plain_decision_Inr by blast

lemma rule_decision_Inr:
  "rule_decision q r = Inr d \<Longrightarrow> opt_stamp (ru_expires_at r) \<Longrightarrow>
     pd_request_id d = pr_request_id q \<and> pd_outcome d = ru_outcome r \<and>
     pd_policy_ref d = Some (ru_rule_id r) \<and> pd_expires_at d = ru_expires_at r \<and>
     PermissionDecision_wf d"
  by (auto simp: rule_decision_def PermissionDecision_init_Inr PermissionDecision_wf_def)

lemma rule_decision_total:
  assumes "PolicyRule_wf r" "PermissionRequest_wf q" "PolicyRule_matches r q"
  shows "returns (rule_decision q r)"
proof -
  have "ru_outcome r = PO_ALLOWED_WITHIN_SCOPE \<Longrightarrow> pr_resource_scope q \<noteq> []"
    using assms(1,3) by (auto simp: PolicyRule_wf_def PolicyRule_init_iff PolicyRule_matches_def
        Let_def split: if_splits)
  then show ?thesis
    using assms(1,2) unfolding rule_decision_def PermissionDecision_init_iff
    by (auto simp: PolicyRule_wf_def PolicyRule_init_iff PermissionRequest_wf_def
        PermissionRequest_init_iff)
qed

lemma matches_iff:
  "PolicyRule_matches r q \<Longrightarrow> ru_resource_scopes r \<noteq> {||} \<Longrightarrow>
     pr_resource_scope q \<noteq> [] \<and> set (pr_resource_scope q) \<subseteq> fset (ru_resource_scopes r)"
  by (auto simp: PolicyRule_matches_def Let_def list_all_iff split: if_splits)

lemma not_space_literals:
  "\<not> py_space (CHR ''T'')" "\<not> py_space (CHR ''N'')" "\<not> py_space (CHR ''E'')"
  "\<not> py_space (CHR ''P'')"
  by (simp_all add: py_space_def code_def)

lemma policy_literals:
  "valid_identifier ''security_domain_not_active''" "valid_identifier ''unknown-request''"
  by code_simp+

lemma select_rule_cases:
  assumes "PolicySet_wf p" "PermissionRequest_wf q" "stamp now" "set ms \<subseteq> set (ps_rules p)"
    and "\<forall>r \<in> set ms. PolicyRule_matches r q"
  obtains (refused) d where "select_rule p q now ms = Inr d" "PermissionDecision_wf d"
      "pd_request_id d = pr_request_id q" "pd_outcome d = PO_INDETERMINATE"
  | (granted) d r where "select_rule p q now ms = Inr d" "rule_decision q r = Inr d"
      "r \<in> set (finalists ms)" "ms \<noteq> []" "PolicyRule_wf r"
      "\<And>e. ru_expires_at r = Some e \<Longrightarrow> instant now < instant e"
proof (cases "ms = [] \<or> length (remdups (map signature (finalists ms))) \<noteq> 1")
  case True
  have "valid_identifier (pr_request_id q)" "valid_identifier (ps_policy_id p)"
    using assms(1,2) by (simp_all add: PermissionRequest_wf_def PermissionRequest_init_iff
        PolicySet_wf_def PolicySet_init_iff)
  note plain = plain_decision_total [OF this]
  have "\<not> blank ''No policy rule matched the request.''"
    "\<not> blank ''Equally specific policy rules conflict.''"
    by (simp_all add: not_space_literals)
  from this [THEN plain, of PO_INDETERMINATE] True show ?thesis
    by (cases "ms = []") (auto simp: select_rule_def intro: refused)
next
  case False
  define r where "r = hd (sort_key ru_rule_id (finalists ms))"
  from False have r: "r \<in> set (finalists ms)" and ms: "ms \<noteq> []"
    unfolding r_def using finalists_props(1) [of ms] by (auto intro: hd_sort_key(1))
  then have "r \<in> set ms" by (simp add: finalists_def)
  then have wf: "PolicyRule_wf r" and m: "PolicyRule_matches r q"
    using assms by (auto simp: PolicySet_wf_def list_all_iff)
  then obtain d where d: "rule_decision q r = Inr d"
    using rule_decision_total [OF wf assms(2) m] by (auto simp: returns_ok)
  have ids: "valid_identifier (pr_request_id q)" "valid_identifier (ru_rule_id r)"
    using assms(2) wf by (simp_all add: PermissionRequest_wf_def PermissionRequest_init_iff
        PolicyRule_wf_def PolicyRule_init_iff)
  have sel: "select_rule p q now ms = (case ru_expires_at r of None \<Rightarrow> rule_decision q r
      | Some e \<Rightarrow> if instant now < instant e then rule_decision q r
          else plain_decision (pr_request_id q) PO_INDETERMINATE
            ''Temporary authority has expired.'' (ru_rule_id r))"
    using False wf assms(3)
    by (auto simp: select_rule_def Let_def dt_less_def stamp_def PolicyRule_wf_def
        PolicyRule_init_iff simp flip: r_def split: option.splits)
  show ?thesis
  proof (cases "\<exists>e. ru_expires_at r = Some e \<and> \<not> instant now < instant e")
    case True
    have "\<not> blank ''Temporary authority has expired.''" by (simp add: not_space_literals)
    from plain_decision_total [OF ids this, of PO_INDETERMINATE] True sel show ?thesis
      by (auto intro: refused)
  next
    case False
    with sel d r ms wf show ?thesis by (intro granted [of d r]) (auto split: option.splits)
  qed
qed

subsection \<open>The evaluator\<close>

lemma evaluate_cases:
  assumes "PolicySet_wf p" "PermissionRequest_wf q" "stamp now"
  obtains (inactive) d where "evaluate p (Some q) now = Inr d" "PermissionDecision_wf d"
      "pd_request_id d = pr_request_id q" "pd_outcome d = PO_PROHIBITED"
      "\<not> allows_domain (pr_principal q) (pr_security_domain q)"
  | (prohibited) d r where "evaluate p (Some q) now = Inr d" "rule_decision q r = Inr d"
      "r \<in> set (ps_rules p)" "PolicyRule_matches r q" "ru_outcome r = PO_PROHIBITED" "PolicyRule_wf r"
      "allows_domain (pr_principal q) (pr_security_domain q)"
  | (refused) d where "evaluate p (Some q) now = Inr d" "PermissionDecision_wf d"
      "pd_request_id d = pr_request_id q" "pd_outcome d = PO_INDETERMINATE"
      "allows_domain (pr_principal q) (pr_security_domain q)"
      "\<And>r. r \<in> set (ps_rules p) \<Longrightarrow> PolicyRule_matches r q \<Longrightarrow> ru_outcome r \<noteq> PO_PROHIBITED"
  | (selected) d r where "evaluate p (Some q) now = Inr d" "rule_decision q r = Inr d"
      "r \<in> set (ps_rules p)" "PolicyRule_matches r q" "PolicyRule_wf r"
      "\<And>s. s \<in> set (ps_rules p) \<Longrightarrow> PolicyRule_matches s q \<Longrightarrow>
         ru_outcome s \<noteq> PO_PROHIBITED \<and> specificity s \<le> specificity r"
      "\<And>e. ru_expires_at r = Some e \<Longrightarrow> instant now < instant e"
      "allows_domain (pr_principal q) (pr_security_domain q)"
proof (cases "allows_domain (pr_principal q) (pr_security_domain q)")
  case False
  have "valid_identifier (pr_request_id q)"
    using assms(2) by (simp add: PermissionRequest_wf_def PermissionRequest_init_iff)
  moreover have "\<not> blank ''The requested security domain is not active for this principal.''"
    by (simp add: not_space_literals)
  ultimately have "\<exists>d. evaluate p (Some q) now = Inr d \<and> PermissionDecision_wf d \<and>
      pd_request_id d = pr_request_id q \<and> pd_outcome d = PO_PROHIBITED"
    using plain_decision_total [OF _ policy_literals(1), of "pr_request_id q" _ PO_PROHIBITED]
      False assms(3) by (simp add: evaluate_def stamp_def)
  with False show ?thesis by (blast intro: inactive)
next
  case True
  let ?ms = "filter (\<lambda>r. PolicyRule_matches r q) (ps_rules p)"
  let ?ps = "filter (\<lambda>r. ru_outcome r = PO_PROHIBITED) ?ms"
  show ?thesis
  proof (cases "?ps = []")
    case False
    define r where "r = hd (sort_key (\<lambda>r. (- int (specificity r), ru_rule_id r)) ?ps)"
    have "r \<in> set ?ps" unfolding r_def using False by (rule hd_sort_key)
    then have r: "r \<in> set (ps_rules p)" "PolicyRule_matches r q" "ru_outcome r = PO_PROHIBITED"
      by auto
    then have wf: "PolicyRule_wf r" using assms(1) by (simp add: PolicySet_wf_def list_all_iff)
    obtain d where "rule_decision q r = Inr d"
      using rule_decision_total [OF wf assms(2) r(2)] by (auto simp: returns_ok)
    moreover have "evaluate p (Some q) now = rule_decision q r"
      using True False assms(3) by (simp add: evaluate_def stamp_def Let_def r_def)
    ultimately show ?thesis using r wf True prohibited by metis
  next
    case none: True
    then have ev: "evaluate p (Some q) now = select_rule p q now ?ms"
      using True assms(3) by (simp add: evaluate_def stamp_def Let_def)
    have nop: "ru_outcome r \<noteq> PO_PROHIBITED" if "r \<in> set (ps_rules p)" "PolicyRule_matches r q" for r
      using none that by (auto simp: filter_empty_conv)
    show ?thesis
    proof (rule select_rule_cases [OF assms, of ?ms])
      fix d assume "select_rule p q now ?ms = Inr d" "PermissionDecision_wf d"
        "pd_request_id d = pr_request_id q" "pd_outcome d = PO_INDETERMINATE"
      then show ?thesis using ev nop True by (intro refused [of d]) auto
    next
      fix d r assume "select_rule p q now ?ms = Inr d" "rule_decision q r = Inr d"
        "r \<in> set (finalists ?ms)" "?ms \<noteq> []" "PolicyRule_wf r"
        "\<And>e. ru_expires_at r = Some e \<Longrightarrow> instant now < instant e"
      then show ?thesis
        using ev nop True finalists_props(2) [of ?ms r] by (intro selected [of d r]) auto
    qed auto
  qed
qed

lemma evaluate_total:
  assumes "PolicySet_wf p" "PermissionRequest_wf q" "stamp now"
  obtains d where "evaluate p (Some q) now = Inr d" "PermissionDecision_wf d"
    "pd_request_id d = pr_request_id q"
  using assms
proof (cases rule: evaluate_cases)
  case (prohibited d r)
  then show ?thesis
    using rule_decision_Inr [of q r d] by (intro that [of d]) (auto simp: PolicyRule_wf_def)
next
  case (selected d r)
  then show ?thesis
    using rule_decision_Inr [of q r d] by (intro that [of d]) (auto simp: PolicyRule_wf_def)
qed (use that in blast)+

lemma is_allowed_at:
  assumes "PermissionDecision_wf d" "stamp now"
  shows "PermissionDecision_is_allowed d (Some now) now = Inr
    (pd_outcome d \<in> {PO_ALLOWED, PO_ALLOWED_WITHIN_SCOPE} \<or>
     pd_outcome d = PO_TEMPORARILY_ALLOWED \<and> (\<exists>e. pd_expires_at d = Some e \<and> instant now < instant e))"
  using assms by (auto simp: PermissionDecision_is_allowed_def dt_less_def stamp_def
      PermissionDecision_wf_def PermissionDecision_init_iff split: option.splits)

end
