(* ===== verification/CapabilityUse.thy ===== *)
theory CapabilityUse
  imports Policy
begin

text \<open>
  The second half of \<open>src/edn/core/policy.py\<close>: the composition of a capability decision
  (what the registry can do) with a permission decision (what the policy allows). The locale
  \<open>authorization\<close> states what the composition relies on from its two sources; the
  composition lemmas are proved once there and interpreted on the registry and the policy
  evaluator.
\<close>

datatype UseDecisionOutcome =
    UO_READY | UO_APPROVAL_REQUIRED | UO_PROHIBITED | UO_UNAVAILABLE | UO_AUTHENTICATION_REQUIRED
  | UO_PERMISSION_REQUIRED | UO_DEGRADED | UO_DISABLED | UO_INDETERMINATE

fun UseDecisionOutcome_value :: "UseDecisionOutcome \<Rightarrow> string" where
  "UseDecisionOutcome_value UO_READY = ''ready''"
| "UseDecisionOutcome_value UO_APPROVAL_REQUIRED = ''approval_required''"
| "UseDecisionOutcome_value UO_PROHIBITED = ''prohibited''"
| "UseDecisionOutcome_value UO_UNAVAILABLE = ''unavailable''"
| "UseDecisionOutcome_value UO_AUTHENTICATION_REQUIRED = ''authentication_required''"
| "UseDecisionOutcome_value UO_PERMISSION_REQUIRED = ''permission_required''"
| "UseDecisionOutcome_value UO_DEGRADED = ''degraded''"
| "UseDecisionOutcome_value UO_DISABLED = ''disabled''"
| "UseDecisionOutcome_value UO_INDETERMINATE = ''indeterminate''"

definition UseDecisionOutcome_members :: "UseDecisionOutcome list" where
  "UseDecisionOutcome_members =
     [UO_READY, UO_APPROVAL_REQUIRED, UO_PROHIBITED, UO_UNAVAILABLE, UO_AUTHENTICATION_REQUIRED,
      UO_PERMISSION_REQUIRED, UO_DEGRADED, UO_DISABLED, UO_INDETERMINATE]"

abbreviation UseDecisionOutcome_of :: "json \<Rightarrow> UseDecisionOutcome result" where
  "UseDecisionOutcome_of \<equiv> enum_of UseDecisionOutcome_members UseDecisionOutcome_value"

record CapabilityUseDecision =
  ud_request :: PermissionRequest
  ud_capability :: CapabilityDecision
  ud_permission :: PermissionDecision
  ud_outcome :: UseDecisionOutcome
  ud_reason_code :: string
  ud_explanation :: string
  ud_evaluated_at :: datetime

definition CapabilityUseDecision_init :: "CapabilityUseDecision \<Rightarrow> CapabilityUseDecision result" where
  "CapabilityUseDecision_init u = construct
     [validate_identifier (ud_reason_code u) ''reason_code'',
      not_blank (ud_explanation u) ''explanation'',
      require (\<not> tzinfo_None (ud_evaluated_at u)) ''evaluated_at must be timezone-aware''] u"

definition CapabilityUseDecision_is_usable :: "CapabilityUseDecision \<Rightarrow> bool" where
  "CapabilityUseDecision_is_usable u = (ud_outcome u = UO_READY)"

definition CapabilityUseDecision_to_dict :: "CapabilityUseDecision \<Rightarrow> jobj" where
  "CapabilityUseDecision_to_dict u =
     [(''schema_version'', JStr SCHEMA_VERSION),
      (''request'', JObj (PermissionRequest_to_dict (ud_request u))),
      (''capability'', JObj (CapabilityDecision_to_dict (ud_capability u))),
      (''permission'', JObj (PermissionDecision_to_dict (ud_permission u))),
      (''outcome'', JStr (UseDecisionOutcome_value (ud_outcome u))),
      (''reason_code'', JStr (ud_reason_code u)),
      (''explanation'', JStr (ud_explanation u)),
      (''evaluated_at'', format_datetime (Some (ud_evaluated_at u)))]"

definition CapabilityUseDecision_from_dict :: "jobj \<Rightarrow> CapabilityUseDecision result" where
  "CapabilityUseDecision_from_dict v =
     rbind (require_schema v) (\<lambda>_.
     rbind (required_datetime ''evaluated_at'' (getd v ''evaluated_at'')) (\<lambda>evaluated_at.
     rbind (nested v ''request'' PermissionRequest_from_dict) (\<lambda>request.
     rbind (nested v ''capability'' CapabilityDecision_from_dict) (\<lambda>capability.
     rbind (nested v ''permission'' PermissionDecision_from_dict) (\<lambda>permission.
     rbind (rbind (item v ''outcome'') UseDecisionOutcome_of) (\<lambda>outcome.
     rbind (str_item v ''reason_code'') (\<lambda>reason_code.
     rbind (str_item v ''explanation'') (\<lambda>explanation.
     CapabilityUseDecision_init
       \<lparr>ud_request = request, ud_capability = capability, ud_permission = permission,
        ud_outcome = outcome, ud_reason_code = reason_code, ud_explanation = explanation,
        ud_evaluated_at = evaluated_at\<rparr>))))))))"

section \<open>Composition\<close>

fun CAPABILITY_OUTCOMES :: "CapabilityStatus \<Rightarrow> UseDecisionOutcome" where
  "CAPABILITY_OUTCOMES CS_READY = UO_READY"
| "CAPABILITY_OUTCOMES CS_APPROVAL_REQUIRED = UO_APPROVAL_REQUIRED"
| "CAPABILITY_OUTCOMES CS_UNAVAILABLE = UO_UNAVAILABLE"
| "CAPABILITY_OUTCOMES CS_AUTHENTICATION_REQUIRED = UO_AUTHENTICATION_REQUIRED"
| "CAPABILITY_OUTCOMES CS_PERMISSION_REQUIRED = UO_PERMISSION_REQUIRED"
| "CAPABILITY_OUTCOMES CS_DEGRADED = UO_DEGRADED"
| "CAPABILITY_OUTCOMES CS_DISABLED = UO_DISABLED"
| "CAPABILITY_OUTCOMES CS_INDETERMINATE = UO_INDETERMINATE"

definition use_outcome ::
  "CapabilityDecision \<Rightarrow> PermissionDecision \<Rightarrow> datetime \<Rightarrow>
     (UseDecisionOutcome \<times> string \<times> string) result" where
  \<comment> \<open>the \<open>if\<close>/\<open>elif\<close> chain: outcome, reason code and explanation\<close>
  "use_outcome capability permission now =
     (if pd_outcome permission = PO_PROHIBITED then
        Inr (UO_PROHIBITED, ''permission_prohibited'', pd_reason permission)
      else if \<not> CapabilityDecision_is_usable capability then
        Inr (CAPABILITY_OUTCOMES (cd_status capability), cd_reason_code capability,
             cd_explanation capability)
      else if pd_outcome permission = PO_APPROVAL_REQUIRED then
        Inr (UO_APPROVAL_REQUIRED, ''approval_required'', pd_reason permission)
      else rbind (PermissionDecision_is_allowed permission (Some now) now) (\<lambda>allowed.
        if allowed then Inr (UO_READY, ''ready'', pd_reason permission)
        else Inr (UO_INDETERMINATE, ''permission_indeterminate'', pd_reason permission)))"

definition compose_use ::
  "PermissionRequest \<Rightarrow> CapabilityDecision \<Rightarrow> PermissionDecision \<Rightarrow> datetime \<Rightarrow>
     CapabilityUseDecision result" where
  "compose_use q capability permission now =
     rbind (use_outcome capability permission now) (\<lambda>(outcome, reason_code, explanation).
     CapabilityUseDecision_init
       \<lparr>ud_request = q, ud_capability = capability, ud_permission = permission,
        ud_outcome = outcome, ud_reason_code = reason_code, ud_explanation = explanation,
        ud_evaluated_at = now\<rparr>)"

definition evaluate_capability_use ::
  "registry \<Rightarrow> PolicySet \<Rightarrow> PermissionRequest \<Rightarrow> datetime \<Rightarrow> CapabilityUseDecision result" where
  "evaluate_capability_use reg p q now =
     rbind (registry_resolve reg (pr_capability_id q) (pr_operation q) (pr_security_domain q))
       (\<lambda>capability. rbind (evaluate p (Some q) now) (\<lambda>permission.
          compose_use q capability permission now))"

definition candidate_request ::
  "PrincipalContext \<Rightarrow> Purpose \<Rightarrow> SecurityDomain \<Rightarrow> Classification \<Rightarrow> string \<Rightarrow> string list \<Rightarrow>
     RegisteredCapability \<Rightarrow> PermissionRequest result" where
  "candidate_request actor purpose domain classification operation scope candidate =
     (let capability_id = cm_capability_id (rc_manifest candidate) in
      PermissionRequest_init
        \<lparr>pr_request_id = ''query:'' @ capability_id, pr_principal = actor,
         pr_purpose = purpose, pr_capability_id = capability_id, pr_operation = operation,
         pr_security_domain = domain, pr_classification = classification,
         pr_resource_scope = scope, pr_requested_duration_seconds = None\<rparr>)"

definition evaluate_operation_candidates ::
  "registry \<Rightarrow> PolicySet \<Rightarrow> PrincipalContext \<Rightarrow> Purpose \<Rightarrow> SecurityDomain \<Rightarrow> Classification \<Rightarrow>
     string \<Rightarrow> string list \<Rightarrow> datetime \<Rightarrow> CapabilityUseDecision list result" where
  "evaluate_operation_candidates reg p actor purpose domain classification operation scope now =
     rbind (construct [validate_identifier operation ''operation''] ()) (\<lambda>_.
     rbind (registry_list reg None (Some operation)) (\<lambda>candidates.
     traverse (\<lambda>c.
       rbind (candidate_request actor purpose domain classification operation scope c) (\<lambda>q.
         evaluate_capability_use reg p q now)) candidates))"

section \<open>Well-formed values\<close>

definition CapabilityUseDecision_wf :: "CapabilityUseDecision \<Rightarrow> bool" where
  "CapabilityUseDecision_wf u =
     (returns (CapabilityUseDecision_init u) \<and> PermissionRequest_wf (ud_request u) \<and>
      CapabilityDecision_wf (ud_capability u) \<and> PermissionDecision_wf (ud_permission u) \<and>
      stamp (ud_evaluated_at u))"

definition CapabilityUseDecision_norm :: "CapabilityUseDecision \<Rightarrow> CapabilityUseDecision" where
  "CapabilityUseDecision_norm u =
     u\<lparr>ud_request := PermissionRequest_norm (ud_request u),
       ud_permission := PermissionDecision_norm (ud_permission u),
       ud_evaluated_at := to_utc (ud_evaluated_at u)\<rparr>"

section \<open>The interface of the composition\<close>

locale authorization =
  fixes caps_ok :: "'c \<Rightarrow> bool"
    and resolve :: "'c \<Rightarrow> string \<Rightarrow> string \<Rightarrow> SecurityDomain \<Rightarrow> CapabilityDecision result"
    and usable :: "'c \<Rightarrow> string \<Rightarrow> string \<Rightarrow> SecurityDomain \<Rightarrow> bool"
    and policy_ok :: "'p \<Rightarrow> bool"
    and decide :: "'p \<Rightarrow> PermissionRequest \<Rightarrow> datetime \<Rightarrow> PermissionDecision result"
  assumes resolve_law: "caps_ok c \<Longrightarrow> valid_identifier i \<Longrightarrow> valid_identifier op \<Longrightarrow>
      valid_identifier (sd_domain_id sd) \<Longrightarrow>
      \<exists>d. resolve c i op sd = Inr d \<and> CapabilityDecision_wf d \<and> cd_capability_id d = i \<and>
        (cd_status d = CS_READY \<longleftrightarrow> usable c i op sd)"
    and decide_law: "policy_ok p \<Longrightarrow> PermissionRequest_wf q \<Longrightarrow> stamp now \<Longrightarrow>
      \<exists>d. decide p q now = Inr d \<and> PermissionDecision_wf d \<and> pd_request_id d = pr_request_id q"
begin

abbreviation use_with :: "'c \<Rightarrow> 'p \<Rightarrow> PermissionRequest \<Rightarrow> datetime \<Rightarrow> CapabilityUseDecision result" where
  "use_with c p q now \<equiv>
     rbind (resolve c (pr_capability_id q) (pr_operation q) (pr_security_domain q))
       (\<lambda>capability. rbind (decide p q now) (\<lambda>permission. compose_use q capability permission now))"

lemma use_sources:
  assumes "caps_ok c" "policy_ok p" "PermissionRequest_wf q" "stamp now"
  obtains cap perm where
    "resolve c (pr_capability_id q) (pr_operation q) (pr_security_domain q) = Inr cap"
    "CapabilityDecision_wf cap" "cd_capability_id cap = pr_capability_id q"
    "cd_status cap = CS_READY \<longleftrightarrow> usable c (pr_capability_id q) (pr_operation q) (pr_security_domain q)"
    "decide p q now = Inr perm" "PermissionDecision_wf perm" "pd_request_id perm = pr_request_id q"
proof -
  have "valid_identifier (pr_capability_id q)" "valid_identifier (pr_operation q)"
    "valid_identifier (sd_domain_id (pr_security_domain q))"
    using assms(3) by (simp_all add: PermissionRequest_wf_def PermissionRequest_init_iff
        SecurityDomain_wf_def SecurityDomain_init_def SecurityDomain_checks_def check_simps)
  from resolve_law [OF assms(1) this] decide_law [OF assms(2-4)] that show ?thesis by blast
qed

end

section \<open>Lemmas\<close>

interpretation uo: str_enum UseDecisionOutcome_members UseDecisionOutcome_value
proof unfold_locales
  fix x show "x \<in> set UseDecisionOutcome_members"
    by (cases x) (simp_all add: UseDecisionOutcome_members_def)
qed (simp add: UseDecisionOutcome_members_def)

lemma CapabilityUseDecision_init_iff:
  "returns (CapabilityUseDecision_init u) \<longleftrightarrow> valid_identifier (ud_reason_code u) \<and>
     \<not> blank (ud_explanation u) \<and> \<not> tzinfo_None (ud_evaluated_at u)"
  by (simp add: CapabilityUseDecision_init_def check_simps)

lemma CapabilityUseDecision_init_Inr:
  "CapabilityUseDecision_init u = Inr u' \<longleftrightarrow> u' = u \<and> returns (CapabilityUseDecision_init u)"
  by (auto simp: CapabilityUseDecision_init_def check_simps)

lemma CapabilityUseDecision_wf_norm:
  "CapabilityUseDecision_wf u \<Longrightarrow> CapabilityUseDecision_wf (CapabilityUseDecision_norm u)"
  by (simp add: CapabilityUseDecision_wf_def CapabilityUseDecision_norm_def
      CapabilityUseDecision_init_iff pr.wf_norm pd.wf_norm)

interpretation ud: codec CapabilityUseDecision_to_dict CapabilityUseDecision_from_dict
  CapabilityUseDecision_wf CapabilityUseDecision_norm
proof unfold_locales
  fix x :: CapabilityUseDecision
  assume wf: "CapabilityUseDecision_wf x"
  have "CapabilityUseDecision_init (CapabilityUseDecision_norm x) =
      Inr (CapabilityUseDecision_norm x)"
    using CapabilityUseDecision_wf_norm [OF wf]
    by (simp add: CapabilityUseDecision_wf_def CapabilityUseDecision_init_Inr)
  then show "CapabilityUseDecision_from_dict (CapabilityUseDecision_to_dict x) =
      Inr (CapabilityUseDecision_norm x)"
    using wf by (cases x) (simp add: CapabilityUseDecision_from_dict_def str_item_def uo.of_val
        CapabilityUseDecision_to_dict_def CapabilityUseDecision_norm_def
        CapabilityUseDecision_wf_def pr.dec_enc cd.dec_enc pd.dec_enc)
next
  fix x assume wf: "CapabilityUseDecision_wf x"
  then show "CapabilityUseDecision_wf (CapabilityUseDecision_norm x)"
    by (rule CapabilityUseDecision_wf_norm)
  from wf show "CapabilityUseDecision_to_dict (CapabilityUseDecision_norm x) =
      CapabilityUseDecision_to_dict x"
    by (simp add: CapabilityUseDecision_to_dict_def CapabilityUseDecision_norm_def
        CapabilityUseDecision_wf_def pr.enc_norm pd.enc_norm)
qed

lemma use_literals:
  "valid_identifier ''permission_prohibited''" "valid_identifier ''approval_required''"
  "valid_identifier ''ready''" "valid_identifier ''permission_indeterminate''"
  by code_simp+

lemma CAPABILITY_OUTCOMES_iff:
  "CAPABILITY_OUTCOMES s = UO_READY \<longleftrightarrow> s = CS_READY" "CAPABILITY_OUTCOMES s \<noteq> UO_PROHIBITED"
  by (cases s; simp)+

lemma compose_use_total:
  assumes "PermissionRequest_wf q" "CapabilityDecision_wf cap" "PermissionDecision_wf perm" "stamp now"
  shows "\<exists>u. compose_use q cap perm now = Inr u \<and> CapabilityUseDecision_wf u \<and>
    ud_request u = q \<and> ud_capability u = cap \<and> ud_permission u = perm \<and> ud_evaluated_at u = now \<and>
    (ud_outcome u = UO_READY \<longleftrightarrow> cd_status cap = CS_READY \<and>
       PermissionDecision_is_allowed perm (Some now) now = Inr True) \<and>
    (ud_outcome u = UO_PROHIBITED \<longleftrightarrow> pd_outcome perm = PO_PROHIBITED)"
proof -
  note [simp] = CAPABILITY_OUTCOMES_iff use_literals
  have "\<not> blank (pd_reason perm)" "valid_identifier (cd_reason_code cap)"
    "\<not> blank (cd_explanation cap)" "\<not> tzinfo_None now"
    using assms by (simp_all add: PermissionDecision_wf_def PermissionDecision_init_iff
        CapabilityDecision_wf_iff stamp_def)
  with assms show ?thesis
    by (auto simp: compose_use_def use_outcome_def is_allowed_at CapabilityUseDecision_init_Inr
        CapabilityUseDecision_init_iff CapabilityUseDecision_wf_def CapabilityDecision_is_usable_def)
qed

context authorization
begin

lemma use_total:
  assumes "caps_ok c" "policy_ok p" "PermissionRequest_wf q" "stamp now"
  shows "\<exists>u perm. use_with c p q now = Inr u \<and> CapabilityUseDecision_wf u \<and> ud_request u = q \<and>
    cd_capability_id (ud_capability u) = pr_capability_id q \<and>
    decide p q now = Inr perm \<and> ud_permission u = perm \<and> ud_evaluated_at u = now \<and>
    (ud_outcome u = UO_READY \<longleftrightarrow>
      usable c (pr_capability_id q) (pr_operation q) (pr_security_domain q) \<and>
      PermissionDecision_is_allowed perm (Some now) now = Inr True) \<and>
    (ud_outcome u = UO_PROHIBITED \<longleftrightarrow> pd_outcome perm = PO_PROHIBITED)"
  using assms
proof (rule use_sources)
  fix cap perm
  assume src: "resolve c (pr_capability_id q) (pr_operation q) (pr_security_domain q) = Inr cap"
    "CapabilityDecision_wf cap" "cd_capability_id cap = pr_capability_id q"
    "cd_status cap = CS_READY \<longleftrightarrow> usable c (pr_capability_id q) (pr_operation q) (pr_security_domain q)"
    "decide p q now = Inr perm" "PermissionDecision_wf perm"
  from compose_use_total [OF assms(3) src(2,6) assms(4)] src show ?thesis by auto
qed

end

interpretation gate: authorization registry_ok registry_resolve
  "\<lambda>reg i op sd. \<exists>c. map_of reg i = Some c \<and> usable_now c op sd"
  PolicySet_wf "\<lambda>p q now. evaluate p (Some q) now"
proof unfold_locales
  fix p q now assume "PolicySet_wf p" "PermissionRequest_wf q" "stamp now"
  then show "\<exists>d. evaluate p (Some q) now = Inr d \<and> PermissionDecision_wf d \<and>
      pd_request_id d = pr_request_id q"
    by (rule evaluate_total) blast
qed (rule resolve_total)

lemmas evaluate_capability_use_total = gate.use_total [folded evaluate_capability_use_def]

end
