(* ===== verification/Uri.thy ===== *)
theory Uri
  imports Prelude PyTime
begin

text \<open>
  What \<open>_validate_uri\<close> of \<open>src/edn/core/references.py\<close> uses of \<open>urllib.parse\<close>:
  \<open>urlsplit\<close> with its network location, credentials and query, and the keys
  \<open>parse_qsl\<close> reads from a query. Decoded keys are lists of code points, since
  percent-decoding can produce any of them. An ill-formed UTF-8 byte becomes U+FFFD; how
  many of them a run of ill-formed bytes becomes is not tracked, because the keys are only
  compared with ASCII names.
\<close>

section \<open>Splitting\<close>

fun split_on :: "char \<Rightarrow> string \<Rightarrow> string list" where
  \<comment> \<open>\<open>s.split(c)\<close>\<close>
  "split_on c [] = [[]]"
| "split_on c (x # s) =
     (if x = c then [] # split_on c s
      else case split_on c s of [] \<Rightarrow> [[x]] | w # ws \<Rightarrow> (x # w) # ws)"

definition partition :: "char \<Rightarrow> string \<Rightarrow> string \<times> bool \<times> string" where
  \<comment> \<open>\<open>s.partition(c)\<close>; the middle component tells whether the separator occurs\<close>
  "partition c s = (takeWhile (\<lambda>x. x \<noteq> c) s, c \<in> set s, drop 1 (dropWhile (\<lambda>x. x \<noteq> c) s))"

definition rpartition :: "char \<Rightarrow> string \<Rightarrow> string \<times> bool \<times> string" where
  "rpartition c s = (if c \<in> set s then
       (rev (drop 1 (dropWhile (\<lambda>x. x \<noteq> c) (rev s))), True, rev (takeWhile (\<lambda>x. x \<noteq> c) (rev s)))
     else ([], False, s))"

section \<open>Bracketed hosts\<close>

definition is_hex :: "char \<Rightarrow> bool" where
  "is_hex c = (is_digit c \<or> 65 \<le> code c \<and> code c \<le> 70 \<or> 97 \<le> code c \<and> code c \<le> 102)"

definition octet_ok :: "string \<Rightarrow> bool" where
  "octet_ok s = (s \<noteq> [] \<and> list_all is_digit s \<and> length s \<le> 3 \<and> (s = ''0'' \<or> hd s \<noteq> CHR ''0'') \<and>
     num s \<le> 255)"

definition ipv4_ok :: "string \<Rightarrow> bool" where
  "ipv4_ok s = (let octets = split_on (CHR ''.'') s in length octets = 4 \<and> list_all octet_ok octets)"

definition hextet_ok :: "string \<Rightarrow> bool" where
  "hextet_ok s = (s \<noteq> [] \<and> list_all is_hex s \<and> length s \<le> 4)"

definition ipv6_parts_ok :: "string list \<Rightarrow> bool" where
  "ipv6_parts_ok parts =
     (let inner = filter (\<lambda>i. parts ! i = []) [1 ..< length parts - 1] in
      if 9 < length parts \<or> 1 < length inner then False
      else case inner of
        [] \<Rightarrow> length parts = 8 \<and> list_all hextet_ok parts
      | skip # _ \<Rightarrow>
          let hi = (if hd parts = [] then skip - 1 else skip);
              lo = (if last parts = [] then length parts - skip - 2 else length parts - skip - 1)
          in (hd parts = [] \<longrightarrow> hi = 0) \<and> (last parts = [] \<longrightarrow> lo = 0) \<and> hi + lo < 8 \<and>
             list_all hextet_ok (take hi parts) \<and>
             list_all hextet_ok (drop (length parts - lo) parts))"

definition ipv6_ok :: "string \<Rightarrow> bool" where
  "ipv6_ok s =
     (let (addr, scoped, scope_id) = partition (CHR ''%'') s; parts = split_on (CHR '':'') addr in
      CHR ''/'' \<notin> set s \<and> (scoped \<longrightarrow> scope_id \<noteq> [] \<and> CHR ''%'' \<notin> set scope_id) \<and>
      3 \<le> length parts \<and>
      (if CHR ''.'' \<in> set (last parts)
       then ipv4_ok (last parts) \<and> ipv6_parts_ok (butlast parts @ [''0'', ''0''])
       else ipv6_parts_ok parts))"

definition bracketed_host_ok :: "string \<Rightarrow> bool" where
  "bracketed_host_ok h =
     (if h \<noteq> [] \<and> hd h = CHR ''v'' then
        let r = dropWhile is_hex (tl h) in
        takeWhile is_hex (tl h) \<noteq> [] \<and> 2 \<le> length r \<and> hd r = CHR ''.''
      else ipv6_ok h)"

section \<open>\<open>urlsplit\<close>\<close>

definition scheme_char :: "char \<Rightarrow> bool" where
  "scheme_char c = (is_alnum c \<or> c \<in> set ''+-.'')"

definition is_alpha :: "char \<Rightarrow> bool" where
  "is_alpha c = (is_alnum c \<and> \<not> is_digit c)"

definition drop_scheme :: "string \<Rightarrow> string" where
  "drop_scheme url = (let (s, found, r) = partition (CHR '':'') url in
     if found \<and> s \<noteq> [] \<and> is_alpha (hd s) \<and> list_all scheme_char s then r else url)"

definition urlsplit :: "string \<Rightarrow> (string \<times> string) result" where
  \<comment> \<open>the network location and the query\<close>
  "urlsplit value =
     (let url = filter (\<lambda>c. c \<notin> {CHR 0x09, CHR 0x0A, CHR 0x0D}) (dropWhile (\<lambda>c. code c \<le> 32) value);
          rest = drop_scheme url;
          (netloc, tail) = (if prefix ''//'' rest
            then (takeWhile (\<lambda>c. c \<notin> set ''/?#'') (drop 2 rest),
                  dropWhile (\<lambda>c. c \<notin> set ''/?#'') (drop 2 rest))
            else ([], rest));
          (path, _, _) = partition (CHR ''#'') tail;
          (_, _, query) = partition (CHR ''?'') path
      in if (CHR ''['' \<in> set netloc) \<noteq> (CHR '']'' \<in> set netloc) then
           Inl (ValueError ''Invalid IPv6 URL'')
         else if CHR ''['' \<in> set netloc \<and>
             \<not> bracketed_host_ok (takeWhile (\<lambda>c. c \<noteq> CHR '']'') (snd (snd (partition (CHR ''['') netloc))))
         then Inl (ValueError ''invalid bracketed host'')
         else Inr (netloc, query))"

definition has_credentials :: "string \<Rightarrow> bool" where
  \<comment> \<open>\<open>parsed.username or parsed.password\<close>\<close>
  "has_credentials netloc =
     (let (userinfo, have_info, _) = rpartition (CHR ''@'') netloc;
          (username, _, password) = partition (CHR '':'') userinfo
      in have_info \<and> (username \<noteq> [] \<or> password \<noteq> []))"

section \<open>Query keys\<close>

definition hex_value :: "char \<Rightarrow> nat" where
  "hex_value c = (if is_digit c then code c - 48
     else if code c \<le> 70 then code c - 55 else code c - 87)"

fun percent_bytes :: "string \<Rightarrow> nat list" where
  "percent_bytes (p # a # b # s) =
     (if p = CHR ''%'' \<and> is_hex a \<and> is_hex b then (16 * hex_value a + hex_value b) # percent_bytes s
      else code p # percent_bytes (a # b # s))"
| "percent_bytes s = map code s"

definition continuation :: "nat \<Rightarrow> bool" where
  "continuation b = (128 \<le> b \<and> b < 192)"

definition utf8_point :: "nat list \<Rightarrow> nat \<times> nat" where
  \<comment> \<open>the code point at the head of a nonempty byte string and the bytes after the first it takes\<close>
  "utf8_point bs =
     (let byte = (\<lambda>i. if i < length bs then bs ! i else 0);
          b = byte 0; c = byte 1; d = byte 2; e = byte 3;
          n2 = (b - 0xC0) * 64 + (c - 128);
          n3 = (b - 0xE0) * 4096 + (c - 128) * 64 + (d - 128);
          n4 = (b - 0xF0) * 262144 + (c - 128) * 4096 + (d - 128) * 64 + (e - 128)
      in if b < 128 then (b, 0)
         else if 0xC2 \<le> b \<and> b < 0xE0 \<and> continuation c then (n2, 1)
         else if 0xE0 \<le> b \<and> b < 0xF0 \<and> continuation c \<and> continuation d \<and>
             0x800 \<le> n3 \<and> \<not> (0xD800 \<le> n3 \<and> n3 < 0xE000) then (n3, 2)
         else if 0xF0 \<le> b \<and> b < 0xF5 \<and> continuation c \<and> continuation d \<and>
             continuation e \<and> 0x10000 \<le> n4 \<and> n4 < 0x110000 then (n4, 3)
         else (0xFFFD, 0))"

function utf8_decode :: "nat list \<Rightarrow> nat list" where
  "utf8_decode [] = []"
| "utf8_decode (b # bs) = (let (n, k) = utf8_point (b # bs) in n # utf8_decode (drop k bs))"
  by pat_completeness auto
termination
  by (relation "measure length") auto

definition ascii :: "char \<Rightarrow> bool" where
  "ascii c = (code c < 128)"

function unquote :: "string \<Rightarrow> nat list" where
  "unquote [] = []"
| "unquote (c # s) =
     (if ascii c then utf8_decode (percent_bytes (takeWhile ascii (c # s))) @
        unquote (dropWhile ascii (c # s))
      else code c # unquote s)"
  by pat_completeness auto
termination
  by (relation "measure length") (auto simp: le_imp_less_Suc length_dropWhile_le)

definition casefold_point :: "nat \<Rightarrow> nat list" where
  \<comment> \<open>exact where the folding is ASCII; every other code point folds to non-ASCII text, for which
     the code point itself stands\<close>
  "casefold_point n =
     (if 65 \<le> n \<and> n \<le> 90 then [n + 32]
      else if n = 0xDF \<or> n = 0x1E9E then [115, 115]
      else if n = 0x17F then [115] else if n = 0x212A then [107]
      else if n = 0xFB00 then [102, 102] else if n = 0xFB01 then [102, 105]
      else if n = 0xFB02 then [102, 108] else if n = 0xFB03 then [102, 102, 105]
      else if n = 0xFB04 then [102, 102, 108] else if n = 0xFB05 \<or> n = 0xFB06 then [115, 116]
      else [n])"

definition query_keys :: "bool \<Rightarrow> string \<Rightarrow> nat list list" where
  \<comment> \<open>\<open>key.casefold() for key, _ in parse_qsl(query, keep_blank_values=keep)\<close>\<close>
  "query_keys keep query =
     map (\<lambda>field. concat (map casefold_point
           (unquote (map (\<lambda>c. if c = CHR ''+'' then CHR '' '' else c)
              (takeWhile (\<lambda>c. c \<noteq> CHR ''='') field)))))
       (filter (\<lambda>field. field \<noteq> [] \<and> (keep \<or> snd (snd (partition (CHR ''='') field)) \<noteq> []))
         (split_on (CHR ''&'') query))"

end
