(* ===== verification/References.thy ===== *)
theory References
  imports Permissions Uri
begin

text \<open>
  \<open>src/edn/core/references.py\<close>: content-free references to sources, records and
  evidence, the URI guard, and the fail-closed eligibility filter.
\<close>

section \<open>The URI guard\<close>

definition SECRET_QUERY_KEYS :: "string list" where
  "SECRET_QUERY_KEYS =
     [''token'', ''access_token'', ''refresh_token'', ''password'', ''secret'', ''signature'']"

definition validate_uri :: "string option \<Rightarrow> string \<Rightarrow> check" where
  "validate_uri v field = when_some v (\<lambda>s.
     if blank s \<or> multiline s then Some (ValueError (field @ '' is not a valid reference URI''))
     else case urlsplit s of
       Inl e \<Rightarrow> Some e
     | Inr (netloc, query) \<Rightarrow>
         if has_credentials netloc
         then Some (ValueError (field @ '' must not contain credentials''))
         else require (list_all (\<lambda>k. k \<notin> set (map (map code) SECRET_QUERY_KEYS)) (query_keys True query))
           (field @ '' must not contain secret query parameters''))"

section \<open>Sources\<close>

record SourceRef =
  sr_source_id :: string
  sr_connector_id :: string
  sr_source_instance_id :: string
  sr_display_name :: string
  sr_provider_resource_id :: "string option"

definition SourceRef_init :: "SourceRef \<Rightarrow> SourceRef result" where
  "SourceRef_init r = construct
     [validate_identifier (sr_source_id r) ''source_id'',
      validate_identifier (sr_connector_id r) ''connector_id'',
      validate_identifier (sr_source_instance_id r) ''source_instance_id'',
      not_blank (sr_display_name r) ''display_name'',
      when_some (sr_provider_resource_id r) (\<lambda>p.
        require (\<not> blank p \<and> \<not> list_ex (\<lambda>c. code c < 32 \<or> code c = 127) p)
          ''provider_resource_id must be nonblank opaque text'')] r"

definition SourceRef_to_dict :: "SourceRef \<Rightarrow> jobj" where
  "SourceRef_to_dict r =
     [(''schema_version'', JStr SCHEMA_VERSION),
      (''source_id'', JStr (sr_source_id r)),
      (''connector_id'', JStr (sr_connector_id r)),
      (''source_instance_id'', JStr (sr_source_instance_id r)),
      (''display_name'', JStr (sr_display_name r))] @
     (case sr_provider_resource_id r of None \<Rightarrow> []
      | Some p \<Rightarrow> [(''provider_resource_id'', JStr p)])"

definition SourceRef_from_dict :: "jobj \<Rightarrow> SourceRef result" where
  "SourceRef_from_dict v =
     rbind (require_schema v) (\<lambda>_.
     rbind (str_item v ''source_id'') (\<lambda>source_id.
     rbind (str_item v ''connector_id'') (\<lambda>connector_id.
     rbind (str_item v ''source_instance_id'') (\<lambda>source_instance_id.
     rbind (str_item v ''display_name'') (\<lambda>display_name.
     SourceRef_init
       \<lparr>sr_source_id = source_id, sr_connector_id = connector_id,
        sr_source_instance_id = source_instance_id, sr_display_name = display_name,
        sr_provider_resource_id = as_optional_str (getd v ''provider_resource_id'')\<rparr>)))))"

section \<open>Records\<close>

record UniversalRecordRef =
  ur_source :: SourceRef
  ur_source_record_key :: string
  ur_security_domain :: SecurityDomain
  ur_classification :: Classification
  ur_record_type :: string
  ur_source_uri :: "string option"
  ur_source_version :: "string option"

definition UniversalRecordRef_init :: "UniversalRecordRef \<Rightarrow> UniversalRecordRef result" where
  "UniversalRecordRef_init r = construct
     [require (ur_source_record_key r \<noteq> [] \<and> \<not> multiline (ur_source_record_key r))
        ''source_record_key must not be blank or multiline'',
      validate_identifier (ur_record_type r) ''record_type'',
      validate_uri (ur_source_uri r) ''source_uri'',
      when_some (ur_source_version r) (\<lambda>s. not_blank s ''source_version'')] r"

definition durable_id :: "UniversalRecordRef \<Rightarrow> string \<times> string" where
  "durable_id r = (sr_source_id (ur_source r), ur_source_record_key r)"

definition UniversalRecordRef_to_dict :: "UniversalRecordRef \<Rightarrow> jobj" where
  "UniversalRecordRef_to_dict r =
     [(''schema_version'', JStr SCHEMA_VERSION),
      (''source'', JObj (SourceRef_to_dict (ur_source r))),
      (''source_record_key'', JStr (ur_source_record_key r)),
      (''security_domain'', JObj (SecurityDomain_to_dict (ur_security_domain r))),
      (''classification'', JObj (Classification_to_dict (ur_classification r))),
      (''record_type'', JStr (ur_record_type r)),
      (''source_uri'', opt JStr (ur_source_uri r)),
      (''source_version'', opt JStr (ur_source_version r))]"

definition UniversalRecordRef_from_dict :: "jobj \<Rightarrow> UniversalRecordRef result" where
  "UniversalRecordRef_from_dict v =
     rbind (require_schema v) (\<lambda>_.
     rbind (nested v ''source'' SourceRef_from_dict) (\<lambda>source.
     rbind (str_item v ''source_record_key'') (\<lambda>source_record_key.
     rbind (nested v ''security_domain'' SecurityDomain_from_dict) (\<lambda>domain.
     rbind (nested v ''classification'' Classification_from_dict) (\<lambda>classification.
     rbind (str_item v ''record_type'') (\<lambda>record_type.
     UniversalRecordRef_init
       \<lparr>ur_source = source, ur_source_record_key = source_record_key, ur_security_domain = domain,
        ur_classification = classification, ur_record_type = record_type,
        ur_source_uri = as_optional_str (getd v ''source_uri''),
        ur_source_version = as_optional_str (getd v ''source_version'')\<rparr>))))))"

section \<open>Evidence\<close>

record EvidenceRef =
  ev_evidence_id :: string
  ev_record :: UniversalRecordRef
  ev_locator :: "string option"
  ev_transformation_id :: "string option"
  ev_transformation_version :: "string option"
  ev_content_hash :: "string option"

definition EvidenceRef_init :: "EvidenceRef \<Rightarrow> EvidenceRef result" where
  "EvidenceRef_init e = construct
     [validate_identifier (ev_evidence_id e) ''evidence_id'',
      when_some (ev_locator e) (\<lambda>l.
        require (\<not> blank l \<and> length l \<le> 512) ''locator must be bounded and nonblank''),
      (case ev_transformation_id e of
         Some t \<Rightarrow> first_error
           [validate_identifier t ''transformation_id'',
            require (ev_transformation_version e \<notin> {None, Some []})
              ''transformation_version is required'']
       | None \<Rightarrow> require (ev_transformation_version e = None) ''transformation_id is required''),
      when_some (ev_content_hash e) (\<lambda>h.
        require (is_sha256 h) ''content_hash must be a lowercase SHA-256 value'')] e"

definition EvidenceRef_to_dict :: "EvidenceRef \<Rightarrow> jobj" where
  "EvidenceRef_to_dict e =
     [(''schema_version'', JStr SCHEMA_VERSION),
      (''evidence_id'', JStr (ev_evidence_id e)),
      (''record'', JObj (UniversalRecordRef_to_dict (ev_record e))),
      (''locator'', opt JStr (ev_locator e)),
      (''transformation_id'', opt JStr (ev_transformation_id e)),
      (''transformation_version'', opt JStr (ev_transformation_version e)),
      (''content_hash'', opt JStr (ev_content_hash e))]"

definition EvidenceRef_from_dict :: "jobj \<Rightarrow> EvidenceRef result" where
  "EvidenceRef_from_dict v =
     rbind (require_schema v) (\<lambda>_.
     rbind (str_item v ''evidence_id'') (\<lambda>evidence_id.
     rbind (nested v ''record'' UniversalRecordRef_from_dict) (\<lambda>rec.
     EvidenceRef_init
       \<lparr>ev_evidence_id = evidence_id, ev_record = rec,
        ev_locator = as_optional_str (getd v ''locator''),
        ev_transformation_id = as_optional_str (getd v ''transformation_id''),
        ev_transformation_version = as_optional_str (getd v ''transformation_version''),
        ev_content_hash = as_optional_str (getd v ''content_hash'')\<rparr>)))"

section \<open>Eligibility\<close>

definition is_evidence_eligible :: "PrincipalContext option \<Rightarrow> EvidenceRef \<Rightarrow> bool" where
  "is_evidence_eligible ctx e = (case ctx of None \<Rightarrow> False
     | Some p \<Rightarrow> allows_domain p (ur_security_domain (ev_record e)))"

definition filter_eligible_evidence ::
  "PrincipalContext option \<Rightarrow> EvidenceRef list \<Rightarrow> EvidenceRef list" where
  "filter_eligible_evidence ctx es = filter (is_evidence_eligible ctx) es"

definition count_eligible_evidence :: "PrincipalContext option \<Rightarrow> EvidenceRef list \<Rightarrow> nat" where
  \<comment> \<open>a sum of booleans\<close>
  "count_eligible_evidence ctx es = sum_list (map (\<lambda>e. of_bool (is_evidence_eligible ctx e)) es)"

section \<open>Well-formed values\<close>

definition SourceRef_wf :: "SourceRef \<Rightarrow> bool" where
  "SourceRef_wf r = returns (SourceRef_init r)"

definition UniversalRecordRef_wf :: "UniversalRecordRef \<Rightarrow> bool" where
  "UniversalRecordRef_wf r =
     (returns (UniversalRecordRef_init r) \<and> SourceRef_wf (ur_source r) \<and>
      SecurityDomain_wf (ur_security_domain r) \<and> Classification_wf (ur_classification r))"

definition EvidenceRef_wf :: "EvidenceRef \<Rightarrow> bool" where
  "EvidenceRef_wf e = (returns (EvidenceRef_init e) \<and> UniversalRecordRef_wf (ev_record e))"

section \<open>Lemmas\<close>

interpretation sr: codec SourceRef_to_dict SourceRef_from_dict SourceRef_wf id
proof unfold_locales
  fix x :: SourceRef
  assume "SourceRef_wf x"
  then have "SourceRef_init x = Inr x"
    by (simp add: SourceRef_wf_def SourceRef_init_def construct_returns)
  then show "SourceRef_from_dict (SourceRef_to_dict x) = Inr (id x)"
    by (cases x; cases "sr_provider_resource_id x")
      (simp_all add: SourceRef_from_dict_def SourceRef_to_dict_def str_item_def
        as_optional_str_def)
qed simp_all

interpretation ur: codec UniversalRecordRef_to_dict UniversalRecordRef_from_dict
  UniversalRecordRef_wf id
proof unfold_locales
  fix x :: UniversalRecordRef
  assume wf: "UniversalRecordRef_wf x"
  then have "UniversalRecordRef_init x = Inr x"
    by (simp add: UniversalRecordRef_wf_def UniversalRecordRef_init_def construct_returns)
  with wf show "UniversalRecordRef_from_dict (UniversalRecordRef_to_dict x) = Inr (id x)"
    by (cases x) (simp add: UniversalRecordRef_from_dict_def UniversalRecordRef_to_dict_def
        str_item_def UniversalRecordRef_wf_def sr.dec_enc sd.dec_enc cl.dec_enc)
qed simp_all

interpretation ev: codec EvidenceRef_to_dict EvidenceRef_from_dict EvidenceRef_wf id
proof unfold_locales
  fix x :: EvidenceRef
  assume wf: "EvidenceRef_wf x"
  then have "EvidenceRef_init x = Inr x"
    by (simp add: EvidenceRef_wf_def EvidenceRef_init_def construct_returns)
  with wf show "EvidenceRef_from_dict (EvidenceRef_to_dict x) = Inr (id x)"
    by (cases x) (simp add: EvidenceRef_from_dict_def EvidenceRef_to_dict_def
        str_item_def EvidenceRef_wf_def ur.dec_enc)
qed simp_all

lemma count_filter: "count_eligible_evidence ctx es = length (filter_eligible_evidence ctx es)"
  by (induction es) (simp_all add: count_eligible_evidence_def filter_eligible_evidence_def)

lemma validate_uri_None [check_simps]:
  "validate_uri v field = None \<longleftrightarrow> (\<forall>s. v = Some s \<longrightarrow> \<not> blank s \<and> \<not> multiline s \<and>
     (\<exists>netloc query. urlsplit s = Inr (netloc, query) \<and> \<not> has_credentials netloc \<and>
        (\<forall>k \<in> set (query_keys True query). k \<notin> set (map (map code) SECRET_QUERY_KEYS))))"
proof (cases v)
  case (Some s)
  show ?thesis
    by (cases "urlsplit s") (auto simp: Some validate_uri_def require_None list_all_iff
        simp del: set_map split: prod.splits)
qed (simp add: validate_uri_def)

end
