(* ===== verification/Digest.thy ===== *)
theory Digest
  imports Json "HOL-Library.Word"
begin

unbundle bit_operations_syntax

text \<open>
  \<open>hashlib.sha256(_stable_json(d).encode()).hexdigest()\<close>, the content hash of manifests
  and plans: the compact, key-sorted text of \<open>json.dumps\<close>, its UTF-8 bytes, and SHA-256
  on 32-bit words, whose additions wrap. Every digest is a lowercase SHA-256 text, the form
  the constructors demand of stored hashes.
\<close>

section \<open>Stable JSON text\<close>

definition json_char :: "char \<Rightarrow> string" where
  "json_char c = (let n = code c; b = CHR 0x5C in
     if c = CHR 0x22 \<or> c = b then [b, c]
     else if n = 10 then [b, CHR ''n''] else if n = 13 then [b, CHR ''r'']
     else if n = 9 then [b, CHR ''t''] else if n = 8 then [b, CHR ''b'']
     else if n = 12 then [b, CHR ''f'']
     else if n < 32 then [b] @ ''u00'' @ [hex_digit (n div 16), hex_digit (n mod 16)]
     else [c])"

definition json_str :: "string \<Rightarrow> string" where
  "json_str s = [CHR 0x22] @ concat (map json_char s) @ [CHR 0x22]"

primrec stable_json :: "json \<Rightarrow> string" where
  \<comment> \<open>\<open>json.dumps(v, ensure_ascii=False, separators=(",", ":"), sort_keys=True)\<close>\<close>
  "stable_json JNull = ''null''"
| "stable_json (JBool b) = (if b then ''true'' else ''false'')"
| "stable_json (JInt n) = show_int n"
| "stable_json (JFloat q) = float_repr q"
| "stable_json (JStr s) = json_str s"
| "stable_json (JList xs) = ''['' @ join '','' (map stable_json xs) @ '']''"
| "stable_json (JObj kvs) = ''{'' @
     join '','' (map (\<lambda>(k, v). json_str k @ '':'' @ v)
       (sort_key fst (map (map_prod id stable_json) kvs))) @ ''}''"

definition utf8 :: "string \<Rightarrow> nat list" where
  "utf8 s = concat (map (\<lambda>c. let n = code c in
     if n < 128 then [n] else [192 + n div 64, 128 + n mod 64]) s)"

section \<open>SHA-256\<close>

type_synonym u32 = "32 word"
type_synonym sha_state = "u32 \<times> u32 \<times> u32 \<times> u32 \<times> u32 \<times> u32 \<times> u32 \<times> u32"

definition sha_k :: "u32 list" where
  \<comment> \<open>the first 32 bits of the fractional parts of the cube roots of the first 64 primes\<close>
  "sha_k = [1116352408, 1899447441, 3049323471, 3921009573, 961987163, 1508970993, 2453635748, 2870763221,
      3624381080, 310598401, 607225278, 1426881987, 1925078388, 2162078206, 2614888103, 3248222580,
      3835390401, 4022224774, 264347078, 604807628, 770255983, 1249150122, 1555081692, 1996064986,
      2554220882, 2821834349, 2952996808, 3210313671, 3336571891, 3584528711, 113926993, 338241895,
      666307205, 773529912, 1294757372, 1396182291, 1695183700, 1986661051, 2177026350, 2456956037,
      2730485921, 2820302411, 3259730800, 3345764771, 3516065817, 3600352804, 4094571909, 275423344,
      430227734, 506948616, 659060556, 883997877, 958139571, 1322822218, 1537002063, 1747873779,
      1955562222, 2024104815, 2227730452, 2361852424, 2428436474, 2756734187, 3204031479, 3329325298]"

definition sha_init :: sha_state where
  "sha_init = (1779033703, 3144134277, 1013904242, 2773480762, 1359893119, 2600822924, 528734635, 1541459225)"

definition sig0 :: "u32 \<Rightarrow> u32" where
  "sig0 x = word_rotr 7 x XOR word_rotr 18 x XOR drop_bit 3 x"

definition sig1 :: "u32 \<Rightarrow> u32" where
  "sig1 x = word_rotr 17 x XOR word_rotr 19 x XOR drop_bit 10 x"

fun schedule :: "nat \<Rightarrow> u32 list \<Rightarrow> u32 list" where
  \<comment> \<open>the message schedule, newest word first\<close>
  "schedule 0 ws = ws"
| "schedule (Suc k) ws =
     schedule k ((sig1 (ws ! 1) + ws ! 6 + sig0 (ws ! 14) + ws ! 15) # ws)"

fun sha_round :: "u32 \<times> u32 \<Rightarrow> sha_state \<Rightarrow> sha_state" where
  "sha_round (k, w) (a, b, c, d, e, f, g, h) =
     (let s1 = word_rotr 6 e XOR word_rotr 11 e XOR word_rotr 25 e;
          ch = (e AND f) XOR (NOT e AND g);
          t1 = h + s1 + ch + k + w;
          s0 = word_rotr 2 a XOR word_rotr 13 a XOR word_rotr 22 a;
          maj = (a AND b) XOR (a AND c) XOR (b AND c)
      in (t1 + s0 + maj, a, b, c, d + t1, e, f, g))"

fun sha_add :: "sha_state \<Rightarrow> sha_state \<Rightarrow> sha_state" where
  "sha_add (a, b, c, d, e, f, g, h) (a', b', c', d', e', f', g', h') =
     (a + a', b + b', c + c', d + d', e + e', f + f', g + g', h + h')"

definition sha_block :: "u32 list \<Rightarrow> sha_state \<Rightarrow> sha_state" where
  "sha_block ws st =
     sha_add st (fold sha_round (zip sha_k (rev (schedule 48 (rev ws)))) st)"

fun be_words :: "nat list \<Rightarrow> u32 list" where
  "be_words (a # b # c # d # r) = of_nat (((a * 256 + b) * 256 + c) * 256 + d) # be_words r"
| "be_words _ = []"

fun be_bytes :: "nat \<Rightarrow> nat \<Rightarrow> nat list" where
  "be_bytes 0 n = []"
| "be_bytes (Suc k) n = be_bytes k (n div 256) @ [n mod 256]"

definition sha_pad :: "nat list \<Rightarrow> nat list" where
  "sha_pad bs = bs @ [128] @ replicate ((119 - length bs mod 64) mod 64) 0 @ be_bytes 8 (8 * length bs)"

fun blocks16 :: "'a list \<Rightarrow> 'a list list" where
  "blocks16 [] = []"
| "blocks16 (x # xs) = take 16 (x # xs) # blocks16 (drop 15 xs)"

fun hex_word :: "nat \<Rightarrow> nat \<Rightarrow> string" where
  "hex_word 0 n = []"
| "hex_word (Suc k) n = hex_word k (n div 16) @ [hex_digit (n mod 16)]"

fun sha_hex :: "sha_state \<Rightarrow> string" where
  "sha_hex (a, b, c, d, e, f, g, h) =
     concat (map (\<lambda>x. hex_word 8 (unat x)) [a, b, c, d, e, f, g, h])"

definition sha256_hex :: "nat list \<Rightarrow> string" where
  "sha256_hex bs = sha_hex (fold sha_block (blocks16 (be_words (sha_pad bs))) sha_init)"

definition digest :: "jobj \<Rightarrow> string" where
  "digest d = sha256_hex (utf8 (stable_json (JObj d)))"

section \<open>Digests are SHA-256 texts\<close>

lemma hex_digit_hex:
  assumes "n < 16"
  shows "hex_digit n \<in> set ''0123456789abcdef''"
proof -
  from assms have "n \<in> set [0..<16]" by simp
  moreover have "list_all (\<lambda>n. hex_digit n \<in> set ''0123456789abcdef'') [0..<16]" by code_simp
  ultimately show ?thesis by (simp add: list_all_iff)
qed

lemma length_hex_word [simp]: "length (hex_word k n) = k"
  by (induction k arbitrary: n) simp_all

lemma hex_word_all: "(\<And>m. m < 16 \<Longrightarrow> P (hex_digit m)) \<Longrightarrow> list_all P (hex_word k n)"
  by (induction k arbitrary: n) simp_all

lemma is_sha256_sha_hex: "is_sha256 (sha_hex st)"
proof -
  have "list_all (\<lambda>c. c \<in> set ''0123456789abcdef'') (hex_word 8 n)" for n
    by (rule hex_word_all) (rule hex_digit_hex)
  then show ?thesis
    by (induction st rule: sha_hex.induct) (simp add: is_sha256_def del: set_simps)
qed

lemma is_sha256_digest [simp]: "is_sha256 (digest d)"
  by (simp add: digest_def sha256_hex_def is_sha256_sha_hex)

end
