(* ===== verification/Connectors.thy ===== *)
theory Connectors
  imports CapabilityUse References Digest
begin

text \<open>
  \<open>src/edn/connectors/errors.py\<close> and \<open>src/edn/connectors/models.py\<close>: the connector
  error classes, content-hashed manifests and plans, checkpoints, the authority-bound
  connector request and the result envelopes. A field the constructor computes
  (\<open>manifest_hash\<close>, \<open>plan_hash\<close>) is a field of the record that \<open>init\<close> overwrites.
\<close>

section \<open>Errors\<close>

datatype ConnectorErrorClass =
    ConnectorError | ConfigurationError | AuthenticationRequiredError | PermissionDeniedError
  | ApprovalRequiredError | DependencyMissingError | SourceUnavailableError
  | UnsupportedOperationError | TransientConnectorError | InvalidCheckpointError
  | IncompatibleSourceStateError | VerificationFailureError | IndeterminateSafetyError

fun error_code :: "ConnectorErrorClass \<Rightarrow> string" where
  "error_code ConnectorError = ''connector_error''"
| "error_code ConfigurationError = ''configuration_error''"
| "error_code AuthenticationRequiredError = ''authentication_required''"
| "error_code PermissionDeniedError = ''permission_denied''"
| "error_code ApprovalRequiredError = ''approval_required''"
| "error_code DependencyMissingError = ''dependency_missing''"
| "error_code SourceUnavailableError = ''source_unavailable''"
| "error_code UnsupportedOperationError = ''unsupported_operation''"
| "error_code TransientConnectorError = ''transient_failure''"
| "error_code InvalidCheckpointError = ''invalid_checkpoint''"
| "error_code IncompatibleSourceStateError = ''incompatible_source_state''"
| "error_code VerificationFailureError = ''verification_failure''"
| "error_code IndeterminateSafetyError = ''indeterminate_safety_state''"

fun error_transient :: "ConnectorErrorClass \<Rightarrow> bool" where
  "error_transient TransientConnectorError = True"
| "error_transient _ = False"

definition raise_connector_error ::
  "ConnectorErrorClass \<Rightarrow> string \<Rightarrow> string option \<Rightarrow> py_error" where
  \<comment> \<open>\<open>raise cls(explanation, connector_id=...)\<close>: the constructor may itself raise\<close>
  "raise_connector_error cls explanation connector_id =
     (if blank explanation \<or> multiline explanation then
        ValueError ''connector error explanation must be nonblank and single-line''
      else if 512 < length explanation then
        ValueError ''connector error explanation is too long''
      else ConnectorExc (error_code cls) explanation (error_transient cls) connector_id)"

definition ConnectorError_to_dict :: "string \<Rightarrow> string \<Rightarrow> bool \<Rightarrow> string option \<Rightarrow> jobj" where
  "ConnectorError_to_dict err_code explanation transient connector_id =
     [(''code'', JStr err_code), (''explanation'', JStr explanation),
      (''connector_id'', opt JStr connector_id), (''transient'', JBool transient)]"

section \<open>Readers\<close>

definition CONNECTOR_OPERATIONS :: "string list" where
  \<comment> \<open>in the order \<open>sorted\<close> gives\<close>
  "CONNECTOR_OPERATIONS =
     [''act'', ''authenticate'', ''checkpoint'', ''discover'', ''ingest'', ''inspect'', ''plan'',
      ''resume'', ''search'', ''sync'', ''verify'']"

definition CONNECTOR_MANIFEST_SCHEMA_VERSION :: string where
  "CONNECTOR_MANIFEST_SCHEMA_VERSION = ''1.0.0''"

definition SECRET_KEYS :: "string list" where
  "SECRET_KEYS =
     [''password'', ''secret'', ''token'', ''access_token'', ''refresh_token'', ''api_key'']"

definition validate_safe_uri :: "string \<Rightarrow> string \<Rightarrow> check" where
  "validate_safe_uri s field = (case urlsplit s of
       Inl e \<Rightarrow> Some e
     | Inr (netloc, query) \<Rightarrow>
         if has_credentials netloc
         then Some (ValueError (field @ '' must not contain credentials''))
         else require (list_all (\<lambda>k. k \<notin> set (map (map code) SECRET_KEYS)) (query_keys False query))
           (field @ '' must not contain secret query parameters''))"

definition string_tuple_of :: "bool \<Rightarrow> json \<Rightarrow> string \<Rightarrow> string list result" where
  \<comment> \<open>\<open>_string_tuple(value, field_name, validate=...)\<close>\<close>
  "string_tuple_of validate v field =
     rbind (string_tuple v field) (\<lambda>xs.
       if validate then construct [validate_list xs field] xs
       else construct [require (list_all (\<lambda>s. \<not> blank s) xs) (field @ '' must not contain blanks'')] xs)"

definition validated_set :: "json \<Rightarrow> string \<Rightarrow> string fset result" where
  "validated_set v field = rbind (string_tuple_of True v field) (\<lambda>xs. Inr (fset_of_list xs))"

section \<open>Manifests\<close>

record ConnectorManifest =
  mf_connector_id :: string
  mf_version :: string
  mf_display_name :: string
  mf_provider_id :: string
  mf_description :: string
  mf_connector_type :: string
  mf_capabilities :: "CapabilityManifest list"
  mf_supported_operations :: "string fset"
  mf_configuration_schema_ref :: string
  mf_configuration_schema_version :: string
  mf_dependencies :: "string fset"
  mf_minimum_core_version :: string
  mf_manifest_schema_version :: string
  mf_manifest_hash :: string

definition ConnectorManifest_content :: "ConnectorManifest \<Rightarrow> jobj" where
  "ConnectorManifest_content m =
     [(''schema_version'', JStr SCHEMA_VERSION),
      (''manifest_schema_version'', JStr (mf_manifest_schema_version m)),
      (''connector_id'', JStr (mf_connector_id m)),
      (''version'', JStr (mf_version m)),
      (''display_name'', JStr (mf_display_name m)),
      (''provider_id'', JStr (mf_provider_id m)),
      (''description'', JStr (mf_description m)),
      (''connector_type'', JStr (mf_connector_type m)),
      (''capabilities'', JList (map (\<lambda>c. JObj (CapabilityManifest_to_dict c))
         (sort_key cm_capability_id (mf_capabilities m)))),
      (''supported_operations'', strs (sorted_list_of_fset (mf_supported_operations m))),
      (''configuration_schema_ref'', JStr (mf_configuration_schema_ref m)),
      (''configuration_schema_version'', JStr (mf_configuration_schema_version m)),
      (''dependencies'', strs (sorted_list_of_fset (mf_dependencies m))),
      (''minimum_core_version'', JStr (mf_minimum_core_version m))]"

definition declared_operations :: "CapabilityManifest list \<Rightarrow> string fset" where
  "declared_operations cs = ffUnion (fset_of_list (map cm_operations cs))"

definition ConnectorManifest_checks :: "ConnectorManifest \<Rightarrow> check list" where
  "ConnectorManifest_checks m =
     [validate_identifier (mf_connector_id m) ''connector_id'',
      validate_identifier (mf_version m) ''version'',
      validate_identifier (mf_provider_id m) ''provider_id'',
      validate_identifier (mf_connector_type m) ''connector_type'',
      validate_identifier (mf_configuration_schema_version m) ''configuration_schema_version'',
      validate_identifier (mf_minimum_core_version m) ''minimum_core_version'',
      validate_identifier (mf_manifest_schema_version m) ''manifest_schema_version'',
      not_blank (mf_display_name m) ''display_name'',
      not_blank (mf_description m) ''description'',
      not_blank (mf_configuration_schema_ref m) ''configuration_schema_ref'',
      validate_safe_uri (mf_configuration_schema_ref m) ''configuration_schema_ref'',
      require (mf_manifest_schema_version m = CONNECTOR_MANIFEST_SCHEMA_VERSION)
        ''unsupported connector manifest schema version'',
      require (mf_capabilities m \<noteq> []) ''connector must declare at least one capability'',
      require (distinct (map cm_capability_id (mf_capabilities m)))
        ''connector capability IDs must be unique'',
      require (list_all (\<lambda>c. cm_connector_id c = mf_connector_id m) (mf_capabilities m))
        ''capability connector_id does not match connector manifest'',
      require (mf_supported_operations m \<noteq> {||} \<and>
          mf_supported_operations m |\<subseteq>| fset_of_list CONNECTOR_OPERATIONS)
        ''supported_operations contains an unknown operation'',
      require (declared_operations (mf_capabilities m) = mf_supported_operations m)
        ''connector and capability operation declarations differ'',
      validate_set (mf_dependencies m) ''dependencies'']"

definition ConnectorManifest_init :: "ConnectorManifest \<Rightarrow> ConnectorManifest result" where
  "ConnectorManifest_init m = construct (ConnectorManifest_checks m)
     (m\<lparr>mf_capabilities := sort_key cm_capability_id (mf_capabilities m),
        mf_manifest_hash := digest (ConnectorManifest_content m)\<rparr>)"

definition ConnectorManifest_to_dict :: "ConnectorManifest \<Rightarrow> jobj" where
  "ConnectorManifest_to_dict m =
     ConnectorManifest_content m @ [(''manifest_hash'', JStr (mf_manifest_hash m))]"

definition ConnectorManifest_from_dict :: "jobj \<Rightarrow> ConnectorManifest result" where
  "ConnectorManifest_from_dict v =
     rbind (require_schema v) (\<lambda>_.
     rbind (case getd v ''capabilities'' of JList xs \<Rightarrow> Inr xs
              | _ \<Rightarrow> Inl (ValueError ''capabilities must be a list'')) (\<lambda>capabilities.
     rbind (str_item v ''connector_id'') (\<lambda>connector_id.
     rbind (str_item v ''version'') (\<lambda>version.
     rbind (str_item v ''display_name'') (\<lambda>display_name.
     rbind (str_item v ''provider_id'') (\<lambda>provider_id.
     rbind (str_item v ''description'') (\<lambda>description.
     rbind (str_item v ''connector_type'') (\<lambda>connector_type.
     rbind (traverse (\<lambda>c. rbind (as_dict ''nested value must be an object'' c)
              CapabilityManifest_from_dict) capabilities) (\<lambda>cs.
     rbind (validated_set (getd v ''supported_operations'') ''supported_operations'') (\<lambda>operations.
     rbind (str_item v ''configuration_schema_ref'') (\<lambda>schema_ref.
     rbind (str_item v ''configuration_schema_version'') (\<lambda>schema_version.
     rbind (validated_set (getd v ''dependencies'') ''dependencies'') (\<lambda>dependencies.
     rbind (str_item v ''minimum_core_version'') (\<lambda>minimum_core_version.
     rbind (str_item v ''manifest_schema_version'') (\<lambda>manifest_schema_version.
     rbind (ConnectorManifest_init
       \<lparr>mf_connector_id = connector_id, mf_version = version, mf_display_name = display_name,
        mf_provider_id = provider_id, mf_description = description,
        mf_connector_type = connector_type, mf_capabilities = cs,
        mf_supported_operations = operations, mf_configuration_schema_ref = schema_ref,
        mf_configuration_schema_version = schema_version, mf_dependencies = dependencies,
        mf_minimum_core_version = minimum_core_version,
        mf_manifest_schema_version = manifest_schema_version, mf_manifest_hash = []\<rparr>) (\<lambda>instance.
     if getd v ''manifest_hash'' = JStr (mf_manifest_hash instance) then Inr instance
     else Inl (ValueError ''connector manifest hash does not match content'')))))))))))))))))"

section \<open>Requests\<close>

record ConnectorRequest =
  cr_request_id :: string
  cr_correlation_id :: string
  cr_principal :: PrincipalContext
  cr_purpose :: Purpose
  cr_security_domain :: SecurityDomain
  cr_classification :: Classification
  cr_capability_id :: string
  cr_operation :: string
  cr_authority :: CapabilityUseDecision
  cr_scope :: "string list"

definition authority_bound :: "ConnectorRequest \<Rightarrow> bool" where
  "authority_bound r =
     (let q = ud_request (cr_authority r) in
      PrincipalContext_eq (pr_principal q) (cr_principal r) \<and>
      Purpose_eq (pr_purpose q) (cr_purpose r) \<and>
      SecurityDomain_eq (pr_security_domain q) (cr_security_domain r) \<and>
      Classification_eq (pr_classification q) (cr_classification r) \<and>
      pr_capability_id q = cr_capability_id r \<and> pr_operation q = cr_operation r \<and>
      pr_resource_scope q = cr_scope r)"

definition ConnectorRequest_init :: "ConnectorRequest \<Rightarrow> ConnectorRequest result" where
  "ConnectorRequest_init r = construct
     [validate_identifier (cr_request_id r) ''request_id'',
      validate_identifier (cr_correlation_id r) ''correlation_id'',
      validate_identifier (cr_capability_id r) ''capability_id'',
      validate_identifier (cr_operation r) ''operation'',
      validate_list (cr_scope r) ''scope'',
      require (CapabilityUseDecision_is_usable (cr_authority r))
        ''connector request requires an explicitly usable authority decision'',
      require (authority_bound r) ''authority decision is not bound to this connector request''] r"

section \<open>Checkpoints\<close>

record Checkpoint =
  cp_checkpoint_id :: string
  cp_connector_id :: string
  cp_connector_version :: string
  cp_configuration_hash :: string
  cp_operation :: string
  cp_source_scope :: "string list"
  cp_resume_marker :: string
  cp_durable_items :: int
  cp_created_at :: datetime

definition Checkpoint_init :: "Checkpoint \<Rightarrow> Checkpoint result" where
  "Checkpoint_init c = construct
     [validate_identifier (cp_checkpoint_id c) ''checkpoint_id'',
      validate_identifier (cp_connector_id c) ''connector_id'',
      validate_identifier (cp_connector_version c) ''connector_version'',
      validate_identifier (cp_operation c) ''operation'',
      require (is_sha256 (cp_configuration_hash c))
        ''configuration_hash must be a lowercase SHA-256 value'',
      validate_list (cp_source_scope c) ''source_scope'',
      validate_identifier (cp_resume_marker c) ''resume_marker'',
      require (\<not> cp_durable_items c < 0) ''durable_items must not be negative'',
      require (\<not> tzinfo_None (cp_created_at c)) ''created_at must be timezone-aware''] c"

definition is_compatible :: "Checkpoint \<Rightarrow> string \<Rightarrow> string \<Rightarrow> string \<Rightarrow> bool" where
  "is_compatible c connector_id connector_version configuration_hash =
     (cp_connector_id c = connector_id \<and> cp_connector_version c = connector_version \<and>
      cp_configuration_hash c = configuration_hash)"

definition Checkpoint_to_dict :: "Checkpoint \<Rightarrow> jobj" where
  "Checkpoint_to_dict c =
     [(''schema_version'', JStr SCHEMA_VERSION),
      (''checkpoint_id'', JStr (cp_checkpoint_id c)),
      (''connector_id'', JStr (cp_connector_id c)),
      (''connector_version'', JStr (cp_connector_version c)),
      (''configuration_hash'', JStr (cp_configuration_hash c)),
      (''operation'', JStr (cp_operation c)),
      (''source_scope'', strs (cp_source_scope c)),
      (''resume_marker'', JStr (cp_resume_marker c)),
      (''durable_items'', JInt (cp_durable_items c)),
      (''created_at'', format_datetime (Some (cp_created_at c)))]"

definition Checkpoint_from_dict :: "jobj \<Rightarrow> Checkpoint result" where
  "Checkpoint_from_dict v =
     rbind (require_schema v) (\<lambda>_.
     rbind (required_datetime ''created_at'' (getd v ''created_at'')) (\<lambda>created_at.
     rbind (str_item v ''checkpoint_id'') (\<lambda>checkpoint_id.
     rbind (str_item v ''connector_id'') (\<lambda>connector_id.
     rbind (str_item v ''connector_version'') (\<lambda>connector_version.
     rbind (str_item v ''configuration_hash'') (\<lambda>configuration_hash.
     rbind (str_item v ''operation'') (\<lambda>operation.
     rbind (string_tuple_of True (getd v ''source_scope'') ''source_scope'') (\<lambda>source_scope.
     rbind (str_item v ''resume_marker'') (\<lambda>resume_marker.
     rbind (rbind (item v ''durable_items'') py_int) (\<lambda>durable_items.
     Checkpoint_init
       \<lparr>cp_checkpoint_id = checkpoint_id, cp_connector_id = connector_id,
        cp_connector_version = connector_version, cp_configuration_hash = configuration_hash,
        cp_operation = operation, cp_source_scope = source_scope,
        cp_resume_marker = resume_marker, cp_durable_items = durable_items,
        cp_created_at = created_at\<rparr>))))))))))"

section \<open>Plans\<close>

record ConnectorPlan =
  pl_plan_id :: string
  pl_connector_id :: string
  pl_connector_version :: string
  pl_capability_id :: string
  pl_operation :: string
  pl_scope :: "string list"
  pl_permissions_required :: "string list"
  pl_proposed_mutations :: "string list"
  pl_risk_level :: string
  pl_irreversible_effects :: "string list"
  pl_approval_required :: bool
  pl_estimated_items :: "int option"
  pl_estimated_storage_bytes :: "int option"
  pl_configuration_hash :: "string option"
  pl_plan_hash :: string

definition ConnectorPlan_content :: "ConnectorPlan \<Rightarrow> jobj" where
  "ConnectorPlan_content p =
     [(''schema_version'', JStr SCHEMA_VERSION),
      (''plan_id'', JStr (pl_plan_id p)),
      (''connector_id'', JStr (pl_connector_id p)),
      (''connector_version'', JStr (pl_connector_version p)),
      (''capability_id'', JStr (pl_capability_id p)),
      (''operation'', JStr (pl_operation p)),
      (''scope'', strs (pl_scope p)),
      (''permissions_required'', strs (pl_permissions_required p)),
      (''proposed_mutations'', strs (pl_proposed_mutations p)),
      (''risk_level'', JStr (pl_risk_level p)),
      (''irreversible_effects'', strs (pl_irreversible_effects p)),
      (''approval_required'', JBool (pl_approval_required p)),
      (''estimated_items'', opt JInt (pl_estimated_items p)),
      (''estimated_storage_bytes'', opt JInt (pl_estimated_storage_bytes p)),
      (''configuration_hash'', opt JStr (pl_configuration_hash p))]"

definition ConnectorPlan_checks :: "ConnectorPlan \<Rightarrow> check list" where
  "ConnectorPlan_checks p =
     [validate_identifier (pl_plan_id p) ''plan_id'',
      validate_identifier (pl_connector_id p) ''connector_id'',
      validate_identifier (pl_connector_version p) ''connector_version'',
      validate_identifier (pl_capability_id p) ''capability_id'',
      validate_identifier (pl_operation p) ''operation'',
      validate_identifier (pl_risk_level p) ''risk_level'',
      validate_list (pl_scope p) ''scope'',
      validate_list (pl_permissions_required p) ''permissions_required'',
      when_some (pl_estimated_items p) (\<lambda>n.
        require (\<not> n < 0) ''estimated_items must not be negative''),
      when_some (pl_estimated_storage_bytes p) (\<lambda>n.
        require (\<not> n < 0) ''estimated_storage_bytes must not be negative''),
      when_some (pl_configuration_hash p) (\<lambda>h.
        require (is_sha256 h) ''configuration_hash must be a lowercase SHA-256 value'')]"

definition ConnectorPlan_init :: "ConnectorPlan \<Rightarrow> ConnectorPlan result" where
  "ConnectorPlan_init p = construct (ConnectorPlan_checks p)
     (p\<lparr>pl_plan_hash := digest (ConnectorPlan_content p)\<rparr>)"

definition ConnectorPlan_to_dict :: "ConnectorPlan \<Rightarrow> jobj" where
  "ConnectorPlan_to_dict p = ConnectorPlan_content p @ [(''plan_hash'', JStr (pl_plan_hash p))]"

definition ConnectorPlan_from_dict :: "jobj \<Rightarrow> ConnectorPlan result" where
  "ConnectorPlan_from_dict v =
     rbind (require_schema v) (\<lambda>_.
     rbind (str_item v ''plan_id'') (\<lambda>plan_id.
     rbind (str_item v ''connector_id'') (\<lambda>connector_id.
     rbind (str_item v ''connector_version'') (\<lambda>connector_version.
     rbind (str_item v ''capability_id'') (\<lambda>capability_id.
     rbind (str_item v ''operation'') (\<lambda>operation.
     rbind (string_tuple_of True (getd v ''scope'') ''scope'') (\<lambda>scope.
     rbind (string_tuple_of True (getd v ''permissions_required'') ''permissions_required'') (\<lambda>permissions.
     rbind (string_tuple_of False (getd v ''proposed_mutations'') ''proposed_mutations'') (\<lambda>mutations.
     rbind (str_item v ''risk_level'') (\<lambda>risk_level.
     rbind (string_tuple_of False (getd v ''irreversible_effects'') ''irreversible_effects'') (\<lambda>effects.
     rbind (strict_bool (getd v ''approval_required'') ''value must be a boolean'') (\<lambda>approval_required.
     rbind (optional_int (getd v ''estimated_items'')) (\<lambda>estimated_items.
     rbind (optional_int (getd v ''estimated_storage_bytes'')) (\<lambda>estimated_storage.
     rbind (ConnectorPlan_init
       \<lparr>pl_plan_id = plan_id, pl_connector_id = connector_id,
        pl_connector_version = connector_version, pl_capability_id = capability_id,
        pl_operation = operation, pl_scope = scope, pl_permissions_required = permissions,
        pl_proposed_mutations = mutations, pl_risk_level = risk_level,
        pl_irreversible_effects = effects, pl_approval_required = approval_required,
        pl_estimated_items = estimated_items, pl_estimated_storage_bytes = estimated_storage,
        pl_configuration_hash = as_optional_str (getd v ''configuration_hash''),
        pl_plan_hash = []\<rparr>) (\<lambda>instance.
     if getd v ''plan_hash'' = JStr (pl_plan_hash instance) then Inr instance
     else Inl (ValueError ''connector plan hash does not match content''))))))))))))))))"

section \<open>Results\<close>

record ResourceCandidate =
  rs_resource_id :: string
  rs_resource_type :: string
  rs_source_ref :: string
  rs_security_domain :: SecurityDomain
  rs_classification :: Classification
  rs_size_bytes :: "int option"
  rs_modified_at :: "datetime option"
  rs_estimated_relevance :: string
  rs_already_known :: "bool option"
  rs_required_permissions :: "string list"
  rs_warnings :: "string list"

definition ResourceCandidate_init :: "ResourceCandidate \<Rightarrow> ResourceCandidate result" where
  "ResourceCandidate_init r = construct
     [validate_identifier (rs_resource_id r) ''resource_id'',
      validate_identifier (rs_resource_type r) ''resource_type'',
      not_blank (rs_source_ref r) ''source_ref'',
      validate_safe_uri (rs_source_ref r) ''source_ref'',
      when_some (rs_size_bytes r) (\<lambda>n. require (\<not> n < 0) ''size_bytes must not be negative''),
      aware (rs_modified_at r) ''modified_at must be timezone-aware'',
      validate_identifier (rs_estimated_relevance r) ''estimated_relevance'',
      validate_list (rs_required_permissions r) ''required_permissions'',
      require (list_all (\<lambda>w. \<not> blank w) (rs_warnings r)) ''warnings must not contain blank values''] r"

record DiscoveryResult =
  dr_request_id :: string
  dr_resources :: "ResourceCandidate list"
  dr_warnings :: "string list"
  dr_checkpoint :: "Checkpoint option"
  dr_processed_resources :: int
  dr_complete :: bool

definition DiscoveryResult_init :: "DiscoveryResult \<Rightarrow> DiscoveryResult result" where
  "DiscoveryResult_init r = construct
     [require (\<not> dr_processed_resources r < 0) ''processed_resources must not be negative'',
      require (\<not> (\<not> dr_complete r \<and> dr_checkpoint r = None))
        ''incomplete discovery requires a durable checkpoint''] r"

record InspectionResult =
  ir_request_id :: string
  ir_resource :: ResourceCandidate
  ir_observations :: "string list"

datatype VerificationStatus = VS_VERIFIED | VS_VERIFIED_WITH_WARNINGS | VS_FAILED | VS_INDETERMINATE

fun VerificationStatus_value :: "VerificationStatus \<Rightarrow> string" where
  "VerificationStatus_value VS_VERIFIED = ''verified''"
| "VerificationStatus_value VS_VERIFIED_WITH_WARNINGS = ''verified_with_warnings''"
| "VerificationStatus_value VS_FAILED = ''failed''"
| "VerificationStatus_value VS_INDETERMINATE = ''indeterminate''"

record VerificationResult =
  vr_operation_id :: string
  vr_status :: VerificationStatus
  vr_explanation :: string
  vr_expected_count :: "int option"
  vr_actual_count :: "int option"
  vr_warnings :: "string list"

definition is_verified :: "VerificationResult \<Rightarrow> bool" where
  "is_verified r = (vr_status r \<in> {VS_VERIFIED, VS_VERIFIED_WITH_WARNINGS})"

record IngestResult =
  ig_request_id :: string
  ig_records :: "UniversalRecordRef list"
  ig_checkpoint :: "Checkpoint option"
  ig_processed_items :: int
  ig_total_items :: "int option"
  ig_complete :: bool

definition IngestResult_init :: "IngestResult \<Rightarrow> IngestResult result" where
  "IngestResult_init r = construct
     [require (\<not> ig_processed_items r < 0) ''processed_items must not be negative'',
      when_some (ig_total_items r) (\<lambda>n. require (\<not> n < ig_processed_items r)
        ''total_items must not be less than processed_items''),
      require (\<not> (\<not> ig_complete r \<and> ig_checkpoint r = None))
        ''incomplete ingestion requires a durable checkpoint''] r"

record SearchResult =
  se_request_id :: string
  se_evidence :: "EvidenceRef list"

record ActionResult =
  ar_request_id :: string
  ar_plan_id :: string
  ar_plan_hash :: string
  ar_changed_items :: int
  ar_verification :: VerificationResult

section \<open>Well-formed values\<close>

definition ConnectorManifest_wf :: "ConnectorManifest \<Rightarrow> bool" where
  "ConnectorManifest_wf m =
     (ConnectorManifest_init m = Inr m \<and> list_all CapabilityManifest_wf (mf_capabilities m))"

definition ConnectorRequest_wf :: "ConnectorRequest \<Rightarrow> bool" where
  "ConnectorRequest_wf r =
     (returns (ConnectorRequest_init r) \<and> PrincipalContext_wf (cr_principal r) \<and>
      Purpose_wf (cr_purpose r) \<and> SecurityDomain_wf (cr_security_domain r) \<and>
      Classification_wf (cr_classification r) \<and> CapabilityUseDecision_wf (cr_authority r))"

definition Checkpoint_wf :: "Checkpoint \<Rightarrow> bool" where
  "Checkpoint_wf c = (returns (Checkpoint_init c) \<and> stamp (cp_created_at c))"

definition Checkpoint_norm :: "Checkpoint \<Rightarrow> Checkpoint" where
  "Checkpoint_norm c = c\<lparr>cp_created_at := to_utc (cp_created_at c)\<rparr>"

definition ConnectorPlan_constructed :: "ConnectorPlan \<Rightarrow> bool" where
  "ConnectorPlan_constructed p = (ConnectorPlan_init p = Inr p)"

definition ConnectorPlan_wf :: "ConnectorPlan \<Rightarrow> bool" where
  \<comment> \<open>the reader rejects blank effect texts, which the constructor accepts\<close>
  "ConnectorPlan_wf p =
     (ConnectorPlan_constructed p \<and> list_all (\<lambda>s. \<not> blank s) (pl_proposed_mutations p) \<and>
      list_all (\<lambda>s. \<not> blank s) (pl_irreversible_effects p))"

section \<open>Lemmas\<close>

lemma string_tuple_of_strs [simp, codec_simps]:
  "list_all valid_identifier xs \<Longrightarrow> string_tuple_of True (strs xs) field = Inr xs"
  "list_all (\<lambda>s. \<not> blank s) xs \<Longrightarrow> string_tuple_of False (strs xs) field = Inr xs"
  by (simp_all add: string_tuple_of_def construct_ok check_simps)

lemma validated_set_sorted [simp, codec_simps]:
  "fBall s valid_identifier \<Longrightarrow> validated_set (strs (sorted_list_of_fset s)) field = Inr s"
  by (simp add: validated_set_def list_all_iff)

lemma CONNECTOR_OPERATIONS_valid: "list_all valid_identifier CONNECTOR_OPERATIONS"
  by code_simp

lemma ConnectorManifest_init_Inr:
  "ConnectorManifest_init m = Inr m' \<longleftrightarrow>
     m' = m\<lparr>mf_capabilities := sort_key cm_capability_id (mf_capabilities m),
        mf_manifest_hash := digest (ConnectorManifest_content m)\<rparr> \<and>
     first_error (ConnectorManifest_checks m) = None"
  by (auto simp: ConnectorManifest_init_def check_simps)

lemma ConnectorManifest_wf_facts:
  assumes "ConnectorManifest_wf m"
  shows "sort_key cm_capability_id (mf_capabilities m) = mf_capabilities m"
    and "mf_manifest_hash m = digest (ConnectorManifest_content m)"
    and "fBall (mf_supported_operations m) valid_identifier"
    and "fBall (mf_dependencies m) valid_identifier"
proof -
  let ?m = "m\<lparr>mf_capabilities := sort_key cm_capability_id (mf_capabilities m),
    mf_manifest_hash := digest (ConnectorManifest_content m)\<rparr>"
  have "m = ?m" and checks: "first_error (ConnectorManifest_checks m) = None"
    using assms by (auto simp: ConnectorManifest_wf_def ConnectorManifest_init_Inr)
  then have "mf_capabilities m = mf_capabilities ?m" "mf_manifest_hash m = mf_manifest_hash ?m"
    by metis+
  then show "sort_key cm_capability_id (mf_capabilities m) = mf_capabilities m"
    "mf_manifest_hash m = digest (ConnectorManifest_content m)" by simp_all
  show "fBall (mf_supported_operations m) valid_identifier"
    "fBall (mf_dependencies m) valid_identifier"
    using checks CONNECTOR_OPERATIONS_valid
    by (auto simp: ConnectorManifest_checks_def check_simps list_all_iff fset_of_list_elem
        dest!: fsubsetD)
qed

lemma hash_field_irrelevant [simp]:
  "ConnectorManifest_content (m\<lparr>mf_manifest_hash := h\<rparr>) = ConnectorManifest_content m"
  "ConnectorManifest_checks (m\<lparr>mf_manifest_hash := h\<rparr>) = ConnectorManifest_checks m"
  "ConnectorPlan_content (p\<lparr>pl_plan_hash := h\<rparr>) = ConnectorPlan_content p"
  "ConnectorPlan_checks (p\<lparr>pl_plan_hash := h\<rparr>) = ConnectorPlan_checks p"
  by (simp_all add: ConnectorManifest_content_def ConnectorManifest_checks_def
      ConnectorPlan_content_def ConnectorPlan_checks_def)

lemma ConnectorManifest_reinit:
  assumes "ConnectorManifest_wf m"
  shows "ConnectorManifest_init (m\<lparr>mf_manifest_hash := h\<rparr>) = Inr m"
proof -
  have "m\<lparr>mf_manifest_hash := mf_manifest_hash m\<rparr> = m" by simp
  then show ?thesis
    using assms ConnectorManifest_wf_facts(1,2) [OF assms]
    by (simp add: ConnectorManifest_wf_def ConnectorManifest_init_Inr)
qed

interpretation mf: codec ConnectorManifest_to_dict ConnectorManifest_from_dict ConnectorManifest_wf id
proof unfold_locales
  fix x :: ConnectorManifest
  assume wf: "ConnectorManifest_wf x"
  have cs: "traverse (\<lambda>c. rbind (as_dict ''nested value must be an object'' c)
      CapabilityManifest_from_dict) (map (\<lambda>c. JObj (CapabilityManifest_to_dict c)) (mf_capabilities x)) =
      Inr (map id (mf_capabilities x))"
    by (rule cm.dec_list) (use wf in \<open>simp add: ConnectorManifest_wf_def list_all_iff\<close>)
  show "ConnectorManifest_from_dict (ConnectorManifest_to_dict x) = Inr (id x)"
    using ConnectorManifest_wf_facts [OF wf] ConnectorManifest_reinit [OF wf, of "[]"] cs
    by (cases x) (simp add: ConnectorManifest_from_dict_def ConnectorManifest_to_dict_def
        str_item_def ConnectorManifest_content_def)
qed simp_all

lemma Checkpoint_init_iff:
  "returns (Checkpoint_init c) \<longleftrightarrow>
     valid_identifier (cp_checkpoint_id c) \<and> valid_identifier (cp_connector_id c) \<and>
     valid_identifier (cp_connector_version c) \<and> valid_identifier (cp_operation c) \<and>
     is_sha256 (cp_configuration_hash c) \<and> list_all valid_identifier (cp_source_scope c) \<and>
     valid_identifier (cp_resume_marker c) \<and> 0 \<le> cp_durable_items c \<and>
     \<not> tzinfo_None (cp_created_at c)"
  by (auto simp: Checkpoint_init_def check_simps)

lemma Checkpoint_wf_norm: "Checkpoint_wf c \<Longrightarrow> Checkpoint_wf (Checkpoint_norm c)"
  by (simp add: Checkpoint_wf_def Checkpoint_norm_def Checkpoint_init_iff)

interpretation cp: codec Checkpoint_to_dict Checkpoint_from_dict Checkpoint_wf Checkpoint_norm
proof unfold_locales
  fix x :: Checkpoint
  assume wf: "Checkpoint_wf x"
  have "Checkpoint_init (Checkpoint_norm x) = Inr (Checkpoint_norm x)"
    using Checkpoint_wf_norm [OF wf]
    by (simp add: Checkpoint_wf_def Checkpoint_init_def construct_returns)
  then show "Checkpoint_from_dict (Checkpoint_to_dict x) = Inr (Checkpoint_norm x)"
    using wf by (cases x) (simp add: Checkpoint_from_dict_def str_item_def Checkpoint_init_iff
        Checkpoint_to_dict_def Checkpoint_norm_def Checkpoint_wf_def)
next
  fix x assume wf: "Checkpoint_wf x"
  then show "Checkpoint_wf (Checkpoint_norm x)" by (rule Checkpoint_wf_norm)
  show "Checkpoint_to_dict (Checkpoint_norm x) = Checkpoint_to_dict x"
    by (simp add: Checkpoint_to_dict_def Checkpoint_norm_def)
qed

lemma ConnectorPlan_init_Inr:
  "ConnectorPlan_init p = Inr p' \<longleftrightarrow>
     p' = p\<lparr>pl_plan_hash := digest (ConnectorPlan_content p)\<rparr> \<and>
     first_error (ConnectorPlan_checks p) = None"
  by (auto simp: ConnectorPlan_init_def check_simps)

lemma ConnectorPlan_hash:
  assumes "ConnectorPlan_constructed p"
  shows "pl_plan_hash p = digest (ConnectorPlan_content p)"
proof -
  have "p = p\<lparr>pl_plan_hash := digest (ConnectorPlan_content p)\<rparr>"
    using assms by (simp add: ConnectorPlan_constructed_def ConnectorPlan_init_Inr)
  then have "pl_plan_hash p = pl_plan_hash (p\<lparr>pl_plan_hash := digest (ConnectorPlan_content p)\<rparr>)"
    by metis
  then show ?thesis by simp
qed

lemma ConnectorPlan_reinit:
  assumes "ConnectorPlan_constructed p"
  shows "ConnectorPlan_init (p\<lparr>pl_plan_hash := h\<rparr>) = Inr p"
proof -
  have "p\<lparr>pl_plan_hash := pl_plan_hash p\<rparr> = p" by simp
  then show ?thesis
    using assms ConnectorPlan_hash [OF assms]
    by (simp add: ConnectorPlan_constructed_def ConnectorPlan_init_Inr)
qed

interpretation pl: codec ConnectorPlan_to_dict ConnectorPlan_from_dict ConnectorPlan_wf id
proof unfold_locales
  fix x :: ConnectorPlan
  assume "ConnectorPlan_wf x"
  then have c: "ConnectorPlan_constructed x" and b: "list_all (\<lambda>s. \<not> blank s) (pl_proposed_mutations x)"
      "list_all (\<lambda>s. \<not> blank s) (pl_irreversible_effects x)"
    by (simp_all add: ConnectorPlan_wf_def)
  have l: "list_all valid_identifier (pl_scope x)" "list_all valid_identifier (pl_permissions_required x)"
    using c by (simp_all add: ConnectorPlan_constructed_def ConnectorPlan_init_Inr
        ConnectorPlan_checks_def check_simps)
  show "ConnectorPlan_from_dict (ConnectorPlan_to_dict x) = Inr (id x)"
    using ConnectorPlan_reinit [OF c, of "[]"] b l ConnectorPlan_hash [OF c]
    by (cases x) (simp add: ConnectorPlan_from_dict_def ConnectorPlan_to_dict_def
        str_item_def ConnectorPlan_content_def)
qed simp_all

lemma ConnectorRequest_init_iff:
  "returns (ConnectorRequest_init r) \<longleftrightarrow>
     valid_identifier (cr_request_id r) \<and> valid_identifier (cr_correlation_id r) \<and>
     valid_identifier (cr_capability_id r) \<and> valid_identifier (cr_operation r) \<and>
     list_all valid_identifier (cr_scope r) \<and> ud_outcome (cr_authority r) = UO_READY \<and>
     authority_bound r"
  by (simp add: ConnectorRequest_init_def check_simps CapabilityUseDecision_is_usable_def)

lemma ConnectorRequest_init_Inr:
  "ConnectorRequest_init r = Inr r' \<longleftrightarrow> r' = r \<and> returns (ConnectorRequest_init r)"
  by (auto simp: ConnectorRequest_init_def check_simps)

lemma raise_connector_error_safe:
  "raise_connector_error cls expl cid = ConnectorExc c e t i \<Longrightarrow>
     c = error_code cls \<and> e = expl \<and> t = error_transient cls \<and> i = cid \<and> \<not> blank e \<and>
     \<not> multiline e \<and> length e \<le> 512"
  by (auto simp: raise_connector_error_def split: if_splits)

end
