(* ===== verification/Conformance.thy ===== *)
theory Conformance
  imports Connectors
begin

text \<open>
  \<open>src/edn/connectors/base.py\<close> and \<open>src/edn/connectors/conformance.py\<close>: a connector
  is its manifest and the methods it implements (\<open>None\<close> for a method it lacks; a method may
  raise), and the conformance check, the guards and the registration of a manifest's
  capabilities. Connector implementations are parameters: only their interface is fixed here.
\<close>

record connector =
  cx_manifest :: ConnectorManifest
  cx_discover :: "(ConnectorRequest \<Rightarrow> Checkpoint option \<Rightarrow> DiscoveryResult result) option"
  cx_inspect :: "(ConnectorRequest \<Rightarrow> InspectionResult result) option"
  cx_plan :: "(ConnectorRequest \<Rightarrow> ConnectorPlan result) option"
  cx_authenticate :: "(ConnectorRequest \<Rightarrow> VerificationResult result) option"
  cx_ingest :: "(ConnectorRequest \<Rightarrow> Checkpoint option \<Rightarrow> IngestResult result) option"
  cx_sync :: "(ConnectorRequest \<Rightarrow> Checkpoint option \<Rightarrow> IngestResult result) option"
  cx_checkpoint :: "(ConnectorRequest \<Rightarrow> Checkpoint result) option"
  cx_resume :: "(ConnectorRequest \<Rightarrow> Checkpoint \<Rightarrow> IngestResult result) option"
  cx_search :: "(ConnectorRequest \<Rightarrow> SearchResult result) option"
  cx_act :: "(ConnectorRequest \<Rightarrow> ConnectorPlan \<Rightarrow> ActionResult result) option"
  cx_verify :: "(ConnectorRequest \<Rightarrow> VerificationResult result) option"

definition CheckpointingConnector :: "connector \<Rightarrow> bool" where
  "CheckpointingConnector c = (cx_checkpoint c \<noteq> None \<and> cx_resume c \<noteq> None)"

definition PROTOCOLS :: "(connector \<Rightarrow> bool) dict" where
  \<comment> \<open>\<open>isinstance(connector, _PROTOCOLS[operation])\<close>: a runtime-checkable protocol tests that its
     methods exist\<close>
  "PROTOCOLS =
     [(''discover'', \<lambda>c. cx_discover c \<noteq> None), (''inspect'', \<lambda>c. cx_inspect c \<noteq> None),
      (''plan'', \<lambda>c. cx_plan c \<noteq> None), (''authenticate'', \<lambda>c. cx_authenticate c \<noteq> None),
      (''ingest'', \<lambda>c. cx_ingest c \<noteq> None), (''sync'', \<lambda>c. cx_sync c \<noteq> None),
      (''checkpoint'', CheckpointingConnector), (''resume'', CheckpointingConnector),
      (''search'', \<lambda>c. cx_search c \<noteq> None), (''act'', \<lambda>c. cx_act c \<noteq> None),
      (''verify'', \<lambda>c. cx_verify c \<noteq> None)]"

definition implements :: "connector \<Rightarrow> string \<Rightarrow> bool" where
  "implements c operation = (case map_of PROTOCOLS operation of None \<Rightarrow> False | Some p \<Rightarrow> p c)"

record ConformanceIssue =
  ci_code :: string
  ci_explanation :: string

record ConformanceReport =
  co_connector_id :: string
  co_issues :: "ConformanceIssue list"

definition conforms :: "ConformanceReport \<Rightarrow> bool" where
  "conforms r = (co_issues r = [])"

definition issue :: "string \<Rightarrow> string \<Rightarrow> ConformanceIssue" where
  "issue c e = \<lparr>ci_code = c, ci_explanation = e\<rparr>"

definition manifest_issues :: "ConnectorManifest \<Rightarrow> ConformanceIssue list result" where
  "manifest_issues manifest = (case ConnectorManifest_from_dict (ConnectorManifest_to_dict manifest) of
       Inr m \<Rightarrow> Inr (if m \<noteq> manifest then [issue ''manifest_round_trip'' ''Manifest changed.''] else [])
     | Inl (KeyError _) \<Rightarrow> Inr [issue ''manifest_round_trip'' ''Manifest failed validation.'']
     | Inl (TypeError _) \<Rightarrow> Inr [issue ''manifest_round_trip'' ''Manifest failed validation.'']
     | Inl (ValueError _) \<Rightarrow> Inr [issue ''manifest_round_trip'' ''Manifest failed validation.'']
     | Inl e \<Rightarrow> Inl e)"

definition operation_issues :: "connector \<Rightarrow> string \<Rightarrow> ConformanceIssue list" where
  "operation_issues c operation =
     (let declared = operation |\<in>| mf_supported_operations (cx_manifest c);
          implemented = implements c operation
      in (if declared \<and> \<not> implemented then [issue ''declared_operation_missing''
            (''Declared operation '' @ operation @ '' has no protocol implementation.'')] else []) @
         (if implemented \<and> \<not> declared then [issue ''undeclared_operation_implemented''
            (''Implemented operation '' @ operation @ '' is not declared.'')] else []))"

definition check_connector :: "connector \<Rightarrow> ConformanceReport result" where
  "check_connector c =
     rbind (manifest_issues (cx_manifest c)) (\<lambda>issues.
     Inr \<lparr>co_connector_id = mf_connector_id (cx_manifest c),
          co_issues = issues @ concat (map (operation_issues c) CONNECTOR_OPERATIONS)\<rparr>)"

definition require_supported_operation :: "connector \<Rightarrow> ConnectorRequest \<Rightarrow> unit result" where
  "require_supported_operation c request =
     (let manifest = cx_manifest c in
      if cr_operation request |\<notin>| mf_supported_operations manifest then
        Inl (raise_connector_error UnsupportedOperationError
          (''Operation '' @ cr_operation request @ '' is not declared by this connector.'')
          (Some (mf_connector_id manifest)))
      else if cr_capability_id request \<notin> set (map cm_capability_id (mf_capabilities manifest)) then
        Inl (raise_connector_error UnsupportedOperationError
          ''Requested capability is not declared by this connector.''
          (Some (mf_connector_id manifest)))
      else Inr ())"

definition validate_plan_binding ::
  "ConnectorPlan \<Rightarrow> ConnectorPlan \<Rightarrow> ConnectorPlan \<Rightarrow> ConformanceIssue list" where
  "validate_plan_binding p repeated changed_scope =
     (if stable_json (JObj (ConnectorPlan_to_dict p)) \<noteq> stable_json (JObj (ConnectorPlan_to_dict repeated)) \<or>
         pl_plan_hash p \<noteq> pl_plan_hash repeated
      then [issue ''plan_not_deterministic'' ''Equivalent plans differ.''] else []) @
     (if pl_scope p \<noteq> pl_scope changed_scope \<and> pl_plan_hash p = pl_plan_hash changed_scope
      then [issue ''plan_scope_not_bound'' ''Plan hash ignores scope changes.''] else [])"

definition require_compatible_checkpoint ::
  "Checkpoint \<Rightarrow> ConnectorManifest \<Rightarrow> string \<Rightarrow> unit result" where
  "require_compatible_checkpoint checkpoint manifest configuration_hash =
     (if \<not> is_compatible checkpoint (mf_connector_id manifest) (mf_version manifest) configuration_hash
      then Inl (raise_connector_error InvalidCheckpointError
        ''Checkpoint is incompatible with connector version or configuration.''
        (Some (mf_connector_id manifest)))
      else Inr ())"

fun register_capabilities ::
  "(string \<Rightarrow> ConnectorManifest \<Rightarrow> CapabilityRuntimeState result) \<Rightarrow> ConnectorManifest \<Rightarrow>
     CapabilityManifest list \<Rightarrow> (registry, RegisteredCapability list) stm" where
  "register_capabilities runtime_factory manifest [] = ret []"
| "register_capabilities runtime_factory manifest (c # cs) =
     sbind (lift (runtime_factory (cm_capability_id c) manifest)) (\<lambda>runtime.
     sbind (registry_register c runtime) (\<lambda>r.
     sbind (register_capabilities runtime_factory manifest cs) (\<lambda>rs. ret (r # rs))))"

definition register_manifest_capabilities ::
  "ConnectorManifest \<Rightarrow> (string \<Rightarrow> ConnectorManifest \<Rightarrow> CapabilityRuntimeState result) \<Rightarrow>
     (registry, RegisteredCapability list) stm" where
  "register_manifest_capabilities manifest runtime_factory =
     register_capabilities runtime_factory manifest
       (sort_key cm_capability_id (mf_capabilities manifest))"

section \<open>Lemmas\<close>

lemma manifest_issues_wf: "ConnectorManifest_wf m \<Longrightarrow> manifest_issues m = Inr []"
  by (simp add: manifest_issues_def mf.dec_enc)

lemma operation_issues_Nil:
  "operation_issues c operation = [] \<longleftrightarrow>
     (operation |\<in>| mf_supported_operations (cx_manifest c) \<longleftrightarrow> implements c operation)"
  by (auto simp: operation_issues_def Let_def)

lemma check_connector_wf:
  assumes "ConnectorManifest_wf (cx_manifest c)"
  shows "\<exists>r. check_connector c = Inr r \<and> co_connector_id r = mf_connector_id (cx_manifest c) \<and>
    (conforms r \<longleftrightarrow> (\<forall>operation \<in> set CONNECTOR_OPERATIONS.
       operation |\<in>| mf_supported_operations (cx_manifest c) \<longleftrightarrow> implements c operation))"
  by (simp add: check_connector_def manifest_issues_wf [OF assms] conforms_def
      operation_issues_Nil)

lemma register_cases:
  assumes "registry_ok reg" "CapabilityManifest_wf c" "CapabilityRuntimeState_wf rt"
  obtains (taken) e where "registry_register c rt reg = (Inl e, reg)"
  | (fresh) v reg' where "registry_register c rt reg = (Inr v, reg')" "registry_ok reg'"
      "rc_manifest v = c" "map_of reg (cm_capability_id c) = None"
      "map_of reg' = (map_of reg)(cm_capability_id c \<mapsto> v)"
proof -
  define v where "v = \<lparr>rc_manifest = c, rc_runtime = rt\<rparr>"
  have v: "rc_manifest v = c" "rc_runtime v = rt" by (simp_all add: v_def)
  moreover have "RegisteredCapability_wf v" using assms by (simp add: v_def RegisteredCapability_wf_def)
  ultimately show ?thesis
    using that reg.insert_fresh [of reg v] reg.insert_taken [of reg v] assms(1)
    by (cases "map_of reg (cm_capability_id c)") auto
qed

lemma register_capabilities_ok:
  assumes "registry_ok reg" "list_all CapabilityManifest_wf cs"
    and "\<And>i rt. factory i m = Inr rt \<Longrightarrow> CapabilityRuntimeState_wf rt"
    and "register_capabilities factory m cs reg = (r, reg')"
  shows "registry_ok reg' \<and> map_of reg \<subseteq>\<^sub>m map_of reg' \<and>
    (\<forall>rs. r = Inr rs \<longrightarrow> map rc_manifest rs = cs \<and>
      (\<forall>v \<in> set rs. map_of reg' (cm_capability_id (rc_manifest v)) = Some v))"
  using assms(1,2,4)
proof (induction cs arbitrary: reg r)
  case Nil
  then show ?case by (auto simp: ret_def)
next
  case (Cons c cs)
  show ?case
  proof (cases "factory (cm_capability_id c) m")
    case (Inl e)
    with Cons.prems show ?thesis by (auto simp: throw_def)
  next
    case (Inr rt)
    then have rt: "CapabilityRuntimeState_wf rt" by (rule assms(3))
    have c: "CapabilityManifest_wf c" using Cons.prems(2) by simp
    from Cons.prems(1) c rt show ?thesis
    proof (cases rule: register_cases)
      case (taken e)
      with Cons.prems Inr show ?thesis by (auto simp: sbind_def)
    next
      case (fresh v reg1)
      then obtain r1 where r1: "register_capabilities factory m cs reg1 = (r1, reg')"
        "\<forall>rs. r = Inr rs \<longrightarrow> (\<exists>us. r1 = Inr us \<and> rs = v # us)"
        using Cons.prems(3) Inr
        by (auto simp: sbind_def ret_def split: prod.splits sum.splits)
      have IH: "registry_ok reg' \<and> map_of reg1 \<subseteq>\<^sub>m map_of reg' \<and>
          (\<forall>rs. r1 = Inr rs \<longrightarrow> map rc_manifest rs = cs \<and>
            (\<forall>v \<in> set rs. map_of reg' (cm_capability_id (rc_manifest v)) = Some v))"
        using Cons.prems(2) by (intro Cons.IH [OF fresh(2) _ r1(1)]) simp
      moreover have "map_of reg \<subseteq>\<^sub>m map_of reg1"
        using fresh(4,5) by (auto simp: map_le_def dom_def)
      moreover have "map_of reg' (cm_capability_id c) = Some v"
        using IH fresh(5) by (auto simp: map_le_def dom_def)
      ultimately show ?thesis using r1(2) fresh(3) map_le_trans by fastforce
    qed
  qed
qed

end
