(* ===== verification/JobModels.thy ===== *)
theory JobModels
  imports Conformance
begin

text \<open>
  \<open>src/edn/jobs/models.py\<close>: job statuses, retry policy, progress, results, approvals,
  jobs, attempts and audit events, with their constructors and JSON forms. Floats are exact
  rationals, so \<open>delay_for_attempt\<close> is exact.
\<close>

section \<open>Enumerations\<close>

datatype JobStatus =
    PLANNED | AWAITING_APPROVAL | READY | RUNNING | PAUSED | RETRY_WAIT | COMPLETED
  | COMPLETED_WITH_WARNINGS | FAILED | CANCELLED | BLOCKED | INDETERMINATE

fun JobStatus_value :: "JobStatus \<Rightarrow> string" where
  "JobStatus_value PLANNED = ''planned''"
| "JobStatus_value AWAITING_APPROVAL = ''awaiting_approval''"
| "JobStatus_value READY = ''ready''"
| "JobStatus_value RUNNING = ''running''"
| "JobStatus_value PAUSED = ''paused''"
| "JobStatus_value RETRY_WAIT = ''retry_wait''"
| "JobStatus_value COMPLETED = ''completed''"
| "JobStatus_value COMPLETED_WITH_WARNINGS = ''completed_with_warnings''"
| "JobStatus_value FAILED = ''failed''"
| "JobStatus_value CANCELLED = ''cancelled''"
| "JobStatus_value BLOCKED = ''blocked''"
| "JobStatus_value INDETERMINATE = ''indeterminate''"

definition JobStatus_members :: "JobStatus list" where
  "JobStatus_members =
     [PLANNED, AWAITING_APPROVAL, READY, RUNNING, PAUSED, RETRY_WAIT, COMPLETED,
      COMPLETED_WITH_WARNINGS, FAILED, CANCELLED, BLOCKED, INDETERMINATE]"

abbreviation JobStatus_of :: "json \<Rightarrow> JobStatus result" where
  "JobStatus_of \<equiv> enum_of JobStatus_members JobStatus_value"

datatype JobType = DISCOVERY | INGESTION | SYNC | SEARCH | ACTION | VERIFICATION | OTHER

fun JobType_value :: "JobType \<Rightarrow> string" where
  "JobType_value DISCOVERY = ''discovery''"
| "JobType_value INGESTION = ''ingestion''"
| "JobType_value SYNC = ''sync''"
| "JobType_value SEARCH = ''search''"
| "JobType_value ACTION = ''action''"
| "JobType_value VERIFICATION = ''verification''"
| "JobType_value OTHER = ''other''"

definition JobType_members :: "JobType list" where
  "JobType_members = [DISCOVERY, INGESTION, SYNC, SEARCH, ACTION, VERIFICATION, OTHER]"

abbreviation JobType_of :: "json \<Rightarrow> JobType result" where
  "JobType_of \<equiv> enum_of JobType_members JobType_value"

definition VerificationStatus_members :: "VerificationStatus list" where
  "VerificationStatus_members =
     [VS_VERIFIED, VS_VERIFIED_WITH_WARNINGS, VS_FAILED, VS_INDETERMINATE]"

abbreviation VerificationStatus_of :: "json \<Rightarrow> VerificationStatus result" where
  "VerificationStatus_of \<equiv> enum_of VerificationStatus_members VerificationStatus_value"

definition TERMINAL_STATUSES :: "JobStatus list" where
  "TERMINAL_STATUSES = [COMPLETED, COMPLETED_WITH_WARNINGS, FAILED, CANCELLED, INDETERMINATE]"

definition validate_safe_text :: "string \<Rightarrow> string \<Rightarrow> check" where
  "validate_safe_text s field = require (\<not> (blank s \<or> multiline s \<or> 512 < length s))
     (field @ '' must be bounded, nonblank, and single-line'')"

section \<open>Retry policy\<close>

record RetryPolicy =
  rp_max_attempts :: int
  rp_base_delay_seconds :: rat
  rp_retryable_error_codes :: "string fset"

definition RetryPolicy_init :: "RetryPolicy \<Rightarrow> RetryPolicy result" where
  "RetryPolicy_init p = construct
     [require (\<not> rp_max_attempts p < 1) ''max_attempts must be at least one'',
      require (\<not> rp_base_delay_seconds p < 0) ''base_delay_seconds must not be negative'',
      validate_set (rp_retryable_error_codes p) ''retryable_error_codes''] p"

definition delay_for_attempt :: "RetryPolicy \<Rightarrow> int \<Rightarrow> rat result" where
  "delay_for_attempt p attempt =
     (if attempt < 1 then Inl (ValueError ''attempt must be at least one'')
      else Inr (rp_base_delay_seconds p * 2 ^ nat (attempt - 1)))"

definition RetryPolicy_to_dict :: "RetryPolicy \<Rightarrow> jobj" where
  "RetryPolicy_to_dict p =
     [(''max_attempts'', JInt (rp_max_attempts p)),
      (''base_delay_seconds'', JFloat (rp_base_delay_seconds p)),
      (''retryable_error_codes'', strs (sorted_list_of_fset (rp_retryable_error_codes p)))]"

definition RetryPolicy_from_dict :: "jobj \<Rightarrow> RetryPolicy result" where
  "RetryPolicy_from_dict v =
     rbind (rbind (item v ''max_attempts'') py_int) (\<lambda>max_attempts.
     rbind (rbind (item v ''base_delay_seconds'') py_float) (\<lambda>base_delay.
     rbind (string_set (getd v ''retryable_error_codes'') ''retryable_error_codes'') (\<lambda>codes.
     RetryPolicy_init
       \<lparr>rp_max_attempts = max_attempts, rp_base_delay_seconds = base_delay,
        rp_retryable_error_codes = codes\<rparr>)))"

section \<open>Progress, results, errors\<close>

record JobProgress =
  jp_phase :: string
  jp_processed_items :: int
  jp_total_items :: "int option"
  jp_checkpoint_count :: int

definition JobProgress_init :: "JobProgress \<Rightarrow> JobProgress result" where
  "JobProgress_init p = construct
     [validate_identifier (jp_phase p) ''phase'',
      require (\<not> (jp_processed_items p < 0 \<or> jp_checkpoint_count p < 0))
        ''progress counts must not be negative'',
      when_some (jp_total_items p) (\<lambda>n. require (\<not> n < jp_processed_items p)
        ''total_items must not be less than processed_items'')] p"

definition JobProgress_to_dict :: "JobProgress \<Rightarrow> jobj" where
  "JobProgress_to_dict p =
     [(''phase'', JStr (jp_phase p)), (''processed_items'', JInt (jp_processed_items p)),
      (''total_items'', opt JInt (jp_total_items p)),
      (''checkpoint_count'', JInt (jp_checkpoint_count p))]"

definition JobProgress_from_dict :: "jobj \<Rightarrow> JobProgress result" where
  "JobProgress_from_dict v =
     rbind (str_item v ''phase'') (\<lambda>phase.
     rbind (rbind (item v ''processed_items'') py_int) (\<lambda>processed.
     rbind (optional_int (getd v ''total_items'')) (\<lambda>total.
     rbind (rbind (item v ''checkpoint_count'') py_int) (\<lambda>count.
     JobProgress_init
       \<lparr>jp_phase = phase, jp_processed_items = processed, jp_total_items = total,
        jp_checkpoint_count = count\<rparr>))))"

record JobResultRef =
  jr_result_type :: string
  jr_references :: "string list"
  jr_item_count :: int
  jr_summary :: "string option"

definition JobResultRef_init :: "JobResultRef \<Rightarrow> JobResultRef result" where
  "JobResultRef_init r = construct
     [validate_identifier (jr_result_type r) ''result_type'',
      check_all (jr_references r) (\<lambda>s. validate_safe_text s ''references''),
      require (\<not> jr_item_count r < 0) ''item_count must not be negative'',
      when_some (jr_summary r) (\<lambda>s. require (\<not> blank s \<and> \<not> 512 < length s)
        ''summary must be bounded and nonblank'')] r"

definition JobResultRef_to_dict :: "JobResultRef \<Rightarrow> jobj" where
  "JobResultRef_to_dict r =
     [(''result_type'', JStr (jr_result_type r)), (''references'', strs (jr_references r)),
      (''item_count'', JInt (jr_item_count r)), (''summary'', opt JStr (jr_summary r))]"

definition JobResultRef_from_dict :: "jobj \<Rightarrow> JobResultRef result" where
  "JobResultRef_from_dict v =
     rbind (str_item v ''result_type'') (\<lambda>result_type.
     rbind (string_tuple (getd v ''references'') ''references'') (\<lambda>references.
     rbind (rbind (item v ''item_count'') py_int) (\<lambda>item_count.
     JobResultRef_init
       \<lparr>jr_result_type = result_type, jr_references = references, jr_item_count = item_count,
        jr_summary = as_optional_str (getd v ''summary'')\<rparr>)))"

record JobError =
  je_code :: string
  je_explanation :: string
  je_retryable :: bool

definition JobError_init :: "JobError \<Rightarrow> JobError result" where
  "JobError_init e = construct
     [validate_identifier (je_code e) ''code'',
      validate_safe_text (je_explanation e) ''explanation''] e"

definition JobError_to_dict :: "JobError \<Rightarrow> jobj" where
  "JobError_to_dict e =
     [(''code'', JStr (je_code e)), (''explanation'', JStr (je_explanation e)),
      (''retryable'', JBool (je_retryable e))]"

definition JobError_from_dict :: "jobj \<Rightarrow> JobError result" where
  "JobError_from_dict v =
     rbind (str_item v ''code'') (\<lambda>err_code.
     rbind (str_item v ''explanation'') (\<lambda>explanation.
     rbind (strict_bool (getd v ''retryable'') ''value must be a boolean'') (\<lambda>retryable.
     JobError_init
       \<lparr>je_code = err_code, je_explanation = explanation, je_retryable = retryable\<rparr>)))"

section \<open>Approvals\<close>

record ApprovalBinding =
  ab_approval_ref :: string
  ab_plan_id :: string
  ab_plan_hash :: string
  ab_scope :: "string list"
  ab_expires_at :: "datetime option"

definition ApprovalBinding_init :: "ApprovalBinding \<Rightarrow> ApprovalBinding result" where
  "ApprovalBinding_init a = construct
     [validate_identifier (ab_approval_ref a) ''approval_ref'',
      validate_identifier (ab_plan_id a) ''plan_id'',
      require (is_sha256 (ab_plan_hash a)) ''plan_hash must be a lowercase SHA-256 value'',
      validate_list (ab_scope a) ''scope'',
      aware (ab_expires_at a) ''expires_at must be timezone-aware''] a"

definition ApprovalBinding_matches ::
  "ApprovalBinding \<Rightarrow> ConnectorPlan \<Rightarrow> datetime \<Rightarrow> bool result" where
  "ApprovalBinding_matches a plan now =
     (if ab_plan_id a = pl_plan_id plan \<and> ab_plan_hash a = pl_plan_hash plan \<and>
         ab_scope a = pl_scope plan
      then (case ab_expires_at a of None \<Rightarrow> Inr True | Some e \<Rightarrow> dt_less now e)
      else Inr False)"

definition ApprovalBinding_to_dict :: "ApprovalBinding \<Rightarrow> jobj" where
  "ApprovalBinding_to_dict a =
     [(''approval_ref'', JStr (ab_approval_ref a)), (''plan_id'', JStr (ab_plan_id a)),
      (''plan_hash'', JStr (ab_plan_hash a)), (''scope'', strs (ab_scope a)),
      (''expires_at'', format_datetime (ab_expires_at a))]"

definition ApprovalBinding_from_dict :: "jobj \<Rightarrow> ApprovalBinding result" where
  "ApprovalBinding_from_dict v =
     rbind (str_item v ''approval_ref'') (\<lambda>approval_ref.
     rbind (str_item v ''plan_id'') (\<lambda>plan_id.
     rbind (str_item v ''plan_hash'') (\<lambda>plan_hash.
     rbind (string_tuple (getd v ''scope'') ''scope'') (\<lambda>scope.
     rbind (parse_datetime ''timestamp'' (getd v ''expires_at'')) (\<lambda>expires_at.
     ApprovalBinding_init
       \<lparr>ab_approval_ref = approval_ref, ab_plan_id = plan_id, ab_plan_hash = plan_hash,
        ab_scope = scope, ab_expires_at = expires_at\<rparr>)))))"

section \<open>Jobs\<close>

record Job =
  jb_job_id :: string
  jb_job_type :: JobType
  jb_connector_id :: string
  jb_connector_version :: string
  jb_configuration_hash :: string
  jb_capability_id :: string
  jb_operation :: string
  jb_principal :: PrincipalContext
  jb_purpose :: Purpose
  jb_security_domain :: SecurityDomain
  jb_classification :: Classification
  jb_resource_scope :: "string list"
  jb_correlation_id :: string
  jb_created_at :: datetime
  jb_updated_at :: datetime
  jb_status :: JobStatus
  jb_retry_policy :: RetryPolicy
  jb_progress :: JobProgress
  jb_plan :: "ConnectorPlan option"
  jb_approval :: "ApprovalBinding option"
  jb_authority_ref :: "string option"
  jb_attempt_count :: int
  jb_checkpoint_id :: "string option"
  jb_result :: "JobResultRef option"
  jb_verification_status :: "VerificationStatus option"
  jb_error :: "JobError option"
  jb_started_at :: "datetime option"
  jb_completed_at :: "datetime option"
  jb_next_retry_at :: "datetime option"

definition Job_init :: "Job \<Rightarrow> Job result" where
  "Job_init j = construct
     [validate_identifier (jb_job_id j) ''job_id'',
      validate_identifier (jb_connector_id j) ''connector_id'',
      validate_identifier (jb_connector_version j) ''connector_version'',
      validate_identifier (jb_capability_id j) ''capability_id'',
      validate_identifier (jb_operation j) ''operation'',
      validate_identifier (jb_correlation_id j) ''correlation_id'',
      require (is_sha256 (jb_configuration_hash j))
        ''configuration_hash must be a lowercase SHA-256 value'',
      validate_list (jb_resource_scope j) ''resource_scope'',
      check_all [Some (jb_created_at j), Some (jb_updated_at j), jb_started_at j,
          jb_completed_at j, jb_next_retry_at j]
        (\<lambda>v. aware v ''job timestamps must be timezone-aware''),
      require (\<not> jb_attempt_count j < 0) ''attempt_count must not be negative'',
      optional_identifier (jb_authority_ref j) ''authority_ref'',
      optional_identifier (jb_checkpoint_id j) ''checkpoint_id'',
      require (\<not> (jb_status j = AWAITING_APPROVAL \<and> jb_plan j = None))
        ''approval-awaiting job requires a plan'',
      require (\<not> (jb_status j \<in> {COMPLETED, COMPLETED_WITH_WARNINGS} \<and>
          (jb_completed_at j = None \<or> jb_result j = None)))
        ''completed job requires result and completion time'',
      require (\<not> (jb_status j = RETRY_WAIT \<and> jb_next_retry_at j = None))
        ''retry_wait requires next_retry_at''] j"

definition Job_to_dict :: "Job \<Rightarrow> jobj" where
  "Job_to_dict j =
     [(''schema_version'', JStr SCHEMA_VERSION),
      (''job_id'', JStr (jb_job_id j)),
      (''job_type'', JStr (JobType_value (jb_job_type j))),
      (''connector_id'', JStr (jb_connector_id j)),
      (''connector_version'', JStr (jb_connector_version j)),
      (''configuration_hash'', JStr (jb_configuration_hash j)),
      (''capability_id'', JStr (jb_capability_id j)),
      (''operation'', JStr (jb_operation j)),
      (''principal'', JObj (PrincipalContext_to_dict (jb_principal j))),
      (''purpose'', JObj (Purpose_to_dict (jb_purpose j))),
      (''security_domain'', JObj (SecurityDomain_to_dict (jb_security_domain j))),
      (''classification'', JObj (Classification_to_dict (jb_classification j))),
      (''resource_scope'', strs (jb_resource_scope j)),
      (''correlation_id'', JStr (jb_correlation_id j)),
      (''created_at'', format_datetime (Some (jb_created_at j))),
      (''updated_at'', format_datetime (Some (jb_updated_at j))),
      (''status'', JStr (JobStatus_value (jb_status j))),
      (''retry_policy'', JObj (RetryPolicy_to_dict (jb_retry_policy j))),
      (''progress'', JObj (JobProgress_to_dict (jb_progress j))),
      (''plan'', opt (\<lambda>p. JObj (ConnectorPlan_to_dict p)) (jb_plan j)),
      (''approval'', opt (\<lambda>a. JObj (ApprovalBinding_to_dict a)) (jb_approval j)),
      (''authority_ref'', opt JStr (jb_authority_ref j)),
      (''attempt_count'', JInt (jb_attempt_count j)),
      (''checkpoint_id'', opt JStr (jb_checkpoint_id j)),
      (''result'', opt (\<lambda>r. JObj (JobResultRef_to_dict r)) (jb_result j)),
      (''verification_status'',
         opt (\<lambda>s. JStr (VerificationStatus_value s)) (jb_verification_status j)),
      (''error'', opt (\<lambda>e. JObj (JobError_to_dict e)) (jb_error j)),
      (''started_at'', format_datetime (jb_started_at j)),
      (''completed_at'', format_datetime (jb_completed_at j)),
      (''next_retry_at'', format_datetime (jb_next_retry_at j))]"

definition nested_value :: "jobj \<Rightarrow> string \<Rightarrow> (jobj \<Rightarrow> 'a result) \<Rightarrow> 'a result" where
  \<comment> \<open>\<open>loader(_dict(value[k]))\<close> with this module's message\<close>
  "nested_value v k loader =
     rbind (rbind (item v k) (as_dict ''nested value must be an object'')) loader"

abbreviation optional_value :: "(jobj \<Rightarrow> 'a result) \<Rightarrow> json \<Rightarrow> 'a option result" where
  "optional_value \<equiv> optional_model ''nested value must be an object''"

definition Job_from_dict :: "jobj \<Rightarrow> Job result" where
  "Job_from_dict v =
     rbind (require_schema v) (\<lambda>_.
     rbind (str_item v ''job_id'') (\<lambda>job_id.
     rbind (rbind (item v ''job_type'') JobType_of) (\<lambda>job_type.
     rbind (str_item v ''connector_id'') (\<lambda>connector_id.
     rbind (str_item v ''connector_version'') (\<lambda>connector_version.
     rbind (str_item v ''configuration_hash'') (\<lambda>configuration_hash.
     rbind (str_item v ''capability_id'') (\<lambda>capability_id.
     rbind (str_item v ''operation'') (\<lambda>operation.
     rbind (nested_value v ''principal'' PrincipalContext_from_dict) (\<lambda>actor.
     rbind (nested_value v ''purpose'' Purpose_from_dict) (\<lambda>purpose.
     rbind (nested_value v ''security_domain'' SecurityDomain_from_dict) (\<lambda>domain.
     rbind (nested_value v ''classification'' Classification_from_dict) (\<lambda>classification.
     rbind (string_tuple (getd v ''resource_scope'') ''resource_scope'') (\<lambda>scope.
     rbind (str_item v ''correlation_id'') (\<lambda>correlation_id.
     rbind (required_datetime ''created_at'' (getd v ''created_at'')) (\<lambda>created_at.
     rbind (required_datetime ''updated_at'' (getd v ''updated_at'')) (\<lambda>updated_at.
     rbind (rbind (item v ''status'') JobStatus_of) (\<lambda>status.
     rbind (nested_value v ''retry_policy'' RetryPolicy_from_dict) (\<lambda>retry_policy.
     rbind (nested_value v ''progress'' JobProgress_from_dict) (\<lambda>progress.
     rbind (optional_value ConnectorPlan_from_dict (getd v ''plan'')) (\<lambda>plan.
     rbind (optional_value ApprovalBinding_from_dict (getd v ''approval'')) (\<lambda>approval.
     rbind (py_int (getdef v ''attempt_count'' (JInt 0))) (\<lambda>attempt_count.
     rbind (optional_value JobResultRef_from_dict (getd v ''result'')) (\<lambda>result.
     rbind (optional_enum VerificationStatus_of (getd v ''verification_status'')) (\<lambda>verification.
     rbind (optional_value JobError_from_dict (getd v ''error'')) (\<lambda>err.
     rbind (parse_datetime ''timestamp'' (getd v ''started_at'')) (\<lambda>started_at.
     rbind (parse_datetime ''timestamp'' (getd v ''completed_at'')) (\<lambda>completed_at.
     rbind (parse_datetime ''timestamp'' (getd v ''next_retry_at'')) (\<lambda>next_retry_at.
     Job_init
       \<lparr>jb_job_id = job_id, jb_job_type = job_type, jb_connector_id = connector_id,
        jb_connector_version = connector_version, jb_configuration_hash = configuration_hash,
        jb_capability_id = capability_id, jb_operation = operation, jb_principal = actor,
        jb_purpose = purpose, jb_security_domain = domain, jb_classification = classification,
        jb_resource_scope = scope, jb_correlation_id = correlation_id,
        jb_created_at = created_at, jb_updated_at = updated_at, jb_status = status,
        jb_retry_policy = retry_policy, jb_progress = progress, jb_plan = plan,
        jb_approval = approval, jb_authority_ref = as_optional_str (getd v ''authority_ref''),
        jb_attempt_count = attempt_count,
        jb_checkpoint_id = as_optional_str (getd v ''checkpoint_id''), jb_result = result,
        jb_verification_status = verification, jb_error = err, jb_started_at = started_at,
        jb_completed_at = completed_at, jb_next_retry_at = next_retry_at\<rparr>))))))))))))))))))))))))))))"

section \<open>Attempts and audit events\<close>

record JobAttempt =
  ja_job_id :: string
  ja_attempt_number :: int
  ja_worker_id :: string
  ja_started_at :: datetime
  ja_completed_at :: "datetime option"
  ja_outcome :: "string option"
  ja_error_code :: "string option"

record AuditEvent =
  ae_event_id :: string
  ae_job_id :: string
  ae_event_type :: string
  ae_timestamp :: datetime
  ae_correlation_id :: string
  ae_actor_id :: "string option"
  ae_previous_status :: "JobStatus option"
  ae_new_status :: "JobStatus option"
  ae_reason_code :: "string option"
  ae_metadata :: jobj

definition PROHIBITED_METADATA_KEYS :: "string list" where
  "PROHIBITED_METADATA_KEYS =
     [''body'', ''content'', ''password'', ''secret'', ''token'', ''credential'', ''payload'']"

definition metadata_check :: "string \<times> json \<Rightarrow> check" where
  "metadata_check kv = first_error
     [validate_identifier (fst kv) ''metadata key'',
      require (\<not> list_ex (\<lambda>fragment. py_in fragment (casefold (fst kv))) PROHIBITED_METADATA_KEYS)
        ''audit metadata key may contain sensitive content'',
      (case snd kv of JStr s \<Rightarrow> validate_safe_text s ''audit metadata value'' | _ \<Rightarrow> None)]"

definition AuditEvent_init :: "AuditEvent \<Rightarrow> AuditEvent result" where
  "AuditEvent_init e = construct
     [validate_identifier (ae_event_id e) ''event_id'',
      validate_identifier (ae_job_id e) ''job_id'',
      validate_identifier (ae_event_type e) ''event_type'',
      validate_identifier (ae_correlation_id e) ''correlation_id'',
      require (\<not> tzinfo_None (ae_timestamp e)) ''audit timestamp must be timezone-aware'',
      optional_identifier (ae_actor_id e) ''actor_id'',
      optional_identifier (ae_reason_code e) ''reason_code'',
      check_all (ae_metadata e) metadata_check] e"

definition AuditEvent_to_dict :: "AuditEvent \<Rightarrow> jobj" where
  "AuditEvent_to_dict e =
     [(''schema_version'', JStr SCHEMA_VERSION),
      (''event_id'', JStr (ae_event_id e)),
      (''job_id'', JStr (ae_job_id e)),
      (''event_type'', JStr (ae_event_type e)),
      (''timestamp'', format_datetime (Some (ae_timestamp e))),
      (''correlation_id'', JStr (ae_correlation_id e)),
      (''actor_id'', opt JStr (ae_actor_id e)),
      (''previous_status'', opt (\<lambda>s. JStr (JobStatus_value s)) (ae_previous_status e)),
      (''new_status'', opt (\<lambda>s. JStr (JobStatus_value s)) (ae_new_status e)),
      (''reason_code'', opt JStr (ae_reason_code e)),
      (''metadata'', JObj (fold (\<lambda>(k, v). dict_set k v) (ae_metadata e) []))]"

definition AuditEvent_from_dict :: "jobj \<Rightarrow> AuditEvent result" where
  "AuditEvent_from_dict v =
     rbind (case getd v ''metadata'' of JObj m \<Rightarrow> Inr m
              | _ \<Rightarrow> Inl (ValueError ''audit metadata must be an object'')) (\<lambda>metadata.
     rbind (str_item v ''event_id'') (\<lambda>event_id.
     rbind (str_item v ''job_id'') (\<lambda>job_id.
     rbind (str_item v ''event_type'') (\<lambda>event_type.
     rbind (required_datetime ''timestamp'' (getd v ''timestamp'')) (\<lambda>timestamp.
     rbind (str_item v ''correlation_id'') (\<lambda>correlation_id.
     rbind (optional_enum JobStatus_of (getd v ''previous_status'')) (\<lambda>previous_status.
     rbind (optional_enum JobStatus_of (getd v ''new_status'')) (\<lambda>new_status.
     AuditEvent_init
       \<lparr>ae_event_id = event_id, ae_job_id = job_id, ae_event_type = event_type,
        ae_timestamp = timestamp, ae_correlation_id = correlation_id,
        ae_actor_id = as_optional_str (getd v ''actor_id''),
        ae_previous_status = previous_status, ae_new_status = new_status,
        ae_reason_code = as_optional_str (getd v ''reason_code''),
        ae_metadata = sort_key fst metadata\<rparr>))))))))"

section \<open>Well-formed values\<close>

definition RetryPolicy_wf :: "RetryPolicy \<Rightarrow> bool" where
  "RetryPolicy_wf p = returns (RetryPolicy_init p)"

definition JobProgress_wf :: "JobProgress \<Rightarrow> bool" where
  "JobProgress_wf p = returns (JobProgress_init p)"

definition JobResultRef_wf :: "JobResultRef \<Rightarrow> bool" where
  "JobResultRef_wf r = returns (JobResultRef_init r)"

definition JobError_wf :: "JobError \<Rightarrow> bool" where
  "JobError_wf e = returns (JobError_init e)"

definition ApprovalBinding_wf :: "ApprovalBinding \<Rightarrow> bool" where
  "ApprovalBinding_wf a = (returns (ApprovalBinding_init a) \<and> opt_stamp (ab_expires_at a))"

definition ApprovalBinding_norm :: "ApprovalBinding \<Rightarrow> ApprovalBinding" where
  "ApprovalBinding_norm a = a\<lparr>ab_expires_at := map_option to_utc (ab_expires_at a)\<rparr>"

definition Job_parts_wf :: "Job \<Rightarrow> bool" where
  \<comment> \<open>the nested values are constructed and the timestamps are representable\<close>
  "Job_parts_wf j =
     (PrincipalContext_wf (jb_principal j) \<and> Purpose_wf (jb_purpose j) \<and>
      SecurityDomain_wf (jb_security_domain j) \<and> Classification_wf (jb_classification j) \<and>
      stamp (jb_created_at j) \<and> stamp (jb_updated_at j) \<and> RetryPolicy_wf (jb_retry_policy j) \<and>
      JobProgress_wf (jb_progress j) \<and> pred_option ConnectorPlan_wf (jb_plan j) \<and>
      pred_option ApprovalBinding_wf (jb_approval j) \<and> pred_option JobResultRef_wf (jb_result j) \<and>
      pred_option JobError_wf (jb_error j) \<and> opt_stamp (jb_started_at j) \<and>
      opt_stamp (jb_completed_at j) \<and> opt_stamp (jb_next_retry_at j))"

definition Job_wf :: "Job \<Rightarrow> bool" where
  "Job_wf j = (returns (Job_init j) \<and> Job_parts_wf j)"

definition Job_norm :: "Job \<Rightarrow> Job" where
  "Job_norm j =
     j\<lparr>jb_principal := PrincipalContext_norm (jb_principal j),
       jb_created_at := to_utc (jb_created_at j), jb_updated_at := to_utc (jb_updated_at j),
       jb_approval := map_option ApprovalBinding_norm (jb_approval j),
       jb_started_at := map_option to_utc (jb_started_at j),
       jb_completed_at := map_option to_utc (jb_completed_at j),
       jb_next_retry_at := map_option to_utc (jb_next_retry_at j)\<rparr>"

definition AuditEvent_wf :: "AuditEvent \<Rightarrow> bool" where
  "AuditEvent_wf e = (returns (AuditEvent_init e) \<and> stamp (ae_timestamp e) \<and>
     distinct (map fst (ae_metadata e)))"

definition AuditEvent_norm :: "AuditEvent \<Rightarrow> AuditEvent" where
  "AuditEvent_norm e = e\<lparr>ae_timestamp := to_utc (ae_timestamp e),
     ae_metadata := sort_key fst (ae_metadata e)\<rparr>"

section \<open>Lemmas\<close>

interpretation js: str_enum JobStatus_members JobStatus_value
proof unfold_locales
  fix x show "x \<in> set JobStatus_members"
    by (cases x) (simp_all add: JobStatus_members_def)
qed (simp add: JobStatus_members_def)

interpretation jt: str_enum JobType_members JobType_value
proof unfold_locales
  fix x show "x \<in> set JobType_members"
    by (cases x) (simp_all add: JobType_members_def)
qed (simp add: JobType_members_def)

interpretation vs: str_enum VerificationStatus_members VerificationStatus_value
proof unfold_locales
  fix x show "x \<in> set VerificationStatus_members"
    by (cases x) (simp_all add: VerificationStatus_members_def)
qed (simp add: VerificationStatus_members_def)

lemma validate_safe_text_None [check_simps]:
  "validate_safe_text s field = None \<longleftrightarrow> \<not> blank s \<and> \<not> multiline s \<and> length s \<le> 512"
  by (auto simp: validate_safe_text_def check_simps)

lemma nested_value_JObj [simp, codec_simps]:
  "item v k = Inr (JObj d) \<Longrightarrow> nested_value v k loader = loader d"
  by (simp add: nested_value_def)

interpretation rp: codec RetryPolicy_to_dict RetryPolicy_from_dict RetryPolicy_wf id
proof unfold_locales
  fix x :: RetryPolicy
  assume "RetryPolicy_wf x"
  then have "RetryPolicy_init x = Inr x"
    by (simp add: RetryPolicy_wf_def RetryPolicy_init_def construct_returns)
  then show "RetryPolicy_from_dict (RetryPolicy_to_dict x) = Inr (id x)"
    by (cases x) (simp add: RetryPolicy_from_dict_def RetryPolicy_to_dict_def)
qed simp_all

interpretation jp: codec JobProgress_to_dict JobProgress_from_dict JobProgress_wf id
proof unfold_locales
  fix x :: JobProgress
  assume "JobProgress_wf x"
  then have "JobProgress_init x = Inr x"
    by (simp add: JobProgress_wf_def JobProgress_init_def construct_returns)
  then show "JobProgress_from_dict (JobProgress_to_dict x) = Inr (id x)"
    by (cases x) (simp add: JobProgress_from_dict_def JobProgress_to_dict_def str_item_def)
qed simp_all

interpretation jr: codec JobResultRef_to_dict JobResultRef_from_dict JobResultRef_wf id
proof unfold_locales
  fix x :: JobResultRef
  assume "JobResultRef_wf x"
  then have "JobResultRef_init x = Inr x"
    by (simp add: JobResultRef_wf_def JobResultRef_init_def construct_returns)
  then show "JobResultRef_from_dict (JobResultRef_to_dict x) = Inr (id x)"
    by (cases x) (simp add: JobResultRef_from_dict_def JobResultRef_to_dict_def str_item_def)
qed simp_all

interpretation je: codec JobError_to_dict JobError_from_dict JobError_wf id
proof unfold_locales
  fix x :: JobError
  assume "JobError_wf x"
  then have "JobError_init x = Inr x"
    by (simp add: JobError_wf_def JobError_init_def construct_returns)
  then show "JobError_from_dict (JobError_to_dict x) = Inr (id x)"
    by (cases x) (simp add: JobError_from_dict_def JobError_to_dict_def str_item_def)
qed simp_all

lemma ApprovalBinding_wf_norm:
  "ApprovalBinding_wf a \<Longrightarrow> ApprovalBinding_wf (ApprovalBinding_norm a)"
  by (auto simp: ApprovalBinding_wf_def ApprovalBinding_norm_def ApprovalBinding_init_def
      check_simps)

interpretation ab: codec ApprovalBinding_to_dict ApprovalBinding_from_dict ApprovalBinding_wf
  ApprovalBinding_norm
proof unfold_locales
  fix x :: ApprovalBinding
  assume wf: "ApprovalBinding_wf x"
  have "ApprovalBinding_init (ApprovalBinding_norm x) = Inr (ApprovalBinding_norm x)"
    using ApprovalBinding_wf_norm [OF wf]
    by (simp add: ApprovalBinding_wf_def ApprovalBinding_init_def construct_returns)
  then show "ApprovalBinding_from_dict (ApprovalBinding_to_dict x) = Inr (ApprovalBinding_norm x)"
    using wf by (cases x) (simp add: ApprovalBinding_from_dict_def ApprovalBinding_to_dict_def
        str_item_def ApprovalBinding_norm_def ApprovalBinding_wf_def)
next
  fix x assume "ApprovalBinding_wf x"
  then show "ApprovalBinding_wf (ApprovalBinding_norm x)" by (rule ApprovalBinding_wf_norm)
  show "ApprovalBinding_to_dict (ApprovalBinding_norm x) = ApprovalBinding_to_dict x"
    by (simp add: ApprovalBinding_to_dict_def ApprovalBinding_norm_def)
qed

lemma Job_init_iff:
  "returns (Job_init j) \<longleftrightarrow>
     valid_identifier (jb_job_id j) \<and> valid_identifier (jb_connector_id j) \<and>
     valid_identifier (jb_connector_version j) \<and> valid_identifier (jb_capability_id j) \<and>
     valid_identifier (jb_operation j) \<and> valid_identifier (jb_correlation_id j) \<and>
     is_sha256 (jb_configuration_hash j) \<and> list_all valid_identifier (jb_resource_scope j) \<and>
     \<not> tzinfo_None (jb_created_at j) \<and> \<not> tzinfo_None (jb_updated_at j) \<and>
     (\<forall>d. jb_started_at j = Some d \<longrightarrow> \<not> tzinfo_None d) \<and>
     (\<forall>d. jb_completed_at j = Some d \<longrightarrow> \<not> tzinfo_None d) \<and>
     (\<forall>d. jb_next_retry_at j = Some d \<longrightarrow> \<not> tzinfo_None d) \<and>
     0 \<le> jb_attempt_count j \<and>
     (\<forall>s. jb_authority_ref j = Some s \<longrightarrow> valid_identifier s) \<and>
     (\<forall>s. jb_checkpoint_id j = Some s \<longrightarrow> valid_identifier s) \<and>
     (jb_status j = AWAITING_APPROVAL \<longrightarrow> jb_plan j \<noteq> None) \<and>
     (jb_status j \<in> {COMPLETED, COMPLETED_WITH_WARNINGS} \<longrightarrow>
        jb_completed_at j \<noteq> None \<and> jb_result j \<noteq> None) \<and>
     (jb_status j = RETRY_WAIT \<longrightarrow> jb_next_retry_at j \<noteq> None)"
  unfolding Job_init_def returns_construct check_simps
  by (auto simp: check_simps)

lemma Job_init_Inr: "Job_init j = Inr j' \<longleftrightarrow> j' = j \<and> returns (Job_init j)"
  by (auto simp: Job_init_def check_simps)

lemma Job_wf_norm: "Job_wf j \<Longrightarrow> Job_wf (Job_norm j)"
  unfolding Job_wf_def Job_parts_wf_def Job_norm_def Job_init_iff
  by (auto simp: pc.wf_norm option.pred_set ApprovalBinding_wf_norm)

lemma Job_decode:
  assumes "Job_wf j"
  shows "Job_from_dict (Job_to_dict j) = Job_init (Job_norm j)"
proof -
  have "ConnectorPlan_wf p" if "jb_plan j = Some p" for p
    using assms that by (simp add: Job_wf_def Job_parts_wf_def)
  note plan = pl.dec_option [OF this, of "jb_plan j"]
  have "ApprovalBinding_wf p" if "jb_approval j = Some p" for p
    using assms that by (simp add: Job_wf_def Job_parts_wf_def)
  note approval = ab.dec_option [OF this, of "jb_approval j"]
  have "JobResultRef_wf p" if "jb_result j = Some p" for p
    using assms that by (simp add: Job_wf_def Job_parts_wf_def)
  note result = jr.dec_option [OF this, of "jb_result j"]
  have "JobError_wf p" if "jb_error j = Some p" for p
    using assms that by (simp add: Job_wf_def Job_parts_wf_def)
  note err = je.dec_option [OF this, of "jb_error j"]
  show ?thesis
    using assms
    by (simp add: Job_from_dict_def Job_to_dict_def Job_wf_def Job_parts_wf_def str_item_def
        jt.of_val js.of_val vs.optional_of_val pc.dec_enc pu.dec_enc sd.dec_enc cl.dec_enc
        rp.dec_enc jp.dec_enc plan approval result err option.map_id Job_norm_def)
      (cases j, simp)
qed

interpretation jb: codec Job_to_dict Job_from_dict Job_wf Job_norm
proof unfold_locales
  fix x :: Job
  assume wf: "Job_wf x"
  then show "Job_from_dict (Job_to_dict x) = Inr (Job_norm x)"
    using Job_wf_norm [OF wf] by (simp add: Job_decode Job_init_Inr Job_wf_def)
  show "Job_wf (Job_norm x)" using wf by (rule Job_wf_norm)
  show "Job_to_dict (Job_norm x) = Job_to_dict x"
    using wf by (auto simp: Job_to_dict_def Job_norm_def Job_wf_def Job_parts_wf_def pc.enc_norm
        ab.enc_norm opt_def option.pred_set split: option.splits)
qed

lemma AuditEvent_init_iff:
  "returns (AuditEvent_init e) \<longleftrightarrow>
     valid_identifier (ae_event_id e) \<and> valid_identifier (ae_job_id e) \<and>
     valid_identifier (ae_event_type e) \<and> valid_identifier (ae_correlation_id e) \<and>
     \<not> tzinfo_None (ae_timestamp e) \<and>
     (\<forall>s. ae_actor_id e = Some s \<longrightarrow> valid_identifier s) \<and>
     (\<forall>s. ae_reason_code e = Some s \<longrightarrow> valid_identifier s) \<and>
     (\<forall>kv \<in> set (ae_metadata e). metadata_check kv = None)"
  by (simp add: AuditEvent_init_def check_simps)

lemma AuditEvent_init_Inr: "AuditEvent_init e = Inr e' \<longleftrightarrow> e' = e \<and> returns (AuditEvent_init e)"
  by (auto simp: AuditEvent_init_def check_simps)

lemma fold_dict_set_distinct:
  "distinct (map fst (acc @ m)) \<Longrightarrow> fold (\<lambda>(k, v). dict_set k v) m acc = acc @ m"
  by (induction m arbitrary: acc) (auto simp: dict_set_fresh)

lemma AuditEvent_wf_norm: "AuditEvent_wf e \<Longrightarrow> AuditEvent_wf (AuditEvent_norm e)"
  by (simp add: AuditEvent_wf_def AuditEvent_init_iff AuditEvent_norm_def distinct_map_sort_key)

lemma AuditEvent_decode:
  assumes wf: "AuditEvent_wf x"
  shows "AuditEvent_from_dict (AuditEvent_to_dict x) = Inr (AuditEvent_norm x)"
proof -
  have "AuditEvent_init (AuditEvent_norm x) = Inr (AuditEvent_norm x)"
    using AuditEvent_wf_norm [OF wf] by (simp add: AuditEvent_wf_def AuditEvent_init_Inr)
  then show ?thesis
    using wf fold_dict_set_distinct [of "[]" "ae_metadata x"]
    by (cases x) (simp add: AuditEvent_from_dict_def AuditEvent_to_dict_def str_item_def
        js.optional_of_val AuditEvent_norm_def AuditEvent_wf_def)
qed

end
