(* ===== verification/JobStore.thy ===== *)
theory JobStore
  imports JobModels
begin

text \<open>
  \<open>src/edn/jobs/storage.py\<close>: the SQLite job store. A database is a record of its tables in
  insertion order, the schema metadata and the read-only flag of the connection; every public
  method is a state transformer, and \<open>transaction\<close> is the commit-or-rollback of
  \<open>_connect\<close>. Primary keys, unique columns, foreign keys and the missing-table and
  read-only failures of a statement are explicit branches. A payload column holds the JSON
  document itself, since \<open>json.loads\<close> inverts \<open>json.dumps\<close>. The record also carries
  the stream of values \<open>uuid4\<close> will return (\<open>st_uuid\<close>), which the service and worker
  draw event identifiers from.
\<close>

section \<open>Tables\<close>

record job_row =
  jo_job_id :: string
  jo_status :: string
  jo_tenant_id :: string
  jo_connector_id :: string
  jo_capability_id :: string
  jo_operation :: string
  jo_created_at :: string
  jo_updated_at :: string
  jo_next_retry_at :: "string option"
  jo_payload :: jobj

record checkpoint_row =
  ck_checkpoint_id :: string
  ck_job_id :: string
  ck_created_at :: string
  ck_payload :: jobj

record attempt_row =
  at_job_id :: string
  at_attempt_number :: int
  at_worker_id :: string
  at_started_at :: string
  at_completed_at :: "string option"
  at_outcome :: "string option"
  at_error_code :: "string option"

record event_row =
  er_sequence :: nat
  er_event_id :: string
  er_job_id :: string
  er_event_type :: string
  er_timestamp :: string
  er_payload :: jobj

record store =
  st_read_only :: bool
  st_metadata :: "int dict option"
  st_tables :: bool
  st_jobs :: "job_row list"
  st_checkpoints :: "checkpoint_row list"
  st_attempts :: "attempt_row list"
  st_events :: "event_row list"
  st_next_sequence :: nat
  st_uuid :: "nat \<Rightarrow> string"

definition STORE_SCHEMA_VERSION :: int where
  "STORE_SCHEMA_VERSION = 1"

definition time_text :: "datetime \<Rightarrow> string result" where
  "time_text d = (if tzinfo_None d then Inl (ValueError ''timestamp must be timezone-aware'')
     else Inr (isoformat d))"

definition job_values :: "Job \<Rightarrow> job_row result" where
  "job_values j =
     rbind (time_text (jb_created_at j)) (\<lambda>created_at.
     rbind (time_text (jb_updated_at j)) (\<lambda>updated_at.
     rbind (case jb_next_retry_at j of None \<Rightarrow> Inr None
              | Some d \<Rightarrow> rbind (time_text d) (\<lambda>t. Inr (Some t))) (\<lambda>next_retry_at.
     Inr \<lparr>jo_job_id = jb_job_id j, jo_status = JobStatus_value (jb_status j),
          jo_tenant_id = pc_tenant_id (jb_principal j), jo_connector_id = jb_connector_id j,
          jo_capability_id = jb_capability_id j, jo_operation = jb_operation j,
          jo_created_at = created_at, jo_updated_at = updated_at,
          jo_next_retry_at = next_retry_at, jo_payload = Job_to_dict j\<rparr>)))"

section \<open>Statements\<close>

definition select :: "(store \<Rightarrow> 'a) \<Rightarrow> (store, 'a) stm" where
  \<comment> \<open>a reading statement\<close>
  "select f s = (if st_tables s then (Inr (f s), s)
     else (Inl (OperationalError ''no such table''), s))"

definition execute :: "(store, 'a) stm \<Rightarrow> (store, 'a) stm" where
  \<comment> \<open>a writing statement\<close>
  "execute m s =
     (if \<not> st_tables s then (Inl (OperationalError ''no such table''), s)
      else if st_read_only s then
        (Inl (OperationalError ''attempt to write a readonly database''), s)
      else m s)"

definition has_job :: "store \<Rightarrow> string \<Rightarrow> bool" where
  "has_job s job_id = list_ex (\<lambda>r. jo_job_id r = job_id) (st_jobs s)"

definition find_job :: "string \<Rightarrow> store \<Rightarrow> job_row option" where
  "find_job job_id s = find (\<lambda>r. jo_job_id r = job_id) (st_jobs s)"

definition insert_job :: "Job \<Rightarrow> (store, unit) stm" where
  "insert_job j =
     sbind (lift (job_values j)) (\<lambda>row. execute (\<lambda>s.
       if has_job s (jo_job_id row)
       then (Inl (IntegrityError ''UNIQUE constraint failed: jobs.job_id''), s)
       else (Inr (), s\<lparr>st_jobs := st_jobs s @ [row]\<rparr>)))"

definition replace_row :: "job_row \<Rightarrow> job_row list \<Rightarrow> job_row list" where
  "replace_row row rows = map (\<lambda>r. if jo_job_id r = jo_job_id row then row else r) rows"

definition update_job :: "Job \<Rightarrow> (store, unit) stm" where
  "update_job j =
     sbind (lift (job_values j)) (\<lambda>row. execute (\<lambda>s.
       (Inr (), s\<lparr>st_jobs := replace_row row (st_jobs s)\<rparr>)))"

definition event_row_of :: "nat \<Rightarrow> string \<Rightarrow> AuditEvent \<Rightarrow> event_row" where
  "event_row_of sequence timestamp e =
     \<lparr>er_sequence = sequence, er_event_id = ae_event_id e, er_job_id = ae_job_id e,
      er_event_type = ae_event_type e, er_timestamp = timestamp,
      er_payload = AuditEvent_to_dict e\<rparr>"

definition insert_event :: "AuditEvent \<Rightarrow> (store, unit) stm" where
  "insert_event e =
     sbind (lift (time_text (ae_timestamp e))) (\<lambda>timestamp. execute (\<lambda>s.
       if list_ex (\<lambda>r. er_event_id r = ae_event_id e) (st_events s)
       then (Inl (IntegrityError ''UNIQUE constraint failed: audit_events.event_id''), s)
       else if \<not> has_job s (ae_job_id e)
       then (Inl (IntegrityError ''FOREIGN KEY constraint failed''), s)
       else (Inr (), s\<lparr>st_events := st_events s @ [event_row_of (st_next_sequence s) timestamp e],
         st_next_sequence := Suc (st_next_sequence s)\<rparr>)))"

definition insert_attempt :: "string \<Rightarrow> int \<Rightarrow> string \<Rightarrow> datetime \<Rightarrow> (store, unit) stm" where
  "insert_attempt job_id attempt_number worker_id now =
     sbind (lift (time_text now)) (\<lambda>started_at. execute (\<lambda>s.
       if list_ex (\<lambda>r. at_job_id r = job_id \<and> at_attempt_number r = attempt_number) (st_attempts s)
       then (Inl (IntegrityError
         ''UNIQUE constraint failed: job_attempts.job_id, job_attempts.attempt_number''), s)
       else if \<not> has_job s job_id
       then (Inl (IntegrityError ''FOREIGN KEY constraint failed''), s)
       else (Inr (), s\<lparr>st_attempts := st_attempts s @
           [\<lparr>at_job_id = job_id, at_attempt_number = attempt_number, at_worker_id = worker_id,
             at_started_at = started_at, at_completed_at = None, at_outcome = None,
             at_error_code = None\<rparr>]\<rparr>)))"

definition close_attempt ::
  "string \<Rightarrow> string \<Rightarrow> string option option \<Rightarrow> attempt_row \<Rightarrow> attempt_row" where
  "close_attempt completed_at outcome err r =
     r\<lparr>at_completed_at := Some completed_at, at_outcome := Some outcome,
       at_error_code := (case err of None \<Rightarrow> at_error_code r | Some c \<Rightarrow> c)\<rparr>"

definition update_attempt ::
  "string \<Rightarrow> int \<Rightarrow> datetime \<Rightarrow> string \<Rightarrow> string option option \<Rightarrow> (store, unit) stm" where
  \<comment> \<open>the last argument is \<open>None\<close> when the statement leaves \<open>error_code\<close> alone\<close>
  "update_attempt job_id attempt_number now outcome err =
     sbind (lift (time_text now)) (\<lambda>completed_at. execute (\<lambda>s.
       (Inr (), s\<lparr>st_attempts :=
          map (\<lambda>r. if at_job_id r = job_id \<and> at_attempt_number r = attempt_number
            then close_attempt completed_at outcome err r else r) (st_attempts s)\<rparr>)))"

definition upsert_checkpoint :: "string \<Rightarrow> Checkpoint \<Rightarrow> (store, unit) stm" where
  \<comment> \<open>\<open>INSERT ... ON CONFLICT(job_id) DO UPDATE\<close>; a checkpoint id of another job's row conflicts\<close>
  "upsert_checkpoint job_id c =
     sbind (lift (time_text (cp_created_at c))) (\<lambda>created_at. execute (\<lambda>s.
       let row = \<lparr>ck_checkpoint_id = cp_checkpoint_id c, ck_job_id = job_id,
             ck_created_at = created_at, ck_payload = Checkpoint_to_dict c\<rparr> in
       if list_ex (\<lambda>r. ck_checkpoint_id r = cp_checkpoint_id c \<and> ck_job_id r \<noteq> job_id)
            (st_checkpoints s)
       then (Inl (IntegrityError ''UNIQUE constraint failed: checkpoints.checkpoint_id''), s)
       else if list_ex (\<lambda>r. ck_job_id r = job_id) (st_checkpoints s)
       then (Inr (), s\<lparr>st_checkpoints :=
              map (\<lambda>r. if ck_job_id r = job_id then row else r) (st_checkpoints s)\<rparr>)
       else if \<not> has_job s job_id
       then (Inl (IntegrityError ''FOREIGN KEY constraint failed''), s)
       else (Inr (), s\<lparr>st_checkpoints := st_checkpoints s @ [row]\<rparr>)))"

section \<open>Schema\<close>

definition jobs_version :: "store \<Rightarrow> int option" where
  "jobs_version s = (case st_metadata s of None \<Rightarrow> None | Some m \<Rightarrow> map_of m ''jobs'')"

definition initialise :: "(store, unit) stm" where
  "initialise s =
     (if st_read_only s then (Inl (OperationalError ''store is read-only''), s)
      else if st_metadata s \<noteq> None \<and> jobs_version s \<noteq> Some STORE_SCHEMA_VERSION then
        (Inl (RuntimeError ''unsupported Intelligence Core job schema version''), s)
      else (Inr (), s\<lparr>st_tables := True,
        st_metadata := Some (case st_metadata s of
            None \<Rightarrow> [(''jobs'', STORE_SCHEMA_VERSION)]
          | Some m \<Rightarrow> (case map_of m ''jobs'' of
              None \<Rightarrow> dict_set ''jobs'' STORE_SCHEMA_VERSION m | Some v \<Rightarrow> m))\<rparr>))"

definition check_schema :: "(store, unit) stm" where
  "check_schema s =
     (if st_metadata s = None then (Inl (OperationalError ''no such table: schema_metadata''), s)
      else if jobs_version s \<noteq> Some STORE_SCHEMA_VERSION then
        (Inl (RuntimeError ''unsupported or missing Intelligence Core job schema''), s)
      else (Inr (), s))"

section \<open>Jobs\<close>

definition store_create :: "Job \<Rightarrow> AuditEvent \<Rightarrow> (store, unit) stm" where
  "store_create j e =
     (if ae_job_id e \<noteq> jb_job_id j \<or> ae_event_type e \<noteq> ''job_created''
      then throw (ValueError ''job creation requires its matching job_created event'')
      else transaction (sbind (insert_job j) (\<lambda>_. insert_event e)))"

definition store_get :: "string \<Rightarrow> (store, Job option) stm" where
  "store_get job_id =
     sbind (select (find_job job_id)) (\<lambda>row. lift (case row of
         None \<Rightarrow> Inr None
       | Some r \<Rightarrow> rbind (Job_from_dict (jo_payload r)) (\<lambda>j. Inr (Some j))))"

definition row_order :: "job_row \<Rightarrow> string \<times> string" where
  "row_order r = (jo_created_at r, jo_job_id r)"

definition store_list ::
  "JobStatus fset option \<Rightarrow> string option \<Rightarrow> int \<Rightarrow> (store, Job list) stm" where
  "store_list statuses tenant_id limit =
     (if limit < 1 then throw (ValueError ''limit must be at least one'')
      else
        let status_ok = (\<lambda>r. case statuses of None \<Rightarrow> True
              | Some ss \<Rightarrow> ss = {||} \<or> jo_status r |\<in>| JobStatus_value |`| ss);
            tenant_ok = (\<lambda>r. case tenant_id of None \<Rightarrow> True | Some t \<Rightarrow> jo_tenant_id r = t)
        in sbind (select (\<lambda>s. take (nat limit)
               (sort_key row_order (filter (\<lambda>r. status_ok r \<and> tenant_ok r) (st_jobs s)))))
             (\<lambda>rows. lift (traverse (\<lambda>r. Job_from_dict (jo_payload r)) rows)))"

definition row_claimable :: "string \<Rightarrow> job_row \<Rightarrow> bool" where
  \<comment> \<open>\<open>status = 'ready' OR (status = 'retry_wait' AND next_retry_at <= now)\<close>\<close>
  "row_claimable now_text r =
     (jo_status r = JobStatus_value READY \<or>
      jo_status r = JobStatus_value RETRY_WAIT \<and>
        (case jo_next_retry_at r of None \<Rightarrow> False | Some t \<Rightarrow> t \<le> now_text))"

definition sql_limit :: "int \<Rightarrow> 'a list \<Rightarrow> 'a list" where
  \<comment> \<open>a negative limit means no limit\<close>
  "sql_limit n xs = (if n < 0 then xs else take (nat n) xs)"

definition claimable :: "datetime \<Rightarrow> int \<Rightarrow> (store, Job list) stm" where
  "claimable now limit =
     sbind (lift (time_text now)) (\<lambda>t.
     sbind (select (\<lambda>s. sql_limit limit
         (sort_key row_order (filter (row_claimable t) (st_jobs s)))))
       (\<lambda>rows. lift (traverse (\<lambda>r. Job_from_dict (jo_payload r)) rows)))"

definition retry_due :: "datetime \<Rightarrow> job_row \<Rightarrow> bool result" where
  "retry_due now r = (case jo_next_retry_at r of None \<Rightarrow> Inr False
     | Some t \<Rightarrow> rbind (time_text now) (\<lambda>n. Inr (t \<le> n)))"

definition claimed_job :: "Job \<Rightarrow> datetime \<Rightarrow> Job result" where
  \<comment> \<open>the \<open>replace\<close> of \<open>claim\<close>\<close>
  "claimed_job current now = Job_init (current\<lparr>jb_status := RUNNING,
     jb_attempt_count := jb_attempt_count current + 1,
     jb_started_at := (case jb_started_at current of None \<Rightarrow> Some now | Some d \<Rightarrow> Some d),
     jb_updated_at := now, jb_next_retry_at := None, jb_error := None\<rparr>)"

definition store_claim ::
  "string \<Rightarrow> string \<Rightarrow> datetime \<Rightarrow> AuditEvent \<Rightarrow> (store, Job option) stm" where
  "store_claim job_id worker_id now e = transaction
     (sbind (select (find_job job_id)) (\<lambda>row. case row of
        None \<Rightarrow> ret None
      | Some r \<Rightarrow>
          sbind (lift (JobStatus_of (JStr (jo_status r)))) (\<lambda>status.
          sbind (lift (retry_due now r)) (\<lambda>due.
          if status \<noteq> READY \<and> \<not> (status = RETRY_WAIT \<and> due) then ret None
          else
            sbind (lift (Job_from_dict (jo_payload r))) (\<lambda>current.
            sbind (lift (claimed_job current now)) (\<lambda>claimed.
            sbind (update_job claimed) (\<lambda>_.
            sbind (insert_attempt job_id (jb_attempt_count claimed) worker_id now) (\<lambda>_.
            sbind (insert_event e) (\<lambda>_. ret (Some claimed))))))))))"

definition store_transition ::
  "Job \<Rightarrow> JobStatus list \<Rightarrow> AuditEvent \<Rightarrow> string option \<Rightarrow> string option \<Rightarrow> (store, unit) stm" where
  "store_transition j expected e attempt_outcome attempt_error_code = transaction
     (sbind (select (find_job (jb_job_id j))) (\<lambda>row. case row of
        None \<Rightarrow> throw (KeyError (jb_job_id j))
      | Some r \<Rightarrow>
          sbind (lift (JobStatus_of (JStr (jo_status r)))) (\<lambda>status.
          if status \<notin> set expected then throw (RuntimeError ''job status changed concurrently'')
          else
            sbind (update_job j) (\<lambda>_.
            sbind (case attempt_outcome of
                None \<Rightarrow> ret ()
              | Some outcome \<Rightarrow> update_attempt (jb_job_id j) (jb_attempt_count j)
                  (jb_updated_at j) outcome (Some attempt_error_code)) (\<lambda>_.
            insert_event e)))))"

definition save_checkpoint :: "Job \<Rightarrow> Checkpoint \<Rightarrow> AuditEvent \<Rightarrow> (store, unit) stm" where
  "save_checkpoint j c e =
     (if Some (cp_checkpoint_id c) \<noteq> jb_checkpoint_id j
      then throw (ValueError ''job checkpoint reference does not match checkpoint'')
      else transaction
        (sbind (select (find_job (jb_job_id j))) (\<lambda>row. case row of
           None \<Rightarrow> throw (RuntimeError ''only a running job may save a checkpoint'')
         | Some r \<Rightarrow>
             sbind (lift (JobStatus_of (JStr (jo_status r)))) (\<lambda>status.
             if status \<noteq> RUNNING
             then throw (RuntimeError ''only a running job may save a checkpoint'')
             else
               sbind (upsert_checkpoint (jb_job_id j) c) (\<lambda>_.
               sbind (update_job j) (\<lambda>_.
               sbind (update_attempt (jb_job_id j) (jb_attempt_count j) (jb_updated_at j)
                 ''checkpointed'' None) (\<lambda>_.
               insert_event e)))))))"

section \<open>Checkpoints, audit, attempts\<close>

definition store_checkpoint :: "string \<Rightarrow> (store, Checkpoint option) stm" where
  "store_checkpoint job_id =
     sbind (select (\<lambda>s. find (\<lambda>r. ck_job_id r = job_id) (st_checkpoints s))) (\<lambda>row.
       lift (case row of None \<Rightarrow> Inr None
         | Some r \<Rightarrow> rbind (Checkpoint_from_dict (ck_payload r)) (\<lambda>c. Inr (Some c))))"

definition history :: "string \<Rightarrow> (store, AuditEvent list) stm" where
  "history job_id =
     sbind (select (\<lambda>s. sort_key er_sequence (filter (\<lambda>r. er_job_id r = job_id) (st_events s))))
       (\<lambda>rows. lift (traverse (\<lambda>r. AuditEvent_from_dict (er_payload r)) rows))"

definition append_event :: "AuditEvent \<Rightarrow> (store, unit) stm" where
  "append_event e = transaction (insert_event e)"

definition attempt_of_row :: "attempt_row \<Rightarrow> JobAttempt result" where
  "attempt_of_row r =
     rbind (fromisoformat (at_started_at r)) (\<lambda>started_at.
     rbind (case at_completed_at r of None \<Rightarrow> Inr None
              | Some t \<Rightarrow> rbind (fromisoformat t) (\<lambda>d. Inr (Some d))) (\<lambda>completed_at.
     Inr \<lparr>ja_job_id = at_job_id r, ja_attempt_number = at_attempt_number r,
          ja_worker_id = at_worker_id r, ja_started_at = started_at,
          ja_completed_at = completed_at, ja_outcome = at_outcome r,
          ja_error_code = at_error_code r\<rparr>))"

definition attempts :: "string \<Rightarrow> (store, JobAttempt list) stm" where
  "attempts job_id =
     sbind (select (\<lambda>s. sort_key at_attempt_number
         (filter (\<lambda>r. at_job_id r = job_id) (st_attempts s))))
       (\<lambda>rows. lift (traverse attempt_of_row rows))"

section \<open>Metrics\<close>

record JobMetrics =
  jm_status_counts :: "(JobStatus \<times> nat) list"
  jm_average_duration_seconds :: "rat option"
  jm_retry_count :: nat
  jm_checkpoint_count :: nat
  jm_failure_reason_counts :: "(string \<times> nat) list"

definition group_counts :: "'a::linorder list \<Rightarrow> ('a \<times> nat) list" where
  \<comment> \<open>\<open>SELECT k, COUNT(*) GROUP BY k ORDER BY k\<close>\<close>
  "group_counts ks = map (\<lambda>k. (k, count_list ks k)) (sort (remdups ks))"

definition reason_key :: "json \<Rightarrow> string list" where
  \<comment> \<open>NULL sorts before every text\<close>
  "reason_key v = (case v of JNull \<Rightarrow> [] | _ \<Rightarrow> [py_str v])"

definition events_of_type :: "string \<Rightarrow> store \<Rightarrow> event_row list" where
  "events_of_type t s = filter (\<lambda>r. er_event_type r = t) (st_events s)"

definition metrics ::
  "((json \<times> json) list \<Rightarrow> rat option) \<Rightarrow> (store, JobMetrics) stm" where
  \<comment> \<open>the argument is SQLite's \<open>AVG\<close> of \<open>julianday\<close> differences over the started and
     completed timestamps of the completed jobs\<close>
  "metrics average =
     sbind (select (\<lambda>s. s)) (\<lambda>s.
     let done = filter (\<lambda>r. jo_status r \<in>
           {JobStatus_value COMPLETED, JobStatus_value COMPLETED_WITH_WARNINGS}) (st_jobs s);
         reasons = map (\<lambda>r. reason_key (getd (er_payload r) ''reason_code''))
           (events_of_type ''job_failed'' s)
     in sbind (lift (traverse (\<lambda>(st, n). rbind (JobStatus_of (JStr st)) (\<lambda>x. Inr (x, n)))
          (group_counts (map jo_status (st_jobs s))))) (\<lambda>status_counts.
        ret \<lparr>jm_status_counts = status_counts,
             jm_average_duration_seconds = average
               (map (\<lambda>r. (getd (jo_payload r) ''started_at'', getd (jo_payload r) ''completed_at'')) done),
             jm_retry_count = length (events_of_type ''retry_scheduled'' s),
             jm_checkpoint_count = length (events_of_type ''checkpoint_saved'' s),
             jm_failure_reason_counts =
               map (\<lambda>(k, n). (case k of [] \<Rightarrow> ''None'' | t # _ \<Rightarrow> t, n)) (group_counts reasons)\<rparr>))"

end
