(* ===== verification/JobService.thy ===== *)
theory JobService
  imports JobStore
begin

text \<open>
  \<open>src/edn/jobs/service.py\<close>: reauthorization of a job at execution time, the lifecycle
  service, and the construction of audit events. \<open>uuid4().hex\<close> is the next element of the
  stream \<open>st_uuid\<close>; it is consumed even when the surrounding transaction rolls back.
\<close>

section \<open>Reauthorization\<close>

record ReauthorizationResult =
  ra_usable :: bool
  ra_reason_code :: string
  ra_explanation :: string
  ra_authority :: "CapabilityUseDecision option"

definition refusal :: "string \<Rightarrow> string \<Rightarrow> ReauthorizationResult" where
  "refusal reason explanation =
     \<lparr>ra_usable = False, ra_reason_code = reason, ra_explanation = explanation,
      ra_authority = None\<rparr>"

definition plan_refusal ::
  "Job \<Rightarrow> ConnectorPlan \<Rightarrow> datetime \<Rightarrow> ReauthorizationResult option result" where
  \<comment> \<open>the checks of a plan that requires approval; \<open>None\<close> when they pass\<close>
  "plan_refusal j plan now =
     (if pl_scope plan \<noteq> jb_resource_scope j then
        Inr (Some (refusal ''plan_scope_drift'' ''Approved plan scope does not match the job scope.''))
      else if pl_configuration_hash plan \<noteq> None \<and>
          pl_configuration_hash plan \<noteq> Some (jb_configuration_hash j) then
        Inr (Some (refusal ''plan_configuration_drift''
          ''Approved plan configuration does not match the job.''))
      else case jb_approval j of
        None \<Rightarrow> Inr (Some (refusal ''approval_required'' ''Exact plan approval is required.''))
      | Some approval \<Rightarrow> rbind (ApprovalBinding_matches approval plan now) (\<lambda>ok.
          Inr (if ok then None else Some (refusal ''approval_invalid''
            ''Plan approval is expired or does not match.''))))"

definition job_request :: "Job \<Rightarrow> PermissionRequest result" where
  "job_request j = PermissionRequest_init
     \<lparr>pr_request_id = ''job:'' @ jb_job_id j, pr_principal = jb_principal j,
      pr_purpose = jb_purpose j, pr_capability_id = jb_capability_id j,
      pr_operation = jb_operation j, pr_security_domain = jb_security_domain j,
      pr_classification = jb_classification j, pr_resource_scope = jb_resource_scope j,
      pr_requested_duration_seconds = None\<rparr>"

definition authorize_job ::
  "Job \<Rightarrow> registry \<Rightarrow> PolicySet \<Rightarrow> datetime \<Rightarrow> ReauthorizationResult result" where
  "authorize_job j reg p now =
     rbind (job_request j) (\<lambda>q.
     rbind (evaluate_capability_use reg p q now) (\<lambda>authority.
     if \<not> CapabilityUseDecision_is_usable authority then
       Inr \<lparr>ra_usable = False, ra_reason_code = ud_reason_code authority,
            ra_explanation = ud_explanation authority, ra_authority = Some authority\<rparr>
     else
       Inr \<lparr>ra_usable = True, ra_reason_code = ''reauthorized'',
            ra_explanation = ''Execution authority is currently usable.'',
            ra_authority = Some authority\<rparr>))"

definition reauthorize_job ::
  "Job \<Rightarrow> registry \<Rightarrow> PolicySet \<Rightarrow> datetime \<Rightarrow> ReauthorizationResult result" where
  "reauthorize_job j reg p now =
     (if tzinfo_None now then Inl (ValueError ''reauthorization time must be timezone-aware'')
      else rbind (registry_get reg (jb_capability_id j)) (\<lambda>capability. case capability of
        None \<Rightarrow> Inr (refusal ''capability_not_registered'' ''Capability is not registered.'')
      | Some c \<Rightarrow>
          if cm_connector_id (rc_manifest c) \<noteq> jb_connector_id j then
            Inr (refusal ''connector_drift'' ''Capability connector identity has changed.'')
          else if cm_version (rc_manifest c) \<noteq> jb_connector_version j then
            Inr (refusal ''connector_version_drift'' ''Connector version has changed.'')
          else rbind (case jb_plan j of
              None \<Rightarrow> Inr None
            | Some plan \<Rightarrow> if pl_approval_required plan then plan_refusal j plan now else Inr None)
            (\<lambda>refused. case refused of Some r \<Rightarrow> Inr r | None \<Rightarrow> authorize_job j reg p now)))"

section \<open>Events\<close>

definition uuid4_hex :: "(store, string) stm" where
  "uuid4_hex s = (Inr (st_uuid s 0), s\<lparr>st_uuid := \<lambda>n. st_uuid s (Suc n)\<rparr>)"

definition make_event ::
  "Job \<Rightarrow> string \<Rightarrow> datetime \<Rightarrow> string option \<Rightarrow> JobStatus option \<Rightarrow> JobStatus option \<Rightarrow>
     string option \<Rightarrow> jobj \<Rightarrow> (store, AuditEvent) stm" where
  "make_event j event_type now actor_id previous_status new_status reason_code metadata =
     sbind uuid4_hex (\<lambda>u. lift (AuditEvent_init
       \<lparr>ae_event_id = ''event:'' @ u, ae_job_id = jb_job_id j, ae_event_type = event_type,
        ae_timestamp = now, ae_correlation_id = jb_correlation_id j, ae_actor_id = actor_id,
        ae_previous_status = previous_status, ae_new_status = new_status,
        ae_reason_code = reason_code, ae_metadata = metadata\<rparr>))"

section \<open>The service\<close>

definition service_create :: "Job \<Rightarrow> string option \<Rightarrow> (store, unit) stm" where
  "service_create j actor_id =
     (if jb_status j \<notin> {PLANNED, AWAITING_APPROVAL, READY}
      then throw (ValueError ''new job must begin in a pre-execution status'')
      else
        sbind (make_event j ''job_created'' (jb_created_at j) actor_id None (Some (jb_status j))
          None []) (\<lambda>e.
        sbind (store_create j e) (\<lambda>_.
        case jb_plan j of
          None \<Rightarrow> ret ()
        | Some plan \<Rightarrow>
            sbind (make_event j ''plan_bound'' (jb_created_at j) actor_id None None None
              [(''plan_hash'', JStr (pl_plan_hash plan))]) (\<lambda>e. append_event e))))"

definition required :: "string \<Rightarrow> (store, Job) stm" where
  "required job_id = sbind (store_get job_id) (\<lambda>j. case j of
     None \<Rightarrow> throw (KeyError job_id) | Some j \<Rightarrow> ret j)"

definition bind_approval ::
  "string \<Rightarrow> ApprovalBinding \<Rightarrow> datetime \<Rightarrow> string \<Rightarrow> (store, Job) stm" where
  "bind_approval job_id approval now actor_id =
     sbind (required job_id) (\<lambda>j. case jb_plan j of
       None \<Rightarrow> throw (RuntimeError ''job is not awaiting plan approval'')
     | Some plan \<Rightarrow>
         if jb_status j \<noteq> AWAITING_APPROVAL
         then throw (RuntimeError ''job is not awaiting plan approval'')
         else
           sbind (lift (ApprovalBinding_matches approval plan now)) (\<lambda>ok.
           if \<not> ok then throw (ValueError ''approval does not match the exact current plan'')
           else
             sbind (lift (Job_init (j\<lparr>jb_approval := Some approval,
               jb_authority_ref := Some (ab_approval_ref approval), jb_status := READY,
               jb_updated_at := now\<rparr>))) (\<lambda>updated.
             sbind (make_event updated ''approval_bound'' now (Some actor_id) (Some (jb_status j))
               (Some (jb_status updated)) None [(''plan_hash'', JStr (ab_plan_hash approval))]) (\<lambda>e.
             sbind (store_transition updated [AWAITING_APPROVAL] e None None) (\<lambda>_.
             ret updated)))))"

definition simple_transition ::
  "string \<Rightarrow> JobStatus list \<Rightarrow> JobStatus \<Rightarrow> string \<Rightarrow> datetime \<Rightarrow> string \<Rightarrow> (store, Job) stm" where
  "simple_transition job_id allowed target event_type now actor_id =
     sbind (required job_id) (\<lambda>j.
     if jb_status j \<notin> set allowed
     then throw (RuntimeError ''job status does not allow this transition'')
     else
       sbind (lift (Job_init (j\<lparr>jb_status := target, jb_updated_at := now\<rparr>))) (\<lambda>updated.
       sbind (make_event updated event_type now (Some actor_id) (Some (jb_status j)) (Some target)
         None []) (\<lambda>e.
       sbind (store_transition updated allowed e None None) (\<lambda>_. ret updated))))"

definition pause :: "string \<Rightarrow> datetime \<Rightarrow> string \<Rightarrow> (store, Job) stm" where
  "pause job_id now actor_id =
     simple_transition job_id [READY, RETRY_WAIT] PAUSED ''job_paused'' now actor_id"

definition cancel :: "string \<Rightarrow> datetime \<Rightarrow> string \<Rightarrow> (store, Job) stm" where
  "cancel job_id now actor_id =
     simple_transition job_id [PLANNED, AWAITING_APPROVAL, READY, PAUSED, RETRY_WAIT, BLOCKED]
       CANCELLED ''job_cancelled'' now actor_id"

definition resume :: "string \<Rightarrow> datetime \<Rightarrow> string \<Rightarrow> (store, Job) stm" where
  "resume job_id now actor_id =
     simple_transition job_id [PAUSED, BLOCKED] READY ''job_resumed'' now actor_id"

definition recover_interrupted :: "string \<Rightarrow> datetime \<Rightarrow> string \<Rightarrow> (store, Job) stm" where
  "recover_interrupted job_id now actor_id =
     sbind (required job_id) (\<lambda>j.
     if jb_status j \<noteq> RUNNING
     then throw (RuntimeError ''only a running job may be recovered'')
     else
       sbind (store_checkpoint job_id) (\<lambda>checkpoint.
       if (case checkpoint of None \<Rightarrow> True | Some c \<Rightarrow> Some (cp_checkpoint_id c) \<noteq> jb_checkpoint_id j)
       then throw (RuntimeError ''interrupted job has no matching durable checkpoint'')
       else
         sbind (lift (Job_init (j\<lparr>jb_status := READY, jb_updated_at := now\<rparr>))) (\<lambda>recovered.
         sbind (make_event recovered ''job_resumed'' now (Some actor_id) (Some RUNNING) (Some READY)
           (Some ''worker_interrupted'') []) (\<lambda>e.
         sbind (store_transition recovered [RUNNING] e (Some ''interrupted'')
           (Some ''worker_interrupted'')) (\<lambda>_. ret recovered)))))"

end
