(* ===== verification/JobWorker.thy ===== *)
theory JobWorker
  imports JobService
begin

text \<open>
  \<open>src/edn/jobs/worker.py\<close>: the one-shot worker. Connectors, the registry, the policy and
  the configuration hashes are its parameters; a connector method that is missing raises
  \<open>AttributeError\<close>, one that fails raises what its model returns. The store keeps every
  transaction that committed before an exception, so each step of \<open>run_next\<close> is a separate
  state transformer.
\<close>

record worker =
  wk_registry :: registry
  wk_policy :: PolicySet
  wk_connectors :: "connector list"
  wk_worker_id :: string
  wk_configuration_hashes :: "string dict"

definition worker_connector :: "worker \<Rightarrow> string \<Rightarrow> connector option" where
  \<comment> \<open>the dictionary keyed by \<open>manifest.connector_id\<close>: a later connector replaces an earlier one\<close>
  "worker_connector w connector_id =
     map_of (fold (\<lambda>c. dict_set (mf_connector_id (cx_manifest c)) c) (wk_connectors w) []) connector_id"

section \<open>Time arithmetic\<close>

definition round_half_even :: "rat \<Rightarrow> int" where
  "round_half_even q = (let f = \<lfloor>q\<rfloor>; r = q - of_int f in
     if r < 1 / 2 \<or> r = 1 / 2 \<and> even f then f else f + 1)"

definition add_seconds :: "datetime \<Rightarrow> rat \<Rightarrow> datetime result" where
  \<comment> \<open>\<open>d + timedelta(seconds=s)\<close>; a sum whose UTC reading is out of range, which Python rejects
     when the job is serialized, is rejected here\<close>
  "add_seconds d s =
     (let w = wall d + round_half_even (s * 1000000);
          r = (case d of Naive _ \<Rightarrow> Naive w | Aware _ off \<Rightarrow> Aware w off)
      in if dt_ok r then Inr r else Inl (OverflowError ''date value out of range''))"

section \<open>Outcomes that end an attempt\<close>

definition block ::
  "worker \<Rightarrow> Job \<Rightarrow> string \<Rightarrow> string \<Rightarrow> datetime \<Rightarrow> (store, Job) stm" where
  "block w j reason explanation now =
     sbind (lift (JobError_init
       \<lparr>je_code = reason, je_explanation = explanation, je_retryable = False\<rparr>)) (\<lambda>err.
     sbind (lift (Job_init (j\<lparr>jb_status := BLOCKED, jb_error := Some err, jb_updated_at := now\<rparr>)))
       (\<lambda>blocked.
     sbind (make_event blocked ''job_blocked'' now (Some (wk_worker_id w)) (Some (jb_status j))
       (Some BLOCKED) (Some reason) []) (\<lambda>e.
     sbind (store_transition blocked [READY, RETRY_WAIT] e None None) (\<lambda>_. ret blocked))))"

definition verification_block ::
  "worker \<Rightarrow> Job \<Rightarrow> JobResultRef \<Rightarrow> datetime \<Rightarrow> string \<Rightarrow> (store, Job) stm" where
  "verification_block w j result_ref now reason =
     sbind (lift (JobError_init
       \<lparr>je_code = reason, je_explanation = ''Operation could not be verified safely.'',
        je_retryable = False\<rparr>)) (\<lambda>err.
     sbind (lift (Job_init (j\<lparr>jb_status := INDETERMINATE, jb_result := Some result_ref,
       jb_verification_status := Some VS_INDETERMINATE, jb_error := Some err,
       jb_updated_at := now, jb_completed_at := Some now\<rparr>))) (\<lambda>updated.
     sbind (make_event updated ''job_failed'' now (Some (wk_worker_id w)) (Some RUNNING)
       (Some INDETERMINATE) (Some reason) []) (\<lambda>e.
     sbind (store_transition updated [RUNNING] e (Some ''indeterminate'') (Some reason)) (\<lambda>_.
     ret updated))))"

definition is_retryable :: "Job \<Rightarrow> string \<Rightarrow> bool \<Rightarrow> bool" where
  "is_retryable j err_code transient =
     (transient \<and> err_code |\<in>| rp_retryable_error_codes (jb_retry_policy j) \<and>
      jb_attempt_count j < rp_max_attempts (jb_retry_policy j))"

definition error_outcome :: "Job \<Rightarrow> bool \<Rightarrow> JobError \<Rightarrow> datetime \<Rightarrow> Job result" where
  \<comment> \<open>the job \<open>_handle_connector_error\<close> stores\<close>
  "error_outcome j retryable err now =
     (if retryable then
        rbind (rbind (delay_for_attempt (jb_retry_policy j) (jb_attempt_count j)) (add_seconds now))
          (\<lambda>next_retry. Job_init (j\<lparr>jb_status := RETRY_WAIT, jb_error := Some err,
             jb_next_retry_at := Some next_retry, jb_updated_at := now\<rparr>))
      else Job_init (j\<lparr>jb_status := FAILED, jb_error := Some err, jb_updated_at := now,
             jb_completed_at := Some now\<rparr>))"

definition handle_connector_error ::
  "worker \<Rightarrow> Job \<Rightarrow> string \<Rightarrow> string \<Rightarrow> bool \<Rightarrow> datetime \<Rightarrow> (store, Job) stm" where
  "handle_connector_error w j err_code explanation transient now =
     (let retryable = is_retryable j err_code transient in
      sbind (lift (JobError_init
        \<lparr>je_code = err_code, je_explanation = explanation, je_retryable = retryable\<rparr>)) (\<lambda>err.
      sbind (lift (error_outcome j retryable err now)) (\<lambda>updated.
      sbind (make_event updated (if retryable then ''retry_scheduled'' else ''job_failed'') now
        (Some (wk_worker_id w)) (Some RUNNING) (Some (jb_status updated)) (Some err_code) []) (\<lambda>e.
      sbind (store_transition updated [RUNNING] e
        (Some (if retryable then ''retry'' else ''failed'')) (Some err_code)) (\<lambda>_.
      ret updated)))))"

section \<open>Execution\<close>

definition call :: "'f option \<Rightarrow> ('f \<Rightarrow> 'a result) \<Rightarrow> 'a result" where
  \<comment> \<open>a method call on a \<open>cast\<close> connector\<close>
  "call m f = (case m of None \<Rightarrow> Inl (AttributeError ''connector method'') | Some g \<Rightarrow> f g)"

definition result_ref :: "string \<Rightarrow> string list \<Rightarrow> int \<Rightarrow> JobResultRef result" where
  "result_ref result_type references item_count = JobResultRef_init
     \<lparr>jr_result_type = result_type, jr_references = references, jr_item_count = item_count,
      jr_summary = None\<rparr>"

definition yield_checkpoint ::
  "worker \<Rightarrow> Job \<Rightarrow> connector \<Rightarrow> Checkpoint option \<Rightarrow> int \<Rightarrow> int option \<Rightarrow> JobResultRef result \<Rightarrow>
     datetime \<Rightarrow> (store, Job) stm" where
  \<comment> \<open>the incomplete-result branch of ingest and discover\<close>
  "yield_checkpoint w j c checkpoint processed total_items result now = (case checkpoint of
     None \<Rightarrow> throw (AssertionError '''')
   | Some cp \<Rightarrow>
       sbind (lift (require_compatible_checkpoint cp (cx_manifest c) (jb_configuration_hash j))) (\<lambda>_.
       sbind (lift (JobProgress_init
         \<lparr>jp_phase = ''checkpointed'', jp_processed_items = processed, jp_total_items = total_items,
          jp_checkpoint_count = jp_checkpoint_count (jb_progress j) + 1\<rparr>)) (\<lambda>progress.
       sbind (lift result) (\<lambda>ref.
       sbind (lift (Job_init (j\<lparr>jb_status := READY, jb_checkpoint_id := Some (cp_checkpoint_id cp),
         jb_progress := progress, jb_result := Some ref, jb_updated_at := now\<rparr>))) (\<lambda>yielded.
       sbind (make_event yielded ''checkpoint_saved'' now (Some (wk_worker_id w)) (Some RUNNING)
         (Some READY) None [(''durable_items'', JInt (cp_durable_items cp))]) (\<lambda>e.
       sbind (save_checkpoint yielded cp e) (\<lambda>_. ret yielded)))))))"

datatype executed = Yielded Job | Produced JobResultRef

definition perform ::
  "worker \<Rightarrow> Job \<Rightarrow> connector \<Rightarrow> ConnectorRequest \<Rightarrow> Checkpoint option \<Rightarrow> datetime \<Rightarrow>
     (store, executed) stm" where
  \<comment> \<open>the operation dispatch of \<open>_execute\<close>: a yielded job, or the result to verify\<close>
  "perform w j c q checkpoint now =
     (if jb_operation j = ''ingest'' then
        sbind (lift (call (cx_ingest c) (\<lambda>f. f q checkpoint))) (\<lambda>r.
        sbind (lift (result_ref ''universal_records'' (map ur_source_record_key (ig_records r))
          (ig_processed_items r))) (\<lambda>ref.
        if ig_complete r then ret (Produced ref)
        else sbind (yield_checkpoint w j c (ig_checkpoint r) (ig_processed_items r)
          (ig_total_items r) (Inr ref) now) (\<lambda>y. ret (Yielded y))))
      else if jb_operation j = ''sync'' then
        sbind (lift (call (cx_sync c) (\<lambda>f. f q checkpoint))) (\<lambda>r.
        sbind (lift (result_ref ''universal_records'' [] (ig_processed_items r))) (\<lambda>ref.
        ret (Produced ref)))
      else if jb_operation j = ''search'' then
        sbind (lift (call (cx_search c) (\<lambda>f. f q))) (\<lambda>r.
        sbind (lift (result_ref ''evidence'' (map ev_evidence_id (se_evidence r))
          (int (length (se_evidence r))))) (\<lambda>ref. ret (Produced ref)))
      else if jb_operation j = ''discover'' then
        sbind (lift (call (cx_discover c) (\<lambda>f. f q checkpoint))) (\<lambda>r.
        sbind (lift (result_ref ''resources'' (map rs_resource_id (dr_resources r))
          (dr_processed_resources r))) (\<lambda>ref.
        if dr_complete r then ret (Produced ref)
        else sbind (yield_checkpoint w j c (dr_checkpoint r) (dr_processed_resources r) None
          (result_ref ''resources'' [] (dr_processed_resources r)) now) (\<lambda>y. ret (Yielded y))))
      else if jb_operation j = ''inspect'' then
        sbind (lift (call (cx_inspect c) (\<lambda>f. f q))) (\<lambda>r.
        sbind (lift (result_ref ''inspection'' [rs_resource_id (ir_resource r)] 1)) (\<lambda>ref.
        ret (Produced ref)))
      else if jb_operation j = ''act'' then
        (case jb_plan j of
           None \<Rightarrow> throw (raise_connector_error ConnectorError ''Action job has no bound plan.''
             (Some (jb_connector_id j)))
         | Some plan \<Rightarrow>
             sbind (lift (call (cx_act c) (\<lambda>f. f q plan))) (\<lambda>r.
             sbind (lift (result_ref ''action'' [ar_plan_hash r] (ar_changed_items r))) (\<lambda>ref.
             ret (Produced ref))))
      else throw (raise_connector_error ConnectorError ''Worker does not support this operation.''
        (Some (jb_connector_id j))))"

definition completed_progress :: "Job \<Rightarrow> JobResultRef \<Rightarrow> JobProgress result" where
  \<comment> \<open>\<open>total_items or item_count\<close>: a total of zero counts as missing\<close>
  "completed_progress j ref = JobProgress_init
     \<lparr>jp_phase = ''completed'',
      jp_processed_items = max (jp_processed_items (jb_progress j)) (jr_item_count ref),
      jp_total_items = Some (case jp_total_items (jb_progress j) of
         None \<Rightarrow> jr_item_count ref | Some n \<Rightarrow> if n = 0 then jr_item_count ref else n),
      jp_checkpoint_count = jp_checkpoint_count (jb_progress j)\<rparr>"

definition verify_and_complete ::
  "worker \<Rightarrow> Job \<Rightarrow> connector \<Rightarrow> ConnectorRequest \<Rightarrow> JobResultRef \<Rightarrow> datetime \<Rightarrow> (store, Job) stm" where
  "verify_and_complete w j c q ref now = (case cx_verify c of
     None \<Rightarrow> verification_block w j ref now ''verification_not_supported''
   | Some verify \<Rightarrow>
       sbind (make_event j ''verification_started'' now (Some (wk_worker_id w)) (Some RUNNING)
         (Some RUNNING) None []) (\<lambda>started.
       sbind (append_event started) (\<lambda>_.
       sbind (lift (verify q)) (\<lambda>verification.
       sbind (make_event j ''verification_completed'' now (Some (wk_worker_id w)) (Some RUNNING)
         (Some RUNNING) (Some (VerificationStatus_value (vr_status verification))) []) (\<lambda>ended.
       sbind (append_event ended) (\<lambda>_.
       if vr_status verification \<in> {VS_FAILED, VS_INDETERMINATE} then
         verification_block w j ref now
           (''verification_'' @ VerificationStatus_value (vr_status verification))
       else
         let final_status = (if vr_status verification = VS_VERIFIED_WITH_WARNINGS
               then COMPLETED_WITH_WARNINGS else COMPLETED) in
         sbind (lift (completed_progress j ref)) (\<lambda>progress.
         sbind (lift (Job_init (j\<lparr>jb_status := final_status, jb_result := Some ref,
           jb_verification_status := Some (vr_status verification), jb_progress := progress,
           jb_updated_at := now, jb_completed_at := Some now\<rparr>))) (\<lambda>completed.
         sbind (make_event completed ''job_completed'' now (Some (wk_worker_id w)) (Some RUNNING)
           (Some final_status) (Some (VerificationStatus_value (vr_status verification))) []) (\<lambda>e.
         sbind (store_transition completed [RUNNING] e (Some ''completed'') None) (\<lambda>_.
         ret completed))))))))))"

definition execute_job ::
  "worker \<Rightarrow> Job \<Rightarrow> connector \<Rightarrow> ConnectorRequest \<Rightarrow> Checkpoint option \<Rightarrow> datetime \<Rightarrow> (store, Job) stm" where
  "execute_job w j c q checkpoint now =
     sbind (lift (require_supported_operation c q)) (\<lambda>_.
     sbind (perform w j c q checkpoint now) (\<lambda>r. case r of
       Yielded y \<Rightarrow> ret y
     | Produced ref \<Rightarrow> verify_and_complete w j c q ref now))"

definition run_claimed ::
  "worker \<Rightarrow> Job \<Rightarrow> connector \<Rightarrow> CapabilityUseDecision \<Rightarrow> Checkpoint option \<Rightarrow> datetime \<Rightarrow>
     (store, Job) stm" where
  \<comment> \<open>from the claim on: build the request, execute, and handle a \<open>ConnectorError\<close>\<close>
  "run_claimed w j c authority checkpoint now =
     sbind (lift (ConnectorRequest_init
       \<lparr>cr_request_id = ''execution:'' @ jb_job_id j, cr_correlation_id = jb_correlation_id j,
        cr_principal = jb_principal j, cr_purpose = jb_purpose j,
        cr_security_domain = jb_security_domain j, cr_classification = jb_classification j,
        cr_capability_id = jb_capability_id j, cr_operation = jb_operation j,
        cr_authority = authority, cr_scope = jb_resource_scope j\<rparr>)) (\<lambda>q s.
     case execute_job w j c q checkpoint now s of
       (Inl (ConnectorExc err_code explanation transient connector_id), s') \<Rightarrow>
         handle_connector_error w j err_code explanation transient now s'
     | r \<Rightarrow> r)"

definition try_candidate :: "worker \<Rightarrow> datetime \<Rightarrow> Job \<Rightarrow> (store, Job option) stm" where
  \<comment> \<open>the body of the loop; \<open>None\<close> is \<open>continue\<close>\<close>
  "try_candidate w now candidate = (case worker_connector w (jb_connector_id candidate) of
     None \<Rightarrow> sbind (block w candidate ''connector_unavailable'' ''Connector is unavailable.'' now)
       (\<lambda>j. ret (Some j))
   | Some c \<Rightarrow>
       if map_of (wk_configuration_hashes w) (jb_connector_id candidate) \<noteq>
           Some (jb_configuration_hash candidate) then
         sbind (block w candidate ''configuration_drift''
           ''Connector configuration no longer matches the job.'' now) (\<lambda>j. ret (Some j))
       else
         sbind (lift (reauthorize_job candidate (wk_registry w) (wk_policy w) now)) (\<lambda>a.
         if \<not> ra_usable a \<or> ra_authority a = None then
           sbind (block w candidate (ra_reason_code a) (ra_explanation a) now) (\<lambda>j. ret (Some j))
         else
           sbind (store_checkpoint (jb_job_id candidate)) (\<lambda>checkpoint.
           case (case checkpoint of None \<Rightarrow> Inr ()
                 | Some cp \<Rightarrow> require_compatible_checkpoint cp (cx_manifest c)
                     (jb_configuration_hash candidate)) of
             Inl e \<Rightarrow> (case e of
                 ConnectorExc err_code explanation transient connector_id \<Rightarrow>
                   if err_code = error_code InvalidCheckpointError then
                     sbind (block w candidate err_code explanation now) (\<lambda>j. ret (Some j))
                   else throw e
               | _ \<Rightarrow> throw e)
           | Inr _ \<Rightarrow>
               sbind (make_event candidate ''job_claimed'' now (Some (wk_worker_id w))
                 (Some (jb_status candidate)) (Some RUNNING) None []) (\<lambda>e.
               sbind (store_claim (jb_job_id candidate) (wk_worker_id w) now e) (\<lambda>claimed.
               case claimed of
                 None \<Rightarrow> ret None
               | Some j \<Rightarrow> sbind (run_claimed w j c (the (ra_authority a)) checkpoint now)
                   (\<lambda>j. ret (Some j)))))))"

fun try_candidates :: "worker \<Rightarrow> datetime \<Rightarrow> Job list \<Rightarrow> (store, Job option) stm" where
  "try_candidates w now [] = ret None"
| "try_candidates w now (j # js) =
     sbind (try_candidate w now j) (\<lambda>r. case r of
       None \<Rightarrow> try_candidates w now js | Some j \<Rightarrow> ret (Some j))"

definition run_next :: "worker \<Rightarrow> datetime \<Rightarrow> (store, Job option) stm" where
  "run_next w now = sbind (claimable now 100) (try_candidates w now)"

end
