(* ===== verification/StoreInvariants.thy ===== *)
theory StoreInvariants
  imports JobStore
begin

text \<open>
  The integrity invariant of the job store and the exact effect of its writing methods. A row
  is always the encoding of one constructed job, so the searchable columns agree with the
  payload; keys are unique, references resolve, the audit sequence is strictly increasing.
  Every writing method either raises and leaves the database as it was, or has the effect its
  lemma states.
\<close>

section \<open>The invariant\<close>

definition job_row_of :: "Job \<Rightarrow> job_row" where
  "job_row_of j =
     \<lparr>jo_job_id = jb_job_id j, jo_status = JobStatus_value (jb_status j),
      jo_tenant_id = pc_tenant_id (jb_principal j), jo_connector_id = jb_connector_id j,
      jo_capability_id = jb_capability_id j, jo_operation = jb_operation j,
      jo_created_at = isoformat (jb_created_at j), jo_updated_at = isoformat (jb_updated_at j),
      jo_next_retry_at = map_option isoformat (jb_next_retry_at j), jo_payload = Job_to_dict j\<rparr>"

definition checkpoint_row_of :: "string \<Rightarrow> Checkpoint \<Rightarrow> checkpoint_row" where
  "checkpoint_row_of job_id c =
     \<lparr>ck_checkpoint_id = cp_checkpoint_id c, ck_job_id = job_id,
      ck_created_at = isoformat (cp_created_at c), ck_payload = Checkpoint_to_dict c\<rparr>"

definition job_ids :: "store \<Rightarrow> string set" where
  "job_ids s = jo_job_id ` set (st_jobs s)"

definition jobs_ok :: "job_row list \<Rightarrow> bool" where
  "jobs_ok rows = (distinct (map jo_job_id rows) \<and>
     (\<forall>r \<in> set rows. \<exists>j. Job_wf j \<and> r = job_row_of j))"

definition checkpoints_ok :: "string set \<Rightarrow> checkpoint_row list \<Rightarrow> bool" where
  "checkpoints_ok ids rows =
     (distinct (map ck_job_id rows) \<and> distinct (map ck_checkpoint_id rows) \<and>
      (\<forall>r \<in> set rows. ck_job_id r \<in> ids \<and>
         (\<exists>c. Checkpoint_wf c \<and> r = checkpoint_row_of (ck_job_id r) c)))"

definition attempts_ok :: "string set \<Rightarrow> attempt_row list \<Rightarrow> bool" where
  "attempts_ok ids rows =
     (distinct (map (\<lambda>r. (at_job_id r, at_attempt_number r)) rows) \<and>
      (\<forall>r \<in> set rows. at_job_id r \<in> ids))"

definition events_ok :: "string set \<Rightarrow> nat \<Rightarrow> event_row list \<Rightarrow> bool" where
  "events_ok ids nxt rows =
     (sorted_wrt (<) (map er_sequence rows) \<and> (\<forall>r \<in> set rows. er_sequence r < nxt) \<and>
      distinct (map er_event_id rows) \<and>
      (\<forall>r \<in> set rows. er_job_id r \<in> ids \<and>
         (\<exists>e. AuditEvent_wf e \<and> r = event_row_of (er_sequence r) (isoformat (ae_timestamp e)) e)))"

definition store_ok :: "store \<Rightarrow> bool" where
  "store_ok s =
     (st_tables s \<and> jobs_ok (st_jobs s) \<and> checkpoints_ok (job_ids s) (st_checkpoints s) \<and>
      attempts_ok (job_ids s) (st_attempts s) \<and>
      events_ok (job_ids s) (st_next_sequence s) (st_events s))"

text \<open>The committed changes: a new job, a logged event, an update of one job.\<close>

definition new_event :: "AuditEvent \<Rightarrow> store \<Rightarrow> event_row" where
  "new_event e s = event_row_of (st_next_sequence s) (isoformat (ae_timestamp e)) e"

definition record_event :: "event_row \<Rightarrow> store \<Rightarrow> store" where
  "record_event ev s = s\<lparr>st_events := st_events s @ [ev], st_next_sequence := Suc (st_next_sequence s)\<rparr>"

definition admit :: "Job \<Rightarrow> event_row \<Rightarrow> store \<Rightarrow> store" where
  "admit j ev s = record_event ev (s\<lparr>st_jobs := st_jobs s @ [job_row_of j]\<rparr>)"

definition commit :: "Job \<Rightarrow> checkpoint_row list \<Rightarrow> attempt_row list \<Rightarrow> event_row \<Rightarrow> store \<Rightarrow> store" where
  "commit j cs as ev s = record_event ev (s\<lparr>st_jobs := replace_row (job_row_of j) (st_jobs s),
     st_checkpoints := cs, st_attempts := as\<rparr>)"

definition local_change :: "string \<Rightarrow> store \<Rightarrow> checkpoint_row list \<Rightarrow> attempt_row list \<Rightarrow> bool" where
  \<comment> \<open>the checkpoints and attempts of the other jobs are the same\<close>
  "local_change i s cs as =
     ((\<forall>k. k \<noteq> i \<longrightarrow> find (\<lambda>r. ck_job_id r = k) cs = find (\<lambda>r. ck_job_id r = k) (st_checkpoints s)) \<and>
      filter (\<lambda>r. at_job_id r \<noteq> i) as = filter (\<lambda>r. at_job_id r \<noteq> i) (st_attempts s))"

section \<open>Rows\<close>

lemma time_text_Inr: "time_text d = Inr t \<longleftrightarrow> \<not> tzinfo_None d \<and> t = isoformat d"
  by (auto simp: time_text_def)

lemma job_values_Inr: "job_values j = Inr row \<Longrightarrow> row = job_row_of j"
  by (auto simp: job_values_def job_row_of_def rbind_Inr_iff time_text_Inr split: option.splits)

lemma job_values_wf: "Job_wf j \<Longrightarrow> job_values j = Inr (job_row_of j)"
  by (auto simp: job_values_def job_row_of_def Job_wf_def Job_init_iff time_text_def
      split: option.splits)

lemma job_row_of_sel [simp]:
  "jo_job_id (job_row_of j) = jb_job_id j" "jo_status (job_row_of j) = JobStatus_value (jb_status j)"
  "jo_payload (job_row_of j) = Job_to_dict j"
  by (simp_all add: job_row_of_def)

lemma checkpoint_row_of_sel [simp]:
  "ck_job_id (checkpoint_row_of i c) = i" "ck_checkpoint_id (checkpoint_row_of i c) = cp_checkpoint_id c"
  "ck_payload (checkpoint_row_of i c) = Checkpoint_to_dict c"
  by (simp_all add: checkpoint_row_of_def)

lemma event_row_of_sel [simp]:
  "er_sequence (event_row_of n t e) = n" "er_event_id (event_row_of n t e) = ae_event_id e"
  "er_job_id (event_row_of n t e) = ae_job_id e" "er_event_type (event_row_of n t e) = ae_event_type e"
  "er_payload (event_row_of n t e) = AuditEvent_to_dict e"
  by (simp_all add: event_row_of_def)

lemma has_job_iff: "has_job s i \<longleftrightarrow> i \<in> job_ids s"
  by (auto simp: has_job_def job_ids_def list_ex_iff)

lemma find_job_Some: "find_job i s = Some r \<Longrightarrow> r \<in> set (st_jobs s) \<and> jo_job_id r = i"
  by (auto simp: find_job_def find_Some_iff)

lemma find_job_None: "find_job i s = None \<longleftrightarrow> i \<notin> job_ids s"
  by (auto simp: find_job_def find_None_iff job_ids_def)

lemma replace_row_ids [simp]: "map jo_job_id (replace_row row rows) = map jo_job_id rows"
  by (auto simp: replace_row_def)

lemma replace_row_ids_image [simp]: "jo_job_id ` set (replace_row row rows) = jo_job_id ` set rows"
  using replace_row_ids [of row rows] by (metis set_map)

lemma find_replace_row:
  "find (\<lambda>r. jo_job_id r = i) (replace_row row rows) =
     (if i = jo_job_id row \<and> i \<in> jo_job_id ` set rows then Some row
      else find (\<lambda>r. jo_job_id r = i) rows)"
  by (induction rows) (auto simp: replace_row_def)

lemma find_append_row:
  "find (\<lambda>r. jo_job_id r = i) (rows @ [row]) =
     (case find (\<lambda>r. jo_job_id r = i) rows of
        Some r \<Rightarrow> Some r | None \<Rightarrow> if jo_job_id row = i then Some row else None)"
  by (induction rows) auto

lemma jobs_ok_replace: "jobs_ok rows \<Longrightarrow> Job_wf j \<Longrightarrow> jobs_ok (replace_row (job_row_of j) rows)"
  by (auto simp: jobs_ok_def) (auto simp: replace_row_def)

lemma jobs_ok_append:
  "jobs_ok rows \<Longrightarrow> Job_wf j \<Longrightarrow> jb_job_id j \<notin> jo_job_id ` set rows \<Longrightarrow> jobs_ok (rows @ [job_row_of j])"
  by (auto simp: jobs_ok_def)

lemma events_ok_append:
  assumes "events_ok ids n rows" "AuditEvent_wf e" "ae_job_id e \<in> ids"
    and "ae_event_id e \<notin> er_event_id ` set rows"
  shows "events_ok ids (Suc n) (rows @ [event_row_of n (isoformat (ae_timestamp e)) e])"
  using assms by (auto simp: events_ok_def sorted_wrt_append intro: less_SucI)

lemma ok_mono:
  "ids \<subseteq> ids' \<Longrightarrow> checkpoints_ok ids cs \<Longrightarrow> checkpoints_ok ids' cs"
  "ids \<subseteq> ids' \<Longrightarrow> attempts_ok ids as \<Longrightarrow> attempts_ok ids' as"
  "ids \<subseteq> ids' \<Longrightarrow> events_ok ids n es \<Longrightarrow> events_ok ids' n es"
  by (auto simp: checkpoints_ok_def attempts_ok_def events_ok_def)

lemma attempts_ok_close:
  assumes "attempts_ok ids as"
  shows "attempts_ok ids (map (\<lambda>r. if at_job_id r = i \<and> at_attempt_number r = n
    then close_attempt t out err r else r) as)"
proof -
  have "map (\<lambda>r. (at_job_id r, at_attempt_number r)) (map (\<lambda>r. if at_job_id r = i \<and> at_attempt_number r = n
      then close_attempt t out err r else r) as) = map (\<lambda>r. (at_job_id r, at_attempt_number r)) as"
    by (simp add: close_attempt_def)
  then show ?thesis
    using assms unfolding attempts_ok_def by (auto simp: close_attempt_def simp del: map_map)
qed

lemma filter_close:
  "filter (\<lambda>r. at_job_id r \<noteq> i) (map (\<lambda>r. if at_job_id r = i \<and> at_attempt_number r = n
     then close_attempt t out err r else r) as) = filter (\<lambda>r. at_job_id r \<noteq> i) as"
  by (induction as) (auto simp: close_attempt_def)

section \<open>Statements\<close>

lemma select_iff:
  "select f s = (Inr x, s') \<longleftrightarrow> st_tables s \<and> x = f s \<and> s' = s"
  "select f s = (Inl e, s') \<longleftrightarrow> \<not> st_tables s \<and> e = OperationalError ''no such table'' \<and> s' = s"
  by (auto simp: select_def)

lemma execute_Inr: "execute m s = (Inr x, s') \<longleftrightarrow> st_tables s \<and> \<not> st_read_only s \<and> m s = (Inr x, s')"
  by (auto simp: execute_def)

lemma insert_job_Inr:
  "insert_job j s = (Inr u, s') \<Longrightarrow>
     jb_job_id j \<notin> job_ids s \<and> s' = s\<lparr>st_jobs := st_jobs s @ [job_row_of j]\<rparr>"
  by (auto simp: insert_job_def stm_iffs execute_Inr has_job_iff dest!: job_values_Inr
      split: if_splits)

lemma update_job_Inr:
  "update_job j s = (Inr u, s') \<Longrightarrow> s' = s\<lparr>st_jobs := replace_row (job_row_of j) (st_jobs s)\<rparr>"
  by (auto simp: update_job_def stm_iffs execute_Inr dest!: job_values_Inr)

lemma insert_event_Inr:
  "insert_event e s = (Inr u, s') \<Longrightarrow>
     ae_job_id e \<in> job_ids s \<and> ae_event_id e \<notin> er_event_id ` set (st_events s) \<and>
     s' = record_event (new_event e s) s"
  by (auto simp: insert_event_def stm_iffs execute_Inr time_text_Inr has_job_iff list_ex_iff
      new_event_def record_event_def split: if_splits)

lemma insert_attempt_Inr:
  "insert_attempt i n w now s = (Inr u, s') \<Longrightarrow>
     i \<in> job_ids s \<and> (i, n) \<notin> (\<lambda>r. (at_job_id r, at_attempt_number r)) ` set (st_attempts s) \<and>
     s' = s\<lparr>st_attempts := st_attempts s @
       [\<lparr>at_job_id = i, at_attempt_number = n, at_worker_id = w, at_started_at = isoformat now,
         at_completed_at = None, at_outcome = None, at_error_code = None\<rparr>]\<rparr>"
  by (auto simp: insert_attempt_def stm_iffs execute_Inr time_text_Inr has_job_iff list_ex_iff
      split: if_splits)

lemma update_attempt_Inr:
  "update_attempt i n now out err s = (Inr u, s') \<Longrightarrow>
     s' = s\<lparr>st_attempts := map (\<lambda>r. if at_job_id r = i \<and> at_attempt_number r = n
       then close_attempt (isoformat now) out err r else r) (st_attempts s)\<rparr>"
  by (auto simp: update_attempt_def stm_iffs execute_Inr time_text_Inr)

lemma checkpoints_ok_upsert:
  assumes "checkpoints_ok ids cs" "Checkpoint_wf c"
    and "\<forall>r \<in> set cs. ck_checkpoint_id r = cp_checkpoint_id c \<longrightarrow> ck_job_id r = i" "i \<in> ids"
  shows "i \<in> ck_job_id ` set cs \<Longrightarrow>
      checkpoints_ok ids (map (\<lambda>r. if ck_job_id r = i then checkpoint_row_of i c else r) cs)"
    and "i \<notin> ck_job_id ` set cs \<Longrightarrow> checkpoints_ok ids (cs @ [checkpoint_row_of i c])"
proof -
  let ?f = "\<lambda>r. if ck_job_id r = i then checkpoint_row_of i c else r"
  have "distinct (map ck_job_id cs)" and inj: "inj_on ck_job_id (set cs)" "distinct cs"
    and d: "inj_on ck_checkpoint_id (set cs)"
    using assms(1) by (auto simp: checkpoints_ok_def distinct_map)
  moreover have "map ck_job_id (map ?f cs) = map ck_job_id cs" by simp
  moreover have "inj_on (\<lambda>r. ck_checkpoint_id (?f r)) (set cs)"
  proof (rule inj_onI)
    fix x y assume "x \<in> set cs" "y \<in> set cs" "ck_checkpoint_id (?f x) = ck_checkpoint_id (?f y)"
    then show "x = y"
      using inj_onD [OF inj(1), of x y] inj_onD [OF d, of x y] bspec [OF assms(3), of x]
        bspec [OF assms(3), of y] by (cases "ck_job_id x = i"; cases "ck_job_id y = i") auto
  qed
  then have "distinct (map ck_checkpoint_id (map ?f cs))"
    using inj(2) by (simp add: distinct_map comp_def)
  ultimately show "checkpoints_ok ids (map ?f cs)" if "i \<in> ck_job_id ` set cs"
    using assms that unfolding checkpoints_ok_def by (auto simp del: map_map)
  show "checkpoints_ok ids (cs @ [checkpoint_row_of i c])" if "i \<notin> ck_job_id ` set cs"
    using assms that by (auto simp: checkpoints_ok_def)
qed

lemma upsert_checkpoint_Inr:
  assumes "upsert_checkpoint i c s = (Inr u, s')" "Checkpoint_wf c" "i \<in> job_ids s"
  shows "\<exists>cs. s' = s\<lparr>st_checkpoints := cs\<rparr> \<and>
    (checkpoints_ok (job_ids s) (st_checkpoints s) \<longrightarrow> checkpoints_ok (job_ids s) cs) \<and>
    find (\<lambda>r. ck_job_id r = i) cs = Some (checkpoint_row_of i c) \<and>
    (\<forall>k. k \<noteq> i \<longrightarrow> find (\<lambda>r. ck_job_id r = k) cs = find (\<lambda>r. ck_job_id r = k) (st_checkpoints s))"
proof -
  have g1: "find (\<lambda>r. ck_job_id r = k) (map (\<lambda>r. if ck_job_id r = i then x else r) cs) =
      find (\<lambda>r. ck_job_id r = k) cs" if "k \<noteq> i" "ck_job_id x = i" for k cs and x :: checkpoint_row
    using that by (induction cs) auto
  have g2: "find (\<lambda>r. ck_job_id r = k) (cs @ [x]) = find (\<lambda>r. ck_job_id r = k) cs"
    if "k \<noteq> i" "ck_job_id x = i" for k cs and x :: checkpoint_row
    using that by (induction cs) auto
  have f1: "find (\<lambda>r. ck_job_id r = i) (map (\<lambda>r. if ck_job_id r = i then x else r) cs) = Some x"
    if "i \<in> ck_job_id ` set cs" "ck_job_id x = i" for cs and x :: checkpoint_row
    using that by (induction cs) auto
  have f2: "find (\<lambda>r. ck_job_id r = i) (cs @ [x]) = Some x"
    if "i \<notin> ck_job_id ` set cs" "ck_job_id x = i" for cs and x :: checkpoint_row
    using that by (induction cs) auto
  from assms(1) have fresh: "\<forall>r \<in> set (st_checkpoints s).
      ck_checkpoint_id r = cp_checkpoint_id c \<longrightarrow> ck_job_id r = i"
    and s': "s' = (if i \<in> ck_job_id ` set (st_checkpoints s)
      then s\<lparr>st_checkpoints := map (\<lambda>r. if ck_job_id r = i then checkpoint_row_of i c else r)
        (st_checkpoints s)\<rparr>
      else s\<lparr>st_checkpoints := st_checkpoints s @ [checkpoint_row_of i c]\<rparr>)"
    by (auto simp: upsert_checkpoint_def stm_iffs execute_Inr time_text_Inr Let_def checkpoint_row_of_def list_ex_iff
        split: if_splits)
  note ok = checkpoints_ok_upsert [OF _ assms(2) fresh assms(3)]
  show ?thesis
  proof (cases "i \<in> ck_job_id ` set (st_checkpoints s)")
    case True
    then show ?thesis
      using s' ok(1) f1 [OF True, of "checkpoint_row_of i c"] g1 [where x = "checkpoint_row_of i c"]
      by (intro exI [of _ "map (\<lambda>r. if ck_job_id r = i then checkpoint_row_of i c else r)
            (st_checkpoints s)"]) simp
  next
    case False
    then show ?thesis
      using s' ok(2) f2 [OF False, of "checkpoint_row_of i c"] g2 [where x = "checkpoint_row_of i c"]
      by (intro exI [of _ "st_checkpoints s @ [checkpoint_row_of i c]"]) simp
  qed
qed

section \<open>Transactions\<close>

lemma transaction_Inl_state: "transaction m s = (Inl e, s') \<Longrightarrow> s' = s"
  by (rule transaction_Inl)

lemma store_create_effect:
  assumes "store_create j e s = (r, s')"
  shows "(\<exists>x. r = Inl x) \<and> s' = s \<or>
    r = Inr () \<and> jb_job_id j \<notin> job_ids s \<and> ae_event_id e \<notin> er_event_id ` set (st_events s) \<and>
    ae_job_id e = jb_job_id j \<and>
    s' = admit j (new_event e s) s"
proof (cases r)
  case (Inl x)
  with assms show ?thesis
    by (auto simp: store_create_def throw_iff dest: transaction_Inl split: if_splits)
next
  case (Inr u)
  then obtain s1 where "ae_job_id e = jb_job_id j" "insert_job j s = (Inr (), s1)"
      "insert_event e s1 = (Inr (), s')"
    using assms by (auto simp: store_create_def throw_iff stm_iffs transaction_Inr_iff split: if_splits)
  with Inr show ?thesis
    by (auto simp: admit_def new_event_def dest!: insert_job_Inr insert_event_Inr)
qed

lemma append_event_effect:
  assumes "append_event e s = (r, s')"
  shows "(\<exists>x. r = Inl x) \<and> s' = s \<or>
    r = Inr () \<and> ae_job_id e \<in> job_ids s \<and> ae_event_id e \<notin> er_event_id ` set (st_events s) \<and>
    s' = record_event (new_event e s) s"
proof (cases r)
  case (Inl x)
  with assms show ?thesis by (auto simp: append_event_def dest: transaction_Inl)
next
  case (Inr u)
  with assms show ?thesis by (auto simp: append_event_def transaction_Inr_iff dest!: insert_event_Inr)
qed

lemma job_ids_replace [simp]:
  "job_ids (s\<lparr>st_jobs := replace_row row (st_jobs s)\<rparr>) = job_ids s"
  "job_ids (s\<lparr>st_attempts := x\<rparr>) = job_ids s" "job_ids (s\<lparr>st_events := y\<rparr>) = job_ids s"
  "job_ids (s\<lparr>st_next_sequence := n\<rparr>) = job_ids s" "job_ids (s\<lparr>st_checkpoints := z\<rparr>) = job_ids s"
  "job_ids (s\<lparr>st_uuid := u\<rparr>) = job_ids s"
  by (simp_all add: job_ids_def)

lemma store_transition_effect:
  assumes "store_transition j expected e out err s = (r, s')"
  shows "(\<exists>x. r = Inl x) \<and> s' = s \<or>
    (\<exists>row st as. r = Inr () \<and> find_job (jb_job_id j) s = Some row \<and> jo_status row = JobStatus_value st \<and>
      st \<in> set expected \<and> (\<forall>ids. attempts_ok ids (st_attempts s) \<longrightarrow> attempts_ok ids as) \<and>
      local_change (jb_job_id j) s (st_checkpoints s) as \<and> (out = None \<longrightarrow> as = st_attempts s) \<and>
      ae_job_id e \<in> job_ids s \<and> ae_event_id e \<notin> er_event_id ` set (st_events s) \<and>
      s' = commit j (st_checkpoints s) as (new_event e s) s)"
proof (cases r)
  case (Inl x)
  with assms show ?thesis by (auto simp: store_transition_def dest: transaction_Inl)
next
  case (Inr u)
  with assms obtain row st s1 s2 where 1: "find_job (jb_job_id j) s = Some row"
      "jo_status row = JobStatus_value st" "st \<in> set expected" "update_job j s = (Inr (), s1)"
    and 2: "(case out of None \<Rightarrow> ret () | Some out \<Rightarrow> update_attempt (jb_job_id j)
        (jb_attempt_count j) (jb_updated_at j) out (Some err)) s1 = (Inr (), s2)"
    and 3: "insert_event e s2 = (Inr (), s')"
    by (fastforce simp: store_transition_def stm_iffs transaction_Inr_iff select_iff js.of_Inr_iff
        split: option.splits if_splits)
  have s1: "s1 = s\<lparr>st_jobs := replace_row (job_row_of j) (st_jobs s)\<rparr>"
    using 1(4) by (rule update_job_Inr)
  obtain as where "\<forall>ids. attempts_ok ids (st_attempts s) \<longrightarrow> attempts_ok ids as"
      "s2 = s1\<lparr>st_attempts := as\<rparr>" "local_change (jb_job_id j) s (st_checkpoints s) as"
      "out = None \<longrightarrow> as = st_attempts s"
  proof (cases out)
    case None
    then show ?thesis using 2 that [of "st_attempts s"] by (simp add: ret_iff s1 local_change_def)
  next
    case (Some o')
    define as where "as = map (\<lambda>r. if at_job_id r = jb_job_id j \<and> at_attempt_number r = jb_attempt_count j
      then close_attempt (isoformat (jb_updated_at j)) o' (Some err) r else r) (st_attempts s1)"
    have "s2 = s1\<lparr>st_attempts := as\<rparr>"
      unfolding as_def using 2 Some by (auto dest: update_attempt_Inr)
    moreover have "attempts_ok ids (st_attempts s) \<longrightarrow> attempts_ok ids as" for ids
      unfolding as_def s1 by (simp add: attempts_ok_close)
    moreover have "local_change (jb_job_id j) s (st_checkpoints s) as"
      unfolding as_def s1 by (simp add: local_change_def filter_close)
    ultimately show ?thesis using that Some by blast
  qed
  with 1 s1 insert_event_Inr [OF 3] Inr show ?thesis by (auto simp: commit_def new_event_def)
qed

lemma retry_due_Inr:
  "retry_due now row = Inr due \<Longrightarrow> due \<Longrightarrow> \<exists>t. jo_next_retry_at row = Some t \<and> t \<le> isoformat now"
  by (auto simp: retry_due_def rbind_Inr_iff time_text_Inr split: option.splits)

definition claim_ready :: "datetime \<Rightarrow> job_row \<Rightarrow> bool" where
  "claim_ready now row =
     (jo_status row = JobStatus_value READY \<or>
      jo_status row = JobStatus_value RETRY_WAIT \<and>
        (\<exists>t. jo_next_retry_at row = Some t \<and> t \<le> isoformat now))"

lemma store_claim_effect:
  assumes "store_claim i w now e s = (r, s')"
  shows "((\<exists>x. r = Inl x) \<or> r = Inr None) \<and> s' = s \<or>
    (\<exists>row current claimed. r = Inr (Some claimed) \<and> find_job i s = Some row \<and> claim_ready now row \<and>
      Job_from_dict (jo_payload row) = Inr current \<and> claimed_job current now = Inr claimed \<and>
      i \<in> job_ids s \<and>
      (i, jb_attempt_count claimed) \<notin> (\<lambda>r. (at_job_id r, at_attempt_number r)) ` set (st_attempts s) \<and>
      ae_job_id e \<in> job_ids s \<and> ae_event_id e \<notin> er_event_id ` set (st_events s) \<and>
      s' = commit claimed (st_checkpoints s) (st_attempts s @
          [\<lparr>at_job_id = i, at_attempt_number = jb_attempt_count claimed, at_worker_id = w,
            at_started_at = isoformat now, at_completed_at = None, at_outcome = None,
            at_error_code = None\<rparr>]) (new_event e s) s)"
proof (cases r)
  case (Inl x)
  with assms show ?thesis by (auto simp: store_claim_def dest: transaction_Inl)
next
  case (Inr v)
  show ?thesis
  proof (cases v)
    case None
    with Inr assms show ?thesis
      by (auto simp: store_claim_def stm_iffs transaction_Inr_iff select_iff
          split: option.splits if_splits)
  next
    case (Some claimed)
    with Inr assms obtain row st due current s1 s2 where 1: "find_job i s = Some row"
        "jo_status row = JobStatus_value st" "retry_due now row = Inr due"
        "\<not> (st \<noteq> READY \<and> \<not> (st = RETRY_WAIT \<and> due))"
        "Job_from_dict (jo_payload row) = Inr current" "claimed_job current now = Inr claimed"
      and 2: "update_job claimed s = (Inr (), s1)"
        "insert_attempt i (jb_attempt_count claimed) w now s1 = (Inr (), s2)"
        "insert_event e s2 = (Inr (), s')"
      by (fastforce simp: store_claim_def stm_iffs transaction_Inr_iff select_iff js.of_Inr_iff
          split: option.splits if_splits)
    have "claim_ready now row"
      using 1(2,4) retry_due_Inr [OF 1(3)] by (auto simp: claim_ready_def)
    with 1 Inr Some update_job_Inr [OF 2(1)] insert_attempt_Inr [OF 2(2)] insert_event_Inr [OF 2(3)]
    show ?thesis by (auto simp: commit_def new_event_def)
  qed
qed

lemma save_checkpoint_effect:
  assumes "save_checkpoint j c e s = (r, s')" "Checkpoint_wf c"
  shows "(\<exists>x. r = Inl x) \<and> s' = s \<or>
    (\<exists>row cs as. r = Inr () \<and> jb_checkpoint_id j = Some (cp_checkpoint_id c) \<and>
      find_job (jb_job_id j) s = Some row \<and> jo_status row = JobStatus_value RUNNING \<and>
      (checkpoints_ok (job_ids s) (st_checkpoints s) \<longrightarrow> checkpoints_ok (job_ids s) cs) \<and>
      find (\<lambda>r. ck_job_id r = jb_job_id j) cs = Some (checkpoint_row_of (jb_job_id j) c) \<and>
      (\<forall>ids. attempts_ok ids (st_attempts s) \<longrightarrow> attempts_ok ids as) \<and>
      local_change (jb_job_id j) s cs as \<and>
      ae_job_id e \<in> job_ids s \<and> ae_event_id e \<notin> er_event_id ` set (st_events s) \<and>
      s' = commit j cs as (new_event e s) s)"
proof (cases r)
  case (Inl x)
  with assms show ?thesis
    by (auto simp: save_checkpoint_def throw_iff dest: transaction_Inl split: if_splits)
next
  case (Inr u)
  with assms(1) obtain row s1 s2 s3 where 1: "jb_checkpoint_id j = Some (cp_checkpoint_id c)"
      "find_job (jb_job_id j) s = Some row" "jo_status row = JobStatus_value RUNNING"
    and 2: "upsert_checkpoint (jb_job_id j) c s = (Inr (), s1)" "update_job j s1 = (Inr (), s2)"
      "update_attempt (jb_job_id j) (jb_attempt_count j) (jb_updated_at j) ''checkpointed'' None s2 =
        (Inr (), s3)" "insert_event e s3 = (Inr (), s')"
    by (fastforce simp: save_checkpoint_def throw_iff stm_iffs transaction_Inr_iff select_iff
        js.of_Inr_iff split: option.splits if_splits)
  have "jb_job_id j \<in> job_ids s" using 1(2) find_job_None [of "jb_job_id j" s] by auto
  then obtain cs where cs: "s1 = s\<lparr>st_checkpoints := cs\<rparr>"
      "checkpoints_ok (job_ids s) (st_checkpoints s) \<longrightarrow> checkpoints_ok (job_ids s) cs"
      "find (\<lambda>r. ck_job_id r = jb_job_id j) cs = Some (checkpoint_row_of (jb_job_id j) c)"
      "\<forall>k. k \<noteq> jb_job_id j \<longrightarrow> find (\<lambda>r. ck_job_id r = k) cs = find (\<lambda>r. ck_job_id r = k) (st_checkpoints s)"
    using upsert_checkpoint_Inr [OF 2(1) assms(2)] by blast
  define as where "as = map (\<lambda>r. if at_job_id r = jb_job_id j \<and> at_attempt_number r = jb_attempt_count j
    then close_attempt (isoformat (jb_updated_at j)) ''checkpointed'' None r else r) (st_attempts s)"
  have s2: "s2 = s\<lparr>st_jobs := replace_row (job_row_of j) (st_jobs s), st_checkpoints := cs\<rparr>"
    using update_job_Inr [OF 2(2)] cs(1) by simp
  then have "s3 = s2\<lparr>st_attempts := as\<rparr>"
    using update_attempt_Inr [OF 2(3)] by (simp add: as_def)
  moreover have "attempts_ok ids (st_attempts s) \<longrightarrow> attempts_ok ids as" for ids
    unfolding as_def by (simp add: attempts_ok_close)
  moreover have "local_change (jb_job_id j) s cs as"
    unfolding as_def using cs(4) by (simp add: local_change_def filter_close)
  ultimately show ?thesis
    using 1 cs s2 insert_event_Inr [OF 2(4)] Inr by (auto simp: commit_def new_event_def)
qed

section \<open>Reading\<close>

lemma store_ok_row:
  assumes "store_ok s" "r \<in> set (st_jobs s)"
  obtains j where "Job_wf j" "r = job_row_of j" "Job_from_dict (jo_payload r) = Inr (Job_norm j)"
  using assms by (auto simp: store_ok_def jobs_ok_def jb.dec_enc)

lemma traverse_rows:
  assumes "store_ok s" "set rows \<subseteq> set (st_jobs s)"
  shows "\<exists>js. rows = map job_row_of js \<and> list_all Job_wf js \<and>
    traverse (\<lambda>r. Job_from_dict (jo_payload r)) rows = Inr (map Job_norm js)"
  using assms(2)
proof (induction rows)
  case (Cons r rows)
  then have "r \<in> set (st_jobs s)" by simp
  with assms(1) obtain j where j: "Job_wf j" "r = job_row_of j"
      "Job_from_dict (jo_payload r) = Inr (Job_norm j)" by (rule store_ok_row)
  moreover from Cons obtain js where "rows = map job_row_of js" "list_all Job_wf js"
      "traverse (\<lambda>r. Job_from_dict (jo_payload r)) rows = Inr (map Job_norm js)" by auto
  ultimately show ?case by (intro exI [of _ "j # js"]) auto
qed simp

lemma Job_norm_sel [simp]:
  "jb_job_id (Job_norm j) = jb_job_id j" "jb_status (Job_norm j) = jb_status j"
  "jb_plan (Job_norm j) = jb_plan j" "jb_checkpoint_id (Job_norm j) = jb_checkpoint_id j"
  by (simp_all add: Job_norm_def)

lemma store_get_ok:
  assumes "store_ok s"
  shows "(find_job i s = None \<and> store_get i s = (Inr None, s)) \<or>
    (\<exists>j. find_job i s = Some (job_row_of j) \<and> Job_wf j \<and> jb_job_id j = i \<and>
       store_get i s = (Inr (Some (Job_norm j)), s))"
proof (cases "find_job i s")
  case None
  with assms show ?thesis by (simp add: store_get_def sbind_def select_def store_ok_def lift_def)
next
  case (Some r)
  with assms obtain j where "Job_wf j" "r = job_row_of j" "Job_from_dict (jo_payload r) = Inr (Job_norm j)"
    using find_job_Some [OF Some] by (auto elim: store_ok_row)
  with Some assms find_job_Some [OF Some] show ?thesis
    by (auto simp: store_get_def sbind_def select_def store_ok_def lift_def)
qed

lemma store_checkpoint_ok:
  assumes "store_ok s" "store_checkpoint i s = (r, s')"
  shows "s' = s \<and> (r = Inr None \<or> (\<exists>c. r = Inr (Some c) \<and> Checkpoint_wf c))"
proof (cases "find (\<lambda>r. ck_job_id r = i) (st_checkpoints s)")
  case None
  with assms show ?thesis by (auto simp: store_checkpoint_def sbind_def select_def store_ok_def lift_def)
next
  case (Some row)
  then have "row \<in> set (st_checkpoints s)" by (auto simp: find_Some_iff)
  with assms(1) obtain c where "Checkpoint_wf c" "row = checkpoint_row_of (ck_job_id row) c"
    unfolding store_ok_def checkpoints_ok_def by blast
  then have "Checkpoint_from_dict (ck_payload row) = Inr (Checkpoint_norm c)" "Checkpoint_wf (Checkpoint_norm c)"
    by (metis checkpoint_row_of_sel(3) cp.dec_enc) (rule cp.wf_norm, fact)
  with Some assms show ?thesis
    by (auto simp: store_checkpoint_def sbind_def select_def store_ok_def lift_def)
qed

lemma claimable_ok:
  assumes "store_ok s" "claimable now n s = (r, s')"
  shows "s' = s \<and> (\<forall>js. r = Inr js \<longrightarrow> list_all Job_wf js)"
proof -
  have sub: "set (sql_limit n (sort_key row_order (filter (row_claimable t) (st_jobs s)))) \<subseteq> set (st_jobs s)" for t
    unfolding sql_limit_def by (auto dest!: in_set_takeD)
  have "list_all Job_wf js"
    if "traverse (\<lambda>r. Job_from_dict (jo_payload r))
      (sql_limit n (sort_key row_order (filter (row_claimable t) (st_jobs s)))) = Inr js" for t js
    using traverse_rows [OF assms(1) sub [of t]] that by (auto simp: list_all_iff jb.wf_norm)
  then show ?thesis
    using assms
    by (auto simp: claimable_def sbind_def lift_def select_def store_ok_def split: sum.splits if_splits)
qed

section \<open>Invariant reasoning\<close>

text \<open>
  \<open>keeps P m Q\<close>: from a state with \<open>P\<close>, the call \<open>m\<close> ends in a state with \<open>P\<close>,
  whether it returns or raises, and a value it returns satisfies \<open>Q\<close>.
\<close>

definition keeps :: "('s \<Rightarrow> bool) \<Rightarrow> ('s, 'a) stm \<Rightarrow> ('a \<Rightarrow> bool) \<Rightarrow> bool" where
  "keeps P m Q = (\<forall>s r s'. P s \<longrightarrow> m s = (r, s') \<longrightarrow> P s' \<and> (\<forall>x. r = Inr x \<longrightarrow> Q x))"

lemma keepsI:
  "(\<And>s r s'. P s \<Longrightarrow> m s = (r, s') \<Longrightarrow> P s' \<and> (\<forall>x. r = Inr x \<longrightarrow> Q x)) \<Longrightarrow> keeps P m Q"
  by (simp add: keeps_def)

lemma keepsD: "keeps P m Q \<Longrightarrow> P s \<Longrightarrow> m s = (r, s') \<Longrightarrow> P s' \<and> (\<forall>x. r = Inr x \<longrightarrow> Q x)"
  by (simp add: keeps_def)

lemma keeps_ret: "Q x \<Longrightarrow> keeps P (ret x) Q"
  by (simp add: keeps_def ret_iff)

lemma keeps_throw: "keeps P (throw e) Q"
  by (simp add: keeps_def throw_iff)

lemma keeps_lift: "(\<And>x. r = Inr x \<Longrightarrow> Q x) \<Longrightarrow> keeps P (lift r) Q"
  by (auto simp: keeps_def lift_iff)

lemma keeps_sbind:
  assumes "keeps P m Q" "\<And>x. Q x \<Longrightarrow> keeps P (f x) R"
  shows "keeps P (sbind m f) R"
proof (rule keepsI)
  fix s r s' assume P: "P s" and run: "sbind m f s = (r, s')"
  obtain y t where m: "m s = (y, t)" by fastforce
  from keepsD [OF assms(1) P m] have t: "P t" "\<forall>x. y = Inr x \<longrightarrow> Q x" by blast+
  show "P s' \<and> (\<forall>x. r = Inr x \<longrightarrow> R x)"
  proof (cases y)
    case (Inl e)
    with run m t show ?thesis by (auto simp: sbind_def)
  next
    case (Inr x)
    with run m have "f x t = (r, s')" by (simp add: sbind_def)
    with keepsD [OF assms(2) t(1)] t(2) Inr show ?thesis by blast
  qed
qed

lemma keeps_weaken: "keeps P m Q \<Longrightarrow> (\<And>x. Q x \<Longrightarrow> R x) \<Longrightarrow> keeps P m R"
  by (auto simp: keeps_def)

section \<open>The lifecycle\<close>

fun lifecycle_edge :: "JobStatus \<Rightarrow> JobStatus \<Rightarrow> bool" where
  \<comment> \<open>the status changes the service and the worker make\<close>
  "lifecycle_edge AWAITING_APPROVAL t = (t \<in> {READY, CANCELLED})"
| "lifecycle_edge READY t = (t \<in> {RUNNING, PAUSED, BLOCKED, CANCELLED})"
| "lifecycle_edge RETRY_WAIT t = (t \<in> {RUNNING, PAUSED, BLOCKED, CANCELLED})"
| "lifecycle_edge PAUSED t = (t \<in> {READY, CANCELLED})"
| "lifecycle_edge BLOCKED t = (t \<in> {READY, CANCELLED})"
| "lifecycle_edge PLANNED t = (t = CANCELLED)"
| "lifecycle_edge RUNNING t = (t \<in> {READY, RETRY_WAIT, COMPLETED, COMPLETED_WITH_WARNINGS, FAILED,
     INDETERMINATE})"
| "lifecycle_edge _ t = False"

definition initial_status :: "JobStatus \<Rightarrow> bool" where
  "initial_status st = (st \<in> {PLANNED, AWAITING_APPROVAL, READY})"

section \<open>The interface of the store\<close>

text \<open>
  What the service and the worker rely on from the store for an invariant \<open>P\<close> of the calls
  that write only the jobs in \<open>owns\<close>: drawing an identifier and each of the store's methods keep
  it, for constructed arguments and status changes along the lifecycle, and what the store reads
  back is well-formed. Every fact about the service and the worker is proved once from these laws.
\<close>

locale store_invariant =
  fixes P :: "store \<Rightarrow> bool" and owns :: "string \<Rightarrow> bool"
  assumes uuid_law: "P s \<Longrightarrow> P (s\<lparr>st_uuid := u\<rparr>)"
    and create_law: "Job_wf j \<Longrightarrow> owns (jb_job_id j) \<Longrightarrow> initial_status (jb_status j) \<Longrightarrow>
      AuditEvent_wf e \<Longrightarrow> ae_job_id e = jb_job_id j \<Longrightarrow> keeps P (store_create j e) (\<lambda>_. True)"
    and append_law: "AuditEvent_wf e \<Longrightarrow> owns (ae_job_id e) \<Longrightarrow> keeps P (append_event e) (\<lambda>_. True)"
    and transition_law: "Job_wf j \<Longrightarrow> owns (jb_job_id j) \<Longrightarrow> AuditEvent_wf e \<Longrightarrow>
      ae_job_id e = jb_job_id j \<Longrightarrow> \<forall>st \<in> set expected. lifecycle_edge st (jb_status j) \<Longrightarrow>
      keeps P (store_transition j expected e out err) (\<lambda>_. True)"
    and claim_law: "stamp now \<Longrightarrow> owns i \<Longrightarrow> AuditEvent_wf e \<Longrightarrow> ae_job_id e = i \<Longrightarrow>
      keeps P (store_claim i w now e)
        (\<lambda>r. \<forall>j. r = Some j \<longrightarrow> Job_wf j \<and> jb_status j = RUNNING \<and> jb_job_id j = i)"
    and save_law: "Job_wf j \<Longrightarrow> owns (jb_job_id j) \<Longrightarrow> jb_status j = READY \<Longrightarrow> Checkpoint_wf c \<Longrightarrow>
      AuditEvent_wf e \<Longrightarrow> ae_job_id e = jb_job_id j \<Longrightarrow> keeps P (save_checkpoint j c e) (\<lambda>_. True)"
    and get_law: "keeps P (store_get i) (\<lambda>r. \<forall>j. r = Some j \<longrightarrow> Job_wf j \<and> jb_job_id j = i)"
    and checkpoint_law: "keeps P (store_checkpoint i) (\<lambda>r. \<forall>c. r = Some c \<longrightarrow> Checkpoint_wf c)"
    and claimable_law: "keeps P (claimable now n) (list_all Job_wf)"

text \<open>
  An invariant about a table's history is the integrity invariant together with a relation to
  an earlier state that every committed change of the store preserves.
\<close>

locale store_history =
  fixes H :: "store \<Rightarrow> bool" and owns :: "string \<Rightarrow> bool"
  assumes on_uuid: "H s \<Longrightarrow> H (s\<lparr>st_uuid := u\<rparr>)"
    and on_create: "H s \<Longrightarrow> store_ok s \<Longrightarrow> Job_wf j \<Longrightarrow> owns (jb_job_id j) \<Longrightarrow>
      initial_status (jb_status j) \<Longrightarrow> jb_job_id j \<notin> job_ids s \<Longrightarrow> er_job_id ev = jb_job_id j \<Longrightarrow>
      H (admit j ev s)"
    and on_append: "H s \<Longrightarrow> store_ok s \<Longrightarrow> owns (er_job_id ev) \<Longrightarrow> H (record_event ev s)"
    and on_update: "H s \<Longrightarrow> store_ok s \<Longrightarrow> Job_wf j \<Longrightarrow> owns (jb_job_id j) \<Longrightarrow>
      find_job (jb_job_id j) s = Some row \<Longrightarrow> jo_status row = JobStatus_value st \<Longrightarrow>
      lifecycle_edge st (jb_status j) \<Longrightarrow> local_change (jb_job_id j) s cs as \<Longrightarrow>
      er_job_id ev = jb_job_id j \<Longrightarrow> H (commit j cs as ev s)"

lemma new_event_job [simp]: "er_job_id (new_event e s) = ae_job_id e"
  by (simp add: new_event_def)

lemma job_ids_record [simp]: "job_ids (record_event ev s) = job_ids s"
  by (simp add: job_ids_def record_event_def)

lemma job_ids_commit [simp]: "job_ids (commit j cs as ev s) = job_ids s"
  by (simp add: commit_def)

lemma job_ids_admit [simp]: "job_ids (admit j ev s) = insert (jb_job_id j) (job_ids s)"
  by (simp add: admit_def) (auto simp: job_ids_def)

lemma store_ok_create:
  assumes "store_ok s" "Job_wf j" "jb_job_id j \<notin> job_ids s" "AuditEvent_wf e"
    and "ae_event_id e \<notin> er_event_id ` set (st_events s)" "ae_job_id e = jb_job_id j"
  shows "store_ok (admit j (new_event e s) s)"
proof -
  have sub: "job_ids s \<subseteq> insert (jb_job_id j) (job_ids s)" by blast
  then show ?thesis
    using assms jobs_ok_append [of "st_jobs s" j] ok_mono [OF sub]
      events_ok_append [of "insert (jb_job_id j) (job_ids s)" "st_next_sequence s" "st_events s" e]
    unfolding store_ok_def job_ids_admit
    by (simp add: admit_def record_event_def new_event_def) (simp add: job_ids_def)
qed

lemma store_ok_append:
  assumes "store_ok s" "AuditEvent_wf e" "ae_job_id e \<in> job_ids s"
    and "ae_event_id e \<notin> er_event_id ` set (st_events s)"
  shows "store_ok (record_event (new_event e s) s)"
  using assms events_ok_append [of "job_ids s" "st_next_sequence s" "st_events s" e]
  unfolding store_ok_def job_ids_record by (simp add: record_event_def new_event_def)

lemma store_ok_update:
  assumes "store_ok s" "Job_wf j" "AuditEvent_wf e" "ae_job_id e \<in> job_ids s"
    and "ae_event_id e \<notin> er_event_id ` set (st_events s)"
    and "checkpoints_ok (job_ids s) cs" "attempts_ok (job_ids s) as"
  shows "store_ok (commit j cs as (new_event e s) s)"
  using assms jobs_ok_replace [of "st_jobs s" j]
    events_ok_append [of "job_ids s" "st_next_sequence s" "st_events s" e]
  unfolding store_ok_def job_ids_commit by (simp add: commit_def record_event_def new_event_def)

lemma claimed_job_wf:
  assumes "Job_wf current" "stamp now" "claimed_job current now = Inr claimed"
  shows "Job_wf claimed \<and> jb_status claimed = RUNNING \<and> jb_job_id claimed = jb_job_id current"
  using assms
  by (auto simp: claimed_job_def Job_init_Inr Job_wf_def Job_parts_wf_def split: option.splits)

lemma attempts_ok_append:
  "attempts_ok ids as \<Longrightarrow> at_job_id r \<in> ids \<Longrightarrow>
     (at_job_id r, at_attempt_number r) \<notin> (\<lambda>r. (at_job_id r, at_attempt_number r)) ` set as \<Longrightarrow>
     attempts_ok ids (as @ [r])"
  by (auto simp: attempts_ok_def)

lemma store_ok_parts:
  "store_ok s \<Longrightarrow> checkpoints_ok (job_ids s) (st_checkpoints s)"
  "store_ok s \<Longrightarrow> attempts_ok (job_ids s) (st_attempts s)"
  by (simp_all add: store_ok_def)

lemma store_claim_ok:
  assumes ok: "store_ok s" and "stamp now" "AuditEvent_wf e" "store_claim i w now e s = (r, s')"
  shows "s' = s \<and> (\<forall>j. r \<noteq> Inr (Some j)) \<or>
    (\<exists>row st j as. r = Inr (Some j) \<and> find_job (jb_job_id j) s = Some row \<and> i = jb_job_id j \<and>
      jo_status row = JobStatus_value st \<and> lifecycle_edge st RUNNING \<and> claim_ready now row \<and>
      Job_wf j \<and> jb_status j = RUNNING \<and> store_ok s' \<and>
      local_change (jb_job_id j) s (st_checkpoints s) as \<and> s' = commit j (st_checkpoints s) as (new_event e s) s)"
  using store_claim_effect [OF assms(4)]
proof (elim disjE conjE exE, goal_cases)
  case (3 row current claimed)
  let ?as = "st_attempts s @ [\<lparr>at_job_id = i, at_attempt_number = jb_attempt_count claimed,
    at_worker_id = w, at_started_at = isoformat now, at_completed_at = None, at_outcome = None,
    at_error_code = None\<rparr>]"
  from 3 have row: "row \<in> set (st_jobs s)" "jo_job_id row = i" by (auto dest: find_job_Some)
  from ok row(1) obtain k where k: "Job_wf k" "row = job_row_of k" "Job_from_dict (jo_payload row) = Inr (Job_norm k)"
    by (rule store_ok_row)
  with 3 have "current = Job_norm k" by simp
  with row(2) k(1,2) have c: "Job_wf claimed" "jb_status claimed = RUNNING" "jb_job_id claimed = i"
    using claimed_job_wf [OF jb.wf_norm [OF k(1)] assms(2)] 3 by (auto simp: Job_norm_def)
  have edge: "\<exists>st. jo_status row = JobStatus_value st \<and> lifecycle_edge st RUNNING"
    using \<open>claim_ready now row\<close> unfolding claim_ready_def
    by (metis lifecycle_edge.simps(2,3) insertI1)
  have "store_ok (commit claimed (st_checkpoints s) ?as (new_event e s) s)"
    by (rule store_ok_update [OF ok c(1) assms(3)])
      (use 3 in \<open>simp_all add: store_ok_parts [OF ok] attempts_ok_append\<close>)
  moreover have "local_change i s (st_checkpoints s) ?as" by (simp add: local_change_def)
  ultimately show ?case using edge 3 c by auto
qed auto

sublocale store_history < store_invariant "\<lambda>s. store_ok s \<and> H s" owns
proof unfold_locales
  fix s u assume "store_ok s \<and> H s"
  then show "store_ok (s\<lparr>st_uuid := u\<rparr>) \<and> H (s\<lparr>st_uuid := u\<rparr>)"
    by (simp add: store_ok_def on_uuid)
next
  fix j e assume "Job_wf j" "owns (jb_job_id j)" "initial_status (jb_status j)" "AuditEvent_wf e"
    "ae_job_id e = jb_job_id j"
  then show "keeps (\<lambda>s. store_ok s \<and> H s) (store_create j e) (\<lambda>_. True)"
    by (intro keepsI) (auto dest!: store_create_effect intro: store_ok_create on_create)
next
  fix e assume "AuditEvent_wf e" "owns (ae_job_id e)"
  then show "keeps (\<lambda>s. store_ok s \<and> H s) (append_event e) (\<lambda>_. True)"
    by (intro keepsI) (auto dest!: append_event_effect intro: store_ok_append on_append)
next
  fix j e expected out err
  assume a: "Job_wf j" "owns (jb_job_id j)" "AuditEvent_wf e" "ae_job_id e = jb_job_id j"
    "\<forall>st \<in> set expected. lifecycle_edge st (jb_status j)"
  show "keeps (\<lambda>s. store_ok s \<and> H s) (store_transition j expected e out err) (\<lambda>_. True)"
  proof (rule keepsI)
    fix s r s' assume s: "store_ok s \<and> H s" "store_transition j expected e out err s = (r, s')"
    from store_transition_effect [OF s(2)] show "(store_ok s' \<and> H s') \<and> (\<forall>x. r = Inr x \<longrightarrow> True)"
    proof (elim disjE conjE exE, goal_cases)
      case (2 row st as)
      with s(1) a store_ok_parts [of s] show ?case
        by (simp add: store_ok_update on_update)
    qed (use s in simp)
  qed
next
  fix now e i w assume a: "stamp now" "owns i" "AuditEvent_wf e" "ae_job_id e = i"
  show "keeps (\<lambda>s. store_ok s \<and> H s) (store_claim i w now e)
      (\<lambda>r. \<forall>j. r = Some j \<longrightarrow> Job_wf j \<and> jb_status j = RUNNING \<and> jb_job_id j = i)"
  proof (rule keepsI)
    fix s r s' assume s: "store_ok s \<and> H s" "store_claim i w now e s = (r, s')"
    from store_claim_ok [OF _ a(1,3) s(2)] s(1)
    show "(store_ok s' \<and> H s') \<and> (\<forall>x. r = Inr x \<longrightarrow>
        (\<forall>j. x = Some j \<longrightarrow> Job_wf j \<and> jb_status j = RUNNING \<and> jb_job_id j = i))"
      using on_update [of s] a(2,4) by fastforce
  qed
next
  fix j c e assume a: "Job_wf j" "owns (jb_job_id j)" "jb_status j = READY" "Checkpoint_wf c"
    "AuditEvent_wf e" "ae_job_id e = jb_job_id j"
  show "keeps (\<lambda>s. store_ok s \<and> H s) (save_checkpoint j c e) (\<lambda>_. True)"
  proof (rule keepsI)
    fix s r s' assume s: "store_ok s \<and> H s" "save_checkpoint j c e s = (r, s')"
    from save_checkpoint_effect [OF s(2) a(4)] show "(store_ok s' \<and> H s') \<and> (\<forall>x. r = Inr x \<longrightarrow> True)"
    proof (elim disjE conjE exE, goal_cases)
      case (2 row cs as)
      with s(1) a store_ok_parts [of s] show ?case
        by (simp add: store_ok_update on_update [where st = RUNNING])
    qed (use s in simp)
  qed
next
  show "keeps (\<lambda>s. store_ok s \<and> H s) (store_get i) (\<lambda>r. \<forall>j. r = Some j \<longrightarrow> Job_wf j \<and> jb_job_id j = i)" for i
  proof (rule keepsI)
    fix s r s' assume "store_ok s \<and> H s" "store_get i s = (r, s')"
    with store_get_ok [of s i] show "(store_ok s' \<and> H s') \<and> (\<forall>x. r = Inr x \<longrightarrow> (\<forall>j. x = Some j \<longrightarrow> Job_wf j \<and> jb_job_id j = i))"
      by (auto simp: jb.wf_norm)
  qed
  show "keeps (\<lambda>s. store_ok s \<and> H s) (store_checkpoint i) (\<lambda>r. \<forall>c. r = Some c \<longrightarrow> Checkpoint_wf c)" for i
    by (rule keepsI) (use store_checkpoint_ok in fastforce)
  show "keeps (\<lambda>s. store_ok s \<and> H s) (claimable now n) (list_all Job_wf)" for now n
    by (rule keepsI) (use claimable_ok in blast)
qed

end
