(* ===== verification/JobLifecycle.thy ===== *)
theory JobLifecycle
  imports JobWorker StoreInvariants
begin

text \<open>
  What the job service and the worker do to the store, over every sequence of operations. The
  locale \<open>store_invariant\<close> carries an invariant through the calls that write only the jobs it
  owns; \<open>system_invariant\<close> extends it to all jobs and to sequences of steps. The interpretations
  give the integrity of the store, the append-only audit log, the lifecycle of a job's status,
  the immutability of a finished job, and the isolation of every job from calls on other jobs.
\<close>

section \<open>Operations keep an invariant of the store\<close>

definition connector_ok :: "connector \<Rightarrow> bool" where
  \<comment> \<open>a checkpoint a connector returns is a constructed one\<close>
  "connector_ok c =
     ((\<forall>f q cp r k. cx_ingest c = Some f \<longrightarrow> f q cp = Inr r \<longrightarrow> ig_checkpoint r = Some k \<longrightarrow>
         Checkpoint_wf k) \<and>
      (\<forall>f q cp r k. cx_discover c = Some f \<longrightarrow> f q cp = Inr r \<longrightarrow> dr_checkpoint r = Some k \<longrightarrow>
         Checkpoint_wf k))"

definition worker_ok :: "worker \<Rightarrow> bool" where
  "worker_ok w = (\<forall>c \<in> set (wk_connectors w). connector_ok c)"

lemma worker_connector_ok:
  assumes "worker_ok w" "worker_connector w i = Some c"
  shows "connector_ok c"
proof -
  have *: "map_of (fold (\<lambda>c. dict_set (mf_connector_id (cx_manifest c)) c) cs acc) i = Some c \<Longrightarrow>
      c \<in> set cs \<or> map_of acc i = Some c" for cs acc
  proof (induction cs arbitrary: acc)
    case (Cons a cs)
    then have "map_of (fold (\<lambda>c. dict_set (mf_connector_id (cx_manifest c)) c) cs
        (dict_set (mf_connector_id (cx_manifest a)) a acc)) i = Some c" by simp
    from Cons.IH [OF this] show ?case by (auto split: if_splits)
  qed simp
  from * [of "wk_connectors w" "[]"] assms show ?thesis
    by (auto simp: worker_ok_def worker_connector_def)
qed

lemma keeps_Job_init:
  "Job_parts_wf x \<Longrightarrow> keeps P (lift (Job_init x)) (\<lambda>j. j = x \<and> Job_wf j)"
  by (rule keeps_lift) (auto simp: Job_init_Inr Job_wf_def)

lemma keeps_JobError_init: "keeps P (lift (JobError_init x)) JobError_wf"
  by (rule keeps_lift) (auto simp: JobError_wf_def JobError_init_def check_simps)

lemma keeps_JobProgress_init: "keeps P (lift (JobProgress_init x)) JobProgress_wf"
  by (rule keeps_lift) (auto simp: JobProgress_wf_def JobProgress_init_def check_simps)

lemma result_ref_wf: "result_ref t refs n = Inr r \<Longrightarrow> JobResultRef_wf r"
  by (auto simp: result_ref_def JobResultRef_wf_def JobResultRef_init_def check_simps)

lemma add_seconds_stamp: "stamp d \<Longrightarrow> add_seconds d x = Inr r \<Longrightarrow> stamp r"
  by (auto simp: add_seconds_def stamp_def Let_def split: datetime.splits if_splits)

lemmas Job_wf_parts = Job_wf_def Job_parts_wf_def

context store_invariant
begin

lemma keeps_make_event:
  assumes "stamp now" "distinct (map fst md)"
  shows "keeps P (make_event j t now a p n r md) (\<lambda>e. AuditEvent_wf e \<and> ae_job_id e = jb_job_id j)"
proof -
  have "keeps P uuid4_hex (\<lambda>_. True)"
    by (rule keepsI) (auto simp: uuid4_hex_def uuid_law)
  then show ?thesis
    unfolding make_event_def
    by (rule keeps_sbind) (use assms in \<open>auto intro!: keeps_lift simp: AuditEvent_init_Inr AuditEvent_wf_def\<close>)
qed

lemma keeps_service_create:
  assumes "Job_wf j" "owns (jb_job_id j)"
  shows "keeps P (service_create j actor) (\<lambda>_. True)"
proof -
  have now: "stamp (jb_created_at j)" using assms by (simp add: Job_wf_parts)
  show ?thesis
  proof (cases "initial_status (jb_status j)")
    case True
    then have pre: "\<not> jb_status j \<notin> {PLANNED, AWAITING_APPROVAL, READY}"
      by (simp add: initial_status_def)
    show ?thesis
      unfolding service_create_def if_not_P [OF pre]
    proof (rule keeps_sbind [OF keeps_make_event [OF now]], simp)
      fix e assume "AuditEvent_wf e \<and> ae_job_id e = jb_job_id j"
      with assms(2) show "keeps P (sbind (store_create j e) (\<lambda>_. case jb_plan j of None \<Rightarrow> ret ()
          | Some plan \<Rightarrow> sbind (make_event j ''plan_bound'' (jb_created_at j) actor None None None
              [(''plan_hash'', JStr (pl_plan_hash plan))]) append_event)) (\<lambda>_. True)"
        by (intro keeps_sbind [OF create_law [OF assms True]])
          (auto intro!: keeps_ret keeps_sbind [OF keeps_make_event [OF now]] append_law split: option.split)
    qed
  next
    case False
    then show ?thesis by (auto simp: service_create_def initial_status_def intro: keeps_throw)
  qed
qed

lemma keeps_required: "keeps P (required i) (\<lambda>j. Job_wf j \<and> jb_job_id j = i)"
  unfolding required_def
  by (rule keeps_sbind [OF get_law]) (auto intro: keeps_ret keeps_throw split: option.split)

lemma keeps_finish:
  assumes "Job_parts_wf x" "owns (jb_job_id x)" "stamp now" "distinct (map fst md)"
    and "\<forall>st \<in> set expected. lifecycle_edge st (jb_status x)"
  shows "keeps P (sbind (lift (Job_init x)) (\<lambda>u. sbind (make_event u t now a p (n u) r md) (\<lambda>e.
    sbind (store_transition u expected e out err) (\<lambda>_. ret u)))) Job_wf"
  using assms
  by (intro keeps_sbind [OF keeps_Job_init] keeps_sbind [OF keeps_make_event]
      keeps_sbind [OF transition_law] keeps_ret) auto

lemma keeps_simple_transition:
  assumes "owns i" "stamp now" "\<forall>st \<in> set allowed. lifecycle_edge st target"
  shows "keeps P (simple_transition i allowed target t now a) Job_wf"
  unfolding simple_transition_def
proof (rule keeps_sbind [OF keeps_required])
  fix j assume "Job_wf j \<and> jb_job_id j = i"
  then have "Job_parts_wf (j\<lparr>jb_status := target, jb_updated_at := now\<rparr>)"
    "owns (jb_job_id (j\<lparr>jb_status := target, jb_updated_at := now\<rparr>))"
    using assms(1,2) by (simp_all add: Job_wf_parts)
  from keeps_finish [OF this assms(2), of "[]" allowed] assms(3)
  show "keeps P (if jb_status j \<notin> set allowed
      then throw (RuntimeError ''job status does not allow this transition'')
      else sbind (lift (Job_init (j\<lparr>jb_status := target, jb_updated_at := now\<rparr>)))
        (\<lambda>u. sbind (make_event u t now (Some a) (Some (jb_status j)) (Some target) None [])
          (\<lambda>e. sbind (store_transition u allowed e None None) (\<lambda>_. ret u)))) Job_wf"
    by (auto intro: keeps_throw)
qed

lemma keeps_service:
  assumes "owns i" "stamp now"
  shows "keeps P (pause i now a) Job_wf" "keeps P (cancel i now a) Job_wf"
    and "keeps P (resume i now a) Job_wf"
  unfolding pause_def cancel_def resume_def
  by (intro keeps_simple_transition assms; simp)+

lemma keeps_bind_approval:
  assumes "owns i" and now: "stamp now" and "ApprovalBinding_wf b"
  shows "keeps P (bind_approval i b now a) Job_wf"
  unfolding bind_approval_def
proof (rule keeps_sbind [OF keeps_required])
  fix j assume "Job_wf j \<and> jb_job_id j = i"
  then have "Job_parts_wf (j\<lparr>jb_approval := Some b, jb_authority_ref := Some (ab_approval_ref b),
      jb_status := READY, jb_updated_at := now\<rparr>)"
    "owns (jb_job_id (j\<lparr>jb_approval := Some b, jb_authority_ref := Some (ab_approval_ref b),
      jb_status := READY, jb_updated_at := now\<rparr>))"
    using assms by (simp_all add: Job_wf_parts)
  note fin = keeps_finish [OF this now, where expected = "[AWAITING_APPROVAL]"]
  show "keeps P (case jb_plan j of
      None \<Rightarrow> throw (RuntimeError ''job is not awaiting plan approval'')
    | Some plan \<Rightarrow> if jb_status j \<noteq> AWAITING_APPROVAL
        then throw (RuntimeError ''job is not awaiting plan approval'')
        else sbind (lift (ApprovalBinding_matches b plan now)) (\<lambda>ok.
          if \<not> ok then throw (ValueError ''approval does not match the exact current plan'')
          else sbind (lift (Job_init (j\<lparr>jb_approval := Some b,
              jb_authority_ref := Some (ab_approval_ref b), jb_status := READY, jb_updated_at := now\<rparr>)))
            (\<lambda>u. sbind (make_event u ''approval_bound'' now (Some a) (Some (jb_status j))
              (Some (jb_status u)) None [(''plan_hash'', JStr (ab_plan_hash b))])
              (\<lambda>e. sbind (store_transition u [AWAITING_APPROVAL] e None None) (\<lambda>_. ret u))))) Job_wf"
    by (auto split: option.split intro!: keeps_throw fin
        keeps_sbind [OF keeps_lift [where r = "ApprovalBinding_matches b plan now" and Q = "\<lambda>_. True" for plan]])
qed

lemma keeps_recover:
  assumes "owns i" and now: "stamp now"
  shows "keeps P (recover_interrupted i now a) Job_wf"
  unfolding recover_interrupted_def
proof (rule keeps_sbind [OF keeps_required])
  fix j assume "Job_wf j \<and> jb_job_id j = i"
  then have "Job_parts_wf (j\<lparr>jb_status := READY, jb_updated_at := now\<rparr>)"
    "owns (jb_job_id (j\<lparr>jb_status := READY, jb_updated_at := now\<rparr>))"
    using assms by (simp_all add: Job_wf_parts)
  note fin = keeps_finish [OF this now, where expected = "[RUNNING]"]
  show "keeps P (if jb_status j \<noteq> RUNNING
      then throw (RuntimeError ''only a running job may be recovered'')
      else sbind (store_checkpoint i) (\<lambda>checkpoint.
        if (case checkpoint of None \<Rightarrow> True | Some c \<Rightarrow> Some (cp_checkpoint_id c) \<noteq> jb_checkpoint_id j)
        then throw (RuntimeError ''interrupted job has no matching durable checkpoint'')
        else sbind (lift (Job_init (j\<lparr>jb_status := READY, jb_updated_at := now\<rparr>)))
          (\<lambda>u. sbind (make_event u ''job_resumed'' now (Some a) (Some RUNNING) (Some READY)
              (Some ''worker_interrupted'') [])
            (\<lambda>e. sbind (store_transition u [RUNNING] e (Some ''interrupted'')
                (Some ''worker_interrupted'')) (\<lambda>_. ret u))))) Job_wf"
    by (auto intro!: keeps_throw fin keeps_sbind [OF checkpoint_law])
qed

lemma keeps_block:
  assumes "Job_wf j" "owns (jb_job_id j)" "stamp now"
  shows "keeps P (block w j reason expl now) Job_wf"
  unfolding block_def
proof (rule keeps_sbind [OF keeps_JobError_init])
  fix err assume "JobError_wf err"
  with assms show "keeps P (sbind (lift (Job_init (j\<lparr>jb_status := BLOCKED, jb_error := Some err,
      jb_updated_at := now\<rparr>))) (\<lambda>u. sbind (make_event u ''job_blocked'' now (Some (wk_worker_id w))
        (Some (jb_status j)) (Some BLOCKED) (Some reason) [])
      (\<lambda>e. sbind (store_transition u [READY, RETRY_WAIT] e None None) (\<lambda>_. ret u)))) Job_wf"
    by (intro keeps_finish) (simp_all add: Job_wf_parts)
qed

lemma keeps_verification_block:
  assumes "Job_wf j" "owns (jb_job_id j)" "stamp now" "JobResultRef_wf ref"
  shows "keeps P (verification_block w j ref now reason) Job_wf"
  unfolding verification_block_def
proof (rule keeps_sbind [OF keeps_JobError_init])
  fix err assume "JobError_wf err"
  with assms show "keeps P (sbind (lift (Job_init (j\<lparr>jb_status := INDETERMINATE,
      jb_result := Some ref, jb_verification_status := Some VS_INDETERMINATE, jb_error := Some err,
      jb_updated_at := now, jb_completed_at := Some now\<rparr>))) (\<lambda>u. sbind (make_event u ''job_failed'' now
        (Some (wk_worker_id w)) (Some RUNNING) (Some INDETERMINATE) (Some reason) [])
      (\<lambda>e. sbind (store_transition u [RUNNING] e (Some ''indeterminate'') (Some reason))
        (\<lambda>_. ret u)))) Job_wf"
    by (intro keeps_finish) (simp_all add: Job_wf_parts)
qed

lemma keeps_error_outcome:
  assumes "Job_wf j" "stamp now" "JobError_wf err"
  shows "keeps P (lift (error_outcome j retryable err now))
    (\<lambda>u. Job_wf u \<and> jb_status u \<in> {RETRY_WAIT, FAILED} \<and> jb_job_id u = jb_job_id j)"
  by (rule keeps_lift) (use assms in \<open>auto simp: error_outcome_def rbind_Inr_iff Job_init_Inr
      Job_wf_parts add_seconds_stamp split: if_splits\<close>)

lemma keeps_handle_connector_error:
  assumes "Job_wf j" "owns (jb_job_id j)" "stamp now"
  shows "keeps P (handle_connector_error w j c expl tr now) Job_wf"
  unfolding handle_connector_error_def Let_def
  using assms
  by (intro keeps_sbind [OF keeps_JobError_init] keeps_sbind [OF keeps_error_outcome]
      keeps_sbind [OF keeps_make_event] keeps_sbind [OF transition_law] keeps_ret) auto

lemma keeps_yield:
  assumes j: "Job_wf j" "owns (jb_job_id j)" and now: "stamp now" and "\<And>k. cp = Some k \<Longrightarrow> Checkpoint_wf k"
    and "\<And>r. res = Inr r \<Longrightarrow> JobResultRef_wf r"
  shows "keeps P (yield_checkpoint w j c cp done total_items res now) Job_wf"
proof (cases cp)
  case None
  then show ?thesis by (simp add: yield_checkpoint_def keeps_throw)
next
  case (Some k)
  have parts: "Job_parts_wf (j\<lparr>jb_status := READY, jb_checkpoint_id := x, jb_progress := p,
      jb_result := Some r, jb_updated_at := now\<rparr>)" if "JobProgress_wf p" "JobResultRef_wf r" for x p r
    using j now that by (simp add: Job_wf_parts)
  show ?thesis
    unfolding yield_checkpoint_def Some option.case
    by (rule keeps_sbind [OF keeps_lift [where Q = "\<lambda>_. True"]],
        simp, rule keeps_sbind [OF keeps_JobProgress_init],
        rule keeps_sbind [OF keeps_lift [OF assms(5)]], assumption,
        rule keeps_sbind [OF keeps_Job_init [OF parts]], assumption, assumption,
        rule keeps_sbind [OF keeps_make_event [OF now]], simp,
        rule keeps_sbind [OF save_law])
      (use assms(2,4) Some in \<open>auto intro: keeps_ret\<close>)
qed

lemma keeps_lift_any: "keeps P (lift r) (\<lambda>_. True)"
  by (rule keeps_lift) simp

lemma keeps_produced:
  "keeps P (sbind (lift (result_ref t refs n)) (\<lambda>ref. ret (Produced ref)))
     (\<lambda>x. case x of Yielded y \<Rightarrow> Job_wf y | Produced ref \<Rightarrow> JobResultRef_wf ref)"
  by (rule keeps_sbind [OF keeps_lift [where Q = JobResultRef_wf]])
    (auto intro: keeps_ret dest: result_ref_wf)

lemma keeps_maybe_yield:
  assumes "Job_wf j" "owns (jb_job_id j)" "stamp now" "\<And>k. cp = Some k \<Longrightarrow> Checkpoint_wf k" "JobResultRef_wf ref"
    and "\<And>r. res ref = Inr r \<Longrightarrow> JobResultRef_wf r"
  shows "keeps P (if fin then ret (Produced ref)
      else sbind (yield_checkpoint w j c cp done total_items (res ref) now) (\<lambda>y. ret (Yielded y)))
     (\<lambda>x. case x of Yielded y \<Rightarrow> Job_wf y | Produced ref \<Rightarrow> JobResultRef_wf ref)"
  using assms by (auto intro!: keeps_ret keeps_sbind [OF keeps_yield])

lemma keeps_perform:
  assumes j: "Job_wf j" "owns (jb_job_id j)" "stamp now" and c: "connector_ok c"
  shows "keeps P (perform w j c q cp now)
    (\<lambda>x. case x of Yielded y \<Rightarrow> Job_wf y | Produced ref \<Rightarrow> JobResultRef_wf ref)"
proof -
  have ing: "keeps P (lift (call (cx_ingest c) (\<lambda>f. f q cp)))
      (\<lambda>r. \<forall>k. ig_checkpoint r = Some k \<longrightarrow> Checkpoint_wf k)"
    using c by (intro keeps_lift) (auto simp: connector_ok_def call_def split: option.splits)
  have dis: "keeps P (lift (call (cx_discover c) (\<lambda>f. f q cp)))
      (\<lambda>r. \<forall>k. dr_checkpoint r = Some k \<longrightarrow> Checkpoint_wf k)"
    using c by (intro keeps_lift) (auto simp: connector_ok_def call_def split: option.splits)
  have ref: "keeps P (lift (result_ref t refs n)) JobResultRef_wf" for t refs n
    by (rule keeps_lift) (rule result_ref_wf)
  show ?thesis
    unfolding perform_def
    by (simp only: split: if_split option.split)
      (intro conjI impI allI keeps_throw keeps_sbind [OF keeps_lift_any keeps_produced]
        keeps_sbind [OF ing] keeps_sbind [OF dis] keeps_sbind [OF ref]
        keeps_maybe_yield [OF j, where res = Inr]
        keeps_maybe_yield [OF j, where res = "\<lambda>_. result_ref t refs n" for t refs n];
        auto dest: result_ref_wf)
qed

lemma keeps_verify_and_complete:
  assumes j: "Job_wf j" "owns (jb_job_id j)" "stamp now" and ref: "JobResultRef_wf ref"
  shows "keeps P (verify_and_complete w j c q ref now) Job_wf"
proof (cases "cx_verify c")
  case None
  then show ?thesis using assms by (simp add: verify_and_complete_def keeps_verification_block)
next
  case (Some verify)
  have fin: "keeps P (sbind (lift (completed_progress j ref)) (\<lambda>progress.
      sbind (lift (Job_init (j\<lparr>jb_status := st, jb_result := Some ref,
        jb_verification_status := Some v, jb_progress := progress, jb_updated_at := now,
        jb_completed_at := Some now\<rparr>))) (\<lambda>u. sbind (make_event u ''job_completed'' now
          (Some (wk_worker_id w)) (Some RUNNING) (Some st) r [])
        (\<lambda>e. sbind (store_transition u [RUNNING] e (Some ''completed'') None) (\<lambda>_. ret u))))) Job_wf"
    if "st \<in> {COMPLETED, COMPLETED_WITH_WARNINGS}" for st v r
  proof (rule keeps_sbind [where Q = JobProgress_wf])
    show "keeps P (lift (completed_progress j ref)) JobProgress_wf"
      unfolding completed_progress_def by (rule keeps_JobProgress_init)
  qed (intro keeps_finish, use assms that in \<open>auto simp: Job_wf_parts\<close>)
  show ?thesis
    unfolding verify_and_complete_def Some option.case Let_def
    by (rule keeps_sbind [OF keeps_make_event [OF j(3)]], simp,
        rule keeps_sbind [OF append_law], simp, simp add: j,
        rule keeps_sbind [OF keeps_lift_any],
        rule keeps_sbind [OF keeps_make_event [OF j(3)]], simp,
        rule keeps_sbind [OF append_law], simp, simp add: j)
      (auto intro!: fin keeps_verification_block assms)
qed

lemma keeps_execute_job:
  assumes "Job_wf j" "owns (jb_job_id j)" "stamp now" "connector_ok c"
  shows "keeps P (execute_job w j c q cp now) Job_wf"
  unfolding execute_job_def
  by (rule keeps_sbind [OF keeps_lift_any], rule keeps_sbind [OF keeps_perform [OF assms]])
    (auto split: executed.splits intro: keeps_ret keeps_verify_and_complete assms)

lemma keeps_run_claimed:
  assumes "Job_wf j" "owns (jb_job_id j)" "stamp now" "connector_ok c"
  shows "keeps P (run_claimed w j c auth cp now) Job_wf"
  unfolding run_claimed_def
proof (rule keeps_sbind [OF keeps_lift_any], rule keepsI)
  fix q s r s'
  assume P: "P s" and run: "(case execute_job w j c q cp now s of
      (Inl (ConnectorExc ec expl tr cid), s') \<Rightarrow> handle_connector_error w j ec expl tr now s'
    | r \<Rightarrow> r) = (r, s')"
  obtain r1 s1 where ex: "execute_job w j c q cp now s = (r1, s1)" by fastforce
  have s1: "P s1" "\<forall>x. r1 = Inr x \<longrightarrow> Job_wf x"
    using keepsD [OF keeps_execute_job [OF assms] P ex] by blast+
  show "P s' \<and> (\<forall>x. r = Inr x \<longrightarrow> Job_wf x)"
  proof (cases "\<exists>ec expl tr cid. r1 = Inl (ConnectorExc ec expl tr cid)")
    case True
    then obtain ec expl tr where "handle_connector_error w j ec expl tr now s1 = (r, s')"
      using run ex by auto
    then show ?thesis using keepsD [OF keeps_handle_connector_error [OF assms(1-3)] s1(1)] by blast
  next
    case False
    then have "(r, s') = (r1, s1)" using run ex by (auto split: sum.splits py_error.splits)
    with s1 show ?thesis by simp
  qed
qed

lemma keeps_Some: "keeps P m Job_wf \<Longrightarrow> keeps P (sbind m (\<lambda>j. ret (Some j))) (\<lambda>_. True)"
  by (erule keeps_sbind) (rule keeps_ret, simp)

lemma keeps_try_candidate:
  assumes j: "Job_wf j" "owns (jb_job_id j)" and now: "stamp now" and w: "worker_ok w"
  shows "keeps P (try_candidate w now j) (\<lambda>_. True)"
proof (cases "worker_connector w (jb_connector_id j)")
  case None
  then show ?thesis using j now by (simp add: try_candidate_def keeps_Some keeps_block)
next
  case (Some c)
  have c: "connector_ok c" using w Some by (rule worker_connector_ok)
  have claim: "keeps P (sbind (make_event j ''job_claimed'' now (Some (wk_worker_id w))
      (Some (jb_status j)) (Some RUNNING) None []) (\<lambda>e. sbind (store_claim (jb_job_id j) (wk_worker_id w) now e)
        (\<lambda>claimed. case claimed of None \<Rightarrow> ret None
          | Some j \<Rightarrow> sbind (run_claimed w j c auth cp now) (\<lambda>j. ret (Some j))))) (\<lambda>_. True)" for auth cp
    by (rule keeps_sbind [OF keeps_make_event [OF now]], simp, rule keeps_sbind [OF claim_law [OF now j(2)]])
      (use j(2) in \<open>auto split: option.splits intro!: keeps_ret keeps_Some keeps_run_claimed now c\<close>)
  show ?thesis
    unfolding try_candidate_def Some option.case
    by (auto intro!: keeps_Some keeps_block j now keeps_throw claim keeps_sbind [OF checkpoint_law]
        keeps_sbind [OF keeps_lift_any [of "reauthorize_job j r p now" for r p]]
        split: sum.split py_error.split)
qed

lemma keeps_try_candidates:
  assumes "list_all (\<lambda>j. Job_wf j \<and> owns (jb_job_id j)) js" "stamp now" "worker_ok w"
  shows "keeps P (try_candidates w now js) (\<lambda>_. True)"
  using assms(1)
proof (induction js)
  case (Cons j js)
  then show ?case
    using assms by (auto intro!: keeps_sbind [OF keeps_try_candidate] keeps_ret split: option.split)
qed (simp add: keeps_ret)

lemma keeps_run_next:
  assumes "\<forall>i. owns i" "stamp now" "worker_ok w"
  shows "keeps P (run_next w now) (\<lambda>_. True)"
  unfolding run_next_def
  by (rule keeps_sbind [OF claimable_law], rule keeps_try_candidates [OF _ assms(2,3)])
    (use assms(1) in \<open>simp add: list_all_iff\<close>)

end

section \<open>Steps of the system\<close>

text \<open>
  A step is one call of the service or one \<open>run_next\<close> of some worker, with any arguments a
  caller can construct, whether the call returns or raises.
\<close>

inductive job_step :: "store \<Rightarrow> store \<Rightarrow> bool" where
  create: "Job_wf j \<Longrightarrow> service_create j actor s = (r, s') \<Longrightarrow> job_step s s'"
| approve: "ApprovalBinding_wf b \<Longrightarrow> stamp now \<Longrightarrow> bind_approval i b now a s = (r, s') \<Longrightarrow> job_step s s'"
| pause: "stamp now \<Longrightarrow> pause i now a s = (r, s') \<Longrightarrow> job_step s s'"
| cancel: "stamp now \<Longrightarrow> cancel i now a s = (r, s') \<Longrightarrow> job_step s s'"
| resume: "stamp now \<Longrightarrow> resume i now a s = (r, s') \<Longrightarrow> job_step s s'"
| recover: "stamp now \<Longrightarrow> recover_interrupted i now a s = (r, s') \<Longrightarrow> job_step s s'"
| run: "worker_ok w \<Longrightarrow> stamp now \<Longrightarrow> run_next w now s = (r, s') \<Longrightarrow> job_step s s'"

abbreviation job_steps :: "store \<Rightarrow> store \<Rightarrow> bool" where
  "job_steps \<equiv> job_step\<^sup>*\<^sup>*"

locale system_invariant = store_invariant P "\<lambda>_. True" for P :: "store \<Rightarrow> bool"
begin

lemma step_keeps: "job_step s s' \<Longrightarrow> P s \<Longrightarrow> P s'"
proof (induction rule: job_step.induct)
  case (create j actor s r s')
  then show ?case using keepsD [OF keeps_service_create] by blast
next
  case (approve b now i a s r s')
  then show ?case using keepsD [OF keeps_bind_approval] by blast
next
  case (run w now s r s')
  then show ?case using keepsD [OF keeps_run_next] by blast
next
  case (recover now i a s r s')
  then show ?case using keepsD [OF keeps_recover] by blast
qed (use keepsD [OF keeps_service(1)] keepsD [OF keeps_service(2)] keepsD [OF keeps_service(3)] in blast)+

lemma steps_keep: "job_steps s s' \<Longrightarrow> P s \<Longrightarrow> P s'"
  by (induction rule: rtranclp_induct) (auto intro: step_keeps)

end

locale system_history = store_history H "\<lambda>_. True" for H :: "store \<Rightarrow> bool"

sublocale system_history < system_invariant "\<lambda>s. store_ok s \<and> H s"
  by unfold_locales

section \<open>Histories\<close>

definition status_text :: "string \<Rightarrow> store \<Rightarrow> string option" where
  "status_text i s = map_option jo_status (find_job i s)"

inductive status_move :: "string option \<Rightarrow> string option \<Rightarrow> bool" where
  admitted: "initial_status st \<Longrightarrow> status_move None (Some (JobStatus_value st))"
| moved: "lifecycle_edge a b \<Longrightarrow> status_move (Some (JobStatus_value a)) (Some (JobStatus_value b))"

definition terminal_row :: "job_row \<Rightarrow> bool" where
  "terminal_row row = (\<exists>st \<in> set TERMINAL_STATUSES. jo_status row = JobStatus_value st)"

lemma terminal_no_edge: "st \<in> set TERMINAL_STATUSES \<Longrightarrow> \<not> lifecycle_edge st t"
  by (auto simp: TERMINAL_STATUSES_def)

lemma find_job_commit:
  "find_job i (commit j cs as ev s) =
     (if i = jb_job_id j \<and> i \<in> job_ids s then Some (job_row_of j) else find_job i s)"
  by (auto simp: find_job_def commit_def record_event_def find_replace_row job_ids_def)

lemma find_job_admit:
  "jb_job_id j \<notin> job_ids s \<Longrightarrow>
     find_job i (admit j ev s) = (if i = jb_job_id j then Some (job_row_of j) else find_job i s)"
  using find_job_None [of "jb_job_id j" s]
  by (auto simp: find_job_def admit_def record_event_def find_append_row split: option.splits)

lemma find_job_record [simp]:
  "find_job i (record_event ev s) = find_job i s" "find_job i (s\<lparr>st_uuid := u\<rparr>) = find_job i s"
  by (simp_all add: find_job_def record_event_def)

interpretation integrity: system_history "\<lambda>_. True"
  by unfold_locales auto

interpretation audit: system_history "\<lambda>s. prefix log (st_events s)" for log
  by unfold_locales (auto simp: admit_def commit_def record_event_def)

interpretation frozen: system_history "\<lambda>s. terminal_row row \<longrightarrow> find_job i s = Some row" for row i
proof unfold_locales
  fix s :: store and j :: Job and ev assume "terminal_row row \<longrightarrow> find_job i s = Some row" "jb_job_id j \<notin> job_ids s"
  then show "terminal_row row \<longrightarrow> find_job i (admit j ev s) = Some row"
    using find_job_None [of i s] by (auto simp: find_job_admit)
next
  fix s :: store and j :: Job and r st cs as ev
  assume "terminal_row row \<longrightarrow> find_job i s = Some row" "find_job (jb_job_id j) s = Some r"
    "jo_status r = JobStatus_value st" "lifecycle_edge st (jb_status j)"
  then show "terminal_row row \<longrightarrow> find_job i (commit j cs as ev s) = Some row"
    using terminal_no_edge [of st "jb_status j"] js.val_inj [of st]
    by (auto simp: find_job_commit terminal_row_def)
qed auto

interpretation lifecycle: system_history "\<lambda>s. status_move\<^sup>*\<^sup>* before (status_text i s)" for before i
proof unfold_locales
  fix s u assume "status_move\<^sup>*\<^sup>* before (status_text i s)"
  then show "status_move\<^sup>*\<^sup>* before (status_text i (s\<lparr>st_uuid := u\<rparr>))" by (simp add: status_text_def)
next
  fix s :: store and j :: Job and ev assume h: "status_move\<^sup>*\<^sup>* before (status_text i s)" and "initial_status (jb_status j)"
    "jb_job_id j \<notin> job_ids s"
  then show "status_move\<^sup>*\<^sup>* before (status_text i (admit j ev s))"
    using find_job_None [of i s]
    by (auto simp: status_text_def find_job_admit intro: rtranclp.rtrancl_into_rtrancl status_move.admitted)
next
  fix s ev assume "status_move\<^sup>*\<^sup>* before (status_text i s)"
  then show "status_move\<^sup>*\<^sup>* before (status_text i (record_event ev s))" by (simp add: status_text_def)
next
  fix s :: store and j :: Job and row st cs as ev
  assume "status_move\<^sup>*\<^sup>* before (status_text i s)" "find_job (jb_job_id j) s = Some row"
    "jo_status row = JobStatus_value st" "lifecycle_edge st (jb_status j)"
  then show "status_move\<^sup>*\<^sup>* before (status_text i (commit j cs as ev s))"
    by (auto simp: status_text_def find_job_commit intro: rtranclp.rtrancl_into_rtrancl status_move.moved)
qed

section \<open>Isolation\<close>

text \<open>
  Everything the store holds of one job. A call that writes only other jobs keeps it.
\<close>

definition job_view :: "string \<Rightarrow> store \<Rightarrow>
    job_row option \<times> checkpoint_row option \<times> attempt_row list \<times> event_row list" where
  "job_view i s = (find_job i s, find (\<lambda>r. ck_job_id r = i) (st_checkpoints s),
     filter (\<lambda>r. at_job_id r = i) (st_attempts s), filter (\<lambda>r. er_job_id r = i) (st_events s))"

lemma local_change_attempts:
  assumes "local_change k s cs as" "k \<noteq> i"
  shows "filter (\<lambda>r. at_job_id r = i) as = filter (\<lambda>r. at_job_id r = i) (st_attempts s)"
proof -
  have "filter (\<lambda>r. at_job_id r = i) (filter (\<lambda>r. at_job_id r \<noteq> k) xs) = filter (\<lambda>r. at_job_id r = i) xs" for xs
    using assms(2) by (auto intro: filter_cong)
  with assms(1) show ?thesis unfolding local_change_def by metis
qed

interpretation isolation: store_history "\<lambda>s. job_view i s = v" "\<lambda>k. k \<noteq> i" for i v
proof unfold_locales
  fix s :: store and j :: Job and ev :: event_row
  assume "job_view i s = v" "jb_job_id j \<noteq> i" "jb_job_id j \<notin> job_ids s" "er_job_id ev = jb_job_id j"
  then show "job_view i (admit j ev s) = v"
    by (simp add: job_view_def find_job_admit) (simp add: admit_def record_event_def)
next
  fix s :: store and j :: Job and row st cs as and ev :: event_row
  assume "job_view i s = v" "jb_job_id j \<noteq> i" "local_change (jb_job_id j) s cs as" "er_job_id ev = jb_job_id j"
  then show "job_view i (commit j cs as ev s) = v"
    using local_change_attempts [of "jb_job_id j" s cs as i]
    by (auto simp: job_view_def find_job_commit) (auto simp: commit_def record_event_def local_change_def)
qed (simp_all add: job_view_def record_event_def find_job_def)

end
