(* ===== verification/JobRuns.thy ===== *)
theory JobRuns
  imports JobLifecycle
begin

text \<open>
  What the calls of the service do on a live store: one that is writable, satisfies the integrity
  invariant and whose next \<open>k\<close> event identifiers are as \<open>uuid4\<close> promises, valid and never drawn
  before (a call draws one or two). On such a store the calls return exactly when their guards
  hold, and their effect is stated in full.
\<close>

definition live :: "nat \<Rightarrow> store \<Rightarrow> bool" where
  "live k s = (store_ok s \<and> \<not> st_read_only s \<and> inj_on (st_uuid s) {..<k} \<and>
     (\<forall>n < k. valid_identifier (''event:'' @ st_uuid s n) \<and>
        ''event:'' @ st_uuid s n \<notin> er_event_id ` set (st_events s)))"

definition drawn :: "store \<Rightarrow> store" where
  "drawn s = s\<lparr>st_uuid := \<lambda>n. st_uuid s (Suc n)\<rparr>"

lemma drawn_sel [simp]:
  "st_read_only (drawn s) = st_read_only s" "st_tables (drawn s) = st_tables s"
  "st_jobs (drawn s) = st_jobs s" "st_checkpoints (drawn s) = st_checkpoints s"
  "st_attempts (drawn s) = st_attempts s" "st_events (drawn s) = st_events s"
  "st_next_sequence (drawn s) = st_next_sequence s" "st_uuid (drawn s) = (\<lambda>n. st_uuid s (Suc n))"
  "find_job i (drawn s) = find_job i s" "job_ids (drawn s) = job_ids s"
  by (simp_all add: drawn_def)

lemma live_drawn: "live (Suc k) s \<Longrightarrow> live k (drawn s)"
  by (auto simp: live_def store_ok_def inj_on_def)

definition event_of ::
  "store \<Rightarrow> Job \<Rightarrow> string \<Rightarrow> datetime \<Rightarrow> string option \<Rightarrow> JobStatus option \<Rightarrow> JobStatus option \<Rightarrow>
     string option \<Rightarrow> jobj \<Rightarrow> AuditEvent" where
  "event_of s j t now a p n r md =
     \<lparr>ae_event_id = ''event:'' @ st_uuid s 0, ae_job_id = jb_job_id j, ae_event_type = t,
      ae_timestamp = now, ae_correlation_id = jb_correlation_id j, ae_actor_id = a,
      ae_previous_status = p, ae_new_status = n, ae_reason_code = r, ae_metadata = md\<rparr>"

lemma event_of_sel [simp]:
  "ae_event_id (event_of s j t now a p n r md) = ''event:'' @ st_uuid s 0"
  "ae_job_id (event_of s j t now a p n r md) = jb_job_id j"
  "ae_event_type (event_of s j t now a p n r md) = t"
  "ae_timestamp (event_of s j t now a p n r md) = now"
  by (simp_all add: event_of_def)

lemma make_event_run:
  assumes "live (Suc k) s" "valid_identifier (jb_job_id j)" "valid_identifier t"
    "valid_identifier (jb_correlation_id j)" "stamp now" "pred_option valid_identifier a"
    "pred_option valid_identifier r" "\<forall>kv \<in> set md. metadata_check kv = None" "distinct (map fst md)"
  shows "make_event j t now a p n r md s = (Inr (event_of s j t now a p n r md), drawn s)"
    and "AuditEvent_wf (event_of s j t now a p n r md)"
proof -
  have "returns (AuditEvent_init (event_of s j t now a p n r md))"
    using assms by (auto simp: AuditEvent_init_iff event_of_def live_def stamp_def option.pred_set)
  then show "AuditEvent_wf (event_of s j t now a p n r md)"
    using assms by (simp add: AuditEvent_wf_def) (simp add: event_of_def)
  show "make_event j t now a p n r md s = (Inr (event_of s j t now a p n r md), drawn s)"
    using \<open>returns _\<close> AuditEvent_init_Inr [of "event_of s j t now a p n r md" "event_of s j t now a p n r md"]
    by (simp add: make_event_def sbind_def uuid4_hex_def lift_def drawn_def event_of_def)
qed

lemma live_record:
  assumes "live (Suc k) s" "AuditEvent_wf (event_of s j t now a p n r md)" "jb_job_id j \<in> job_ids s'"
    and "store_ok s'" "st_events s' = st_events s" "st_uuid s' = (\<lambda>n. st_uuid s (Suc n))"
    and "\<not> st_read_only s'"
  shows "live k (record_event (new_event (event_of s j t now a p n r md) s') s')"
proof -
  have "store_ok (record_event (new_event (event_of s j t now a p n r md) s') s')"
    using assms(1) by (intro store_ok_append assms) (simp_all add: assms(3,5) live_def)
  then show ?thesis
    using assms(1,5,6,7) by (auto simp: live_def record_event_def new_event_def inj_on_def)
qed

lemma has_event_iff: "list_ex (\<lambda>r. er_event_id r = x) rows \<longleftrightarrow> x \<in> er_event_id ` set rows"
  by (auto simp: list_ex_iff image_iff)

lemma insert_event_run:
  assumes "st_tables s" "\<not> st_read_only s" "AuditEvent_wf e" "ae_job_id e \<in> job_ids s"
    and "ae_event_id e \<notin> er_event_id ` set (st_events s)"
  shows "insert_event e s = (Inr (), record_event (new_event e s) s)"
  using assms by (simp add: insert_event_def time_text_def AuditEvent_wf_def stamp_def execute_def
      has_job_iff has_event_iff record_event_def new_event_def)

lemma append_event_run:
  assumes "store_ok s" "\<not> st_read_only s" "AuditEvent_wf e" "ae_job_id e \<in> job_ids s"
    and "ae_event_id e \<notin> er_event_id ` set (st_events s)"
  shows "append_event e s = (Inr (), record_event (new_event e s) s)"
  using insert_event_run [OF _ assms(2-)] assms(1)
  by (simp add: append_event_def transaction_Inr_iff store_ok_def)

lemma store_create_run:
  assumes "store_ok s" "\<not> st_read_only s" "Job_wf j" "AuditEvent_wf e" "jb_job_id j \<notin> job_ids s"
    and "ae_event_id e \<notin> er_event_id ` set (st_events s)" "ae_job_id e = jb_job_id j"
    and "ae_event_type e = ''job_created''"
  shows "store_create j e s = (Inr (), admit j (new_event e s) s)"
proof -
  let ?s = "s\<lparr>st_jobs := st_jobs s @ [job_row_of j]\<rparr>"
  have "insert_job j s = (Inr (), ?s)"
    using assms by (simp add: insert_job_def job_values_wf execute_def store_ok_def has_job_iff)
  moreover have "insert_event e ?s = (Inr (), record_event (new_event e s) ?s)"
    using assms insert_event_run [of ?s e] by (simp add: store_ok_def job_ids_def new_event_def)
  ultimately show ?thesis
    using assms(7,8) by (simp add: store_create_def transaction_Inr_iff sbind_def admit_def)
qed

lemma update_attempt_run:
  "st_tables s \<Longrightarrow> \<not> st_read_only s \<Longrightarrow> stamp now \<Longrightarrow> update_attempt i n now out err s =
     (Inr (), s\<lparr>st_attempts := map (\<lambda>r. if at_job_id r = i \<and> at_attempt_number r = n
       then close_attempt (isoformat now) out err r else r) (st_attempts s)\<rparr>)"
  by (simp add: update_attempt_def time_text_def stamp_def execute_def)

lemma update_job_run:
  "st_tables s \<Longrightarrow> \<not> st_read_only s \<Longrightarrow> Job_wf j \<Longrightarrow>
     update_job j s = (Inr (), s\<lparr>st_jobs := replace_row (job_row_of j) (st_jobs s)\<rparr>)"
  by (simp add: update_job_def job_values_wf execute_def)

lemma store_transition_run:
  assumes "store_ok s" "\<not> st_read_only s" "Job_wf j" "AuditEvent_wf e" "ae_job_id e = jb_job_id j"
    and "ae_event_id e \<notin> er_event_id ` set (st_events s)"
    and "find_job (jb_job_id j) s = Some row" "jo_status row = JobStatus_value st" "st \<in> set expected"
  shows "\<exists>as. store_transition j expected e out err s =
      (Inr (), commit j (st_checkpoints s) as (new_event e s) s) \<and>
    (\<forall>ids. attempts_ok ids (st_attempts s) \<longrightarrow> attempts_ok ids as)"
proof -
  let ?s = "s\<lparr>st_jobs := replace_row (job_row_of j) (st_jobs s)\<rparr>"
  have t: "st_tables s" "stamp (jb_updated_at j)" using assms by (simp_all add: store_ok_def Job_wf_parts)
  have id: "ae_job_id e \<in> job_ids s" using assms(5,7) find_job_None [of "jb_job_id j" s] by auto
  have ev: "insert_event e (?s\<lparr>st_attempts := as\<rparr>) =
      (Inr (), record_event (new_event e s) (?s\<lparr>st_attempts := as\<rparr>))" for as
    using assms(2,4,6) t id insert_event_run [of "?s\<lparr>st_attempts := as\<rparr>" e]
    by (simp add: new_event_def)
  obtain as where "(case out of None \<Rightarrow> ret () | Some outcome \<Rightarrow> update_attempt (jb_job_id j)
      (jb_attempt_count j) (jb_updated_at j) outcome (Some err)) ?s = (Inr (), ?s\<lparr>st_attempts := as\<rparr>)"
  proof (cases out)
    case None
    then show ?thesis using that [of "st_attempts s"] by (simp add: ret_def)
  next
    case (Some o')
    then show ?thesis using assms(2) t that by (simp add: update_attempt_run)
  qed
  then have "fst (store_transition j expected e out err s) = Inr ()"
    using assms(2,3,7-9) t ev
    by (simp add: store_transition_def transaction_def sbind_def select_def lift_def js.of_val update_job_run)
  then obtain s' where "store_transition j expected e out err s = (Inr (), s')"
    by (metis prod.collapse)
  from store_transition_effect [OF this] this show ?thesis by auto
qed

lemma new_event_drawn [simp]: "new_event e (drawn s) = new_event e s"
  by (simp add: new_event_def)

lemma live_ok: "live k s \<Longrightarrow> store_ok s" "live k s \<Longrightarrow> \<not> st_read_only s" "live k s \<Longrightarrow> store_ok (drawn s)"
  by (simp_all add: live_def store_ok_def)

lemma live_fresh: "live (Suc k) s \<Longrightarrow> ''event:'' @ st_uuid s 0 \<notin> er_event_id ` set (st_events s)"
  by (simp add: live_def)

lemma live_mono: "live (Suc k) s \<Longrightarrow> live k s"
  by (auto simp: live_def intro: inj_on_subset)

section \<open>An update of one job\<close>

text \<open>
  The tail of every service call and of most worker outcomes: construct the updated job, make the
  event, run the transition. \<open>updated k s s' u t\<close> is its whole effect.
\<close>

definition updated :: "nat \<Rightarrow> store \<Rightarrow> store \<Rightarrow> Job \<Rightarrow> string \<Rightarrow> bool" where
  "updated k s s' u t = (live k s' \<and> find_job (jb_job_id u) s' = Some (job_row_of u) \<and>
     (\<forall>i. i \<noteq> jb_job_id u \<longrightarrow> find_job i s' = find_job i s) \<and>
     st_checkpoints s' = st_checkpoints s \<and>
     (\<exists>ev. st_events s' = st_events s @ [ev] \<and> er_job_id ev = jb_job_id u \<and> er_event_type ev = t))"

lemma live_commit:
  assumes "live (Suc k) s" "AuditEvent_wf (event_of s u t now a p n r md)" "Job_wf u"
    and "find_job (jb_job_id u) s = Some row" "attempts_ok (job_ids s) as"
  shows "updated k s (commit u (st_checkpoints s) as (new_event (event_of s u t now a p n r md) s) (drawn s)) u t"
proof -
  let ?e = "event_of s u t now a p n r md"
  let ?s = "drawn s\<lparr>st_jobs := replace_row (job_row_of u) (st_jobs s), st_attempts := as\<rparr>"
  have id: "jb_job_id u \<in> job_ids s" using assms(4) find_job_None [of "jb_job_id u" s] by auto
  have eq: "commit u (st_checkpoints s) as (new_event ?e s) (drawn s) = record_event (new_event ?e ?s) ?s"
    by (simp add: commit_def record_event_def new_event_def drawn_def)
  have ids: "job_ids (drawn s\<lparr>st_jobs := replace_row (job_row_of u) (st_jobs s)\<rparr>) = job_ids s"
    by (simp add: job_ids_def)
  have "store_ok ?s"
    using live_ok(1) [OF assms(1)] assms(3,5) jobs_ok_replace [of "st_jobs s" u]
    by (simp add: store_ok_def ids)
  then have "live k (record_event (new_event ?e ?s) ?s)"
    using assms(1) id by (intro live_record [OF assms(1,2)]) (simp_all add: ids live_def)
  then have "live k (commit u (st_checkpoints s) as (new_event ?e s) (drawn s))" by (simp only: eq)
  moreover have "find_job i (commit u (st_checkpoints s) as (new_event ?e s) (drawn s)) =
      (if i = jb_job_id u then Some (job_row_of u) else find_job i s)" for i
    using id by (simp add: find_job_commit)
  ultimately show ?thesis
    by (simp add: updated_def) (simp add: commit_def record_event_def new_event_def)
qed

lemma finish_run:
  assumes "live (Suc k) s" "Job_wf u" "valid_identifier t" "stamp now" "pred_option valid_identifier a"
    and "pred_option valid_identifier r" "\<forall>kv \<in> set md. metadata_check kv = None" "distinct (map fst md)"
    and "find_job (jb_job_id u) s = Some row" "jo_status row = JobStatus_value st" "st \<in> set expected"
  shows "\<exists>s'. sbind (lift (Job_init u)) (\<lambda>u. sbind (make_event u t now a p n r md) (\<lambda>e.
      sbind (store_transition u expected e out err) (\<lambda>_. ret u))) s = (Inr u, s') \<and> updated k s s' u t"
proof -
  have ids: "valid_identifier (jb_job_id u)" "valid_identifier (jb_correlation_id u)"
    using assms(2) by (simp_all add: Job_wf_def Job_init_iff)
  have init: "Job_init u = Inr u" using assms(2) by (simp add: Job_init_Inr Job_wf_def)
  note ev = make_event_run [OF assms(1) ids(1) assms(3) ids(2) assms(4-8), of p n]
  obtain as where as: "store_transition u expected (event_of s u t now a p n r md) out err (drawn s) =
      (Inr (), commit u (st_checkpoints s) as (new_event (event_of s u t now a p n r md) s) (drawn s))"
      "\<forall>ids. attempts_ok ids (st_attempts s) \<longrightarrow> attempts_ok ids as"
    using store_transition_run [OF live_ok(3) [OF assms(1)] _ assms(2) ev(2), of row st expected out err]
      assms(9-11) live_ok(2) [OF assms(1)] live_fresh [OF assms(1)] by auto
  moreover have "attempts_ok (job_ids s) as"
    using as(2) live_ok(1) [OF assms(1)] by (simp add: store_ok_def)
  ultimately show ?thesis
    using live_commit [OF assms(1) ev(2) assms(2,9)] ev(1) init
    by (simp add: sbind_def lift_def ret_def)
qed

section \<open>The service\<close>

lemma required_run:
  assumes "store_ok s"
  obtains (missing) "find_job i s = None" "required i s = (Inl (KeyError i), s)"
  | (found) k where "find_job i s = Some (job_row_of k)" "Job_wf k" "jb_job_id k = i"
      "required i s = (Inr (Job_norm k), s)"
  using store_get_ok [OF assms, of i] that
  by (auto simp: required_def sbind_def throw_def ret_def)

lemma JobStatus_value_inj [simp]: "JobStatus_value a = JobStatus_value b \<longleftrightarrow> a = b"
  using js.val_inj by blast

lemma status_text_row: "find_job i s = Some (job_row_of k) \<Longrightarrow> status_text i s = Some (JobStatus_value (jb_status k))"
  by (simp add: status_text_def)

lemma simple_transition_run:
  assumes "live (Suc n) s" "stamp now" "valid_identifier a" "valid_identifier t"
    and "target \<in> {PAUSED, CANCELLED, READY}"
  shows "if status_text i s \<in> (\<lambda>st. Some (JobStatus_value st)) ` set allowed
    then \<exists>k s'. find_job i s = Some (job_row_of k) \<and>
      simple_transition i allowed target t now a s =
        (Inr (Job_norm k\<lparr>jb_status := target, jb_updated_at := now\<rparr>), s') \<and>
      updated n s s' (Job_norm k\<lparr>jb_status := target, jb_updated_at := now\<rparr>) t
    else \<exists>e. simple_transition i allowed target t now a s = (Inl e, s)"
  using live_ok(1) [OF assms(1)]
proof (cases rule: required_run [of s i])
  case missing
  then show ?thesis by (auto simp: simple_transition_def sbind_def status_text_def)
next
  case (found k)
  let ?u = "Job_norm k\<lparr>jb_status := target, jb_updated_at := now\<rparr>"
  show ?thesis
  proof (cases "jb_status k \<in> set allowed")
    case True
    have "Job_wf ?u"
      using Job_wf_norm [OF found(2)] assms(2,5) by (auto simp: Job_wf_parts Job_init_iff stamp_def)
    from finish_run [OF assms(1) this assms(4,2), of "Some a" None "[]" "job_row_of k" "jb_status k"
        allowed "Some (jb_status k)" "Some target"] True assms(3) found
    show ?thesis by (auto simp: simple_transition_def sbind_def status_text_row)
  next
    case False
    with found show ?thesis
      by (auto simp: simple_transition_def sbind_def status_text_row throw_def)
  qed
qed

lemma event_type_ids:
  "valid_identifier ''job_created''" "valid_identifier ''plan_bound''" "valid_identifier ''approval_bound''"
  "valid_identifier ''job_paused''" "valid_identifier ''job_cancelled''" "valid_identifier ''job_resumed''"
  "valid_identifier ''worker_interrupted''" "valid_identifier ''job_blocked''"
  "valid_identifier ''retry_scheduled''" "valid_identifier ''job_failed''" "valid_identifier ''job_claimed''"
  "valid_identifier ''verification_started''" "valid_identifier ''verification_completed''"
  "valid_identifier ''job_completed''"
  by code_simp+

lemma plan_hash_metadata:
  assumes "is_sha256 h"
  shows "metadata_check (''plan_hash'', JStr h) = None"
proof -
  have h: "length h = 64" "\<forall>c \<in> set h. c \<in> set ''0123456789abcdef''"
    using assms by (simp_all add: is_sha256_def list_all_iff)
  have hex: "list_all (\<lambda>c. \<not> py_space c \<and> c \<noteq> CHR 0x0A \<and> c \<noteq> CHR 0x0D) ''0123456789abcdef''"
    by code_simp
  have "\<not> multiline h" using h(2) hex unfolding multiline_def list_all_iff by blast
  moreover have "\<not> blank h"
    using h hex unfolding blank_def list_all_iff by (cases h) auto
  moreover have "valid_identifier ''plan_hash''" by code_simp
  moreover have "\<not> list_ex (\<lambda>fragment. py_in fragment (casefold ''plan_hash'')) PROHIBITED_METADATA_KEYS"
    by code_simp
  ultimately show ?thesis using h(1) by (simp add: metadata_check_def check_simps)
qed

lemma live_admit:
  assumes "live (Suc k) s" "AuditEvent_wf (event_of s j t now a p n r md)" "Job_wf j" "jb_job_id j \<notin> job_ids s"
  shows "live k (admit j (new_event (event_of s j t now a p n r md) s) (drawn s))"
proof -
  let ?e = "event_of s j t now a p n r md"
  have "store_ok (admit j (new_event ?e (drawn s)) (drawn s))"
    using store_ok_create [OF live_ok(3) [OF assms(1)] assms(3) _ assms(2)] assms(4) live_fresh [OF assms(1)]
    by simp
  then show ?thesis
    using assms(1) by (auto simp: live_def admit_def record_event_def new_event_def inj_on_def)
qed

lemma log_run:
  assumes "live (Suc k) s" "Job_wf j" "jb_job_id j \<in> job_ids s" "valid_identifier t" "stamp now"
    and "pred_option valid_identifier a" "pred_option valid_identifier r"
    and "\<forall>kv \<in> set md. metadata_check kv = None" "distinct (map fst md)"
  shows "\<exists>s' ev. sbind (make_event j t now a p n r md) append_event s = (Inr (), s') \<and>
    (\<forall>f. sbind (make_event j t now a p n r md) (\<lambda>e. sbind (append_event e) f) s = f () s') \<and> live k s' \<and>
    st_jobs s' = st_jobs s \<and> st_checkpoints s' = st_checkpoints s \<and> st_attempts s' = st_attempts s \<and>
    st_events s' = st_events s @ [ev] \<and> er_event_type ev = t \<and> er_job_id ev = jb_job_id j"
proof -
  have ids: "valid_identifier (jb_job_id j)" "valid_identifier (jb_correlation_id j)"
    using assms(2) by (simp_all add: Job_wf_parts Job_init_iff)
  let ?b = "event_of s j t now a p n r md"
  let ?s = "record_event (new_event ?b (drawn s)) (drawn s)"
  note b = make_event_run [OF assms(1) ids(1) assms(4) ids(2) assms(5-9), of p n]
  have "append_event ?b (drawn s) = (Inr (), ?s)"
    using append_event_run [OF live_ok(3) [OF assms(1)] _ b(2)] live_ok(2) [OF assms(1)]
      live_fresh [OF assms(1)] assms(3) by simp
  moreover have "live k ?s"
    using live_ok(2,3) [OF assms(1)] assms(3) by (intro live_record [OF assms(1) b(2)]) simp_all
  ultimately show ?thesis using b(1)
    by (intro exI [of _ ?s] exI [of _ "new_event ?b (drawn s)"]) (simp add: sbind_def, simp add: record_event_def new_event_def)
qed

lemma plan_bound_run:
  assumes "live (Suc k) s" "Job_wf j" "pred_option valid_identifier actor" "jb_plan j = Some plan" "jb_job_id j \<in> job_ids s"
  shows "\<exists>s' ev. sbind (make_event j ''plan_bound'' (jb_created_at j) actor None None None
      [(''plan_hash'', JStr (pl_plan_hash plan))]) append_event s = (Inr (), s') \<and> live k s' \<and>
    st_jobs s' = st_jobs s \<and> st_checkpoints s' = st_checkpoints s \<and> st_attempts s' = st_attempts s \<and>
    st_events s' = st_events s @ [ev] \<and> er_event_type ev = ''plan_bound'' \<and> er_job_id ev = jb_job_id j"
proof -
  have "stamp (jb_created_at j)" "is_sha256 (pl_plan_hash plan)"
    using assms(2,4) by (simp_all add: Job_wf_parts ConnectorPlan_wf_def ConnectorPlan_hash)
  with log_run [OF assms(1,2,5) event_type_ids(2) _ assms(3), of "jb_created_at j" None
      "[(''plan_hash'', JStr (pl_plan_hash plan))]" None None] show ?thesis
    by (simp add: plan_hash_metadata) blast
qed

lemma service_create_run:
  assumes "live (Suc (Suc k)) s" "Job_wf j" "pred_option valid_identifier actor"
  shows "if initial_status (jb_status j) \<and> jb_job_id j \<notin> job_ids s
    then \<exists>s'. service_create j actor s = (Inr (), s') \<and> live k s' \<and>
      st_jobs s' = st_jobs s @ [job_row_of j] \<and> st_checkpoints s' = st_checkpoints s \<and>
      st_attempts s' = st_attempts s \<and> (\<exists>evs. st_events s' = st_events s @ evs \<and>
        map er_event_type evs = ''job_created'' # (if jb_plan j = None then [] else [''plan_bound'']) \<and>
        (\<forall>ev \<in> set evs. er_job_id ev = jb_job_id j))
    else \<exists>e s'. service_create j actor s = (Inl e, s') \<and> s' \<in> {s, drawn s}"
proof -
  have ids: "valid_identifier (jb_job_id j)" "valid_identifier (jb_correlation_id j)" "stamp (jb_created_at j)"
    using assms(2) by (simp_all add: Job_wf_parts Job_init_iff)
  let ?e = "event_of s j ''job_created'' (jb_created_at j) actor None (Some (jb_status j)) None []"
  have e: "make_event j ''job_created'' (jb_created_at j) actor None (Some (jb_status j)) None [] s = (Inr ?e, drawn s)"
    "AuditEvent_wf ?e"
    using make_event_run [OF assms(1) ids(1) event_type_ids(1) ids(2,3) assms(3), of None "[]"] by simp_all
  consider (bad) "\<not> initial_status (jb_status j)"
    | (taken) "initial_status (jb_status j)" "jb_job_id j \<in> job_ids s"
    | (new) "initial_status (jb_status j)" "jb_job_id j \<notin> job_ids s" by blast
  then show ?thesis
  proof cases
    case bad
    then show ?thesis by (auto simp: service_create_def initial_status_def throw_def)
  next
    case taken
    obtain r s' where r: "store_create j ?e (drawn s) = (r, s')" by fastforce
    from store_create_effect [OF this] taken(2) have "\<exists>x. r = Inl x" "s' = drawn s" by auto
    with taken e(1) r show ?thesis
      by (auto simp: service_create_def initial_status_def sbind_def)
  next
    case new
    let ?s = "admit j (new_event ?e s) (drawn s)"
    have c: "store_create j ?e (drawn s) = (Inr (), ?s)"
      using store_create_run [OF live_ok(3) [OF assms(1)] _ assms(2) e(2)] new(2)
        live_ok(2) [OF assms(1)] live_fresh [OF assms(1)] by simp
    have l: "live (Suc k) ?s" using live_admit [OF assms(1) e(2) assms(2) new(2)] .
    have sel: "st_jobs ?s = st_jobs s @ [job_row_of j]" "st_checkpoints ?s = st_checkpoints s"
      "st_attempts ?s = st_attempts s" "st_events ?s = st_events s @ [new_event ?e s]"
      by (simp_all add: admit_def record_event_def)
    show ?thesis
    proof (cases "jb_plan j")
      case None
      with new e(1) c live_mono [OF l] sel show ?thesis
        by (auto simp: service_create_def initial_status_def sbind_def ret_def new_event_def)
    next
      case (Some plan)
      from plan_bound_run [OF l assms(2,3) this] obtain s' ev where
        "sbind (make_event j ''plan_bound'' (jb_created_at j) actor None None None
          [(''plan_hash'', JStr (pl_plan_hash plan))]) append_event ?s = (Inr (), s')" "live k s'"
        "st_jobs s' = st_jobs ?s" "st_checkpoints s' = st_checkpoints ?s" "st_attempts s' = st_attempts ?s"
        "st_events s' = st_events ?s @ [ev]" "er_event_type ev = ''plan_bound''" "er_job_id ev = jb_job_id j"
        by auto
      with new e(1) c Some sel show ?thesis
        by (auto simp: service_create_def initial_status_def sbind_def new_event_def)
    qed
  qed
qed

lemma store_checkpoint_run:
  assumes "store_ok s"
  obtains (none) "find (\<lambda>r. ck_job_id r = i) (st_checkpoints s) = None" "store_checkpoint i s = (Inr None, s)"
  | (some) c where "find (\<lambda>r. ck_job_id r = i) (st_checkpoints s) = Some (checkpoint_row_of i c)"
      "Checkpoint_wf c" "store_checkpoint i s = (Inr (Some (Checkpoint_norm c)), s)"
proof (cases "find (\<lambda>r. ck_job_id r = i) (st_checkpoints s)")
  case None
  with assms that(1) show ?thesis
    by (simp add: store_checkpoint_def sbind_def select_def store_ok_def lift_def)
next
  case (Some row)
  then have "row \<in> set (st_checkpoints s)" "ck_job_id row = i" by (auto simp: find_Some_iff)
  with assms obtain c where c: "Checkpoint_wf c" "row = checkpoint_row_of i c"
    unfolding store_ok_def checkpoints_ok_def by blast
  with Some assms have "store_checkpoint i s = (Inr (Some (Checkpoint_norm c)), s)"
    by (simp add: store_checkpoint_def sbind_def select_def store_ok_def lift_def cp.dec_enc)
  with Some c that(2) show ?thesis by simp
qed

definition recoverable :: "string \<Rightarrow> store \<Rightarrow> bool" where
  \<comment> \<open>the job runs and its row names the checkpoint that is stored for it\<close>
  "recoverable i s = (\<exists>k row. find_job i s = Some (job_row_of k) \<and> Job_wf k \<and> jb_status k = RUNNING \<and>
     find (\<lambda>r. ck_job_id r = i) (st_checkpoints s) = Some row \<and>
     jb_checkpoint_id k = Some (ck_checkpoint_id row))"

lemma job_row_of_norm:
  assumes "job_row_of a = job_row_of b" "Job_wf a" "Job_wf b"
  shows "Job_norm a = Job_norm b"
proof -
  have "Job_to_dict a = Job_to_dict b" using assms(1) by (metis job_row_of_sel(3))
  with jb.dec_enc [OF assms(2)] jb.dec_enc [OF assms(3)] show ?thesis by simp
qed

lemma recoverable_iff:
  assumes "find_job i s = Some (job_row_of k)" "Job_wf k"
  shows "recoverable i s \<longleftrightarrow> jb_status k = RUNNING \<and>
    (\<exists>row. find (\<lambda>r. ck_job_id r = i) (st_checkpoints s) = Some row \<and>
       jb_checkpoint_id k = Some (ck_checkpoint_id row))" (is "_ \<longleftrightarrow> ?R")
proof
  assume "recoverable i s"
  then obtain x where x: "job_row_of x = job_row_of k" "Job_wf x" "jb_status x = RUNNING"
      "\<exists>row. find (\<lambda>r. ck_job_id r = i) (st_checkpoints s) = Some row \<and>
         jb_checkpoint_id x = Some (ck_checkpoint_id row)"
    using assms(1) by (auto simp: recoverable_def)
  from job_row_of_norm [OF x(1,2) assms(2)] have "jb_status x = jb_status k" "jb_checkpoint_id x = jb_checkpoint_id k"
    by (metis Job_norm_sel(2), metis Job_norm_sel(4))
  with x show ?R by simp
next
  assume ?R
  with assms show "recoverable i s" unfolding recoverable_def by blast
qed

lemma recover_run:
  assumes "live (Suc n) s" "stamp now" "valid_identifier a"
  shows "if recoverable i s
    then \<exists>u s'. recover_interrupted i now a s = (Inr u, s') \<and> jb_status u = READY \<and> jb_job_id u = i \<and>
      updated n s s' u ''job_resumed''
    else \<exists>e. recover_interrupted i now a s = (Inl e, s)"
  using live_ok(1) [OF assms(1)]
proof (cases rule: required_run [of s i])
  case missing
  then show ?thesis by (auto simp: recover_interrupted_def sbind_def recoverable_def)
next
  case (found k)
  let ?u = "Job_norm k\<lparr>jb_status := READY, jb_updated_at := now\<rparr>"
  note rec = recoverable_iff [OF found(1,2)]
  have u: "Job_wf ?u"
    using Job_wf_norm [OF found(2)] assms(2) by (auto simp: Job_wf_parts Job_init_iff stamp_def)
  note fin = finish_run [OF assms(1) u event_type_ids(6) assms(2), of "Some a" "Some ''worker_interrupted''"
      "[]" "job_row_of k" RUNNING "[RUNNING]" "Some RUNNING" "Some READY" "Some ''interrupted''"
      "Some ''worker_interrupted''"]
  show ?thesis
  proof (cases "jb_status k = RUNNING")
    case False
    with found rec show ?thesis by (auto simp: recover_interrupted_def sbind_def throw_def)
  next
    case True
    from live_ok(1) [OF assms(1)] show ?thesis
    proof (cases rule: store_checkpoint_run [of s i])
      case none
      with found True rec show ?thesis by (auto simp: recover_interrupted_def sbind_def throw_def)
    next
      case (some c)
      show ?thesis
      proof (cases "jb_checkpoint_id k = Some (cp_checkpoint_id c)")
        case True
        with rec found some \<open>jb_status k = RUNNING\<close> fin assms(3) event_type_ids show ?thesis
          by (auto simp: recover_interrupted_def sbind_def Checkpoint_norm_def)
      next
        case False
        with rec found some \<open>jb_status k = RUNNING\<close> show ?thesis
          by (auto simp: recover_interrupted_def sbind_def Checkpoint_norm_def throw_def)
      qed
    qed
  qed
qed

lemma bind_approval_run:
  assumes "live (Suc n) s" "stamp now" "valid_identifier a" "ApprovalBinding_wf b"
  obtains (missing) e where "find_job i s = None" "bind_approval i b now a s = (Inl e, s)"
  | (refused) k e where "find_job i s = Some (job_row_of k)" "Job_wf k" "bind_approval i b now a s = (Inl e, s)"
      "jb_status k = AWAITING_APPROVAL \<Longrightarrow> jb_plan k = Some plan \<Longrightarrow>
         ApprovalBinding_matches b plan now \<noteq> Inr True"
  | (bound) k plan u s' where "find_job i s = Some (job_row_of k)" "Job_wf k"
      "bind_approval i b now a s = (Inr u, s')" "updated n s s' u ''approval_bound''"
      "jb_status k = AWAITING_APPROVAL" "jb_plan k = Some plan" "ApprovalBinding_matches b plan now = Inr True"
      "u = Job_norm k\<lparr>jb_approval := Some b, jb_authority_ref := Some (ab_approval_ref b),
         jb_status := READY, jb_updated_at := now\<rparr>"
  using live_ok(1) [OF assms(1)]
proof (cases rule: required_run [of s i])
  case missing
  then show ?thesis by (intro that(1)) (auto simp: bind_approval_def sbind_def)
next
  case (found k)
  let ?u = "Job_norm k\<lparr>jb_approval := Some b, jb_authority_ref := Some (ab_approval_ref b),
    jb_status := READY, jb_updated_at := now\<rparr>"
  have b: "valid_identifier (ab_approval_ref b)" "is_sha256 (ab_plan_hash b)"
    using assms(4) by (simp_all add: ApprovalBinding_wf_def ApprovalBinding_init_def check_simps)
  have u: "Job_wf ?u"
    using Job_wf_norm [OF found(2)] assms(2,4) b(1) by (auto simp: Job_wf_parts Job_init_iff stamp_def)
  have md: "\<forall>kv \<in> set [(''plan_hash'', JStr (ab_plan_hash b))]. metadata_check kv = None"
    using b(2) by (simp add: plan_hash_metadata)
  note fin = finish_run [OF assms(1) u event_type_ids(3) assms(2), of "Some a" None _ "job_row_of k"
      AWAITING_APPROVAL "[AWAITING_APPROVAL]" "Some AWAITING_APPROVAL" "Some READY" None None, OF _ _ md]
  show ?thesis
  proof (cases "jb_status k = AWAITING_APPROVAL \<and> (\<exists>plan. jb_plan k = Some plan \<and>
      ApprovalBinding_matches b plan now = Inr True)")
    case True
    then obtain plan where p: "jb_plan k = Some plan" "ApprovalBinding_matches b plan now = Inr True" by blast
    from fin True assms(3) found obtain s' where "sbind (lift (Job_init ?u)) (\<lambda>u. sbind (make_event u
        ''approval_bound'' now (Some a) (Some AWAITING_APPROVAL) (Some READY) None
        [(''plan_hash'', JStr (ab_plan_hash b))]) (\<lambda>e.
        sbind (store_transition u [AWAITING_APPROVAL] e None None) (\<lambda>_. ret u))) s = (Inr ?u, s')"
      "updated n s s' ?u ''approval_bound''" by auto
    moreover have "Job_init ?u = Inr ?u" using u by (simp add: Job_init_Inr Job_wf_def)
    ultimately have "bind_approval i b now a s = (Inr ?u, s')"
      using p True found by (simp add: bind_approval_def sbind_def)
    with found True p \<open>updated n s s' ?u ''approval_bound''\<close> show ?thesis by (intro that(3)) auto
  next
    case False
    then have "\<exists>e. bind_approval i b now a s = (Inl e, s)"
      using found
      by (auto simp: bind_approval_def sbind_def throw_def lift_def split: option.splits sum.splits)
    with found False show ?thesis by (auto intro: that(2))
  qed
qed

section \<open>Claims\<close>

lemma claimed_job_run:
  assumes "Job_wf k" "stamp now"
  shows "\<exists>j. claimed_job (Job_norm k) now = Inr j \<and> Job_wf j \<and> jb_status j = RUNNING \<and>
    jb_job_id j = jb_job_id k \<and> jb_attempt_count j = jb_attempt_count k + 1"
proof -
  let ?j = "Job_norm k\<lparr>jb_status := RUNNING, jb_attempt_count := jb_attempt_count (Job_norm k) + 1,
    jb_started_at := (case jb_started_at (Job_norm k) of None \<Rightarrow> Some now | Some d \<Rightarrow> Some d),
    jb_updated_at := now, jb_next_retry_at := None, jb_error := None\<rparr>"
  have "returns (Job_init ?j)"
    using Job_wf_norm [OF assms(1)] assms(2)
    by (auto simp: Job_wf_parts Job_init_iff stamp_def split: option.splits)
  then have "claimed_job (Job_norm k) now = Inr ?j" by (simp add: claimed_job_def Job_init_Inr)
  with claimed_job_wf [OF Job_wf_norm [OF assms(1)] assms(2)] show ?thesis by (auto simp: Job_norm_def)
qed

lemma retry_due_run:
  assumes "stamp now"
  obtains due where "retry_due now row = Inr due"
    "due \<longleftrightarrow> (\<exists>t. jo_next_retry_at row = Some t \<and> t \<le> isoformat now)"
  using assms that by (cases "jo_next_retry_at row") (auto simp: retry_due_def time_text_def stamp_def)

lemma store_claim_refused:
  assumes "store_ok s" "stamp now" "find_job i s = Some (job_row_of k)" "jb_status k \<notin> {READY, RETRY_WAIT}"
  shows "store_claim i w now e s = (Inr None, s)"
proof -
  obtain due where "retry_due now (job_row_of k) = Inr due" using assms(2) by (rule retry_due_run)
  with assms show ?thesis
    by (simp add: store_claim_def transaction_def sbind_def select_def lift_def store_ok_def js.of_val ret_def)
qed

lemma store_claim_run:
  assumes "store_ok s" "\<not> st_read_only s" "stamp now" "AuditEvent_wf e" "ae_job_id e = i"
    and "ae_event_id e \<notin> er_event_id ` set (st_events s)"
    and "find_job i s = Some (job_row_of k)" "Job_wf k" "claim_ready now (job_row_of k)"
    and "(i, jb_attempt_count k + 1) \<notin> (\<lambda>r. (at_job_id r, at_attempt_number r)) ` set (st_attempts s)"
  shows "\<exists>j s'. store_claim i w now e s = (Inr (Some j), s') \<and> claimed_job (Job_norm k) now = Inr j"
proof -
  have id: "jb_job_id k = i" "i \<in> job_ids s" and t: "st_tables s" and now: "time_text now = Inr (isoformat now)"
    using find_job_Some [OF assms(7)] find_job_None [of i s] assms(1,3,7)
    by (auto simp: store_ok_def time_text_def stamp_def)
  obtain j where j: "claimed_job (Job_norm k) now = Inr j" "Job_wf j" "jb_job_id j = i"
      "jb_attempt_count j = jb_attempt_count k + 1"
    using claimed_job_run [OF assms(8,3)] id(1) by auto
  let ?s = "s\<lparr>st_jobs := replace_row (job_row_of j) (st_jobs s)\<rparr>"
  let ?row = "\<lparr>at_job_id = i, at_attempt_number = jb_attempt_count j, at_worker_id = w,
    at_started_at = isoformat now, at_completed_at = None, at_outcome = None, at_error_code = None\<rparr>"
  have "\<not> list_ex (\<lambda>r. at_job_id r = i \<and> at_attempt_number r = jb_attempt_count j) (st_attempts s)"
    using assms(10) j(4) by (force simp: list_ex_iff)
  then have at: "insert_attempt i (jb_attempt_count j) w now ?s = (Inr (), ?s\<lparr>st_attempts := st_attempts s @ [?row]\<rparr>)"
    using assms(2) t now id(2) by (simp add: insert_attempt_def execute_def has_job_iff)
  have ev: "\<exists>s'. insert_event e (?s\<lparr>st_attempts := x\<rparr>) = (Inr (), s')" for x
    using insert_event_run [of "?s\<lparr>st_attempts := x\<rparr>" e] assms(2,4-6) t id(2) by simp
  obtain due where "retry_due now (job_row_of k) = Inr due"
      "jb_status k = READY \<or> jb_status k = RETRY_WAIT \<and> due"
    using retry_due_run [OF assms(3), of "job_row_of k"] assms(9)
    unfolding claim_ready_def job_row_of_sel JobStatus_value_inj by metis
  then show ?thesis
    using assms(2,7) t j(1,2) at ev [of "st_attempts s @ [?row]"]
    by (auto simp: store_claim_def transaction_def sbind_def select_def lift_def js.of_val ret_def
        jb.dec_enc [OF assms(8)] update_job_run)
qed

end
