(* ===== verification/Onboarding.thy ===== *)
theory Onboarding
  imports Registry
begin

text \<open>
  \<open>src/edn/core/onboarding.py\<close>: value profiles and the planner that ranks capability
  onboarding recommendations from declared runtime facts.
\<close>

datatype OnboardingRequestStatus = OS_PENDING | OS_REJECTED

fun OnboardingRequestStatus_value :: "OnboardingRequestStatus \<Rightarrow> string" where
  "OnboardingRequestStatus_value OS_PENDING = ''pending''"
| "OnboardingRequestStatus_value OS_REJECTED = ''rejected''"

record CapabilityValueProfile =
  vp_capability_id :: string
  vp_operation :: string
  vp_decision_value :: int
  vp_recurrence :: int
  vp_freshness :: int
  vp_administrative_leverage :: int
  vp_information_density :: int
  vp_record_count :: "int option"
  vp_byte_count :: "int option"
  vp_exact_scope :: "string list"

definition CapabilityValueProfile_init :: "CapabilityValueProfile \<Rightarrow> CapabilityValueProfile result" where
  "CapabilityValueProfile_init p = construct
     [validate_identifier (vp_capability_id p) ''capability_id'',
      validate_identifier (vp_operation p) ''operation'',
      check_all
        [(''decision_value'', vp_decision_value p), (''recurrence'', vp_recurrence p),
         (''freshness'', vp_freshness p),
         (''administrative_leverage'', vp_administrative_leverage p),
         (''information_density'', vp_information_density p)]
        (\<lambda>(name, n). require (0 \<le> n \<and> n \<le> 5) (name @ '' must be between 0 and 5'')),
      check_all [(''record_count'', vp_record_count p), (''byte_count'', vp_byte_count p)]
        (\<lambda>(name, v). when_some v (\<lambda>n. require (\<not> n < 0) (name @ '' must not be negative''))),
      require (distinct (vp_exact_scope p)) ''exact_scope must not contain duplicates'',
      validate_list (vp_exact_scope p) ''exact_scope''] p"

definition value_score :: "CapabilityValueProfile \<Rightarrow> int" where
  "value_score p =
     vp_decision_value p * 5 + vp_recurrence p * 4 + vp_freshness p * 4 +
     vp_administrative_leverage p * 3 + vp_information_density p * 2"

record OnboardingRequest =
  or_request_id :: string
  or_capability_id :: string
  or_operation :: string
  or_provider_id :: string
  or_connector_id :: string
  or_domain_id :: string
  or_exact_scope :: "string list"
  or_required_permissions :: "string list"
  or_missing_requirements :: "string list"
  or_status :: OnboardingRequestStatus

definition OnboardingRequest_reject :: "OnboardingRequest \<Rightarrow> OnboardingRequest" where
  "OnboardingRequest_reject r = r\<lparr>or_status := OS_REJECTED\<rparr>"

record OnboardingRecommendation =
  on_capability_id :: string
  on_readiness :: CapabilityStatus
  on_readiness_explanation :: string
  on_missing_steps :: "string list"
  on_value_score :: int
  on_capacity_record_count :: "int option"
  on_capacity_byte_count :: "int option"
  on_request :: "OnboardingRequest option"

definition missing_steps :: "CapabilityDecision \<Rightarrow> RegisteredCapability option \<Rightarrow> string list" where
  "missing_steps d registered =
     (if cd_status d = CS_READY then []
      else
        let steps = (if cd_status d = CS_AUTHENTICATION_REQUIRED then []
              else cd_missing_requirements d)
        in dedup (steps @ (case registered of
             None \<Rightarrow> []
           | Some c \<Rightarrow> rt_unavailable_dependencies (rc_runtime c) @
               rt_missing_permissions (rc_runtime c) @
               (case cd_status d of
                  CS_AUTHENTICATION_REQUIRED \<Rightarrow> [''interactive-authentication'']
                | CS_APPROVAL_REQUIRED \<Rightarrow> [''owner-approval'']
                | CS_PERMISSION_REQUIRED \<Rightarrow> [''exact-permission-grant'']
                | _ \<Rightarrow> []))))"

definition onboarding_request ::
  "CapabilityValueProfile \<Rightarrow> RegisteredCapability option \<Rightarrow> SecurityDomain \<Rightarrow> CapabilityDecision \<Rightarrow>
     string list \<Rightarrow> OnboardingRequest option" where
  "onboarding_request profile registered domain d steps =
     (case registered of
        None \<Rightarrow> None
      | Some c \<Rightarrow> if cd_status d = CS_READY then None else
          Some \<lparr>or_request_id =
                  ''onboard-'' @ py_replace ''.'' ''-'' (vp_capability_id profile),
                or_capability_id = vp_capability_id profile,
                or_operation = vp_operation profile,
                or_provider_id = cm_provider_id (rc_manifest c),
                or_connector_id = cm_connector_id (rc_manifest c),
                or_domain_id = sd_domain_id domain,
                or_exact_scope = vp_exact_scope profile,
                or_required_permissions = sorted_list_of_fset (cm_required_permissions (rc_manifest c)),
                or_missing_requirements = steps, or_status = OS_PENDING\<rparr>)"

definition recommendation ::
  "registry \<Rightarrow> SecurityDomain \<Rightarrow> CapabilityValueProfile \<Rightarrow> OnboardingRecommendation result" where
  \<comment> \<open>the body of the loop over the profiles\<close>
  "recommendation reg domain profile =
     rbind (registry_get reg (vp_capability_id profile)) (\<lambda>registered.
     rbind (registry_resolve reg (vp_capability_id profile) (vp_operation profile) domain) (\<lambda>d.
     let steps = missing_steps d registered in
     Inr \<lparr>on_capability_id = vp_capability_id profile, on_readiness = cd_status d,
          on_readiness_explanation = cd_explanation d, on_missing_steps = steps,
          on_value_score = value_score profile,
          on_capacity_record_count = vp_record_count profile,
          on_capacity_byte_count = vp_byte_count profile,
          on_request = onboarding_request profile registered domain d steps\<rparr>))"

definition rank_key :: "OnboardingRecommendation \<Rightarrow> int \<times> string" where
  "rank_key r = (- on_value_score r, on_capability_id r)"

definition onboarding_plan ::
  "registry \<Rightarrow> CapabilityValueProfile list \<Rightarrow> SecurityDomain \<Rightarrow> OnboardingRecommendation list result" where
  "onboarding_plan reg profiles domain =
     rbind (traverse (recommendation reg domain) profiles) (\<lambda>rs. Inr (sort_key rank_key rs))"

section \<open>Lemmas\<close>

definition CapabilityValueProfile_wf :: "CapabilityValueProfile \<Rightarrow> bool" where
  "CapabilityValueProfile_wf p = returns (CapabilityValueProfile_init p)"

lemma value_score_bounds:
  "CapabilityValueProfile_wf p \<Longrightarrow> 0 \<le> value_score p \<and> value_score p \<le> 90"
  by (auto simp: CapabilityValueProfile_wf_def CapabilityValueProfile_init_def check_simps
      value_score_def)

lemma CapabilityValueProfile_wf_ids:
  "CapabilityValueProfile_wf p \<Longrightarrow> valid_identifier (vp_capability_id p) \<and> valid_identifier (vp_operation p)"
  by (simp add: CapabilityValueProfile_wf_def CapabilityValueProfile_init_def check_simps)

lemma recommendation_total:
  assumes "registry_ok reg" "CapabilityValueProfile_wf p" "valid_identifier (sd_domain_id sd)"
  shows "\<exists>r. recommendation reg sd p = Inr r \<and> on_capability_id r = vp_capability_id p \<and>
    on_value_score r = value_score p \<and>
    (on_readiness r = CS_READY \<longleftrightarrow>
       (\<exists>c. map_of reg (vp_capability_id p) = Some c \<and> usable_now c (vp_operation p) sd)) \<and>
    (on_readiness r = CS_READY \<longrightarrow> on_missing_steps r = [] \<and> on_request r = None) \<and>
    (on_request r \<noteq> None \<longleftrightarrow>
       on_readiness r \<noteq> CS_READY \<and> map_of reg (vp_capability_id p) \<noteq> None)"
proof -
  obtain d where "registry_resolve reg (vp_capability_id p) (vp_operation p) sd = Inr d"
    "cd_status d = CS_READY \<longleftrightarrow>
       (\<exists>c. map_of reg (vp_capability_id p) = Some c \<and> usable_now c (vp_operation p) sd)"
    using resolve_total [OF assms(1) _ _ assms(3)] CapabilityValueProfile_wf_ids [OF assms(2)] by blast
  then show ?thesis
    using CapabilityValueProfile_wf_ids [OF assms(2)]
    by (auto simp: recommendation_def registry_get_def construct_ok check_simps Let_def
        missing_steps_def onboarding_request_def split: option.splits)
qed

end
