(* ===== verification/PolicySpec.thy ===== *)
theory PolicySpec
  imports CapabilityUse
begin

text \<open>
  The specification of the policy evaluator, stated without reference to how it searches: which
  rules bear on a request, when one of them authorises, and when the policy grants. The lemmas
  relate the search of \<open>PermissionEvaluator.evaluate\<close> to it and show that the order of the
  rules does not matter.
\<close>

definition matching :: "PolicySet \<Rightarrow> PermissionRequest \<Rightarrow> PolicyRule list" where
  "matching p q = filter (\<lambda>r. PolicyRule_matches r q) (ps_rules p)"

definition prohibited_by :: "PolicySet \<Rightarrow> PermissionRequest \<Rightarrow> PolicyRule list" where
  "prohibited_by p q = filter (\<lambda>r. ru_outcome r = PO_PROHIBITED) (matching p q)"

definition most_specific :: "PolicySet \<Rightarrow> PermissionRequest \<Rightarrow> PolicyRule \<Rightarrow> bool" where
  "most_specific p q r =
     (r \<in> set (matching p q) \<and> (\<forall>s \<in> set (matching p q). specificity s \<le> specificity r))"

definition authorises :: "PolicyRule \<Rightarrow> datetime \<Rightarrow> bool" where
  "authorises r now = (ru_outcome r \<in> {PO_ALLOWED, PO_ALLOWED_WITHIN_SCOPE} \<or>
     ru_outcome r = PO_TEMPORARILY_ALLOWED \<and>
     (\<exists>e. ru_expires_at r = Some e \<and> instant now < instant e))"

definition policy_grants :: "PolicySet \<Rightarrow> PermissionRequest \<Rightarrow> datetime \<Rightarrow> bool" where
  "policy_grants p q now =
     (allows_domain (pr_principal q) (pr_security_domain q) \<and> prohibited_by p q = [] \<and>
      (\<exists>r. most_specific p q r \<and> authorises r now \<and>
         (\<forall>s. most_specific p q s \<longrightarrow> signature s = signature r)))"

section \<open>Domains of a principal\<close>

lemma allows_domain_key:
  "allows_domain p d \<longleftrightarrow> tenant_admits (pc_tenant_id p) d \<and> domain_key d \<in> domain_key ` set (pc_active_domains p)"
  by (auto simp: allows_domain_def list_ex_iff SecurityDomain_eq_key)

lemma allows_domain_norm: "allows_domain (PrincipalContext_norm p) d = allows_domain p d"
  by (simp add: allows_domain_key PrincipalContext_norm_def)

lemma allows_domain_eq:
  assumes "PrincipalContext_eq a b" "SecurityDomain_eq d e"
  shows "allows_domain a d = allows_domain b e"
  using assms by (auto simp: allows_domain_key PrincipalContext_eq_def SecurityDomain_eq_key
      domain_key_def tenant_admits_def)

section \<open>Agreement of the finalists\<close>

lemma length_remdups_1:
  assumes "x \<in> set xs"
  shows "length (remdups xs) = 1 \<longleftrightarrow> (\<forall>y \<in> set xs. y = x)"
proof -
  have "length (remdups xs) = 1 \<longleftrightarrow> (\<exists>z. set xs = {z})"
    by (simp add: length_remdups_card_conv card_1_singleton_iff)
  also have "\<dots> \<longleftrightarrow> (\<forall>y \<in> set xs. y = x)" using assms by auto
  finally show ?thesis .
qed

lemma authorises_signature: "signature r = signature s \<Longrightarrow> authorises r now = authorises s now"
  by (cases "ru_expires_at r"; cases "ru_expires_at s") (auto simp: signature_def authorises_def)

lemma most_specific_iff: "most_specific p q r \<longleftrightarrow> r \<in> set (finalists (matching p q))"
proof (cases "matching p q = []")
  case False
  then show ?thesis using finalists_props(2) [of "matching p q" r] by (simp add: most_specific_def)
qed (simp add: most_specific_def finalists_def)

lemma agree_iff:
  assumes "most_specific p q r"
  shows "length (remdups (map signature (finalists (matching p q)))) = 1 \<longleftrightarrow>
    (\<forall>s. most_specific p q s \<longrightarrow> signature s = signature r)"
  using assms by (subst length_remdups_1 [of "signature r"]) (auto simp: most_specific_iff)

lemma authorises_allowed:
  assumes "rule_decision q r = Inr d" "PolicyRule_wf r" "stamp now"
  shows "PermissionDecision_is_allowed d (Some now) now = Inr (authorises r now)"
  using rule_decision_Inr [OF assms(1)] assms(2,3)
  by (simp add: PolicyRule_wf_def is_allowed_at authorises_def)

lemma select_rule_conflict:
  assumes "ms \<noteq> []" "length (remdups (map signature (finalists ms))) \<noteq> 1"
    and "select_rule p q now ms = Inr d"
  shows "pd_outcome d = PO_INDETERMINATE" "PermissionDecision_wf d"
  using assms plain_decision_Inr [of "pr_request_id q" PO_INDETERMINATE] by (auto simp: select_rule_def)

lemma select_rule_agreed:
  assumes "most_specific p q r" "authorises r now" "stamp now" "PolicySet_wf p"
    and "length (remdups (map signature (finalists (matching p q)))) = 1"
  shows "\<exists>s. most_specific p q s \<and> signature s = signature r \<and>
    select_rule p q now (matching p q) = rule_decision q s"
proof -
  define s where "s = hd (sort_key ru_rule_id (finalists (matching p q)))"
  have ne: "matching p q \<noteq> []" using assms(1) by (auto simp: most_specific_def)
  then have s: "most_specific p q s"
    unfolding s_def most_specific_iff by (intro hd_sort_key finalists_props)
  then have sig: "signature s = signature r" using agree_iff [OF assms(1)] assms(5) by blast
  then have "authorises s now" using assms(2) authorises_signature by blast
  moreover have "PolicyRule_wf s"
    using s assms(4) by (auto simp: most_specific_def matching_def PolicySet_wf_def list_all_iff)
  ultimately have "select_rule p q now (matching p q) = rule_decision q s"
    using ne assms(3,5) by (auto simp: select_rule_def s_def [symmetric] authorises_def Let_def
        dt_less_def stamp_def PolicyRule_wf_def PolicyRule_init_iff split: option.splits)
  with s sig show ?thesis by blast
qed

lemma agreed_authorises:
  assumes "most_specific p q r" "\<And>s. most_specific p q s \<Longrightarrow> signature s = signature r"
  shows "(\<exists>t. most_specific p q t \<and> authorises t now \<and>
    (\<forall>s. most_specific p q s \<longrightarrow> signature s = signature t)) = authorises r now"
  using assms authorises_signature by blast

lemma select_rule_grants:
  assumes "PolicySet_wf p" "PermissionRequest_wf q" "stamp now"
  shows "\<exists>d. select_rule p q now (matching p q) = Inr d \<and> pd_request_id d = pr_request_id q \<and>
    PermissionDecision_is_allowed d (Some now) now = Inr
      (\<exists>r. most_specific p q r \<and> authorises r now \<and>
         (\<forall>s. most_specific p q s \<longrightarrow> signature s = signature r))"
proof (rule select_rule_cases [OF assms, of "matching p q"])
  show "set (matching p q) \<subseteq> set (ps_rules p)" "\<forall>r \<in> set (matching p q). PolicyRule_matches r q"
    by (auto simp: matching_def)
next
  fix d assume d: "select_rule p q now (matching p q) = Inr d" "PermissionDecision_wf d"
    "pd_request_id d = pr_request_id q" "pd_outcome d = PO_INDETERMINATE"
  have "False" if r: "most_specific p q r" "authorises r now"
    "\<forall>s. most_specific p q s \<longrightarrow> signature s = signature r" for r
  proof -
    obtain s where s: "most_specific p q s" "signature s = signature r" "rule_decision q s = Inr d"
      using select_rule_agreed [OF r(1,2) assms(3,1)] agree_iff [OF r(1)] r(3) d(1) by auto
    then have "pd_outcome d = ru_outcome r"
      by (auto simp: rule_decision_def PermissionDecision_init_Inr signature_def)
    with d(4) r(2) show ?thesis by (auto simp: authorises_def)
  qed
  then show ?thesis using d assms(3) by (auto simp: is_allowed_at)
next
  fix d r assume d: "select_rule p q now (matching p q) = Inr d" "rule_decision q r = Inr d"
    "r \<in> set (finalists (matching p q))" "matching p q \<noteq> []" "PolicyRule_wf r"
  then have r: "most_specific p q r" by (simp add: most_specific_iff)
  have id: "pd_request_id d = pr_request_id q"
    using rule_decision_Inr [OF d(2)] d(5) by (simp add: PolicyRule_wf_def)
  show ?thesis
  proof (cases "length (remdups (map signature (finalists (matching p q)))) = 1")
    case True
    then have "\<And>s. most_specific p q s \<Longrightarrow> signature s = signature r"
      using agree_iff [OF r] by blast
    from agreed_authorises [OF r this] show ?thesis
      using d(1) id authorises_allowed [OF d(2,5) assms(3)] by simp
  next
    case False
    then have "\<not> (\<forall>s. most_specific p q s \<longrightarrow> signature s = signature t)" if "most_specific p q t" for t
      using agree_iff [OF that] by blast
    then show ?thesis
      using d(1) id select_rule_conflict [OF d(4) False d(1)] assms(3) by (auto simp: is_allowed_at)
  qed
qed

section \<open>The evaluator\<close>

lemma evaluate_prohibits:
  assumes "PolicySet_wf p" "PermissionRequest_wf q" "stamp now"
  shows "\<exists>d. evaluate p (Some q) now = Inr d \<and> PermissionDecision_wf d \<and>
    pd_request_id d = pr_request_id q \<and> (pd_outcome d = PO_PROHIBITED \<longleftrightarrow>
      \<not> allows_domain (pr_principal q) (pr_security_domain q) \<or> prohibited_by p q \<noteq> [])"
  using assms
proof (cases rule: evaluate_cases)
  case (prohibited d r)
  then show ?thesis using rule_decision_Inr [OF prohibited(2)]
    by (auto simp: PolicyRule_wf_def prohibited_by_def matching_def filter_empty_conv)
next
  case (selected d r)
  then show ?thesis using rule_decision_Inr [OF selected(2)]
    by (auto simp: PolicyRule_wf_def prohibited_by_def matching_def filter_empty_conv)
qed (auto simp: prohibited_by_def matching_def filter_empty_conv)

lemma evaluate_grants:
  assumes "PolicySet_wf p" "PermissionRequest_wf q" "stamp now"
    and "evaluate p (Some q) now = Inr d"
  shows "PermissionDecision_is_allowed d (Some now) now = Inr (policy_grants p q now)"
proof (cases "allows_domain (pr_principal q) (pr_security_domain q) \<and> prohibited_by p q = []")
  case True
  then show ?thesis using select_rule_grants [OF assms(1-3)] assms(3,4)
    by (auto simp: evaluate_def prohibited_by_def matching_def policy_grants_def stamp_def Let_def)
next
  case False
  then show ?thesis using evaluate_prohibits [OF assms(1-3)] assms(3,4)
    by (auto simp: is_allowed_at policy_grants_def)
qed

section \<open>The use decision\<close>

lemma use_ready_iff:
  assumes "registry_ok reg" "PolicySet_wf p" "PermissionRequest_wf q" "stamp now"
  shows "\<exists>u. evaluate_capability_use reg p q now = Inr u \<and> CapabilityUseDecision_wf u \<and>
    ud_request u = q \<and> cd_capability_id (ud_capability u) = pr_capability_id q \<and>
    (CapabilityUseDecision_is_usable u \<longleftrightarrow> (\<exists>c. map_of reg (pr_capability_id q) = Some c \<and>
       usable_now c (pr_operation q) (pr_security_domain q)) \<and> policy_grants p q now) \<and>
    (ud_outcome u = UO_PROHIBITED \<longleftrightarrow>
       \<not> allows_domain (pr_principal q) (pr_security_domain q) \<or> prohibited_by p q \<noteq> [])"
  using evaluate_capability_use_total [OF assms] evaluate_grants [OF assms(2-4)]
    evaluate_prohibits [OF assms(2-4)]
  by (auto simp: CapabilityUseDecision_is_usable_def)

section \<open>The order of the rules\<close>

lemma finalists_mset:
  assumes "mset ms = mset ms'"
  shows "mset (finalists ms) = mset (finalists ms')"
proof -
  have "set ms = set ms'" using assms by (rule mset_eq_setD)
  then have "Max (set (map specificity ms)) = Max (set (map specificity ms'))" by simp
  with assms show ?thesis by (simp add: finalists_def)
qed

lemma length_remdups_mset:
  assumes "mset xs = mset ys"
  shows "length (remdups (map f xs)) = length (remdups (map f ys))"
proof -
  have "set (map f xs) = set (map f ys)" using mset_eq_setD [OF assms] by simp
  then show ?thesis by (simp only: length_remdups_card_conv)
qed

lemma select_rule_mset:
  assumes "mset ms = mset ms'" "inj_on ru_rule_id (set ms)"
  shows "select_rule (p\<lparr>ps_rules := x\<rparr>) q now ms = select_rule p q now ms'"
proof -
  have "inj_on ru_rule_id (set (finalists ms))"
    using assms(2) by (rule inj_on_subset) (auto simp: finalists_def)
  then have "sort_key ru_rule_id (finalists ms) = sort_key ru_rule_id (finalists ms')"
    by (rule sort_key_mset [OF finalists_mset [OF assms(1)]])
  moreover have "ms = [] \<longleftrightarrow> ms' = []" using assms(1) by (metis mset_zero_iff)
  ultimately show ?thesis
    using length_remdups_mset [OF finalists_mset [OF assms(1)], of signature]
    by (simp add: select_rule_def)
qed

lemma evaluate_mset:
  assumes "PolicySet_wf p" "mset rules = mset (ps_rules p)"
  shows "evaluate (p\<lparr>ps_rules := rules\<rparr>) request now = evaluate p request now"
proof (cases request)
  case (Some q)
  let ?ms = "filter (\<lambda>r. PolicyRule_matches r q)"
  let ?ps = "filter (\<lambda>r. ru_outcome r = PO_PROHIBITED)"
  have ms: "mset (?ms rules) = mset (?ms (ps_rules p))" using assms(2) by simp
  then have ps: "mset (?ps (?ms rules)) = mset (?ps (?ms (ps_rules p)))" using assms(2) by simp
  then have empty: "?ps (?ms rules) = [] \<longleftrightarrow> ?ps (?ms (ps_rules p)) = []" by (metis mset_zero_iff)
  have "inj_on ru_rule_id (set rules)"
    using assms(1) mset_eq_setD [OF assms(2)] by (simp add: PolicySet_wf_def PolicySet_init_iff distinct_map)
  then have inj: "inj_on ru_rule_id (set (?ms rules))" by (rule inj_on_subset) auto
  then have "inj_on (\<lambda>r. (- int (specificity r), ru_rule_id r)) (set (?ps (?ms rules)))"
    by (auto simp: inj_on_def)
  then have "sort_key (\<lambda>r. (- int (specificity r), ru_rule_id r)) (?ps (?ms rules)) =
      sort_key (\<lambda>r. (- int (specificity r), ru_rule_id r)) (?ps (?ms (ps_rules p)))"
    by (rule sort_key_mset [OF ps])
  then show ?thesis
    using select_rule_mset [OF ms inj] empty
    by (simp add: Some evaluate_def Let_def)
qed (simp add: evaluate_def)

end
