(* ===== verification/Samples.thy ===== *)
theory Samples
  imports JobRuns Onboarding PolicySpec
begin

text \<open>
  Concrete values on which the properties are exercised: one tenant with one active domain, a
  policy of two rules, one registered capability, a job and the stores that hold it.
\<close>

definition sample_now :: datetime where
  "sample_now = Aware 63926452800000000 0"

definition sample_domain :: SecurityDomain where
  "sample_domain = \<lparr>sd_domain_id = ''work:main'', sd_label = ''Work'', sd_tenant_id = Some ''acme'',
     sd_owner_id = None\<rparr>"

definition foreign_domain :: SecurityDomain where
  "foreign_domain = sample_domain\<lparr>sd_tenant_id := Some ''rival''\<rparr>"

definition sample_purpose :: Purpose where
  "sample_purpose = \<lparr>pu_purpose_id = ''indexing'', pu_description = ''Index records''\<rparr>"

definition sample_classification :: Classification where
  "sample_classification = \<lparr>cl_scheme_id = ''default'', cl_level_id = ''internal'',
     cl_display_name = ''Internal'', cl_rank = Some 1\<rparr>"

definition sample_principal :: PrincipalContext where
  "sample_principal = \<lparr>pc_principal_id = ''alice'', pc_tenant_id = ''acme'',
     pc_active_domains = [sample_domain], pc_authenticated = True, pc_principal_kind = ''person'',
     pc_delegated_by = None\<rparr>"

definition sample_request :: PermissionRequest where
  "sample_request = \<lparr>pr_request_id = ''request-1'', pr_principal = sample_principal,
     pr_purpose = sample_purpose, pr_capability_id = ''files.ingest'', pr_operation = ''ingest'',
     pr_security_domain = sample_domain, pr_classification = sample_classification,
     pr_resource_scope = [''inbox''], pr_requested_duration_seconds = None\<rparr>"

definition base_rule :: "string \<Rightarrow> PermissionOutcome \<Rightarrow> PolicyRule" where
  "base_rule i out = \<lparr>ru_rule_id = i, ru_outcome = out, ru_reason = ''Standing rule'',
     ru_principal_ids = {||}, ru_principal_kinds = {||}, ru_tenant_ids = {||}, ru_domain_ids = {||},
     ru_classification_schemes = {||}, ru_classification_levels = {||}, ru_purpose_ids = {||},
     ru_capability_ids = {||}, ru_operations = {||}, ru_resource_scopes = {||},
     ru_expires_at = None, ru_approver_id = None, ru_approval_ref = None\<rparr>"

definition allow_rule :: PolicyRule where
  "allow_rule = (base_rule ''allow-ingest'' PO_ALLOWED)\<lparr>ru_operations := {|''ingest''|}\<rparr>"

definition deny_rule :: PolicyRule where
  "deny_rule = (base_rule ''deny-delete'' PO_PROHIBITED)\<lparr>ru_operations := {|''delete''|}\<rparr>"

definition sample_policy :: PolicySet where
  "sample_policy = \<lparr>ps_policy_id = ''policy'', ps_version = ''1'', ps_rules = [allow_rule, deny_rule]\<rparr>"

definition sample_manifest :: CapabilityManifest where
  "sample_manifest = \<lparr>cm_capability_id = ''files.ingest'', cm_provider_id = ''local'',
     cm_connector_id = ''files'', cm_version = ''1.0'', cm_operations = {|''ingest''|},
     cm_required_permissions = {||}, cm_supported_domain_scopes = {|''work:main''|},
     cm_risk_level = ''low'', cm_dependencies = {||}, cm_manifest_hash = None\<rparr>"

definition sample_runtime :: CapabilityRuntimeState where
  "sample_runtime = \<lparr>rt_status = CS_READY, rt_authentication_status = AS_NOT_REQUIRED,
     rt_unavailable_dependencies = [], rt_missing_permissions = [], rt_health = ''healthy'',
     rt_last_verified_at = None, rt_explanation = None\<rparr>"

definition sample_capability :: RegisteredCapability where
  "sample_capability = \<lparr>rc_manifest = sample_manifest, rc_runtime = sample_runtime\<rparr>"

definition sample_registry :: registry where
  "sample_registry = [(''files.ingest'', sample_capability)]"

definition sample_record :: UniversalRecordRef where
  "sample_record = \<lparr>ur_source = \<lparr>sr_source_id = ''inbox'', sr_connector_id = ''files'',
       sr_source_instance_id = ''local'', sr_display_name = ''Inbox'', sr_provider_resource_id = None\<rparr>,
     ur_source_record_key = ''a.txt'', ur_security_domain = sample_domain,
     ur_classification = sample_classification, ur_record_type = ''file'', ur_source_uri = None,
     ur_source_version = None\<rparr>"

definition sample_evidence :: EvidenceRef where
  "sample_evidence = \<lparr>ev_evidence_id = ''evidence-1'', ev_record = sample_record, ev_locator = None,
     ev_transformation_id = None, ev_transformation_version = None, ev_content_hash = None\<rparr>"

definition foreign_evidence :: EvidenceRef where
  "foreign_evidence = sample_evidence\<lparr>ev_record := sample_record\<lparr>ur_security_domain := foreign_domain\<rparr>\<rparr>"

definition sample_profile :: CapabilityValueProfile where
  "sample_profile = \<lparr>vp_capability_id = ''files.ingest'', vp_operation = ''ingest'',
     vp_decision_value = 5, vp_recurrence = 4, vp_freshness = 3, vp_administrative_leverage = 2,
     vp_information_density = 1, vp_record_count = None, vp_byte_count = None, vp_exact_scope = []\<rparr>"

lemmas sample_defs = sample_record_def sample_evidence_def foreign_evidence_def sample_profile_def sample_domain_def foreign_domain_def sample_purpose_def sample_classification_def
  sample_principal_def sample_request_def base_rule_def allow_rule_def deny_rule_def sample_policy_def
  sample_manifest_def sample_runtime_def sample_capability_def sample_registry_def

lemma sample_ids:
  "valid_identifier ''work:main''" "valid_identifier ''acme''" "valid_identifier ''rival''"
  "valid_identifier ''indexing''" "valid_identifier ''default''" "valid_identifier ''internal''"
  "valid_identifier ''alice''" "valid_identifier ''person''" "valid_identifier ''request-1''"
  "valid_identifier ''files.ingest''" "valid_identifier ''ingest''" "valid_identifier ''inbox''"
  "valid_identifier ''allow-ingest''" "valid_identifier ''deny-delete''" "valid_identifier ''delete''"
  "valid_identifier ''policy''" "valid_identifier ''1''" "valid_identifier ''local''"
  "valid_identifier ''files''" "valid_identifier ''1.0''" "valid_identifier ''low''"
  "valid_identifier ''healthy''"
  by code_simp+

lemma sample_texts:
  "\<not> py_space (CHR ''W'')" "\<not> py_space (CHR ''I'')" "\<not> py_space (CHR ''S'')"
  by (simp_all add: py_space_def code_def)

lemma sample_stamp: "stamp sample_now"
  by (simp add: stamp_def sample_now_def dt_ok_def instant_def max_wall_def day_us_def)

lemma sample_wf:
  "SecurityDomain_wf sample_domain" "Purpose_wf sample_purpose"
  "Classification_wf sample_classification" "PrincipalContext_wf sample_principal"
  "PermissionRequest_wf sample_request" "PolicySet_wf sample_policy" "registry_ok sample_registry"
proof -
  note [simp] = sample_ids sample_texts
  show d: "SecurityDomain_wf sample_domain"
    by (simp add: sample_defs SecurityDomain_wf_def SecurityDomain_init_def SecurityDomain_checks_def check_simps)
  show p: "Purpose_wf sample_purpose"
    by (simp add: sample_defs Purpose_wf_def Purpose_init_def check_simps)
  show c: "Classification_wf sample_classification"
    by (simp add: sample_defs Classification_wf_def Classification_init_def check_simps)
  show pc: "PrincipalContext_wf sample_principal"
    using d by (simp add: sample_principal_def PrincipalContext_wf_def PrincipalContext_init_iff)
      (simp add: sample_defs tenant_admits_def)
  show "PermissionRequest_wf sample_request"
    using d p c pc by (simp add: sample_request_def PermissionRequest_wf_def PermissionRequest_init_iff)
      (simp add: sample_defs tenant_admits_def)
  show "PolicySet_wf sample_policy"
    by (simp add: sample_policy_def PolicySet_wf_def PolicySet_init_iff PolicyRule_wf_def
        PolicyRule_init_iff) (simp add: sample_defs selectors_def)
  show "registry_ok sample_registry"
    by (simp add: sample_defs registry_ok_def RegisteredCapability_wf_def CapabilityManifest_wf_iff
        CapabilityRuntimeState_wf_def CapabilityRuntimeState_init_iff)
qed

lemma sample_rules: "ru_outcome allow_rule = PO_ALLOWED" "ru_outcome deny_rule = PO_PROHIBITED"
  by (simp_all add: sample_defs)

lemma sample_matching: "matching sample_policy sample_request = [allow_rule]"
  by (simp add: matching_def sample_policy_def PolicyRule_matches_def)
    (simp add: sample_defs)

lemma sample_grants: "policy_grants sample_policy sample_request sample_now"
proof -
  have "allows_domain sample_principal sample_domain"
    by (simp add: sample_defs allows_domain_def tenant_admits_def SecurityDomain_eq_def)
  then show ?thesis
    by (simp add: policy_grants_def prohibited_by_def most_specific_def authorises_def sample_matching
        sample_rules) (simp add: sample_request_def)
qed

lemma sample_usable: "usable_now sample_capability ''ingest'' sample_domain"
  by (simp add: usable_now_def sample_defs)

lemma sample_lookup:
  "map_of sample_registry i = Some c \<longleftrightarrow> i = ''files.ingest'' \<and> c = sample_capability"
  "''ingest'' |\<in>| cm_operations (rc_manifest sample_capability)"
  by (auto simp: sample_registry_def) (simp add: sample_defs)

lemma sample_admits: "tenant_admits (pc_tenant_id sample_principal) sample_domain"
  by (simp add: sample_defs tenant_admits_def)

lemma sample_profile_wf: "CapabilityValueProfile_wf sample_profile"
  by (simp add: CapabilityValueProfile_wf_def CapabilityValueProfile_init_def check_simps
      sample_profile_def sample_ids)

section \<open>Connectors\<close>

definition sample_hash :: string where
  "sample_hash = replicate 64 (CHR ''0'')"

definition sample_manifest_content :: ConnectorManifest where
  "sample_manifest_content = \<lparr>mf_connector_id = ''files'', mf_version = ''1.0'', mf_display_name = ''Files'',
     mf_provider_id = ''local'', mf_description = ''Files'', mf_connector_type = ''file'',
     mf_capabilities = [sample_manifest], mf_supported_operations = {|''ingest''|},
     mf_configuration_schema_ref = ''schema'', mf_configuration_schema_version = ''1.0'',
     mf_dependencies = {||}, mf_minimum_core_version = ''1.0'',
     mf_manifest_schema_version = ''1.0.0'', mf_manifest_hash = []\<rparr>"

definition sample_connector_manifest :: ConnectorManifest where
  "sample_connector_manifest =
     sample_manifest_content\<lparr>mf_manifest_hash := digest (ConnectorManifest_content sample_manifest_content)\<rparr>"

definition sample_checkpoint :: Checkpoint where
  "sample_checkpoint = \<lparr>cp_checkpoint_id = ''checkpoint-1'', cp_connector_id = ''files'',
     cp_connector_version = ''1.0'', cp_configuration_hash = sample_hash, cp_operation = ''ingest'',
     cp_source_scope = [''inbox''], cp_resume_marker = ''1'', cp_durable_items = 1,
     cp_created_at = sample_now\<rparr>"

definition sample_connector :: connector where
  \<comment> \<open>ingests one item and is done; it cannot verify\<close>
  "sample_connector = \<lparr>cx_manifest = sample_connector_manifest, cx_discover = None, cx_inspect = None,
     cx_plan = None, cx_authenticate = None,
     cx_ingest = Some (\<lambda>q cp. Inr \<lparr>ig_request_id = cr_request_id q, ig_records = [],
       ig_checkpoint = None, ig_processed_items = 1, ig_total_items = None, ig_complete = True\<rparr>),
     cx_sync = None, cx_checkpoint = None, cx_resume = None, cx_search = None, cx_act = None,
     cx_verify = None\<rparr>"

definition sample_plan :: ConnectorPlan where
  "sample_plan = \<lparr>pl_plan_id = ''plan-1'', pl_connector_id = ''files'', pl_connector_version = ''1.0'',
     pl_capability_id = ''files.ingest'', pl_operation = ''ingest'', pl_scope = [''inbox''],
     pl_permissions_required = [], pl_proposed_mutations = [], pl_risk_level = ''low'',
     pl_irreversible_effects = [], pl_approval_required = True, pl_estimated_items = None,
     pl_estimated_storage_bytes = None, pl_configuration_hash = Some sample_hash, pl_plan_hash = []\<rparr>"

definition approved_plan :: ConnectorPlan where
  "approved_plan = sample_plan\<lparr>pl_plan_hash := digest (ConnectorPlan_content sample_plan)\<rparr>"

definition blank_plan :: ConnectorPlan where
  "blank_plan = sample_plan\<lparr>pl_proposed_mutations := ['' '']\<rparr>"

lemma sample_connector_ids:
  "valid_identifier ''file''" "valid_identifier ''1.0.0''" "valid_identifier ''checkpoint-1''"
  "valid_identifier ''plan-1''" "is_sha256 sample_hash"
  by code_simp+

lemma sample_connector_texts: "\<not> py_space (CHR ''F'')" "\<not> py_space (CHR ''s'')"
  "validate_safe_uri ''schema'' field = None"
proof -
  have "urlsplit ''schema'' = Inr ([], [])" by code_simp
  moreover have "\<not> has_credentials []" by code_simp
  moreover have "query_keys False [] = []" by code_simp
  ultimately show "validate_safe_uri ''schema'' field = None"
    by (simp add: validate_safe_uri_def require_None)
qed (simp_all add: py_space_def code_def)

lemma sample_connector_wf:
  "ConnectorManifest_wf sample_connector_manifest" "Checkpoint_wf sample_checkpoint"
  "ConnectorPlan_constructed approved_plan" "returns (ConnectorPlan_init blank_plan)"
proof -
  note [simp] = sample_ids sample_connector_ids sample_connector_texts
  have "CapabilityManifest_wf sample_manifest"
    using sample_wf(7) by (simp add: registry_ok_def sample_registry_def RegisteredCapability_wf_def
        sample_capability_def)
  moreover have "first_error (ConnectorManifest_checks sample_manifest_content) = None"
    by (simp add: ConnectorManifest_checks_def check_simps sample_manifest_content_def sample_manifest_def
        CONNECTOR_MANIFEST_SCHEMA_VERSION_def declared_operations_def CONNECTOR_OPERATIONS_def)
  moreover have "ConnectorManifest_content sample_manifest_content = ConnectorManifest_content sample_connector_manifest"
    by (simp add: sample_connector_manifest_def)
  ultimately show "ConnectorManifest_wf sample_connector_manifest"
    by (simp add: ConnectorManifest_wf_def ConnectorManifest_init_Inr sample_connector_manifest_def)
      (simp add: sample_manifest_content_def)
  show "Checkpoint_wf sample_checkpoint"
    using sample_stamp by (simp add: Checkpoint_wf_def Checkpoint_init_iff sample_checkpoint_def stamp_def)
  show "ConnectorPlan_constructed approved_plan"
    by (simp add: ConnectorPlan_constructed_def ConnectorPlan_init_Inr approved_plan_def)
      (simp add: ConnectorPlan_checks_def sample_plan_def check_simps)
  show "returns (ConnectorPlan_init blank_plan)"
    by (simp add: ConnectorPlan_init_def construct_ok)
      (simp add: ConnectorPlan_checks_def sample_plan_def blank_plan_def check_simps)
qed

section \<open>Jobs\<close>

definition sample_job :: Job where
  "sample_job = \<lparr>jb_job_id = ''job-1'', jb_job_type = INGESTION, jb_connector_id = ''files'',
     jb_connector_version = ''1.0'', jb_configuration_hash = sample_hash,
     jb_capability_id = ''files.ingest'', jb_operation = ''ingest'', jb_principal = sample_principal,
     jb_purpose = sample_purpose, jb_security_domain = sample_domain,
     jb_classification = sample_classification, jb_resource_scope = [''inbox''],
     jb_correlation_id = ''request-1'', jb_created_at = sample_now, jb_updated_at = sample_now,
     jb_status = READY,
     jb_retry_policy = \<lparr>rp_max_attempts = 3, rp_base_delay_seconds = 5,
       rp_retryable_error_codes = {|''transient''|}\<rparr>,
     jb_progress = \<lparr>jp_phase = ''queued'', jp_processed_items = 0, jp_total_items = None,
       jp_checkpoint_count = 0\<rparr>,
     jb_plan = None, jb_approval = None, jb_authority_ref = None, jb_attempt_count = 0,
     jb_checkpoint_id = None, jb_result = None, jb_verification_status = None, jb_error = None,
     jb_started_at = None, jb_completed_at = None, jb_next_retry_at = None\<rparr>"

definition planned_job :: Job where
  "planned_job = sample_job\<lparr>jb_status := AWAITING_APPROVAL, jb_plan := Some approved_plan\<rparr>"

definition sample_approval :: ApprovalBinding where
  "sample_approval = \<lparr>ab_approval_ref = ''approval-1'', ab_plan_id = ''plan-1'',
     ab_plan_hash = pl_plan_hash approved_plan, ab_scope = [''inbox''], ab_expires_at = None\<rparr>"

definition empty_store :: store where
  "empty_store = \<lparr>st_read_only = False, st_metadata = Some [(''jobs'', 1)], st_tables = True,
     st_jobs = [], st_checkpoints = [], st_attempts = [], st_events = [], st_next_sequence = 1,
     st_uuid = \<lambda>n. replicate (Suc n) (CHR ''a'')\<rparr>"

definition store_with :: "Job \<Rightarrow> store" where
  "store_with j = empty_store\<lparr>st_jobs := [job_row_of j]\<rparr>"

definition sample_worker :: worker where
  "sample_worker = \<lparr>wk_registry = sample_registry, wk_policy = sample_policy,
     wk_connectors = [sample_connector], wk_worker_id = ''worker-1'',
     wk_configuration_hashes = [(''files'', sample_hash)]\<rparr>"

lemma sample_job_ids:
  "valid_identifier ''job-1''" "valid_identifier ''queued''" "valid_identifier ''transient''"
  "valid_identifier ''approval-1''" "valid_identifier ''worker-1''"
  by code_simp+

lemma sample_job_wf: "Job_wf sample_job" "Job_wf planned_job" "ApprovalBinding_wf sample_approval"
proof -
  note [simp] = sample_ids sample_connector_ids sample_job_ids sample_wf sample_stamp
  have now: "\<not> tzinfo_None sample_now" using sample_stamp by (simp add: stamp_def)
  show wf: "Job_wf sample_job"
    by (simp add: Job_wf_parts Job_init_iff sample_job_def now RetryPolicy_wf_def RetryPolicy_init_def
        JobProgress_wf_def JobProgress_init_def check_simps)
  have "ConnectorPlan_wf approved_plan"
    using sample_connector_wf(3) by (simp add: ConnectorPlan_wf_def approved_plan_def sample_plan_def)
  with wf show "Job_wf planned_job"
    by (simp add: Job_wf_parts Job_init_iff planned_job_def)
  have "is_sha256 (pl_plan_hash approved_plan)" by (simp add: approved_plan_def)
  then show "ApprovalBinding_wf sample_approval"
    by (simp add: ApprovalBinding_wf_def ApprovalBinding_init_def check_simps sample_approval_def)
qed

lemma live_empty: "live 3 empty_store"
proof -
  have "valid_identifier (''event:'' @ replicate (Suc n) (CHR ''a''))" if "n < 3" for n
  proof -
    have "list_all (\<lambda>n. valid_identifier (''event:'' @ replicate (Suc n) (CHR ''a''))) [0..<3]" by code_simp
    with that show ?thesis by (simp add: list_all_iff)
  qed
  moreover have "inj (\<lambda>n. replicate (Suc n) (CHR ''a''))" by (rule injI) (metis length_replicate Suc_inject)
  ultimately show ?thesis
    by (auto simp: live_def empty_store_def store_ok_def jobs_ok_def checkpoints_ok_def attempts_ok_def
        events_ok_def intro: inj_on_subset)
qed

lemma live_store_with: "Job_wf j \<Longrightarrow> live 3 (store_with j)"
  using live_empty by (auto simp: live_def store_with_def store_ok_def jobs_ok_def checkpoints_ok_def attempts_ok_def
      events_ok_def empty_store_def)

lemma find_store_with [simp]:
  "find_job i (store_with j) = (if i = jb_job_id j then Some (job_row_of j) else None)"
  by (simp add: find_job_def store_with_def)

lemma job_ids_store_with [simp]: "job_ids (store_with j) = {jb_job_id j}" "job_ids empty_store = {}"
  by (simp_all add: job_ids_def store_with_def empty_store_def)

lemmas live_samples = live_empty [unfolded numeral_3_eq_3] live_store_with [unfolded numeral_3_eq_3]

lemma sample_worker_ok: "worker_ok sample_worker"
  by (simp add: worker_ok_def connector_ok_def sample_worker_def sample_connector_def)

lemma sample_job_sel [simp]:
  "jb_job_id sample_job = ''job-1''" "jb_status sample_job = READY" "jb_correlation_id sample_job = ''request-1''"
  "jb_attempt_count sample_job = 0" "jb_connector_id sample_job = ''files''" "jb_connector_version sample_job = ''1.0''"
  "jb_capability_id sample_job = ''files.ingest''" "jb_operation sample_job = ''ingest''"
  "jb_plan sample_job = None" "jb_checkpoint_id sample_job = None" "jb_configuration_hash sample_job = sample_hash"
  "jb_job_id planned_job = ''job-1''" "jb_status planned_job = AWAITING_APPROVAL" "jb_plan planned_job = Some approved_plan"
  by (simp_all add: sample_job_def planned_job_def)

lemma store_with_sel [simp]:
  "st_attempts (store_with j) = []" "st_events (store_with j) = []" "st_checkpoints (store_with j) = []"
  "st_jobs (store_with j) = [job_row_of j]"
  by (simp_all add: store_with_def empty_store_def)

end
