(* ===== verification/AuthorityProperties.thy ===== *)
theory AuthorityProperties
  imports Samples PolicySpec
begin

text \<open>
  The properties of \<open>src/edn/core\<close>: identities and tenants, the capability registry, the
  policy evaluator, the composition of both, evidence references and onboarding.
\<close>

section \<open>Lemmas\<close>

lemma register_all_contents:
  "register_all cs r0 = (Inr u, r1) \<Longrightarrow> registry_ok r0 \<Longrightarrow> list_all RegisteredCapability_wf cs \<Longrightarrow>
    registry_ok r1 \<and> (\<forall>k c. map_of r1 k = Some c \<longleftrightarrow>
      map_of r0 k = Some c \<or> c \<in> set cs \<and> cm_capability_id (rc_manifest c) = k)"
proof (induction cs arbitrary: r0)
  case (Cons c cs)
  then have free: "map_of r0 (cm_capability_id (rc_manifest c)) = None"
    using reg.insert_taken [of r0 c]
    by (cases "map_of r0 (cm_capability_id (rc_manifest c))") (auto simp: sbind_def)
  then obtain r where r: "registry_register (rc_manifest c) (rc_runtime c) r0 = (Inr c, r)" "registry_ok r"
      "map_of r = (map_of r0)(cm_capability_id (rc_manifest c) \<mapsto> c)"
    using reg.insert_fresh [of r0 c] Cons.prems by auto
  with Cons.prems have "register_all cs r = (Inr u, r1)" by (simp add: sbind_def)
  from Cons.IH [OF this r(2)] Cons.prems(3) r(3) free show ?case by auto
qed (auto simp: ret_def)

section \<open>Identity\<close>

text \<open>
  A principal that is written to JSON and read back allows exactly the domains the original
  allowed, and two principals of different tenants can only share a domain that belongs to no
  tenant.
\<close>

theorem principal_authority_preserved:
  assumes "PrincipalContext_wf p"
  shows "\<exists>p'. PrincipalContext_from_dict (PrincipalContext_to_dict p) = Inr p' \<and>
      (\<forall>d. allows_domain p' d = allows_domain p d) \<and>
      (\<forall>q d. allows_domain p' d \<longrightarrow> allows_domain q d \<longrightarrow> pc_tenant_id q \<noteq> pc_tenant_id p \<longrightarrow>
         sd_tenant_id d = None)"
  using assms
  by (auto simp: pc.dec_enc allows_domain_norm) (auto simp: allows_domain_key tenant_admits_def)

theorem principal_authority_preserved_witness:
  "\<exists>p'. PrincipalContext_from_dict (PrincipalContext_to_dict sample_principal) = Inr p' \<and>
     allows_domain p' sample_domain \<and> \<not> allows_domain p' foreign_domain"
proof -
  obtain p' where "PrincipalContext_from_dict (PrincipalContext_to_dict sample_principal) = Inr p'"
      "\<forall>d. allows_domain p' d = allows_domain sample_principal d"
    using principal_authority_preserved [OF sample_wf(4)] by blast
  moreover have "allows_domain sample_principal sample_domain"
    "\<not> allows_domain sample_principal foreign_domain"
    by (simp_all add: sample_defs allows_domain_def tenant_admits_def SecurityDomain_eq_def)
  ultimately show ?thesis by simp
qed

text \<open>
  A scoped domain can be built from a valid namespace and a valid stable identifier exactly
  when the joined identifier fits in 128 characters; its identifier is then the two joined by a
  colon and its tenant is the one asked for.
\<close>

theorem scoped_domain_iff:
  assumes "valid_identifier namespace" "valid_identifier stable_id" "valid_identifier tenant"
    and "\<not> blank label" "pred_option valid_identifier owner"
  shows "(\<exists>d. SecurityDomain_scoped namespace stable_id label tenant owner = Inr d \<and> SecurityDomain_wf d \<and>
        sd_domain_id d = namespace @ '':'' @ stable_id \<and> sd_tenant_id d = Some tenant) \<longleftrightarrow>
      length namespace + length stable_id \<le> 127"
  using assms valid_join [OF assms(1,2)]
  by (auto simp: SecurityDomain_scoped_def SecurityDomain_init_def SecurityDomain_checks_def
      SecurityDomain_wf_def construct_ok check_simps option.pred_set)

theorem scoped_domain_iff_witness:
  "\<exists>d. SecurityDomain_scoped ''work'' ''main'' ''Work'' ''acme'' None = Inr d \<and>
     sd_domain_id d = ''work:main''"
proof -
  have "valid_identifier ''work''" "valid_identifier ''main''" by code_simp+
  then show ?thesis
    using scoped_domain_iff [of "''work''" "''main''" "''acme''" "''Work''" None]
    by (auto simp: sample_ids sample_texts)
qed

section \<open>The registry\<close>

text \<open>
  Registration never replaces: a new capability is stored and found, registering it again
  raises and changes nothing, and unregistering returns it and restores the earlier contents.
\<close>

theorem registry_register_unregister:
  assumes "registry_ok reg" "RegisteredCapability_wf c"
    and "map_of reg (cm_capability_id (rc_manifest c)) = None"
  shows "\<exists>reg' reg'' e. registry_register (rc_manifest c) (rc_runtime c) reg = (Inr c, reg') \<and>
    registry_get reg' (cm_capability_id (rc_manifest c)) = Inr (Some c) \<and>
    registry_register (rc_manifest c) (rc_runtime c) reg' = (Inl e, reg') \<and>
    registry_unregister (cm_capability_id (rc_manifest c)) reg' = (Inr c, reg'') \<and>
    map_of reg'' = map_of reg \<and> registry_ok reg''"
proof -
  obtain reg' reg'' where r: "registry_register (rc_manifest c) (rc_runtime c) reg = (Inr c, reg')"
      "registry_unregister (cm_capability_id (rc_manifest c)) reg' = (Inr c, reg'')"
      "map_of reg'' = map_of reg" "registry_ok reg''"
    using reg.insert_then_remove [OF assms] by blast
  moreover obtain e where "registry_register (rc_manifest c) (rc_runtime c) reg' = (Inl e, reg')"
    using reg.insert_twice_fails [OF assms(1,2) r(1)] by blast
  moreover have "map_of reg' (cm_capability_id (rc_manifest c)) = Some c"
    using reg.insert_fresh [OF assms] r(1) by auto
  moreover have "valid_identifier (cm_capability_id (rc_manifest c))"
    using assms(2) by (simp add: RegisteredCapability_wf_def CapabilityManifest_wf_iff)
  ultimately show ?thesis by (simp add: registry_get_def construct_ok check_simps)
qed

theorem registry_register_unregister_witness:
  "\<exists>reg'. registry_register sample_manifest sample_runtime [] = (Inr sample_capability, reg') \<and>
     registry_get reg' ''files.ingest'' = Inr (Some sample_capability)"
proof -
  have "registry_ok []" "RegisteredCapability_wf sample_capability"
    using sample_wf(7) by (simp_all add: registry_ok_def sample_registry_def)
  from registry_register_unregister [OF this] show ?thesis
    by (auto simp: sample_capability_def sample_manifest_def)
qed

text \<open>
  A registry built from a list of capabilities resolves every valid request to a decision,
  never raising, and the decision is READY exactly when one of the listed capabilities has the
  requested identifier, supports the operation and the domain, and is ready, authenticated and
  without a missing dependency or permission.
\<close>

theorem registry_resolve_ready_iff:
  assumes "list_all RegisteredCapability_wf caps" "CapabilityRegistry_init caps = Inr reg"
    and "valid_identifier i" "valid_identifier op" "valid_identifier (sd_domain_id sd)"
  shows "\<exists>d. registry_resolve reg i op sd = Inr d \<and> cd_capability_id d = i \<and>
    (CapabilityDecision_is_usable d \<longleftrightarrow>
      (\<exists>c \<in> set caps. cm_capability_id (rc_manifest c) = i \<and> usable_now c op sd))"
proof -
  have "registry_ok []" by (simp add: registry_ok_def)
  with assms(1,2) register_all_contents [of caps "[]"] have "registry_ok reg"
    "\<And>c. map_of reg i = Some c \<longleftrightarrow> c \<in> set caps \<and> cm_capability_id (rc_manifest c) = i"
    by (auto simp: CapabilityRegistry_init_def split: prod.splits sum.splits)
  with resolve_total [OF _ assms(3-5), of reg] show ?thesis
    by (auto simp: CapabilityDecision_is_usable_def)
qed

theorem registry_resolve_ready_iff_witness:
  "\<exists>d. registry_resolve sample_registry ''files.ingest'' ''ingest'' sample_domain = Inr d \<and>
     CapabilityDecision_is_usable d"
proof -
  have "CapabilityRegistry_init [sample_capability] = Inr sample_registry"
    by (simp add: CapabilityRegistry_init_def registry_register_def sbind_def ret_def sample_registry_def)
      (simp add: sample_defs Let_def ret_def)
  moreover have "list_all RegisteredCapability_wf [sample_capability]"
    using sample_wf(7) by (simp add: registry_ok_def sample_registry_def)
  moreover have "usable_now sample_capability ''ingest'' sample_domain"
    by (simp add: usable_now_def sample_defs)
  ultimately show ?thesis
    using registry_resolve_ready_iff [of "[sample_capability]" sample_registry "''files.ingest''"
        "''ingest''" sample_domain]
    by (auto simp: sample_ids sample_domain_def) (simp add: sample_capability_def sample_manifest_def)
qed

section \<open>Policy\<close>

text \<open>
  (C1) The evaluator implements its specification. On a well-formed policy and request it always
  returns a decision on that request; the decision is a prohibition exactly when the domain is
  not active for the principal or a matching rule prohibits, whatever other rules allow; and it
  allows the request now exactly when the domain is active, no prohibition matches, and all most
  specific matching rules agree on one signature that grants and has not expired.
\<close>

theorem evaluate_refines_policy:
  assumes "PolicySet_wf p" "PermissionRequest_wf q" "stamp now"
  shows "\<exists>d. evaluate p (Some q) now = Inr d \<and> pd_request_id d = pr_request_id q \<and>
    (pd_outcome d = PO_PROHIBITED \<longleftrightarrow>
      \<not> allows_domain (pr_principal q) (pr_security_domain q) \<or> prohibited_by p q \<noteq> []) \<and>
    PermissionDecision_is_allowed d (Some now) now = Inr (policy_grants p q now)"
  using evaluate_prohibits [OF assms] evaluate_grants [OF assms] by blast

theorem evaluate_refines_policy_witness:
  "\<exists>d. evaluate sample_policy (Some sample_request) sample_now = Inr d \<and>
     PermissionDecision_is_allowed d (Some sample_now) sample_now = Inr True \<and>
     pd_outcome d \<noteq> PO_PROHIBITED"
proof -
  have "allows_domain sample_principal sample_domain"
    by (simp add: sample_defs allows_domain_def tenant_admits_def SecurityDomain_eq_def)
  then show ?thesis
    using evaluate_refines_policy [OF sample_wf(6,5) sample_stamp] sample_grants sample_matching
    by (auto simp: prohibited_by_def sample_request_def sample_rules)
qed

text \<open>
  (C4) The order of the rules in a policy set does not matter: a permutation of the rules gives
  the same decision, or the same exception, on every request at every time.
\<close>

theorem evaluate_rule_order:
  assumes "PolicySet_wf p" "mset rules = mset (ps_rules p)"
  shows "evaluate (p\<lparr>ps_rules := rules\<rparr>) request now = evaluate p request now"
  using assms by (rule evaluate_mset)

theorem evaluate_rule_order_witness:
  "evaluate (sample_policy\<lparr>ps_rules := [deny_rule, allow_rule]\<rparr>) (Some sample_request) sample_now =
   evaluate sample_policy (Some sample_request) sample_now"
  by (rule evaluate_rule_order [OF sample_wf(6)]) (simp add: sample_policy_def)

text \<open>
  The evaluator fails closed. It raises only when a request is evaluated at a time without
  a zone; without a request, or when no rule matches, the decision is INDETERMINATE (or
  PROHIBITED, for an inactive domain) and allows nothing.
\<close>

theorem evaluate_fails_closed:
  assumes "PolicySet_wf p" "\<forall>q. request = Some q \<longrightarrow> PermissionRequest_wf q" "dt_ok now"
  shows "(returns (evaluate p request now) \<longleftrightarrow> request = None \<or> \<not> tzinfo_None now) \<and>
    (\<forall>d. evaluate p request now = Inr d \<longrightarrow>
      (request = None \<or> (\<exists>q. request = Some q \<and> matching p q = [])) \<longrightarrow>
      pd_outcome d \<in> {PO_INDETERMINATE, PO_PROHIBITED} \<and>
      PermissionDecision_is_allowed d (Some now) now = Inr False)"
proof (cases request)
  case None
  have "\<not> blank ''Principal and request context are required.''" by (simp add: not_space_literals)
  moreover have "valid_identifier (ps_policy_id p)"
    using assms(1) by (simp add: PolicySet_wf_def PolicySet_init_iff)
  ultimately obtain d where "evaluate p None now = Inr d" "pd_outcome d = PO_INDETERMINATE"
    using plain_decision_eq [OF policy_literals(2), of _ "ps_policy_id p" PO_INDETERMINATE]
    by (simp add: evaluate_def)
  then show ?thesis by (simp add: None returns_ok PermissionDecision_is_allowed_def)
next
  case (Some q)
  then have q: "PermissionRequest_wf q" using assms(2) by blast
  show ?thesis
  proof (cases "tzinfo_None now")
    case False
    then have now: "stamp now" using assms(3) by (simp add: stamp_def)
    obtain d where d: "evaluate p (Some q) now = Inr d" "PermissionDecision_wf d"
      using evaluate_total [OF assms(1) q now] by blast
    have "pd_outcome d \<in> {PO_INDETERMINATE, PO_PROHIBITED}" if "matching p q = []"
      by (rule evaluate_cases [OF assms(1) q now])
        (use that d(1) in \<open>auto simp: matching_def filter_empty_conv\<close>)
    with d now False show ?thesis by (auto simp: Some returns_ok is_allowed_at)
  qed (simp add: Some evaluate_def returns_ok)
qed

theorem evaluate_fails_closed_witness:
  "returns (evaluate sample_policy None (Naive 0)) \<and>
   \<not> returns (evaluate sample_policy (Some sample_request) (Naive 0))"
proof -
  have "dt_ok (Naive 0)" by (simp add: dt_ok_def instant_def max_wall_def day_us_def)
  then show ?thesis
    using evaluate_fails_closed [OF sample_wf(6), of None "Naive 0"]
      evaluate_fails_closed [OF sample_wf(6), of "Some sample_request" "Naive 0"] sample_wf(5)
    by simp
qed

end
