(* ===== verification/UseProperties.thy ===== *)
theory UseProperties
  imports Samples
begin

text \<open>
  The properties of what stands on the registry and the policy: the use decision that composes
  them, the candidate query, the evidence filter, the URI guard and the onboarding planner.
\<close>

section \<open>Lemmas\<close>

lemma candidate_request_ok:
  assumes "PrincipalContext_wf actor" "Purpose_wf purpose" "SecurityDomain_wf sd" "Classification_wf cl"
    and "tenant_admits (pc_tenant_id actor) sd" "valid_identifier op" "list_all valid_identifier scope"
    and "CapabilityManifest_wf (rc_manifest c)"
  shows "(\<exists>q. candidate_request actor purpose sd cl op scope c = Inr q \<and> PermissionRequest_wf q \<and>
      pr_capability_id q = cm_capability_id (rc_manifest c) \<and> pr_operation q = op \<and>
      pr_security_domain q = sd \<and> pr_principal q = actor) \<longleftrightarrow>
    length (cm_capability_id (rc_manifest c)) \<le> 122"
    (is "?ok \<longleftrightarrow> _")
    and "returns (candidate_request actor purpose sd cl op scope c) \<longleftrightarrow>
      length (cm_capability_id (rc_manifest c)) \<le> 122"
proof -
  have "valid_identifier ''query''" by code_simp
  moreover have i: "valid_identifier (cm_capability_id (rc_manifest c))"
    using assms(8) by (simp add: CapabilityManifest_wf_iff)
  ultimately have "valid_identifier (''query'' @ '':'' @ cm_capability_id (rc_manifest c)) \<longleftrightarrow>
      length (cm_capability_id (rc_manifest c)) \<le> 122"
    by (simp only: valid_join) simp
  with i assms show "?ok \<longleftrightarrow> length (cm_capability_id (rc_manifest c)) \<le> 122"
    "returns (candidate_request actor purpose sd cl op scope c) \<longleftrightarrow>
      length (cm_capability_id (rc_manifest c)) \<le> 122"
    by (auto simp: candidate_request_def Let_def PermissionRequest_init_def construct_ok check_simps
        PermissionRequest_wf_def)
qed

lemma traverse_returns: "returns (traverse f xs) \<longleftrightarrow> (\<forall>x \<in> set xs. returns (f x))"
  by (induction xs) (auto simp: returns_ok rbind_Inr_iff)

lemma candidate_decision:
  assumes "registry_ok reg" "PolicySet_wf p" "stamp now" "PrincipalContext_wf actor" "Purpose_wf purpose"
    and "SecurityDomain_wf sd" "Classification_wf cl" "tenant_admits (pc_tenant_id actor) sd"
    and "valid_identifier op" "list_all valid_identifier scope" "map_of reg i = Some c" "length i \<le> 122"
  shows "\<exists>u. rbind (candidate_request actor purpose sd cl op scope c)
      (\<lambda>q. evaluate_capability_use reg p q now) = Inr u \<and> cd_capability_id (ud_capability u) = i \<and>
    (CapabilityUseDecision_is_usable u \<longleftrightarrow> usable_now c op sd \<and> policy_grants p (ud_request u) now)"
proof -
  have c: "cm_capability_id (rc_manifest c) = i" "CapabilityManifest_wf (rc_manifest c)"
    using registry_ok_lookup [OF assms(1,11)] by (simp_all add: RegisteredCapability_wf_def)
  then obtain q where q: "candidate_request actor purpose sd cl op scope c = Inr q"
      "PermissionRequest_wf q" "pr_capability_id q = i" "pr_operation q = op" "pr_security_domain q = sd"
    using candidate_request_ok(1) [OF assms(4-10) c(2)] assms(12) by auto
  with use_ready_iff [OF assms(1,2) q(2) assms(3)] assms(11) show ?thesis by auto
qed

section \<open>Capability use\<close>

text \<open>
  (C2) The use decision is READY exactly when the capability is registered, supports the
  operation in the domain and is ready, and the policy grants the request now; it is PROHIBITED
  exactly when the domain is inactive or a matching rule prohibits, even for an unusable
  capability. It is always returned on well-formed inputs.
\<close>

theorem capability_use_ready_iff:
  assumes "registry_ok reg" "PolicySet_wf p" "PermissionRequest_wf q" "stamp now"
  shows "\<exists>u. evaluate_capability_use reg p q now = Inr u \<and> ud_request u = q \<and>
    (CapabilityUseDecision_is_usable u \<longleftrightarrow> (\<exists>c. map_of reg (pr_capability_id q) = Some c \<and>
       usable_now c (pr_operation q) (pr_security_domain q)) \<and> policy_grants p q now) \<and>
    (ud_outcome u = UO_PROHIBITED \<longleftrightarrow>
       \<not> allows_domain (pr_principal q) (pr_security_domain q) \<or> prohibited_by p q \<noteq> [])"
  using use_ready_iff [OF assms] by blast

theorem capability_use_ready_iff_witness:
  "\<exists>u. evaluate_capability_use sample_registry sample_policy sample_request sample_now = Inr u \<and>
     CapabilityUseDecision_is_usable u"
  using capability_use_ready_iff [OF sample_wf(7,6,5) sample_stamp] sample_usable sample_grants
  by (auto simp: sample_request_def sample_registry_def)

text \<open>
  The candidate query decides every registered capability that declares the operation, each
  once, in ascending order of capability identifiers, and a decision is usable exactly when that
  capability can be used. It returns exactly when every such identifier has at most 122
  characters: a longer one makes the request identifier \<open>query:{id}\<close> invalid, and one such
  capability makes the whole query raise.
\<close>

theorem operation_candidates_complete:
  assumes "registry_ok reg" "PolicySet_wf p" "stamp now" "PrincipalContext_wf actor" "Purpose_wf purpose"
    and "SecurityDomain_wf sd" "Classification_wf cl" "tenant_admits (pc_tenant_id actor) sd"
    and "valid_identifier op" "list_all valid_identifier scope"
  shows "(returns (evaluate_operation_candidates reg p actor purpose sd cl op scope now) \<longleftrightarrow>
      (\<forall>i c. map_of reg i = Some c \<longrightarrow> op |\<in>| cm_operations (rc_manifest c) \<longrightarrow> length i \<le> 122)) \<and>
    (\<forall>us. evaluate_operation_candidates reg p actor purpose sd cl op scope now = Inr us \<longrightarrow>
      sorted (map (\<lambda>u. cd_capability_id (ud_capability u)) us) \<and>
      distinct (map (\<lambda>u. cd_capability_id (ud_capability u)) us) \<and>
      (\<lambda>u. cd_capability_id (ud_capability u)) ` set us =
        {i. \<exists>c. map_of reg i = Some c \<and> op |\<in>| cm_operations (rc_manifest c)} \<and>
      (\<forall>u \<in> set us. CapabilityUseDecision_is_usable u \<longleftrightarrow>
        (\<exists>c. map_of reg (cd_capability_id (ud_capability u)) = Some c \<and> usable_now c op sd) \<and>
        policy_grants p (ud_request u) now))"
    (is "(_ \<longleftrightarrow> ?short) \<and> _")
proof -
  define f where "f = (\<lambda>c. rbind (candidate_request actor purpose sd cl op scope c)
    (\<lambda>q. evaluate_capability_use reg p q now))"
  obtain xs where xs: "registry_list reg None (Some op) = Inr xs"
    using assms(9) by (simp add: registry_list_def construct_ok check_simps)
  have mem: "c \<in> set xs \<longleftrightarrow> (\<exists>i. map_of reg i = Some c \<and> op |\<in>| cm_operations (rc_manifest c))" for c
    using registry_list_iff(1) [OF xs] assms(1) by (force simp: registry_ok_def)
  have id: "map_of reg i = Some c \<Longrightarrow> cm_capability_id (rc_manifest c) = i" for i c
    using registry_ok_lookup [OF assms(1)] by blast
  have eval: "evaluate_operation_candidates reg p actor purpose sd cl op scope now = traverse f xs"
    using assms(9) xs by (simp add: evaluate_operation_candidates_def f_def construct_ok check_simps)
  show ?thesis
  proof (cases "\<forall>c \<in> set xs. length (cm_capability_id (rc_manifest c)) \<le> 122")
    case True
    have "\<exists>u. f c = Inr u \<and> cd_capability_id (ud_capability u) = cm_capability_id (rc_manifest c) \<and>
        (CapabilityUseDecision_is_usable u \<longleftrightarrow> usable_now c op sd \<and> policy_grants p (ud_request u) now)"
      if "c \<in> set xs" for c
      using that True mem [of c] id candidate_decision [OF assms] unfolding f_def by metis
    then obtain g where g: "\<And>c. c \<in> set xs \<Longrightarrow> f c = Inr (g c) \<and>
        cd_capability_id (ud_capability (g c)) = cm_capability_id (rc_manifest c) \<and>
        (CapabilityUseDecision_is_usable (g c) \<longleftrightarrow>
          usable_now c op sd \<and> policy_grants p (ud_request (g c)) now)"
      by metis
    then have us: "traverse f xs = Inr (map g xs)" by (intro traverse_Inr) blast
    have ids: "map (\<lambda>u. cd_capability_id (ud_capability u)) (map g xs) =
        map (\<lambda>c. cm_capability_id (rc_manifest c)) xs" using g by simp
    have "(\<lambda>u. cd_capability_id (ud_capability u)) ` set (map g xs) =
        {i. \<exists>c. map_of reg i = Some c \<and> op |\<in>| cm_operations (rc_manifest c)}"
      using g mem id by (auto simp: image_iff) metis
    moreover have "\<forall>u \<in> set (map g xs). CapabilityUseDecision_is_usable u \<longleftrightarrow>
        (\<exists>c. map_of reg (cd_capability_id (ud_capability u)) = Some c \<and> usable_now c op sd) \<and>
        policy_grants p (ud_request u) now"
      using g mem id by (auto simp: image_iff)
    moreover have ?short using True mem id by metis
    ultimately show ?thesis
      using eval us registry_list_iff(2) [OF xs] registry_list_distinct [OF assms(1) xs]
      unfolding ids [symmetric] by (auto simp: returns_ok)
  next
    case False
    then obtain c where c: "c \<in> set xs" "\<not> length (cm_capability_id (rc_manifest c)) \<le> 122" by blast
    have "CapabilityManifest_wf (rc_manifest c)"
      using c(1) mem registry_ok_lookup [OF assms(1)] by (auto simp: RegisteredCapability_wf_def)
    then have "\<not> returns (f c)"
      using candidate_request_ok(2) [OF assms(4-10)] c(2)
      by (auto simp: f_def returns_ok rbind_Inr_iff)
    with c(1) have "\<not> returns (traverse f xs)" by (auto simp: traverse_returns)
    moreover have "\<not> ?short" using c mem id by metis
    ultimately show ?thesis using eval by (auto simp: returns_ok)
  qed
qed

theorem operation_candidates_complete_witness:
  "\<exists>u. evaluate_operation_candidates sample_registry sample_policy sample_principal sample_purpose
     sample_domain sample_classification ''ingest'' [''inbox''] sample_now = Inr [u]"
proof -
  obtain us where us: "evaluate_operation_candidates sample_registry sample_policy sample_principal
      sample_purpose sample_domain sample_classification ''ingest'' [''inbox''] sample_now = Inr us"
    "distinct (map (\<lambda>u. cd_capability_id (ud_capability u)) us)"
    "(\<lambda>u. cd_capability_id (ud_capability u)) ` set us = {''files.ingest''}"
    using operation_candidates_complete [OF sample_wf(7,6) sample_stamp sample_wf(4,2,1,3),
        of "''ingest''" "[''inbox'']"]
    by (auto simp: sample_ids sample_lookup sample_admits returns_ok)
  have "length us = card (set (map (\<lambda>u. cd_capability_id (ud_capability u)) us))"
    using distinct_card [OF us(2)] by simp
  also have "\<dots> = 1" using us(3) by simp
  finally have "length us = 1" .
  with us(1) show ?thesis by (auto simp: length_Suc_conv)
qed

section \<open>Evidence\<close>



section \<open>The URI guard\<close>

lemma has_credentials_userinfo:
  assumes "CHR ''@'' \<notin> set host" "user \<noteq> [] \<or> password \<noteq> []"
  shows "has_credentials (user @ '':'' @ password @ ''@'' @ host)"
proof -
  have "\<forall>x \<in> set host. x \<noteq> CHR ''@''" using assms(1) by auto
  then have "dropWhile (\<lambda>x. x \<noteq> CHR ''@'') (rev (user @ '':'' @ password @ ''@'' @ host)) =
      CHR ''@'' # rev (user @ '':'' @ password)"
    by (simp add: dropWhile_append3)
  then have "rpartition (CHR ''@'') (user @ '':'' @ password @ ''@'' @ host) =
      (user @ '':'' @ password, True, rev (takeWhile (\<lambda>x. x \<noteq> CHR ''@'')
         (rev (user @ '':'' @ password @ ''@'' @ host))))"
    by (simp add: rpartition_def)
  moreover have "takeWhile (\<lambda>x. x \<noteq> CHR '':'') (user @ '':'' @ password) \<noteq> [] \<or>
      drop 1 (dropWhile (\<lambda>x. x \<noteq> CHR '':'') (user @ '':'' @ password)) \<noteq> []"
    using assms(2) by (cases user) auto
  ultimately show ?thesis by (simp add: has_credentials_def partition_def)
qed

lemma urlsplit_netloc:
  assumes "urlsplit v = Inr (n, q)"
  shows "n = (let rest = drop_scheme (filter (\<lambda>c. c \<notin> {CHR 0x09, CHR 0x0A, CHR 0x0D})
      (dropWhile (\<lambda>c. code c \<le> 32) v)) in
    if prefix ''//'' rest then takeWhile (\<lambda>c. c \<notin> set ''/?#'') (drop 2 rest) else [])"
  using assms unfolding urlsplit_def Let_def
  by (auto simp del: set_simps insert_iff split: if_splits prod.splits)

lemma urlsplit_https:
  assumes "\<forall>c \<in> set netloc. c \<notin> set ''/?#'' \<and> c \<notin> {CHR 0x09, CHR 0x0A, CHR 0x0D}"
    and "path = [] \<or> hd path \<in> set ''/?#''" "urlsplit (''https://'' @ netloc @ path) = Inr (n, q)"
  shows "n = netloc"
proof -
  define keep where "keep = filter (\<lambda>c. c \<notin> {CHR 0x09, CHR 0x0A, CHR 0x0D})"
  have "keep path = [] \<or> hd (keep path) \<in> set ''/?#''"
    using assms(2) by (cases path) (auto simp: keep_def)
  then have stop: "takeWhile (\<lambda>c. c \<notin> set ''/?#'') (keep path) = []" by (cases "keep path") auto
  have "keep netloc = netloc" using assms(1) by (simp add: keep_def filter_id_conv)
  then have "keep (dropWhile (\<lambda>c. code c \<le> 32) (''https://'' @ netloc @ path)) =
      ''https://'' @ netloc @ keep path"
    by (simp add: keep_def code_def)
  moreover have "drop_scheme (''https://'' @ netloc @ keep path) = ''//'' @ netloc @ keep path"
    by (simp add: drop_scheme_def partition_def is_alpha_def scheme_char_def is_alnum_def is_digit_def
        code_def)
  moreover have "takeWhile (\<lambda>c. c \<notin> set ''/?#'') (netloc @ keep path) = netloc"
    using assms(1) stop by (subst takeWhile_append2) simp_all
  ultimately show ?thesis using urlsplit_netloc [OF assms(3), folded keep_def] by simp
qed

text \<open>
  A record reference never holds a URI with credentials: an \<open>https\<close> URI with a user or a
  password before its host is rejected by the constructor, whatever the host, path and query are.
\<close>

theorem record_uri_without_credentials:
  assumes "user \<noteq> [] \<or> password \<noteq> []" "CHR ''@'' \<notin> set host"
    and "\<forall>c \<in> set (user @ password @ host). c \<notin> set ''/?#'' \<and> c \<noteq> CHR 0x09"
    and "path = [] \<or> hd path \<in> set ''/?#''"
  shows "\<not> returns (UniversalRecordRef_init
    (r\<lparr>ur_source_uri := Some (''https://'' @ user @ '':'' @ password @ ''@'' @ host @ path)\<rparr>))"
proof
  define uri where "uri = ''https://'' @ (user @ '':'' @ password @ ''@'' @ host) @ path"
  assume "returns (UniversalRecordRef_init
    (r\<lparr>ur_source_uri := Some (''https://'' @ user @ '':'' @ password @ ''@'' @ host @ path)\<rparr>))"
  then obtain netloc query where u: "\<not> multiline uri" "urlsplit uri = Inr (netloc, query)"
      "\<not> has_credentials netloc"
    by (auto simp: UniversalRecordRef_init_def check_simps uri_def)
  have "\<forall>c \<in> set (user @ '':'' @ password @ ''@'' @ host). c \<notin> set ''/?#'' \<and>
      c \<notin> {CHR 0x09, CHR 0x0A, CHR 0x0D}"
    using assms(3) u(1) by (auto simp: uri_def multiline_def)
  from urlsplit_https [OF this assms(4)] u(2) have "netloc = user @ '':'' @ password @ ''@'' @ host"
    by (simp add: uri_def)
  with u(3) has_credentials_userinfo [OF assms(2,1)] show False by simp
qed

theorem record_uri_without_credentials_witness:
  "\<not> returns (UniversalRecordRef_init
    (sample_record\<lparr>ur_source_uri := Some ''https://bob:pw@example.org/a''\<rparr>))"
  using record_uri_without_credentials [of "''bob''" "''pw''" "''example.org''" "''/a''" sample_record]
  by simp

section \<open>Onboarding\<close>

text \<open>
  The onboarding plan of a well-formed registry and well-formed profiles is always returned.
  It has one recommendation per profile, ranked by descending value score and then by capability
  identifier; scores lie between 0 and 90; and a recommendation carries an onboarding request
  exactly when its capability is registered but not ready, and missing steps only when it is not
  ready.
\<close>

theorem onboarding_plan_ranked:
  assumes "registry_ok reg" "list_all CapabilityValueProfile_wf profiles"
    and "valid_identifier (sd_domain_id sd)"
  shows "\<exists>rs. onboarding_plan reg profiles sd = Inr rs \<and>
    mset (map (\<lambda>r. (on_capability_id r, on_value_score r)) rs) =
      mset (map (\<lambda>p. (vp_capability_id p, value_score p)) profiles) \<and>
    (\<forall>i j. i < j \<longrightarrow> j < length rs \<longrightarrow> on_value_score (rs ! j) < on_value_score (rs ! i) \<or>
      on_value_score (rs ! j) = on_value_score (rs ! i) \<and>
      on_capability_id (rs ! i) \<le> on_capability_id (rs ! j)) \<and>
    (\<forall>r \<in> set rs. 0 \<le> on_value_score r \<and> on_value_score r \<le> 90 \<and>
      (on_readiness r = CS_READY \<longrightarrow> on_missing_steps r = []) \<and>
      (on_request r \<noteq> None \<longleftrightarrow> on_readiness r \<noteq> CS_READY \<and> map_of reg (on_capability_id r) \<noteq> None))"
proof -
  have "\<exists>r. recommendation reg sd p = Inr r \<and> on_capability_id r = vp_capability_id p \<and>
      on_value_score r = value_score p \<and> (on_readiness r = CS_READY \<longrightarrow> on_missing_steps r = []) \<and>
      (on_request r \<noteq> None \<longleftrightarrow> on_readiness r \<noteq> CS_READY \<and> map_of reg (on_capability_id r) \<noteq> None)"
    if "p \<in> set profiles" for p
    using recommendation_total [OF assms(1) _ assms(3), of p] that assms(2)
    by (auto simp: list_all_iff)
  then obtain g where g: "\<And>p. p \<in> set profiles \<Longrightarrow> recommendation reg sd p = Inr (g p) \<and>
      on_capability_id (g p) = vp_capability_id p \<and> on_value_score (g p) = value_score p \<and>
      (on_readiness (g p) = CS_READY \<longrightarrow> on_missing_steps (g p) = []) \<and>
      (on_request (g p) \<noteq> None \<longleftrightarrow>
        on_readiness (g p) \<noteq> CS_READY \<and> map_of reg (on_capability_id (g p)) \<noteq> None)"
    by metis
  define rs where "rs = sort_key rank_key (map g profiles)"
  have plan: "onboarding_plan reg profiles sd = Inr rs"
    using g traverse_Inr [of profiles "recommendation reg sd" g]
    by (simp add: onboarding_plan_def rs_def)
  have "map (\<lambda>r. (on_capability_id r, on_value_score r)) (map g profiles) =
      map (\<lambda>p. (vp_capability_id p, value_score p)) profiles" using g by simp
  then have "mset (map (\<lambda>r. (on_capability_id r, on_value_score r)) rs) =
      mset (map (\<lambda>p. (vp_capability_id p, value_score p)) profiles)"
    unfolding rs_def by (metis mset_map mset_sort)
  moreover have "on_value_score (rs ! j) < on_value_score (rs ! i) \<or>
      on_value_score (rs ! j) = on_value_score (rs ! i) \<and> on_capability_id (rs ! i) \<le> on_capability_id (rs ! j)"
    if "i < j" "j < length rs" for i j
  proof -
    have "sorted (map rank_key rs)" by (simp add: rs_def)
    then have "rank_key (rs ! i) \<le> rank_key (rs ! j)"
      using that sorted_nth_mono [of "map rank_key rs" i j] by simp
    then show ?thesis by (auto simp: rank_key_def less_eq_prod_def)
  qed
  moreover have "\<forall>r \<in> set rs. 0 \<le> on_value_score r \<and> on_value_score r \<le> 90 \<and>
      (on_readiness r = CS_READY \<longrightarrow> on_missing_steps r = []) \<and>
      (on_request r \<noteq> None \<longleftrightarrow> on_readiness r \<noteq> CS_READY \<and> map_of reg (on_capability_id r) \<noteq> None)"
    using g assms(2) value_score_bounds by (auto simp: rs_def list_all_iff)
  ultimately show ?thesis using plan by blast
qed

theorem onboarding_plan_ranked_witness:
  "\<exists>r. onboarding_plan sample_registry [sample_profile] sample_domain = Inr [r] \<and> on_value_score r \<le> 90"
proof -
  have "list_all CapabilityValueProfile_wf [sample_profile]" using sample_profile_wf by simp
  moreover have "valid_identifier (sd_domain_id sample_domain)" by (simp add: sample_domain_def sample_ids)
  ultimately obtain rs where rs: "onboarding_plan sample_registry [sample_profile] sample_domain = Inr rs"
    "mset (map (\<lambda>r. (on_capability_id r, on_value_score r)) rs) =
      mset (map (\<lambda>p. (vp_capability_id p, value_score p)) [sample_profile])"
    "\<forall>r \<in> set rs. 0 \<le> on_value_score r \<and> on_value_score r \<le> 90 \<and>
      (on_readiness r = CS_READY \<longrightarrow> on_missing_steps r = []) \<and>
      (on_request r \<noteq> None \<longleftrightarrow> on_readiness r \<noteq> CS_READY \<and> map_of sample_registry (on_capability_id r) \<noteq> None)"
    using onboarding_plan_ranked [OF sample_wf(7)] by blast
  from arg_cong [OF rs(2), of size] have "length rs = 1" by simp
  then obtain r where "rs = [r]" by (auto simp: length_Suc_conv)
  with rs show ?thesis by simp
qed

end
