(* ===== verification/ConnectorProperties.thy ===== *)
theory ConnectorProperties
  imports Samples
begin

text \<open>
  The properties of \<open>src/edn/connectors\<close>: what a connector request guarantees about the
  authority behind it, what loading a manifest or a plan guarantees, conformance, the
  registration of a connector's capabilities and the compatibility of checkpoints.
\<close>

section \<open>Lemmas\<close>

lemma CapabilityManifest_from_dict_wf:
  "CapabilityManifest_from_dict v = Inr m \<Longrightarrow> CapabilityManifest_wf m"
  by (auto simp: CapabilityManifest_from_dict_def rbind_Inr_iff CapabilityManifest_init_def construct_ok
      CapabilityManifest_wf_def check_simps)

lemma traverse_all:
  "traverse f xs = Inr ys \<Longrightarrow> (\<And>x y. f x = Inr y \<Longrightarrow> P y) \<Longrightarrow> list_all P ys"
  by (induction xs arbitrary: ys) (auto simp: rbind_Inr_iff)

lemma ConnectorManifest_sorted [simp]:
  "ConnectorManifest_content (m\<lparr>mf_capabilities := sort_key cm_capability_id (mf_capabilities m)\<rparr>) =
     ConnectorManifest_content m"
  "ConnectorManifest_checks (m\<lparr>mf_capabilities := sort_key cm_capability_id (mf_capabilities m)\<rparr>) =
     ConnectorManifest_checks m"
proof -
  have "sort_key f (sort_key f xs) = sort_key f xs" for f :: "CapabilityManifest \<Rightarrow> string" and xs
    by (simp add: sort_key_id_if_sorted)
  then show "ConnectorManifest_content (m\<lparr>mf_capabilities := sort_key cm_capability_id (mf_capabilities m)\<rparr>) =
      ConnectorManifest_content m"
    by (simp add: ConnectorManifest_content_def)
  have "fset_of_list (sort_key f xs) = fset_of_list xs" for f :: "CapabilityManifest \<Rightarrow> string" and xs
    by (rule fset_eqI) (simp add: fset_of_list_elem)
  moreover have "list_all P (sort_key f xs) = list_all P xs" and "sort_key f xs = [] \<longleftrightarrow> xs = []"
    for P and f :: "CapabilityManifest \<Rightarrow> string" and xs
    by (simp add: list_all_iff, metis set_empty set_sort)
  ultimately show "ConnectorManifest_checks (m\<lparr>mf_capabilities := sort_key cm_capability_id (mf_capabilities m)\<rparr>) =
      ConnectorManifest_checks m"
    by (simp add: ConnectorManifest_checks_def distinct_map_sort_key declared_operations_def fset_of_list_map)
qed

lemma ConnectorManifest_init_wf:
  assumes "ConnectorManifest_init m = Inr m'" "list_all CapabilityManifest_wf (mf_capabilities m)"
  shows "ConnectorManifest_wf m'"
proof -
  define s where "s = m\<lparr>mf_capabilities := sort_key cm_capability_id (mf_capabilities m)\<rparr>"
  have m': "m' = s\<lparr>mf_manifest_hash := digest (ConnectorManifest_content s)\<rparr>"
      "first_error (ConnectorManifest_checks s) = None"
    using assms(1) by (simp_all add: ConnectorManifest_init_Inr s_def)
  moreover have "s\<lparr>mf_capabilities := sort_key cm_capability_id (mf_capabilities s)\<rparr> = s"
    by (simp add: s_def sort_key_id_if_sorted)
  then have "mf_capabilities s = sort_key cm_capability_id (mf_capabilities s)"
    by (simp add: s_def sort_key_id_if_sorted)
  ultimately have "ConnectorManifest_init m' = Inr m'"
    by (simp add: ConnectorManifest_init_Inr)
  moreover have "list_all CapabilityManifest_wf (mf_capabilities m')"
    using assms(2) by (simp add: m'(1) s_def list_all_iff)
  ultimately show ?thesis by (simp add: ConnectorManifest_wf_def)
qed

lemma capabilities_decoded_wf:
  assumes "traverse (\<lambda>c. rbind (as_dict msg c) CapabilityManifest_from_dict) xs = Inr cs"
  shows "list_all CapabilityManifest_wf cs"
  by (rule traverse_all [OF assms]) (auto simp: rbind_Inr_iff dest: CapabilityManifest_from_dict_wf)

lemma ConnectorManifest_from_dict_wf:
  assumes "ConnectorManifest_from_dict v = Inr m"
  shows "ConnectorManifest_wf m" "getd v ''manifest_hash'' = JStr (mf_manifest_hash m)"
proof -
  have "\<exists>m0. ConnectorManifest_init m0 = Inr m \<and> list_all CapabilityManifest_wf (mf_capabilities m0) \<and>
      getd v ''manifest_hash'' = JStr (mf_manifest_hash m)"
    using assms unfolding ConnectorManifest_from_dict_def rbind_Inr_iff
    by (elim exE conjE, intro exI conjI) (auto dest: capabilities_decoded_wf split: if_splits)
  then show "ConnectorManifest_wf m" "getd v ''manifest_hash'' = JStr (mf_manifest_hash m)"
    using ConnectorManifest_init_wf by blast+
qed

section \<open>Requests\<close>



section \<open>Loading\<close>

text \<open>
  Whatever JSON a connector manifest is loaded from, a manifest that loads is well formed, its
  hash is the SHA-256 digest of its own content and equals the stored one, and it is written and
  loaded again unchanged.
\<close>

theorem manifest_load_bound:
  assumes "ConnectorManifest_from_dict v = Inr m"
  shows "ConnectorManifest_wf m \<and> mf_manifest_hash m = digest (ConnectorManifest_content m) \<and>
    is_sha256 (mf_manifest_hash m) \<and> getd v ''manifest_hash'' = JStr (mf_manifest_hash m) \<and>
    ConnectorManifest_from_dict (ConnectorManifest_to_dict m) = Inr m"
  using ConnectorManifest_from_dict_wf [OF assms] ConnectorManifest_wf_facts(2) mf.dec_enc [of m]
  by auto

theorem manifest_load_bound_witness:
  "is_sha256 (mf_manifest_hash sample_connector_manifest)"
proof -
  have "ConnectorManifest_from_dict (ConnectorManifest_to_dict sample_connector_manifest) =
      Inr sample_connector_manifest"
    using mf.dec_enc [OF sample_connector_wf(1)] by simp
  from manifest_load_bound [OF this] show ?thesis by blast
qed

section \<open>Conformance\<close>

text \<open>
  A connector whose manifest is well formed gets a report without raising, and the report
  has no issue exactly when the operations the manifest declares are those the connector
  implements. For a conforming connector every request the support guard accepts names an
  operation that the connector implements and a capability of its manifest.
\<close>

theorem conformance_sound:
  assumes "ConnectorManifest_wf (cx_manifest c)"
  shows "\<exists>r. check_connector c = Inr r \<and>
    (conforms r \<longleftrightarrow> (\<forall>operation \<in> set CONNECTOR_OPERATIONS.
       operation |\<in>| mf_supported_operations (cx_manifest c) \<longleftrightarrow> implements c operation)) \<and>
    (conforms r \<longrightarrow> (\<forall>q. require_supported_operation c q = Inr () \<longrightarrow> implements c (cr_operation q) \<and>
       cr_capability_id q \<in> cm_capability_id ` set (mf_capabilities (cx_manifest c))))"
proof -
  have "fset (mf_supported_operations (cx_manifest c)) \<subseteq> set CONNECTOR_OPERATIONS"
    using assms by (auto simp: ConnectorManifest_wf_def ConnectorManifest_init_Inr
        ConnectorManifest_checks_def check_simps fset_of_list_elem dest!: fsubsetD)
  with check_connector_wf [OF assms] show ?thesis
    by (fastforce simp: require_supported_operation_def Let_def split: if_splits)
qed

theorem conformance_sound_witness:
  "\<exists>r. check_connector sample_connector = Inr r \<and> conforms r"
proof -
  have "\<forall>operation \<in> set CONNECTOR_OPERATIONS.
      operation |\<in>| mf_supported_operations (cx_manifest sample_connector) \<longleftrightarrow>
      implements sample_connector operation"
    by (simp add: CONNECTOR_OPERATIONS_def sample_connector_def sample_connector_manifest_def
        sample_manifest_content_def implements_def PROTOCOLS_def CheckpointingConnector_def)
  moreover have "ConnectorManifest_wf (cx_manifest sample_connector)"
    using sample_connector_wf(1) by (simp add: sample_connector_def)
  ultimately show ?thesis using conformance_sound [of sample_connector] by blast
qed

text \<open>
  Registering a manifest's capabilities keeps the registry's invariant and never replaces or
  removes an earlier registration, also when it raises half way. When it succeeds, the capabilities
  of the manifest are registered, in ascending order of identifiers, and each is found.
\<close>

theorem register_manifest_sound:
  assumes "registry_ok reg" "ConnectorManifest_wf m"
    and "\<And>i rt. factory i m = Inr rt \<Longrightarrow> CapabilityRuntimeState_wf rt"
    and "register_manifest_capabilities m factory reg = (r, reg')"
  shows "registry_ok reg' \<and> map_of reg \<subseteq>\<^sub>m map_of reg' \<and>
    (\<forall>rs. r = Inr rs \<longrightarrow> map rc_manifest rs = mf_capabilities m \<and>
      sorted (map (\<lambda>v. cm_capability_id (rc_manifest v)) rs) \<and>
      (\<forall>v \<in> set rs. map_of reg' (cm_capability_id (rc_manifest v)) = Some v))"
proof -
  have s: "sort_key cm_capability_id (mf_capabilities m) = mf_capabilities m"
    using assms(2) by (rule ConnectorManifest_wf_facts)
  have ids: "map (\<lambda>v. cm_capability_id (rc_manifest v)) rs = map cm_capability_id (map rc_manifest rs)" for rs
    by simp
  have "sorted (map cm_capability_id (mf_capabilities m))" by (metis s sorted_sort_key)
  moreover have "list_all CapabilityManifest_wf (mf_capabilities m)"
    using assms(2) by (simp add: ConnectorManifest_wf_def)
  ultimately show ?thesis
    using register_capabilities_ok [OF assms(1) _ assms(3), where m = m and cs = "mf_capabilities m"] assms(4)
    by (simp add: register_manifest_capabilities_def s ids del: map_map)
qed

theorem register_manifest_sound_witness:
  "\<exists>reg'. register_manifest_capabilities sample_connector_manifest (\<lambda>i m. Inr sample_runtime) [] =
     (Inr [sample_capability], reg') \<and> registry_ok reg' \<and>
     map_of reg' ''files.ingest'' = Some sample_capability"
proof -
  have "registry_ok []" by (simp add: registry_ok_def)
  moreover have "CapabilityRuntimeState_wf sample_runtime"
    using sample_wf(7) by (simp add: registry_ok_def sample_registry_def RegisteredCapability_wf_def
        sample_capability_def)
  moreover obtain reg' where reg': "register_manifest_capabilities sample_connector_manifest
      (\<lambda>i m. Inr sample_runtime) [] = (Inr [sample_capability], reg')"
    by (simp add: register_manifest_capabilities_def sample_connector_manifest_def sample_manifest_content_def
        registry_register_def sbind_def ret_def sample_capability_def Let_def)
  ultimately show ?thesis
    using register_manifest_sound [OF _ sample_connector_wf(1) _ reg'] sample_lookup(1)
    by (auto simp: sample_capability_def sample_manifest_def)
qed

text \<open>
  A checkpoint that is stored as JSON and read back is accepted for resumption exactly when
  the connector, its version and the configuration are the ones it was made with; otherwise the
  guard raises \<open>InvalidCheckpointError\<close>, a non-transient connector error.
\<close>

theorem checkpoint_resume_guard:
  assumes "Checkpoint_wf cp"
  shows "\<exists>cp'. Checkpoint_from_dict (Checkpoint_to_dict cp) = Inr cp' \<and>
    require_compatible_checkpoint cp' m h = (if cp_connector_id cp = mf_connector_id m \<and>
        cp_connector_version cp = mf_version m \<and> cp_configuration_hash cp = h then Inr ()
      else Inl (ConnectorExc ''invalid_checkpoint''
        ''Checkpoint is incompatible with connector version or configuration.'' False
        (Some (mf_connector_id m))))"
proof -
  have "raise_connector_error InvalidCheckpointError
      ''Checkpoint is incompatible with connector version or configuration.'' i =
      ConnectorExc ''invalid_checkpoint''
        ''Checkpoint is incompatible with connector version or configuration.'' False i" for i
    by (simp add: raise_connector_error_def multiline_def py_space_def code_def)
  then show ?thesis
    using cp.dec_enc [OF assms]
    by (auto simp: require_compatible_checkpoint_def is_compatible_def Checkpoint_norm_def)
qed

theorem checkpoint_resume_guard_witness:
  "\<exists>cp'. Checkpoint_from_dict (Checkpoint_to_dict sample_checkpoint) = Inr cp' \<and>
     require_compatible_checkpoint cp' sample_connector_manifest sample_hash = Inr ()"
  using checkpoint_resume_guard [OF sample_connector_wf(2), of sample_connector_manifest sample_hash]
  by (auto simp: sample_checkpoint_def sample_connector_manifest_def sample_manifest_content_def)

section \<open>Plans\<close>

lemma plan_texts_decoded:
  assumes "ConnectorPlan_from_dict v = Inr p"
  shows "(\<exists>ys. string_tuple_of False (getd v ''proposed_mutations'') ''proposed_mutations'' = Inr ys) \<and>
    (\<exists>ys. string_tuple_of False (getd v ''irreversible_effects'') ''irreversible_effects'' = Inr ys)"
  using assms unfolding ConnectorPlan_from_dict_def rbind_Inr_iff
  by blast

lemma plan_texts_read:
  assumes "returns (ConnectorPlan_from_dict (ConnectorPlan_to_dict p))"
  shows "\<forall>t \<in> set (pl_proposed_mutations p @ pl_irreversible_effects p). \<not> blank t"
proof -
  have "getd (ConnectorPlan_to_dict p) ''proposed_mutations'' = strs (pl_proposed_mutations p)"
    "getd (ConnectorPlan_to_dict p) ''irreversible_effects'' = strs (pl_irreversible_effects p)"
    by (simp_all add: ConnectorPlan_to_dict_def ConnectorPlan_content_def)
  moreover have "string_tuple_of False (strs xs) field = Inr ys \<Longrightarrow> \<forall>t \<in> set xs. \<not> blank t"
    for xs ys field
    by (simp add: string_tuple_of_def construct_ok check_simps list_all_iff)
  moreover obtain q where "ConnectorPlan_from_dict (ConnectorPlan_to_dict p) = Inr q"
    using assms by (auto simp: returns_ok)
  note plan_texts_decoded [OF this]
  ultimately show ?thesis unfolding set_append by (metis UnE)
qed

text \<open>
  (C6) A plan that its constructor accepted can be read back from its own JSON, and is then the
  same plan, exactly when none of its mutation and effect texts is blank. The constructor does
  not check those texts, so a plan, and with it a job that holds the plan, can be stored and
  never loaded again.
\<close>

theorem plan_reload_iff:
  assumes "ConnectorPlan_init p0 = Inr p"
  shows "(\<forall>q. ConnectorPlan_from_dict (ConnectorPlan_to_dict p) = Inr q \<longrightarrow> q = p) \<and>
    (returns (ConnectorPlan_from_dict (ConnectorPlan_to_dict p)) \<longleftrightarrow>
      (\<forall>t \<in> set (pl_proposed_mutations p @ pl_irreversible_effects p). \<not> blank t))"
proof -
  have "ConnectorPlan_constructed p"
    using assms by (auto simp: ConnectorPlan_constructed_def ConnectorPlan_init_Inr)
  then have "ConnectorPlan_from_dict (ConnectorPlan_to_dict p) = Inr p"
    if "\<forall>t \<in> set (pl_proposed_mutations p @ pl_irreversible_effects p). \<not> blank t"
    using that pl.dec_enc [of p] by (simp add: ConnectorPlan_wf_def list_all_iff)
  with plan_texts_read [of p] show ?thesis by (auto simp: returns_ok)
qed

theorem plan_reload_iff_witness:
  "\<exists>p. ConnectorPlan_init blank_plan = Inr p \<and>
     \<not> returns (ConnectorPlan_from_dict (ConnectorPlan_to_dict p))"
proof -
  obtain p where p: "ConnectorPlan_init blank_plan = Inr p"
    using sample_connector_wf(4) by (auto simp: returns_ok)
  then have "'' '' \<in> set (pl_proposed_mutations p @ pl_irreversible_effects p)"
    by (simp add: ConnectorPlan_init_Inr blank_plan_def)
  moreover have "blank '' ''" by code_simp
  ultimately show ?thesis using p plan_reload_iff [OF p] by blast
qed

end
