(* ===== verification/JobProperties.thy ===== *)
theory JobProperties
  imports Samples
begin

text \<open>
  The properties of the durable job store and the job service: what every sequence of calls keeps,
  and what each call does.
\<close>

section \<open>Every sequence of calls\<close>



text \<open>
  The audit log is append-only: after any sequence of calls, the earlier events are a prefix
  of the log, unchanged and in order.
\<close>

theorem audit_append_only:
  assumes "store_ok s" "job_steps s s'"
  shows "prefix (st_events s) (st_events s')"
  using audit.steps_keep [OF assms(2), of "st_events s"] assms(1) by simp

theorem audit_append_only_witness:
  "prefix (st_events (store_with sample_job))
     (st_events (snd (pause ''job-1'' sample_now ''alice'' (store_with sample_job))))"
proof -
  have "job_steps (store_with sample_job) (snd (pause ''job-1'' sample_now ''alice'' (store_with sample_job)))"
    by (rule r_into_rtranclp, rule job_step.pause [OF sample_stamp]) (rule prod.collapse [symmetric])
  with audit_append_only [OF live_ok(1) [OF live_store_with [OF sample_job_wf(1)]]] show ?thesis by blast
qed

text \<open>
  (C13) A finished job never changes: once its row has a terminal status, no sequence of calls
  changes or removes the row.
\<close>

theorem terminal_frozen:
  assumes "store_ok s" "find_job i s = Some row" "terminal_row row" "job_steps s s'"
  shows "find_job i s' = Some row"
  using frozen.steps_keep [OF assms(4), of row i] assms(1-3) by simp

theorem terminal_frozen_witness:
  "find_job ''job-1'' (snd (run_next sample_worker sample_now (store_with (sample_job\<lparr>jb_status := CANCELLED\<rparr>)))) =
     Some (job_row_of (sample_job\<lparr>jb_status := CANCELLED\<rparr>))"
proof -
  let ?s = "store_with (sample_job\<lparr>jb_status := CANCELLED\<rparr>)"
  have "Job_wf (sample_job\<lparr>jb_status := CANCELLED\<rparr>)"
    using sample_job_wf(1) by (simp add: Job_wf_parts Job_init_iff)
  then have "store_ok ?s" by (rule live_ok(1) [OF live_store_with])
  moreover have "job_steps ?s (snd (run_next sample_worker sample_now ?s))"
    by (rule r_into_rtranclp, rule job_step.run [OF sample_worker_ok sample_stamp])
      (rule prod.collapse [symmetric])
  moreover have "find_job ''job-1'' ?s = Some (job_row_of (sample_job\<lparr>jb_status := CANCELLED\<rparr>))"
    by (simp add: sample_job_def)
  moreover have "terminal_row (job_row_of (sample_job\<lparr>jb_status := CANCELLED\<rparr>))"
    by (simp add: terminal_row_def TERMINAL_STATUSES_def)
  ultimately show ?thesis using terminal_frozen by blast
qed



section \<open>The store\<close>

text \<open>
  Every writing method of the store is atomic: if it raises, or if a claim returns nothing,
  the database is exactly as before, whatever statement failed.
\<close>

theorem writes_atomic:
  "(\<forall>x s'. store_create j e s = (Inl x, s') \<longrightarrow> s' = s) \<and>
   (\<forall>x s'. append_event e s = (Inl x, s') \<longrightarrow> s' = s) \<and>
   (\<forall>x s'. store_transition j expected e out err s = (Inl x, s') \<longrightarrow> s' = s) \<and>
   (\<forall>x s'. save_checkpoint j c e s = (Inl x, s') \<longrightarrow> s' = s) \<and>
   (\<forall>x s'. store_claim i w now e s = (Inl x, s') \<or> store_claim i w now e s = (Inr None, s') \<longrightarrow> s' = s)"
  using store_claim_effect [of i w now e s] store_create_effect [of j e s] append_event_effect [of e s]
    store_transition_effect [of j expected e out err s]
  by (fastforce simp: save_checkpoint_def throw_iff dest: transaction_Inl split: if_splits)

theorem writes_atomic_witness:
  "snd (store_transition sample_job [PLANNED] (event_of empty_store sample_job ''job_paused'' sample_now
     None None None None []) None None (store_with sample_job)) = store_with sample_job"
proof -
  have "fst (store_transition sample_job [PLANNED] e None None (store_with sample_job)) =
      Inl (RuntimeError ''job status changed concurrently'')" for e
    using live_ok(1) [OF live_store_with [OF sample_job_wf(1)]] js.of_val [of READY]
    by (simp add: store_transition_def transaction_def sbind_def select_def lift_def throw_def store_ok_def)
  then have "store_transition sample_job [PLANNED] e None None (store_with sample_job) =
      (Inl (RuntimeError ''job status changed concurrently''),
       snd (store_transition sample_job [PLANNED] e None None (store_with sample_job)))" for e
    by (metis prod.collapse)
  from writes_atomic [THEN conjunct2, THEN conjunct2, THEN conjunct1, rule_format, OF this] show ?thesis .
qed

text \<open>
  (C14) A job is claimed by one worker: after a claim returned a job, every further claim of it, by
  any worker at any time, returns nothing and changes nothing, until some other call has changed
  the job's status. The claimed job is stored as RUNNING with one more attempt.
\<close>

theorem claim_exclusive:
  assumes "store_ok s" "stamp now" "AuditEvent_wf e" "store_claim i w now e s = (Inr (Some j), s')"
    and "stamp now'"
  shows "store_claim i w' now' e' s' = (Inr None, s') \<and> store_get i s' = (Inr (Some (Job_norm j)), s') \<and>
    jb_status j = RUNNING \<and> jb_job_id j = i \<and>
    (\<exists>k. find_job i s = Some (job_row_of k) \<and> Job_wf k \<and> jb_status k \<in> {READY, RETRY_WAIT} \<and>
       jb_attempt_count j = jb_attempt_count k + 1)"
proof -
  from store_claim_effect [OF assms(4)] obtain row current where c: "find_job i s = Some row"
      "claim_ready now row" "Job_from_dict (jo_payload row) = Inr current" "claimed_job current now = Inr j"
    by auto
  then obtain k where k: "Job_wf k" "row = job_row_of k" "current = Job_norm k"
    using find_job_Some [OF c(1)] store_ok_row [OF assms(1)] by (metis sum.inject(2))
  have k': "jb_status k \<in> {READY, RETRY_WAIT}" using c(2) unfolding claim_ready_def k(2) job_row_of_sel JobStatus_value_inj by blast
  have j: "jb_attempt_count j = jb_attempt_count k + 1"
    using c(4) k(3) by (auto simp: claimed_job_def Job_init_Inr Job_norm_def)
  from store_claim_ok [OF assms(1-4)] have s': "store_ok s'" "Job_wf j" "jb_status j = RUNNING" "jb_job_id j = i"
      "find_job i s' = Some (job_row_of j)"
    using find_job_commit find_job_None [of i s] c(1) by auto
  have "store_get i s' = (Inr (Some (Job_norm j)), s')"
    using store_get_ok [OF s'(1), of i] s'(5) job_row_of_norm [OF _ _ s'(2)] by auto
  moreover have "store_claim i w' now' e' s' = (Inr None, s')"
    using store_claim_refused [OF s'(1) assms(5) s'(5)] s'(3) by simp
  ultimately show ?thesis using s' c(1) k k' j by auto
qed

theorem claim_exclusive_witness:
  "\<exists>j s'. store_claim ''job-1'' ''worker-1'' sample_now
       (event_of empty_store sample_job ''job_claimed'' sample_now None None None None []) (store_with sample_job) =
       (Inr (Some j), s') \<and>
     store_claim ''job-1'' ''worker-2'' sample_now
       (event_of s' sample_job ''job_claimed'' sample_now None None None None []) s' = (Inr None, s')"
proof -
  let ?e = "event_of empty_store sample_job ''job_claimed'' sample_now None None None None []"
  note l = live_store_with [OF sample_job_wf(1)]
  have "AuditEvent_wf ?e" "''event:'' @ st_uuid empty_store 0 \<notin> er_event_id ` set (st_events (store_with sample_job))"
    using make_event_run(2) [OF live_samples(1), of sample_job "''job_claimed''" sample_now None None "[]"]
    by (simp_all add: sample_job_ids sample_ids sample_stamp event_type_ids)
  moreover have "claim_ready sample_now (job_row_of sample_job)"
    by (simp add: claim_ready_def)
  ultimately obtain j s' where claim: "store_claim ''job-1'' ''worker-1'' sample_now ?e (store_with sample_job) =
      (Inr (Some j), s')"
    using store_claim_run [OF live_ok(1,2) [OF l] sample_stamp, of ?e "''job-1''" sample_job "''worker-1''"]
      sample_job_wf(1) by auto
  with claim_exclusive [OF live_ok(1) [OF l] sample_stamp \<open>AuditEvent_wf ?e\<close> claim sample_stamp]
  show ?thesis by blast
qed

text \<open>
  The history of a job is complete and ordered: reading it never raises on a store that
  satisfies the invariant and returns exactly the job's events, in the order in which they were
  committed, with their timestamps read as UTC.
\<close>

theorem history_complete:
  assumes "store_ok s"
  shows "\<exists>es. history i s = (Inr (map AuditEvent_norm es), s) \<and>
    map AuditEvent_to_dict es = map er_payload (filter (\<lambda>r. er_job_id r = i) (st_events s)) \<and>
    (\<forall>e \<in> set es. ae_job_id e = i)"
proof -
  let ?rows = "filter (\<lambda>r. er_job_id r = i) (st_events s)"
  have ev: "sorted_wrt (<) (map er_sequence (st_events s))"
    "\<forall>r \<in> set (st_events s). \<exists>e. AuditEvent_wf e \<and> r = event_row_of (er_sequence r) (isoformat (ae_timestamp e)) e"
    using assms by (auto simp: store_ok_def events_ok_def)
  have "sorted_wrt (\<lambda>a b. er_sequence a \<le> er_sequence b) (st_events s)"
    by (rule sorted_wrt_mono_rel [OF _ ev(1) [unfolded sorted_wrt_map]]) simp
  then have "sorted (map er_sequence ?rows)" by (simp add: sorted_map sorted_wrt_filter)
  then have sorted: "sort_key er_sequence ?rows = ?rows" by (rule sort_key_id_if_sorted)
  obtain g where g: "\<And>r. r \<in> set (st_events s) \<Longrightarrow> AuditEvent_wf (g r) \<and>
      r = event_row_of (er_sequence r) (isoformat (ae_timestamp (g r))) (g r)"
    using ev(2) by metis
  have pay: "er_payload r = AuditEvent_to_dict (g r)" "er_job_id r = ae_job_id (g r)"
    if "r \<in> set (st_events s)" for r
    using g [OF that] by (metis event_row_of_sel(5), metis event_row_of_sel(3))
  have "traverse (\<lambda>r. AuditEvent_from_dict (er_payload r)) ?rows = Inr (map (AuditEvent_norm \<circ> g) ?rows)"
    by (rule traverse_Inr) (use g pay in \<open>auto simp: AuditEvent_decode\<close>)
  then have "history i s = (Inr (map AuditEvent_norm (map g ?rows)), s)"
    using assms sorted by (simp add: history_def sbind_def select_def store_ok_def lift_def)
  moreover have "map AuditEvent_to_dict (map g ?rows) = map er_payload ?rows" using pay by simp
  moreover have "\<forall>e \<in> set (map g ?rows). ae_job_id e = i" using pay(2) by auto
  ultimately show ?thesis by blast
qed

theorem history_complete_witness: "history ''job-1'' (store_with sample_job) = (Inr [], store_with sample_job)"
  using history_complete [OF live_ok(1) [OF live_store_with [OF sample_job_wf(1)]], of "''job-1''"] by auto



section \<open>The service\<close>

text \<open>
  Creation on a live store succeeds exactly for a new identifier in a pre-execution status.
  It then stores the job, so that reading it returns it, appends the creation event (and the plan
  event of a job with a plan), and leaves all other rows alone; otherwise no table changes.
\<close>

theorem create_then_get:
  assumes "live 2 s" "Job_wf j" "pred_option valid_identifier actor"
  shows "if jb_status j \<in> {PLANNED, AWAITING_APPROVAL, READY} \<and> find_job (jb_job_id j) s = None
    then \<exists>s'. service_create j actor s = (Inr (), s') \<and>
      store_get (jb_job_id j) s' = (Inr (Some (Job_norm j)), s') \<and>
      st_jobs s' = st_jobs s @ [job_row_of j] \<and> st_checkpoints s' = st_checkpoints s \<and>
      st_attempts s' = st_attempts s \<and> (\<exists>evs. st_events s' = st_events s @ evs \<and>
        map er_event_type evs = ''job_created'' # (if jb_plan j = None then [] else [''plan_bound'']))
    else \<exists>e s'. service_create j actor s = (Inl e, s') \<and> st_jobs s' = st_jobs s \<and>
      st_checkpoints s' = st_checkpoints s \<and> st_attempts s' = st_attempts s \<and> st_events s' = st_events s"
proof (cases "initial_status (jb_status j) \<and> jb_job_id j \<notin> job_ids s")
  case True
  with service_create_run [of 0, OF _ assms(2,3), of s] assms(1) obtain s' evs where s':
      "service_create j actor s = (Inr (), s')" "live 0 s'" "st_jobs s' = st_jobs s @ [job_row_of j]"
      "st_checkpoints s' = st_checkpoints s" "st_attempts s' = st_attempts s" "st_events s' = st_events s @ evs"
      "map er_event_type evs = ''job_created'' # (if jb_plan j = None then [] else [''plan_bound''])"
    by (auto simp: numeral_2_eq_2)
  have "find_job (jb_job_id j) s = None" using True by (simp add: find_job_None)
  then have "find_job (jb_job_id j) s' = Some (job_row_of j)"
    using s'(3) by (simp add: find_job_def find_append_row)
  then have "store_get (jb_job_id j) s' = (Inr (Some (Job_norm j)), s')"
    using store_get_ok [OF live_ok(1) [OF s'(2)], of "jb_job_id j"] job_row_of_norm [OF _ _ assms(2)] by auto
  with True s' show ?thesis by (auto simp: initial_status_def find_job_None)
next
  case False
  with service_create_run [of 0, OF _ assms(2,3), of s] assms(1) show ?thesis
    by (auto simp: numeral_2_eq_2 initial_status_def find_job_None)
qed

theorem create_then_get_witness:
  "\<exists>s'. service_create planned_job None empty_store = (Inr (), s') \<and>
     store_get ''job-1'' s' = (Inr (Some (Job_norm planned_job)), s')"
proof -
  have "live 2 empty_store" using live_mono [OF live_samples(1)] by (simp add: numeral_2_eq_2)
  moreover have "find_job ''job-1'' empty_store = None" by (simp add: find_job_None)
  ultimately show ?thesis using create_then_get [of empty_store planned_job None] sample_job_wf(2) by auto
qed

text \<open>
  Pause, cancel and resume on a live store succeed exactly from the statuses they name, change
  nothing of the job but its status and update time, append exactly their own event, and touch no
  other job; from any other status, or for an unknown job, they raise and change nothing.
\<close>

theorem control_commands:
  assumes "live 1 s" "stamp now" "valid_identifier a"
    and "(run, sources, target, t) \<in>
      {(pause i now a, {READY, RETRY_WAIT}, PAUSED, ''job_paused''),
       (cancel i now a, {PLANNED, AWAITING_APPROVAL, READY, PAUSED, RETRY_WAIT, BLOCKED}, CANCELLED, ''job_cancelled''),
       (resume i now a, {PAUSED, BLOCKED}, READY, ''job_resumed'')}"
  shows "if \<exists>st \<in> sources. status_text i s = Some (JobStatus_value st)
    then \<exists>k s'. find_job i s = Some (job_row_of k) \<and>
      run s = (Inr (Job_norm k\<lparr>jb_status := target, jb_updated_at := now\<rparr>), s') \<and>
      updated 0 s s' (Job_norm k\<lparr>jb_status := target, jb_updated_at := now\<rparr>) t
    else \<exists>e. run s = (Inl e, s)"
proof -
  note run = simple_transition_run [OF assms(1) [unfolded One_nat_def] assms(2,3)]
  have member: "status_text i s \<in> (\<lambda>st. Some (JobStatus_value st)) ` set xs \<longleftrightarrow>
      (\<exists>st \<in> set xs. status_text i s = Some (JobStatus_value st))" for xs by blast
  from assms(4) consider "run = pause i now a" "sources = set [READY, RETRY_WAIT]" "target = PAUSED" "t = ''job_paused''"
    | "run = cancel i now a" "sources = set [PLANNED, AWAITING_APPROVAL, READY, PAUSED, RETRY_WAIT, BLOCKED]"
        "target = CANCELLED" "t = ''job_cancelled''"
    | "run = resume i now a" "sources = set [PAUSED, BLOCKED]" "target = READY" "t = ''job_resumed''" by auto
  then show ?thesis
  proof cases
    case 1
    show ?thesis unfolding 1
      by (rule run [OF event_type_ids(4), of PAUSED i "[READY, RETRY_WAIT]", unfolded member,
        folded pause_def]) simp
  next
    case 2
    show ?thesis unfolding 2
      by (rule run [OF event_type_ids(5), of CANCELLED i
          "[PLANNED, AWAITING_APPROVAL, READY, PAUSED, RETRY_WAIT, BLOCKED]", unfolded member,
        folded cancel_def]) simp
  next
    case 3
    show ?thesis unfolding 3
      by (rule run [OF event_type_ids(6), of READY i "[PAUSED, BLOCKED]", unfolded member,
        folded resume_def]) simp
  qed
qed

theorem control_commands_witness:
  "\<exists>u s'. pause ''job-1'' sample_now ''alice'' (store_with sample_job) = (Inr u, s') \<and> jb_status u = PAUSED"
proof -
  have "live 1 (store_with sample_job)"
    using live_mono [OF live_mono [OF live_samples(2) [OF sample_job_wf(1)]]] by simp
  then show ?thesis
    using control_commands [OF _ sample_stamp sample_ids(7), of "store_with sample_job"
        "pause ''job-1'' sample_now ''alice''" "{READY, RETRY_WAIT}" PAUSED "''job_paused''" "''job-1''"]
    by (auto simp: status_text_def)
qed

end
