(* ===== verification/WorkerSpec.thy ===== *)
theory WorkerSpec
  imports JobRuns PolicySpec
begin

text \<open>
  What the worker promises, stated over the declarative policy: when a job is authorised to run,
  and what each outcome of a run writes. The reauthorization and the outcomes of
  \<open>src/edn/jobs/worker.py\<close> are shown to implement it.
\<close>

section \<open>Authority of a job\<close>

definition permission_of :: "Job \<Rightarrow> PermissionRequest" where
  "permission_of j =
     \<lparr>pr_request_id = ''job:'' @ jb_job_id j, pr_principal = jb_principal j,
      pr_purpose = jb_purpose j, pr_capability_id = jb_capability_id j,
      pr_operation = jb_operation j, pr_security_domain = jb_security_domain j,
      pr_classification = jb_classification j, pr_resource_scope = jb_resource_scope j,
      pr_requested_duration_seconds = None\<rparr>"

definition approves :: "ApprovalBinding \<Rightarrow> ConnectorPlan \<Rightarrow> datetime \<Rightarrow> bool" where
  "approves b plan now =
     (ab_plan_id b = pl_plan_id plan \<and> ab_plan_hash b = pl_plan_hash plan \<and> ab_scope b = pl_scope plan \<and>
      (\<forall>e. ab_expires_at b = Some e \<longrightarrow> instant now < instant e))"

definition plan_approved :: "Job \<Rightarrow> datetime \<Rightarrow> bool" where
  \<comment> \<open>a plan that requires approval fits the job and is approved, unchanged and in time\<close>
  "plan_approved j now = (\<forall>plan. jb_plan j = Some plan \<and> pl_approval_required plan \<longrightarrow>
     pl_scope plan = jb_resource_scope j \<and>
     pl_configuration_hash plan \<in> {None, Some (jb_configuration_hash j)} \<and>
     (\<exists>b. jb_approval j = Some b \<and> approves b plan now))"

definition bound_capability :: "registry \<Rightarrow> Job \<Rightarrow> bool" where
  "bound_capability reg j = (\<exists>c. map_of reg (jb_capability_id j) = Some c \<and>
     cm_connector_id (rc_manifest c) = jb_connector_id j \<and>
     cm_version (rc_manifest c) = jb_connector_version j)"

definition job_authorised :: "registry \<Rightarrow> PolicySet \<Rightarrow> Job \<Rightarrow> datetime \<Rightarrow> bool" where
  "job_authorised reg p j now = (bound_capability reg j \<and> plan_approved j now \<and>
     (\<exists>c. map_of reg (jb_capability_id j) = Some c \<and>
        usable_now c (jb_operation j) (jb_security_domain j)) \<and>
     policy_grants p (permission_of j) now)"

definition requestable :: "Job \<Rightarrow> bool" where
  \<comment> \<open>the permission request of the job can be constructed\<close>
  "requestable j = (length (jb_job_id j) \<le> 124 \<and>
     tenant_admits (pc_tenant_id (jb_principal j)) (jb_security_domain j))"

lemma job_request_of: "job_request j = PermissionRequest_init (permission_of j)"
  by (simp add: job_request_def permission_of_def)

lemma permission_of_sel [simp]:
  "pr_capability_id (permission_of j) = jb_capability_id j" "pr_operation (permission_of j) = jb_operation j"
  "pr_security_domain (permission_of j) = jb_security_domain j"
  by (simp_all add: permission_of_def)

lemma permission_of_ok:
  assumes "Job_wf j"
  shows "returns (PermissionRequest_init (permission_of j)) \<longleftrightarrow> requestable j"
    and "requestable j \<Longrightarrow> PermissionRequest_wf (permission_of j)"
proof -
  have "valid_identifier ''job''" by code_simp
  moreover have j: "valid_identifier (jb_job_id j)" "valid_identifier (jb_capability_id j)"
      "valid_identifier (jb_operation j)" "list_all valid_identifier (jb_resource_scope j)"
    using assms by (simp_all add: Job_wf_def Job_init_iff)
  ultimately have "valid_identifier (''job'' @ '':'' @ jb_job_id j) \<longleftrightarrow> length (jb_job_id j) \<le> 124"
    by (simp only: valid_join) simp
  with j show *: "returns (PermissionRequest_init (permission_of j)) \<longleftrightarrow> requestable j"
    by (simp add: PermissionRequest_init_iff permission_of_def requestable_def)
  show "PermissionRequest_wf (permission_of j)" if "requestable j"
    using that * assms by (simp add: PermissionRequest_wf_def) (simp add: permission_of_def Job_wf_parts)
qed

lemma ApprovalBinding_matches_iff:
  assumes "ApprovalBinding_wf b" "stamp now"
  shows "ApprovalBinding_matches b plan now = Inr (approves b plan now)"
  using assms
  by (auto simp: ApprovalBinding_matches_def approves_def ApprovalBinding_wf_def ApprovalBinding_init_def
      check_simps dt_less_def stamp_def split: option.splits)

lemma plan_refusal_iff:
  assumes "Job_wf j" "stamp now"
  shows "\<exists>r. (case jb_plan j of None \<Rightarrow> Inr None
      | Some plan \<Rightarrow> if pl_approval_required plan then plan_refusal j plan now else Inr None) = Inr r \<and>
    (r = None \<longleftrightarrow> plan_approved j now) \<and> (\<forall>a. r = Some a \<longrightarrow> \<not> ra_usable a)"
proof (cases "\<exists>plan. jb_plan j = Some plan \<and> pl_approval_required plan")
  case True
  then obtain plan where p: "jb_plan j = Some plan" "pl_approval_required plan" by blast
  have b: "ApprovalBinding_wf b" if "jb_approval j = Some b" for b
    using assms(1) that by (simp add: Job_wf_parts)
  show ?thesis
  proof (cases "jb_approval j")
    case None
    with p show ?thesis by (simp add: plan_refusal_def plan_approved_def refusal_def)
  next
    case (Some a)
    with p show ?thesis
      using ApprovalBinding_matches_iff [OF b [OF Some] assms(2)]
      by (auto simp: plan_refusal_def plan_approved_def refusal_def)
  qed
next
  case False
  then show ?thesis by (auto simp: plan_approved_def split: option.splits)
qed

lemma reauthorize_iff:
  assumes "registry_ok reg" "PolicySet_wf p" "Job_wf j" "stamp now"
  shows "returns (reauthorize_job j reg p now) \<longleftrightarrow>
      (bound_capability reg j \<and> plan_approved j now \<longrightarrow> requestable j)"
    and "reauthorize_job j reg p now = Inr a \<Longrightarrow> ra_usable a \<longleftrightarrow> job_authorised reg p j now"
    and "reauthorize_job j reg p now = Inr a \<Longrightarrow> ra_usable a \<Longrightarrow> \<exists>u. ra_authority a = Some u \<and>
      evaluate_capability_use reg p (permission_of j) now = Inr u \<and> CapabilityUseDecision_is_usable u"
proof -
  let ?r = "reauthorize_job j reg p now"
  obtain r where r: "(case jb_plan j of None \<Rightarrow> Inr None
      | Some plan \<Rightarrow> if pl_approval_required plan then plan_refusal j plan now else Inr None) = Inr r"
      "r = None \<longleftrightarrow> plan_approved j now" "\<forall>a. r = Some a \<longrightarrow> \<not> ra_usable a"
    using plan_refusal_iff [OF assms(3,4)] by blast
  have "valid_identifier (jb_capability_id j)" using assms(3) by (simp add: Job_wf_def Job_init_iff)
  then have reg: "registry_get reg (jb_capability_id j) = Inr (map_of reg (jb_capability_id j))"
    by (simp add: registry_get_def check_simps construct_ok)
  have late: "?r = (case r of Some x \<Rightarrow> Inr x | None \<Rightarrow> authorize_job j reg p now)" if "bound_capability reg j"
    using that assms(4) reg r(1) by (auto simp: reauthorize_job_def bound_capability_def stamp_def)
  have early: "\<exists>x. ?r = Inr x \<and> \<not> ra_usable x" if "\<not> bound_capability reg j"
    using that assms(4) reg
    by (auto simp: reauthorize_job_def bound_capability_def stamp_def refusal_def split: option.splits)
  have auth: "\<exists>x u. authorize_job j reg p now = Inr x \<and> ra_authority x = Some u \<and>
      evaluate_capability_use reg p (permission_of j) now = Inr u \<and>
      ra_usable x = CapabilityUseDecision_is_usable u \<and>
      (ra_usable x \<longleftrightarrow> (\<exists>c. map_of reg (jb_capability_id j) = Some c \<and>
        usable_now c (jb_operation j) (jb_security_domain j)) \<and> policy_grants p (permission_of j) now)"
    if "requestable j"
  proof -
    have "job_request j = Inr (permission_of j)"
      using permission_of_ok(1) [OF assms(3)] that by (simp add: job_request_of PermissionRequest_init_Inr)
    with use_ready_iff [OF assms(1,2) permission_of_ok(2) [OF assms(3) that] assms(4)] show ?thesis
      by (auto simp: authorize_job_def)
  qed
  have raise: "\<exists>e. authorize_job j reg p now = Inl e" if "\<not> requestable j"
    using permission_of_ok(1) [OF assms(3)] that
    by (cases "PermissionRequest_init (permission_of j)") (auto simp: authorize_job_def job_request_of)
  show "returns ?r \<longleftrightarrow> (bound_capability reg j \<and> plan_approved j now \<longrightarrow> requestable j)"
    using early late auth raise r(2) by (cases "bound_capability reg j"; cases r; cases "requestable j") auto
  show "ra_usable a \<longleftrightarrow> job_authorised reg p j now" if "?r = Inr a"
    using early late auth raise r(2,3) that
    by (cases "bound_capability reg j"; cases r; cases "requestable j") (auto simp: job_authorised_def)
  show "\<exists>u. ra_authority a = Some u \<and> evaluate_capability_use reg p (permission_of j) now = Inr u \<and>
      CapabilityUseDecision_is_usable u" if "?r = Inr a" "ra_usable a"
    using early late auth raise r(2,3) that
    by (cases "bound_capability reg j"; cases r; cases "requestable j") auto
qed

section \<open>Outcomes\<close>

definition safe_text :: "string \<Rightarrow> bool" where
  "safe_text t = (\<not> blank t \<and> \<not> multiline t \<and> length t \<le> 512)"

lemma JobError_init_iff:
  "returns (JobError_init e) \<longleftrightarrow> valid_identifier (je_code e) \<and> safe_text (je_explanation e)"
  "JobError_init e = Inr e' \<longleftrightarrow> e' = e \<and> returns (JobError_init e)"
  by (auto simp: JobError_init_def check_simps safe_text_def)

lemma JobError_wf_iff: "JobError_wf e \<longleftrightarrow> valid_identifier (je_code e) \<and> safe_text (je_explanation e)"
  by (simp add: JobError_wf_def JobError_init_iff)

lemma block_run:
  assumes "live (Suc n) s" "stamp now" "valid_identifier (wk_worker_id w)"
    and "find_job (jb_job_id k) s = Some (job_row_of k)" "Job_wf k" "jb_status k \<in> {READY, RETRY_WAIT}"
  shows "if valid_identifier reason \<and> safe_text expl
    then \<exists>u s'. block w (Job_norm k) reason expl now s = (Inr u, s') \<and> jb_status u = BLOCKED \<and>
      jb_job_id u = jb_job_id k \<and> updated n s s' u ''job_blocked''
    else \<exists>e. block w (Job_norm k) reason expl now s = (Inl e, s)"
proof -
  let ?err = "\<lparr>je_code = reason, je_explanation = expl, je_retryable = False\<rparr>"
  let ?u = "Job_norm k\<lparr>jb_status := BLOCKED, jb_error := Some ?err, jb_updated_at := now\<rparr>"
  show ?thesis
  proof (cases "valid_identifier reason \<and> safe_text expl")
    case True
    then have err: "JobError_init ?err = Inr ?err" "JobError_wf ?err"
      by (simp_all add: JobError_init_iff JobError_wf_iff)
    then have u: "Job_wf ?u"
      using Job_wf_norm [OF assms(5)] assms(2) by (auto simp: Job_wf_parts Job_init_iff stamp_def)
    have "jb_status k \<in> set [READY, RETRY_WAIT]" using assms(6) by simp
    from finish_run [OF assms(1) u event_type_ids(8) assms(2), of "Some (wk_worker_id w)" "Some reason" "[]"
        "job_row_of k", OF _ _ _ _ _ _ this, of "Some (jb_status k)" "Some BLOCKED" None None]
      True err assms(3,4) show ?thesis by (auto simp: block_def sbind_def lift_def)
  next
    case False
    then have "\<not> returns (JobError_init ?err)" by (simp add: JobError_init_iff)
    then obtain e where "JobError_init ?err = Inl e" by (cases "JobError_init ?err") auto
    then have "block w (Job_norm k) reason expl now s = (Inl e, s)"
      by (simp add: block_def sbind_def lift_def throw_def)
    with False show ?thesis by auto
  qed
qed

lemma add_seconds_iff:
  assumes "stamp now"
  shows "add_seconds now x = Inr d \<Longrightarrow> stamp d \<and> utcoffset d = utcoffset now \<and>
      instant d = instant now + round_half_even (x * 1000000)"
  using assms by (cases now) (auto simp: add_seconds_def Let_def stamp_def instant_def split: if_splits)

lemma handle_error_run:
  assumes "live (Suc n) s" "stamp now" "valid_identifier (wk_worker_id w)" "Job_wf j"
    and "find_job (jb_job_id j) s = Some (job_row_of j)" "jb_status j = RUNNING" "1 \<le> jb_attempt_count j"
    and "valid_identifier ec" "safe_text expl"
  defines "next \<equiv> add_seconds now (rp_base_delay_seconds (jb_retry_policy j) * 2 ^ nat (jb_attempt_count j - 1))"
  shows "if is_retryable j ec tr \<and> \<not> returns next then \<exists>e. handle_connector_error w j ec expl tr now s = (Inl e, s)
    else \<exists>u s'. handle_connector_error w j ec expl tr now s = (Inr u, s') \<and> jb_job_id u = jb_job_id j \<and>
      jb_error u = Some \<lparr>je_code = ec, je_explanation = expl, je_retryable = is_retryable j ec tr\<rparr> \<and>
      updated n s s' u (if is_retryable j ec tr then ''retry_scheduled'' else ''job_failed'') \<and>
      (if is_retryable j ec tr then jb_status u = RETRY_WAIT \<and> (\<exists>d. next = Inr d \<and> jb_next_retry_at u = Some d)
       else jb_status u = FAILED \<and> jb_completed_at u = Some now)"
proof -
  let ?b = "is_retryable j ec tr"
  let ?err = "\<lparr>je_code = ec, je_explanation = expl, je_retryable = ?b\<rparr>"
  let ?t = "if ?b then ''retry_scheduled'' else ''job_failed''"
  have err: "JobError_init ?err = Inr ?err" "JobError_wf ?err"
    using assms(8,9) by (simp_all add: JobError_init_iff JobError_wf_iff)
  have delay: "rbind (delay_for_attempt (jb_retry_policy j) (jb_attempt_count j)) (add_seconds now) = next"
    using assms(7) by (simp add: delay_for_attempt_def next_def)
  have t: "valid_identifier ?t" using event_type_ids by simp
  have fin: "\<exists>s'. handle_connector_error w j ec expl tr now s = (Inr u, s') \<and> updated n s s' u ?t"
    if u: "error_outcome j ?b ?err now = Inr u" "Job_wf u" "jb_job_id u = jb_job_id j" for u
  proof -
    have "Job_init u = Inr u" using u(2) by (simp add: Job_init_Inr Job_wf_def)
    with finish_run [OF assms(1) u(2) t assms(2), of "Some (wk_worker_id w)" "Some ec" "[]" "job_row_of j"
        RUNNING "[RUNNING]" "Some RUNNING" "Some (jb_status u)" "Some (if ?b then ''retry'' else ''failed'')" "Some ec"]
      assms(3,5,6,8) u err(1) show ?thesis
      by (auto simp: handle_connector_error_def Let_def sbind_def lift_def)
  qed
  show ?thesis
  proof (cases "?b")
    case True
    show ?thesis
    proof (cases "next")
      case (Inl e)
      with True err delay show ?thesis
        by (simp add: handle_connector_error_def sbind_def lift_def throw_def error_outcome_def)
    next
      case (Inr d)
      let ?u = "j\<lparr>jb_status := RETRY_WAIT, jb_error := Some ?err, jb_next_retry_at := Some d, jb_updated_at := now\<rparr>"
      have "stamp d" using add_seconds_iff(1) [OF assms(2)] Inr by (auto simp: next_def)
      then have u: "Job_wf ?u" using assms(2,4) err(2) by (auto simp: Job_wf_parts Job_init_iff stamp_def)
      then have "error_outcome j ?b ?err now = Inr ?u"
        using True delay Inr by (simp add: error_outcome_def Job_init_Inr Job_wf_def)
      from fin [OF this u] True Inr show ?thesis by auto
    qed
  next
    case False
    let ?u = "j\<lparr>jb_status := FAILED, jb_error := Some ?err, jb_updated_at := now, jb_completed_at := Some now\<rparr>"
    have u: "Job_wf ?u" using assms(2,4) err(2) by (auto simp: Job_wf_parts Job_init_iff stamp_def)
    then have "error_outcome j ?b ?err now = Inr ?u"
      using False by (simp add: error_outcome_def Job_init_Inr Job_wf_def)
    from fin [OF this u] False show ?thesis by auto
  qed
qed

lemma completed_progress_iff:
  assumes "JobProgress_wf (jb_progress j)" "JobResultRef_wf ref"
  shows "returns (completed_progress j ref) \<longleftrightarrow>
    (\<forall>n. jp_total_items (jb_progress j) = Some n \<longrightarrow> n \<noteq> 0 \<longrightarrow>
       jr_item_count ref \<le> n \<and> jp_processed_items (jb_progress j) \<le> n) \<and>
    (jp_total_items (jb_progress j) \<in> {None, Some 0} \<longrightarrow> jp_processed_items (jb_progress j) \<le> jr_item_count ref)"
proof -
  have "valid_identifier ''completed''" by code_simp
  with assms show ?thesis
    by (auto simp: completed_progress_def JobProgress_init_def JobProgress_wf_def JobResultRef_wf_def
        JobResultRef_init_def check_simps split: option.splits)
qed

section \<open>The candidate loop\<close>

definition runnable :: "worker \<Rightarrow> Job \<Rightarrow> datetime \<Rightarrow> bool" where
  \<comment> \<open>the worker has the connector in the configuration of the job, and the job is authorised\<close>
  "runnable w j now = (worker_connector w (jb_connector_id j) \<noteq> None \<and>
     map_of (wk_configuration_hashes w) (jb_connector_id j) = Some (jb_configuration_hash j) \<and>
     job_authorised (wk_registry w) (wk_policy w) j now)"

lemma make_event_effect: "make_event j t now a p n r md s = (x, s') \<Longrightarrow> s' = drawn s"
  by (auto simp: make_event_def uuid4_hex_def sbind_def lift_def drawn_def split: sum.splits)

lemma store_checkpoint_state: "store_checkpoint i s = (x, s') \<Longrightarrow> s' = s"
  by (auto simp: store_checkpoint_def sbind_def select_def lift_def throw_def split: if_splits sum.splits)

definition left_alone :: "store \<Rightarrow> store \<Rightarrow> bool" where
  "left_alone s s' = (st_jobs s' = st_jobs s \<and> st_checkpoints s' = st_checkpoints s \<and>
     st_attempts s' = st_attempts s \<and> st_events s' = st_events s)"

lemma left_alone_simps [simp]: "left_alone s s" "left_alone s (drawn s)"
  by (simp_all add: left_alone_def)

lemma left_alone_view: "left_alone s s' \<Longrightarrow> job_view i s' = job_view i s"
  by (simp add: left_alone_def job_view_def find_job_def)

lemma left_alone_trans: "left_alone s t \<Longrightarrow> left_alone t u \<Longrightarrow> left_alone s u"
  by (simp add: left_alone_def)

lemma block_effect:
  assumes "block w j reason expl now s = (r, s')"
  shows "left_alone s s' \<and> (\<exists>e. r = Inl e) \<or> (\<exists>u. r = Inr u) \<and> st_attempts s' = st_attempts s \<and>
    st_checkpoints s' = st_checkpoints s \<and> status_text (jb_job_id j) s' = Some (JobStatus_value BLOCKED)"
proof -
  consider (raised) e where "r = Inl e" "s' = s \<or> s' = drawn s"
    | (stored) u e where "r = Inr u" "jb_job_id u = jb_job_id j" "jb_status u = BLOCKED"
        "store_transition u [READY, RETRY_WAIT] e None None (drawn s) = (Inr (), s')"
  proof -
    have t: "(\<exists>x. q = Inl x \<and> s2 = drawn s) \<or> q = Inr ()"
      if "store_transition u [READY, RETRY_WAIT] e None None (drawn s) = (q, s2)" for u e q s2
      using store_transition_effect [OF that] by auto
    show ?thesis
    proof (cases r)
      case (Inl e)
      with assms show ?thesis
        by (intro that(1)) (auto simp: block_def stm_iffs dest!: make_event_effect dest: t)
    next
      case (Inr u)
      with assms obtain err e where "u = j\<lparr>jb_status := BLOCKED, jb_error := Some err, jb_updated_at := now\<rparr>"
          "store_transition u [READY, RETRY_WAIT] e None None (drawn s) = (Inr (), s')"
        by (auto simp: block_def stm_iffs Job_init_Inr dest!: make_event_effect)
      with Inr show ?thesis by (intro that(2)) auto
    qed
  qed
  then show ?thesis
  proof cases
    case stored
    from store_transition_effect [OF stored(4)] stored(1-3) show ?thesis
      using find_job_None [of "jb_job_id j" s]
      by (auto simp: status_text_def find_job_commit simp del: JobStatus_value.simps)
        (auto simp: commit_def record_event_def)
  qed auto
qed

definition claim_and_run ::
  "worker \<Rightarrow> datetime \<Rightarrow> Job \<Rightarrow> connector \<Rightarrow> CapabilityUseDecision \<Rightarrow> Checkpoint option \<Rightarrow>
     (store, Job option) stm" where
  \<comment> \<open>the last part of \<open>try_candidate\<close>\<close>
  "claim_and_run w now j c authority checkpoint =
     sbind (make_event j ''job_claimed'' now (Some (wk_worker_id w)) (Some (jb_status j)) (Some RUNNING)
       None []) (\<lambda>e.
     sbind (store_claim (jb_job_id j) (wk_worker_id w) now e) (\<lambda>claimed. case claimed of
       None \<Rightarrow> ret None
     | Some j \<Rightarrow> sbind (run_claimed w j c authority checkpoint now) (\<lambda>j. ret (Some j))))"

lemma try_candidate_cases:
  assumes "try_candidate w now j s = (r, s')"
  obtains (blocked) reason expl where "sbind (block w j reason expl now) (\<lambda>j. ret (Some j)) s = (r, s')"
  | (raised) e where "r = Inl e" "s' = s"
  | (claiming) c a u cp where "worker_connector w (jb_connector_id j) = Some c"
      "map_of (wk_configuration_hashes w) (jb_connector_id j) = Some (jb_configuration_hash j)"
      "reauthorize_job j (wk_registry w) (wk_policy w) now = Inr a" "ra_usable a" "ra_authority a = Some u"
      "store_checkpoint (jb_job_id j) s = (Inr cp, s)" "claim_and_run w now j c u cp s = (r, s')"
proof (cases "worker_connector w (jb_connector_id j)")
  case None
  with assms blocked show ?thesis by (simp add: try_candidate_def)
next
  case (Some c)
  show ?thesis
  proof (cases "map_of (wk_configuration_hashes w) (jb_connector_id j) = Some (jb_configuration_hash j)")
    case False
    with assms Some blocked show ?thesis by (simp add: try_candidate_def)
  next
    case hash: True
    show ?thesis
    proof (cases "reauthorize_job j (wk_registry w) (wk_policy w) now")
      case (Inl e)
      with assms Some hash show ?thesis by (intro raised [of e]) (simp_all add: try_candidate_def sbind_def lift_def throw_def)
    next
      case auth: (Inr a)
      show ?thesis
      proof (cases "ra_usable a \<and> ra_authority a \<noteq> None")
        case False
        then have "sbind (block w j (ra_reason_code a) (ra_explanation a) now) (\<lambda>j. ret (Some j)) s = (r, s')"
          using assms Some hash auth by (simp add: try_candidate_def sbind_def lift_def)
        then show ?thesis by (rule blocked)
      next
        case True
        then obtain u where u: "ra_usable a" "ra_authority a = Some u" by blast
        obtain x t where cp: "store_checkpoint (jb_job_id j) s = (x, t)" by fastforce
        then have t: "t = s" by (rule store_checkpoint_state)
        show ?thesis
        proof (cases x)
          case (Inl e)
          with assms Some hash auth u cp t show ?thesis
            by (intro raised [of e]) (simp_all add: try_candidate_def sbind_def lift_def)
        next
          case (Inr k)
          show ?thesis
          proof (cases "case k of None \<Rightarrow> Inr () | Some cp \<Rightarrow> require_compatible_checkpoint cp (cx_manifest c)
              (jb_configuration_hash j)")
            case (Inl e)
            with assms Some hash auth u cp t \<open>x = Inr k\<close> raised [of e] blocked show ?thesis
              by (auto simp: try_candidate_def sbind_def lift_def throw_def split: py_error.splits if_splits)
          next
            case checked: (Inr v)
            have "claim_and_run w now j c u k s = (r, s')"
              unfolding claim_and_run_def
              using assms Some hash auth u cp t \<open>x = Inr k\<close> checked
              by (simp add: try_candidate_def sbind_def [of "lift _"] sbind_def [of "store_checkpoint _"] lift_def)
            with Some hash auth u cp t \<open>x = Inr k\<close> show ?thesis by (intro claiming) auto
          qed
        qed
      qed
    qed
  qed
qed

lemma block_Some_effect:
  assumes "sbind (block w j reason expl now) (\<lambda>j. ret (Some j)) s = (r, s')"
  shows "r \<noteq> Inr None \<and> (left_alone s s' \<or> st_attempts s' = st_attempts s \<and>
    st_checkpoints s' = st_checkpoints s \<and> status_text (jb_job_id j) s' = Some (JobStatus_value BLOCKED))"
proof -
  obtain x t where x: "block w j reason expl now s = (x, t)" by fastforce
  with assms have "t = s'" "r \<noteq> Inr None" by (cases x; auto simp: sbind_def ret_def)+
  with block_effect [OF x] show ?thesis by auto
qed

lemma try_candidate_None:
  assumes "try_candidate w now j s = (Inr None, s')"
  shows "s' = drawn s"
  using assms
proof (cases rule: try_candidate_cases)
  case (blocked reason expl)
  then show ?thesis using block_Some_effect by blast
next
  case (claiming c a u cp)
  then obtain e s1 where e: "make_event j ''job_claimed'' now (Some (wk_worker_id w)) (Some (jb_status j))
      (Some RUNNING) None [] s = (Inr e, s1)"
      "store_claim (jb_job_id j) (wk_worker_id w) now e s1 = (Inr None, s')"
    by (auto simp: claim_and_run_def stm_iffs split: option.splits)
  with make_event_effect [OF e(1)] store_claim_effect [OF e(2)] show ?thesis by auto
qed simp

lemma try_candidate_unauthorised:
  assumes "registry_ok (wk_registry w)" "PolicySet_wf (wk_policy w)" "Job_wf j" "stamp now"
    and "\<not> runnable w j now" "try_candidate w now j s = (r, s')"
  shows "left_alone s s' \<or> st_attempts s' = st_attempts s \<and> st_checkpoints s' = st_checkpoints s \<and>
    status_text (jb_job_id j) s' = Some (JobStatus_value BLOCKED)"
  using assms(6)
proof (cases rule: try_candidate_cases)
  case (blocked reason expl)
  then show ?thesis using block_Some_effect by blast
next
  case (claiming c a u cp)
  with reauthorize_iff(2) [OF assms(1-4) claiming(3)] assms(5) show ?thesis by (simp add: runnable_def)
qed simp

lemma try_candidates_cases:
  assumes "try_candidates w now js s = (r, s')"
  obtains (none) "left_alone s s'"
  | (one) j x t where "j \<in> set js" "left_alone s t" "try_candidate w now j t = (x, s')"
      "\<forall>u. st_uuid t = u \<longrightarrow> t = s\<lparr>st_uuid := u\<rparr>"
  using assms
proof (induction js arbitrary: s thesis)
  case Nil
  then show ?case by (auto simp: ret_iff)
next
  case (Cons j js)
  obtain x t where x: "try_candidate w now j s = (x, t)" by fastforce
  show ?case
  proof (cases "x = Inr None")
    case True
    with x have t: "t = drawn s" by (simp add: try_candidate_None)
    have "try_candidates w now js t = (r, s')" using Cons.prems(3) x True by (simp add: sbind_def)
    then show ?thesis
    proof (rule Cons.IH [rotated 2], goal_cases)
      case 1
      with t left_alone_trans [OF left_alone_simps(2)] show ?case by (intro Cons.prems(1)) simp
    next
      case (2 k y u)
      then show ?case
        using t left_alone_trans [OF left_alone_simps(2), of s]
        by (intro Cons.prems(2) [of k y u]) (auto simp: drawn_def)
    qed
  next
    case False
    with Cons.prems(3) x have "t = s'" by (auto simp: sbind_def ret_iff split: sum.splits option.splits)
    with x show ?thesis by (intro Cons.prems(2) [of j s x]) auto
  qed
qed

lemma find_job_row:
  assumes "store_ok s" "row \<in> set (st_jobs s)"
  shows "find_job (jo_job_id row) s = Some row"
proof -
  obtain r where r: "find_job (jo_job_id row) s = Some r"
    using assms(2) find_job_None [of "jo_job_id row" s] by (auto simp: job_ids_def)
  with find_job_Some [OF r] assms have "r = row"
    by (auto simp: store_ok_def jobs_ok_def distinct_map dest: inj_onD)
  with r show ?thesis by simp
qed

lemma run_next_cases:
  assumes "store_ok s" "stamp now" "run_next w now s = (r, s')"
  obtains (none) "left_alone s s'"
  | (one) k x t where "find_job (jb_job_id k) s = Some (job_row_of k)" "Job_wf k" "claim_ready now (job_row_of k)"
      "left_alone s t" "store_ok t" "try_candidate w now (Job_norm k) t = (x, s')"
proof -
  have t: "time_text now = Inr (isoformat now)" using assms(2) by (simp add: time_text_def stamp_def)
  let ?rows = "sql_limit 100 (sort_key row_order (filter (row_claimable (isoformat now)) (st_jobs s)))"
  have sub: "set ?rows \<subseteq> {row \<in> set (st_jobs s). claim_ready now row}"
    by (auto simp: sql_limit_def row_claimable_def claim_ready_def dest!: in_set_takeD split: option.splits)
  then obtain js where js: "?rows = map job_row_of js" "list_all Job_wf js"
      "traverse (\<lambda>r. Job_from_dict (jo_payload r)) ?rows = Inr (map Job_norm js)"
    using traverse_rows [OF assms(1), of ?rows] by blast
  have "try_candidates w now (map Job_norm js) s = (r, s')"
    using assms(1,3) t js(3) by (simp add: run_next_def claimable_def sbind_def select_def store_ok_def lift_def)
  then show thesis
  proof (cases rule: try_candidates_cases)
    case none
    then show ?thesis by (rule that(1))
  next
    case (one j x t)
    then obtain k where k: "k \<in> set js" "j = Job_norm k" by auto
    then have row: "job_row_of k \<in> set (st_jobs s)" "claim_ready now (job_row_of k)"
      using sub js(1) by (auto simp: image_subset_iff)
    moreover have "find_job (jb_job_id k) s = Some (job_row_of k)"
      using find_job_row [OF assms(1) row(1)] by simp
    moreover have "store_ok (s\<lparr>st_uuid := st_uuid t\<rparr>)" using assms(1) by (simp add: store_ok_def)
    then have "store_ok t" using one(4) by metis
    ultimately show ?thesis using one k js(2) by (intro that(2)) (auto simp: list_all_iff)
  qed
qed

section \<open>Verification\<close>

lemma verification_block_run:
  assumes "live (Suc n) s" "stamp now" "valid_identifier (wk_worker_id w)" "Job_wf j" "JobResultRef_wf ref"
    and "find_job (jb_job_id j) s = Some (job_row_of j)" "jb_status j = RUNNING" "valid_identifier reason"
  shows "\<exists>u s'. verification_block w j ref now reason s = (Inr u, s') \<and> updated n s s' u ''job_failed'' \<and>
    jb_job_id u = jb_job_id j \<and> jb_status u = INDETERMINATE \<and> jb_result u = Some ref"
proof -
  let ?err = "\<lparr>je_code = reason, je_explanation = ''Operation could not be verified safely.'', je_retryable = False\<rparr>"
  let ?u = "j\<lparr>jb_status := INDETERMINATE, jb_result := Some ref, jb_verification_status := Some VS_INDETERMINATE,
    jb_error := Some ?err, jb_updated_at := now, jb_completed_at := Some now\<rparr>"
  have "safe_text ''Operation could not be verified safely.''" by code_simp
  with assms(8) have err: "JobError_init ?err = Inr ?err" "JobError_wf ?err"
    by (simp_all add: JobError_init_iff JobError_wf_iff)
  with assms(2,4,5) have "Job_wf ?u" by (auto simp: Job_wf_parts Job_init_iff stamp_def)
  from finish_run [OF assms(1) this event_type_ids(10) assms(2), of "Some (wk_worker_id w)" "Some reason" "[]"
      "job_row_of j" RUNNING "[RUNNING]" "Some RUNNING" "Some INDETERMINATE" "Some ''indeterminate''" "Some reason"]
    assms(3,6-8) err(1) show ?thesis by (auto simp: verification_block_def sbind_def lift_def)
qed

definition conclude :: "worker \<Rightarrow> Job \<Rightarrow> JobResultRef \<Rightarrow> datetime \<Rightarrow> VerificationStatus \<Rightarrow> (store, Job) stm" where
  \<comment> \<open>the last part of \<open>verify_and_complete\<close>: what the worker does with the verification\<close>
  "conclude w j ref now v =
     (if v \<in> {VS_FAILED, VS_INDETERMINATE} then
        verification_block w j ref now (''verification_'' @ VerificationStatus_value v)
      else let final_status = (if v = VS_VERIFIED_WITH_WARNINGS then COMPLETED_WITH_WARNINGS else COMPLETED) in
        sbind (lift (completed_progress j ref)) (\<lambda>progress.
        sbind (lift (Job_init (j\<lparr>jb_status := final_status, jb_result := Some ref,
          jb_verification_status := Some v, jb_progress := progress,
          jb_updated_at := now, jb_completed_at := Some now\<rparr>))) (\<lambda>completed.
        sbind (make_event completed ''job_completed'' now (Some (wk_worker_id w)) (Some RUNNING)
          (Some final_status) (Some (VerificationStatus_value v)) []) (\<lambda>e.
        sbind (store_transition completed [RUNNING] e (Some ''completed'') None) (\<lambda>_. ret completed)))))"

lemma verification_ids:
  "valid_identifier (VerificationStatus_value x)" "valid_identifier (''verification_'' @ VerificationStatus_value x)"
  by (cases x; simp; code_simp)+

lemma conclude_run:
  assumes "live (Suc n) s" "stamp now" "valid_identifier (wk_worker_id w)" "Job_wf j" "JobResultRef_wf ref"
    and "find_job (jb_job_id j) s = Some (job_row_of j)" "jb_status j = RUNNING"
  obtains (bad) u s' where "v \<in> {VS_FAILED, VS_INDETERMINATE}" "conclude w j ref now v s = (Inr u, s')"
      "jb_status u = INDETERMINATE" "jb_result u = Some ref" "find_job (jb_job_id j) s' = Some (job_row_of u)"
  | (raised) e where "v \<notin> {VS_FAILED, VS_INDETERMINATE}" "\<not> returns (completed_progress j ref)"
      "conclude w j ref now v s = (Inl e, s)"
  | (good) u s' where "v \<notin> {VS_FAILED, VS_INDETERMINATE}" "returns (completed_progress j ref)"
      "conclude w j ref now v s = (Inr u, s')" "jb_result u = Some ref"
      "jb_status u = (if v = VS_VERIFIED_WITH_WARNINGS then COMPLETED_WITH_WARNINGS else COMPLETED)"
      "jb_verification_status u = Some v" "find_job (jb_job_id j) s' = Some (job_row_of u)"
proof (cases "v \<in> {VS_FAILED, VS_INDETERMINATE}")
  case True
  from verification_block_run [OF assms verification_ids(2) [of v]] obtain u s' where
    "verification_block w j ref now (''verification_'' @ VerificationStatus_value v) s = (Inr u, s')"
    "updated n s s' u ''job_failed''" "jb_job_id u = jb_job_id j" "jb_status u = INDETERMINATE" "jb_result u = Some ref"
    by blast
  with True that(1) [of u s'] show ?thesis by (simp add: conclude_def updated_def)
next
  case v: False
  show ?thesis
  proof (cases "completed_progress j ref")
    case (Inl e)
    with v that(2) [of e] show ?thesis by (simp add: conclude_def throw_def Let_def)
  next
    case (Inr p)
    let ?st = "if v = VS_VERIFIED_WITH_WARNINGS then COMPLETED_WITH_WARNINGS else COMPLETED"
    let ?u = "j\<lparr>jb_status := ?st, jb_result := Some ref, jb_verification_status := Some v,
      jb_progress := p, jb_updated_at := now, jb_completed_at := Some now\<rparr>"
    have "JobProgress_wf p"
      using Inr by (auto simp: completed_progress_def JobProgress_wf_def JobProgress_init_def check_simps)
    then have "Job_wf ?u" using assms(2,4,5) by (auto simp: Job_wf_parts Job_init_iff stamp_def)
    from finish_run [OF assms(1) this event_type_ids(14) assms(2), of "Some (wk_worker_id w)"
        "Some (VerificationStatus_value v)" "[]" "job_row_of j" RUNNING "[RUNNING]" "Some RUNNING"
        "Some ?st" "Some ''completed''" None] assms(3,6,7) verification_ids(1)
    obtain s' where "sbind (lift (Job_init ?u)) (\<lambda>u. sbind (make_event u ''job_completed'' now
        (Some (wk_worker_id w)) (Some RUNNING) (Some ?st) (Some (VerificationStatus_value v)) [])
        (\<lambda>e. sbind (store_transition u [RUNNING] e (Some ''completed'') None) (\<lambda>_. ret u))) s = (Inr ?u, s')"
      "updated n s s' ?u ''job_completed''" by auto
    with v Inr that(3) [of ?u s'] show ?thesis by (simp add: conclude_def updated_def Let_def)
  qed
qed

lemma verify_run:
  assumes "live (Suc (Suc (Suc n))) s" "stamp now" "valid_identifier (wk_worker_id w)" "Job_wf j"
    and "find_job (jb_job_id j) s = Some (job_row_of j)" "v q = Inr ver" "cx_verify c = Some v"
  obtains t where "live (Suc n) t" "st_jobs t = st_jobs s"
    "verify_and_complete w j c q ref now s = conclude w j ref now (vr_status ver) t"
proof -
  have id: "jb_job_id j \<in> job_ids s" using assms(5) find_job_None [of "jb_job_id j" s] by auto
  obtain s1 where s1: "\<forall>f :: unit \<Rightarrow> (store, Job) stm. sbind (make_event j ''verification_started'' now (Some (wk_worker_id w)) (Some RUNNING)
      (Some RUNNING) None []) (\<lambda>e. sbind (append_event e) f) s = f () s1" "live (Suc (Suc n)) s1"
      "st_jobs s1 = st_jobs s" "st_checkpoints s1 = st_checkpoints s"
    using log_run [OF assms(1,4) id event_type_ids(12) assms(2), of "Some (wk_worker_id w)" None "[]" "Some RUNNING" "Some RUNNING"]
      assms(3) by auto
  have id1: "jb_job_id j \<in> job_ids s1" using id s1(3) by (simp add: job_ids_def)
  obtain s2 where s2: "\<forall>f :: unit \<Rightarrow> (store, Job) stm. sbind (make_event j ''verification_completed'' now (Some (wk_worker_id w)) (Some RUNNING)
      (Some RUNNING) (Some (VerificationStatus_value (vr_status ver))) []) (\<lambda>e. sbind (append_event e) f) s1 = f () s2"
      "live (Suc n) s2" "st_jobs s2 = st_jobs s1" "st_checkpoints s2 = st_checkpoints s1"
    using log_run [OF s1(2) assms(4) id1 event_type_ids(13) assms(2), of "Some (wk_worker_id w)"
        "Some (VerificationStatus_value (vr_status ver))" "[]" "Some RUNNING" "Some RUNNING"] assms(3) verification_ids(1) by auto
  show ?thesis
    by (rule that [of s2]) (use s1 s2 assms(6) in \<open>simp_all add: verify_and_complete_def conclude_def assms(7)\<close>)
qed

end
