(* ===== verification/WorkerProperties.thy ===== *)
theory WorkerProperties
  imports Samples WorkerSpec
begin

text \<open>
  The properties of approvals, reauthorization, recovery and the worker: which jobs run, what the
  outcomes write, and the jobs that can never finish.
\<close>

section \<open>Lemmas\<close>

lemma sample_job_norm:
  "Job_norm sample_job = sample_job" "Job_norm (sample_job\<lparr>jb_job_id := i\<rparr>) = sample_job\<lparr>jb_job_id := i\<rparr>"
proof -
  have "to_utc sample_now = sample_now" by (simp add: sample_now_def to_utc_def instant_def)
  moreover have "PrincipalContext_norm sample_principal = sample_principal"
    by (simp add: PrincipalContext_norm_def sample_principal_def)
  ultimately show "Job_norm sample_job = sample_job"
    "Job_norm (sample_job\<lparr>jb_job_id := i\<rparr>) = sample_job\<lparr>jb_job_id := i\<rparr>"
    by (simp_all add: Job_norm_def sample_job_def)
qed

lemma sample_job_authorised_id:
  "job_authorised sample_registry sample_policy (sample_job\<lparr>jb_job_id := i\<rparr>) sample_now"
proof -
  have q: "permission_of (sample_job\<lparr>jb_job_id := i\<rparr>) = sample_request\<lparr>pr_request_id := ''job:'' @ i\<rparr>"
    by (simp add: permission_of_def sample_job_def sample_request_def)
  have m: "matching sample_policy (sample_request\<lparr>pr_request_id := i\<rparr>) = matching sample_policy sample_request" for i
    by (simp add: matching_def PolicyRule_matches_def)
  have "policy_grants sample_policy (permission_of (sample_job\<lparr>jb_job_id := i\<rparr>)) sample_now"
    using sample_grants unfolding q by (simp add: policy_grants_def prohibited_by_def most_specific_def m)
  moreover have "rc_manifest sample_capability = sample_manifest" by (simp add: sample_capability_def)
  moreover have "cm_connector_id sample_manifest = ''files''" "cm_version sample_manifest = ''1.0''"
    "jb_security_domain sample_job = sample_domain"
    by (simp_all add: sample_manifest_def sample_job_def)
  ultimately show ?thesis
    using sample_usable by (simp add: job_authorised_def bound_capability_def plan_approved_def sample_lookup(1))
qed

lemma sample_job_authorised: "job_authorised sample_registry sample_policy sample_job sample_now"
  using sample_job_authorised_id [of "''job-1''"] by (simp add: sample_job_def)

lemma sample_worker_sel [simp]:
  "wk_registry sample_worker = sample_registry" "wk_policy sample_worker = sample_policy"
  "wk_worker_id sample_worker = ''worker-1''"
  "worker_connector sample_worker ''files'' = Some sample_connector"
  "map_of (wk_configuration_hashes sample_worker) ''files'' = Some sample_hash"
  by (simp_all add: sample_worker_def worker_connector_def sample_connector_def
      sample_connector_manifest_def sample_manifest_content_def)

section \<open>Which jobs run\<close>

text \<open>
  (C10) Reauthorization is exact: it says usable exactly when the capability is registered with the
  job's connector and version and is usable for the operation in the domain, a plan that requires
  approval matches the job and is approved unchanged and unexpired, and the policy grants the job's
  request now. It returns unless the request of an otherwise acceptable job cannot be constructed:
  the job identifier has more than 124 characters or the domain belongs to another tenant.
\<close>

theorem reauthorization_exact:
  assumes "registry_ok reg" "PolicySet_wf p" "Job_wf j" "stamp now"
  shows "(returns (reauthorize_job j reg p now) \<longleftrightarrow>
      (bound_capability reg j \<and> plan_approved j now \<longrightarrow> requestable j)) \<and>
    (\<forall>a. reauthorize_job j reg p now = Inr a \<longrightarrow> (ra_usable a \<longleftrightarrow> job_authorised reg p j now))"
  using reauthorize_iff [OF assms] by blast

theorem reauthorization_exact_witness:
  "\<exists>a. reauthorize_job sample_job sample_registry sample_policy sample_now = Inr a \<and> ra_usable a"
proof -
  have "requestable sample_job"
    using sample_admits by (simp add: requestable_def) (simp add: sample_job_def)
  with reauthorization_exact [OF sample_wf(7,6) sample_job_wf(1) sample_stamp] sample_job_authorised
  show ?thesis by (cases "reauthorize_job sample_job sample_registry sample_policy sample_now") auto
qed

text \<open>
  (C9) A worker run touches at most one job, and only an authorised one is ever attempted: whatever
  the connectors do, whether the run returns or raises, everything the store holds of all other
  jobs is unchanged; the touched job was claimable, and either it is runnable (its connector is
  present in the job's configuration and it is authorised now) or it has only been blocked, with no
  attempt and no checkpoint written.
\<close>

theorem worker_runs_authorised:
  assumes "store_ok s" "worker_ok w" "registry_ok (wk_registry w)" "PolicySet_wf (wk_policy w)" "stamp now"
    and "run_next w now s = (r, s')"
  shows "\<exists>i. (\<forall>k. k \<noteq> i \<longrightarrow> job_view k s' = job_view k s) \<and>
    (job_view i s' = job_view i s \<or>
     (\<exists>j. find_job i s = Some (job_row_of j) \<and> Job_wf j \<and> claim_ready now (job_row_of j) \<and>
        (runnable w (Job_norm j) now \<or> st_attempts s' = st_attempts s \<and> st_checkpoints s' = st_checkpoints s \<and>
           status_text i s' = Some (JobStatus_value BLOCKED))))"
  using assms(1,5,6)
proof (cases rule: run_next_cases)
  case none
  then show ?thesis by (simp add: left_alone_view)
next
  case (one j x t)
  have other: "job_view k s' = job_view k s" if "k \<noteq> jb_job_id j" for k
    using keepsD [OF isolation.keeps_try_candidate [of "Job_norm j" k now w "job_view k t"] _ one(6)]
      one(2,4,5) assms(2,5) that by (simp add: Job_wf_norm left_alone_view)
  have "runnable w (Job_norm j) now \<or> left_alone t s' \<or> st_attempts s' = st_attempts t \<and>
      st_checkpoints s' = st_checkpoints t \<and> status_text (jb_job_id j) s' = Some (JobStatus_value BLOCKED)"
    using try_candidate_unauthorised [OF assms(3,4) Job_wf_norm [OF one(2)] assms(5) _ one(6)] by auto
  moreover have "job_view i s' = job_view i s" if "left_alone t s'" for i
    using left_alone_view [OF left_alone_trans [OF one(4) that]] .
  moreover have "st_attempts t = st_attempts s" "st_checkpoints t = st_checkpoints s"
    using one(4) by (simp_all add: left_alone_def)
  ultimately show ?thesis using other one(1-3) by (intro exI [of _ "jb_job_id j"]) auto
qed

theorem worker_runs_authorised_witness:
  "\<exists>i. \<forall>k. k \<noteq> i \<longrightarrow> job_view k (snd (run_next sample_worker sample_now (store_with sample_job))) =
     job_view k (store_with sample_job)"
  using worker_runs_authorised [OF live_ok(1) [OF live_store_with [OF sample_job_wf(1)]] sample_worker_ok _ _
      sample_stamp prod.collapse [symmetric]] sample_wf(6,7) by (metis sample_worker_sel(1,2))

text \<open>
  A service call writes only the job it names: everything the store holds of any other job,
  its row, checkpoint, attempts and events, is the same after the call, whether it returns or raises.
\<close>

theorem service_isolated:
  assumes "store_ok s" "stamp now" "ApprovalBinding_wf b" "Job_wf j" "jb_job_id j = i" "k \<noteq> i"
  shows "job_view k (snd (service_create j actor s)) = job_view k s \<and>
    job_view k (snd (bind_approval i b now a s)) = job_view k s \<and>
    job_view k (snd (pause i now a s)) = job_view k s \<and> job_view k (snd (cancel i now a s)) = job_view k s \<and>
    job_view k (snd (resume i now a s)) = job_view k s \<and>
    job_view k (snd (recover_interrupted i now a s)) = job_view k s"
proof -
  have frame: "job_view k (snd (m s)) = job_view k s"
    if "keeps (\<lambda>t. store_ok t \<and> job_view k t = job_view k s) m Q" for m :: "(store, 'x) stm" and Q
    using keepsD [OF that _ prod.collapse [symmetric]] assms(1) by blast
  have i: "i \<noteq> k" "jb_job_id j \<noteq> k" using assms(5,6) by simp_all
  show ?thesis
    by (intro conjI frame; rule isolation.keeps_service_create [OF assms(4) i(2)]
        isolation.keeps_bind_approval [OF i(1) assms(2,3)] isolation.keeps_service [OF i(1) assms(2)]
        isolation.keeps_recover [OF i(1) assms(2)])
qed

theorem service_isolated_witness:
  "job_view ''job-2'' (snd (cancel ''job-1'' sample_now ''alice'' (store_with sample_job))) =
     job_view ''job-2'' (store_with sample_job)"
  using service_isolated [OF live_ok(1) [OF live_store_with [OF sample_job_wf(1)]] sample_stamp sample_job_wf(3,1),
      of "''job-1''" "''job-2''" None "''alice''"] by simp

section \<open>Approval and recovery\<close>

text \<open>
  An approval is bound exactly to the plan it approves: on a live store the call succeeds
  exactly for a job that awaits approval, whose stored plan has the approval's identifier, hash and
  scope, while the approval has not expired. The job is then READY with the approval and its
  reference; otherwise the call raises and nothing changes.
\<close>

theorem approval_exact:
  assumes "live 1 s" "stamp now" "valid_identifier a" "ApprovalBinding_wf b"
  shows "if \<exists>k plan. find_job i s = Some (job_row_of k) \<and> Job_wf k \<and> jb_status k = AWAITING_APPROVAL \<and>
      jb_plan k = Some plan \<and> approves b plan now
    then \<exists>k u s'. find_job i s = Some (job_row_of k) \<and> bind_approval i b now a s = (Inr u, s') \<and>
      u = Job_norm k\<lparr>jb_approval := Some b, jb_authority_ref := Some (ab_approval_ref b),
        jb_status := READY, jb_updated_at := now\<rparr> \<and> updated 0 s s' u ''approval_bound''
    else \<exists>e. bind_approval i b now a s = (Inl e, s)"
proof (cases "\<exists>k plan. find_job i s = Some (job_row_of k) \<and> Job_wf k \<and> jb_status k = AWAITING_APPROVAL \<and>
    jb_plan k = Some plan \<and> approves b plan now")
  case True
  then obtain k plan where k: "find_job i s = Some (job_row_of k)" "Job_wf k" "jb_status k = AWAITING_APPROVAL"
    "jb_plan k = Some plan" "approves b plan now" by blast
  from assms(1) [unfolded One_nat_def] assms(2-4) show ?thesis
  proof (cases rule: bind_approval_run [where n = 0 and i = i and plan = plan])
    case (refused k' e)
    then have "Job_norm k' = Job_norm k" using job_row_of_norm [of k' k] k(1,2) by simp
    then have "jb_status k' = jb_status k" "jb_plan k' = jb_plan k" by (metis Job_norm_sel(2,3))+
    with refused(4) k(3-5) ApprovalBinding_matches_iff [OF assms(4,2)] show ?thesis by simp
  next
    case (bound k' p u s')
    then have "\<exists>k u s'. find_job i s = Some (job_row_of k) \<and> bind_approval i b now a s = (Inr u, s') \<and>
        u = Job_norm k\<lparr>jb_approval := Some b, jb_authority_ref := Some (ab_approval_ref b),
          jb_status := READY, jb_updated_at := now\<rparr> \<and> updated 0 s s' u ''approval_bound''" by blast
    with True show ?thesis by simp
  qed (use k in simp)
next
  case False
  from assms(1) [unfolded One_nat_def] assms(2-4) show ?thesis
  proof (cases rule: bind_approval_run [where n = 0 and i = i])
    case (bound k p u s')
    with False ApprovalBinding_matches_iff [OF assms(4,2)] show ?thesis by auto
  qed (use False in auto)
qed

theorem approval_exact_witness:
  "\<exists>u s'. bind_approval ''job-1'' sample_approval sample_now ''alice'' (store_with planned_job) = (Inr u, s') \<and>
     jb_status u = READY"
proof -
  have "live 1 (store_with planned_job)"
    using live_mono [OF live_mono [OF live_samples(2) [OF sample_job_wf(2)]]] by simp
  moreover have "approves sample_approval approved_plan sample_now"
    by (simp add: approves_def sample_approval_def) (simp add: approved_plan_def sample_plan_def)
  then have "\<exists>k plan. find_job ''job-1'' (store_with planned_job) = Some (job_row_of k) \<and> Job_wf k \<and>
      jb_status k = AWAITING_APPROVAL \<and> jb_plan k = Some plan \<and> approves sample_approval plan sample_now"
    using sample_job_wf(2) by (intro exI [of _ planned_job] exI [of _ approved_plan]) simp
  ultimately show ?thesis
    using approval_exact [OF _ sample_stamp sample_ids(7) sample_job_wf(3), of "store_with planned_job" "''job-1''"]
    by (simp only: if_P) auto
qed

text \<open>
  Recovery returns an interrupted job to the queue exactly when it is RUNNING and its row names
  the checkpoint that is stored for it; the job is then READY, its event is appended, and no other
  job is touched. In every other case recovery raises and nothing changes.
\<close>

theorem recovery_exact:
  assumes "live 1 s" "stamp now" "valid_identifier a"
  shows "if recoverable i s
    then \<exists>u s'. recover_interrupted i now a s = (Inr u, s') \<and> jb_status u = READY \<and> jb_job_id u = i \<and>
      updated 0 s s' u ''job_resumed''
    else \<exists>e. recover_interrupted i now a s = (Inl e, s)"
  using recover_run [OF assms(1) [unfolded One_nat_def] assms(2,3)] .

definition running_job :: Job where
  "running_job = sample_job\<lparr>jb_status := RUNNING, jb_attempt_count := 1\<rparr>"

lemma running_job_wf: "Job_wf running_job" "jb_job_id running_job = ''job-1''" "jb_status running_job = RUNNING"
  using sample_job_wf(1) by (simp_all add: running_job_def Job_wf_parts Job_init_iff)

lemma not_recoverable: "\<not> recoverable i (store_with j)"
  by (simp add: recoverable_def)

theorem recovery_exact_witness:
  "\<exists>e. recover_interrupted ''job-1'' sample_now ''alice'' (store_with running_job) = (Inl e, store_with running_job)"
proof -
  have "live 1 (store_with running_job)"
    using live_mono [OF live_mono [OF live_samples(2) [OF running_job_wf(1)]]] by simp
  from recovery_exact [OF this sample_stamp sample_ids(7), of "''job-1''"] show ?thesis
    by (simp add: not_recoverable)
qed

section \<open>Jobs that never finish\<close>

lemma running_refused:
  assumes "store_ok s" "find_job i s = Some (job_row_of k)" "Job_wf k" "jb_status k = RUNNING" "\<not> recoverable i s"
  shows "RUNNING \<notin> set allowed \<Longrightarrow> \<exists>e. simple_transition i allowed target t now a s = (Inl e, s)"
    and "\<exists>e. bind_approval i b now a s = (Inl e, s)"
    and "\<exists>e. recover_interrupted i now a s = (Inl e, s)"
    and "Job_wf j \<Longrightarrow> jb_job_id j = i \<Longrightarrow> left_alone s (snd (service_create j actor s))"
proof -
  obtain k' where k': "required i s = (Inr (Job_norm k'), s)" "find_job i s = Some (job_row_of k')" "Job_wf k'"
    using required_run [OF assms(1), of i] assms(2) by (metis option.distinct(1))
  then have st: "jb_status k' = RUNNING"
    using job_row_of_norm [of k' k] assms(2-4) by (metis Job_norm_sel(2) option.inject)
  show "\<exists>e. simple_transition i allowed target t now a s = (Inl e, s)" if "RUNNING \<notin> set allowed"
    using k' st that by (auto simp: simple_transition_def sbind_def throw_def)
  show "\<exists>e. bind_approval i b now a s = (Inl e, s)"
    using k' st by (auto simp: bind_approval_def sbind_def throw_def split: option.splits)
  show "\<exists>e. recover_interrupted i now a s = (Inl e, s)"
    using assms(1)
  proof (cases rule: store_checkpoint_run [of s i])
    case none
    with k' st show ?thesis by (auto simp: recover_interrupted_def sbind_def throw_def)
  next
    case (some c)
    with recoverable_iff [OF k'(2,3)] st assms(5) k' show ?thesis
      by (auto simp: recover_interrupted_def sbind_def throw_def Checkpoint_norm_def)
  qed
  show "left_alone s (snd (service_create j actor s))" if "Job_wf j" "jb_job_id j = i"
  proof -
    have id: "jb_job_id j \<in> job_ids s" using assms(2) that(2) find_job_None [of i s] by auto
    obtain x t where x: "make_event j ''job_created'' (jb_created_at j) actor None (Some (jb_status j)) None [] s = (x, t)"
      by fastforce
    then have t: "t = drawn s" by (rule make_event_effect)
    have c: "\<exists>e'. store_create j e t = (Inl e', t)" for e
      using store_create_effect [of j e t] id t by (metis drawn_sel(10) prod.collapse)
    show ?thesis
    proof (cases x)
      case (Inl e)
      with x t show ?thesis by (simp add: service_create_def sbind_def throw_def)
    next
      case (Inr e)
      with x t c [of e] show ?thesis by (auto simp: service_create_def sbind_def throw_def)
    qed
  qed
qed

definition stranded :: "string \<Rightarrow> store \<Rightarrow> bool" where
  "stranded i s = (status_text i s = Some (JobStatus_value RUNNING) \<and> \<not> recoverable i s)"

lemma stranded_view:
  assumes "job_view i s' = job_view i s"
  shows "stranded i s' \<longleftrightarrow> stranded i s"
  using assms by (simp add: job_view_def stranded_def status_text_def recoverable_def)

lemma stranded_step:
  assumes "job_step s s'" "store_ok s" "stranded i s"
  shows "job_view i s' = job_view i s"
proof -
  from assms(3) obtain row where "find_job i s = Some row" "jo_status row = JobStatus_value RUNNING"
    by (auto simp: stranded_def status_text_def)
  with assms(2) obtain k where k: "find_job i s = Some (job_row_of k)" "Job_wf k" "jb_status k = RUNNING" "jb_job_id k = i"
    using store_get_ok [OF assms(2), of i] JobStatus_value_inj job_row_of_sel by (metis option.distinct(1) option.inject)
  note refused = running_refused [OF assms(2) k(1-3)]
  have none: "\<not> recoverable i s" using assms(3) by (simp add: stranded_def)
  have frame: "job_view i s' = job_view i s"
    if "keeps (\<lambda>t. store_ok t \<and> job_view i t = job_view i s) m Q" "m s = (r, s')" for m :: "(store, 'x) stm" and Q r
    using keepsD [OF that(1) _ that(2)] assms(2) by blast
  from assms(1) show ?thesis
  proof cases
    case (create j actor r)
    then show ?thesis
      using refused(4) [OF none create(1), of actor] frame [OF isolation.keeps_service_create [OF create(1)]]
      by (cases "jb_job_id j = i") (auto simp: left_alone_view)
  next
    case (approve b now h a r)
    then show ?thesis
      using refused(2) [OF none, of b now a] frame [OF isolation.keeps_bind_approval [OF _ approve(2,1)]] by (cases "h = i") auto
  next
    case (pause now h a r)
    then show ?thesis
      using refused(1) [OF none, of "[READY, RETRY_WAIT]"] frame [OF isolation.keeps_service(1) [OF _ pause(1)]]
      by (cases "h = i") (auto simp: pause_def, metis prod.inject)
  next
    case (cancel now h a r)
    then show ?thesis
      using refused(1) [OF none, of "[PLANNED, AWAITING_APPROVAL, READY, PAUSED, RETRY_WAIT, BLOCKED]"]
        frame [OF isolation.keeps_service(2) [OF _ cancel(1)]]
      by (cases "h = i") (auto simp: cancel_def, metis prod.inject)
  next
    case (resume now h a r)
    then show ?thesis
      using refused(1) [OF none, of "[PAUSED, BLOCKED]"] frame [OF isolation.keeps_service(3) [OF _ resume(1)]]
      by (cases "h = i") (auto simp: resume_def, metis prod.inject)
  next
    case (recover now h a r)
    then show ?thesis
      using refused(3) [OF none, of now a] frame [OF isolation.keeps_recover [OF _ recover(1)]] by (cases "h = i") auto
  next
    case (run w now r)
    from assms(2) run(2,3) show ?thesis
    proof (cases rule: run_next_cases)
      case none
      then show ?thesis by (rule left_alone_view)
    next
      case (one j x t)
      have "jb_job_id j \<noteq> i"
      proof
        assume "jb_job_id j = i"
        then have "jo_status (job_row_of j) = jo_status (job_row_of k)" using one(1) k(1) by simp
        then have "jb_status j = RUNNING" using k(3) by (simp del: JobStatus_value.simps)
        with one(3) show False by (simp add: claim_ready_def)
      qed
      then show ?thesis
        using keepsD [OF isolation.keeps_try_candidate [of "Job_norm j" i now w "job_view i t"] _ one(6)]
          one(2,4,5) run(1,2) by (simp add: Job_wf_norm left_alone_view)
    qed
  qed
qed

text \<open>
  (C19) A job that is left RUNNING without its checkpoint, as after a worker that died before the
  first checkpoint was saved, never leaves this state: no sequence of service calls and worker runs
  changes anything the store holds of it. It cannot be recovered, cancelled, claimed or replaced.
\<close>

theorem stranded_forever:
  assumes "store_ok s" "stranded i s" "job_steps s s'"
  shows "job_view i s' = job_view i s \<and> status_text i s' = Some (JobStatus_value RUNNING)"
proof -
  have "store_ok s' \<and> job_view i s' = job_view i s" using assms(3)
  proof (induction rule: rtranclp_induct)
    case (step t u)
    then have "store_ok u" using integrity.step_keeps [OF step(2)] by simp
    with stranded_step [OF step(2), of i] stranded_view [of i t s] step.IH assms(2) show ?case by simp
  qed (simp add: assms(1))
  with assms(2) show ?thesis by (simp add: job_view_def stranded_def status_text_def)
qed

theorem stranded_forever_witness:
  "status_text ''job-1'' (snd (cancel ''job-1'' sample_now ''alice'' (store_with running_job))) =
     Some (JobStatus_value RUNNING)"
proof -
  have "job_steps (store_with running_job) (snd (cancel ''job-1'' sample_now ''alice'' (store_with running_job)))"
    by (rule r_into_rtranclp, rule job_step.cancel [OF sample_stamp]) (rule prod.collapse [symmetric])
  moreover have "stranded ''job-1'' (store_with running_job)"
    by (simp add: stranded_def not_recoverable status_text_def running_job_wf)
  ultimately show ?thesis
    using stranded_forever [OF live_ok(1) [OF live_store_with [OF running_job_wf(1)]]] by blast
qed

text \<open>
  A job whose permission request cannot be constructed stops the queue: while it is the oldest
  claimable job of a worker that has its connector, every run raises and leaves the store as it
  was, so no job behind it ever runs. The job constructor accepts such jobs.
\<close>

theorem unrequestable_job_stops_queue:
  assumes "registry_ok (wk_registry w)" "PolicySet_wf (wk_policy w)" "stamp now" "Job_wf j"
    and "claimable now 100 s = (Inr (j # js), s)" "worker_connector w (jb_connector_id j) = Some c"
    and "map_of (wk_configuration_hashes w) (jb_connector_id j) = Some (jb_configuration_hash j)"
    and "bound_capability (wk_registry w) j" "plan_approved j now" "\<not> requestable j"
  shows "\<exists>e. run_next w now s = (Inl e, s)"
proof -
  from reauthorize_iff(1) [OF assms(1,2,4,3)] assms(8-10)
  obtain e where "reauthorize_job j (wk_registry w) (wk_policy w) now = Inl e"
    by (cases "reauthorize_job j (wk_registry w) (wk_policy w) now") auto
  with assms(5-7) show ?thesis
    by (simp add: run_next_def try_candidate_def sbind_def lift_def throw_def)
qed

theorem unrequestable_job_stops_queue_witness:
  "\<exists>e. run_next sample_worker sample_now (store_with (sample_job\<lparr>jb_job_id := replicate 125 (CHR ''a'')\<rparr>)) =
     (Inl e, store_with (sample_job\<lparr>jb_job_id := replicate 125 (CHR ''a'')\<rparr>))"
proof -
  let ?j = "sample_job\<lparr>jb_job_id := replicate 125 (CHR ''a'')\<rparr>"
  have "valid_identifier (replicate 125 (CHR ''a''))" by code_simp
  then have wf: "Job_wf ?j" using sample_job_wf(1) by (simp add: Job_wf_parts Job_init_iff)
  note norm = sample_job_norm(2) [of "replicate 125 (CHR ''a'')"]
  have "time_text sample_now = Inr (isoformat sample_now)"
    using sample_stamp by (simp add: time_text_def stamp_def)
  then have "claimable sample_now 100 (store_with ?j) = (Inr [?j], store_with ?j)"
    using live_ok(1) [OF live_store_with [OF wf]] jb.dec_enc [OF wf] norm
    by (simp add: claimable_def sbind_def select_def lift_def store_ok_def row_claimable_def sql_limit_def)
  moreover have "bound_capability sample_registry ?j" "plan_approved ?j sample_now"
    using sample_job_authorised by (simp_all add: job_authorised_def bound_capability_def plan_approved_def)
  ultimately show ?thesis
    using unrequestable_job_stops_queue [of sample_worker sample_now ?j "store_with ?j" "[]" sample_connector]
      sample_wf(6,7) sample_stamp wf by (simp add: requestable_def)
qed

text \<open>
  A job identifier of 119 to 124 characters is accepted until the claim, but the execution
  request \<open>execution:{id}\<close> built after it is not. An authorised job with such an identifier and no
  checkpoint is claimed, the run raises before the connector is called, and the job is stranded
  in RUNNING.
\<close>

theorem long_job_id_strands:
  assumes "live 1 s" "stamp now" "valid_identifier (wk_worker_id w)" "registry_ok (wk_registry w)"
    and "PolicySet_wf (wk_policy w)" "Job_wf k" "find_job (jb_job_id k) s = Some (job_row_of k)"
    and "claim_ready now (job_row_of k)" "runnable w (Job_norm k) now" "requestable (Job_norm k)"
    and "(jb_job_id k, jb_attempt_count k + 1) \<notin> (\<lambda>r. (at_job_id r, at_attempt_number r)) ` set (st_attempts s)"
    and "find (\<lambda>r. ck_job_id r = jb_job_id k) (st_checkpoints s) = None" "118 < length (jb_job_id k)"
  shows "\<exists>e s'. try_candidate w now (Job_norm k) s = (Inl e, s') \<and> stranded (jb_job_id k) s'"
proof -
  let ?j = "Job_norm k"
  let ?e = "event_of s ?j ''job_claimed'' now (Some (wk_worker_id w)) (Some (jb_status k)) (Some RUNNING) None []"
  note l = assms(1) [unfolded One_nat_def]
  have wf: "Job_wf ?j" using assms(6) by (rule Job_wf_norm)
  obtain c where c: "worker_connector w (jb_connector_id ?j) = Some c"
    "map_of (wk_configuration_hashes w) (jb_connector_id ?j) = Some (jb_configuration_hash ?j)"
    "job_authorised (wk_registry w) (wk_policy w) ?j now" using assms(9) by (auto simp: runnable_def)
  note re = reauthorize_iff [OF assms(4,5) wf assms(2)]
  obtain a where a: "reauthorize_job ?j (wk_registry w) (wk_policy w) now = Inr a"
    using re(1) assms(10) by (cases "reauthorize_job ?j (wk_registry w) (wk_policy w) now") auto
  obtain u where u: "ra_usable a" "ra_authority a = Some u" using re(2,3) [OF a] c(3) by blast
  have ids: "valid_identifier (jb_job_id ?j)" "valid_identifier (jb_correlation_id ?j)"
    using wf by (simp_all add: Job_wf_def Job_init_iff del: Job_norm_sel)
  have e: "make_event ?j ''job_claimed'' now (Some (wk_worker_id w)) (Some (jb_status k)) (Some RUNNING) None [] s =
      (Inr ?e, drawn s)" "AuditEvent_wf ?e"
    using make_event_run [OF l ids(1) event_type_ids(11) ids(2) assms(2), of "Some (wk_worker_id w)" None "[]"]
      assms(3) by simp_all
  obtain j s' where claim: "store_claim (jb_job_id k) (wk_worker_id w) now ?e (drawn s) = (Inr (Some j), s')"
      "claimed_job (Job_norm k) now = Inr j"
    using store_claim_run [OF live_ok(3) [OF l] _ assms(2) e(2) _ _ _ assms(6,8),
        of "jb_job_id k" "wk_worker_id w"] live_ok(2) [OF l] live_fresh [OF l] assms(7,11) by auto
  have j: "Job_wf j" "jb_job_id j = jb_job_id k" "find_job (jb_job_id k) s' = Some (job_row_of j)"
      "jb_status j = RUNNING" "st_checkpoints s' = st_checkpoints s"
    using store_claim_ok [OF live_ok(3) [OF l] assms(2) e(2) claim(1)] find_job_None [of "jb_job_id k" "drawn s"]
    by (auto simp: find_job_commit) (auto simp: commit_def record_event_def)
  have "valid_identifier ''execution''" by code_simp
  then have "\<not> valid_identifier (''execution'' @ '':'' @ jb_job_id j)"
    using ids(1) assms(13) j(2) by (simp only: valid_join Job_norm_sel) simp
  then have "\<not> returns (ConnectorRequest_init
      \<lparr>cr_request_id = ''execution:'' @ jb_job_id j, cr_correlation_id = jb_correlation_id j,
       cr_principal = jb_principal j, cr_purpose = jb_purpose j, cr_security_domain = jb_security_domain j,
       cr_classification = jb_classification j, cr_capability_id = jb_capability_id j,
       cr_operation = jb_operation j, cr_authority = u, cr_scope = jb_resource_scope j\<rparr>)" (is "\<not> returns ?q")
    by (simp add: ConnectorRequest_init_iff)
  then obtain x where "?q = Inl x" by (cases ?q) auto
  then have "run_claimed w j c u None now s' = (Inl x, s')"
    by (simp add: run_claimed_def sbind_def lift_def throw_def)
  moreover have "store_checkpoint (jb_job_id k) s = (Inr None, s)"
    using assms(12) live_ok(1) [OF l] by (simp add: store_checkpoint_def sbind_def select_def store_ok_def lift_def)
  ultimately have "try_candidate w now ?j s = (Inl x, s')"
    using c a u e(1) claim(1) by (simp add: try_candidate_def sbind_def lift_def)
  moreover have "stranded (jb_job_id k) s'"
    using j assms(12) by (simp add: stranded_def status_text_def recoverable_def)
  ultimately show ?thesis by blast
qed

theorem long_job_id_strands_witness:
  "\<exists>e s'. try_candidate sample_worker sample_now (sample_job\<lparr>jb_job_id := replicate 119 (CHR ''a'')\<rparr>)
       (store_with (sample_job\<lparr>jb_job_id := replicate 119 (CHR ''a'')\<rparr>)) = (Inl e, s') \<and>
     stranded (replicate 119 (CHR ''a'')) s'"
proof -
  let ?i = "replicate 119 (CHR ''a'')"
  let ?j = "sample_job\<lparr>jb_job_id := ?i\<rparr>"
  have "valid_identifier ?i" by code_simp
  then have wf: "Job_wf ?j" using sample_job_wf(1) by (simp add: Job_wf_parts Job_init_iff)
  note norm = sample_job_norm(2) [of ?i]
  have "live 1 (store_with ?j)" using live_mono [OF live_mono [OF live_samples(2) [OF wf]]] by simp
  moreover have "requestable ?j"
    using sample_admits by (simp add: requestable_def) (simp add: sample_job_def)
  moreover have "runnable sample_worker ?j sample_now"
    using sample_job_authorised_id [of ?i] by (simp add: runnable_def)
  moreover have "claim_ready sample_now (job_row_of ?j)" by (simp add: claim_ready_def)
  moreover have "valid_identifier (wk_worker_id sample_worker)" by (simp add: sample_job_ids)
  ultimately show ?thesis
    using long_job_id_strands [of "store_with ?j" sample_now sample_worker ?j] sample_wf(6,7) sample_stamp wf norm
    by simp
qed

section \<open>Outcomes of a run\<close>

text \<open>
  (C18) A failed attempt is retried exactly when the error is transient, its code is listed in the
  job's retry policy and attempts are left; the next attempt is due after the base delay, doubled
  for every earlier attempt and rounded to microseconds. Otherwise the job is FAILED. Either way the
  error is stored, exactly one event is appended and no other job is touched. If the due time is
  out of range the handler raises and the job stays RUNNING.
\<close>

theorem retry_schedule:
  fixes tr :: bool
  assumes "live 1 s" "stamp now" "valid_identifier (wk_worker_id w)" "Job_wf j"
    and "find_job (jb_job_id j) s = Some (job_row_of j)" "jb_status j = RUNNING" "1 \<le> jb_attempt_count j"
    and "valid_identifier ec" "safe_text expl"
  defines "retry \<equiv> tr \<and> ec |\<in>| rp_retryable_error_codes (jb_retry_policy j) \<and>
      jb_attempt_count j < rp_max_attempts (jb_retry_policy j)"
    and "delay \<equiv> rp_base_delay_seconds (jb_retry_policy j) * 2 ^ nat (jb_attempt_count j - 1)"
  shows "if retry \<and> \<not> returns (add_seconds now delay)
    then \<exists>e. handle_connector_error w j ec expl tr now s = (Inl e, s)
    else \<exists>u s'. handle_connector_error w j ec expl tr now s = (Inr u, s') \<and>
      updated 0 s s' u (if retry then ''retry_scheduled'' else ''job_failed'') \<and> jb_job_id u = jb_job_id j \<and>
      jb_error u = Some \<lparr>je_code = ec, je_explanation = expl, je_retryable = retry\<rparr> \<and>
      (if retry then jb_status u = RETRY_WAIT \<and> (\<exists>d. jb_next_retry_at u = Some d \<and>
           utcoffset d = utcoffset now \<and> instant d = instant now + round_half_even (delay * 1000000))
       else jb_status u = FAILED \<and> jb_completed_at u = Some now)"
proof -
  have r: "is_retryable j ec tr = retry" by (auto simp: is_retryable_def retry_def)
  note run = handle_error_run [OF assms(1) [unfolded One_nat_def] assms(2-9), of tr, unfolded r delay_def [symmetric]]
  show ?thesis
  proof (cases "retry \<and> \<not> returns (add_seconds now delay)")
    case True
    with run show ?thesis by simp
  next
    case False
    with run obtain u s' where u: "handle_connector_error w j ec expl tr now s = (Inr u, s')"
        "updated 0 s s' u (if retry then ''retry_scheduled'' else ''job_failed'')" "jb_job_id u = jb_job_id j"
        "jb_error u = Some \<lparr>je_code = ec, je_explanation = expl, je_retryable = retry\<rparr>"
        "if retry then jb_status u = RETRY_WAIT \<and> (\<exists>d. add_seconds now delay = Inr d \<and> jb_next_retry_at u = Some d)
         else jb_status u = FAILED \<and> jb_completed_at u = Some now"
      by (simp only: if_False) blast
    from u(5) add_seconds_iff [OF assms(2), of delay] have "if retry then jb_status u = RETRY_WAIT \<and>
        (\<exists>d. jb_next_retry_at u = Some d \<and> utcoffset d = utcoffset now \<and>
           instant d = instant now + round_half_even (delay * 1000000))
      else jb_status u = FAILED \<and> jb_completed_at u = Some now" by (auto split: if_splits)
    with u False show ?thesis by (simp only: if_False) blast
  qed
qed

theorem retry_schedule_witness:
  "\<exists>u s' d. handle_connector_error sample_worker running_job ''transient'' ''Busy'' True sample_now
       (store_with running_job) = (Inr u, s') \<and> jb_status u = RETRY_WAIT \<and>
     jb_next_retry_at u = Some d \<and> instant d = instant sample_now + 5000000"
proof -
  have l: "live 1 (store_with running_job)"
    using live_mono [OF live_mono [OF live_samples(2) [OF running_job_wf(1)]]] by simp
  have busy: "safe_text ''Busy''" by code_simp
  have policy: "jb_retry_policy running_job = \<lparr>rp_max_attempts = 3, rp_base_delay_seconds = 5,
      rp_retryable_error_codes = {|''transient''|}\<rparr>" "jb_attempt_count running_job = 1"
    by (simp_all add: running_job_def sample_job_def)
  have five: "round_half_even 5000000 = 5000000" by (simp add: round_half_even_def)
  have in_range: "returns (add_seconds sample_now 5)"
    by (simp add: add_seconds_def five Let_def) (simp add: sample_now_def dt_ok_def instant_def max_wall_def day_us_def)
  show ?thesis
    using retry_schedule [OF l sample_stamp _ running_job_wf(1), of sample_worker "''transient''" "''Busy''" True]
      busy policy five in_range sample_job_ids by (fastforce simp: running_job_wf)
qed

text \<open>
  The final progress of a verified job can be constructed exactly when the reported item count
  fits the progress stored so far: with a nonzero total neither count exceeds it; without a total,
  or with a total of zero, the last count is not below the count already recorded. Otherwise the
  worker raises after the connector has done its work, although it takes the maximum of the two counts.
\<close>

theorem completion_progress_iff:
  assumes "JobProgress_wf (jb_progress j)" "JobResultRef_wf ref"
  shows "returns (completed_progress j ref) \<longleftrightarrow>
    (\<forall>n. jp_total_items (jb_progress j) = Some n \<longrightarrow> n \<noteq> 0 \<longrightarrow>
       jr_item_count ref \<le> n \<and> jp_processed_items (jb_progress j) \<le> n) \<and>
    (jp_total_items (jb_progress j) \<in> {None, Some 0} \<longrightarrow> jp_processed_items (jb_progress j) \<le> jr_item_count ref)"
  using completed_progress_iff [OF assms] .

theorem completion_progress_iff_witness:
  "\<not> returns (completed_progress (sample_job\<lparr>jb_progress := \<lparr>jp_phase = ''checkpointed'', jp_processed_items = 5,
       jp_total_items = None, jp_checkpoint_count = 1\<rparr>\<rparr>)
     \<lparr>jr_result_type = ''resources'', jr_references = [], jr_item_count = 3, jr_summary = None\<rparr>)"
proof -
  have ids: "valid_identifier ''checkpointed''" "valid_identifier ''resources''" by code_simp+
  have p: "JobProgress_wf \<lparr>jp_phase = ''checkpointed'', jp_processed_items = 5, jp_total_items = None,
      jp_checkpoint_count = 1\<rparr>" by (simp add: JobProgress_wf_def JobProgress_init_def check_simps ids)
  have "JobResultRef_wf \<lparr>jr_result_type = ''resources'', jr_references = [], jr_item_count = 3, jr_summary = None\<rparr>"
    by (simp add: JobResultRef_wf_def JobResultRef_init_def check_simps ids)
  from completion_progress_iff [OF _ this, of "sample_job\<lparr>jb_progress := \<lparr>jp_phase = ''checkpointed'',
      jp_processed_items = 5, jp_total_items = None, jp_checkpoint_count = 1\<rparr>\<rparr>"] p
  show ?thesis by simp
qed



text \<open>
  A scheduled retry is due by comparing ISO texts: between times with one UTC offset the
  comparison is the comparison of instants, both in the query for claimable jobs and in the claim.
  Between different offsets it is not: some retries that are due are not recognised.
\<close>

theorem retry_due_at_one_offset:
  "(\<forall>d now row. stamp d \<and> stamp now \<and> utcoffset d = utcoffset now \<and> jo_next_retry_at row = Some (isoformat d) \<longrightarrow>
      retry_due now row = Inr (instant d \<le> instant now) \<and>
      (jo_status row = JobStatus_value RETRY_WAIT \<longrightarrow>
         row_claimable (isoformat now) row = (instant d \<le> instant now))) \<and>
   (\<exists>d now row. stamp d \<and> stamp now \<and> jo_next_retry_at row = Some (isoformat d) \<and>
      instant d \<le> instant now \<and> retry_due now row = Inr False)"
proof (intro conjI allI impI; (elim conjE)?)
  fix d now and row :: job_row
  assume a: "stamp d" "stamp now" "utcoffset d = utcoffset now" "jo_next_retry_at row = Some (isoformat d)"
  have le: "isoformat d \<le> isoformat now \<longleftrightarrow> instant d \<le> instant now"
    using a(1-3) isoformat_le by (cases d; cases now) (auto simp: stamp_def instant_def)
  show "retry_due now row = Inr (instant d \<le> instant now)"
    using a(2,4) le by (simp add: retry_due_def time_text_def stamp_def)
  show "row_claimable (isoformat now) row = (instant d \<le> instant now)" if "jo_status row = JobStatus_value RETRY_WAIT"
    using a(4) le that by (simp add: row_claimable_def)
next
  let ?d = "Aware 43200000000 0" and ?now = "Aware 41400000000 (- 300)"
  have "isoformat ?d = ''0001-01-01T12:00:00+00:00''" "isoformat ?now = ''0001-01-01T11:30:00-05:00''"
    by code_simp+
  then have "\<not> isoformat ?d \<le> isoformat ?now" by simp
  moreover have "stamp ?d" "stamp ?now" "instant ?d \<le> instant ?now"
    by (simp_all add: stamp_def dt_ok_def instant_def max_wall_def day_us_def minute_us_def)
  moreover have "jo_next_retry_at ((job_row_of running_job)\<lparr>jo_next_retry_at := Some (isoformat ?d)\<rparr>) = Some (isoformat ?d)"
    by simp
  ultimately show "\<exists>d now row. stamp d \<and> stamp now \<and> jo_next_retry_at row = Some (isoformat d) \<and>
      instant d \<le> instant now \<and> retry_due now row = Inr False"
    by (intro exI conjI) (assumption+, simp add: retry_due_def time_text_def stamp_def)
qed

theorem retry_due_at_one_offset_witness:
  "retry_due sample_now ((job_row_of running_job)\<lparr>jo_next_retry_at := Some (isoformat sample_now)\<rparr>) = Inr True"
  using retry_due_at_one_offset sample_stamp by auto

end
