(* ===== verification/DevModels.thy ===== *)
theory DevModels
  imports Security
begin

text \<open>
  \<open>src/edn/development/models.py\<close>: the tasks of the development roadmap, the development
  state, the decisions, results and limits of an autonomous run, and its audit events, with
  the checks of their constructors and their JSON forms. The class \<open>AuditEvent\<close> of that module
  is \<open>DevAuditEvent\<close> here, beside the job store's. Elapsed seconds are exact rationals.
\<close>

section \<open>Enumerations\<close>

datatype DevelopmentTaskStatus = TS_PENDING | TS_ACTIVE | TS_COMPLETED | TS_BLOCKED | TS_DEFERRED

fun DevelopmentTaskStatus_value :: "DevelopmentTaskStatus \<Rightarrow> string" where
  "DevelopmentTaskStatus_value TS_PENDING = ''pending''"
| "DevelopmentTaskStatus_value TS_ACTIVE = ''active''"
| "DevelopmentTaskStatus_value TS_COMPLETED = ''completed''"
| "DevelopmentTaskStatus_value TS_BLOCKED = ''blocked''"
| "DevelopmentTaskStatus_value TS_DEFERRED = ''deferred''"

definition DevelopmentTaskStatus_members :: "DevelopmentTaskStatus list" where
  "DevelopmentTaskStatus_members =
     [TS_PENDING, TS_ACTIVE, TS_COMPLETED, TS_BLOCKED, TS_DEFERRED]"

datatype AuthorityOutcome = AO_ALLOWED | AO_OWNER_REQUIRED | AO_PROHIBITED | AO_INDETERMINATE

fun AuthorityOutcome_value :: "AuthorityOutcome \<Rightarrow> string" where
  "AuthorityOutcome_value AO_ALLOWED = ''allowed''"
| "AuthorityOutcome_value AO_OWNER_REQUIRED = ''owner_required''"
| "AuthorityOutcome_value AO_PROHIBITED = ''prohibited''"
| "AuthorityOutcome_value AO_INDETERMINATE = ''indeterminate''"

datatype ReviewDisposition = RD_PASS | RD_REPAIR | RD_OWNER_REQUIRED

section \<open>Reading helpers of the module\<close>

definition dev_strings :: "jobj \<Rightarrow> string \<Rightarrow> string list result" where
  "dev_strings v key = string_tuple (getdef v key (JList [])) key"

definition dev_object :: "json \<Rightarrow> jobj result" where
  "dev_object v = as_dict ''serialized value must be an object'' v"

definition dev_optional_int :: "json \<Rightarrow> int option result" where
  "dev_optional_int v = (case v of JNull \<Rightarrow> Inr None | JInt n \<Rightarrow> Inr (Some n)
     | _ \<Rightarrow> Inl (ValueError ''optional integer value must be an integer or null''))"

definition subscripted :: "json \<Rightarrow> jobj result" where
  \<comment> \<open>a value that is indexed with a string key before anything else is done to it\<close>
  "subscripted v = (case v of JObj d \<Rightarrow> Inr d
     | _ \<Rightarrow> Inl (TypeError ''value is not subscriptable with a string key''))"

section \<open>Tasks\<close>

record DevelopmentTask =
  tk_task_id :: string
  tk_objective :: string
  tk_prerequisites :: "string list"
  tk_authority_actions :: "string list"
  tk_risk :: string
  tk_expected_components :: "string list"
  tk_acceptance_criteria :: "string list"
  tk_required_tests :: "string list"
  tk_stop_conditions :: "string list"
  tk_dependencies :: "string list"
  tk_status :: DevelopmentTaskStatus
  tk_successor_tasks :: "string list"

definition DevelopmentTask_init :: "DevelopmentTask \<Rightarrow> DevelopmentTask result" where
  "DevelopmentTask_init t = construct
     [validate_identifier (tk_task_id t) ''task_id'',
      validate_identifier (tk_risk t) ''risk'',
      require (\<not> (blank (tk_objective t) \<or> tk_acceptance_criteria t = []))
        ''task objective and acceptance criteria are required'',
      check_all
        [tk_prerequisites t, tk_authority_actions t, tk_dependencies t, tk_successor_tasks t]
        (\<lambda>values. validate_list values ''task_reference'')] t"

definition DevelopmentTask_from_dict :: "json \<Rightarrow> DevelopmentTask result" where
  "DevelopmentTask_from_dict doc =
     rbind (subscripted doc) (\<lambda>v.
     rbind (str_item v ''task_id'') (\<lambda>task_id.
     rbind (str_item v ''objective'') (\<lambda>objective.
     rbind (dev_strings v ''prerequisites'') (\<lambda>prerequisites.
     rbind (dev_strings v ''authority_actions'') (\<lambda>actions.
     rbind (str_item v ''risk'') (\<lambda>risk.
     rbind (dev_strings v ''expected_components'') (\<lambda>components.
     rbind (dev_strings v ''acceptance_criteria'') (\<lambda>criteria.
     rbind (dev_strings v ''required_tests'') (\<lambda>tests.
     rbind (dev_strings v ''stop_conditions'') (\<lambda>stops.
     rbind (dev_strings v ''dependencies'') (\<lambda>dependencies.
     rbind (str_item v ''status'') (\<lambda>raw_status.
     rbind (enum_of DevelopmentTaskStatus_members DevelopmentTaskStatus_value (JStr raw_status))
       (\<lambda>status.
     rbind (dev_strings v ''successor_tasks'') (\<lambda>successors.
     DevelopmentTask_init
       \<lparr>tk_task_id = task_id, tk_objective = objective, tk_prerequisites = prerequisites,
        tk_authority_actions = actions, tk_risk = risk, tk_expected_components = components,
        tk_acceptance_criteria = criteria, tk_required_tests = tests,
        tk_stop_conditions = stops, tk_dependencies = dependencies, tk_status = status,
        tk_successor_tasks = successors\<rparr>))))))))))))))"

definition DevelopmentTask_to_dict :: "DevelopmentTask \<Rightarrow> jobj" where
  "DevelopmentTask_to_dict t =
     [(''task_id'', JStr (tk_task_id t)),
      (''objective'', JStr (tk_objective t)),
      (''prerequisites'', strs (tk_prerequisites t)),
      (''authority_actions'', strs (tk_authority_actions t)),
      (''risk'', JStr (tk_risk t)),
      (''expected_components'', strs (tk_expected_components t)),
      (''acceptance_criteria'', strs (tk_acceptance_criteria t)),
      (''required_tests'', strs (tk_required_tests t)),
      (''stop_conditions'', strs (tk_stop_conditions t)),
      (''dependencies'', strs (tk_dependencies t)),
      (''status'', JStr (DevelopmentTaskStatus_value (tk_status t))),
      (''successor_tasks'', strs (tk_successor_tasks t))]"

section \<open>Development state\<close>

record TestStatus =
  ts_outcome :: string
  ts_commands :: "string list"
  ts_passed :: "int option"
  ts_failed :: "int option"
  ts_validated_at :: datetime

definition TestStatus_init :: "TestStatus \<Rightarrow> TestStatus result" where
  "TestStatus_init t = construct
     [validate_identifier (ts_outcome t) ''test_outcome'',
      require (\<not> tzinfo_None (ts_validated_at t)) ''validated_at must be timezone-aware''] t"

record DevelopmentState =
  ds_schema_version :: string
  ds_product :: string
  ds_version :: string
  ds_current_branch :: string
  ds_current_milestone :: string
  ds_completed_increments :: "string list"
  ds_active_increment :: "string option"
  ds_blocked_increments :: "(string \<times> string) list"
  ds_deferred_increments :: "string list"
  ds_known_limitations :: "string list"
  ds_test_status :: TestStatus
  ds_repository_status :: string
  ds_expected_dirty_paths :: "string list"
  ds_last_validated_commit :: string
  ds_next_recommended_increment :: "string option"
  ds_required_owner_decisions :: "string list"
  ds_external_capability_blockers :: "string list"
  ds_architecture_references :: "string list"
  ds_updated_at :: datetime
  ds_provenance :: string

definition DevelopmentState_init :: "DevelopmentState \<Rightarrow> DevelopmentState result" where
  "DevelopmentState_init s = construct
     [require (\<not> tzinfo_None (ds_updated_at s)) ''updated_at must be timezone-aware'',
      validate_list (ds_completed_increments s @ ds_deferred_increments s) ''increment'',
      optional_identifier (ds_active_increment s) ''active_increment''] s"

definition blocked_item :: "json \<Rightarrow> (string \<times> string) result" where
  "blocked_item doc =
     rbind (subscripted doc) (\<lambda>v.
     rbind (str_item v ''task_id'') (\<lambda>task_id.
     rbind (str_item v ''reason'') (\<lambda>reason. Inr (task_id, reason))))"

definition TestStatus_read :: "jobj \<Rightarrow> TestStatus result" where
  \<comment> \<open>the constructor call for the nested \<open>test_status\<close> object\<close>
  "TestStatus_read v =
     rbind (str_item v ''outcome'') (\<lambda>outcome.
     rbind (dev_strings v ''commands'') (\<lambda>commands.
     rbind (dev_optional_int (getd v ''passed'')) (\<lambda>passed.
     rbind (dev_optional_int (getd v ''failed'')) (\<lambda>failed.
     rbind (rbind (str_item v ''validated_at'') fromisoformat) (\<lambda>validated_at.
     TestStatus_init
       \<lparr>ts_outcome = outcome, ts_commands = commands, ts_passed = passed, ts_failed = failed,
        ts_validated_at = validated_at\<rparr>)))))"

definition DevelopmentState_from_dict :: "jobj \<Rightarrow> DevelopmentState result" where
  "DevelopmentState_from_dict v =
     rbind (rbind (item v ''test_status'') dev_object) (\<lambda>raw_test.
     rbind (case getd v ''blocked_increments'' of JList xs \<Rightarrow> Inr xs
       | _ \<Rightarrow> Inl (ValueError ''blocked_increments must be a list'')) (\<lambda>raw_blocked.
     rbind (str_item v ''schema_version'') (\<lambda>schema_version.
     rbind (str_item v ''product'') (\<lambda>product.
     rbind (str_item v ''version'') (\<lambda>version.
     rbind (str_item v ''current_branch'') (\<lambda>branch.
     rbind (str_item v ''current_milestone'') (\<lambda>milestone.
     rbind (dev_strings v ''completed_increments'') (\<lambda>completed.
     rbind (traverse blocked_item raw_blocked) (\<lambda>blocked.
     rbind (dev_strings v ''deferred_increments'') (\<lambda>deferred.
     rbind (dev_strings v ''known_limitations'') (\<lambda>limitations.
     rbind (TestStatus_read raw_test) (\<lambda>test_status.
     rbind (str_item v ''repository_status'') (\<lambda>repository_status.
     rbind (dev_strings v ''expected_dirty_paths'') (\<lambda>dirty.
     rbind (str_item v ''last_validated_commit'') (\<lambda>last_commit.
     rbind (dev_strings v ''required_owner_decisions'') (\<lambda>decisions.
     rbind (dev_strings v ''external_capability_blockers'') (\<lambda>blockers.
     rbind (dev_strings v ''architecture_references'') (\<lambda>architecture.
     rbind (rbind (str_item v ''updated_at'') fromisoformat) (\<lambda>updated_at.
     rbind (str_item v ''provenance'') (\<lambda>provenance.
     DevelopmentState_init
       \<lparr>ds_schema_version = schema_version, ds_product = product, ds_version = version,
        ds_current_branch = branch, ds_current_milestone = milestone,
        ds_completed_increments = completed,
        ds_active_increment = as_optional_str (getd v ''active_increment''),
        ds_blocked_increments = blocked, ds_deferred_increments = deferred,
        ds_known_limitations = limitations, ds_test_status = test_status,
        ds_repository_status = repository_status, ds_expected_dirty_paths = dirty,
        ds_last_validated_commit = last_commit,
        ds_next_recommended_increment =
          as_optional_str (getd v ''next_recommended_increment''),
        ds_required_owner_decisions = decisions, ds_external_capability_blockers = blockers,
        ds_architecture_references = architecture, ds_updated_at = updated_at,
        ds_provenance = provenance\<rparr>))))))))))))))))))))"

definition TestStatus_dict :: "TestStatus \<Rightarrow> jobj" where
  "TestStatus_dict t =
     [(''outcome'', JStr (ts_outcome t)),
      (''commands'', strs (ts_commands t)),
      (''passed'', opt JInt (ts_passed t)),
      (''failed'', opt JInt (ts_failed t)),
      (''validated_at'', JStr (isoformat (ts_validated_at t)))]"

definition DevelopmentState_to_dict :: "DevelopmentState \<Rightarrow> jobj" where
  "DevelopmentState_to_dict s =
     [(''schema_version'', JStr (ds_schema_version s)),
      (''product'', JStr (ds_product s)),
      (''version'', JStr (ds_version s)),
      (''current_branch'', JStr (ds_current_branch s)),
      (''current_milestone'', JStr (ds_current_milestone s)),
      (''completed_increments'', strs (ds_completed_increments s)),
      (''active_increment'', opt JStr (ds_active_increment s)),
      (''blocked_increments'',
         JList (map (\<lambda>(task_id, reason).
           JObj [(''task_id'', JStr task_id), (''reason'', JStr reason)])
           (ds_blocked_increments s))),
      (''deferred_increments'', strs (ds_deferred_increments s)),
      (''known_limitations'', strs (ds_known_limitations s)),
      (''test_status'', JObj (TestStatus_dict (ds_test_status s))),
      (''repository_status'', JStr (ds_repository_status s)),
      (''expected_dirty_paths'', strs (ds_expected_dirty_paths s)),
      (''last_validated_commit'', JStr (ds_last_validated_commit s)),
      (''next_recommended_increment'', opt JStr (ds_next_recommended_increment s)),
      (''required_owner_decisions'', strs (ds_required_owner_decisions s)),
      (''external_capability_blockers'', strs (ds_external_capability_blockers s)),
      (''architecture_references'', strs (ds_architecture_references s)),
      (''updated_at'', JStr (isoformat (ds_updated_at s))),
      (''provenance'', JStr (ds_provenance s))]"

section \<open>Decisions, results and limits of a run\<close>

record AuthorityDecision =
  ad_outcome :: AuthorityOutcome
  ad_reason_code :: string
  ad_explanation :: string
  ad_actions :: "string list"

record EscalationRequest =
  es_blocked :: string
  es_authority_reason :: string
  es_exact_request :: string
  es_if_approved :: string
  es_if_declined :: string
  es_minimum_authority :: string
  es_reversible :: bool
  es_recommendation :: string
  es_decision_options :: "string list"

definition decision_options_default :: "string list" where
  "decision_options_default = [''GO'', ''NO-GO'', ''CONDITIONAL GO'']"

record ValidationResult =
  vr_passed :: bool
  vr_failures :: "string list"
  vr_evidence :: "string list"
  vr_failure_signature :: "string option"

record ReviewFinding =
  rf_code :: string
  rf_explanation :: string
  rf_disposition :: ReviewDisposition

record ReviewResult =
  rr_findings :: "ReviewFinding list"

definition ReviewResult_passed :: "ReviewResult \<Rightarrow> bool" where
  "ReviewResult_passed r = (rr_findings r = [])"

record AgentResult =
  ag_success :: bool
  ag_summary :: string
  ag_changed_paths :: "string list"
  ag_recommended_commit :: "string option"
  ag_failure_signature :: "string option"

record RepositorySnapshot =
  rs_branch :: string
  rs_commit :: string
  rs_dirty_paths :: "string list"

record RunLimits =
  rl_max_tasks :: int
  rl_max_repair_cycles :: int
  rl_max_elapsed_seconds :: rat
  rl_repeated_failure_limit :: int

definition RunLimits_init :: "RunLimits \<Rightarrow> RunLimits result" where
  "RunLimits_init l = construct
     [require (\<not> min (min (min (of_int (rl_max_tasks l)) (of_int (rl_max_repair_cycles l)))
           (rl_max_elapsed_seconds l)) (of_int (rl_repeated_failure_limit l)) \<le> 0)
        ''run limits must be positive''] l"

definition RunLimits_default :: RunLimits where
  "RunLimits_default = \<lparr>rl_max_tasks = 1, rl_max_repair_cycles = 2,
     rl_max_elapsed_seconds = 1800, rl_repeated_failure_limit = 2\<rparr>"

record RunReport =
  rn_completed_tasks :: "string list"
  rn_stopped_reason :: string
  rn_escalation :: "EscalationRequest option"
  rn_prepared_commits :: "string list"
  rn_audit_events :: nat

record DevAuditEvent =
  de_event_id :: string
  de_event_type :: string
  de_timestamp :: datetime
  de_task_id :: "string option"
  de_reason_code :: string
  de_outcome :: string
  de_evidence_refs :: "string list"
  de_metadata :: "(string \<times> json) list"

definition DevAuditEvent_to_dict :: "DevAuditEvent \<Rightarrow> jobj" where
  "DevAuditEvent_to_dict e =
     [(''event_id'', JStr (de_event_id e)),
      (''event_type'', JStr (de_event_type e)),
      (''timestamp'', JStr (isoformat (de_timestamp e))),
      (''task_id'', opt JStr (de_task_id e)),
      (''reason_code'', JStr (de_reason_code e)),
      (''outcome'', JStr (de_outcome e)),
      (''evidence_refs'', strs (de_evidence_refs e)),
      (''metadata'', JObj (fold (\<lambda>(key, v). dict_set key v) (de_metadata e) []))]"

section \<open>Well-formed values and their codecs\<close>

interpretation task_status: str_enum DevelopmentTaskStatus_members DevelopmentTaskStatus_value
proof
  show "x \<in> set DevelopmentTaskStatus_members" for x
    by (cases x) (simp_all add: DevelopmentTaskStatus_members_def)
  show "distinct (map DevelopmentTaskStatus_value DevelopmentTaskStatus_members)"
    by code_simp
qed

definition DevelopmentTask_wf :: "DevelopmentTask \<Rightarrow> bool" where
  "DevelopmentTask_wf t = returns (DevelopmentTask_init t)"

definition TestStatus_wf :: "TestStatus \<Rightarrow> bool" where
  "TestStatus_wf t = (returns (TestStatus_init t) \<and> stamp (ts_validated_at t))"

definition DevelopmentState_wf :: "DevelopmentState \<Rightarrow> bool" where
  "DevelopmentState_wf s = (returns (DevelopmentState_init s) \<and> stamp (ds_updated_at s) \<and>
     TestStatus_wf (ds_test_status s))"

definition RunLimits_wf :: "RunLimits \<Rightarrow> bool" where
  "RunLimits_wf l = returns (RunLimits_init l)"

lemma RunLimits_wf_iff:
  "RunLimits_wf l \<longleftrightarrow> 0 < rl_max_tasks l \<and> 0 < rl_max_repair_cycles l \<and>
     0 < rl_max_elapsed_seconds l \<and> 0 < rl_repeated_failure_limit l"
  by (auto simp: RunLimits_wf_def RunLimits_init_def check_simps min_le_iff_disj)

lemma RunLimits_default_wf: "RunLimits_wf RunLimits_default"
  by (simp add: RunLimits_wf_iff RunLimits_default_def)

lemma dev_strings_strs [simp, codec_simps]:
  "dev_strings ((key, strs xs) # v) key = Inr xs"
  "key' \<noteq> key \<Longrightarrow> dev_strings ((key', d) # v) key = dev_strings v key"
  by (simp_all add: dev_strings_def)

lemma dev_optional_int_opt [simp, codec_simps]: "dev_optional_int (opt JInt v) = Inr v"
  by (cases v) (simp_all add: dev_optional_int_def)

interpretation task_codec: codec DevelopmentTask_to_dict "\<lambda>d. DevelopmentTask_from_dict (JObj d)"
  DevelopmentTask_wf id
proof
  show "DevelopmentTask_wf t \<Longrightarrow> DevelopmentTask_from_dict (JObj (DevelopmentTask_to_dict t)) = Inr (id t)"
    for t :: DevelopmentTask
    by (simp add: DevelopmentTask_from_dict_def DevelopmentTask_to_dict_def subscripted_def
        task_status.of_val DevelopmentTask_wf_def DevelopmentTask_init_def check_simps)
qed simp_all

lemma TestStatus_read_dict: "TestStatus_wf t \<Longrightarrow> TestStatus_read (TestStatus_dict t) = Inr t"
  by (simp add: TestStatus_read_def TestStatus_dict_def TestStatus_wf_def TestStatus_init_def
      check_simps)

lemma blocked_items_read:
  "traverse blocked_item (map (\<lambda>(task_id, reason).
      JObj [(''task_id'', JStr task_id), (''reason'', JStr reason)]) bs) = Inr bs"
  by (induction bs) (auto simp: blocked_item_def subscripted_def)

interpretation state_codec: codec DevelopmentState_to_dict DevelopmentState_from_dict
  DevelopmentState_wf id
proof
  show "DevelopmentState_wf s \<Longrightarrow> DevelopmentState_from_dict (DevelopmentState_to_dict s) = Inr (id s)"
    for s :: DevelopmentState
    by (simp add: DevelopmentState_from_dict_def DevelopmentState_to_dict_def dev_object_def
        TestStatus_read_dict blocked_items_read DevelopmentState_wf_def DevelopmentState_init_def
        check_simps)
qed simp_all

end
