(* ===== verification/DevAuthority.thy ===== *)
theory DevAuthority
  imports DevModels
begin

text \<open>
  \<open>src/edn/development/authority.py\<close>: the standing authority of autonomous development and
  the Git checkpoint authority, both failing closed, and the reviewer and agent the package
  ships (\<open>review.py\<close>, \<open>agent.py\<close>). A policy file is the JSON document it holds.
\<close>

section \<open>Policies\<close>

record GitCheckpointAuthority =
  gc_allowed_branch_prefixes :: "string list"
  gc_protected_branches :: "string fset"
  gc_protected_branch_prefixes :: "string list"
  gc_allowed_remote :: string
  gc_prohibited_operations :: "string fset"
  gc_required_record_fields :: "string list"

record DevelopmentAuthorityPolicy =
  ap_policy_id :: string
  ap_version :: string
  ap_allowed_actions :: "string fset"
  ap_owner_required_actions :: "string fset"
  ap_prohibited_actions :: "string fset"
  ap_git_checkpoint :: "GitCheckpointAuthority option"

record GitCheckpointRequest =
  gr_branch :: string
  gr_upstream_remote :: string
  gr_upstream_branch :: string
  gr_target_remote :: string
  gr_target_branch :: string
  gr_operations :: "string list"
  gr_completed_reviewed_increment :: bool
  gr_increment_only_changes :: bool
  gr_validation_passed :: bool
  gr_commit_message_matches_increment :: bool
  gr_hooks_and_validation_enabled :: bool
  gr_contains_no_secrets :: bool
    \<comment> \<open>\<open>contains_no_secrets_protected_data_or_live_evidence\<close>\<close>
  gr_audit_state_recording_planned :: bool
  gr_verify_head_equals_upstream_after_push :: bool

definition policy_tuple :: "jobj \<Rightarrow> string \<Rightarrow> string list result" where
  "policy_tuple v key = string_tuple (getd v key) key"

definition policy_set :: "jobj \<Rightarrow> string \<Rightarrow> string fset result" where
  "policy_set v key = string_set (getd v key) key"

definition GitCheckpointAuthority_from_dict :: "jobj \<Rightarrow> GitCheckpointAuthority result" where
  "GitCheckpointAuthority_from_dict v =
     rbind (policy_tuple v ''allowed_branch_prefixes'') (\<lambda>allowed.
     rbind (policy_set v ''protected_branches'') (\<lambda>protected.
     rbind (policy_tuple v ''protected_branch_prefixes'') (\<lambda>prefixes.
     rbind (str_item v ''allowed_remote'') (\<lambda>remote.
     rbind (policy_set v ''prohibited_operations'') (\<lambda>prohibited.
     rbind (policy_tuple v ''required_record_fields'') (\<lambda>fields.
     Inr \<lparr>gc_allowed_branch_prefixes = allowed, gc_protected_branches = protected,
       gc_protected_branch_prefixes = prefixes, gc_allowed_remote = remote,
       gc_prohibited_operations = prohibited, gc_required_record_fields = fields\<rparr>))))))"

definition DevelopmentAuthorityPolicy_load :: "json \<Rightarrow> DevelopmentAuthorityPolicy result" where
  "DevelopmentAuthorityPolicy_load doc =
     rbind (as_dict ''development authority policy must be an object'' doc) (\<lambda>v.
     rbind (str_item v ''policy_id'') (\<lambda>policy_id.
     rbind (str_item v ''version'') (\<lambda>version.
     rbind (policy_set v ''allowed_actions'') (\<lambda>allowed.
     rbind (policy_set v ''owner_required_actions'') (\<lambda>owner.
     rbind (policy_set v ''prohibited_actions'') (\<lambda>prohibited.
     rbind (optional_model ''git_checkpoint_authority must be an object''
         GitCheckpointAuthority_from_dict (getd v ''git_checkpoint_authority'')) (\<lambda>checkpoint.
     Inr \<lparr>ap_policy_id = policy_id, ap_version = version, ap_allowed_actions = allowed,
       ap_owner_required_actions = owner, ap_prohibited_actions = prohibited,
       ap_git_checkpoint = checkpoint\<rparr>)))))))"

section \<open>Standing authority\<close>

abbreviation joined :: "string fset \<Rightarrow> string" where
  \<comment> \<open>\<open>', '.join(sorted(values))\<close>\<close>
  "joined s \<equiv> join '', '' (sorted_list_of_fset s)"

definition authority_evaluate ::
  "DevelopmentAuthorityPolicy \<Rightarrow> string list \<Rightarrow> AuthorityDecision" where
  "authority_evaluate p actions =
     (if actions = [] then
        \<lparr>ad_outcome = AO_INDETERMINATE, ad_reason_code = ''authority_actions_missing'',
         ad_explanation = ''Task declares no authority actions; unknown authority fails closed.'',
         ad_actions = actions\<rparr>
      else let unknown = fset_of_list actions |-|
          (ap_allowed_actions p |\<union>| ap_owner_required_actions p |\<union>| ap_prohibited_actions p)
      in if unknown \<noteq> {||} then
        \<lparr>ad_outcome = AO_INDETERMINATE, ad_reason_code = ''authority_unknown'',
         ad_explanation = ''No standing rule exists for: '' @ joined unknown @ ''.'',
         ad_actions = actions\<rparr>
      else let prohibited = fset_of_list actions |\<inter>| ap_prohibited_actions p
      in if prohibited \<noteq> {||} then
        \<lparr>ad_outcome = AO_PROHIBITED, ad_reason_code = ''action_prohibited'',
         ad_explanation = ''Policy prohibits: '' @ joined prohibited @ ''.'',
         ad_actions = actions\<rparr>
      else let owner = fset_of_list actions |\<inter>| ap_owner_required_actions p
      in if owner \<noteq> {||} then
        \<lparr>ad_outcome = AO_OWNER_REQUIRED, ad_reason_code = ''owner_authority_required'',
         ad_explanation = ''Owner authority is required for: '' @ joined owner @ ''.'',
         ad_actions = actions\<rparr>
      else
        \<lparr>ad_outcome = AO_ALLOWED, ad_reason_code = ''standing_authority'',
         ad_explanation = ''All task actions are covered by development standing authority.'',
         ad_actions = actions\<rparr>)"

definition escalation_for :: "DevelopmentTask \<Rightarrow> AuthorityDecision \<Rightarrow> EscalationRequest" where
  "escalation_for t d =
     \<lparr>es_blocked = tk_task_id t @ '': '' @ tk_objective t,
      es_authority_reason = ad_explanation d,
      es_exact_request = ''Approve only the listed task actions and scope: '' @
        join '', '' (ad_actions d),
      es_if_approved = ''The task may proceed within the exact approved scope.'',
      es_if_declined = ''The task remains blocked; other eligible tasks may continue.'',
      es_minimum_authority = join '', '' (ad_actions d),
      es_reversible = (\<not> list_ex (py_in ''destructive'') (ad_actions d)),
      es_recommendation = ''Approve only if the requested scope matches owner intent.'',
      es_decision_options = decision_options_default\<rparr>"

section \<open>Git checkpoints\<close>

definition checkpoint_actions :: "string list" where
  "checkpoint_actions =
     [''git.stage.validated_increment'', ''git.commit.validated_increment'',
      ''git.push.current_upstream'']"

definition checkpoint_denied :: "string \<Rightarrow> string \<Rightarrow> string list \<Rightarrow> AuthorityDecision" where
  "checkpoint_denied reason explanation actions =
     \<lparr>ad_outcome = AO_PROHIBITED, ad_reason_code = reason, ad_explanation = explanation,
      ad_actions = actions\<rparr>"

definition checkpoint_required :: "GitCheckpointRequest \<Rightarrow> (string \<times> bool) list" where
  "checkpoint_required r =
     [(''completed_reviewed_increment'', gr_completed_reviewed_increment r),
      (''increment_only_changes'', gr_increment_only_changes r),
      (''validation_passed'', gr_validation_passed r),
      (''commit_message_matches_increment'', gr_commit_message_matches_increment r),
      (''hooks_and_validation_enabled'', gr_hooks_and_validation_enabled r),
      (''contains_no_secrets_protected_data_or_live_evidence'', gr_contains_no_secrets r),
      (''audit_state_recording_planned'', gr_audit_state_recording_planned r),
      (''verify_head_equals_upstream_after_push'', gr_verify_head_equals_upstream_after_push r)]"

definition evaluate_git_checkpoint ::
  "DevelopmentAuthorityPolicy \<Rightarrow> GitCheckpointRequest \<Rightarrow> AuthorityDecision" where
  "evaluate_git_checkpoint p r = (case ap_git_checkpoint p of
       None \<Rightarrow>
        \<lparr>ad_outcome = AO_INDETERMINATE, ad_reason_code = ''git_checkpoint_policy_missing'',
         ad_explanation = ''No standing Git checkpoint policy is configured.'',
         ad_actions = checkpoint_actions\<rparr>
     | Some authority \<Rightarrow>
       let prohibited = fset_of_list (gr_operations r) |\<inter>| gc_prohibited_operations authority
       in if prohibited \<noteq> {||} then
        \<lparr>ad_outcome = AO_PROHIBITED, ad_reason_code = ''git_operation_prohibited'',
         ad_explanation = ''Policy permanently prohibits: '' @ joined prohibited @ ''.'',
         ad_actions = checkpoint_actions\<rparr>
       else let
         branch_protected = (gr_branch r |\<in>| gc_protected_branches authority \<or>
           list_ex (\<lambda>p. prefix p (gr_branch r)) (gc_protected_branch_prefixes authority));
         branch_allowed = list_ex (\<lambda>p. prefix p (gr_branch r)) (gc_allowed_branch_prefixes authority)
       in if branch_protected \<or> \<not> branch_allowed then
         checkpoint_denied ''git_branch_not_authorised''
           ''Checkpoint branch is protected or is not an allowed feature branch.''
           checkpoint_actions
       else if gr_upstream_remote r \<noteq> gc_allowed_remote authority \<or>
           gr_target_remote r \<noteq> gr_upstream_remote r \<or>
           gr_upstream_branch r \<noteq> gr_branch r \<or> gr_target_branch r \<noteq> gr_branch r then
         checkpoint_denied ''git_upstream_mismatch''
           ''Push target must be the current branch's existing exact upstream.''
           checkpoint_actions
       else let missing = sort (map fst (filter (\<lambda>(name, enabled). \<not> enabled) (checkpoint_required r)))
       in if missing \<noteq> [] then
         checkpoint_denied ''git_checkpoint_precondition_failed''
           (''Checkpoint preconditions failed: '' @ join '', '' missing @ ''.'')
           checkpoint_actions
       else
        \<lparr>ad_outcome = AO_ALLOWED, ad_reason_code = ''validated_feature_checkpoint'',
         ad_explanation = ''Validated increment may be staged, committed, pushed to its '' @
           ''existing upstream, and verified.'',
         ad_actions = checkpoint_actions\<rparr>)"

section \<open>The shipped reviewer and agent\<close>

definition BaselineReviewer_review :: "DevelopmentTask \<Rightarrow> ValidationResult \<Rightarrow> ReviewResult" where
  "BaselineReviewer_review t v =
     (if \<not> vr_passed v then
        \<lparr>rr_findings = map (\<lambda>failure. \<lparr>rf_code = ''validation_failure'', rf_explanation = failure,
           rf_disposition = RD_REPAIR\<rparr>) (vr_failures v)\<rparr>
      else if tk_required_tests t = [] then
        \<lparr>rr_findings = [\<lparr>rf_code = ''tests_missing'',
           rf_explanation = ''Task declares no required tests.'',
           rf_disposition = RD_OWNER_REQUIRED\<rparr>]\<rparr>
      else \<lparr>rr_findings = []\<rparr>)"

definition ManualLocalAgent_implement :: "DevelopmentTask \<Rightarrow> int \<Rightarrow> AgentResult" where
  "ManualLocalAgent_implement t repair_cycle =
     \<lparr>ag_success = False,
      ag_summary = ''Manual/local agent execution required for '' @ tk_task_id t @
        ''; repair cycle '' @ show_int repair_cycle @ ''.'',
      ag_changed_paths = [], ag_recommended_commit = None,
      ag_failure_signature = Some ''manual_agent_required''\<rparr>"

section \<open>What the decisions mean\<close>

lemma authority_ALLOWED:
  "ad_outcome (authority_evaluate p actions) = AO_ALLOWED \<longleftrightarrow>
     actions \<noteq> [] \<and> (\<forall>a \<in> set actions. a |\<in>| ap_allowed_actions p \<and>
       a |\<notin>| ap_owner_required_actions p \<and> a |\<notin>| ap_prohibited_actions p)"
  by (auto simp: authority_evaluate_def Let_def fset_of_list_elem fset_of_list.rep_eq fset_eq_iff)

lemma authority_PROHIBITED:
  "ad_outcome (authority_evaluate p actions) = AO_PROHIBITED \<longleftrightarrow>
     (\<exists>a \<in> set actions. a |\<in>| ap_prohibited_actions p) \<and>
     (\<forall>a \<in> set actions. a |\<in>| ap_allowed_actions p |\<union>| ap_owner_required_actions p |\<union>|
       ap_prohibited_actions p)"
  by (auto simp: authority_evaluate_def Let_def fset_of_list_elem fset_of_list.rep_eq fset_eq_iff)

lemma authority_OWNER_REQUIRED:
  "ad_outcome (authority_evaluate p actions) = AO_OWNER_REQUIRED \<longleftrightarrow>
     (\<exists>a \<in> set actions. a |\<in>| ap_owner_required_actions p) \<and>
     (\<forall>a \<in> set actions. a |\<in>| ap_allowed_actions p |\<union>| ap_owner_required_actions p \<and>
       a |\<notin>| ap_prohibited_actions p)"
  by (auto simp: authority_evaluate_def Let_def fset_of_list_elem fset_of_list.rep_eq fset_eq_iff)

lemma authority_actions [simp]: "ad_actions (authority_evaluate p actions) = actions"
  by (simp add: authority_evaluate_def Let_def)

definition checkpoint_in_bounds :: "GitCheckpointAuthority \<Rightarrow> GitCheckpointRequest \<Rightarrow> bool" where
  \<comment> \<open>the branch, remote and operations a checkpoint may touch\<close>
  "checkpoint_in_bounds g r =
     ((\<forall>x \<in> set (gr_operations r). x |\<notin>| gc_prohibited_operations g) \<and>
      gr_branch r |\<notin>| gc_protected_branches g \<and>
      (\<forall>x \<in> set (gc_protected_branch_prefixes g). \<not> prefix x (gr_branch r)) \<and>
      (\<exists>x \<in> set (gc_allowed_branch_prefixes g). prefix x (gr_branch r)) \<and>
      gr_upstream_remote r = gc_allowed_remote g \<and> gr_target_remote r = gc_allowed_remote g \<and>
      gr_upstream_branch r = gr_branch r \<and> gr_target_branch r = gr_branch r)"

lemma checkpoint_ALLOWED:
  "ad_outcome (evaluate_git_checkpoint p r) = AO_ALLOWED \<longleftrightarrow>
     (\<exists>g. ap_git_checkpoint p = Some g \<and> checkpoint_in_bounds g r \<and>
       list_all snd (checkpoint_required r))"
proof (cases "ap_git_checkpoint p")
  case None
  then show ?thesis by (simp add: evaluate_git_checkpoint_def)
next
  case (Some g)
  have "map fst (filter (\<lambda>(name, enabled). \<not> enabled) (checkpoint_required r)) = [] \<longleftrightarrow>
      list_all snd (checkpoint_required r)"
    by (auto simp: filter_empty_conv list_all_iff)
  moreover have "fset_of_list (gr_operations r) |\<inter>| gc_prohibited_operations g = {||} \<longleftrightarrow>
      (\<forall>x \<in> set (gr_operations r). x |\<notin>| gc_prohibited_operations g)"
    by (auto simp: fset_eq_iff fset_of_list_elem)
  ultimately show ?thesis
    by (auto simp: Some evaluate_git_checkpoint_def checkpoint_in_bounds_def checkpoint_denied_def
        Let_def list_ex_iff)
qed

end
