(* ===== verification/DevRoadmap.thy ===== *)
theory DevRoadmap
  imports DevAuthority
begin

text \<open>
  \<open>src/edn/development/roadmap.py\<close> and \<open>state.py\<close>: loading and checking the roadmap, the
  deterministic choice of the next task, and the check that the repository is in the state
  the development state describes. A file is the JSON document it holds.
\<close>

section \<open>The roadmap\<close>

record DevelopmentRoadmap =
  rm_roadmap_id :: string
  rm_version :: string
  rm_tasks :: "DevelopmentTask list"

definition DevelopmentRoadmap_load :: "json \<Rightarrow> DevelopmentRoadmap result" where
  "DevelopmentRoadmap_load doc =
     rbind (case doc of JObj v \<Rightarrow> (case getd v ''tasks'' of JList ts \<Rightarrow> Inr (v, ts)
         | _ \<Rightarrow> Inl (ValueError ''development roadmap must contain a task list''))
       | _ \<Rightarrow> Inl (ValueError ''development roadmap must contain a task list'')) (\<lambda>(v, raw_tasks).
     rbind (str_item v ''roadmap_id'') (\<lambda>roadmap_id.
     rbind (str_item v ''version'') (\<lambda>version.
     rbind (traverse DevelopmentTask_from_dict raw_tasks) (\<lambda>tasks.
     let identifiers = map tk_task_id tasks in
     construct
       [require (length identifiers = length (remdups identifiers))
          ''roadmap task IDs must be unique'',
        require (\<not> list_ex (\<lambda>t. list_ex (\<lambda>p. p \<notin> set identifiers) (tk_prerequisites t)) tasks)
          ''roadmap contains an unknown prerequisite'']
       \<lparr>rm_roadmap_id = roadmap_id, rm_version = version, rm_tasks = tasks\<rparr>))))"

definition roadmap_task :: "DevelopmentRoadmap \<Rightarrow> string \<Rightarrow> DevelopmentTask result" where
  "roadmap_task rm task_id = (case find (\<lambda>t. tk_task_id t = task_id) (rm_tasks rm) of
     None \<Rightarrow> Inl (KeyError task_id) | Some t \<Rightarrow> Inr t)"

section \<open>Choosing a task\<close>

definition eligible :: "string list \<Rightarrow> string set \<Rightarrow> DevelopmentTask \<Rightarrow> bool" where
  "eligible completed excluded t = (tk_status t = TS_PENDING \<and> tk_task_id t \<notin> excluded \<and>
     set (tk_prerequisites t) \<subseteq> set completed)"

definition eligible_tasks ::
  "DevelopmentRoadmap \<Rightarrow> DevelopmentState \<Rightarrow> string set \<Rightarrow> DevelopmentTask list" where
  "eligible_tasks rm st excluded =
     sort_key (\<lambda>t. (Some (tk_task_id t) \<noteq> ds_next_recommended_increment st, tk_task_id t))
       (filter (eligible (ds_completed_increments st) excluded) (rm_tasks rm))"

fun first_allowed :: "DevelopmentAuthorityPolicy \<Rightarrow> DevelopmentTask list \<Rightarrow> DevelopmentTask option" where
  "first_allowed p [] = None"
| "first_allowed p (t # ts) =
     (if ad_outcome (authority_evaluate p (tk_authority_actions t)) = AO_ALLOWED then Some t
      else first_allowed p ts)"

definition select_next ::
  "DevelopmentRoadmap \<Rightarrow> DevelopmentState \<Rightarrow> DevelopmentAuthorityPolicy \<Rightarrow> string set \<Rightarrow>
     DevelopmentTask option" where
  "select_next rm st p excluded =
     first_allowed p
       (sort_key (\<lambda>t. (Some (tk_task_id t) \<noteq> ds_next_recommended_increment st, tk_task_id t))
         (filter (eligible (ds_completed_increments st) excluded) (rm_tasks rm)))"

section \<open>The state file and the repository\<close>

definition load_state :: "json option \<Rightarrow> DevelopmentState result" where
  \<comment> \<open>\<open>DevelopmentStateStore.load\<close>; \<open>None\<close> is a missing file\<close>
  "load_state file = (case file of
       None \<Rightarrow> Inl (OSError ''No such file or directory'')
     | Some doc \<Rightarrow> rbind (as_dict ''development state must be an object'' doc)
         DevelopmentState_from_dict)"

definition save_state :: "DevelopmentState \<Rightarrow> json option" where
  \<comment> \<open>\<open>DevelopmentStateStore.save\<close>: the document the file holds after the replace\<close>
  "save_state st = Some (JObj (DevelopmentState_to_dict st))"

definition rstrip_slash :: "string \<Rightarrow> string" where
  "rstrip_slash s = rev (dropWhile (\<lambda>c. c = CHR ''/'') (rev s))"

definition path_expected :: "string list \<Rightarrow> string \<Rightarrow> bool" where
  "path_expected expected path =
     list_ex (\<lambda>e. path = e \<or> prefix (rstrip_slash e @ ''/'') path) expected"

definition validate_repository :: "DevelopmentState \<Rightarrow> RepositorySnapshot \<Rightarrow> string list" where
  "validate_repository st snap =
     (let unexpected = filter (\<lambda>path. \<not> path_expected (ds_expected_dirty_paths st) path)
            (rs_dirty_paths snap)
      in (if rs_branch snap \<noteq> ds_current_branch st then [''unexpected_branch''] else []) @
         (if unexpected \<noteq> [] then [''unexpected_dirty_paths:'' @ join '','' unexpected] else []))"

section \<open>Lemmas\<close>

lemma load_save [simp]: "DevelopmentState_wf st \<Longrightarrow> load_state (save_state st) = Inr st"
  by (simp add: load_state_def save_state_def state_codec.dec_enc)

lemma validate_repository_Nil:
  "validate_repository st snap = [] \<longleftrightarrow> rs_branch snap = ds_current_branch st \<and>
     (\<forall>path \<in> set (rs_dirty_paths snap). path_expected (ds_expected_dirty_paths st) path)"
  by (auto simp: validate_repository_def Let_def filter_empty_conv)

lemma set_eligible_tasks [simp]:
  "set (eligible_tasks rm st excluded) =
     {t \<in> set (rm_tasks rm). eligible (ds_completed_increments st) excluded t}"
  by (simp add: eligible_tasks_def)

definition task_allowed :: "DevelopmentAuthorityPolicy \<Rightarrow> DevelopmentTask \<Rightarrow> bool" where
  "task_allowed p t = (ad_outcome (authority_evaluate p (tk_authority_actions t)) = AO_ALLOWED)"

lemma first_allowed_find: "first_allowed p ts = find (task_allowed p) ts"
  by (induction ts) (simp_all add: task_allowed_def)

lemma select_next_find:
  "select_next rm st p excluded = find (task_allowed p) (eligible_tasks rm st excluded)"
  by (simp add: select_next_def eligible_tasks_def first_allowed_find)

lemma find_SomeD: "find P xs = Some x \<Longrightarrow> x \<in> set xs \<and> P x"
  by (auto simp: find_Some_iff)

lemma select_next_Some:
  assumes "select_next rm st p excluded = Some t"
  shows "t \<in> set (rm_tasks rm)" and "eligible (ds_completed_increments st) excluded t"
    and "task_allowed p t"
  using assms find_SomeD unfolding select_next_find by fastforce+

lemma select_next_None:
  "select_next rm st p excluded = None \<longleftrightarrow>
     (\<forall>t \<in> set (rm_tasks rm). eligible (ds_completed_increments st) excluded t \<longrightarrow> \<not> task_allowed p t)"
  by (auto simp: select_next_find find_None_iff)

text \<open>The chosen task is the least, in the key's order, of the eligible and allowed ones.\<close>

lemma find_sorted_least:
  assumes "find P xs = Some x" and "sorted (map f xs)" and "y \<in> set xs" and "P y"
  shows "f x \<le> f y"
proof -
  obtain i where i: "i < length xs" "P (xs ! i)" "x = xs ! i" "\<forall>j < i. \<not> P (xs ! j)"
    using assms(1) by (auto simp: find_Some_iff)
  obtain j where j: "j < length xs" "y = xs ! j"
    using assms(3) by (auto simp: in_set_conv_nth)
  have "i \<le> j" using i(4) j assms(4) by (meson not_less)
  then show ?thesis using assms(2) i j by (auto simp: sorted_iff_nth_mono)
qed

lemma select_next_least:
  assumes "select_next rm st p excluded = Some t"
    and "u \<in> set (rm_tasks rm)" "eligible (ds_completed_increments st) excluded u"
      "task_allowed p u"
  shows "(Some (tk_task_id t) \<noteq> ds_next_recommended_increment st, tk_task_id t) \<le>
    (Some (tk_task_id u) \<noteq> ds_next_recommended_increment st, tk_task_id u)"
  using assms by (intro find_sorted_least
      [where f = "\<lambda>t. (Some (tk_task_id t) \<noteq> ds_next_recommended_increment st, tk_task_id t)"
        and P = "task_allowed p" and xs = "eligible_tasks rm st excluded"])
    (simp_all add: select_next_find eligible_tasks_def)

text \<open>A roadmap that loads has unique task identifiers, known prerequisites and checked tasks.\<close>

definition roadmap_wf :: "DevelopmentRoadmap \<Rightarrow> bool" where
  "roadmap_wf rm = (distinct (map tk_task_id (rm_tasks rm)) \<and>
     (\<forall>t \<in> set (rm_tasks rm). DevelopmentTask_wf t \<and>
        set (tk_prerequisites t) \<subseteq> set (map tk_task_id (rm_tasks rm))))"

lemma DevelopmentTask_from_dict_wf:
  "DevelopmentTask_from_dict doc = Inr t \<Longrightarrow> DevelopmentTask_wf t"
  by (auto simp: DevelopmentTask_from_dict_def rbind_Inr_iff DevelopmentTask_wf_def
      DevelopmentTask_init_def check_simps)

lemma roadmap_load_wf:
  assumes "DevelopmentRoadmap_load doc = Inr rm"
  shows "roadmap_wf rm"
proof -
  obtain raw where raw: "traverse DevelopmentTask_from_dict raw = Inr (rm_tasks rm)"
    and checks: "length (map tk_task_id (rm_tasks rm)) = length (remdups (map tk_task_id (rm_tasks rm)))"
      "\<not> list_ex (\<lambda>t. list_ex (\<lambda>p. p \<notin> set (map tk_task_id (rm_tasks rm))) (tk_prerequisites t))
        (rm_tasks rm)"
    using assms
    by (auto simp: DevelopmentRoadmap_load_def rbind_Inr_iff Let_def check_simps
        split: json.splits prod.splits)
  have "\<forall>t \<in> set (rm_tasks rm). DevelopmentTask_wf t"
    using raw unfolding traverse_Inr_iff
    by (fastforce simp: list_all2_conv_all_nth in_set_conv_nth intro: DevelopmentTask_from_dict_wf)
  moreover have "distinct (map tk_task_id (rm_tasks rm))"
    using checks(1) by (metis length_remdups_eq remdups_id_iff_distinct)
  ultimately show ?thesis
    using checks(2) by (auto simp: roadmap_wf_def list_ex_iff)
qed

lemma roadmap_task_find:
  assumes "roadmap_wf rm" and "t \<in> set (rm_tasks rm)"
  shows "roadmap_task rm (tk_task_id t) = Inr t"
proof -
  obtain i where i: "i < length (rm_tasks rm)" "t = rm_tasks rm ! i"
    using assms(2) by (auto simp: in_set_conv_nth)
  have "find (\<lambda>u. tk_task_id u = tk_task_id t) (rm_tasks rm) = Some t"
    unfolding find_Some_iff using i assms(1)
    by (intro exI [of _ i]) (auto simp: roadmap_wf_def distinct_conv_nth)
  then show ?thesis by (simp add: roadmap_task_def)
qed

end
