(* ===== verification/DevOrchestrator.thy ===== *)
theory DevOrchestrator
  imports DevRoadmap
begin

text \<open>
  \<open>src/edn/development/orchestrator.py\<close>: one bounded autonomous run over the roadmap. The
  state of a run is the state file, the audit sink (a list of events, as
  \<open>InMemoryDevelopmentAudit\<close> keeps it), the orchestrator's event counter and the world behind
  its collaborators. The repository inspector, the agent, the validator, the reviewer, the
  clocks and \<open>uuid4\<close> are arbitrary functions on that world, any of which may raise. The \<open>while\<close>
  loop of \<open>run\<close> is a recursive function whose termination is proved: every pass either
  returns or excludes one more task of the roadmap.
\<close>

section \<open>The orchestrator and its state\<close>

record 'w run_state =
  os_file :: "json option"
  os_audit :: "DevAuditEvent list"
  os_audit_count :: nat
  os_world :: 'w

record 'w Orchestrator =
  orc_roadmap :: DevelopmentRoadmap
  orc_policy :: DevelopmentAuthorityPolicy
  orc_limits :: RunLimits
  orc_snapshot :: "('w, RepositorySnapshot) stm"
  orc_implement :: "DevelopmentTask \<Rightarrow> int \<Rightarrow> ('w, AgentResult) stm"
  orc_validate :: "DevelopmentTask \<Rightarrow> ('w, ValidationResult) stm"
  orc_review :: "DevelopmentTask \<Rightarrow> ValidationResult \<Rightarrow> ('w, ReviewResult) stm"
  orc_monotonic :: "('w, rat) stm"
  orc_now :: "('w, datetime) stm"
  orc_uuid4_hex :: "('w, string) stm"

definition outside :: "('w, 'a) stm \<Rightarrow> ('w run_state, 'a) stm" where
  \<comment> \<open>a call of a collaborator\<close>
  "outside m s = (case m (os_world s) of (r, w) \<Rightarrow> (r, s\<lparr>os_world := w\<rparr>))"

definition dev_record ::
  "'w Orchestrator \<Rightarrow> DevelopmentTask option \<Rightarrow> string \<Rightarrow> string \<Rightarrow> string \<Rightarrow> string list \<Rightarrow>
     ('w run_state, unit) stm" where
  "dev_record orc task event_type reason_code outcome evidence =
     sbind (outside (orc_uuid4_hex orc)) (\<lambda>hex.
     sbind (outside (orc_now orc)) (\<lambda>now s.
     (Inr (), s\<lparr>os_audit := os_audit s @
        [\<lparr>de_event_id = ''dev-event:'' @ hex, de_event_type = event_type, de_timestamp = now,
          de_task_id = map_option tk_task_id task, de_reason_code = reason_code,
          de_outcome = outcome, de_evidence_refs = evidence, de_metadata = []\<rparr>],
        os_audit_count := Suc (os_audit_count s)\<rparr>)))"

section \<open>Selecting a task\<close>

fun select_loop ::
  "'w Orchestrator \<Rightarrow> DevelopmentTask list \<Rightarrow> EscalationRequest option \<Rightarrow>
     ('w run_state, DevelopmentTask option \<times> EscalationRequest option) stm" where
  "select_loop orc [] first_escalation = ret (None, first_escalation)"
| "select_loop orc (t # ts) first_escalation =
     (let d = authority_evaluate (orc_policy orc) (tk_authority_actions t) in
      sbind (dev_record orc (Some t) ''authority_evaluated'' (ad_reason_code d)
        (AuthorityOutcome_value (ad_outcome d)) []) (\<lambda>_.
      if ad_outcome d = AO_ALLOWED then
        sbind (dev_record orc (Some t) ''task_selected'' ''standing_authority'' ''selected'' []) (\<lambda>_.
        ret (Some t, first_escalation))
      else
        sbind (dev_record orc (Some t) ''task_blocked'' (ad_reason_code d) ''blocked'' []) (\<lambda>_.
        select_loop orc ts (case first_escalation of
            None \<Rightarrow> Some (escalation_for t d) | Some e \<Rightarrow> Some e))))"

definition select_task ::
  "'w Orchestrator \<Rightarrow> DevelopmentState \<Rightarrow> string set \<Rightarrow>
     ('w run_state, DevelopmentTask option \<times> EscalationRequest option) stm" where
  "select_task orc st excluded = select_loop orc (eligible_tasks (orc_roadmap orc) st excluded) None"

section \<open>Implementing, validating, reviewing and repairing one task\<close>

datatype TaskResult =
    TR_Commit string  \<comment> \<open>the recommended commit\<close>
  | TR_Escalated EscalationRequest
  | TR_None

definition validation_of ::
  "'w Orchestrator \<Rightarrow> DevelopmentTask \<Rightarrow> AgentResult \<Rightarrow> ('w run_state, ValidationResult) stm" where
  "validation_of orc t agent_result =
     (if ag_success agent_result then outside (orc_validate orc t)
      else ret \<lparr>vr_passed = False, vr_failures = [ag_summary agent_result], vr_evidence = [],
        vr_failure_signature = ag_failure_signature agent_result\<rparr>)"

definition owner_escalation :: "DevelopmentTask \<Rightarrow> ReviewFinding \<Rightarrow> EscalationRequest" where
  "owner_escalation t finding =
     \<lparr>es_blocked = tk_task_id t @ '': '' @ rf_explanation finding,
      es_authority_reason = ''Reviewer identified an owner-level boundary.'',
      es_exact_request = ''Approve or decline the material finding only.'',
      es_if_approved = ''Builder repairs or continues within the approved boundary.'',
      es_if_declined = ''Task remains blocked; another eligible task may be selected.'',
      es_minimum_authority = rf_code finding, es_reversible = True,
      es_recommendation = ''Review architecture and authority impact before approval.'',
      es_decision_options = decision_options_default\<rparr>"

definition signature_of :: "ValidationResult \<Rightarrow> string" where
  "signature_of v = (case vr_failure_signature v of
     None \<Rightarrow> ''review_failure'' | Some s \<Rightarrow> if s = [] then ''review_failure'' else s)"

definition count_of :: "string \<Rightarrow> int dict \<Rightarrow> int" where
  "count_of k d = (case map_of d k of None \<Rightarrow> 0 | Some n \<Rightarrow> n)"

definition judge_cycle ::
  "'w Orchestrator \<Rightarrow> DevelopmentTask \<Rightarrow> int \<Rightarrow> int dict \<Rightarrow> AgentResult \<Rightarrow> ValidationResult \<Rightarrow>
     ReviewResult \<Rightarrow> ('w run_state, TaskResult + int dict) stm" where
  \<comment> \<open>the loop body after the review: \<open>Inl\<close> returns, \<open>Inr\<close> goes on with the counted signatures\<close>
  "judge_cycle orc t repair_cycle signatures agent_result validation review =
     (case filter (\<lambda>f. rf_disposition f = RD_OWNER_REQUIRED) (rr_findings review) of
       finding # _ \<Rightarrow>
         sbind (dev_record orc (Some t) ''review_result'' (rf_code finding) ''owner_required'' []) (\<lambda>_.
         ret (Inl (TR_Escalated (owner_escalation t finding))))
     | [] \<Rightarrow>
       if vr_passed validation \<and> ReviewResult_passed review then
         sbind (dev_record orc (Some t) ''review_result'' ''review_passed'' ''passed'' []) (\<lambda>_.
         ret (Inl (case ag_recommended_commit agent_result of
           None \<Rightarrow> TR_None | Some c \<Rightarrow> TR_Commit c)))
       else let signature = signature_of validation;
                n = count_of signature signatures + 1
         in if rl_repeated_failure_limit (orc_limits orc) \<le> n then
           sbind (dev_record orc (Some t) ''task_blocked'' ''repeated_identical_failure'' ''blocked'' [])
             (\<lambda>_. ret (Inl TR_None))
         else if rl_max_repair_cycles (orc_limits orc) \<le> repair_cycle then
           sbind (dev_record orc (Some t) ''task_blocked'' ''repair_budget_exhausted'' ''blocked'' [])
             (\<lambda>_. ret (Inl TR_None))
         else
           sbind (dev_record orc (Some t) ''repair_attempted'' signature ''repairing'' [])
             (\<lambda>_. ret (Inr (dict_set signature n signatures))))"

definition execute_cycle ::
  "'w Orchestrator \<Rightarrow> DevelopmentTask \<Rightarrow> int \<Rightarrow> int dict \<Rightarrow>
     ('w run_state, TaskResult + int dict) stm" where
  \<comment> \<open>the body of the \<open>for\<close> loop\<close>
  "execute_cycle orc t repair_cycle signatures =
     sbind (outside (orc_implement orc t repair_cycle)) (\<lambda>agent_result.
     sbind (validation_of orc t agent_result) (\<lambda>validation.
     sbind (dev_record orc (Some t) ''validation_executed''
       (if vr_passed validation then ''validation_passed'' else ''validation_failed'')
       (if vr_passed validation then ''passed'' else ''failed'') (vr_evidence validation)) (\<lambda>_.
     sbind (outside (orc_review orc t validation))
       (judge_cycle orc t repair_cycle signatures agent_result validation))))"

fun execute_loop ::
  "'w Orchestrator \<Rightarrow> DevelopmentTask \<Rightarrow> int list \<Rightarrow> int dict \<Rightarrow> ('w run_state, TaskResult) stm" where
  "execute_loop orc t [] signatures = ret TR_None"
| "execute_loop orc t (c # cs) signatures =
     sbind (execute_cycle orc t c signatures) (\<lambda>r. case r of
         Inl result \<Rightarrow> ret result
       | Inr signatures' \<Rightarrow> execute_loop orc t cs signatures')"

definition execute_task :: "'w Orchestrator \<Rightarrow> DevelopmentTask \<Rightarrow> ('w run_state, TaskResult) stm" where
  "execute_task orc t =
     sbind (dev_record orc (Some t) ''implementation_started'' ''task_selected'' ''started'' []) (\<lambda>_.
     execute_loop orc t [0..rl_max_repair_cycles (orc_limits orc)] [])"

section \<open>The run\<close>

definition completed_by :: "datetime \<Rightarrow> DevelopmentTask \<Rightarrow> DevelopmentState \<Rightarrow> DevelopmentState" where
  "completed_by now t st = st
     \<lparr>ds_completed_increments := dedup (ds_completed_increments st @ [tk_task_id t]),
      ds_active_increment := None,
      ds_next_recommended_increment :=
        (case tk_successor_tasks t of [] \<Rightarrow> None | s # _ \<Rightarrow> Some s),
      ds_updated_at := now,
      ds_provenance := ''orchestrator:'' @ tk_task_id t\<rparr>"

definition complete_state ::
  "'w Orchestrator \<Rightarrow> DevelopmentState \<Rightarrow> DevelopmentTask \<Rightarrow> ('w run_state, DevelopmentState) stm" where
  "complete_state orc st t =
     sbind (outside (orc_now orc)) (\<lambda>now. lift (DevelopmentState_init (completed_by now t st)))"

definition report ::
  "string list \<Rightarrow> string \<Rightarrow> EscalationRequest option \<Rightarrow> string list \<Rightarrow>
     ('w run_state, RunReport) stm" where
  "report completed reason escalation commits s =
     (Inr \<lparr>rn_completed_tasks = completed, rn_stopped_reason = reason,
        rn_escalation = escalation, rn_prepared_commits = commits,
        rn_audit_events = os_audit_count s\<rparr>, s)"

record LoopState =
  lp_state :: DevelopmentState
  lp_completed :: "string list"
  lp_commits :: "string list"
  lp_excluded :: "string set"
  lp_pending :: "EscalationRequest option"

definition after_select :: "DevelopmentTask \<Rightarrow> EscalationRequest option \<Rightarrow> LoopState \<Rightarrow> LoopState" where
  "after_select t escalation ls = ls
     \<lparr>lp_pending := (if lp_pending ls \<noteq> None then lp_pending ls else escalation),
      lp_excluded := insert (tk_task_id t) (lp_excluded ls)\<rparr>"

definition step_with ::
  "'w Orchestrator \<Rightarrow> DevelopmentTask \<Rightarrow> LoopState \<Rightarrow> ('w run_state, RunReport + LoopState) stm" where
  \<comment> \<open>the rest of the loop body once a task is selected\<close>
  "step_with orc t ls =
     sbind (execute_task orc t) (\<lambda>result. case result of
       TR_Escalated e \<Rightarrow>
         sbind (report (lp_completed ls) ''owner_authority_required'' (Some e) (lp_commits ls))
           (\<lambda>r. ret (Inl r))
     | TR_None \<Rightarrow> ret (Inr ls)
     | TR_Commit c \<Rightarrow>
       sbind (complete_state orc (lp_state ls) t) (\<lambda>st'.
       sbind (\<lambda>s. (Inr (), s\<lparr>os_file := save_state st'\<rparr>)) (\<lambda>_.
       sbind (dev_record orc (Some t) ''task_completed'' ''acceptance_passed'' ''completed'' []) (\<lambda>_.
       ret (Inr (ls\<lparr>lp_state := st', lp_completed := lp_completed ls @ [tk_task_id t],
         lp_commits := (if c = [] then lp_commits ls else lp_commits ls @ [c])\<rparr>))))))"

definition step_selected ::
  "'w Orchestrator \<Rightarrow> LoopState \<Rightarrow> DevelopmentTask option \<times> EscalationRequest option \<Rightarrow>
     ('w run_state, RunReport + LoopState) stm" where
  \<comment> \<open>the loop body after \<open>_select\<close>\<close>
  "step_selected orc ls = (\<lambda>(task, escalation). case task of
       None \<Rightarrow>
         sbind (report (lp_completed ls)
           (if escalation \<noteq> None then ''owner_authority_required'' else ''no_eligible_task'')
           (if escalation \<noteq> None then escalation else lp_pending ls) (lp_commits ls))
           (\<lambda>r. ret (Inl r))
     | Some t \<Rightarrow> step_with orc t (after_select t escalation ls))"

definition run_step ::
  "'w Orchestrator \<Rightarrow> rat \<Rightarrow> LoopState \<Rightarrow> ('w run_state, RunReport + LoopState) stm" where
  \<comment> \<open>the body of the \<open>while\<close> loop: \<open>Inl\<close> returns a report, \<open>Inr\<close> goes on\<close>
  "run_step orc started ls =
     sbind (outside (orc_monotonic orc)) (\<lambda>time.
     if rl_max_elapsed_seconds (orc_limits orc) \<le> time - started then
       sbind (report (lp_completed ls) ''elapsed_budget_exhausted'' (lp_pending ls) (lp_commits ls))
         (\<lambda>r. ret (Inl r))
     else sbind (select_task orc (lp_state ls) (lp_excluded ls)) (step_selected orc ls))"

subsection \<open>Frame of the small calls\<close>

lemma outside_iff:
  "outside m s = (r, s') \<longleftrightarrow> (\<exists>w. m (os_world s) = (r, w) \<and> s' = s\<lparr>os_world := w\<rparr>)"
  by (auto simp: outside_def split: prod.splits)

lemma report_iff:
  "report c rs e cs s = (r, s') \<longleftrightarrow>
     r = Inr \<lparr>rn_completed_tasks = c, rn_stopped_reason = rs, rn_escalation = e,
       rn_prepared_commits = cs, rn_audit_events = os_audit_count s\<rparr> \<and> s' = s"
  by (auto simp: report_def)

text \<open>Selection, when nothing raises, returns the task \<open>select_next\<close> names.\<close>

lemma select_loop_first:
  "select_loop orc ts esc s = (Inr (r, e), s') \<Longrightarrow> r = first_allowed (orc_policy orc) ts"
  by (induction ts arbitrary: esc s) (auto simp: Let_def stm_iffs split: if_splits)

lemma select_task_next:
  "select_task orc st excluded s = (Inr (r, e), s') \<Longrightarrow>
     r = select_next (orc_roadmap orc) st (orc_policy orc) excluded"
  by (simp add: select_task_def select_next_def eligible_tasks_def select_loop_first)

lemma step_with_excluded:
  assumes "step_with orc t ls s = (Inr (Inr ls'), s')"
  shows "lp_excluded ls' = lp_excluded ls"
proof -
  obtain result s1 where "execute_task orc t s = (Inr result, s1)"
    using assms by (auto simp: step_with_def sbind_Inr_iff)
  with assms show ?thesis
    by (cases result) (auto simp: step_with_def stm_iffs sbind_def [of "execute_task orc t"])
qed

lemma run_step_continues:
  assumes "run_step orc started ls s = (Inr (Inr ls'), s')"
  shows "\<exists>t. select_next (orc_roadmap orc) (lp_state ls) (orc_policy orc) (lp_excluded ls) = Some t \<and>
    lp_excluded ls' = insert (tk_task_id t) (lp_excluded ls)"
proof -
  obtain time s1 where "\<not> rl_max_elapsed_seconds (orc_limits orc) \<le> time - started"
    and rest: "sbind (select_task orc (lp_state ls) (lp_excluded ls)) (step_selected orc ls) s1 =
      (Inr (Inr ls'), s')"
    using assms by (fastforce simp: run_step_def sbind_Inr_iff [of "outside m" for m] sbind_Inr_iff
        [of "report a b c d" for a b c d] ret_iff split: if_splits)
  from rest obtain task escalation s2 where
    sel: "select_task orc (lp_state ls) (lp_excluded ls) s1 = (Inr (task, escalation), s2)"
    and step: "step_selected orc ls (task, escalation) s2 = (Inr (Inr ls'), s')"
    unfolding sbind_Inr_iff by fast
  show ?thesis
  proof (cases task)
    case None
    with step show ?thesis by (simp add: step_selected_def sbind_def ret_def report_def)
  next
    case (Some t)
    with step have "step_with orc t (after_select t escalation ls) s2 = (Inr (Inr ls'), s')"
      by (simp add: step_selected_def)
    then have "lp_excluded ls' = lp_excluded (after_select t escalation ls)"
      by (rule step_with_excluded)
    with select_task_next [OF sel] Some show ?thesis
      by (intro exI [of _ t]) (simp add: after_select_def)
  qed
qed

definition open_ids :: "DevelopmentRoadmap \<Rightarrow> string set \<Rightarrow> string set" where
  \<comment> \<open>the identifiers a run may still exclude\<close>
  "open_ids rm excluded = tk_task_id ` set (rm_tasks rm) - excluded"

lemma open_ids_decrease:
  assumes "select_next rm st p excluded = Some t"
  shows "card (open_ids rm (insert (tk_task_id t) excluded)) < card (open_ids rm excluded)"
proof (rule psubset_card_mono)
  show "finite (open_ids rm excluded)" by (simp add: open_ids_def)
  have "tk_task_id t \<in> open_ids rm excluded"
    using select_next_Some(1,2) [OF assms] by (auto simp: open_ids_def eligible_def)
  then show "open_ids rm (insert (tk_task_id t) excluded) \<subset> open_ids rm excluded"
    by (auto simp: open_ids_def)
qed

function run_loop :: "'w Orchestrator \<Rightarrow> rat \<Rightarrow> LoopState \<Rightarrow> ('w run_state, RunReport) stm" where
  "run_loop orc started ls s =
     (if int (length (lp_completed ls)) < rl_max_tasks (orc_limits orc) then
        (case run_step orc started ls s of
           (Inl e, s') \<Rightarrow> (Inl e, s')
         | (Inr (Inl r), s') \<Rightarrow> (Inr r, s')
         | (Inr (Inr ls'), s') \<Rightarrow> run_loop orc started ls' s')
      else report (lp_completed ls) ''task_budget_reached'' (lp_pending ls) (lp_commits ls) s)"
  by pat_completeness auto
termination
proof (relation "measure (\<lambda>(orc, started, ls, s). card (open_ids (orc_roadmap orc) (lp_excluded ls)))",
    goal_cases)
  case (2 orc started ls s r s' x ls')
  then have "run_step orc started ls s = (Inr (Inr ls'), s')" by simp
  from run_step_continues [OF this] show ?case by (auto intro: open_ids_decrease)
qed simp

declare run_loop.simps [simp del]

definition run :: "'w Orchestrator \<Rightarrow> ('w run_state, RunReport) stm" where
  "run orc =
     sbind (outside (orc_monotonic orc)) (\<lambda>started.
     sbind (\<lambda>s. (load_state (os_file s), s)) (\<lambda>st.
     sbind (outside (orc_snapshot orc)) (\<lambda>snapshot.
     if validate_repository st snapshot \<noteq> [] then
       sbind (dev_record orc None ''repository_blocked'' ''unexpected_repository_state'' ''blocked'' [])
         (\<lambda>_. report [] ''unexpected_repository_state'' None [])
     else run_loop orc started
       \<lparr>lp_state = st, lp_completed = [], lp_commits = [], lp_excluded = {}, lp_pending = None\<rparr>)))"

end
