(* ===== verification/DevRuns.thy ===== *)
theory DevRuns
  imports DevOrchestrator
begin

text \<open>
  An abstract specification of an autonomous run and the proof that \<open>run\<close> implements it.
  \<open>dev_history\<close> is a transition system on development states: every step takes the task
  \<open>select_next\<close> names among those not tried before and either fails it or completes it. Every
  result of \<open>run\<close>, exceptions included, is a history whose tasks are exactly those the audit
  says were started, and the state file holds the last completed state.
\<close>

section \<open>Histories\<close>

type_synonym dev_trace = "(DevelopmentTask \<times> bool) list"

definition hist_ids :: "dev_trace \<Rightarrow> string list" where
  "hist_ids h = map (\<lambda>x. tk_task_id (fst x)) h"

definition done_ids :: "dev_trace \<Rightarrow> string list" where
  "done_ids h = hist_ids (filter snd h)"

inductive dev_history ::
  "DevelopmentRoadmap \<Rightarrow> DevelopmentAuthorityPolicy \<Rightarrow> DevelopmentState \<Rightarrow> dev_trace \<Rightarrow>
     DevelopmentState \<Rightarrow> bool" for rm p st0 where
  hist_start: "dev_history rm p st0 [] st0"
| hist_failed: "dev_history rm p st0 h st \<Longrightarrow> select_next rm st p (set (hist_ids h)) = Some t \<Longrightarrow>
     dev_history rm p st0 (h @ [(t, False)]) st"
| hist_completed: "dev_history rm p st0 h st \<Longrightarrow> select_next rm st p (set (hist_ids h)) = Some t \<Longrightarrow>
     dev_history rm p st0 (h @ [(t, True)]) (completed_by now t st)"

inductive_cases dev_history_snocE: "dev_history rm p st0 (h @ [x]) st"

lemma hist_ids_simps [simp]:
  "hist_ids [] = []" "hist_ids (x # h) = tk_task_id (fst x) # hist_ids h"
  "hist_ids (h @ h') = hist_ids h @ hist_ids h'" "length (hist_ids h) = length h"
  by (simp_all add: hist_ids_def)

lemma done_ids_simps [simp]:
  "done_ids [] = []" "done_ids (h @ h') = done_ids h @ done_ids h'"
  "done_ids [(t, b)] = (if b then [tk_task_id t] else [])"
  by (simp_all add: done_ids_def hist_ids_def)

lemma hist_ids_split:
  assumes "hist_ids h = is1 @ i # is2"
  obtains h1 t b h2 where "h = h1 @ (t, b) # h2" "hist_ids h1 = is1" "tk_task_id t = i"
proof -
  have "h = take (length is1) h @ h ! length is1 # drop (Suc (length is1)) h"
    using assms by (intro id_take_nth_drop) (metis add_Suc_right length_append length_Cons
        hist_ids_simps(4) le_add1 less_Suc_eq_le)
  moreover have "hist_ids (take (length is1) h) = is1"
    using assms by (simp add: hist_ids_def flip: take_map)
  moreover have "tk_task_id (fst (h ! length is1)) = i"
  proof -
    have "length is1 < length h" using assms by (metis add_Suc_right length_append length_Cons
        hist_ids_simps(4) le_add1 less_Suc_eq_le)
    then have "tk_task_id (fst (h ! length is1)) = hist_ids h ! length is1" by (simp add: hist_ids_def)
    then show ?thesis by (simp add: assms)
  qed
  ultimately show thesis using that by (metis prod.collapse)
qed

lemma dev_history_retry:
  assumes "dev_history rm p st0 (h @ [(t, False)]) st"
  shows "dev_history rm p st0 (h @ [(t, True)]) (completed_by now t st)"
  using assms by (auto elim!: dev_history_snocE intro: hist_completed)

text \<open>What every history guarantees of the tasks it tried and of the state it reached.\<close>

lemma history_completed:
  "dev_history rm p st0 h st \<Longrightarrow>
     set (ds_completed_increments st) = set (ds_completed_increments st0) \<union> set (done_ids h)"
  by (induction rule: dev_history.induct) (auto simp: completed_by_def)

lemma dedup_append_mem: "set ys \<subseteq> set xs \<Longrightarrow> dedup (xs @ ys) = dedup xs"
  by (induction ys rule: rev_induct) (auto simp: dedup_def)

lemma dedup_snoc: "dedup (xs @ [y]) = (if y \<in> set xs then dedup xs else dedup xs @ [y])"
proof (induction xs)
  case Nil
  then show ?case by (simp add: dedup_def)
qed (auto simp: dedup_def)

lemma dedup_dedup_append [simp]: "dedup (dedup xs @ ys) = dedup (xs @ ys)"
proof (induction ys rule: rev_induct)
  case Nil
  then show ?case by (simp add: dedup_id)
next
  case (snoc y ys)
  show ?case by (simp add: dedup_snoc snoc flip: append_assoc)
qed

lemma history_increments:
  "dev_history rm p st0 h st \<Longrightarrow>
     ds_completed_increments st = (if done_ids h = [] then ds_completed_increments st0
       else dedup (ds_completed_increments st0 @ done_ids h))"
  by (induction rule: dev_history.induct) (auto simp: completed_by_def)

lemma history_prefix:
  "dev_history rm p st0 (h @ h') st \<Longrightarrow> \<exists>st1. dev_history rm p st0 h st1"
proof (induction h' arbitrary: st rule: rev_induct)
  case (snoc x h')
  from snoc.prems have "dev_history rm p st0 ((h @ h') @ [x]) st" by simp
  then show ?case by (elim dev_history_snocE) (auto dest: snoc.IH)
qed auto

lemma history_step:
  assumes "dev_history rm p st0 (h @ (t, b) # h') st"
  shows "t \<in> set (rm_tasks rm) \<and> tk_status t = TS_PENDING \<and> task_allowed p t \<and>
    tk_task_id t \<notin> set (hist_ids h) \<and>
    set (tk_prerequisites t) \<subseteq> set (ds_completed_increments st0) \<union> set (done_ids h)"
proof -
  obtain st1 where "dev_history rm p st0 (h @ [(t, b)]) st1"
    using history_prefix [of rm p st0 "h @ [(t, b)]" h' st] assms by auto
  then obtain st2 where st2: "dev_history rm p st0 h st2"
    and "select_next rm st2 p (set (hist_ids h)) = Some t"
    by (auto elim: dev_history_snocE)
  from select_next_Some [OF this(2)] history_completed [OF st2] show ?thesis
    by (auto simp: eligible_def)
qed

lemma history_distinct: "dev_history rm p st0 h st \<Longrightarrow> distinct (hist_ids h)"
  by (induction rule: dev_history.induct) (auto dest!: select_next_Some(2) simp: eligible_def)

lemma history_bounded:
  assumes "dev_history rm p st0 h st"
  shows "length h \<le> card (set (map tk_task_id (rm_tasks rm)))"
proof -
  have "set (hist_ids h) \<subseteq> set (map tk_task_id (rm_tasks rm))"
  proof
    fix i assume "i \<in> set (hist_ids h)"
    then obtain x where "x \<in> set h" "i = tk_task_id (fst x)" by (auto simp: hist_ids_def)
    then obtain h1 h2 where "h = h1 @ (fst x, snd x) # h2" by (auto dest: split_list)
    with history_step [of rm p st0 h1 "fst x" "snd x" h2] assms \<open>i = _\<close>
    show "i \<in> set (map tk_task_id (rm_tasks rm))" by auto
  qed
  then have "card (set (hist_ids h)) \<le> card (set (map tk_task_id (rm_tasks rm)))"
    by (intro card_mono) auto
  then show ?thesis using history_distinct [OF assms] by (simp add: distinct_card)
qed

section \<open>What the calls of a run record\<close>

definition ids_of :: "string \<Rightarrow> DevAuditEvent list \<Rightarrow> string list" where
  \<comment> \<open>the tasks of the events of one type, in order\<close>
  "ids_of event_type es = concat (map (\<lambda>e. if de_event_type e = event_type
     then (case de_task_id e of None \<Rightarrow> [] | Some i \<Rightarrow> [i]) else []) es)"

lemma ids_of_simps [simp]:
  "ids_of k [] = []" "ids_of k (es @ es') = ids_of k es @ ids_of k es'"
  by (simp_all add: ids_of_def)

text \<open>A quiet call leaves the file alone, starts and completes no task, and records at most
  \<open>n\<close> validations.\<close>

definition quiet :: "nat \<Rightarrow> ('w run_state, 'a) stm \<Rightarrow> bool" where
  "quiet n m = (\<forall>s. \<exists>es. os_file (snd (m s)) = os_file s \<and>
     os_audit (snd (m s)) = os_audit s @ es \<and>
     os_audit_count (snd (m s)) = os_audit_count s + length es \<and>
     ids_of ''implementation_started'' es = [] \<and> ids_of ''task_completed'' es = [] \<and>
     length (ids_of ''validation_executed'' es) \<le> n)"

lemma quietI:
  assumes "\<And>s r s'. m s = (r, s') \<Longrightarrow> os_file s' = os_file s \<and>
     (\<exists>es. os_audit s' = os_audit s @ es \<and> os_audit_count s' = os_audit_count s + length es \<and>
       ids_of ''implementation_started'' es = [] \<and> ids_of ''task_completed'' es = [] \<and>
       length (ids_of ''validation_executed'' es) \<le> n)"
  shows "quiet n m"
  unfolding quiet_def
proof
  fix s
  obtain r s' where rs: "m s = (r, s')" by (cases "m s")
  from assms [OF this] show "\<exists>es. os_file (snd (m s)) = os_file s \<and>
     os_audit (snd (m s)) = os_audit s @ es \<and>
     os_audit_count (snd (m s)) = os_audit_count s + length es \<and>
     ids_of ''implementation_started'' es = [] \<and> ids_of ''task_completed'' es = [] \<and>
     length (ids_of ''validation_executed'' es) \<le> n" unfolding rs by auto
qed

lemma quietD:
  assumes "quiet n m" and "m s = (r, s')"
  obtains es where "os_file s' = os_file s" "os_audit s' = os_audit s @ es"
    "os_audit_count s' = os_audit_count s + length es"
    "ids_of ''implementation_started'' es = []" "ids_of ''task_completed'' es = []"
    "length (ids_of ''validation_executed'' es) \<le> n"
proof -
  have "snd (m s) = s'" using assms(2) by simp
  with assms(1) [unfolded quiet_def, rule_format, of s] that show thesis by blast
qed

lemma quiet_mono: "quiet n m \<Longrightarrow> n \<le> k \<Longrightarrow> quiet k m"
  unfolding quiet_def by (meson order_trans)

lemma quiet_same: "(\<And>s. snd (m s) = s) \<Longrightarrow> quiet 0 m"
  by (simp add: quiet_def)

lemma quiet_ret [simp]: "quiet 0 (ret x)"
  by (rule quiet_same) (simp add: ret_def)

lemma quiet_report [simp]: "quiet 0 (report c r e cs)"
  by (rule quiet_same) (simp add: report_def)

lemma quiet_lift [simp]: "quiet 0 (lift r)"
  by (rule quiet_same) (simp add: lift_def)

lemma quiet_outside [simp]: "quiet 0 (outside m)"
  by (simp add: quiet_def outside_def split: prod.splits)

lemma quiet_bind:
  assumes "quiet n m" and "\<And>x. quiet k (f x)"
  shows "quiet (n + k) (sbind m f)"
proof (rule quietI, goal_cases)
  case (1 s r s')
  show ?case
  proof (cases "m s")
    case (Pair q u)
    from quietD [OF assms(1) Pair] obtain es where es: "os_file u = os_file s"
      "os_audit u = os_audit s @ es" "os_audit_count u = os_audit_count s + length es"
      "ids_of ''implementation_started'' es = []" "ids_of ''task_completed'' es = []"
      "length (ids_of ''validation_executed'' es) \<le> n" .
    show ?thesis
    proof (cases q)
      case (Inl e)
      with 1 Pair have "s' = u" by (simp add: sbind_def)
      with es show ?thesis by (intro conjI exI [of _ es]) auto
    next
      case (Inr x)
      with 1 Pair have "f x u = (r, s')" by (simp add: sbind_def)
      from quietD [OF assms(2) this] obtain es' where "os_file s' = os_file u"
        "os_audit s' = os_audit u @ es'" "os_audit_count s' = os_audit_count u + length es'"
        "ids_of ''implementation_started'' es' = []" "ids_of ''task_completed'' es' = []"
        "length (ids_of ''validation_executed'' es') \<le> k" .
      with es show ?thesis by (intro conjI exI [of _ "es @ es'"]) auto
    qed
  qed
qed

lemma quiet_bind_0: "quiet 0 m \<Longrightarrow> (\<And>x. quiet n (f x)) \<Longrightarrow> quiet n (sbind m f)"
  using quiet_bind [of 0 m n f] by simp

lemma dev_record_cases:
  assumes "dev_record orc t k rc out ev s = (r, s')"
  obtains (raised) e where "r = Inl e" "os_file s' = os_file s" "os_audit s' = os_audit s"
      "os_audit_count s' = os_audit_count s"
  | (recorded) ev' where "r = Inr ()" "os_file s' = os_file s" "os_audit s' = os_audit s @ [ev']"
      "os_audit_count s' = Suc (os_audit_count s)" "de_event_type ev' = k"
      "de_task_id ev' = map_option tk_task_id t"
  using assms by (auto simp: dev_record_def sbind_def outside_def split: prod.splits sum.splits)

lemma quiet_record:
  assumes "k \<noteq> ''implementation_started''" and "k \<noteq> ''task_completed''"
  shows "quiet (if k = ''validation_executed'' then 1 else 0) (dev_record orc t k rc out ev)"
proof (rule quietI, goal_cases)
  case (1 s r s')
  then show ?case
  proof (cases rule: dev_record_cases)
    case raised
    then show ?thesis by (intro conjI exI [of _ "[]"]) auto
  next
    case (recorded ev')
    with assms show ?thesis
      by (intro conjI exI [of _ "[ev']"]) (auto simp: ids_of_def split: option.splits)
  qed
qed

lemma quiet_record_0 [simp]:
  "k \<notin> {''implementation_started'', ''task_completed'', ''validation_executed''} \<Longrightarrow>
     quiet 0 (dev_record orc t k rc out ev)"
  using quiet_record [of k orc t rc out ev] by simp

lemma quiet_validation_record: "quiet 1 (dev_record orc t ''validation_executed'' rc out ev)"
  using quiet_record [of "''validation_executed''" orc t rc out ev] by simp

lemma quiet_select_loop [simp]: "quiet 0 (select_loop orc ts e)"
  by (induction ts arbitrary: e) (auto simp: Let_def intro!: quiet_bind_0)

lemma quiet_select_task [simp]: "quiet 0 (select_task orc st excluded)"
  by (simp add: select_task_def)

lemma quiet_validation_of [simp]: "quiet 0 (validation_of orc t a)"
  by (simp add: validation_of_def)

lemma quiet_judge_cycle [simp]: "quiet 0 (judge_cycle orc t c sigs a v review)"
  by (auto simp: judge_cycle_def Let_def intro!: quiet_bind_0 split: list.splits)

lemma quiet_validated:
  "(\<And>x. quiet 0 (f x)) \<Longrightarrow>
     quiet 1 (sbind (dev_record orc t ''validation_executed'' rc out ev) f)"
  using quiet_bind [OF quiet_validation_record, of 0 f orc t rc out ev] by simp

lemma quiet_execute_cycle: "quiet 1 (execute_cycle orc t c sigs)"
  unfolding execute_cycle_def
  by (intro quiet_bind_0 [OF quiet_outside] quiet_bind_0 [OF quiet_validation_of] quiet_validated)
    (simp add: quiet_bind_0)

lemma quiet_execute_loop: "quiet (length cs) (execute_loop orc t cs sigs)"
proof (induction cs arbitrary: sigs)
  case (Cons c cs)
  have "quiet (1 + length cs) (execute_loop orc t (c # cs) sigs)"
    unfolding execute_loop.simps
    by (rule quiet_bind [OF quiet_execute_cycle])
      (auto intro: Cons quiet_mono [OF quiet_ret] split: sum.splits)
  then show ?case by simp
qed simp

section \<open>Acceptance\<close>

text \<open>A task is committed only after a cycle in which the agent succeeded, the validation passed
  and the reviewer found nothing.\<close>

definition accepted :: "'w Orchestrator \<Rightarrow> DevelopmentTask \<Rightarrow> int \<Rightarrow> string \<Rightarrow> bool" where
  "accepted orc t c commit \<longleftrightarrow> (\<exists>a v rv w w1 w2 w3 w4.
     orc_implement orc t c w = (Inr a, w1) \<and> ag_success a \<and> ag_recommended_commit a = Some commit \<and>
     orc_validate orc t w1 = (Inr v, w2) \<and> vr_passed v \<and>
     orc_review orc t v w3 = (Inr rv, w4) \<and> rr_findings rv = [])"

lemma judge_commits:
  assumes "judge_cycle orc t c sigs a v rv s = (Inr (Inl (TR_Commit commit)), s')"
  shows "vr_passed v \<and> rr_findings rv = [] \<and> ag_recommended_commit a = Some commit"
proof (cases "filter (\<lambda>f. rf_disposition f = RD_OWNER_REQUIRED) (rr_findings rv)")
  case Nil
  with assms show ?thesis
    by (auto simp: judge_cycle_def Let_def stm_iffs ReviewResult_passed_def split: if_splits
        option.splits)
next
  case (Cons f fs)
  with assms show ?thesis by (auto simp: judge_cycle_def stm_iffs)
qed

lemma cycle_commits:
  assumes "execute_cycle orc t c sigs s = (Inr (Inl (TR_Commit commit)), s')"
  shows "accepted orc t c commit"
proof -
  obtain a v rv s1 s2 s3 s4 where
    calls: "outside (orc_implement orc t c) s = (Inr a, s1)"
      "validation_of orc t a s1 = (Inr v, s2)" "outside (orc_review orc t v) s3 = (Inr rv, s4)"
    and judge: "judge_cycle orc t c sigs a v rv s4 = (Inr (Inl (TR_Commit commit)), s')"
    using assms unfolding execute_cycle_def sbind_Inr_iff by fast
  note j = judge_commits [OF judge]
  have "ag_success a"
    using calls(2) j by (auto simp: validation_of_def ret_iff split: if_splits)
  with calls have "orc_validate orc t (os_world s1) = (Inr v, os_world s2)"
    by (auto simp: validation_of_def outside_iff)
  with calls j \<open>ag_success a\<close> show ?thesis
    unfolding accepted_def by (auto simp: outside_iff) metis
qed

lemma loop_commits:
  "execute_loop orc t cs sigs s = (Inr (TR_Commit commit), s') \<Longrightarrow>
     \<exists>c \<in> set cs. accepted orc t c commit"
proof (induction cs arbitrary: sigs s)
  case Nil
  then show ?case by (simp add: ret_def)
next
  case (Cons c cs)
  then obtain x u where cyc: "execute_cycle orc t c sigs s = (Inr x, u)"
    by (auto simp: sbind_Inr_iff)
  show ?case
  proof (cases x)
    case (Inl result)
    with cyc Cons.prems cycle_commits [of orc t c sigs s commit u] show ?thesis
      by (auto simp: sbind_def ret_def)
  next
    case (Inr sigs')
    with cyc Cons.prems have "execute_loop orc t cs sigs' u = (Inr (TR_Commit commit), s')"
      by (simp add: sbind_def)
    from Cons.IH [OF this] show ?thesis by simp
  qed
qed

lemma task_commits:
  assumes "execute_task orc t s = (Inr (TR_Commit commit), s')"
  shows "\<exists>c. 0 \<le> c \<and> c \<le> rl_max_repair_cycles (orc_limits orc) \<and> accepted orc t c commit"
proof -
  obtain u where "execute_loop orc t [0..rl_max_repair_cycles (orc_limits orc)] [] u =
      (Inr (TR_Commit commit), s')"
    using assms by (auto simp: execute_task_def sbind_Inr_iff)
  from loop_commits [OF this] show ?thesis by auto
qed

section \<open>The run follows a history\<close>

definition follows ::
  "'w Orchestrator \<Rightarrow> DevelopmentState \<Rightarrow> 'w run_state \<Rightarrow> dev_trace \<Rightarrow> DevelopmentState \<Rightarrow>
     'w run_state \<Rightarrow> bool" where
  \<comment> \<open>from \<open>s0\<close> on, the audit and the state file show the history \<open>h\<close> that reaches \<open>st\<close>\<close>
  "follows orc st0 s0 h st s \<longleftrightarrow>
     dev_history (orc_roadmap orc) (orc_policy orc) st0 h st \<and>
     os_file s = (if done_ids h = [] then os_file s0 else save_state st) \<and>
     (\<forall>t. (t, True) \<in> set h \<longrightarrow> (\<exists>c commit. c \<in> {0..rl_max_repair_cycles (orc_limits orc)} \<and>
        accepted orc t c commit)) \<and>
     (\<exists>es. os_audit s = os_audit s0 @ es \<and> os_audit_count s = os_audit_count s0 + length es \<and>
        ids_of ''implementation_started'' es = hist_ids h \<and>
        length (ids_of ''validation_executed'' es)
          \<le> nat (rl_max_repair_cycles (orc_limits orc) + 1) * length h)"

lemma follows_quiet:
  assumes "follows orc st0 s0 h st s" and "quiet 0 m" and "m s = (r, s')"
  shows "follows orc st0 s0 h st s'"
proof -
  obtain es where es: "os_audit s = os_audit s0 @ es"
    "os_audit_count s = os_audit_count s0 + length es"
    "ids_of ''implementation_started'' es = hist_ids h"
    "length (ids_of ''validation_executed'' es) \<le>
       nat (rl_max_repair_cycles (orc_limits orc) + 1) * length h"
    using assms(1) by (auto simp: follows_def)
  obtain es' where "os_file s' = os_file s" "os_audit s' = os_audit s @ es'"
    "os_audit_count s' = os_audit_count s + length es'"
    "ids_of ''implementation_started'' es' = []" "ids_of ''task_completed'' es' = []"
    "length (ids_of ''validation_executed'' es') \<le> 0"
    using quietD [OF assms(2,3)] .
  with assms(1) es show ?thesis
    unfolding follows_def by (intro conjI exI [of _ "es @ es'"]) auto
qed

lemma follows_started:
  assumes inv: "follows orc st0 s0 h st s"
    and sel: "select_next (orc_roadmap orc) st (orc_policy orc) (set (hist_ids h)) = Some t"
    and exec: "execute_task orc t s = (r, s')"
  shows "follows orc st0 s0 (h @ [(t, False)]) st s' \<or> (\<exists>e. r = Inl e) \<and> follows orc st0 s0 h st s'"
proof -
  obtain q u where rec: "dev_record orc (Some t) ''implementation_started'' ''task_selected''
      ''started'' [] s = (q, u)"
    by fastforce
  then show ?thesis
  proof (cases rule: dev_record_cases)
    case (raised e)
    with rec exec have "r = Inl e" "s' = u" by (auto simp: execute_task_def sbind_def)
    with raised inv show ?thesis by (auto simp: follows_def)
  next
    case (recorded ev)
    with rec exec have "execute_loop orc t [0..rl_max_repair_cycles (orc_limits orc)] [] u = (r, s')"
      by (simp add: execute_task_def sbind_def)
    from quietD [OF quiet_execute_loop this] obtain es' where es': "os_file s' = os_file u"
      "os_audit s' = os_audit u @ es'" "os_audit_count s' = os_audit_count u + length es'"
      "ids_of ''implementation_started'' es' = []"
      "length (ids_of ''validation_executed'' es') \<le> nat (rl_max_repair_cycles (orc_limits orc) + 1)"
      by auto
    obtain es where es: "os_audit s = os_audit s0 @ es"
      "os_audit_count s = os_audit_count s0 + length es"
      "ids_of ''implementation_started'' es = hist_ids h"
      "length (ids_of ''validation_executed'' es) \<le>
         nat (rl_max_repair_cycles (orc_limits orc) + 1) * length h"
      and hist: "dev_history (orc_roadmap orc) (orc_policy orc) st0 h st"
      and same: "os_file s = (if done_ids h = [] then os_file s0 else save_state st)"
      and acc: "\<forall>t. (t, True) \<in> set h \<longrightarrow> (\<exists>c commit.
        c \<in> {0..rl_max_repair_cycles (orc_limits orc)} \<and> accepted orc t c commit)"
      using inv unfolding follows_def by blast
    have ev: "ids_of ''implementation_started'' [ev] = [tk_task_id t]"
      "ids_of ''validation_executed'' [ev] = []"
      using recorded by (simp_all add: ids_of_def)
    have "os_audit s' = os_audit s0 @ (es @ [ev] @ es')"
      "os_audit_count s' = os_audit_count s0 + length (es @ [ev] @ es')"
      "ids_of ''implementation_started'' (es @ [ev] @ es') = hist_ids (h @ [(t, False)])"
      "length (ids_of ''validation_executed'' (es @ [ev] @ es')) \<le>
         nat (rl_max_repair_cycles (orc_limits orc) + 1) * length (h @ [(t, False)])"
      using es es' recorded ev by (simp_all only: ids_of_simps) simp_all
    moreover have "dev_history (orc_roadmap orc) (orc_policy orc) st0 (h @ [(t, False)]) st"
      using hist sel by (rule hist_failed)
    moreover have "os_file s' = (if done_ids (h @ [(t, False)]) = [] then os_file s0 else save_state st)"
      using es'(1) recorded(2) same by simp
    moreover have "\<forall>t'. (t', True) \<in> set (h @ [(t, False)]) \<longrightarrow> (\<exists>c commit.
        c \<in> {0..rl_max_repair_cycles (orc_limits orc)} \<and> accepted orc t' c commit)"
      using acc by simp
    ultimately have "follows orc st0 s0 (h @ [(t, False)]) st s'"
      unfolding follows_def by blast
    then show ?thesis ..
  qed
qed

lemma follows_saved:
  assumes "follows orc st0 s0 (h @ [(t, False)]) st s"
    and "\<exists>c commit. c \<in> {0..rl_max_repair_cycles (orc_limits orc)} \<and> accepted orc t c commit"
  shows "follows orc st0 s0 (h @ [(t, True)]) (completed_by now t st)
    (s\<lparr>os_file := save_state (completed_by now t st)\<rparr>)"
  using assms by (auto simp: follows_def dest: dev_history_retry)

definition reported ::
  "'w Orchestrator \<Rightarrow> DevelopmentState \<Rightarrow> 'w run_state \<Rightarrow> RunReport result \<Rightarrow> 'w run_state \<Rightarrow> bool" where
  "reported orc st0 s0 r s \<longleftrightarrow> (\<exists>h st. follows orc st0 s0 h st s \<and>
     (\<forall>rep. r = Inr rep \<longrightarrow> rn_completed_tasks rep = done_ids h \<and>
        rn_audit_events rep = os_audit_count s \<and>
        (rn_stopped_reason rep = ''no_eligible_task'' \<longrightarrow>
           eligible_tasks (orc_roadmap orc) st (set (hist_ids h)) = [])))"

definition linked ::
  "'w Orchestrator \<Rightarrow> DevelopmentState \<Rightarrow> 'w run_state \<Rightarrow> LoopState \<Rightarrow> 'w run_state \<Rightarrow> bool" where
  "linked orc st0 s0 ls s \<longleftrightarrow> (\<exists>h. follows orc st0 s0 h (lp_state ls) s \<and>
     lp_excluded ls = set (hist_ids h) \<and> lp_completed ls = done_ids h)"

definition step_result ::
  "'w Orchestrator \<Rightarrow> DevelopmentState \<Rightarrow> 'w run_state \<Rightarrow> (RunReport + LoopState) result \<Rightarrow>
     'w run_state \<Rightarrow> bool" where
  "step_result orc st0 s0 r s = (case r of
       Inl e \<Rightarrow> reported orc st0 s0 (Inl e) s
     | Inr (Inl rep) \<Rightarrow> reported orc st0 s0 (Inr rep) s
     | Inr (Inr ls) \<Rightarrow> linked orc st0 s0 ls s)"

lemma reported_Inl: "follows orc st0 s0 h st s \<Longrightarrow> reported orc st0 s0 (Inl e) s"
  by (auto simp: reported_def)

lemma complete_state_cases:
  assumes "complete_state orc st t s = (q, u)"
  obtains (raised) e where "q = Inl e" "\<exists>w. u = s\<lparr>os_world := w\<rparr>"
  | (completed) now where "q = Inr (completed_by now t st)" "\<exists>w. u = s\<lparr>os_world := w\<rparr>"
proof (cases q)
  case (Inl e)
  with assms have "\<exists>w. u = s\<lparr>os_world := w\<rparr>"
    by (auto simp: complete_state_def sbind_Inl_iff outside_iff lift_iff)
  with Inl raised show thesis by blast
next
  case (Inr st')
  with assms have "(\<exists>now. st' = completed_by now t st) \<and> (\<exists>w. u = s\<lparr>os_world := w\<rparr>)"
    by (auto simp: complete_state_def sbind_Inr_iff outside_iff lift_iff DevelopmentState_init_def
        check_simps)
  with Inr completed show thesis by blast
qed

lemma follows_world: "follows orc st0 s0 h st s \<Longrightarrow> follows orc st0 s0 h st (s\<lparr>os_world := w\<rparr>)"
  by (simp add: follows_def)

lemma follows_task_completed:
  assumes "follows orc st0 s0 h st s"
    and "dev_record orc (Some t) ''task_completed'' rc out ev s = (q, s')"
  shows "follows orc st0 s0 h st s'"
  using assms(2)
proof (cases rule: dev_record_cases)
  case raised
  with assms(1) show ?thesis by (simp add: follows_def)
next
  case (recorded ev')
  obtain es where "os_audit s = os_audit s0 @ es"
    "os_audit_count s = os_audit_count s0 + length es"
    "ids_of ''implementation_started'' es = hist_ids h"
    "length (ids_of ''validation_executed'' es) \<le>
       nat (rl_max_repair_cycles (orc_limits orc) + 1) * length h"
    using assms(1) by (auto simp: follows_def)
  with recorded assms(1) show ?thesis
    unfolding follows_def by (intro conjI exI [of _ "es @ [ev']"]) (auto simp: ids_of_def)
qed

lemma step_committed:
  assumes inv: "follows orc st0 s0 (h @ [(t, False)]) (lp_state ls) u"
    and acc: "\<exists>c commit. c \<in> {0..rl_max_repair_cycles (orc_limits orc)} \<and> accepted orc t c commit"
    and ls: "lp_excluded ls = insert (tk_task_id t) (set (hist_ids h))" "lp_completed ls = done_ids h"
    and fin: "sbind (complete_state orc (lp_state ls) t) (\<lambda>st'.
        sbind (\<lambda>s. (Inr (), s\<lparr>os_file := save_state st'\<rparr>)) (\<lambda>_.
        sbind (dev_record orc (Some t) ''task_completed'' ''acceptance_passed'' ''completed'' []) (\<lambda>_.
        ret (Inr (ls\<lparr>lp_state := st', lp_completed := lp_completed ls @ [tk_task_id t],
          lp_commits := (if c = [] then lp_commits ls else lp_commits ls @ [c])\<rparr>))))) u = (r, s')"
  shows "step_result orc st0 s0 r s'"
proof -
  obtain q v where comp: "complete_state orc (lp_state ls) t u = (q, v)" by fastforce
  then show ?thesis
  proof (cases rule: complete_state_cases)
    case (raised e)
    with comp fin have "r = Inl e" "s' = v" by (auto simp: sbind_def)
    with raised inv show ?thesis
      by (auto simp: step_result_def intro: reported_Inl follows_world)
  next
    case (completed now)
    define st' where "st' = completed_by now t (lp_state ls)"
    obtain q' v' where rec: "dev_record orc (Some t) ''task_completed'' ''acceptance_passed''
        ''completed'' [] (v\<lparr>os_file := save_state st'\<rparr>) = (q', v')"
      by fastforce
    have "follows orc st0 s0 (h @ [(t, False)]) (lp_state ls) v"
      using completed(2) inv by (auto intro: follows_world)
    then have end': "follows orc st0 s0 (h @ [(t, True)]) st' v'"
      unfolding st'_def by (intro follows_task_completed [OF follows_saved [OF _ acc] rec [unfolded st'_def]])
    show ?thesis
    proof (cases q')
      case (Inl e)
      with comp completed rec fin have "r = Inl e" "s' = v'" by (auto simp: sbind_def st'_def)
      with end' show ?thesis by (auto simp: step_result_def intro: reported_Inl)
    next
      case (Inr x)
      with comp completed rec fin have "s' = v'" and "r = Inr (Inr (ls\<lparr>lp_state := st',
          lp_completed := lp_completed ls @ [tk_task_id t],
          lp_commits := (if c = [] then lp_commits ls else lp_commits ls @ [c])\<rparr>))"
        by (auto simp: sbind_def ret_def st'_def)
      with end' ls show ?thesis
        by (simp add: step_result_def linked_def) (rule exI [of _ "h @ [(t, True)]"], simp)
    qed
  qed
qed

lemma step_with_result:
  assumes inv: "follows orc st0 s0 h (lp_state ls) s"
    and sel: "select_next (orc_roadmap orc) (lp_state ls) (orc_policy orc) (set (hist_ids h)) = Some t"
    and ls: "lp_excluded ls = insert (tk_task_id t) (set (hist_ids h))" "lp_completed ls = done_ids h"
    and step: "step_with orc t ls s = (r, s')"
  shows "step_result orc st0 s0 r s'"
proof -
  obtain q u where exec: "execute_task orc t s = (q, u)" by fastforce
  from follows_started [OF inv sel this] consider
      (started) "follows orc st0 s0 (h @ [(t, False)]) (lp_state ls) u"
    | (raised) e where "q = Inl e" "follows orc st0 s0 h (lp_state ls) u" by blast
  then show ?thesis
  proof cases
    case raised
    with exec step have "r = Inl e" "s' = u" by (auto simp: step_with_def sbind_def)
    with raised show ?thesis by (auto simp: step_result_def intro: reported_Inl)
  next
    case started
    show ?thesis
    proof (cases q)
      case (Inl e)
      with exec step have "r = Inl e" "s' = u" by (auto simp: step_with_def sbind_def)
      with started show ?thesis by (auto simp: step_result_def intro: reported_Inl)
    next
      case (Inr result)
      show ?thesis
      proof (cases result)
        case TR_None
        with Inr exec step have "r = Inr (Inr ls)" "s' = u"
          by (auto simp: step_with_def sbind_def ret_def)
        with started ls show ?thesis
          by (simp add: step_result_def linked_def) (rule exI [of _ "h @ [(t, False)]"], simp)
      next
        case (TR_Escalated e)
        with Inr exec step obtain rep where "r = Inr (Inl rep)" "s' = u"
          "rn_completed_tasks rep = done_ids h" "rn_audit_events rep = os_audit_count u"
          "rn_stopped_reason rep = ''owner_authority_required''"
          by (auto simp: step_with_def sbind_def ret_def report_def ls)
        with started show ?thesis
          by (auto simp: step_result_def reported_def intro!: exI [of _ "h @ [(t, False)]"])
      next
        case (TR_Commit c)
        with Inr exec step have fin: "sbind (complete_state orc (lp_state ls) t) (\<lambda>st'.
            sbind (\<lambda>s. (Inr (), s\<lparr>os_file := save_state st'\<rparr>)) (\<lambda>_.
            sbind (dev_record orc (Some t) ''task_completed'' ''acceptance_passed'' ''completed'' []) (\<lambda>_.
            ret (Inr (ls\<lparr>lp_state := st', lp_completed := lp_completed ls @ [tk_task_id t],
              lp_commits := (if c = [] then lp_commits ls else lp_commits ls @ [c])\<rparr>))))) u = (r, s')"
          by (simp add: step_with_def sbind_def)
        have "\<exists>c commit. c \<in> {0..rl_max_repair_cycles (orc_limits orc)} \<and> accepted orc t c commit"
          using task_commits [OF exec [unfolded Inr TR_Commit]] by auto
        from step_committed [OF started this ls fin] show ?thesis .
      qed
    qed
  qed
qed

lemma linked_quiet:
  "linked orc st0 s0 ls s \<Longrightarrow> quiet 0 m \<Longrightarrow> m s = (r, s') \<Longrightarrow> linked orc st0 s0 ls s'"
  by (auto simp: linked_def dest: follows_quiet)

lemma linked_report:
  assumes "linked orc st0 s0 ls s" and "report (lp_completed ls) rs e cs s = (r, s')"
    and "rs = ''no_eligible_task'' \<Longrightarrow>
      eligible_tasks (orc_roadmap orc) (lp_state ls) (lp_excluded ls) = []"
  shows "reported orc st0 s0 r s'"
proof -
  obtain h where h: "follows orc st0 s0 h (lp_state ls) s" "lp_excluded ls = set (hist_ids h)"
    "lp_completed ls = done_ids h"
    using assms(1) by (auto simp: linked_def)
  show ?thesis
    unfolding reported_def
    by (rule exI [of _ h], rule exI [of _ "lp_state ls"]) (use h assms(2,3) in \<open>auto simp: report_iff\<close>)
qed

lemma linked_Inl: "linked orc st0 s0 ls s \<Longrightarrow> reported orc st0 s0 (Inl e) s"
  by (auto simp: linked_def intro: reported_Inl)

lemma report_step:
  assumes "linked orc st0 s0 ls s"
    and "sbind (report (lp_completed ls) rs e cs) (\<lambda>r. ret (Inl r)) s = (r, s')"
    and "rs = ''no_eligible_task'' \<Longrightarrow>
      eligible_tasks (orc_roadmap orc) (lp_state ls) (lp_excluded ls) = []"
  shows "step_result orc st0 s0 r s'"
proof -
  obtain rep where rep: "report (lp_completed ls) rs e cs s = (Inr rep, s)"
    by (simp add: report_def)
  with assms(2) have "r = Inr (Inl rep)" "s' = s" by (auto simp: sbind_def ret_def)
  with linked_report [OF assms(1) rep assms(3)] show ?thesis by (simp add: step_result_def)
qed

lemma select_loop_escalates:
  "select_loop orc ts esc s = (Inr (None, e), s') \<Longrightarrow> ts \<noteq> [] \<or> esc \<noteq> None \<Longrightarrow> e \<noteq> None"
proof (induction ts arbitrary: esc s)
  case (Cons t ts)
  then show ?case by (auto simp: Let_def stm_iffs split: if_splits option.splits)
qed (auto simp: ret_def)

lemma select_task_none:
  "select_task orc st excluded s = (Inr (None, None), s') \<Longrightarrow>
     eligible_tasks (orc_roadmap orc) st excluded = []"
  unfolding select_task_def using select_loop_escalates by blast

lemma step_selected_result:
  assumes inv: "linked orc st0 s0 ls s"
    and sel: "task = select_next (orc_roadmap orc) (lp_state ls) (orc_policy orc) (lp_excluded ls)"
    and none: "task = None \<Longrightarrow> escalation = None \<Longrightarrow>
      eligible_tasks (orc_roadmap orc) (lp_state ls) (lp_excluded ls) = []"
    and step: "step_selected orc ls (task, escalation) s = (r, s')"
  shows "step_result orc st0 s0 r s'"
proof (cases task)
  case None
  with step have "sbind (report (lp_completed ls)
      (if escalation \<noteq> None then ''owner_authority_required'' else ''no_eligible_task'')
      (if escalation \<noteq> None then escalation else lp_pending ls) (lp_commits ls))
      (\<lambda>r. ret (Inl r)) s = (r, s')" by (simp add: step_selected_def)
  with inv show ?thesis by (rule report_step) (use None none in \<open>auto split: if_splits\<close>)
next
  case (Some t)
  obtain h where h: "follows orc st0 s0 h (lp_state ls) s" "lp_excluded ls = set (hist_ids h)"
    "lp_completed ls = done_ids h"
    using inv by (auto simp: linked_def)
  show ?thesis
  proof (rule step_with_result)
    show "step_with orc t (after_select t escalation ls) s = (r, s')"
      using step Some by (simp add: step_selected_def)
    show "follows orc st0 s0 h (lp_state (after_select t escalation ls)) s"
      using h by (simp add: after_select_def)
    show "select_next (orc_roadmap orc) (lp_state (after_select t escalation ls)) (orc_policy orc)
        (set (hist_ids h)) = Some t"
      using sel Some h(2) by (simp add: after_select_def)
  qed (simp_all add: after_select_def h)
qed

lemma run_step_result:
  assumes inv: "linked orc st0 s0 ls s" and step: "run_step orc started ls s = (r, s')"
  shows "step_result orc st0 s0 r s'"
proof -
  obtain q u where time: "outside (orc_monotonic orc) s = (q, u)" by fastforce
  have u: "linked orc st0 s0 ls u" using linked_quiet [OF inv quiet_outside time] .
  show ?thesis
  proof (cases q)
    case (Inl e)
    with time step have "r = Inl e" "s' = u" by (auto simp: run_step_def sbind_def)
    with u show ?thesis by (auto simp: step_result_def intro: linked_Inl)
  next
    case (Inr time)
    show ?thesis
    proof (cases "rl_max_elapsed_seconds (orc_limits orc) \<le> time - started")
      case True
      with Inr \<open>outside _ s = _\<close> step have "sbind (report (lp_completed ls)
          ''elapsed_budget_exhausted'' (lp_pending ls) (lp_commits ls)) (\<lambda>r. ret (Inl r)) u = (r, s')"
        by (simp add: run_step_def sbind_def)
      with u show ?thesis by (rule report_step) simp
    next
      case False
      with Inr \<open>outside _ s = _\<close> step have rest: "sbind (select_task orc (lp_state ls)
          (lp_excluded ls)) (step_selected orc ls) u = (r, s')"
        by (simp add: run_step_def sbind_def)
      obtain q' v where sel: "select_task orc (lp_state ls) (lp_excluded ls) u = (q', v)" by fastforce
      have v: "linked orc st0 s0 ls v" using linked_quiet [OF u quiet_select_task sel] .
      show ?thesis
      proof (cases q')
        case (Inl e)
        with sel rest have "r = Inl e" "s' = v" by (auto simp: sbind_def)
        with v show ?thesis by (auto simp: step_result_def intro: linked_Inl)
      next
        case (Inr te)
        then obtain task escalation where te: "q' = Inr (task, escalation)" by (cases te) auto
        with sel rest have "step_selected orc ls (task, escalation) v = (r, s')"
          by (simp add: sbind_def)
        moreover have "eligible_tasks (orc_roadmap orc) (lp_state ls) (lp_excluded ls) = []"
          if "task = None" "escalation = None"
          using select_task_none sel [unfolded te that] .
        ultimately show ?thesis
          by (rule step_selected_result [OF v select_task_next [OF sel [unfolded te]], rotated])
      qed
    qed
  qed
qed

lemma run_loop_reported:
  "linked orc st0 s0 ls s \<Longrightarrow> run_loop orc started ls s = (r, s') \<Longrightarrow> reported orc st0 s0 r s'"
proof (induction orc started ls s rule: run_loop.induct)
  case (1 orc started ls s)
  show ?case
  proof (cases "int (length (lp_completed ls)) < rl_max_tasks (orc_limits orc)")
    case False
    with "1.prems" show ?thesis
      by (intro linked_report [of orc st0 s0 ls s _ _ _ r s', OF "1.prems"(1)])
        (auto simp: run_loop.simps [of orc])
  next
    case True
    obtain q u where step: "run_step orc started ls s = (q, u)" by fastforce
    note res = run_step_result [OF "1.prems"(1) step]
    consider e where "q = Inl e" | rep where "q = Inr (Inl rep)" | ls' where "q = Inr (Inr ls')"
      by (metis sumE)
    then show ?thesis
    proof cases
      case 1
      with True step res "1.prems"(2) show ?thesis by (simp add: run_loop.simps [of orc] step_result_def)
    next
      case 2
      with True step res "1.prems"(2) show ?thesis by (simp add: run_loop.simps [of orc] step_result_def)
    next
      case 3
      with True step have "run_loop orc started ls s = run_loop orc started ls' u"
        by (simp add: run_loop.simps [of orc started ls s])
      with "1.prems"(2) 3 res "1.IH" [OF True step [unfolded 3, symmetric] refl refl] show ?thesis
        by (simp add: step_result_def)
    qed
  qed
qed

lemma follows_start: "follows orc st0 s [] st0 s"
  by (simp add: follows_def hist_start)

theorem run_reported:
  assumes load: "load_state (os_file s) = Inr st0" and run: "run orc s = (r, s')"
  shows "reported orc st0 s r s'"
proof -
  obtain q u where time: "outside (orc_monotonic orc) s = (q, u)" by fastforce
  have u: "follows orc st0 s [] st0 u" and same: "os_file u = os_file s"
    using follows_quiet [OF follows_start quiet_outside time] time by (auto simp: outside_iff)
  show ?thesis
  proof (cases q)
    case (Inl e)
    with time run have "r = Inl e" "s' = u" by (auto simp: run_def sbind_def)
    with u show ?thesis by (auto intro: reported_Inl)
  next
    case (Inr started)
    obtain q' v where snap: "outside (orc_snapshot orc) u = (q', v)" by fastforce
    have v: "follows orc st0 s [] st0 v" using follows_quiet [OF u quiet_outside snap] .
    show ?thesis
    proof (cases q')
      case (Inl e)
      with Inr time snap run load same have "r = Inl e" "s' = v" by (auto simp: run_def sbind_def)
      with v show ?thesis by (auto intro: reported_Inl)
    next
      case (Inr snapshot)
      show ?thesis
      proof (cases "validate_repository st0 snapshot = []")
        case True
        with Inr \<open>q = _\<close> time snap run load same have "run_loop orc started
            \<lparr>lp_state = st0, lp_completed = [], lp_commits = [], lp_excluded = {},
             lp_pending = None\<rparr> v = (r, s')"
          by (simp add: run_def sbind_def)
        moreover have "linked orc st0 s \<lparr>lp_state = st0, lp_completed = [], lp_commits = [],
            lp_excluded = {}, lp_pending = None\<rparr> v"
          unfolding linked_def by (rule exI [of _ "[]"]) (simp add: v)
        ultimately show ?thesis by (rule run_loop_reported [rotated])
      next
        case False
        with Inr \<open>q = _\<close> time snap run load same have rest: "sbind (dev_record orc None
            ''repository_blocked'' ''unexpected_repository_state'' ''blocked'' [])
            (\<lambda>_. report [] ''unexpected_repository_state'' None []) v = (r, s')"
          by (simp add: run_def sbind_def)
        have "rn_stopped_reason rep = ''unexpected_repository_state''" if "r = Inr rep" for rep
          using rest that by (auto simp: sbind_Inr_iff report_iff)
        moreover have "follows orc st0 s [] st0 s'"
          by (rule follows_quiet [where m = "sbind _ _", OF v _ rest]) (simp add: quiet_bind_0)
        moreover have "rn_completed_tasks rep = [] \<and> rn_audit_events rep = os_audit_count s'"
          if "r = Inr rep" for rep
          using rest that by (auto simp: sbind_Inr_iff report_iff)
        ultimately show ?thesis
          unfolding reported_def by (intro exI [of _ "[]"] exI [of _ st0]) auto
      qed
    qed
  qed
qed

section \<open>Budgets\<close>

definition counted :: "LoopState \<Rightarrow> RunReport + LoopState \<Rightarrow> bool" where
  "counted ls x = (case x of
       Inl rep \<Rightarrow> rn_completed_tasks rep = lp_completed ls
     | Inr ls' \<Rightarrow> length (lp_completed ls') \<le> Suc (length (lp_completed ls)))"

lemma counted_report:
  "sbind (report (lp_completed ls) rs e cs) (\<lambda>r. ret (Inl r)) s = (Inr x, s') \<Longrightarrow> counted ls x"
  by (auto simp: counted_def sbind_def ret_def report_def)

lemma step_with_counted:
  assumes "step_with orc t ls s = (Inr x, s')"
  shows "counted ls x"
proof -
  obtain result s1 where exec: "execute_task orc t s = (Inr result, s1)"
    using assms by (auto simp: step_with_def sbind_Inr_iff)
  with assms show ?thesis
    by (cases result) (auto simp: step_with_def sbind_def [of "execute_task orc t"] counted_def
        stm_iffs intro: counted_report [unfolded counted_def])
qed

lemma after_select_completed [simp]: "lp_completed (after_select t e ls) = lp_completed ls"
  by (simp add: after_select_def)

lemma step_selected_counted:
  assumes "step_selected orc ls te s = (Inr x, s')"
  shows "counted ls x"
proof (cases te)
  case (Pair task e)
  show ?thesis
  proof (cases task)
    case None
    with Pair assms show ?thesis unfolding step_selected_def by (auto intro: counted_report)
  next
    case (Some t)
    with Pair assms have "step_with orc t (after_select t e ls) s = (Inr x, s')"
      by (simp add: step_selected_def)
    from step_with_counted [OF this] show ?thesis by (simp add: counted_def split: sum.splits)
  qed
qed

lemma run_step_counted:
  assumes "run_step orc started ls s = (Inr x, s')"
  shows "counted ls x"
proof -
  obtain time u where "outside (orc_monotonic orc) s = (Inr time, u)"
    using assms by (auto simp: run_step_def sbind_Inr_iff)
  with assms have "(if rl_max_elapsed_seconds (orc_limits orc) \<le> time - started then
       sbind (report (lp_completed ls) ''elapsed_budget_exhausted'' (lp_pending ls) (lp_commits ls))
         (\<lambda>r. ret (Inl r))
     else sbind (select_task orc (lp_state ls) (lp_excluded ls)) (step_selected orc ls)) u = (Inr x, s')"
    by (simp add: run_step_def sbind_def)
  then show ?thesis
    by (auto simp: sbind_Inr_iff [of "select_task _ _ _"] split: if_splits
        intro: counted_report step_selected_counted)
qed

lemma run_loop_budget:
  "run_loop orc started ls s = (Inr rep, s') \<Longrightarrow>
     int (length (lp_completed ls)) \<le> rl_max_tasks (orc_limits orc) \<Longrightarrow>
     int (length (rn_completed_tasks rep)) \<le> rl_max_tasks (orc_limits orc)"
proof (induction orc started ls s rule: run_loop.induct)
  case (1 orc started ls s)
  show ?case
  proof (cases "int (length (lp_completed ls)) < rl_max_tasks (orc_limits orc)")
    case False
    with "1.prems" show ?thesis by (auto simp: run_loop.simps [of orc] report_iff)
  next
    case True
    obtain q u where step: "run_step orc started ls s = (q, u)" by fastforce
    consider e where "q = Inl e" | rep' where "q = Inr (Inl rep')" | ls' where "q = Inr (Inr ls')"
      by (metis sumE)
    then show ?thesis
    proof cases
      case 1
      with True step "1.prems"(1) show ?thesis by (simp add: run_loop.simps [of orc])
    next
      case 2
      with True step "1.prems"(1) have "rep = rep'" by (simp add: run_loop.simps [of orc])
      with True 2 run_step_counted [OF step [unfolded 2]] show ?thesis by (simp add: counted_def)
    next
      case 3
      with True step "1.prems"(1) have loop: "run_loop orc started ls' u = (Inr rep, s')"
        by (simp add: run_loop.simps [of orc started ls s])
      have "int (length (lp_completed ls')) \<le> rl_max_tasks (orc_limits orc)"
        using True run_step_counted [OF step [unfolded 3]] by (simp add: counted_def)
      with loop show ?thesis by (rule "1.IH" [OF True step [unfolded 3, symmetric] refl refl])
    qed
  qed
qed

text \<open>The \<open>while\<close> loop with at most \<open>n\<close> passes: \<open>None\<close> when they do not suffice.\<close>

fun run_passes ::
  "nat \<Rightarrow> 'w Orchestrator \<Rightarrow> rat \<Rightarrow> LoopState \<Rightarrow> 'w run_state \<Rightarrow>
     (RunReport result \<times> 'w run_state) option" where
  "run_passes 0 orc started ls s = None"
| "run_passes (Suc n) orc started ls s =
     (if int (length (lp_completed ls)) < rl_max_tasks (orc_limits orc) then
        (case run_step orc started ls s of
           (Inl e, s') \<Rightarrow> Some (Inl e, s')
         | (Inr (Inl r), s') \<Rightarrow> Some (Inr r, s')
         | (Inr (Inr ls'), s') \<Rightarrow> run_passes n orc started ls' s')
      else Some (report (lp_completed ls) ''task_budget_reached'' (lp_pending ls) (lp_commits ls) s))"

lemma run_passes_enough:
  "card (open_ids (orc_roadmap orc) (lp_excluded ls)) < n \<Longrightarrow>
     run_passes n orc started ls s = Some (run_loop orc started ls s)"
proof (induction n arbitrary: ls s)
  case (Suc n)
  have "card (open_ids (orc_roadmap orc) (lp_excluded ls')) < n"
    if "run_step orc started ls s = (Inr (Inr ls'), u)" for ls' u
    using run_step_continues [OF that] Suc.prems
      open_ids_decrease [of "orc_roadmap orc" "lp_state ls" "orc_policy orc" "lp_excluded ls"]
    by fastforce
  with Suc.IH show ?case
    by (auto simp: run_loop.simps [of orc started ls s] split: prod.splits sum.splits)
qed simp

lemma card_open_ids: "card (open_ids rm excluded) \<le> length (rm_tasks rm)"
proof -
  have "card (open_ids rm excluded) \<le> card (set (map tk_task_id (rm_tasks rm)))"
    unfolding open_ids_def by (intro card_mono) auto
  also have "\<dots> \<le> length (rm_tasks rm)" by (metis card_length length_map)
  finally show ?thesis .
qed

lemma run_budget:
  assumes "run orc s = (Inr rep, s')" and "0 < rl_max_tasks (orc_limits orc)"
  shows "int (length (rn_completed_tasks rep)) \<le> rl_max_tasks (orc_limits orc)"
proof -
  obtain started st snapshot u where "(if validate_repository st snapshot \<noteq> [] then
       sbind (dev_record orc None ''repository_blocked'' ''unexpected_repository_state'' ''blocked'' [])
         (\<lambda>_. report [] ''unexpected_repository_state'' None [])
     else run_loop orc started \<lparr>lp_state = st, lp_completed = [], lp_commits = [],
       lp_excluded = {}, lp_pending = None\<rparr>) u = (Inr rep, s')"
    using assms(1) unfolding run_def sbind_Inr_iff by fast
  with assms(2) show ?thesis
    by (auto simp: sbind_Inr_iff report_iff dest: run_loop_budget split: if_splits)
qed

section \<open>A repository in another state\<close>

lemma run_blocked:
  assumes "orc_monotonic orc (os_world s) = (Inr started, w1)"
    and "load_state (os_file s) = Inr st"
    and "orc_snapshot orc w1 = (Inr snapshot, w2)" and "validate_repository st snapshot \<noteq> []"
  shows "run orc s = sbind (dev_record orc None ''repository_blocked''
      ''unexpected_repository_state'' ''blocked'' [])
      (\<lambda>_. report [] ''unexpected_repository_state'' None []) (s\<lparr>os_world := w2\<rparr>)"
  using assms by (simp add: run_def sbind_def outside_def)

end
