(* ===== verification/DevProperties.thy ===== *)
theory DevProperties
  imports DevRuns Samples
begin

text \<open>
  The properties of autonomous development: standing authority, Git checkpoints, the roadmap,
  and the runs of the orchestrator, each with a concrete instance.
\<close>

section \<open>A sample roadmap, policy and orchestrator\<close>

definition sample_day :: datetime where
  "sample_day = Aware 0 0"

lemma stamp_sample_day: "stamp sample_day"
  by (simp add: stamp_def sample_day_def dt_ok_def instant_def max_wall_def day_us_def)

definition sample_task :: "string \<Rightarrow> string list \<Rightarrow> string list \<Rightarrow> DevelopmentTask" where
  "sample_task i prerequisites actions =
     \<lparr>tk_task_id = i, tk_objective = ''objective'', tk_prerequisites = prerequisites,
      tk_authority_actions = actions, tk_risk = ''low'', tk_expected_components = [],
      tk_acceptance_criteria = [''criterion''], tk_required_tests = [''pytest''],
      tk_stop_conditions = [], tk_dependencies = [], tk_status = TS_PENDING,
      tk_successor_tasks = []\<rparr>"

definition sample_roadmap :: DevelopmentRoadmap where
  "sample_roadmap = \<lparr>rm_roadmap_id = ''roadmap'', rm_version = ''1'',
     rm_tasks = [sample_task ''second'' [''first''] [''code.write''],
       sample_task ''first'' [] [''code.write''], sample_task ''third'' [] [''release'']]\<rparr>"

definition sample_git_authority :: GitCheckpointAuthority where
  "sample_git_authority =
     \<lparr>gc_allowed_branch_prefixes = [''feature/''], gc_protected_branches = {|''main''|},
      gc_protected_branch_prefixes = [''release/''], gc_allowed_remote = ''origin'',
      gc_prohibited_operations = {|''force_push''|}, gc_required_record_fields = []\<rparr>"

definition sample_authority :: DevelopmentAuthorityPolicy where
  "sample_authority =
     \<lparr>ap_policy_id = ''policy'', ap_version = ''1'', ap_allowed_actions = {|''code.write''|},
      ap_owner_required_actions = {|''release''|}, ap_prohibited_actions = {|''purchase''|},
      ap_git_checkpoint = Some sample_git_authority\<rparr>"

definition sample_git_request :: GitCheckpointRequest where
  "sample_git_request =
     \<lparr>gr_branch = ''feature/x'', gr_upstream_remote = ''origin'',
      gr_upstream_branch = ''feature/x'', gr_target_remote = ''origin'',
      gr_target_branch = ''feature/x'', gr_operations = [''commit''],
      gr_completed_reviewed_increment = True, gr_increment_only_changes = True,
      gr_validation_passed = True, gr_commit_message_matches_increment = True,
      gr_hooks_and_validation_enabled = True, gr_contains_no_secrets = True,
      gr_audit_state_recording_planned = True,
      gr_verify_head_equals_upstream_after_push = True\<rparr>"

definition sample_dev_state :: DevelopmentState where
  "sample_dev_state =
     \<lparr>ds_schema_version = ''1'', ds_product = ''EDN OS'', ds_version = ''0.1'',
      ds_current_branch = ''feature/x'', ds_current_milestone = ''M1'',
      ds_completed_increments = [''zero''], ds_active_increment = None,
      ds_blocked_increments = [(''blocked'', ''reason'')], ds_deferred_increments = [],
      ds_known_limitations = [], ds_test_status =
        \<lparr>ts_outcome = ''passed'', ts_commands = [''pytest''], ts_passed = Some 1,
         ts_failed = None, ts_validated_at = sample_day\<rparr>,
      ds_repository_status = ''clean'', ds_expected_dirty_paths = [''docs/''],
      ds_last_validated_commit = ''abc'', ds_next_recommended_increment = None,
      ds_required_owner_decisions = [], ds_external_capability_blockers = [],
      ds_architecture_references = [], ds_updated_at = sample_day,
      ds_provenance = ''owner''\<rparr>"

definition sample_orchestrator :: "nat Orchestrator" where
  \<comment> \<open>an agent whose every task passes at once; the world counts the clock's ticks\<close>
  "sample_orchestrator =
     \<lparr>orc_roadmap = sample_roadmap, orc_policy = sample_authority,
      orc_limits = \<lparr>rl_max_tasks = 1, rl_max_repair_cycles = 2, rl_max_elapsed_seconds = 1800,
        rl_repeated_failure_limit = 2\<rparr>,
      orc_snapshot = ret \<lparr>rs_branch = ''feature/x'', rs_commit = ''abc'',
        rs_dirty_paths = [''docs/a.md'']\<rparr>,
      orc_implement = (\<lambda>t c. ret \<lparr>ag_success = True, ag_summary = ''done'', ag_changed_paths = [],
        ag_recommended_commit = Some (tk_task_id t), ag_failure_signature = None\<rparr>),
      orc_validate = (\<lambda>t. ret \<lparr>vr_passed = True, vr_failures = [], vr_evidence = [],
        vr_failure_signature = None\<rparr>),
      orc_review = (\<lambda>t v. ret (BaselineReviewer_review t v)),
      orc_monotonic = (\<lambda>n. (Inr (of_nat n), Suc n)),
      orc_now = ret sample_day,
      orc_uuid4_hex = ret ''00''\<rparr>"

definition sample_run_state :: "nat run_state" where
  "sample_run_state = \<lparr>os_file = save_state sample_dev_state, os_audit = [], os_audit_count = 0,
     os_world = 0\<rparr>"

lemma sample_dev_state_wf: "DevelopmentState_wf sample_dev_state"
proof -
  have "list_all valid_identifier [''zero'', ''passed'']" by code_simp
  moreover have "stamp sample_day" by (simp add: stamp_sample_day)
  ultimately show ?thesis
    by (simp add: DevelopmentState_wf_def TestStatus_wf_def DevelopmentState_init_def
        TestStatus_init_def sample_dev_state_def check_simps validate_list_def stamp_def
        optional_identifier_def)
qed

lemma sample_loads: "load_state (os_file sample_run_state) = Inr sample_dev_state"
  by (simp add: sample_run_state_def sample_dev_state_wf)

subsection \<open>The sample run completes its first task\<close>

abbreviation sample_first :: DevelopmentTask where
  "sample_first \<equiv> sample_task ''first'' [] [''code.write'']"

definition sample_loop :: LoopState where
  "sample_loop = \<lparr>lp_state = sample_dev_state, lp_completed = [], lp_commits = [],
     lp_excluded = {}, lp_pending = None\<rparr>"

lemmas run_evals = sbind_def outside_def dev_record_def ret_def report_def lift_def

lemma sample_limits:
  "rl_max_elapsed_seconds (orc_limits sample_orchestrator) = 1800"
  "rl_max_tasks (orc_limits sample_orchestrator) = 1"
  by (simp_all add: sample_orchestrator_def)

lemma sample_first_allowed:
  "ad_outcome (authority_evaluate sample_authority [''code.write'']) = AO_ALLOWED"
  by code_simp

lemma sample_eligible: "eligible_tasks sample_roadmap sample_dev_state {} =
    [sample_first, sample_task ''third'' [] [''release'']]"
  by code_simp

lemma sample_selects:
  "\<exists>u. select_task sample_orchestrator sample_dev_state {} s = (Inr (Some sample_first, None), u)"
  by (simp add: select_task_def sample_eligible sample_first_allowed sample_orchestrator_def
      run_evals sample_task_def Let_def)

lemma sample_records: "\<exists>u. dev_record sample_orchestrator t k rc out e s = (Inr (), u)"
  by (simp add: run_evals sample_orchestrator_def)

lemma sample_executes:
  "\<exists>u. execute_task sample_orchestrator sample_first s = (Inr (TR_Commit ''first''), u)"
  by (simp add: execute_task_def upto.simps execute_cycle_def sample_orchestrator_def run_evals
      validation_of_def judge_cycle_def BaselineReviewer_review_def sample_task_def
      ReviewResult_passed_def)

lemma sample_completes:
  "\<exists>u. complete_state sample_orchestrator sample_dev_state sample_first s =
     (Inr (completed_by sample_day sample_first sample_dev_state), u)"
proof -
  have "DevelopmentState_init (completed_by sample_day sample_first sample_dev_state) =
      Inr (completed_by sample_day sample_first sample_dev_state)"
    by code_simp
  then show ?thesis
    by (simp add: complete_state_def run_evals sample_orchestrator_def [THEN arg_cong, of orc_now])
qed

lemma sample_steps:
  "\<exists>ls u. step_with sample_orchestrator sample_first (after_select sample_first None sample_loop) s =
     (Inr (Inr ls), u) \<and> lp_completed ls = [''first'']"
proof -
  obtain u where "execute_task sample_orchestrator sample_first s = (Inr (TR_Commit ''first''), u)"
    using sample_executes by blast
  moreover obtain v where "complete_state sample_orchestrator sample_dev_state sample_first u =
      (Inr (completed_by sample_day sample_first sample_dev_state), v)"
    using sample_completes by blast
  moreover obtain w where "dev_record sample_orchestrator (Some sample_first) ''task_completed''
      ''acceptance_passed'' ''completed'' []
      (v\<lparr>os_file := save_state (completed_by sample_day sample_first sample_dev_state)\<rparr>) = (Inr (), w)"
    using sample_records by blast
  ultimately show ?thesis
    by (simp add: step_with_def after_select_def sample_loop_def sbind_def ret_def)
      (simp add: sample_task_def)
qed

lemma sample_loop_runs:
  assumes tick: "os_world s = 1"
  shows "\<exists>rep u. run_loop sample_orchestrator 0 sample_loop s = (Inr rep, u) \<and>
    rn_completed_tasks rep = [''first'']"
proof -
  obtain v where v: "outside (orc_monotonic sample_orchestrator) s = (Inr 1, v)"
    using tick by (simp add: outside_def sample_orchestrator_def)
  obtain w where w: "select_task sample_orchestrator sample_dev_state {} v =
      (Inr (Some sample_first, None), w)"
    using sample_selects by blast
  obtain ls u where u: "step_with sample_orchestrator sample_first
      (after_select sample_first None sample_loop) w = (Inr (Inr ls), u)"
      "lp_completed ls = [''first'']"
    using sample_steps by blast
  have "run_step sample_orchestrator 0 sample_loop s = (Inr (Inr ls), u)"
    using v w u(1) by (simp add: run_step_def sbind_def step_selected_def sample_limits)
      (simp add: sample_loop_def)
  then show ?thesis
    using u(2) by (simp add: run_loop.simps [of _ _ sample_loop] sample_limits)
      (simp add: sample_loop_def run_loop.simps [of _ _ ls] sample_limits report_def)
qed

lemma sample_runs: "\<exists>rep u. run sample_orchestrator sample_run_state = (Inr rep, u) \<and>
    rn_completed_tasks rep = [''first'']"
proof -
  have "outside (orc_monotonic sample_orchestrator) sample_run_state =
      (Inr 0, sample_run_state\<lparr>os_world := 1\<rparr>)"
    by (simp add: sample_orchestrator_def outside_def sample_run_state_def)
  moreover have "outside (orc_snapshot sample_orchestrator) s = (Inr \<lparr>rs_branch = ''feature/x'',
      rs_commit = ''abc'', rs_dirty_paths = [''docs/a.md'']\<rparr>, s)" for s
    by (simp add: sample_orchestrator_def outside_def ret_def)
  moreover have "validate_repository sample_dev_state \<lparr>rs_branch = ''feature/x'',
      rs_commit = ''abc'', rs_dirty_paths = [''docs/a.md'']\<rparr> = []"
    by code_simp
  moreover have "load_state (os_file (sample_run_state\<lparr>os_world := 1\<rparr>)) = Inr sample_dev_state"
    using sample_loads by simp
  ultimately show ?thesis
    using sample_loop_runs [of "sample_run_state\<lparr>os_world := 1\<rparr>"]
    by (simp add: run_def sbind_def sample_loop_def)
qed


text \<open>The same orchestrator on a roadmap whose task lacks its prerequisite, and on another branch.\<close>

definition waiting_roadmap :: DevelopmentRoadmap where
  "waiting_roadmap = \<lparr>rm_roadmap_id = ''roadmap'', rm_version = ''1'',
     rm_tasks = [sample_task ''second'' [''first''] [''code.write'']]\<rparr>"

definition idle_orchestrator :: "nat Orchestrator" where
  "idle_orchestrator = sample_orchestrator\<lparr>orc_roadmap := waiting_roadmap\<rparr>"

lemma idle_runs: "\<exists>rep u. run idle_orchestrator sample_run_state = (Inr rep, u) \<and>
    rn_stopped_reason rep = ''no_eligible_task''"
proof -
  have "validate_repository sample_dev_state \<lparr>rs_branch = ''feature/x'',
      rs_commit = ''abc'', rs_dirty_paths = [''docs/a.md'']\<rparr> = []"
    by code_simp
  moreover have "eligible_tasks waiting_roadmap sample_dev_state {} = []"
    by code_simp
  ultimately show ?thesis
    using sample_loads
    by (simp add: run_def sbind_def outside_def idle_orchestrator_def sample_orchestrator_def ret_def
        sample_run_state_def run_loop.simps run_step_def select_task_def step_selected_def
        report_def)
qed

definition strayed_orchestrator :: "nat Orchestrator" where
  "strayed_orchestrator = sample_orchestrator\<lparr>orc_snapshot := ret \<lparr>rs_branch = ''main'',
     rs_commit = ''abc'', rs_dirty_paths = []\<rparr>\<rparr>"

lemma strayed_runs: "\<exists>rep u. run strayed_orchestrator sample_run_state = (Inr rep, u)"
proof -
  have "validate_repository sample_dev_state \<lparr>rs_branch = ''main'', rs_commit = ''abc'',
      rs_dirty_paths = []\<rparr> \<noteq> []"
    by code_simp
  then show ?thesis
    using sample_loads
    by (simp add: run_def sbind_def outside_def strayed_orchestrator_def sample_orchestrator_def
        ret_def sample_run_state_def dev_record_def report_def)
qed

section \<open>Authority\<close>

text \<open>Standing authority fails closed: the actions of a task are allowed exactly when there is
  at least one, every one is allowed, and none is owner-required or prohibited; they are
  prohibited, or need the owner, exactly when every action is covered by the policy and some
  action is prohibited, or none is prohibited and some is owner-required.\<close>

theorem standing_authority_fails_closed:
  "(ad_outcome (authority_evaluate p actions) = AO_ALLOWED \<longleftrightarrow>
      actions \<noteq> [] \<and> (\<forall>a \<in> set actions. a |\<in>| ap_allowed_actions p \<and>
        a |\<notin>| ap_owner_required_actions p \<and> a |\<notin>| ap_prohibited_actions p)) \<and>
   (ad_outcome (authority_evaluate p actions) = AO_PROHIBITED \<longleftrightarrow>
      (\<exists>a \<in> set actions. a |\<in>| ap_prohibited_actions p) \<and>
      (\<forall>a \<in> set actions. a |\<in>| ap_allowed_actions p |\<union>| ap_owner_required_actions p |\<union>|
        ap_prohibited_actions p)) \<and>
   (ad_outcome (authority_evaluate p actions) = AO_OWNER_REQUIRED \<longleftrightarrow>
      (\<exists>a \<in> set actions. a |\<in>| ap_owner_required_actions p) \<and>
      (\<forall>a \<in> set actions. a |\<in>| ap_allowed_actions p |\<union>| ap_owner_required_actions p \<and>
        a |\<notin>| ap_prohibited_actions p))"
  by (intro conjI authority_ALLOWED authority_PROHIBITED authority_OWNER_REQUIRED)

theorem standing_authority_fails_closed_witness:
  "ad_outcome (authority_evaluate sample_authority [''code.write'']) = AO_ALLOWED \<and>
   ad_outcome (authority_evaluate sample_authority [''code.write'', ''release'']) = AO_OWNER_REQUIRED \<and>
   ad_outcome (authority_evaluate sample_authority [''unknown'', ''purchase'']) \<noteq> AO_PROHIBITED"
  using standing_authority_fails_closed [of sample_authority "[''code.write'']"]
    standing_authority_fails_closed [of sample_authority "[''code.write'', ''release'']"]
    standing_authority_fails_closed [of sample_authority "[''unknown'', ''purchase'']"]
  by (simp add: sample_authority_def)

text \<open>A Git checkpoint is allowed exactly when a checkpoint policy exists, no requested
  operation is prohibited, the branch is an allowed feature branch and not a protected one, the
  push goes to the current branch's own upstream on the allowed remote, and all eight
  preconditions (review, validation, secrets, audit and the others) are declared.\<close>

theorem git_checkpoint_exact:
  "ad_outcome (evaluate_git_checkpoint p r) = AO_ALLOWED \<longleftrightarrow>
     (\<exists>g. ap_git_checkpoint p = Some g \<and>
       (\<forall>x \<in> set (gr_operations r). x |\<notin>| gc_prohibited_operations g) \<and>
       gr_branch r |\<notin>| gc_protected_branches g \<and>
       (\<forall>x \<in> set (gc_protected_branch_prefixes g). \<not> prefix x (gr_branch r)) \<and>
       (\<exists>x \<in> set (gc_allowed_branch_prefixes g). prefix x (gr_branch r)) \<and>
       gr_upstream_remote r = gc_allowed_remote g \<and> gr_target_remote r = gc_allowed_remote g \<and>
       gr_upstream_branch r = gr_branch r \<and> gr_target_branch r = gr_branch r \<and>
       gr_completed_reviewed_increment r \<and> gr_increment_only_changes r \<and>
       gr_validation_passed r \<and> gr_commit_message_matches_increment r \<and>
       gr_hooks_and_validation_enabled r \<and> gr_contains_no_secrets r \<and>
       gr_audit_state_recording_planned r \<and> gr_verify_head_equals_upstream_after_push r)"
  by (simp add: checkpoint_ALLOWED checkpoint_in_bounds_def checkpoint_required_def conj_assoc)

theorem git_checkpoint_exact_witness:
  "ad_outcome (evaluate_git_checkpoint sample_authority sample_git_request) = AO_ALLOWED"
  unfolding git_checkpoint_exact
  by (simp add: sample_authority_def sample_git_authority_def sample_git_request_def)

section \<open>The roadmap\<close>

text \<open>(C29) A roadmap that loads is well formed: its tasks pass their constructor's checks, have
  distinct identifiers, name only known prerequisites, and are found again by their identifier.\<close>

theorem roadmap_load_well_formed:
  assumes "DevelopmentRoadmap_load doc = Inr rm"
  shows "distinct (map tk_task_id (rm_tasks rm)) \<and>
    (\<forall>t \<in> set (rm_tasks rm). DevelopmentTask_init t = Inr t \<and>
      set (tk_prerequisites t) \<subseteq> set (map tk_task_id (rm_tasks rm)) \<and>
      roadmap_task rm (tk_task_id t) = Inr t)"
  using roadmap_load_wf [OF assms] roadmap_task_find [OF roadmap_load_wf [OF assms]]
  by (auto simp: roadmap_wf_def DevelopmentTask_wf_def DevelopmentTask_init_def construct_ok)

text \<open>Task selection is deterministic and governed: it returns a pending, not excluded task of
  the roadmap whose prerequisites are completed and whose actions are allowed, the recommended
  one if it qualifies and otherwise the one with the least identifier; it returns none only
  when no task qualifies.\<close>

theorem select_next_correct:
  "case select_next rm st p excluded of
     None \<Rightarrow> \<forall>u \<in> set (rm_tasks rm). eligible (ds_completed_increments st) excluded u \<longrightarrow>
       ad_outcome (authority_evaluate p (tk_authority_actions u)) \<noteq> AO_ALLOWED
   | Some t \<Rightarrow> t \<in> set (rm_tasks rm) \<and> eligible (ds_completed_increments st) excluded t \<and>
       ad_outcome (authority_evaluate p (tk_authority_actions t)) = AO_ALLOWED \<and>
       (\<forall>u \<in> set (rm_tasks rm). eligible (ds_completed_increments st) excluded u \<longrightarrow>
          ad_outcome (authority_evaluate p (tk_authority_actions u)) = AO_ALLOWED \<longrightarrow>
          Some (tk_task_id u) = ds_next_recommended_increment st \<longrightarrow>
          tk_task_id t = tk_task_id u) \<and>
       (\<forall>u \<in> set (rm_tasks rm). eligible (ds_completed_increments st) excluded u \<longrightarrow>
          ad_outcome (authority_evaluate p (tk_authority_actions u)) = AO_ALLOWED \<longrightarrow>
          Some (tk_task_id t) \<noteq> ds_next_recommended_increment st \<longrightarrow>
          tk_task_id t \<le> tk_task_id u)"
proof (cases "select_next rm st p excluded")
  case None
  then show ?thesis using select_next_None [of rm st p excluded] by (auto simp: task_allowed_def)
next
  case (Some t)
  have least: "(Some (tk_task_id t) \<noteq> ds_next_recommended_increment st, tk_task_id t) \<le>
      (Some (tk_task_id u) \<noteq> ds_next_recommended_increment st, tk_task_id u)"
    if "u \<in> set (rm_tasks rm)" "eligible (ds_completed_increments st) excluded u"
      "ad_outcome (authority_evaluate p (tk_authority_actions u)) = AO_ALLOWED" for u
    using select_next_least [OF Some that(1,2)] that(3) by (simp add: task_allowed_def)
  have "tk_task_id t = tk_task_id u"
    if "u \<in> set (rm_tasks rm)" "eligible (ds_completed_increments st) excluded u"
      "ad_outcome (authority_evaluate p (tk_authority_actions u)) = AO_ALLOWED"
      "Some (tk_task_id u) = ds_next_recommended_increment st" for u
    using least [OF that(1-3)] that(4) by (auto split: if_splits) (metis option.inject)
  moreover have "tk_task_id t \<le> tk_task_id u"
    if "u \<in> set (rm_tasks rm)" "eligible (ds_completed_increments st) excluded u"
      "ad_outcome (authority_evaluate p (tk_authority_actions u)) = AO_ALLOWED"
      "Some (tk_task_id t) \<noteq> ds_next_recommended_increment st" for u
    using least [OF that(1-3)] that(4) by auto
  ultimately show ?thesis
    using select_next_Some [OF Some] Some by (auto simp: task_allowed_def)
qed

theorem select_next_correct_witness:
  "select_next sample_roadmap sample_dev_state sample_authority {} =
     Some (sample_task ''first'' [] [''code.write'']) \<and>
   eligible [''zero''] {} (sample_task ''first'' [] [''code.write'']) \<and>
   ad_outcome (authority_evaluate sample_authority [''code.write'']) = AO_ALLOWED"
proof -
  have "select_next sample_roadmap sample_dev_state sample_authority {} =
      Some (sample_task ''first'' [] [''code.write''])" by code_simp
  with select_next_correct [where rm = sample_roadmap and st = sample_dev_state and
      p = sample_authority and excluded = "{}"]
  show ?thesis by (simp add: sample_dev_state_def sample_task_def)
qed

theorem roadmap_load_well_formed_witness:
  "distinct (map tk_task_id (rm_tasks sample_roadmap)) \<and>
   roadmap_task sample_roadmap ''first'' = Inr sample_first"
proof -
  have wf: "DevelopmentTask_wf t" if "t \<in> set (rm_tasks sample_roadmap)" for t
  proof -
    have "list_all (\<lambda>t. returns (DevelopmentTask_init t)) (rm_tasks sample_roadmap)" by code_simp
    with that show ?thesis by (simp add: DevelopmentTask_wf_def list_all_iff)
  qed
  have "traverse DevelopmentTask_from_dict
      (map (\<lambda>t. JObj (DevelopmentTask_to_dict t)) (rm_tasks sample_roadmap)) =
      Inr (rm_tasks sample_roadmap)"
    unfolding traverse_map
    by (rule traverse_Inr [where g = id, unfolded list.map_id]) (simp add: task_codec.dec_enc wf)
  moreover have "distinct (map tk_task_id (rm_tasks sample_roadmap))"
    and "list_all (\<lambda>t. list_all (\<lambda>p. p \<in> set (map tk_task_id (rm_tasks sample_roadmap)))
      (tk_prerequisites t)) (rm_tasks sample_roadmap)"
    by code_simp+
  ultimately have "DevelopmentRoadmap_load (JObj
      [(''roadmap_id'', JStr ''roadmap''), (''version'', JStr ''1''),
       (''tasks'', JList (map (\<lambda>t. JObj (DevelopmentTask_to_dict t)) (rm_tasks sample_roadmap)))]) =
      Inr sample_roadmap"
    by (simp add: DevelopmentRoadmap_load_def Let_def construct_ok check_simps distinct_remdups_id
        list_all_iff list_ex_iff) (simp add: sample_roadmap_def)
  from roadmap_load_well_formed [OF this] show ?thesis
    by (simp add: sample_roadmap_def sample_task_def)
qed

section \<open>Autonomous runs\<close>

text \<open>(C8) A run implements its specification: whatever the agent, the validator, the reviewer,
  the repository, the clocks and the identifiers do, raising included, there is a history, each
  step of which tries the task \<open>select_next\<close> names, such that the tasks the audit reports as
  started are those of the history in order, the state file is untouched if nothing was
  completed and otherwise holds the state the history reaches, and a returned report lists
  exactly the completed tasks.\<close>

theorem run_refines_history:
  assumes "load_state (os_file s) = Inr st0" and "run orc s = (r, s')"
  shows "\<exists>h st es. dev_history (orc_roadmap orc) (orc_policy orc) st0 h st \<and>
    os_audit s' = os_audit s @ es \<and> os_audit_count s' = os_audit_count s + length es \<and>
    ids_of ''implementation_started'' es = hist_ids h \<and>
    os_file s' = (if done_ids h = [] then os_file s else save_state st) \<and>
    (\<forall>rep. r = Inr rep \<longrightarrow> rn_completed_tasks rep = done_ids h \<and>
       rn_audit_events rep = os_audit_count s')"
  using run_reported [OF assms] unfolding reported_def follows_def by blast

theorem run_refines_history_witness:
  "\<exists>h st rep. dev_history sample_roadmap sample_authority sample_dev_state h st \<and>
     fst (run sample_orchestrator sample_run_state) = Inr rep \<and> done_ids h = [''first''] \<and>
     os_file (snd (run sample_orchestrator sample_run_state)) = save_state st"
proof -
  obtain rep u where run: "run sample_orchestrator sample_run_state = (Inr rep, u)"
    "rn_completed_tasks rep = [''first'']" using sample_runs by blast
  obtain h st where h: "dev_history sample_roadmap sample_authority sample_dev_state h st"
    and rest: "os_file u = (if done_ids h = [] then os_file sample_run_state else save_state st)"
      "rn_completed_tasks rep = done_ids h"
    using run_refines_history [OF sample_loads run(1)]
    unfolding sample_orchestrator_def Orchestrator.select_convs by blast
  then have "done_ids h = [''first'']" "os_file u = save_state st" using run(2) by auto
  with h run(1) show ?thesis by auto
qed







text \<open>(C28) The \<open>while\<close> loop of a run terminates: as many passes as the roadmap has tasks, and one
  more, always suffice to return the run's result, because a pass that does not return
  excludes one more task.\<close>

theorem run_loop_terminates:
  "run_passes (Suc (length (rm_tasks (orc_roadmap orc)))) orc started ls s =
     Some (run_loop orc started ls s)"
  using card_open_ids [of "orc_roadmap orc" "lp_excluded ls"] by (intro run_passes_enough) simp

text \<open>A run that reports \<open>no_eligible_task\<close> has left nothing undone: no pending task outside
  those it tried has its prerequisites completed.\<close>

theorem no_eligible_task_left:
  assumes "load_state (os_file s) = Inr st0" and "run orc s = (Inr rep, s')"
    and "rn_stopped_reason rep = ''no_eligible_task''"
  shows "\<forall>t \<in> set (rm_tasks (orc_roadmap orc)). tk_status t = TS_PENDING \<longrightarrow>
    tk_task_id t \<notin> set (ids_of ''implementation_started''
      (drop (length (os_audit s)) (os_audit s'))) \<longrightarrow>
    \<not> set (tk_prerequisites t) \<subseteq> set (ds_completed_increments st0) \<union> set (rn_completed_tasks rep)"
proof -
  obtain h st where h: "follows orc st0 s h st s'" "rn_completed_tasks rep = done_ids h"
    and none: "eligible_tasks (orc_roadmap orc) st (set (hist_ids h)) = []"
    using run_reported [OF assms(1,2)] assms(3) by (auto simp: reported_def)
  have "ids_of ''implementation_started'' (drop (length (os_audit s)) (os_audit s')) = hist_ids h"
    using h(1) by (auto simp: follows_def)
  moreover have "set (ds_completed_increments st) = set (ds_completed_increments st0) \<union> set (done_ids h)"
    using h(1) by (auto simp: follows_def dest: history_completed)
  moreover have "\<forall>t \<in> set (rm_tasks (orc_roadmap orc)).
      \<not> eligible (ds_completed_increments st) (set (hist_ids h)) t"
    using none set_eligible_tasks [of "orc_roadmap orc" st "set (hist_ids h)"] by auto
  ultimately show ?thesis using h(2) by (auto simp: eligible_def)
qed

theorem no_eligible_task_left_witness:
  "\<exists>rep u. run idle_orchestrator sample_run_state = (Inr rep, u) \<and>
     filter (\<lambda>t. tk_status t = TS_PENDING \<and> tk_task_id t \<notin> set (ids_of ''implementation_started''
           (drop (length (os_audit sample_run_state)) (os_audit u))) \<and>
         set (tk_prerequisites t) \<subseteq>
           set (ds_completed_increments sample_dev_state) \<union> set (rn_completed_tasks rep))
       (rm_tasks (orc_roadmap idle_orchestrator)) = []"
proof -
  obtain rep u where "run idle_orchestrator sample_run_state = (Inr rep, u)"
    "rn_stopped_reason rep = ''no_eligible_task''" using idle_runs by blast
  with no_eligible_task_left [OF sample_loads, of idle_orchestrator rep u] show ?thesis
    unfolding filter_empty_conv by blast
qed

text \<open>The state file keeps the development state: a well-formed state is read back unchanged,
  its completed, blocked and deferred increments, test status and timestamps included.\<close>

theorem development_state_round_trip:
  assumes "DevelopmentState_wf st"
  shows "load_state (save_state st) = Inr st"
  using assms by simp

theorem development_state_round_trip_witness:
  "load_state (save_state sample_dev_state) = Inr sample_dev_state"
  by (rule development_state_round_trip) (rule sample_dev_state_wf)

text \<open>An unexpected repository stops the run: on another branch or with a dirty path that is
  not expected, nothing is implemented and the state file is untouched; the only effect is one
  audit event and the report that says so.\<close>

theorem unexpected_repository_stops_run:
  assumes "orc_monotonic orc (os_world s) = (Inr started, w1)"
    and "load_state (os_file s) = Inr st" and "orc_snapshot orc w1 = (Inr snapshot, w2)"
    and "rs_branch snapshot \<noteq> ds_current_branch st \<or>
      (\<exists>path \<in> set (rs_dirty_paths snapshot). \<not> path_expected (ds_expected_dirty_paths st) path)"
    and "run orc s = (Inr rep, s')"
  shows "rn_stopped_reason rep = ''unexpected_repository_state'' \<and> rn_completed_tasks rep = [] \<and>
    os_file s' = os_file s \<and> (\<exists>e. os_audit s' = os_audit s @ [e] \<and>
      de_event_type e = ''repository_blocked'' \<and> de_task_id e = None)"
proof -
  have "validate_repository st snapshot \<noteq> []" using assms(4) by (auto simp: validate_repository_Nil)
  from run_blocked [OF assms(1-3) this] have "sbind (dev_record orc None ''repository_blocked''
      ''unexpected_repository_state'' ''blocked'' [])
      (\<lambda>_. report [] ''unexpected_repository_state'' None []) (s\<lparr>os_world := w2\<rparr>) = (Inr rep, s')"
    using assms(5) by simp
  then obtain u where
    "dev_record orc None ''repository_blocked'' ''unexpected_repository_state'' ''blocked'' []
       (s\<lparr>os_world := w2\<rparr>) = (Inr (), u)"
    and "report [] ''unexpected_repository_state'' None [] u = (Inr rep, s')"
    unfolding sbind_Inr_iff by auto
  then show ?thesis by (elim dev_record_cases) (auto simp: report_iff)
qed


theorem unexpected_repository_stops_run_witness:
  "\<exists>rep u. run strayed_orchestrator sample_run_state = (Inr rep, u) \<and>
     rn_stopped_reason rep = ''unexpected_repository_state'' \<and>
     os_file u = os_file sample_run_state"
proof -
  obtain rep u where run: "run strayed_orchestrator sample_run_state = (Inr rep, u)"
    using strayed_runs by blast
  have "orc_monotonic strayed_orchestrator (os_world sample_run_state) = (Inr 0, 1)"
    and "orc_snapshot strayed_orchestrator 1 =
      (Inr \<lparr>rs_branch = ''main'', rs_commit = ''abc'', rs_dirty_paths = []\<rparr>, 1)"
    by (simp_all add: strayed_orchestrator_def sample_orchestrator_def sample_run_state_def ret_def)
  from unexpected_repository_stops_run [OF this(1) sample_loads this(2) _ run] run show ?thesis
    by (auto simp: sample_dev_state_def)
qed

end
