(* ===== verification/DelegationModels.thy ===== *)
theory DelegationModels
  imports Security Digest Uri
begin

text \<open>
  \<open>src/edn/development/delegation.py\<close>, the data: delegated grants, owner approvals, operation
  requests and claims, the constants that bound every grant, the canonical JSON text whose
  SHA-256 binds a grant, a claim and an audit event, and the lexical path tests. Paths are
  POSIX paths; which of them are symbolic links is a parameter of the model. Amounts of money
  are exact rationals.
\<close>

section \<open>Canonical JSON text\<close>

definition ascii_char :: "char \<Rightarrow> string" where
  \<comment> \<open>a character of a JSON string under \<open>ensure_ascii\<close>\<close>
  "ascii_char c = (let n = code c; b = CHR 0x5C in
     if c = CHR 0x22 \<or> c = b then [b, c]
     else if n = 10 then [b, CHR ''n''] else if n = 13 then [b, CHR ''r'']
     else if n = 9 then [b, CHR ''t''] else if n = 8 then [b, CHR ''b'']
     else if n = 12 then [b, CHR ''f'']
     else if n < 32 \<or> 127 \<le> n then [b] @ ''u00'' @ [hex_digit (n div 16), hex_digit (n mod 16)]
     else [c])"

definition ascii_str :: "string \<Rightarrow> string" where
  "ascii_str s = [CHR 0x22] @ concat (map ascii_char s) @ [CHR 0x22]"

primrec canonical_json :: "json \<Rightarrow> string" where
  \<comment> \<open>\<open>json.dumps(value, sort_keys=True, separators=(",", ":"))\<close>\<close>
  "canonical_json JNull = ''null''"
| "canonical_json (JBool b) = (if b then ''true'' else ''false'')"
| "canonical_json (JInt n) = show_int n"
| "canonical_json (JFloat q) = float_repr q"
| "canonical_json (JStr s) = ascii_str s"
| "canonical_json (JList xs) = ''['' @ join '','' (map canonical_json xs) @ '']''"
| "canonical_json (JObj kvs) = ''{'' @
     join '','' (map (\<lambda>(k, v). ascii_str k @ '':'' @ v)
       (sort_key fst (map (map_prod id canonical_json) kvs))) @ ''}''"

definition sha_text :: "string \<Rightarrow> string" where
  \<comment> \<open>\<open>hashlib.sha256(text.encode()).hexdigest()\<close>\<close>
  "sha_text s = sha256_hex (utf8 s)"

definition canonical_hash :: "jobj \<Rightarrow> string" where
  "canonical_hash d = sha_text (canonical_json (JObj d))"

section \<open>Constants\<close>

datatype DelegatedOperation =
    REPOSITORY_READ | REPOSITORY_WRITE | TEST | LINT | TYPE_CHECK | STATIC_VALIDATE | GIT_STAGE
  | GIT_COMMIT | GIT_PUSH | PA005_CALENDAR_READ | PA005_INBOX_READ | PA005_LOCAL_FILES_READ
  | PA009_BUDGET_CHECK | PA009_CREDENTIAL_CHECK | PA009_PREFLIGHT | PA009_DISPATCH
  | PA009_RESULT_REVIEW

fun DelegatedOperation_value :: "DelegatedOperation \<Rightarrow> string" where
  "DelegatedOperation_value REPOSITORY_READ = ''repository.read''"
| "DelegatedOperation_value REPOSITORY_WRITE = ''repository.write''"
| "DelegatedOperation_value TEST = ''validation.pytest''"
| "DelegatedOperation_value LINT = ''validation.ruff''"
| "DelegatedOperation_value TYPE_CHECK = ''validation.mypy''"
| "DelegatedOperation_value STATIC_VALIDATE = ''validation.static''"
| "DelegatedOperation_value GIT_STAGE = ''git.stage.validated_increment''"
| "DelegatedOperation_value GIT_COMMIT = ''git.commit.validated_increment''"
| "DelegatedOperation_value GIT_PUSH = ''git.push.current_upstream''"
| "DelegatedOperation_value PA005_CALENDAR_READ = ''pa005.calendar.read''"
| "DelegatedOperation_value PA005_INBOX_READ = ''pa005.inbox.read''"
| "DelegatedOperation_value PA005_LOCAL_FILES_READ = ''pa005.local-files.read''"
| "DelegatedOperation_value PA009_BUDGET_CHECK = ''pa009.budget.check''"
| "DelegatedOperation_value PA009_CREDENTIAL_CHECK = ''pa009.credential.check''"
| "DelegatedOperation_value PA009_PREFLIGHT = ''pa009.preflight''"
| "DelegatedOperation_value PA009_DISPATCH = ''pa009.dispatch''"
| "DelegatedOperation_value PA009_RESULT_REVIEW = ''pa009.result.review''"

definition DelegatedOperation_members :: "DelegatedOperation list" where
  "DelegatedOperation_members =
     [REPOSITORY_READ, REPOSITORY_WRITE, TEST, LINT, TYPE_CHECK, STATIC_VALIDATE, GIT_STAGE,
      GIT_COMMIT, GIT_PUSH, PA005_CALENDAR_READ, PA005_INBOX_READ, PA005_LOCAL_FILES_READ,
      PA009_BUDGET_CHECK, PA009_CREDENTIAL_CHECK, PA009_PREFLIGHT, PA009_DISPATCH,
      PA009_RESULT_REVIEW]"

definition PROHIBITED_DELEGATED_OPERATIONS :: "string list" where
  "PROHIBITED_DELEGATED_OPERATIONS =
     [''credential.create'', ''credential.scope.change'', ''microsoft.permission.change'',
      ''data.source.add'', ''disclosure.category.expand'', ''security.control.weaken'',
      ''budget.limit.increase'', ''git.merge'', ''git.rebase'', ''git.push.force'',
      ''git.protected.modify'', ''external.notify'', ''external.deliver'',
      ''external.destructive'', ''financial.purchase'', ''production.deploy'',
      ''secret.long_lived.create'', ''pa010.begin'']"

definition APPROVED_DELEGATED_SOURCE_SCOPES :: "string list" where
  "APPROVED_DELEGATED_SOURCE_SCOPES =
     [''calendar:default:category=EDN'', ''inbox:/me:folder=inbox:category=EDN:limit=25:pages=1'',
      ''/mnt/f/EDN OS/Working/Owner Intelligence Beta/Approved Documents'']"

definition APPROVED_DELEGATED_CATEGORIES :: "string list" where
  "APPROVED_DELEGATED_CATEGORIES =
     [''calendar.metadata'', ''engineering.metadata'', ''inbox.metadata'', ''local-files.metadata'']"

definition APPROVED_CREDENTIAL_MECHANISMS :: "string list" where
  "APPROVED_CREDENTIAL_MECHANISMS =
     [''env:EDN_OPENAI_API_KEY'', ''microsoft:browser-pkce-memory-only'']"

definition MAX_GRANT_DURATION :: int where
  "MAX_GRANT_DURATION = 7 * day_us"

definition PA009_OPERATIONS :: "string list" where
  "PA009_OPERATIONS = map DelegatedOperation_value
     [PA009_BUDGET_CHECK, PA009_CREDENTIAL_CHECK, PA009_PREFLIGHT, PA009_DISPATCH,
      PA009_RESULT_REVIEW]"

definition GIT_OPERATIONS :: "string list" where
  "GIT_OPERATIONS = map DelegatedOperation_value [GIT_STAGE, GIT_COMMIT, GIT_PUSH]"

definition PA005_OPERATIONS :: "string list" where
  "PA005_OPERATIONS = map DelegatedOperation_value
     [PA005_CALENDAR_READ, PA005_INBOX_READ, PA005_LOCAL_FILES_READ]"

definition PATH_OPERATIONS :: "string list" where
  "PATH_OPERATIONS = map DelegatedOperation_value [REPOSITORY_READ, REPOSITORY_WRITE]"

section \<open>Paths\<close>

type_synonym path = "string \<times> string list"  \<comment> \<open>the root (empty, one or two slashes) and the parts\<close>

definition path_of :: "string \<Rightarrow> path" where
  \<comment> \<open>\<open>Path(s)\<close>\<close>
  "path_of s =
     ((if prefix ''//'' s \<and> \<not> prefix ''///'' s then ''//'' else if prefix ''/'' s then ''/'' else ''''),
      filter (\<lambda>p. p \<noteq> [] \<and> p \<noteq> ''.'') (split_on (CHR ''/'') s))"

definition is_absolute :: "path \<Rightarrow> bool" where
  "is_absolute p = (fst p \<noteq> [])"

fun resolve_dots :: "string list \<Rightarrow> string list \<Rightarrow> string list" where
  \<comment> \<open>\<open>os.path.normpath\<close> on the parts of an absolute path; the first argument is reversed\<close>
  "resolve_dots done [] = rev done"
| "resolve_dots done (p # ps) =
     (if p = ''..'' then resolve_dots (tl done) ps else resolve_dots (p # done) ps)"

definition abspath :: "path \<Rightarrow> path" where
  \<comment> \<open>\<open>Path(os.path.abspath(p))\<close> of an absolute path\<close>
  "abspath p = (fst p, resolve_dots [] (snd p))"

definition is_within :: "path \<Rightarrow> path \<Rightarrow> bool" where
  "is_within p base = (is_absolute p \<and> is_absolute base \<and>
     fst (abspath p) = fst (abspath base) \<and> prefix (snd (abspath base)) (snd (abspath p)))"

definition has_symlink_component :: "(path \<Rightarrow> bool) \<Rightarrow> path \<Rightarrow> path \<Rightarrow> bool" where
  "has_symlink_component is_symlink p repository_root =
     (if \<not> is_within p repository_root then True
      else let base = abspath repository_root;
               parts = drop (length (snd base)) (snd (abspath p))
        in is_symlink base \<or>
           list_ex (\<lambda>k. is_symlink (fst base, snd base @ take k parts)) [1..<Suc (length parts)])"

section \<open>Grants\<close>

record DelegatedGrant =
  dl_grant_id :: string
  dl_owner_id :: string
  dl_repository_root :: string
  dl_branch :: string
  dl_starts_at :: datetime
  dl_expires_at :: datetime
  dl_allowed_operations :: "string list"
  dl_allowed_paths :: "string list"
  dl_allowed_source_scopes :: "string list"
  dl_provider :: string
  dl_model :: string
  dl_disclosure_policy :: string
  dl_allowed_categories :: "string list"
  dl_credential_mechanisms :: "string list"
  dl_security_domain :: string
  dl_classification_scheme :: string
  dl_classification_level :: string
  dl_max_requests_per_day :: int
  dl_max_successes_per_day :: int
  dl_max_retries_per_day :: int
  dl_max_daily_spend_aud :: rat
  dl_max_monthly_spend_aud :: rat
  dl_max_output_tokens :: int
  dl_kill_switch_id :: string

definition DelegatedGrant_init :: "DelegatedGrant \<Rightarrow> DelegatedGrant result" where
  "DelegatedGrant_init g = construct
     [require (\<not> (dl_grant_id g = [] \<or> dl_owner_id g = [] \<or> \<not> prefix ''feature/'' (dl_branch g) \<or>
          tzinfo_None (dl_starts_at g) \<or> tzinfo_None (dl_expires_at g) \<or>
          instant (dl_expires_at g) \<le> instant (dl_starts_at g) \<or>
          dl_allowed_operations g = [] \<or> dl_kill_switch_id g = []))
        ''delegated grant binding is invalid'',
      require (\<not> MAX_GRANT_DURATION < instant (dl_expires_at g) - instant (dl_starts_at g))
        ''delegated grant duration exceeds seven days'',
      require (list_all (\<lambda>x. x \<in> set (map DelegatedOperation_value DelegatedOperation_members) \<and>
          x \<notin> set PROHIBITED_DELEGATED_OPERATIONS) (dl_allowed_operations g))
        ''delegated operation is unknown or prohibited'',
      require (is_absolute (path_of (dl_repository_root g)) \<and> dl_allowed_paths g \<noteq> [])
        ''delegated repository paths must be absolute and bounded'',
      require (\<not> list_ex (\<lambda>x. \<not> is_within (path_of x) (path_of (dl_repository_root g)))
          (dl_allowed_paths g))
        ''delegated path escapes repository'',
      require (\<not> (dl_max_requests_per_day g \<noteq> 2 \<or> dl_max_successes_per_day g \<noteq> 1 \<or>
          dl_max_retries_per_day g \<noteq> 1 \<or> dl_max_daily_spend_aud g \<noteq> 2 \<or>
          dl_max_monthly_spend_aud g \<noteq> 20 \<or> dl_max_output_tokens g \<noteq> 2000))
        ''delegation cannot alter PA-009 limits'',
      require (set (dl_allowed_source_scopes g) \<subseteq> set APPROVED_DELEGATED_SOURCE_SCOPES \<and>
          set (dl_allowed_categories g) \<subseteq> set APPROVED_DELEGATED_CATEGORIES \<and>
          set (dl_credential_mechanisms g) \<subseteq> set APPROVED_CREDENTIAL_MECHANISMS \<and>
          dl_provider g = ''openai.api'' \<and> dl_model g = ''gpt-5-mini-2025-08-07'' \<and>
          dl_disclosure_policy g = ''openai-daily-brief-pilot-v1'' \<and>
          dl_security_domain g = ''EDN'' \<and> dl_classification_scheme g = ''edn'' \<and>
          dl_classification_level g = ''confidential'')
        ''delegation cannot broaden existing source/provider scope''] g"

definition utc_text :: "datetime \<Rightarrow> string" where
  \<comment> \<open>\<open>value.astimezone(UTC).isoformat()\<close> of an aware value\<close>
  "utc_text d = isoformat (to_utc d)"

definition canonical_payload :: "DelegatedGrant \<Rightarrow> jobj" where
  "canonical_payload g =
     [(''grant_id'', JStr (dl_grant_id g)),
      (''owner_id'', JStr (dl_owner_id g)),
      (''repository_root'', JStr (dl_repository_root g)),
      (''branch'', JStr (dl_branch g)),
      (''starts_at'', JStr (utc_text (dl_starts_at g))),
      (''expires_at'', JStr (utc_text (dl_expires_at g))),
      (''allowed_operations'', strs (dl_allowed_operations g)),
      (''allowed_paths'', strs (dl_allowed_paths g)),
      (''allowed_source_scopes'', strs (dl_allowed_source_scopes g)),
      (''provider'', JStr (dl_provider g)),
      (''model'', JStr (dl_model g)),
      (''disclosure_policy'', JStr (dl_disclosure_policy g)),
      (''allowed_categories'', strs (dl_allowed_categories g)),
      (''credential_mechanisms'', strs (dl_credential_mechanisms g)),
      (''security_domain'', JStr (dl_security_domain g)),
      (''classification_scheme'', JStr (dl_classification_scheme g)),
      (''classification_level'', JStr (dl_classification_level g)),
      (''max_requests_per_day'', JInt (dl_max_requests_per_day g)),
      (''max_successes_per_day'', JInt (dl_max_successes_per_day g)),
      (''max_retries_per_day'', JInt (dl_max_retries_per_day g)),
      (''max_daily_spend_aud'', JFloat (dl_max_daily_spend_aud g)),
      (''max_monthly_spend_aud'', JFloat (dl_max_monthly_spend_aud g)),
      (''max_output_tokens'', JInt (dl_max_output_tokens g)),
      (''kill_switch_id'', JStr (dl_kill_switch_id g))]"

definition integrity_hash :: "DelegatedGrant \<Rightarrow> string" where
  "integrity_hash g = canonical_hash (canonical_payload g)"

definition grant_strings :: "jobj \<Rightarrow> string \<Rightarrow> string list result" where
  "grant_strings v key = rbind (item v key) (\<lambda>raw. string_tuple raw key)"

definition grant_of :: "jobj \<Rightarrow> DelegatedGrant result" where
  "grant_of v =
     rbind (str_item v ''grant_id'') (\<lambda>grant_id.
     rbind (str_item v ''owner_id'') (\<lambda>owner_id.
     rbind (str_item v ''repository_root'') (\<lambda>repository_root.
     rbind (str_item v ''branch'') (\<lambda>branch.
     rbind (rbind (str_item v ''starts_at'') fromisoformat) (\<lambda>starts_at.
     rbind (rbind (str_item v ''expires_at'') fromisoformat) (\<lambda>expires_at.
     rbind (grant_strings v ''allowed_operations'') (\<lambda>operations.
     rbind (grant_strings v ''allowed_paths'') (\<lambda>paths.
     rbind (grant_strings v ''allowed_source_scopes'') (\<lambda>scopes.
     rbind (str_item v ''provider'') (\<lambda>provider.
     rbind (str_item v ''model'') (\<lambda>model.
     rbind (str_item v ''disclosure_policy'') (\<lambda>disclosure.
     rbind (grant_strings v ''allowed_categories'') (\<lambda>categories.
     rbind (grant_strings v ''credential_mechanisms'') (\<lambda>mechanisms.
     rbind (str_item v ''security_domain'') (\<lambda>domain.
     rbind (str_item v ''classification_scheme'') (\<lambda>scheme.
     rbind (str_item v ''classification_level'') (\<lambda>level.
     rbind (rbind (item v ''max_requests_per_day'') py_int) (\<lambda>requests.
     rbind (rbind (item v ''max_successes_per_day'') py_int) (\<lambda>successes.
     rbind (rbind (item v ''max_retries_per_day'') py_int) (\<lambda>retries.
     rbind (rbind (item v ''max_daily_spend_aud'') py_float) (\<lambda>daily.
     rbind (rbind (item v ''max_monthly_spend_aud'') py_float) (\<lambda>monthly.
     rbind (rbind (item v ''max_output_tokens'') py_int) (\<lambda>tokens.
     rbind (str_item v ''kill_switch_id'') (\<lambda>kill_switch.
     DelegatedGrant_init
       \<lparr>dl_grant_id = grant_id, dl_owner_id = owner_id, dl_repository_root = repository_root,
        dl_branch = branch, dl_starts_at = starts_at, dl_expires_at = expires_at,
        dl_allowed_operations = operations, dl_allowed_paths = paths,
        dl_allowed_source_scopes = scopes, dl_provider = provider, dl_model = model,
        dl_disclosure_policy = disclosure, dl_allowed_categories = categories,
        dl_credential_mechanisms = mechanisms, dl_security_domain = domain,
        dl_classification_scheme = scheme, dl_classification_level = level,
        dl_max_requests_per_day = requests, dl_max_successes_per_day = successes,
        dl_max_retries_per_day = retries, dl_max_daily_spend_aud = daily,
        dl_max_monthly_spend_aud = monthly, dl_max_output_tokens = tokens,
        dl_kill_switch_id = kill_switch\<rparr>))))))))))))))))))))))))"

section \<open>Approvals, requests and claims\<close>

record OwnerDelegationApproval =
  oa_owner_id :: string
  oa_grant_id :: string
  oa_grant_hash :: string
  oa_approved_at :: datetime
  oa_expires_at :: datetime

record DelegatedOperationRequest =
  dq_operation_id :: string
  dq_grant_id :: string
  dq_owner_id :: string
  dq_operation :: string
  dq_repository_root :: string
  dq_branch :: string
  dq_requested_at :: datetime
  dq_paths :: "string list"
  dq_source_scopes :: "string list"
  dq_provider :: string
  dq_model :: string
  dq_disclosure_policy :: string
  dq_categories :: "string list"
  dq_credential_mechanism :: string
  dq_security_domain :: string
  dq_classification_scheme :: string
  dq_classification_level :: string
  dq_max_requests_per_day :: int
  dq_max_successes_per_day :: int
  dq_max_retries_per_day :: int
  dq_max_daily_spend_aud :: rat
  dq_max_monthly_spend_aud :: rat
  dq_max_output_tokens :: int
  dq_preflight_hash :: string
  dq_underlying_controls_verified :: bool
  dq_validation_passed :: bool
  dq_exact_upstream :: bool

record DelegatedClaim =
  dm_grant_id :: string
  dm_operation_id :: string
  dm_operation :: string
  dm_claimed_at :: datetime

record DelegatedClaimRecord =
  dn_claim :: DelegatedClaim
  dn_state :: string
  dn_completed_at :: "datetime option"

section \<open>Grants that load\<close>

definition DelegatedGrant_wf :: "DelegatedGrant \<Rightarrow> bool" where
  "DelegatedGrant_wf g = (returns (DelegatedGrant_init g) \<and> dt_ok (dl_starts_at g) \<and>
     dt_ok (dl_expires_at g))"

definition DelegatedGrant_norm :: "DelegatedGrant \<Rightarrow> DelegatedGrant" where
  "DelegatedGrant_norm g = g\<lparr>dl_starts_at := to_utc (dl_starts_at g),
     dl_expires_at := to_utc (dl_expires_at g)\<rparr>"

lemma utc_text_to_utc [simp]: "utc_text (to_utc d) = utc_text d"
  by (simp add: utc_text_def)

lemma fromisoformat_utc_text [simp]:
  "dt_ok d \<Longrightarrow> \<not> tzinfo_None d \<Longrightarrow> fromisoformat (utc_text d) = Inr (to_utc d)"
  by (simp add: utc_text_def stamp_def)

lemma DelegatedGrant_init_norm:
  "returns (DelegatedGrant_init (DelegatedGrant_norm g)) = returns (DelegatedGrant_init g)"
  by (simp add: DelegatedGrant_init_def DelegatedGrant_norm_def check_simps)

lemma DelegatedGrant_aware:
  "returns (DelegatedGrant_init g) \<Longrightarrow> \<not> tzinfo_None (dl_starts_at g) \<and> \<not> tzinfo_None (dl_expires_at g)"
  by (simp add: DelegatedGrant_init_def check_simps)

lemma DelegatedGrant_init_returns:
  "returns (DelegatedGrant_init g) \<longleftrightarrow> DelegatedGrant_init g = Inr g"
  by (simp add: DelegatedGrant_init_def check_simps)

lemma grant_strings_strs [simp]:
  "grant_strings ((key, strs xs) # v) key = Inr xs"
  "key' \<noteq> key \<Longrightarrow> grant_strings ((key', d) # v) key = grant_strings v key"
  by (simp_all add: grant_strings_def)

interpretation grant_codec: codec canonical_payload grant_of DelegatedGrant_wf DelegatedGrant_norm
proof
  fix g :: DelegatedGrant
  assume wf: "DelegatedGrant_wf g"
  then have init: "DelegatedGrant_init (DelegatedGrant_norm g) = Inr (DelegatedGrant_norm g)"
    using DelegatedGrant_init_norm [of g]
    by (simp add: DelegatedGrant_wf_def DelegatedGrant_init_returns)
  have "\<not> tzinfo_None (dl_starts_at g)" "\<not> tzinfo_None (dl_expires_at g)" "dt_ok (dl_starts_at g)"
    "dt_ok (dl_expires_at g)"
    using wf DelegatedGrant_aware by (auto simp: DelegatedGrant_wf_def)
  then show "grant_of (canonical_payload g) = Inr (DelegatedGrant_norm g)"
    using init
    by (cases g) (simp add: grant_of_def canonical_payload_def DelegatedGrant_norm_def)
  show "DelegatedGrant_wf (DelegatedGrant_norm g)"
    using wf DelegatedGrant_init_norm [of g] by (simp add: DelegatedGrant_wf_def)
      (simp add: DelegatedGrant_norm_def)
  show "canonical_payload (DelegatedGrant_norm g) = canonical_payload g"
    by (simp add: canonical_payload_def DelegatedGrant_norm_def)
qed

lemma integrity_hash_norm: "integrity_hash (DelegatedGrant_norm g) = integrity_hash g"
  by (simp add: integrity_hash_def canonical_payload_def DelegatedGrant_norm_def)

end
