(* ===== verification/DelegationStore.thy ===== *)
theory DelegationStore
  imports DelegationModels
begin

text \<open>
  \<open>DelegatedAuthorityStore\<close> of \<open>src/edn/development/delegation.py\<close>: the tables of the SQLite
  file as lists of rows, and every method as a state transformer. A transaction that raises is
  rolled back, except that \<open>claim\<close> commits the audit event of a denial before it raises. A
  payload column holds either the canonical text of a JSON document or a text that is the
  canonical text of none; both may be what an intruder wrote. The checks of the file's owner,
  mode and location and the creation of the tables are outside the model.
\<close>

section \<open>Tables\<close>

datatype payload_text = PDoc json | PText string

fun payload_string :: "payload_text \<Rightarrow> string" where
  "payload_string (PDoc v) = canonical_json v"
| "payload_string (PText s) = s"

record GrantRow =
  gw_grant_id :: string
  gw_payload :: payload_text
  gw_integrity_hash :: string
  gw_state :: string
  gw_created_at :: string
  gw_terminal_at :: "string option"

record ClaimRow =
  cw_operation_id :: string
  cw_grant_id :: string
  cw_operation :: string
  cw_state :: string
  cw_claimed_at :: string
  cw_completed_at :: "string option"
  cw_integrity_hash :: "string option"

record AuditRow =
  aw_sequence :: int
  aw_grant_id :: string
  aw_event_type :: string
  aw_reason :: string
  aw_timestamp :: string
  aw_previous_hash :: string
  aw_event_hash :: string

record DelegationDB =
  db_grants :: "GrantRow list"
  db_claims :: "ClaimRow list"
  db_audit :: "AuditRow list"

section \<open>Helpers\<close>

definition delegation_time :: "datetime \<Rightarrow> string result" where
  \<comment> \<open>\<open>_time\<close>\<close>
  "delegation_time d = (if tzinfo_None d
     then Inl (DelegationError ''delegated timestamp must be timezone-aware'') else Inr (utc_text d))"

definition claim_hash ::
  "string \<Rightarrow> string \<Rightarrow> string \<Rightarrow> string \<Rightarrow> string \<Rightarrow> string option \<Rightarrow> string" where
  "claim_hash operation_id grant_id operation state claimed_at completed_at = canonical_hash
     [(''operation_id'', JStr operation_id), (''grant_id'', JStr grant_id),
      (''operation'', JStr operation), (''state'', JStr state),
      (''claimed_at'', JStr claimed_at), (''completed_at'', opt JStr completed_at)]"

definition verify_claim :: "ClaimRow \<Rightarrow> unit result" where
  \<comment> \<open>\<open>_verify_claim_integrity\<close> of a row\<close>
  "verify_claim row =
     (if cw_integrity_hash row = Some (claim_hash (cw_operation_id row) (cw_grant_id row)
           (cw_operation row) (cw_state row) (cw_claimed_at row) (cw_completed_at row))
      then Inr () else Inl (DelegationError ''delegated claim integrity failure''))"

definition in_window :: "DelegatedGrant \<Rightarrow> datetime \<Rightarrow> bool result" where
  \<comment> \<open>\<open>grant.starts_at <= now < grant.expires_at\<close> for the aware bounds of a grant\<close>
  "in_window g now = (if tzinfo_None now
     then Inl (TypeError ''can't compare offset-naive and offset-aware datetimes'')
     else Inr (instant (dl_starts_at g) \<le> instant now \<and> instant now < instant (dl_expires_at g)))"

definition find_grant :: "string \<Rightarrow> DelegationDB \<Rightarrow> GrantRow option" where
  "find_grant i s = find (\<lambda>r. gw_grant_id r = i) (db_grants s)"

definition find_claim :: "string \<Rightarrow> DelegationDB \<Rightarrow> ClaimRow option" where
  "find_claim i s = find (\<lambda>r. cw_operation_id r = i) (db_claims s)"

definition load_grant :: "string \<Rightarrow> DelegationDB \<Rightarrow> (DelegatedGrant \<times> string) result" where
  \<comment> \<open>\<open>_load\<close>\<close>
  "load_grant grant_id s = (case find_grant grant_id s of
       None \<Rightarrow> Inl (DelegationError ''delegated grant is unavailable'')
     | Some row \<Rightarrow>
       if sha_text (payload_string (gw_payload row)) \<noteq> gw_integrity_hash row
       then Inl (DelegationError ''delegated grant integrity failure'')
       else (case (case gw_payload row of PDoc (JObj v) \<Rightarrow> grant_of v
               | _ \<Rightarrow> Inl (ValueError [])) of
           Inl _ \<Rightarrow> Inl (DelegationError ''delegated grant is corrupt'')
         | Inr g \<Rightarrow> if integrity_hash g \<noteq> gw_integrity_hash row
             then Inl (DelegationError ''delegated grant binding failure'')
             else Inr (g, gw_state row)))"

section \<open>The audit chain\<close>

definition event_fields ::
  "int \<Rightarrow> string \<Rightarrow> string \<Rightarrow> string \<Rightarrow> string \<Rightarrow> string \<Rightarrow> jobj" where
  \<comment> \<open>the dictionary an event hash covers\<close>
  "event_fields sequence grant_id event_type reason timestamp previous_hash =
     [(''sequence'', JInt sequence), (''grant_id'', JStr grant_id),
      (''event_type'', JStr event_type), (''reason'', JStr reason),
      (''timestamp'', JStr timestamp), (''previous_hash'', JStr previous_hash)]"

definition event_hash ::
  "int \<Rightarrow> string \<Rightarrow> string \<Rightarrow> string \<Rightarrow> string \<Rightarrow> string \<Rightarrow> string" where
  "event_hash sequence grant_id event_type reason timestamp previous_hash =
     canonical_hash (event_fields sequence grant_id event_type reason timestamp previous_hash)"

definition grant_events :: "string \<Rightarrow> DelegationDB \<Rightarrow> AuditRow list" where
  "grant_events grant_id s =
     sort_key aw_sequence (filter (\<lambda>r. aw_grant_id r = grant_id) (db_audit s))"

definition next_sequence :: "DelegationDB \<Rightarrow> int" where
  \<comment> \<open>\<open>COALESCE(MAX(sequence),0)+1\<close>\<close>
  "next_sequence s = (case map aw_sequence (db_audit s) of [] \<Rightarrow> 0 | n # ns \<Rightarrow> fold max ns n) + 1"

definition latest_hash :: "string \<Rightarrow> AuditRow list \<Rightarrow> string" where
  "latest_hash previous rs = (case rev rs of [] \<Rightarrow> previous | r # _ \<Rightarrow> aw_event_hash r)"

definition chained_row ::
  "string \<Rightarrow> string \<Rightarrow> string \<Rightarrow> string \<Rightarrow> DelegationDB \<Rightarrow> AuditRow" where
  "chained_row grant_id event_type reason timestamp s =
     (let previous = latest_hash [] (grant_events grant_id s) in
      \<lparr>aw_sequence = next_sequence s, aw_grant_id = grant_id, aw_event_type = event_type,
       aw_reason = reason, aw_timestamp = timestamp, aw_previous_hash = previous,
       aw_event_hash = event_hash (next_sequence s) grant_id event_type reason timestamp previous\<rparr>)"

definition delegation_audit ::
  "string \<Rightarrow> string \<Rightarrow> datetime \<Rightarrow> string \<Rightarrow> (DelegationDB, unit) stm" where
  "delegation_audit grant_id event_type now reason s = (case delegation_time now of
       Inl e \<Rightarrow> (Inl e, s)
     | Inr timestamp \<Rightarrow> (Inr (),
         s\<lparr>db_audit := db_audit s @ [chained_row grant_id event_type reason timestamp s]\<rparr>))"

fun verify_events :: "string \<Rightarrow> string \<Rightarrow> AuditRow list \<Rightarrow> (string \<times> string \<times> string) list result" where
  \<comment> \<open>the loop of \<open>audit_events\<close>; the second argument is the expected previous hash\<close>
  "verify_events grant_id previous [] = Inr []"
| "verify_events grant_id previous (r # rs) =
     (let expected = event_hash (aw_sequence r) grant_id (aw_event_type r) (aw_reason r)
            (aw_timestamp r) (aw_previous_hash r)
      in if aw_previous_hash r \<noteq> previous \<or> aw_event_hash r \<noteq> expected
         then Inl (DelegationError ''delegated audit integrity failure'')
         else rbind (verify_events grant_id expected rs) (\<lambda>events.
           Inr ((aw_event_type r, aw_reason r, aw_timestamp r) # events)))"

definition audit_events :: "string \<Rightarrow> (DelegationDB, (string \<times> string \<times> string) list) stm" where
  "audit_events grant_id s = (verify_events grant_id [] (grant_events grant_id s), s)"

section \<open>Granting\<close>

definition approval_invalid ::
  "DelegatedGrant \<Rightarrow> OwnerDelegationApproval \<Rightarrow> datetime \<Rightarrow> bool" where
  "approval_invalid g a now = (tzinfo_None now \<or> tzinfo_None (oa_approved_at a) \<or>
     tzinfo_None (oa_expires_at a) \<or> oa_owner_id a \<noteq> dl_owner_id g \<or>
     oa_grant_id a \<noteq> dl_grant_id g \<or> oa_grant_hash a \<noteq> integrity_hash g \<or>
     \<not> dt_eq (oa_expires_at a) (dl_expires_at g) \<or>
     \<not> (instant (oa_approved_at a) \<le> instant now \<and> instant now < instant (dl_expires_at g)))"

definition activate ::
  "DelegatedGrant \<Rightarrow> OwnerDelegationApproval \<Rightarrow> datetime \<Rightarrow> (DelegationDB, string) stm" where
  "activate g a now =
     (if approval_invalid g a now
      then throw (DelegationError ''owner delegation approval is invalid'')
      else transaction (
        sbind (lift (delegation_time now)) (\<lambda>created_at.
        sbind (\<lambda>s. if find_grant (dl_grant_id g) s \<noteq> None
          then (Inl (DelegationError ''delegated grant replay is denied''), s)
          else (Inr (), s\<lparr>db_grants := db_grants s @
            [\<lparr>gw_grant_id = dl_grant_id g, gw_payload = PDoc (JObj (canonical_payload g)),
              gw_integrity_hash = integrity_hash g, gw_state = ''active'',
              gw_created_at = created_at, gw_terminal_at = None\<rparr>]\<rparr>)) (\<lambda>_.
        sbind (delegation_audit (dl_grant_id g) ''grant_activated'' now '''') (\<lambda>_.
        ret (integrity_hash g))))))"

section \<open>Claiming\<close>

definition pa009_matches :: "DelegatedGrant \<Rightarrow> DelegatedOperationRequest \<Rightarrow> bool" where
  "pa009_matches g q =
     (dq_provider q = dl_provider g \<and> dq_model q = dl_model g \<and>
      dq_disclosure_policy q = dl_disclosure_policy g \<and>
      set (dq_categories q) \<subseteq> set (dl_allowed_categories g) \<and>
      dq_credential_mechanism q \<in> set (dl_credential_mechanisms g) \<and>
      dq_security_domain q = dl_security_domain g \<and>
      dq_classification_scheme q = dl_classification_scheme g \<and>
      dq_classification_level q = dl_classification_level g \<and>
      dq_max_requests_per_day q = dl_max_requests_per_day g \<and>
      dq_max_successes_per_day q = dl_max_successes_per_day g \<and>
      dq_max_retries_per_day q = dl_max_retries_per_day g \<and>
      dq_max_daily_spend_aud q = dl_max_daily_spend_aud g \<and>
      dq_max_monthly_spend_aud q = dl_max_monthly_spend_aud g \<and>
      dq_max_output_tokens q = dl_max_output_tokens g \<and>
      dq_underlying_controls_verified q)"

definition path_drifts :: "(path \<Rightarrow> bool) \<Rightarrow> DelegatedGrant \<Rightarrow> string \<Rightarrow> bool" where
  "path_drifts is_symlink g p =
     (\<not> list_ex (\<lambda>allowed. is_within (path_of p) (path_of allowed)) (dl_allowed_paths g) \<or>
      has_symlink_component is_symlink (path_of p) (path_of (dl_repository_root g)))"

definition denial_reason ::
  "(path \<Rightarrow> bool) \<Rightarrow> DelegatedGrant \<Rightarrow> string \<Rightarrow> DelegatedOperationRequest \<Rightarrow> string option" where
  "denial_reason is_symlink g state q =
     (if tzinfo_None (dq_requested_at q) then Some ''delegated operation time is invalid''
      else if state \<noteq> ''active'' then Some ''delegated grant is not active''
      else if in_window g (dq_requested_at q) \<noteq> Inr True
        then Some ''delegated grant is not within its active window''
      else if dq_owner_id q \<noteq> dl_owner_id g then Some ''delegated owner identity mismatch''
      else if dq_operation q \<in> set PROHIBITED_DELEGATED_OPERATIONS
        then Some ''operation is permanently prohibited''
      else if dq_operation q \<notin> set (dl_allowed_operations g)
        then Some ''operation is outside delegated scope''
      else if dq_repository_root q \<noteq> dl_repository_root g \<or> dq_branch q \<noteq> dl_branch g \<or>
          dq_branch q \<in> {''main'', ''master''} \<or>
          prefix ''protected/'' (dq_branch q) \<or> prefix ''release/'' (dq_branch q)
        then Some ''repository or branch drift''
      else if list_ex (path_drifts is_symlink g) (dq_paths q)
        then Some ''delegated path scope drift''
      else if \<not> set (dq_source_scopes q) \<subseteq> set (dl_allowed_source_scopes g)
        then Some ''delegated source scope drift''
      else if dq_operation q \<in> set PATH_OPERATIONS \<and> dq_paths q = []
        then Some ''delegated repository path is missing''
      else if dq_operation q \<in> set PA005_OPERATIONS \<and>
          (dq_source_scopes q = [] \<or> \<not> dq_underlying_controls_verified q)
        then Some ''delegated PA-005 controls missing''
      else if dq_operation q \<in> set GIT_OPERATIONS \<and>
          \<not> (dq_validation_passed q \<and> dq_exact_upstream q)
        then Some ''delegated Git preconditions failed''
      else if dq_operation q \<in> set PA009_OPERATIONS then
        (if \<not> pa009_matches g q then Some ''delegated PA-009 boundary drift''
         else if dq_operation q = DelegatedOperation_value PA009_DISPATCH \<and>
             (dq_preflight_hash q = [] \<or> \<not> dq_underlying_controls_verified q)
           then Some ''delegated PA-009 dispatch controls missing''
         else None)
      else None)"

definition new_claim_row :: "DelegatedOperationRequest \<Rightarrow> string \<Rightarrow> ClaimRow" where
  "new_claim_row q claimed_at =
     \<lparr>cw_operation_id = dq_operation_id q, cw_grant_id = dq_grant_id q,
      cw_operation = dq_operation q, cw_state = ''claimed'', cw_claimed_at = claimed_at,
      cw_completed_at = None,
      cw_integrity_hash = Some (claim_hash (dq_operation_id q) (dq_grant_id q) (dq_operation q)
        ''claimed'' claimed_at None)\<rparr>"

definition claim ::
  "(path \<Rightarrow> bool) \<Rightarrow> DelegatedOperationRequest \<Rightarrow> (DelegationDB, DelegatedClaim) stm" where
  "claim is_symlink q s = (case load_grant (dq_grant_id q) s of
       Inl e \<Rightarrow> (Inl e, s)
     | Inr (g, state) \<Rightarrow> (case denial_reason is_symlink g state q of
         Some reason \<Rightarrow>
           (case delegation_audit (dq_grant_id q) ''operation_denied'' (dq_requested_at q) reason s of
              (Inl e, _) \<Rightarrow> (Inl e, s)
            | (Inr _, s') \<Rightarrow> (Inl (DelegationError reason), s'))
       | None \<Rightarrow> transaction (
           sbind (lift (delegation_time (dq_requested_at q))) (\<lambda>claimed_at.
           sbind (\<lambda>s. if find_claim (dq_operation_id q) s \<noteq> None
             then (Inl (DelegationError ''delegated operation replay is denied''), s)
             else (Inr (), s\<lparr>db_claims := db_claims s @ [new_claim_row q claimed_at]\<rparr>)) (\<lambda>_.
           sbind (delegation_audit (dq_grant_id q) ''operation_claimed'' (dq_requested_at q)
             (dq_operation q)) (\<lambda>_.
           ret \<lparr>dm_grant_id = dq_grant_id q, dm_operation_id = dq_operation_id q,
             dm_operation = dq_operation q, dm_claimed_at = dq_requested_at q\<rparr>)))) s))"

section \<open>Completing, checking and reading a claim\<close>

definition grant_claim :: "DelegatedClaim \<Rightarrow> DelegationDB \<Rightarrow> ClaimRow option" where
  \<comment> \<open>\<open>SELECT ... FROM claims WHERE operation_id=? AND grant_id=?\<close>\<close>
  "grant_claim c s = find (\<lambda>r. cw_operation_id r = dm_operation_id c \<and>
     cw_grant_id r = dm_grant_id c) (db_claims s)"

definition completed_row :: "DelegatedClaim \<Rightarrow> string \<Rightarrow> string \<Rightarrow> ClaimRow \<Rightarrow> ClaimRow" where
  "completed_row c claimed_at completed_at r = r
     \<lparr>cw_state := ''completed'', cw_completed_at := Some completed_at,
      cw_integrity_hash := Some (claim_hash (dm_operation_id c) (dm_grant_id c) (dm_operation c)
        ''completed'' claimed_at (Some completed_at))\<rparr>"

definition updates :: "DelegatedClaim \<Rightarrow> ClaimRow \<Rightarrow> bool" where
  \<comment> \<open>the \<open>WHERE\<close> clause of the update in \<open>complete\<close>\<close>
  "updates c r = (cw_operation_id r = dm_operation_id c \<and> cw_grant_id r = dm_grant_id c \<and>
     cw_operation r = dm_operation c \<and> cw_state r = ''claimed'')"

definition complete :: "DelegatedClaim \<Rightarrow> datetime \<Rightarrow> (DelegationDB, unit) stm" where
  "complete c now = transaction (
     sbind (\<lambda>s. (load_grant (dm_grant_id c) s, s)) (\<lambda>(g, state).
     sbind (lift (if state \<noteq> ''active'' then Inr False else in_window g now)) (\<lambda>executable.
     if \<not> executable then throw (DelegationError ''delegated claim is no longer executable'')
     else sbind (\<lambda>s. case grant_claim c s of
         None \<Rightarrow> (Inl (DelegationError ''delegated claim is missing or terminal''), s)
       | Some row \<Rightarrow> (verify_claim row, s)) (\<lambda>_.
     sbind (lift (delegation_time now)) (\<lambda>completed_at.
     sbind (lift (delegation_time (dm_claimed_at c))) (\<lambda>claimed_at.
     sbind (\<lambda>s. if length (filter (updates c) (db_claims s)) \<noteq> 1
         then (Inl (DelegationError ''delegated claim is missing or terminal''), s)
         else (Inr (), s\<lparr>db_claims := map (\<lambda>r. if updates c r
           then completed_row c claimed_at completed_at r else r) (db_claims s)\<rparr>)) (\<lambda>_.
     delegation_audit (dm_grant_id c) ''operation_completed'' now (dm_operation c))))))))"

definition validate_claim :: "DelegatedClaim \<Rightarrow> datetime \<Rightarrow> (DelegationDB, unit) stm" where
  "validate_claim c now s =
     (rbind (load_grant (dm_grant_id c) s) (\<lambda>(g, state).
      rbind (case grant_claim c s of None \<Rightarrow> Inr () | Some row \<Rightarrow> verify_claim row) (\<lambda>_.
      rbind (if state \<noteq> ''active'' then Inr False else in_window g now) (\<lambda>executable.
      case grant_claim c s of
        None \<Rightarrow> Inl (DelegationError ''delegated claim is no longer executable'')
      | Some row \<Rightarrow>
        if \<not> executable \<or> cw_operation row \<noteq> dm_operation c \<or> cw_state row \<noteq> ''claimed''
        then Inl (DelegationError ''delegated claim is no longer executable'') else Inr ()))), s)"

definition read_claim_times :: "ClaimRow \<Rightarrow> (datetime \<times> datetime option) result" where
  \<comment> \<open>the timestamps of a row, every \<open>ValueError\<close> turned into a corrupt timestamp\<close>
  "read_claim_times row =
     (case rbind (fromisoformat (cw_claimed_at row)) (\<lambda>claimed.
        case cw_completed_at row of
          None \<Rightarrow> Inr (claimed, None)
        | Some t \<Rightarrow> rbind (fromisoformat t) (\<lambda>completed. Inr (claimed, Some completed))) of
        Inl _ \<Rightarrow> Inl (DelegationError ''delegated claim timestamp is corrupt'') | Inr x \<Rightarrow> Inr x)"

definition claim_record :: "string \<Rightarrow> (DelegationDB, DelegatedClaimRecord) stm" where
  "claim_record operation_id s = ((case find_claim operation_id s of
       None \<Rightarrow> Inl (DelegationError ''delegated claim is unavailable'')
     | Some row \<Rightarrow>
       rbind (verify_claim row) (\<lambda>_.
       if cw_state row \<notin> {''claimed'', ''completed''}
       then Inl (DelegationError ''delegated claim state is corrupt'')
       else rbind (read_claim_times row) (\<lambda>(claimed, completed).
       if tzinfo_None claimed \<or> cw_state row = ''claimed'' \<and> completed \<noteq> None \<or>
          cw_state row = ''completed'' \<and>
            (case completed of None \<Rightarrow> True | Some d \<Rightarrow> tzinfo_None d)
       then Inl (DelegationError ''delegated claim lifecycle is corrupt'')
       else Inr \<lparr>dn_claim = \<lparr>dm_grant_id = cw_grant_id row, dm_operation_id = operation_id,
           dm_operation = cw_operation row, dm_claimed_at = claimed\<rparr>,
         dn_state = cw_state row, dn_completed_at = completed\<rparr>))), s)"

section \<open>Ending, asking and resolving\<close>

definition terminal :: "string \<Rightarrow> string option \<Rightarrow> datetime \<Rightarrow> string \<Rightarrow> (DelegationDB, unit) stm" where
  "terminal grant_id owner_id now state = transaction (
     sbind (\<lambda>s. (load_grant grant_id s, s)) (\<lambda>(g, current).
     if owner_id \<noteq> None \<and> owner_id \<noteq> Some (dl_owner_id g)
     then throw (DelegationError ''delegated owner identity mismatch'')
     else if current \<noteq> ''active''
     then throw (DelegationError ''delegated grant is already terminal'')
     else sbind (lift (delegation_time now)) (\<lambda>terminal_at.
     sbind (\<lambda>s. (Inr (), s\<lparr>db_grants := map (\<lambda>r. if gw_grant_id r = grant_id
         then r\<lparr>gw_state := state, gw_terminal_at := Some terminal_at\<rparr> else r) (db_grants s)\<rparr>)) (\<lambda>_.
     delegation_audit grant_id (''grant_'' @ state) now ''''))))"

definition revoke :: "string \<Rightarrow> string \<Rightarrow> datetime \<Rightarrow> (DelegationDB, unit) stm" where
  "revoke grant_id owner_id now = terminal grant_id (Some owner_id) now ''revoked''"

definition engage_kill_switch :: "string \<Rightarrow> datetime \<Rightarrow> (DelegationDB, unit) stm" where
  "engage_kill_switch grant_id now = terminal grant_id None now ''killed''"

definition grant_status :: "string \<Rightarrow> datetime \<Rightarrow> (DelegationDB, string) stm" where
  \<comment> \<open>\<open>status\<close>\<close>
  "grant_status grant_id now s = (rbind (load_grant grant_id s) (\<lambda>(g, state).
     if state \<noteq> ''active'' then Inr state
     else rbind (dt_less now (dl_expires_at g)) (\<lambda>before.
       Inr (if before then state else ''expired''))), s)"

definition session_matches ::
  "string \<Rightarrow> string \<Rightarrow> string \<Rightarrow> datetime \<Rightarrow> DelegatedGrant \<times> string \<Rightarrow> bool" where
  "session_matches owner_id repository_root branch now = (\<lambda>(g, state).
     state = ''active'' \<and> in_window g now = Inr True \<and> dl_owner_id g = owner_id \<and>
     dl_repository_root g = repository_root \<and> dl_branch g = branch)"

definition resolve_active ::
  "string \<Rightarrow> string \<Rightarrow> string \<Rightarrow> datetime \<Rightarrow> (DelegationDB, DelegatedGrant) stm" where
  "resolve_active owner_id repository_root branch now s =
     ((if tzinfo_None now then Inl (DelegationError ''delegated resolution time is invalid'')
       else rbind (traverse (\<lambda>i. load_grant i s) (map gw_grant_id (db_grants s))) (\<lambda>loaded.
         case filter (session_matches owner_id repository_root branch now) loaded of
           [] \<Rightarrow> Inl (DelegationError ''no active delegated grant matches this session'')
         | [(g, _)] \<Rightarrow> Inr g
         | _ \<Rightarrow> Inl (DelegationError ''active delegated grant is ambiguous''))), s)"

end
