(* ===== verification/DelegationLedger.thy ===== *)
theory DelegationLedger
  imports DelegationStore
begin

text \<open>
  The invariant of the delegation store over every sequence of calls: unique grants and
  operations, grant states that only leave \<open>active\<close>, and for every grant an audit chain that
  verifies. The effect of each call is stated once, as an explicit update of the tables.
\<close>

section \<open>Effects of the calls\<close>

definition logged :: "string \<Rightarrow> string \<Rightarrow> string \<Rightarrow> datetime \<Rightarrow> DelegationDB \<Rightarrow> DelegationDB" where
  "logged grant_id event_type reason now s =
     s\<lparr>db_audit := db_audit s @ [chained_row grant_id event_type reason (utc_text now) s]\<rparr>"

lemma logged_simps [simp]:
  "db_grants (logged i k rs t s) = db_grants s" "db_claims (logged i k rs t s) = db_claims s"
  "db_audit (logged i k rs t s) = db_audit s @ [chained_row i k rs (utc_text t) s]"
  by (simp_all add: logged_def)

lemma delegation_time_Inr: "delegation_time d = Inr t \<longleftrightarrow> \<not> tzinfo_None d \<and> t = utc_text d"
  by (auto simp: delegation_time_def)

lemma delegation_audit_eq:
  "delegation_audit i k now reason s =
     (if tzinfo_None now then (Inl (DelegationError ''delegated timestamp must be timezone-aware''), s)
      else (Inr (), logged i k reason now s))"
  by (simp add: delegation_audit_def delegation_time_def logged_def)

definition granted :: "DelegatedGrant \<Rightarrow> datetime \<Rightarrow> DelegationDB \<Rightarrow> DelegationDB" where
  "granted g now s = s\<lparr>db_grants := db_grants s @
     [\<lparr>gw_grant_id = dl_grant_id g, gw_payload = PDoc (JObj (canonical_payload g)),
       gw_integrity_hash = integrity_hash g, gw_state = ''active'',
       gw_created_at = utc_text now, gw_terminal_at = None\<rparr>]\<rparr>"

lemma activate_eq:
  "activate g a now s =
     (if approval_invalid g a now then (Inl (DelegationError ''owner delegation approval is invalid''), s)
      else if find_grant (dl_grant_id g) s \<noteq> None
      then (Inl (DelegationError ''delegated grant replay is denied''), s)
      else (Inr (integrity_hash g), logged (dl_grant_id g) ''grant_activated'' [] now (granted g now s)))"
proof (cases "approval_invalid g a now")
  case True
  then show ?thesis by (simp add: activate_def throw_def)
next
  case False
  then have "\<not> tzinfo_None now" by (simp add: approval_invalid_def)
  with False show ?thesis
    by (simp add: activate_def transaction_def sbind_def lift_def delegation_time_def
        delegation_audit_eq ret_def granted_def)
qed

definition claimed :: "DelegatedOperationRequest \<Rightarrow> DelegationDB \<Rightarrow> DelegationDB" where
  "claimed q s = s\<lparr>db_claims := db_claims s @ [new_claim_row q (utc_text (dq_requested_at q))]\<rparr>"

definition claim_of :: "DelegatedOperationRequest \<Rightarrow> DelegatedClaim" where
  "claim_of q = \<lparr>dm_grant_id = dq_grant_id q, dm_operation_id = dq_operation_id q,
     dm_operation = dq_operation q, dm_claimed_at = dq_requested_at q\<rparr>"

lemma denial_None_aware: "denial_reason links g state q = None \<Longrightarrow> \<not> tzinfo_None (dq_requested_at q)"
  by (auto simp: denial_reason_def)

lemma claim_eq:
  "claim links q s = (case load_grant (dq_grant_id q) s of
       Inl e \<Rightarrow> (Inl e, s)
     | Inr (g, state) \<Rightarrow> (case denial_reason links g state q of
         Some reason \<Rightarrow> if tzinfo_None (dq_requested_at q)
           then (Inl (DelegationError ''delegated timestamp must be timezone-aware''), s)
           else (Inl (DelegationError reason),
             logged (dq_grant_id q) ''operation_denied'' reason (dq_requested_at q) s)
       | None \<Rightarrow> if find_claim (dq_operation_id q) s \<noteq> None
           then (Inl (DelegationError ''delegated operation replay is denied''), s)
           else (Inr (claim_of q), logged (dq_grant_id q) ''operation_claimed'' (dq_operation q)
             (dq_requested_at q) (claimed q s))))"
  by (auto simp: claim_def delegation_audit_eq transaction_def sbind_def lift_def delegation_time_def
      ret_def claimed_def claim_of_def split: sum.splits option.splits prod.splits
      dest: denial_None_aware)

definition ended :: "string \<Rightarrow> datetime \<Rightarrow> string \<Rightarrow> DelegationDB \<Rightarrow> DelegationDB" where
  "ended grant_id now state s = s\<lparr>db_grants := map (\<lambda>r. if gw_grant_id r = grant_id
     then r\<lparr>gw_state := state, gw_terminal_at := Some (utc_text now)\<rparr> else r) (db_grants s)\<rparr>"

lemma terminal_eq:
  "terminal i owner now state s = (case load_grant i s of
       Inl e \<Rightarrow> (Inl e, s)
     | Inr (g, current) \<Rightarrow>
       if owner \<noteq> None \<and> owner \<noteq> Some (dl_owner_id g)
       then (Inl (DelegationError ''delegated owner identity mismatch''), s)
       else if current \<noteq> ''active'' then (Inl (DelegationError ''delegated grant is already terminal''), s)
       else if tzinfo_None now
       then (Inl (DelegationError ''delegated timestamp must be timezone-aware''), s)
       else (Inr (), logged i (''grant_'' @ state) [] now (ended i now state s)))"
  by (auto simp: terminal_def transaction_def sbind_def lift_def throw_def delegation_time_def
      delegation_audit_eq ended_def split: sum.splits prod.splits)

definition finished :: "DelegatedClaim \<Rightarrow> datetime \<Rightarrow> DelegationDB \<Rightarrow> DelegationDB" where
  "finished c now s = s\<lparr>db_claims := map (\<lambda>r. if updates c r
     then completed_row c (utc_text (dm_claimed_at c)) (utc_text now) r else r) (db_claims s)\<rparr>"

definition completable :: "DelegatedClaim \<Rightarrow> datetime \<Rightarrow> DelegationDB \<Rightarrow> bool" where
  "completable c now s \<longleftrightarrow> (\<exists>g row. load_grant (dm_grant_id c) s = Inr (g, ''active'') \<and>
     in_window g now = Inr True \<and> grant_claim c s = Some row \<and> verify_claim row = Inr () \<and>
     \<not> tzinfo_None (dm_claimed_at c) \<and> length (filter (updates c) (db_claims s)) = 1)"

lemma in_window_aware: "in_window g now = Inr b \<Longrightarrow> \<not> tzinfo_None now"
  by (auto simp: in_window_def split: if_splits)

lemma complete_Inr:
  "complete c now s = (Inr (), s') \<longleftrightarrow> completable c now s \<and>
     s' = logged (dm_grant_id c) ''operation_completed'' (dm_operation c) now (finished c now s)"
proof
  assume "complete c now s = (Inr (), s')"
  then show "completable c now s \<and>
     s' = logged (dm_grant_id c) ''operation_completed'' (dm_operation c) now (finished c now s)"
    unfolding complete_def transaction_Inr_iff sbind_Inr_iff
    by (auto simp: lift_iff throw_iff stm_iffs delegation_time_Inr delegation_audit_eq
        completable_def finished_def split: if_splits option.splits)
next
  assume "completable c now s \<and>
     s' = logged (dm_grant_id c) ''operation_completed'' (dm_operation c) now (finished c now s)"
  then show "complete c now s = (Inr (), s')"
    unfolding complete_def transaction_Inr_iff completable_def
    by (auto simp: sbind_def lift_def delegation_time_def delegation_audit_eq finished_def
        dest: in_window_aware)
qed

lemma complete_Inl: "complete c now s = (Inl e, s') \<Longrightarrow> s' = s"
  unfolding complete_def by (rule transaction_Inl)

section \<open>The invariant\<close>

definition chain_ok :: "string \<Rightarrow> DelegationDB \<Rightarrow> bool" where
  "chain_ok i s = returns (verify_events i [] (grant_events i s))"

definition numbered :: "AuditRow list \<Rightarrow> bool" where
  "numbered rs = (map aw_sequence rs = map int [1..<Suc (length rs)])"

definition ledger_ok :: "DelegationDB \<Rightarrow> bool" where
  "ledger_ok s = (distinct (map gw_grant_id (db_grants s)) \<and>
     distinct (map cw_operation_id (db_claims s)) \<and> numbered (db_audit s) \<and>
     (\<forall>i. chain_ok i s))"

lemma numbered_Nil [simp]: "numbered []"
  by (simp add: numbered_def)

lemma numbered_snoc: "numbered (rs @ [r]) \<longleftrightarrow> numbered rs \<and> aw_sequence r = int (length rs) + 1"
  by (auto simp: numbered_def)

lemma numbered_sorted: "numbered rs \<Longrightarrow> sorted (map aw_sequence rs)"
  unfolding numbered_def by (simp add: sorted_map del: upt_Suc)

lemma next_sequence_numbered:
  assumes "numbered (db_audit s)"
  shows "next_sequence s = int (length (db_audit s)) + 1"
proof (cases "map aw_sequence (db_audit s)")
  case Nil
  then show ?thesis by (simp add: next_sequence_def)
next
  case (Cons n ns)
  have "fold max ns n = Max (set (map aw_sequence (db_audit s)))"
    using Cons by (simp only: Max.set_eq_fold)
  also have "\<dots> = Max (int ` {1..length (db_audit s)})"
    using assms by (simp add: numbered_def atLeastLessThanSuc_atLeastAtMost del: upt_Suc)
  also have "\<dots> = int (length (db_audit s))"
    using Cons by (intro Max_eqI) auto
  finally show ?thesis using Cons by (simp add: next_sequence_def)
qed

lemma grant_events_numbered:
  assumes "numbered (db_audit s)"
  shows "grant_events i s = filter (\<lambda>r. aw_grant_id r = i) (db_audit s)"
  unfolding grant_events_def
  by (rule sort_key_id_if_sorted) (rule sorted_filter [OF numbered_sorted [OF assms]])

lemma verify_snoc:
  "verify_events i p (rs @ [r]) = rbind (verify_events i p rs) (\<lambda>evs.
     if aw_previous_hash r \<noteq> latest_hash p rs \<or>
        aw_event_hash r \<noteq> event_hash (aw_sequence r) i (aw_event_type r) (aw_reason r)
          (aw_timestamp r) (aw_previous_hash r)
     then Inl (DelegationError ''delegated audit integrity failure'')
     else Inr (evs @ [(aw_event_type r, aw_reason r, aw_timestamp r)]))"
proof (induction rs arbitrary: p)
  case Nil
  then show ?case by (simp add: latest_hash_def)
next
  case (Cons x rs)
  have last: "latest_hash p (x # rs) = latest_hash (aw_event_hash x) rs"
    by (cases rs rule: rev_cases) (simp_all add: latest_hash_def)
  show ?case
  proof (cases "aw_previous_hash x \<noteq> p \<or> aw_event_hash x \<noteq> event_hash (aw_sequence x) i
      (aw_event_type x) (aw_reason x) (aw_timestamp x) (aw_previous_hash x)")
    case True
    then show ?thesis by (auto simp: Let_def)
  next
    case False
    then show ?thesis
      by (cases "verify_events i (aw_event_hash x) rs")
        (simp_all add: Let_def Cons.IH last [unfolded append_Cons])
  qed
qed

lemma event_row_simps [simp]:
  "aw_grant_id (chained_row i k rs t s) = i" "aw_event_type (chained_row i k rs t s) = k"
  "aw_reason (chained_row i k rs t s) = rs" "aw_timestamp (chained_row i k rs t s) = t"
  "aw_sequence (chained_row i k rs t s) = next_sequence s"
  by (simp_all add: chained_row_def Let_def)

definition events_of :: "string \<Rightarrow> DelegationDB \<Rightarrow> (string \<times> string \<times> string) list" where
  "events_of i s = map (\<lambda>r. (aw_event_type r, aw_reason r, aw_timestamp r))
     (filter (\<lambda>r. aw_grant_id r = i) (db_audit s))"

lemma verify_events_Inr:
  "verify_events i p rs = Inr evs \<Longrightarrow>
     evs = map (\<lambda>r. (aw_event_type r, aw_reason r, aw_timestamp r)) rs"
  by (induction i p rs arbitrary: evs rule: verify_events.induct)
    (auto simp: Let_def rbind_Inr_iff split: if_splits)

lemma audit_events_ledger:
  assumes "ledger_ok s"
  shows "audit_events i s = (Inr (events_of i s), s)"
proof -
  have "numbered (db_audit s)" and "chain_ok i s" using assms by (simp_all add: ledger_ok_def)
  then obtain evs where "verify_events i [] (grant_events i s) = Inr evs"
    by (auto simp: chain_ok_def returns_def split: sum.splits)
  with verify_events_Inr [OF this] grant_events_numbered [OF \<open>numbered _\<close>, of i] show ?thesis
    by (simp add: audit_events_def events_of_def)
qed

text \<open>Changing the grants and claims and recording one event keeps the audit part.\<close>

lemma ledger_logged:
  assumes ok: "ledger_ok s" and same: "db_audit u = db_audit s"
    and grants: "distinct (map gw_grant_id (db_grants u))"
    and claims: "distinct (map cw_operation_id (db_claims u))"
  shows "ledger_ok (logged i k rs now u)"
proof -
  let ?r = "chained_row i k rs (utc_text now) u"
  have num: "numbered (db_audit u)" using ok same by (simp add: ledger_ok_def)
  have num': "numbered (db_audit (logged i k rs now u))"
    by (simp add: numbered_snoc num next_sequence_numbered [OF num])
  have "chain_ok j (logged i k rs now u)" for j
  proof -
    have old: "returns (verify_events j [] (grant_events j u))"
      using ok same by (simp add: ledger_ok_def chain_ok_def grant_events_def)
    then obtain evs where evs: "verify_events j [] (grant_events j u) = Inr evs"
      by (auto simp: returns_def split: sum.splits)
    have "grant_events j (logged i k rs now u) =
        (if i = j then grant_events j u @ [?r] else grant_events j u)"
      unfolding grant_events_numbered [OF num'] grant_events_numbered [OF num] by simp
    then show ?thesis
      using evs by (simp add: chain_ok_def verify_snoc) (simp add: chained_row_def Let_def)
  qed
  with num' grants claims show ?thesis by (simp add: ledger_ok_def)
qed

lemma find_grant_None: "find_grant i s = None \<longleftrightarrow> i \<notin> gw_grant_id ` set (db_grants s)"
  by (auto simp: find_grant_def find_None_iff)

lemma find_claim_None: "find_claim i s = None \<longleftrightarrow> i \<notin> cw_operation_id ` set (db_claims s)"
  by (auto simp: find_claim_def find_None_iff)

lemma ended_simps [simp]:
  "map gw_grant_id (db_grants (ended i now state s)) = map gw_grant_id (db_grants s)"
  "db_claims (ended i now state s) = db_claims s" "db_audit (ended i now state s) = db_audit s"
  by (simp_all add: ended_def comp_def if_distrib cong: if_cong)

lemma finished_simps [simp]:
  "map cw_operation_id (db_claims (finished c now s)) = map cw_operation_id (db_claims s)"
  "db_grants (finished c now s) = db_grants s" "db_audit (finished c now s) = db_audit s"
  by (simp_all add: finished_def comp_def completed_row_def if_distrib cong: if_cong)

lemma granted_simps [simp]:
  "map gw_grant_id (db_grants (granted g now s)) = map gw_grant_id (db_grants s) @ [dl_grant_id g]"
  "db_claims (granted g now s) = db_claims s" "db_audit (granted g now s) = db_audit s"
  by (simp_all add: granted_def)

lemma claimed_simps [simp]:
  "map cw_operation_id (db_claims (claimed q s)) =
     map cw_operation_id (db_claims s) @ [dq_operation_id q]"
  "db_grants (claimed q s) = db_grants s" "db_audit (claimed q s) = db_audit s"
  by (simp_all add: claimed_def new_claim_row_def)

lemma ledgerD:
  "ledger_ok s \<Longrightarrow> distinct (map gw_grant_id (db_grants s))"
  "ledger_ok s \<Longrightarrow> distinct (map cw_operation_id (db_claims s))"
  by (simp_all add: ledger_ok_def)

lemma granted_ledger:
  assumes "ledger_ok s" "dl_grant_id g \<notin> gw_grant_id ` set (db_grants s)"
  shows "ledger_ok (logged i k rs t (granted g now s))"
  by (rule ledger_logged [OF assms(1)]) (use assms in \<open>simp_all add: ledgerD\<close>)

lemma claimed_ledger:
  assumes "ledger_ok s" "dq_operation_id q \<notin> cw_operation_id ` set (db_claims s)"
  shows "ledger_ok (logged i k rs t (claimed q s))"
  by (rule ledger_logged [OF assms(1)]) (use assms in \<open>simp_all add: ledgerD\<close>)

lemma other_ledger:
  assumes "ledger_ok s"
  shows "ledger_ok (logged i k rs t s)" "ledger_ok (logged i k rs t (ended j now state s))"
    "ledger_ok (logged i k rs t (finished c now s))"
  by (rule ledger_logged [OF assms]; simp add: ledgerD [OF assms])+

lemma activate_ledger: "ledger_ok s \<Longrightarrow> ledger_ok (snd (activate g a now s))"
  by (simp add: activate_eq find_grant_None granted_ledger)

lemma claim_ledger: "ledger_ok s \<Longrightarrow> ledger_ok (snd (claim links q s))"
  by (simp add: claim_eq find_claim_None claimed_ledger other_ledger
      split: sum.split option.split prod.split)

lemma terminal_ledger: "ledger_ok s \<Longrightarrow> ledger_ok (snd (terminal i owner now state s))"
  by (simp add: terminal_eq other_ledger split: sum.split prod.split)

lemma complete_ledger:
  assumes "ledger_ok s"
  shows "ledger_ok (snd (complete c now s))"
proof (cases "complete c now s")
  case (Pair r s')
  show ?thesis
  proof (cases r)
    case (Inl e)
    with Pair complete_Inl assms show ?thesis by fastforce
  next
    case (Inr x)
    with Pair complete_Inr [of c now s s'] show ?thesis by (auto simp: other_ledger [OF assms])
  qed
qed

section \<open>Sequences of calls\<close>

datatype delegation_call =
    CActivate DelegatedGrant OwnerDelegationApproval datetime
  | CClaim "path \<Rightarrow> bool" DelegatedOperationRequest
  | CComplete DelegatedClaim datetime
  | CRevoke string string datetime
  | CKill string datetime

fun delegation_step :: "delegation_call \<Rightarrow> DelegationDB \<Rightarrow> DelegationDB" where
  \<comment> \<open>the tables after a call of a writing method, whether it returns or raises\<close>
  "delegation_step (CActivate g a now) s = snd (activate g a now s)"
| "delegation_step (CClaim links q) s = snd (claim links q s)"
| "delegation_step (CComplete c now) s = snd (complete c now s)"
| "delegation_step (CRevoke i owner now) s = snd (revoke i owner now s)"
| "delegation_step (CKill i now) s = snd (engage_kill_switch i now s)"

definition delegation_calls :: "delegation_call list \<Rightarrow> DelegationDB \<Rightarrow> DelegationDB" where
  "delegation_calls cs s = fold delegation_step cs s"

lemma delegation_calls_simps [simp]:
  "delegation_calls [] s = s"
  "delegation_calls (c # cs) s = delegation_calls cs (delegation_step c s)"
  by (simp_all add: delegation_calls_def)

lemma delegation_calls_keep:
  "(\<And>c s. P s \<Longrightarrow> P (delegation_step c s)) \<Longrightarrow> P s \<Longrightarrow> P (delegation_calls cs s)"
  by (induction cs arbitrary: s) auto

text \<open>Every call leaves the tables as they are or records one event beside its own change.\<close>

lemma claim_change:
  "snd (claim links q s) = s \<or> (\<exists>i k rs t. snd (claim links q s) = logged i k rs t s) \<or>
   (\<exists>rs t. dq_operation_id q \<notin> cw_operation_id ` set (db_claims s) \<and>
      snd (claim links q s) = logged (dq_grant_id q) ''operation_claimed'' rs t (claimed q s))"
  unfolding claim_eq
  by (simp add: find_claim_None split: sum.split option.split prod.split) blast

lemma terminal_change:
  "snd (terminal i owner now state s) = s \<or>
   (\<exists>g k rs t. load_grant i s = Inr (g, ''active'') \<and>
      snd (terminal i owner now state s) = logged i k rs t (ended i t state s))"
  unfolding terminal_eq by (simp split: sum.split prod.split) blast

lemma step_cases:
  obtains (same) "delegation_step c s = s"
  | (audited) i k rs t where "delegation_step c s = logged i k rs t s"
  | (granted) g k rs t where "dl_grant_id g \<notin> gw_grant_id ` set (db_grants s)"
      "delegation_step c s = logged (dl_grant_id g) k rs t (granted g t s)"
  | (claimed) q rs t where "dq_operation_id q \<notin> cw_operation_id ` set (db_claims s)"
      "delegation_step c s = logged (dq_grant_id q) ''operation_claimed'' rs t (claimed q s)"
  | (finished) m rs t where "completable m t s"
      "delegation_step c s = logged (dm_grant_id m) ''operation_completed'' rs t (finished m t s)"
  | (ended) i g k rs t state where "load_grant i s = Inr (g, ''active'')"
      "delegation_step c s = logged i k rs t (ended i t state s)" "state \<in> {''revoked'', ''killed''}"
proof (cases c)
  case (CActivate g a now)
  show thesis
  proof (cases "approval_invalid g a now \<or> find_grant (dl_grant_id g) s \<noteq> None")
    case True
    with CActivate show thesis by (intro same) (auto simp: activate_eq)
  next
    case False
    with CActivate show thesis by (intro granted) (auto simp: activate_eq find_grant_None)
  qed
next
  case (CClaim links q)
  with same audited claimed show thesis
    using claim_change [of links q s] by (elim disjE exE conjE) auto
next
  case (CComplete m now)
  then show thesis
    using same finished complete_Inl [of m now s] complete_Inr [of m now s]
    by (cases "complete m now s"; cases "fst (complete m now s)") auto
next
  case (CRevoke i owner now)
  with same ended show thesis
    using terminal_change [of i "Some owner" now "''revoked''" s] by (auto simp: revoke_def)
next
  case (CKill i now)
  with same ended show thesis
    using terminal_change [of i None now "''killed''" s] by (auto simp: engage_kill_switch_def)
qed

lemma ledger_step: "ledger_ok s \<Longrightarrow> ledger_ok (delegation_step c s)"
  by (cases c) (simp_all add: activate_ledger claim_ledger complete_ledger revoke_def
      engage_kill_switch_def terminal_ledger)

lemma ledger_calls: "ledger_ok s \<Longrightarrow> ledger_ok (delegation_calls cs s)"
  by (rule delegation_calls_keep [where P = ledger_ok]) (rule ledger_step)

definition empty_db :: DelegationDB where
  "empty_db = \<lparr>db_grants = [], db_claims = [], db_audit = []\<rparr>"

lemma ledger_empty: "ledger_ok empty_db"
  by (simp add: ledger_ok_def empty_db_def chain_ok_def grant_events_def)

section \<open>Ended grants and used operations\<close>

definition grant_state :: "string \<Rightarrow> DelegationDB \<Rightarrow> string option" where
  "grant_state i s = map_option gw_state (find_grant i s)"

lemma load_grant_state: "load_grant i s = Inr (g, st) \<Longrightarrow> grant_state i s = Some st"
  by (auto simp: load_grant_def grant_state_def split: option.splits if_splits sum.splits)

lemma find_grant_same: "db_grants u = db_grants s \<Longrightarrow> find_grant i u = find_grant i s"
  by (simp add: find_grant_def)

lemma find_grantD: "find_grant i s = Some r \<Longrightarrow> gw_grant_id r = i \<and> r \<in> set (db_grants s)"
  by (auto simp: find_grant_def find_Some_iff)

lemma find_map:
  assumes "\<And>x. P (f x) = P x"
  shows "find P (map f xs) = map_option f (find P xs)"
  by (induction xs) (simp_all add: assms)

lemma find_append: "find P (xs @ ys) = (case find P xs of None \<Rightarrow> find P ys | Some x \<Rightarrow> Some x)"
  by (induction xs) simp_all

lemma grant_state_ended:
  "grant_state j (ended i now st s) =
     (if i = j then map_option (\<lambda>_. st) (grant_state j s) else grant_state j s)"
proof -
  have "find_grant j (ended i now st s) = map_option (\<lambda>r. if gw_grant_id r = i
      then r\<lparr>gw_state := st, gw_terminal_at := Some (utc_text now)\<rparr> else r) (find_grant j s)"
    unfolding find_grant_def ended_def DelegationDB.select_convs DelegationDB.update_convs
    by (rule trans [OF _ find_map]) auto
  then show ?thesis
    by (cases "find_grant j s") (auto simp: grant_state_def dest: find_grantD)
qed

lemma grant_state_simps [simp]:
  "grant_state i (logged j k rs t s) = grant_state i s"
  "grant_state i (claimed q s) = grant_state i s"
  "grant_state i (finished c now s) = grant_state i s"
  by (simp_all add: grant_state_def find_grant_def)

lemma grant_state_granted: "grant_state i s = Some st \<Longrightarrow> grant_state i (granted g t s) = Some st"
  by (auto simp: grant_state_def find_grant_def granted_def find_append)

lemma ended_forever_step:
  assumes "grant_state i s = Some st" and "st \<noteq> ''active''"
  shows "grant_state i (delegation_step c s) = Some st"
proof (cases rule: step_cases [of c s])
  case (ended j g k rs t st')
  with assms have "i \<noteq> j" by (auto dest: load_grant_state)
  with ended(2) assms show ?thesis by (simp add: grant_state_ended)
next
  case (granted g k rs t)
  with assms show ?thesis by (simp add: grant_state_granted)
qed (use assms in simp_all)

lemma ended_forever:
  assumes "grant_state i s = Some st" and "st \<noteq> ''active''"
  shows "grant_state i (delegation_calls cs s) = Some st"
  using delegation_calls_keep [where P = "\<lambda>s. grant_state i s = Some st"]
    ended_forever_step assms by blast

lemma ended_refuses:
  assumes "grant_state i s = Some st" and "st \<noteq> ''active''"
  shows "dq_grant_id q = i \<Longrightarrow> \<not> returns (fst (claim links q s))"
    and "dm_grant_id c = i \<Longrightarrow> \<not> returns (fst (complete c now s))"
    and "dm_grant_id c = i \<Longrightarrow> \<not> returns (fst (validate_claim c now s))"
proof -
  have load: "load_grant i s = Inr (g, st') \<Longrightarrow> st' \<noteq> ''active''" for g st'
    using assms load_grant_state by fastforce
  have denied: "denial_reason links g st' q = None \<Longrightarrow> st' = ''active''" for g st' q
    by (rule ccontr) (simp add: denial_reason_def split: if_splits)
  show "dq_grant_id q = i \<Longrightarrow> \<not> returns (fst (claim links q s))"
    using load denied
    by (auto simp: claim_eq split: sum.splits option.splits prod.splits)
  show "dm_grant_id c = i \<Longrightarrow> \<not> returns (fst (complete c now s))"
    using load complete_Inr [of c now s "snd (complete c now s)"]
    by (cases "complete c now s") (auto simp: returns_def completable_def split: sum.splits)
  show "dm_grant_id c = i \<Longrightarrow> \<not> returns (fst (validate_claim c now s))"
    using load
    by (auto simp: validate_claim_def returns_def rbind_Inr_iff split: sum.splits option.splits
        if_splits)
qed

lemma operation_kept:
  "i \<in> cw_operation_id ` set (db_claims s) \<Longrightarrow>
     i \<in> cw_operation_id ` set (db_claims (delegation_step c s))"
proof (cases rule: step_cases [of c s])
  case (finished m rs t)
  have "cw_operation_id ` set (db_claims (DelegationLedger.finished m t s)) =
      cw_operation_id ` set (db_claims s)" by (metis finished_simps(1) set_map)
  with finished show "i \<in> cw_operation_id ` set (db_claims s) \<Longrightarrow> ?thesis" by simp
qed (auto simp: claimed_def granted_def ended_def)

lemma operation_used_once:
  assumes "i \<in> cw_operation_id ` set (db_claims s)" and "dq_operation_id q = i"
  shows "\<not> returns (fst (claim links q (delegation_calls cs s)))"
proof -
  have "i \<in> cw_operation_id ` set (db_claims (delegation_calls cs s))"
    by (rule delegation_calls_keep [where P = "\<lambda>s. i \<in> cw_operation_id ` set (db_claims s)"])
      (use operation_kept assms in auto)
  then have "find_claim (dq_operation_id q) (delegation_calls cs s) \<noteq> None"
    using assms(2) by (simp add: find_claim_None)
  then show ?thesis by (auto simp: claim_eq split: sum.splits option.splits prod.splits)
qed

lemma completed_kept:
  assumes "r \<in> set (db_claims s)" and "cw_state r \<noteq> ''claimed''"
  shows "r \<in> set (db_claims (delegation_step c s))"
proof (cases rule: step_cases [of c s])
  case (finished m rs t)
  with assms show ?thesis by (force simp: finished_def updates_def)
qed (use assms in \<open>auto simp: claimed_def granted_def ended_def\<close>)

end
