(* ===== verification/JsonText.thy ===== *)
theory JsonText
  imports Digest
begin

text \<open>
  The JSON texts the code hashes determine the documents they print. A printer of escaped
  strings is an interpretation of \<open>json_escape\<close>, a printer of documents one of \<open>json_text\<close>: in
  front of any delimiter a text can be read back, so two documents without floats whose texts are
  equal are equal up to the order of their keys. Hence equal hashes mean equal documents or a
  SHA-256 collision of two texts.
\<close>

section \<open>Characters\<close>

definition unhex :: "char \<Rightarrow> nat" where
  "unhex c = (if is_digit c then code c - 48 else code c - 87)"

definition unescape :: "char \<Rightarrow> char" where
  "unescape e = (if e = CHR ''n'' then CHR 0x0A else if e = CHR ''r'' then CHR 0x0D
     else if e = CHR ''t'' then CHR 0x09 else if e = CHR ''b'' then CHR 0x08
     else if e = CHR ''f'' then CHR 0x0C else e)"

fun read_char :: "string \<Rightarrow> char \<times> string" where
  \<comment> \<open>the first character of an escaped text, and the rest\<close>
  "read_char (b # e # r) =
     (if b \<noteq> CHR 0x5C then (b, e # r)
      else if e = CHR ''u'' then (char_of (16 * unhex (r ! 2) + unhex (r ! 3)), drop 4 r)
      else (unescape e, r))"
| "read_char [b] = (b, [])"
| "read_char [] = (CHR 0x00, [])"

definition escape_form :: "string \<Rightarrow> char \<Rightarrow> bool" where
  \<comment> \<open>the three ways a JSON printer writes a character: itself, a short escape, a hex escape\<close>
  "escape_form s c \<longleftrightarrow> s = [c] \<and> c \<noteq> CHR 0x5C \<and> c \<noteq> CHR 0x22 \<or>
     (\<exists>e. s = [CHR 0x5C, e] \<and> e \<noteq> CHR ''u'' \<and> unescape e = c) \<or>
     s = [CHR 0x5C, CHR ''u'', CHR ''0'', CHR ''0'', hex_digit (code c div 16), hex_digit (code c mod 16)]"

lemma char_of_code [simp]: "char_of (code c) = c"
  by (simp add: code_def)

lemma code_less: "code c < 256"
  unfolding code_def by (rule nat_of_char_less_256)

lemma code_eq_iff: "code c = code d \<longleftrightarrow> c = d"
  by (simp add: code_def)

lemma code_char_of: "n < 256 \<Longrightarrow> code (char_of n) = n"
  by (simp add: code_def)

lemma unhex_hex_digit: "n < 16 \<Longrightarrow> unhex (hex_digit n) = n"
  by (cases "n < 10") (simp_all add: unhex_def hex_digit_def is_digit_def code_char_of)

lemma read_plain: "b \<noteq> CHR 0x5C \<Longrightarrow> read_char (b # x) = (b, x)"
  by (cases x) simp_all

lemma read_escape:
  assumes "escape_form s c"
  shows "read_char (s @ x) = (c, x)"
proof -
  have "code c div 16 < 16" using code_less [of c] by linarith
  moreover have "code c mod 16 < 16" by simp
  ultimately have "char_of (16 * unhex (hex_digit (code c div 16)) +
      unhex (hex_digit (code c mod 16))) = c"
    by (simp only: unhex_hex_digit mult_div_mod_eq char_of_code)
  moreover have "read_char (CHR 0x5C # CHR ''u'' # CHR ''0'' # CHR ''0'' # h # l # x) =
      (char_of (16 * unhex h + unhex l), x)" for h l
    by simp
  moreover have "e \<noteq> CHR ''u'' \<Longrightarrow> read_char (CHR 0x5C # e # x) = (unescape e, x)" for e
    by simp
  ultimately show ?thesis
    using assms by (auto simp: escape_form_def read_plain simp del: read_char.simps)
qed

lemma escape_no_quote: "escape_form s c \<Longrightarrow> s @ x \<noteq> CHR 0x22 # y"
  by (auto simp: escape_form_def)

text \<open>A character that is neither special nor out of the printer's range is itself.\<close>

lemma escape_cases:
  assumes "list_all (\<lambda>c. case esc c of [b, e] \<Rightarrow> b = CHR 0x5C \<and> e \<noteq> CHR ''u'' \<and> unescape e = c
      | _ \<Rightarrow> False) [CHR 0x22, CHR 0x5C, CHR 0x0A, CHR 0x0D, CHR 0x09, CHR 0x08, CHR 0x0C]"
    and "\<And>c. c \<noteq> CHR 0x22 \<Longrightarrow> c \<noteq> CHR 0x5C \<Longrightarrow> code c \<notin> {8, 9, 10, 12, 13} \<Longrightarrow> esc c = [c] \<or>
      esc c = [CHR 0x5C, CHR ''u'', CHR ''0'', CHR ''0'', hex_digit (code c div 16),
        hex_digit (code c mod 16)]"
  shows "escape_form (esc c) c"
proof (cases "c \<in> {CHR 0x22, CHR 0x5C, CHR 0x0A, CHR 0x0D, CHR 0x09, CHR 0x08, CHR 0x0C}")
  case True
  with assms(1) have "case esc c of [b, e] \<Rightarrow> b = CHR 0x5C \<and> e \<noteq> CHR ''u'' \<and> unescape e = c
      | _ \<Rightarrow> False" by (simp only: list_all_iff list.set)
  then show ?thesis by (auto simp: escape_form_def split: list.splits)
next
  case False
  then have "code c \<notin> {8, 9, 10, 12, 13}"
    using code_eq_iff [of c "CHR 0x0A"] code_eq_iff [of c "CHR 0x0D"]
      code_eq_iff [of c "CHR 0x09"] code_eq_iff [of c "CHR 0x08"] code_eq_iff [of c "CHR 0x0C"]
    by (simp add: code_def)
  with False assms(2) [of c] show ?thesis by (auto simp: escape_form_def)
qed

section \<open>Strings\<close>

locale json_escape =
  fixes esc :: "char \<Rightarrow> string"
  assumes form: "escape_form (esc c) c"
begin

lemma char_prefix: "esc c @ x = esc d @ y \<Longrightarrow> c = d \<and> x = y"
  by (metis read_escape form prod.inject)

lemma body_prefix:
  "concat (map esc s) @ CHR 0x22 # a = concat (map esc t) @ CHR 0x22 # b \<Longrightarrow> s = t \<and> a = b"
proof (induction s arbitrary: t)
  case Nil
  then show ?case
    using escape_no_quote [OF form] by (cases t) (auto dest: sym)
next
  case (Cons c s)
  show ?case
  proof (cases t)
    case Nil
    with Cons.prems escape_no_quote [OF form, of c "concat (map esc s) @ CHR 0x22 # a" b]
    show ?thesis by simp
  next
    case t: (Cons d t')
    with Cons.prems have "esc c @ concat (map esc s) @ CHR 0x22 # a =
        esc d @ concat (map esc t') @ CHR 0x22 # b" by simp
    from char_prefix [OF this] t Cons.IH show ?thesis by simp
  qed
qed

lemma quoted_prefix:
  "([CHR 0x22] @ concat (map esc s) @ [CHR 0x22]) @ a = ([CHR 0x22] @ concat (map esc t) @ [CHR 0x22]) @ b
     \<longleftrightarrow> s = t \<and> a = b"
  using body_prefix [of s a t b] by auto

end

interpretation json_char: json_escape json_char
proof
  show "escape_form (json_char c) c" for c
  proof (rule escape_cases)
    show "list_all (\<lambda>c. case json_char c of [b, e] \<Rightarrow> b = CHR 0x5C \<and> e \<noteq> CHR ''u'' \<and> unescape e = c
        | _ \<Rightarrow> False) [CHR 0x22, CHR 0x5C, CHR 0x0A, CHR 0x0D, CHR 0x09, CHR 0x08, CHR 0x0C]"
      by code_simp
  qed (simp add: json_char_def Let_def)
qed

lemma json_str_prefix: "json_str s @ a = json_str t @ b \<longleftrightarrow> s = t \<and> a = b"
  unfolding json_str_def by (rule json_char.quoted_prefix)

section \<open>Integers\<close>

lemma show_nat_digits: "list_all is_digit (show_nat n) \<and> show_nat n \<noteq> []"
proof (induction n rule: show_nat.induct)
  case (1 n)
  then show ?case by (subst (1 2) show_nat.simps) (auto simp: is_digit_digit)
qed

lemma num_show_nat: "num (show_nat n) = n"
proof (induction n rule: show_nat.induct)
  case (1 n)
  show ?case
  proof (cases "n < 10")
    case True
    then show ?thesis by (subst show_nat.simps) (simp add: num_def code_digit)
  next
    case False
    with 1 show ?thesis by (subst show_nat.simps) (simp add: num_snoc code_digit)
  qed
qed

definition stops :: "string \<Rightarrow> bool" where
  \<comment> \<open>what may follow a value in a JSON text\<close>
  "stops s \<longleftrightarrow> s = [] \<or> hd s \<in> set '',]}''"

lemma stops_simps [simp]: "stops []" "stops (c # s) \<longleftrightarrow> c \<in> set '',]}''"
  by (simp_all add: stops_def)

lemma digits_prefix:
  assumes "list_all is_digit s" "list_all is_digit t" "stops a" "stops b" and "s @ a = t @ b"
  shows "s = t \<and> a = b"
proof -
  have "\<not> is_digit (CHR '','')" "\<not> is_digit (CHR '']'')" "\<not> is_digit (CHR ''}'')" by code_simp+
  then have "takeWhile is_digit (s @ a) = s" if "list_all is_digit s" "stops a" for s a
    using that by (cases a) (auto simp: list_all_iff takeWhile_append2)
  from this [OF assms(1,3)] this [OF assms(2,4)] assms(5) show ?thesis by simp
qed

lemma show_int_prefix:
  assumes "stops a" "stops b" "show_int m @ a = show_int n @ b"
  shows "m = n \<and> a = b"
proof -
  have minus: "\<not> is_digit (CHR ''-'')" by code_simp
  have head: "show_nat k @ x \<noteq> CHR ''-'' # y" for k x y
    using show_nat_digits [of k] minus by (cases "show_nat k") auto
  have nat: "show_nat j @ a = show_nat k @ b \<Longrightarrow> j = k \<and> a = b" for j k
    using digits_prefix [of "show_nat j" "show_nat k" a b] show_nat_digits assms(1,2) num_show_nat
    by metis
  show ?thesis
    using assms(3) nat [of "nat \<bar>m\<bar>" "nat \<bar>n\<bar>"] head [of "nat \<bar>n\<bar>" b]
      head [of "nat \<bar>m\<bar>" a]
    by (cases "m < 0"; cases "n < 0") (auto simp: show_int_def dest: sym)
qed

section \<open>Documents\<close>

primrec sorted_json :: "json \<Rightarrow> json" where
  \<comment> \<open>the document with the keys of every object sorted\<close>
  "sorted_json JNull = JNull"
| "sorted_json (JBool b) = JBool b"
| "sorted_json (JInt n) = JInt n"
| "sorted_json (JFloat q) = JFloat q"
| "sorted_json (JStr s) = JStr s"
| "sorted_json (JList xs) = JList (map sorted_json xs)"
| "sorted_json (JObj kvs) = JObj (sort_key fst (map (map_prod id sorted_json) kvs))"

primrec float_free :: "json \<Rightarrow> bool" where
  "float_free JNull \<longleftrightarrow> True"
| "float_free (JBool b) \<longleftrightarrow> True"
| "float_free (JInt n) \<longleftrightarrow> True"
| "float_free (JFloat q) \<longleftrightarrow> False"
| "float_free (JStr s) \<longleftrightarrow> True"
| "float_free (JList xs) \<longleftrightarrow> list_all id (map float_free xs)"
| "float_free (JObj kvs) \<longleftrightarrow> list_all snd (map (map_prod id float_free) kvs)"

lemma sort_key_map: "sort_key f (map g xs) = map g (sort_key (f \<circ> g) xs)"
proof (induction xs)
  case (Cons x xs)
  have "insort_key f (g x) (map g ys) = map g (insort_key (f \<circ> g) x ys)" for ys
    by (induction ys) simp_all
  with Cons show ?case by (simp add: comp_def)
qed simp

lemma join_Cons: "join sep (x # xs) = x @ (if xs = [] then [] else sep @ join sep xs)"
  by (cases xs) simp_all

text \<open>A printed sequence can be read back if each of its elements can.\<close>

lemma join_prefix:
  assumes "\<And>x y a b. x \<in> set xs \<Longrightarrow> y \<in> set ys \<Longrightarrow> stops a \<Longrightarrow> stops b \<Longrightarrow>
      p x @ a = p y @ b \<Longrightarrow> f x = f y \<and> a = b"
    and "\<And>x. x \<in> set xs \<union> set ys \<Longrightarrow> p x \<noteq> [] \<and> \<not> stops (p x)"
    and "c \<in> set '']}''"
    and "join '','' (map p xs) @ c # a = join '','' (map p ys) @ c # b"
  shows "map f xs = map f ys \<and> a = b"
  using assms
proof (induction xs arbitrary: ys)
  case Nil
  have "ys = []"
  proof (cases ys)
    case (Cons y ys')
    with Nil.prems(2) [of y] obtain h r where "p y = h # r" "h \<notin> set '',]}''"
      by (cases "p y") auto
    with Nil.prems(3,4) Cons show ?thesis by (auto simp: join_Cons)
  qed simp
  with Nil.prems(4) show ?case by simp
next
  case (Cons x xs)
  obtain h r where px: "p x = h # r" "h \<notin> set '',]}''"
    using Cons.prems(2) [of x] by (cases "p x") auto
  show ?case
  proof (cases ys)
    case Nil
    with Cons.prems(3,4) px show ?thesis by (auto simp: join_Cons)
  next
    case ys: (Cons y ys')
    define more where "more us t = (if us = [] then c # t else '','' @ join '','' (map p us) @ c # t)"
      for us t
    have stop: "stops (more us t)" for us t using Cons.prems(3) by (auto simp: more_def)
    have "p x @ more xs a = p y @ more ys' b"
      using Cons.prems(4) ys by (cases "xs = []"; cases "ys' = []") (simp_all add: join_Cons more_def)
    with Cons.prems(1) [of x y] ys stop have hd: "f x = f y" and rest: "more xs a = more ys' b" by auto
    from rest Cons.prems(3) have "join '','' (map p xs) @ c # a = join '','' (map p ys') @ c # b"
      by (auto simp: more_def split: if_splits)
    then have "map f xs = map f ys' \<and> a = b"
      using Cons.prems(1,2,3) ys by (intro Cons.IH) auto
    with hd ys show ?thesis by simp
  qed
qed

definition kind :: "char \<Rightarrow> nat" where
  \<comment> \<open>what the first character of a JSON text says of the value\<close>
  "kind c = (if c = CHR ''n'' then 0 else if c = CHR ''t'' then 1 else if c = CHR ''f'' then 2
     else if c = CHR 0x22 then 3 else if c = CHR ''['' then 4 else if c = CHR ''{'' then 5
     else if is_digit c \<or> c = CHR ''-'' then 6 else 7)"

fun json_kind :: "json \<Rightarrow> nat" where
  "json_kind JNull = 0"
| "json_kind (JBool b) = (if b then 1 else 2)"
| "json_kind (JStr s) = 3"
| "json_kind (JList xs) = 4"
| "json_kind (JObj kvs) = 5"
| "json_kind (JInt n) = 6"
| "json_kind (JFloat q) = 6"

locale json_text =
  fixes quote :: "string \<Rightarrow> string" and doc :: "json \<Rightarrow> string"
  assumes quote_prefix: "quote s @ x = quote s' @ y \<longleftrightarrow> s = s' \<and> x = y"
    and quote_starts: "\<exists>r. quote s = CHR 0x22 # r"
    and doc_null: "doc JNull = ''null''"
    and doc_bool: "doc (JBool b) = (if b then ''true'' else ''false'')"
    and doc_int: "doc (JInt n) = show_int n"
    and doc_str: "doc (JStr s) = quote s"
    and doc_list: "doc (JList xs) = ''['' @ join '','' (map doc xs) @ '']''"
    and doc_obj: "doc (JObj kvs) = ''{'' @ join '','' (map (\<lambda>(k, v). quote k @ '':'' @ v)
      (sort_key fst (map (map_prod id doc) kvs))) @ ''}''"
begin

lemmas doc_eqs = doc_null doc_bool doc_int doc_str doc_list

lemma doc_head:
  assumes "float_free v"
  obtains h r where "doc v = h # r" "kind h = json_kind v"
proof -
  have digit: "kind h = 6" if "is_digit h \<or> h = CHR ''-''" for h
  proof -
    have "\<not> is_digit (CHR ''n'')" "\<not> is_digit (CHR ''t'')" "\<not> is_digit (CHR ''f'')"
      "\<not> is_digit (CHR 0x22)" "\<not> is_digit (CHR ''['')" "\<not> is_digit (CHR ''{'')" by code_simp+
    with that show ?thesis by (auto simp: kind_def)
  qed
  have "\<exists>h r. doc v = h # r \<and> kind h = json_kind v"
  proof (cases v)
    case (JInt n)
    obtain h r where "show_nat (nat \<bar>n\<bar>) = h # r" "is_digit h"
      using show_nat_digits [of "nat \<bar>n\<bar>"] by (cases "show_nat (nat \<bar>n\<bar>)") auto
    with JInt digit show ?thesis by (auto simp: doc_int show_int_def)
  next
    case (JStr s)
    then show ?thesis using quote_starts [of s] by (auto simp: doc_str kind_def)
  qed (use assms in \<open>auto simp: doc_eqs doc_obj kind_def\<close>)
  with that show thesis by blast
qed

lemma doc_starts: "float_free v \<Longrightarrow> doc v \<noteq> [] \<and> \<not> stops (doc v)"
proof (elim doc_head)
  fix h r
  assume "doc v = h # r" and k: "kind h = json_kind v"
  have "json_kind v < 7" by (cases v rule: json_kind.cases) simp_all
  moreover have "list_all (\<lambda>c. kind c = 7) '',]}''" by code_simp
  ultimately have "h \<notin> set '',]}''" using k by (auto simp: list_all_iff)
  with \<open>doc v = h # r\<close> show ?thesis by simp
qed

lemma doc_kind:
  assumes "float_free v" "float_free w" "doc v @ a = doc w @ b"
  shows "json_kind v = json_kind w"
  using doc_head [OF assms(1)] doc_head [OF assms(2)] assms(3) by (metis append_Cons list.inject)

definition entry :: "string \<times> json \<Rightarrow> string" where
  "entry = (\<lambda>(k, v). quote k @ '':'' @ doc v)"

lemma entry_starts: "entry x \<noteq> [] \<and> \<not> stops (entry x)"
  using quote_starts [of "fst x"] by (auto simp: entry_def split_def)

lemma doc_entries: "doc (JObj kvs) = ''{'' @ join '','' (map entry (sort_key fst kvs)) @ ''}''"
  by (simp add: doc_obj sort_key_map entry_def comp_def split_def)

lemma sorted_entries:
  "sorted_json (JObj kvs) = JObj (map (map_prod id sorted_json) (sort_key fst kvs))"
  by (simp add: sort_key_map comp_def)

theorem doc_prefix:
  "float_free v \<Longrightarrow> float_free w \<Longrightarrow> stops a \<Longrightarrow> stops b \<Longrightarrow> doc v @ a = doc w @ b \<Longrightarrow>
     sorted_json v = sorted_json w \<and> a = b"
proof (induction v arbitrary: w a b)
  case (JList xs)
  show ?case
  proof (cases w)
    case w: (JList ys)
    with JList.prems have "join '','' (map doc xs) @ CHR '']'' # a = join '','' (map doc ys) @ CHR '']'' # b"
      by (simp add: doc_list)
    moreover have "list_all float_free xs" "list_all float_free ys"
      using JList.prems w by (simp_all add: list.pred_map comp_def)
    ultimately have "map sorted_json xs = map sorted_json ys \<and> a = b"
      by (intro join_prefix [where p = doc]) (auto simp: list_all_iff JList.IH dest: doc_starts)
    with w show ?thesis by simp
  qed (use doc_kind [OF JList.prems(1,2,5)] in \<open>simp_all split: if_splits\<close>)
next
  case (JObj kvs)
  show ?case
  proof (cases w)
    case w: (JObj lvs)
    have "map (map_prod id sorted_json) (sort_key fst kvs) =
        map (map_prod id sorted_json) (sort_key fst lvs) \<and> a = b"
    proof (rule join_prefix [where p = entry and c = "CHR ''}''"])
      show "join '','' (map entry (sort_key fst kvs)) @ CHR ''}'' # a =
          join '','' (map entry (sort_key fst lvs)) @ CHR ''}'' # b"
        using JObj.prems(5) w by (simp add: doc_entries)
      have free: "list_all (float_free \<circ> snd) kvs" "list_all (float_free \<circ> snd) lvs"
        using JObj.prems w by (simp_all add: list.pred_map comp_def)
      fix x y a b
      assume x: "x \<in> set (sort_key fst kvs)" "y \<in> set (sort_key fst lvs)" "stops a" "stops b"
        and eq: "entry x @ a = entry y @ b"
      then have "fst x = fst y" "doc (snd x) @ a = doc (snd y) @ b"
        by (auto simp: entry_def split_def quote_prefix)
      moreover from this x free have "sorted_json (snd x) = sorted_json (snd y) \<and> a = b"
        by (intro JObj.IH [of x "snd x"]) (auto simp: list_all_iff snds.simps)
      ultimately show "map_prod id sorted_json x = map_prod id sorted_json y \<and> a = b"
        by (simp add: prod_eq_iff)
    qed (simp_all add: entry_starts)
    with w show ?thesis by (simp only: sorted_entries)
  qed (use doc_kind [OF JObj.prems(1,2,5)] in \<open>simp_all split: if_splits\<close>)
next
  case (JInt n)
  show ?case
    using doc_kind [OF JInt.prems(1,2,5)] JInt.prems(2-5)
      show_int_prefix [of a b n]
    by (cases w) (simp_all add: doc_int split: if_splits)
next
  case (JStr s)
  show ?case
    using doc_kind [OF JStr.prems(1,2,5)] JStr.prems(3-5)
    by (cases w) (simp_all add: doc_str quote_prefix split: if_splits)
next
  case JNull
  show ?case
    using doc_kind [OF JNull.prems(1,2,5)] JNull.prems(3-5)
    by (cases w) (simp_all add: doc_null split: if_splits)
next
  case (JBool c)
  show ?case
    using doc_kind [OF JBool.prems(1,2,5)] JBool.prems(3-5)
    by (cases w) (simp_all add: doc_bool split: if_splits)
qed simp

lemma doc_inj: "float_free v \<Longrightarrow> float_free w \<Longrightarrow> doc v = doc w \<Longrightarrow> sorted_json v = sorted_json w"
  using doc_prefix [of v w "[]" "[]"] by simp

end

interpretation stable: json_text json_str stable_json
proof
  show "\<exists>r. json_str s = CHR 0x22 # r" for s by (simp add: json_str_def)
qed (simp_all add: json_str_prefix)

section \<open>Reading the fields of a record\<close>

lemma same_entries:
  assumes "set xs = set ys" "map fst xs = map fst ys" "distinct (map fst xs)"
  shows "xs = ys"
proof (rule nth_equalityI)
  show len: "length xs = length ys" using map_eq_imp_length_eq [OF assms(2)] .
  fix i
  assume i: "i < length xs"
  then obtain j where j: "j < length ys" "ys ! j = xs ! i" using assms(1) by (metis in_set_conv_nth)
  have "map fst xs ! i = map fst ys ! i" using assms(2) by simp
  then have "map fst ys ! j = map fst ys ! i" using j i len by simp
  then have "j = i"
    using assms(2,3) i j(1) len by (simp add: nth_eq_iff_index_eq del: nth_map)
  with j show "xs ! i = ys ! i" by simp
qed

lemma sorted_fields:
  assumes "sorted_json (JObj d) = sorted_json (JObj d')" "map fst d = map fst d'"
    and "distinct (map fst d)"
  shows "map (sorted_json \<circ> snd) d = map (sorted_json \<circ> snd) d'"
proof -
  have "set (map (map_prod id sorted_json) d) = set (map (map_prod id sorted_json) d')"
    using arg_cong [OF assms(1), of "\<lambda>v. case v of JObj kvs \<Rightarrow> set kvs | _ \<Rightarrow> {}"] by simp
  moreover have "map fst (map (map_prod id sorted_json) d) = map fst (map (map_prod id sorted_json) d')"
    and "distinct (map fst (map (map_prod id sorted_json) d))"
    using assms(2,3) by (simp_all add: comp_def)
  ultimately have "map (map_prod id sorted_json) d = map (map_prod id sorted_json) d'"
    by (rule same_entries)
  from arg_cong [OF this, of "map snd"] show ?thesis by (simp add: comp_def)
qed

end
