(* ===== verification/CanonicalText.thy ===== *)
theory CanonicalText
  imports DelegationLedger JsonText
begin

text \<open>
  The canonical JSON text of the records the delegation store hashes determines the record: the
  printer \<open>canonical_json\<close> is an instance of \<open>json_text\<close>. So two records with the same hash are
  equal or show a SHA-256 collision.
\<close>

section \<open>The canonical printer\<close>

interpretation ascii_char: json_escape ascii_char
proof
  show "escape_form (ascii_char c) c" for c
  proof (rule escape_cases)
    show "list_all (\<lambda>c. case ascii_char c of [b, e] \<Rightarrow> b = CHR 0x5C \<and> e \<noteq> CHR ''u'' \<and> unescape e = c
        | _ \<Rightarrow> False) [CHR 0x22, CHR 0x5C, CHR 0x0A, CHR 0x0D, CHR 0x09, CHR 0x08, CHR 0x0C]"
      by code_simp
  qed (simp add: ascii_char_def Let_def)
qed

lemma ascii_str_prefix: "ascii_str s @ a = ascii_str t @ b \<longleftrightarrow> s = t \<and> a = b"
  unfolding ascii_str_def by (rule ascii_char.quoted_prefix)

interpretation canonical: json_text ascii_str canonical_json
proof
  show "\<exists>r. ascii_str s = CHR 0x22 # r" for s by (simp add: ascii_str_def)
qed (simp_all add: ascii_str_prefix)

lemma event_text_inj:
  assumes "canonical_json (JObj (event_fields n g k rs t p)) =
    canonical_json (JObj (event_fields n' g' k' rs' t' p'))"
  shows "n = n' \<and> g = g' \<and> k = k' \<and> rs = rs' \<and> t = t' \<and> p = p'"
proof -
  have "sorted_json (JObj (event_fields n g k rs t p)) =
      sorted_json (JObj (event_fields n' g' k' rs' t' p'))"
    using assms by (intro canonical.doc_inj) (simp_all add: event_fields_def)
  from sorted_fields [OF this] show ?thesis by (simp add: event_fields_def)
qed

section \<open>An audit chain commits to its events\<close>

definition row_text :: "AuditRow \<Rightarrow> string" where
  \<comment> \<open>the text the event hash of a row must be the SHA-256 of\<close>
  "row_text r = canonical_json (JObj (event_fields (aw_sequence r) (aw_grant_id r)
     (aw_event_type r) (aw_reason r) (aw_timestamp r) (aw_previous_hash r)))"

definition row_collision :: "AuditRow \<Rightarrow> AuditRow \<Rightarrow> bool" where
  \<comment> \<open>two rows that exhibit a SHA-256 collision\<close>
  "row_collision r r' = (row_text r \<noteq> row_text r' \<and> sha_text (row_text r) = sha_text (row_text r'))"

lemma is_sha256_canonical_hash: "is_sha256 (canonical_hash d)"
  unfolding canonical_hash_def sha_text_def sha256_hex_def by (rule is_sha256_sha_hex)

lemma canonical_hash_nonempty: "canonical_hash d \<noteq> []"
proof -
  have "length (canonical_hash d) = 64" using is_sha256_canonical_hash unfolding is_sha256_def ..
  then show ?thesis by (metis length_0_conv zero_neq_numeral)
qed

lemma row_text_inj:
  assumes "row_text r = row_text r'" "aw_event_hash r = aw_event_hash r'"
  shows "r = r'"
  using event_text_inj [OF assms(1) [unfolded row_text_def]] assms(2) by simp

lemma verify_snoc_Inr:
  assumes "verify_events i p (rs @ [r]) = Inr evs"
  obtains evs' where "verify_events i p rs = Inr evs'" "aw_previous_hash r = latest_hash p rs"
    "aw_event_hash r = event_hash (aw_sequence r) i (aw_event_type r) (aw_reason r)
      (aw_timestamp r) (aw_previous_hash r)"
  using assms unfolding verify_snoc by (auto simp: rbind_Inr_iff split: if_splits)

lemma latest_hash_snoc [simp]: "latest_hash p (rs @ [r]) = aw_event_hash r"
  by (simp add: latest_hash_def)

lemma chain_commits:
  assumes "verify_events i [] rs = Inr evs" "verify_events i [] rs' = Inr evs'"
    and "latest_hash [] rs = latest_hash [] rs'"
    and "\<forall>r \<in> set rs \<union> set rs'. aw_grant_id r = i"
    and "\<forall>r \<in> set rs. \<forall>r' \<in> set rs'. \<not> row_collision r r'"
  shows "rs = rs'"
  using assms
proof (induction rs arbitrary: rs' evs evs' rule: rev_induct)
  case Nil
  then show ?case
    by (cases rs' rule: rev_cases)
      (auto elim!: verify_snoc_Inr simp: event_hash_def canonical_hash_nonempty canonical_hash_nonempty [symmetric] latest_hash_def)
next
  case (snoc r rs)
  obtain evs1 where r: "verify_events i [] rs = Inr evs1" "aw_previous_hash r = latest_hash [] rs"
    "aw_event_hash r = sha_text (row_text r)"
    using snoc.prems(1,4)
    by (auto elim!: verify_snoc_Inr simp: event_hash_def canonical_hash_def row_text_def)
  show ?case
  proof (cases rs' rule: rev_cases)
    case Nil
    with snoc.prems(3) r(3) canonical_hash_nonempty show ?thesis
      by (auto simp: latest_hash_def row_text_def canonical_hash_def)
  next
    case rs': (snoc ss r')
    obtain evs2 where r': "verify_events i [] ss = Inr evs2" "aw_previous_hash r' = latest_hash [] ss"
      "aw_event_hash r' = sha_text (row_text r')"
      using snoc.prems(2,4) rs'
      by (auto elim!: verify_snoc_Inr simp: event_hash_def canonical_hash_def row_text_def)
    have same: "aw_event_hash r = aw_event_hash r'" using snoc.prems(3) rs' by simp
    moreover have "\<not> row_collision r r'" using snoc.prems(5) rs' by simp
    ultimately have "r = r'" using r(3) r'(3) row_text_inj by (auto simp: row_collision_def)
    moreover have "rs = ss"
    proof (rule snoc.IH [OF r(1) r'(1)])
      show "latest_hash [] rs = latest_hash [] ss" using r(2) r'(2) \<open>r = r'\<close> by simp
    qed (use snoc.prems(4,5) rs' in auto)
    ultimately show ?thesis using rs' by simp
  qed
qed

end
