(* ===== verification/DelegationProperties.thy ===== *)
theory DelegationProperties
  imports CanonicalText
begin

text \<open>
  The properties of delegated authority: what a grant can ever allow, which operations can be
  claimed, single use, revocation, and the audit chain, each with a concrete instance.
\<close>

section \<open>What a denial reason decides\<close>

lemma if_Some_None: "(if b then Some x else y) = None \<longleftrightarrow> \<not> b \<and> y = None"
  by simp

definition operation_controls :: "DelegatedGrant \<Rightarrow> DelegatedOperationRequest \<Rightarrow> bool" where
  \<comment> \<open>the controls an operation of each group needs\<close>
  "operation_controls g q =
     ((dq_operation q \<in> set PATH_OPERATIONS \<longrightarrow> dq_paths q \<noteq> []) \<and>
      (dq_operation q \<in> set PA005_OPERATIONS \<longrightarrow>
         dq_source_scopes q \<noteq> [] \<and> dq_underlying_controls_verified q) \<and>
      (dq_operation q \<in> set GIT_OPERATIONS \<longrightarrow> dq_validation_passed q \<and> dq_exact_upstream q) \<and>
      (dq_operation q \<in> set PA009_OPERATIONS \<longrightarrow> pa009_matches g q) \<and>
      (dq_operation q = DelegatedOperation_value PA009_DISPATCH \<longrightarrow> dq_preflight_hash q \<noteq> []))"

lemma dispatch_is_pa009: "DelegatedOperation_value PA009_DISPATCH \<in> set PA009_OPERATIONS"
  by (simp add: PA009_OPERATIONS_def)

lemma denial_None:
  "denial_reason links g state q = None \<longleftrightarrow>
     \<not> tzinfo_None (dq_requested_at q) \<and> state = ''active'' \<and>
     instant (dl_starts_at g) \<le> instant (dq_requested_at q) \<and>
     instant (dq_requested_at q) < instant (dl_expires_at g) \<and>
     dq_owner_id q = dl_owner_id g \<and> dq_operation q \<notin> set PROHIBITED_DELEGATED_OPERATIONS \<and>
     dq_operation q \<in> set (dl_allowed_operations g) \<and>
     dq_repository_root q = dl_repository_root g \<and> dq_branch q = dl_branch g \<and>
     dq_branch q \<notin> {''main'', ''master''} \<and>
     \<not> prefix ''protected/'' (dq_branch q) \<and> \<not> prefix ''release/'' (dq_branch q) \<and>
     (\<forall>p \<in> set (dq_paths q). \<not> path_drifts links g p) \<and>
     set (dq_source_scopes q) \<subseteq> set (dl_allowed_source_scopes g) \<and> operation_controls g q"
proof (cases "tzinfo_None (dq_requested_at q)")
  case True
  then show ?thesis by (simp add: denial_reason_def)
next
  case False
  have controls: "operation_controls g q \<longleftrightarrow>
      \<not> (dq_operation q \<in> set PATH_OPERATIONS \<and> dq_paths q = []) \<and>
      \<not> (dq_operation q \<in> set PA005_OPERATIONS \<and>
        (dq_source_scopes q = [] \<or> \<not> dq_underlying_controls_verified q)) \<and>
      \<not> (dq_operation q \<in> set GIT_OPERATIONS \<and>
        \<not> (dq_validation_passed q \<and> dq_exact_upstream q)) \<and>
      (if dq_operation q \<in> set PA009_OPERATIONS then
        (if \<not> pa009_matches g q then Some ''delegated PA-009 boundary drift''
         else if dq_operation q = DelegatedOperation_value PA009_DISPATCH \<and>
             (dq_preflight_hash q = [] \<or> \<not> dq_underlying_controls_verified q)
           then Some ''delegated PA-009 dispatch controls missing''
         else None)
      else None) = None"
    using dispatch_is_pa009 by (auto simp: operation_controls_def pa009_matches_def)
  have window: "in_window g (dq_requested_at q) = Inr True \<longleftrightarrow>
      instant (dl_starts_at g) \<le> instant (dq_requested_at q) \<and>
      instant (dq_requested_at q) < instant (dl_expires_at g)"
    using False by (simp add: in_window_def)
  show ?thesis
    unfolding denial_reason_def if_Some_None controls window list_ex_iff using False by blast
qed

section \<open>Grants that load\<close>

lemma DelegatedGrant_init_self: "DelegatedGrant_init h = Inr g \<Longrightarrow> DelegatedGrant_init g = Inr g"
  by (simp add: DelegatedGrant_init_def construct_Inr_iff)

lemma grant_of_init: "grant_of v = Inr g \<Longrightarrow> DelegatedGrant_init g = Inr g"
  unfolding grant_of_def by (elim rbind_InrE) (rule DelegatedGrant_init_self)

lemma load_grant_init: "load_grant i s = Inr (g, st) \<Longrightarrow> DelegatedGrant_init g = Inr g"
  by (auto simp: load_grant_def split: option.splits if_splits sum.splits payload_text.splits
      json.splits dest: grant_of_init)

lemma valid_grant_operation:
  assumes "DelegatedGrant_init g = Inr g" and "x \<in> set (dl_allowed_operations g)"
  shows "x \<notin> set PROHIBITED_DELEGATED_OPERATIONS"
  using assms by (auto simp: DelegatedGrant_init_def check_simps list_all_iff)

lemma valid_grant_branch:
  assumes "DelegatedGrant_init g = Inr g"
  shows "dl_branch g \<notin> {''main'', ''master''} \<and> \<not> prefix ''protected/'' (dl_branch g) \<and>
    \<not> prefix ''release/'' (dl_branch g)"
proof -
  have "prefix ''feature/'' (dl_branch g)"
    using assms by (simp add: DelegatedGrant_init_def check_simps)
  then obtain b where "dl_branch g = ''feature/'' @ b" by (auto simp: prefix_def)
  then show ?thesis by simp
qed

lemma load_activated:
  assumes "DelegatedGrant_wf g" and "find_grant (dl_grant_id g) s = None"
  shows "load_grant (dl_grant_id g) (logged j k rs t (granted g now s)) =
    Inr (DelegatedGrant_norm g, ''active'')"
proof -
  have "find_grant (dl_grant_id g) (logged j k rs t (granted g now s)) =
      Some \<lparr>gw_grant_id = dl_grant_id g, gw_payload = PDoc (JObj (canonical_payload g)),
        gw_integrity_hash = integrity_hash g, gw_state = ''active'',
        gw_created_at = utc_text now, gw_terminal_at = None\<rparr>"
    using assms(2) by (simp add: find_grant_def granted_def find_append)
  then show ?thesis
    by (simp add: load_grant_def grant_codec.dec_enc [OF assms(1)] integrity_hash_norm)
      (simp add: integrity_hash_def canonical_hash_def)
qed

section \<open>Reading a claim back\<close>

definition claim_fields ::
  "string \<Rightarrow> string \<Rightarrow> string \<Rightarrow> string \<Rightarrow> string \<Rightarrow> string option \<Rightarrow> jobj" where
  "claim_fields operation_id grant_id operation state claimed_at completed_at =
     [(''operation_id'', JStr operation_id), (''grant_id'', JStr grant_id),
      (''operation'', JStr operation), (''state'', JStr state),
      (''claimed_at'', JStr claimed_at), (''completed_at'', opt JStr completed_at)]"

lemma claim_hash_eq: "claim_hash i g oper st t done_at =
    sha_text (canonical_json (JObj (claim_fields i g oper st t done_at)))"
  by (simp add: claim_hash_def canonical_hash_def claim_fields_def del: canonical_json.simps)

lemma claim_text_times:
  "canonical_json (JObj (claim_fields i g oper st t done_at)) =
     canonical_json (JObj (claim_fields i g oper st t' done_at)) \<longleftrightarrow> t = t'"
proof
  assume "canonical_json (JObj (claim_fields i g oper st t done_at)) =
    canonical_json (JObj (claim_fields i g oper st t' done_at))"
  then have "sorted_json (JObj (claim_fields i g oper st t done_at)) =
      sorted_json (JObj (claim_fields i g oper st t' done_at))"
    by (intro canonical.doc_inj) (cases done_at; simp add: claim_fields_def)+
  from sorted_fields [OF this] show "t = t'" by (simp add: claim_fields_def)
qed simp

lemma find_distinct:
  assumes "distinct (map f xs)" and "x \<in> set xs" and "f x = k"
  shows "find (\<lambda>y. f y = k) xs = Some x"
  using assms by (induction xs) auto

lemma find_claim_distinct:
  "ledger_ok s \<Longrightarrow> r \<in> set (db_claims s) \<Longrightarrow> find_claim (cw_operation_id r) s = Some r"
  unfolding find_claim_def by (rule find_distinct [OF ledgerD(2)]) auto

lemma claim_success:
  assumes "claim links q s = (Inr c, s')"
  obtains g where "load_grant (dq_grant_id q) s = Inr (g, ''active'')"
    "denial_reason links g ''active'' q = None" "c = claim_of q"
    "s' = logged (dq_grant_id q) ''operation_claimed'' (dq_operation q) (dq_requested_at q) (claimed q s)"
    "find_claim (dq_operation_id q) s = None"
proof (cases "load_grant (dq_grant_id q) s")
  case (Inr gs)
  obtain g st where gs: "gs = (g, st)" by (cases gs)
  have none: "denial_reason links g st q = None"
    using assms Inr gs by (cases "denial_reason links g st q") (auto simp: claim_eq split: if_splits)
  then have "st = ''active''" unfolding denial_None by blast
  with that assms Inr gs none show thesis by (auto simp: claim_eq split: if_splits)
qed (use assms in \<open>simp add: claim_eq\<close>)

lemma claim_stores:
  assumes "claim links q s = (Inr c, s')"
  shows "dq_operation_id q \<in> cw_operation_id ` set (db_claims s')"
  using assms by (rule claim_success) (auto simp: claimed_def new_claim_row_def)

lemma grant_claim_distinct:
  assumes "ledger_ok s" "r \<in> set (db_claims s)" "cw_operation_id r = dm_operation_id c"
    "cw_grant_id r = dm_grant_id c"
  shows "grant_claim c s = Some r"
proof -
  have "\<exists>x. grant_claim c s = Some x"
    using assms(2-4) by (auto simp: grant_claim_def find_None_iff simp flip: not_None_eq)
  then obtain x where x: "grant_claim c s = Some x" ..
  then have "x \<in> set (db_claims s)" "cw_operation_id x = dm_operation_id c"
    by (auto simp: grant_claim_def find_Some_iff)
  with x find_claim_distinct [OF assms(1,2)] find_claim_distinct [OF assms(1), of x] assms(3)
  show ?thesis by simp
qed

lemma claim_record_new:
  assumes "claim links q s = (Inr c, s')" and "dt_ok (dq_requested_at q)"
  shows "c = claim_of q" and "find_claim (dq_operation_id q) s' =
      Some (new_claim_row q (utc_text (dq_requested_at q)))"
    and "claim_record (dq_operation_id q) s' = (Inr \<lparr>dn_claim = (claim_of q)
      \<lparr>dm_claimed_at := to_utc (dq_requested_at q)\<rparr>, dn_state = ''claimed'', dn_completed_at = None\<rparr>, s')"
proof -
  from assms(1) have aware: "\<not> tzinfo_None (dq_requested_at q)" and c: "c = claim_of q"
    and none: "find_claim (dq_operation_id q) s = None"
    and s': "s' = logged (dq_grant_id q) ''operation_claimed'' (dq_operation q) (dq_requested_at q) (claimed q s)"
    by (auto elim!: claim_success dest: denial_None_aware)
  show "c = claim_of q" by (rule c)
  show row: "find_claim (dq_operation_id q) s' = Some (new_claim_row q (utc_text (dq_requested_at q)))"
    using none by (simp add: s' find_claim_def claimed_def find_append)
      (simp add: new_claim_row_def)
  show "claim_record (dq_operation_id q) s' = (Inr \<lparr>dn_claim = (claim_of q)
      \<lparr>dm_claimed_at := to_utc (dq_requested_at q)\<rparr>, dn_state = ''claimed'', dn_completed_at = None\<rparr>, s')"
    using aware assms(2)
    by (simp add: claim_record_def row verify_claim_def read_claim_times_def)
      (simp add: new_claim_row_def claim_of_def)
qed

lemma completed_record:
  assumes ok: "ledger_ok s" and complete: "complete c now s = (Inr (), s')" and now: "dt_ok now"
    and found: "find_claim (dm_operation_id c) s = Some row"
    and claimed: "cw_claimed_at row = utc_text d" "stamp d"
  shows "returns (fst (claim_record (dm_operation_id c) s')) \<longleftrightarrow>
    claim_hash (dm_operation_id c) (dm_grant_id c) (dm_operation c) ''completed''
      (utc_text (dm_claimed_at c)) (Some (utc_text now)) =
    claim_hash (dm_operation_id c) (dm_grant_id c) (dm_operation c) ''completed''
      (cw_claimed_at row) (Some (utc_text now))"
proof -
  from complete have comp: "completable c now s" and s': "s' = logged (dm_grant_id c)
      ''operation_completed'' (dm_operation c) now (finished c now s)"
    by (simp_all add: complete_Inr)
  then obtain g where aware: "\<not> tzinfo_None now"
    using in_window_aware unfolding completable_def by blast
  have row: "row \<in> set (db_claims s)" "cw_operation_id row = dm_operation_id c"
    using found by (auto simp: find_claim_def find_Some_iff)
  obtain r where "filter (updates c) (db_claims s) = [r]"
    using comp by (auto simp: completable_def length_Suc_conv)
  then have r: "r \<in> set (db_claims s)" "updates c r"
    by (metis filter_eq_ConsD in_set_conv_decomp, metis filter_eq_ConsD)
  then have "r = row" using find_claim_distinct [OF ok r(1)] found by (simp add: updates_def)
  let ?row = "completed_row c (utc_text (dm_claimed_at c)) (utc_text now) row"
  have "?row \<in> set (db_claims s')"
    using r \<open>r = row\<close> by (auto simp: s' finished_def)
  moreover have "ledger_ok s'" using complete_ledger [OF ok, of c now] complete by simp
  ultimately have "find_claim (dm_operation_id c) s' = Some ?row"
    using find_claim_distinct [of s' ?row] row(2) by (simp add: completed_row_def)
  moreover have "cw_operation_id row = dm_operation_id c" "cw_grant_id row = dm_grant_id c"
    "cw_operation row = dm_operation c" "cw_state row = ''claimed''"
    using r(2) \<open>r = row\<close> by (simp_all add: updates_def)
  ultimately show ?thesis
    using aware now claimed
    by (auto simp: claim_record_def verify_claim_def completed_row_def read_claim_times_def stamp_def)
qed

lemma claim_returns:
  "returns (fst (claim links q s)) \<longleftrightarrow> (\<exists>g st. load_grant (dq_grant_id q) s = Inr (g, st) \<and>
     denial_reason links g st q = None \<and> dq_operation_id q \<notin> cw_operation_id ` set (db_claims s))"
  by (auto simp: claim_eq find_claim_None split: sum.splits option.splits prod.splits)

definition within_grant ::
  "(path \<Rightarrow> bool) \<Rightarrow> DelegatedGrant \<Rightarrow> DelegatedOperationRequest \<Rightarrow> bool" where
  \<comment> \<open>what a grant authorises\<close>
  "within_grant links g q =
     (\<not> tzinfo_None (dq_requested_at q) \<and> instant (dl_starts_at g) \<le> instant (dq_requested_at q) \<and>
      instant (dq_requested_at q) < instant (dl_expires_at g) \<and> dq_owner_id q = dl_owner_id g \<and>
      dq_operation q \<in> set (dl_allowed_operations g) \<and>
      dq_repository_root q = dl_repository_root g \<and> dq_branch q = dl_branch g \<and>
      (\<forall>p \<in> set (dq_paths q).
         (\<exists>allowed \<in> set (dl_allowed_paths g). is_within (path_of p) (path_of allowed)) \<and>
         \<not> has_symlink_component links (path_of p) (path_of (dl_repository_root g))) \<and>
      set (dq_source_scopes q) \<subseteq> set (dl_allowed_source_scopes g) \<and> operation_controls g q)"

lemma denial_within:
  assumes "DelegatedGrant_init g = Inr g"
  shows "denial_reason links g st q = None \<longleftrightarrow> st = ''active'' \<and> within_grant links g q"
  unfolding denial_None within_grant_def path_drifts_def list_ex_iff
  using valid_grant_branch [OF assms] valid_grant_operation [OF assms] by auto

section \<open>A sample grant\<close>

definition grant_start :: datetime where "grant_start = Aware 0 0"
definition grant_noon :: datetime where "grant_noon = Aware 43200000000 0"
definition grant_end :: datetime where "grant_end = Aware day_us 0"

definition sample_grant :: DelegatedGrant where
  "sample_grant =
     \<lparr>dl_grant_id = ''grant-1'', dl_owner_id = ''owner'', dl_repository_root = ''/repo'',
      dl_branch = ''feature/x'', dl_starts_at = grant_start, dl_expires_at = grant_end,
      dl_allowed_operations = [''repository.write'', ''git.commit.validated_increment''],
      dl_allowed_paths = [''/repo/src''], dl_allowed_source_scopes = [],
      dl_provider = ''openai.api'', dl_model = ''gpt-5-mini-2025-08-07'',
      dl_disclosure_policy = ''openai-daily-brief-pilot-v1'',
      dl_allowed_categories = [''engineering.metadata''], dl_credential_mechanisms = [],
      dl_security_domain = ''EDN'', dl_classification_scheme = ''edn'',
      dl_classification_level = ''confidential'', dl_max_requests_per_day = 2,
      dl_max_successes_per_day = 1, dl_max_retries_per_day = 1, dl_max_daily_spend_aud = 2,
      dl_max_monthly_spend_aud = 20, dl_max_output_tokens = 2000, dl_kill_switch_id = ''kill''\<rparr>"

definition sample_approval :: OwnerDelegationApproval where
  "sample_approval = \<lparr>oa_owner_id = ''owner'', oa_grant_id = ''grant-1'',
     oa_grant_hash = integrity_hash sample_grant, oa_approved_at = grant_start,
     oa_expires_at = grant_end\<rparr>"

definition sample_operation :: DelegatedOperationRequest where
  "sample_operation =
     \<lparr>dq_operation_id = ''operation-1'', dq_grant_id = ''grant-1'', dq_owner_id = ''owner'',
      dq_operation = ''repository.write'', dq_repository_root = ''/repo'',
      dq_branch = ''feature/x'', dq_requested_at = grant_noon, dq_paths = [''/repo/src/a.py''],
      dq_source_scopes = [], dq_provider = '''', dq_model = '''', dq_disclosure_policy = '''',
      dq_categories = [], dq_credential_mechanism = '''', dq_security_domain = '''',
      dq_classification_scheme = '''', dq_classification_level = '''',
      dq_max_requests_per_day = 0, dq_max_successes_per_day = 0, dq_max_retries_per_day = 0,
      dq_max_daily_spend_aud = 0, dq_max_monthly_spend_aud = 0, dq_max_output_tokens = 0,
      dq_preflight_hash = '''', dq_underlying_controls_verified = False,
      dq_validation_passed = False, dq_exact_upstream = False\<rparr>"

definition granted_db :: DelegationDB where
  "granted_db = snd (activate sample_grant sample_approval grant_noon empty_db)"

definition claimed_db :: DelegationDB where
  "claimed_db = snd (claim (\<lambda>_. False) sample_operation granted_db)"

definition revoked_db :: DelegationDB where
  "revoked_db = snd (revoke ''grant-1'' ''owner'' grant_noon claimed_db)"

lemma grant_times:
  "dt_ok grant_start" "dt_ok grant_noon" "dt_ok grant_end" "\<not> tzinfo_None grant_start"
  "\<not> tzinfo_None grant_noon" "\<not> tzinfo_None grant_end" "instant grant_start = 0"
  "instant grant_noon = 43200000000" "instant grant_end = day_us"
  by (simp_all add: grant_start_def grant_noon_def grant_end_def dt_ok_def instant_def max_wall_def
      day_us_def)

lemma sample_grant_wf: "DelegatedGrant_wf sample_grant"
proof -
  have "returns (DelegatedGrant_init sample_grant)" by code_simp
  then show ?thesis by (simp add: DelegatedGrant_wf_def) (simp add: sample_grant_def grant_times)
qed

lemma sample_grant_fields:
  "dl_grant_id sample_grant = ''grant-1''" "dl_owner_id sample_grant = ''owner''"
  "dl_starts_at sample_grant = grant_start" "dl_expires_at sample_grant = grant_end"
  by (simp_all add: sample_grant_def)

lemma sample_approved: "\<not> approval_invalid sample_grant sample_approval grant_noon"
  by (simp add: approval_invalid_def sample_approval_def grant_times sample_grant_fields dt_eq_def
      day_us_def)

lemma granted_db_eq: "granted_db =
    logged ''grant-1'' ''grant_activated'' [] grant_noon (granted sample_grant grant_noon empty_db)"
  using sample_approved
  by (simp add: granted_db_def activate_eq find_grant_def empty_db_def sample_grant_fields)

lemma granted_db_loads:
  "load_grant ''grant-1'' granted_db = Inr (DelegatedGrant_norm sample_grant, ''active'')"
  using load_activated [OF sample_grant_wf, of empty_db] unfolding granted_db_eq
  by (simp add: sample_grant_fields find_grant_def empty_db_def)

lemma sample_not_denied:
  "denial_reason (\<lambda>_. False) (DelegatedGrant_norm sample_grant) ''active'' sample_operation = None"
  by code_simp

lemma sample_claims:
  "claim (\<lambda>_. False) sample_operation granted_db = (Inr (claim_of sample_operation), claimed_db)"
proof -
  have ids: "dq_grant_id sample_operation = ''grant-1''" by (simp add: sample_operation_def)
  have "find_claim (dq_operation_id sample_operation) granted_db = None"
    by (simp add: find_claim_def granted_db_eq empty_db_def)
  then show ?thesis
    unfolding claimed_db_def claim_eq ids granted_db_loads using sample_not_denied by simp
qed

section \<open>Bounds of a grant\<close>



section \<open>Activating and claiming\<close>

text \<open>Activation is bound to the owner's approval: it succeeds exactly when the approval names
  the grant's owner, identifier, content hash and expiry, was given by now, the grant has not
  expired, and its identifier is new; then the grant loads as active with the same content.\<close>

theorem activation_exact:
  assumes "DelegatedGrant_wf g"
  shows "(returns (fst (activate g a now s)) \<longleftrightarrow>
      \<not> tzinfo_None now \<and> \<not> tzinfo_None (oa_approved_at a) \<and> \<not> tzinfo_None (oa_expires_at a) \<and>
      oa_owner_id a = dl_owner_id g \<and> oa_grant_id a = dl_grant_id g \<and>
      oa_grant_hash a = integrity_hash g \<and> dt_eq (oa_expires_at a) (dl_expires_at g) \<and>
      instant (oa_approved_at a) \<le> instant now \<and> instant now < instant (dl_expires_at g) \<and>
      dl_grant_id g \<notin> gw_grant_id ` set (db_grants s)) \<and>
    (returns (fst (activate g a now s)) \<longrightarrow> load_grant (dl_grant_id g) (snd (activate g a now s)) =
      Inr (DelegatedGrant_norm g, ''active''))"
  using find_grant_None [of "dl_grant_id g" s] load_activated [OF assms, of s]
  by (auto simp: activate_eq approval_invalid_def)

theorem activation_exact_witness:
  "returns (fst (activate sample_grant sample_approval grant_noon empty_db)) \<and>
   load_grant ''grant-1'' (snd (activate sample_grant sample_approval grant_noon empty_db)) =
     Inr (DelegatedGrant_norm sample_grant, ''active'')"
  using activation_exact [OF sample_grant_wf, of sample_approval grant_noon empty_db]
  by (simp add: sample_approval_def grant_times sample_grant_fields dt_eq_def day_us_def empty_db_def)

text \<open>(C7) An operation is claimed exactly when it is authorised: its grant is intact and active,
  the time is inside the grant's window, the owner, repository and branch are the grant's, the
  operation is allowed, every path is inside an allowed path and crosses no symbolic link, the
  source scopes are the grant's, the controls of the operation's group hold, and its identifier
  was never used.\<close>

theorem claim_authorised_iff:
  "returns (fst (claim links q s)) \<longleftrightarrow> (\<exists>g. load_grant (dq_grant_id q) s = Inr (g, ''active'') \<and>
     within_grant links g q \<and> dq_operation_id q \<notin> cw_operation_id ` set (db_claims s))"
proof
  assume "returns (fst (claim links q s))"
  then obtain g st where load: "load_grant (dq_grant_id q) s = Inr (g, st)"
    and "denial_reason links g st q = None" "dq_operation_id q \<notin> cw_operation_id ` set (db_claims s)"
    unfolding claim_returns by blast
  with denial_within [OF load_grant_init [OF load]]
  show "\<exists>g. load_grant (dq_grant_id q) s = Inr (g, ''active'') \<and> within_grant links g q \<and>
      dq_operation_id q \<notin> cw_operation_id ` set (db_claims s)" by simp
next
  assume "\<exists>g. load_grant (dq_grant_id q) s = Inr (g, ''active'') \<and> within_grant links g q \<and>
      dq_operation_id q \<notin> cw_operation_id ` set (db_claims s)"
  then obtain g where load: "load_grant (dq_grant_id q) s = Inr (g, ''active'')"
    and "within_grant links g q" "dq_operation_id q \<notin> cw_operation_id ` set (db_claims s)" by blast
  with denial_within [OF load_grant_init [OF load]] show "returns (fst (claim links q s))"
    unfolding claim_returns by blast
qed

theorem claim_authorised_iff_witness:
  "returns (fst (claim (\<lambda>_. False) sample_operation granted_db)) \<and>
   within_grant (\<lambda>_. False) (DelegatedGrant_norm sample_grant) sample_operation"
proof -
  have ids: "dq_grant_id sample_operation = ''grant-1''" by (simp add: sample_operation_def)
  have "returns (fst (claim (\<lambda>_. False) sample_operation granted_db))" by (simp add: sample_claims)
  with claim_authorised_iff [of "\<lambda>_. False" sample_operation granted_db] granted_db_loads
  show ?thesis unfolding ids by auto
qed

section \<open>Ending and single use\<close>

lemma claimed_db_eq: "claimed_db = logged ''grant-1'' ''operation_claimed'' ''repository.write''
    grant_noon (claimed sample_operation granted_db)"
  using sample_claims
  by (auto simp: claim_eq sample_operation_def split: sum.splits option.splits prod.splits if_splits)

lemma load_grant_same: "db_grants u = db_grants s \<Longrightarrow> load_grant i u = load_grant i s"
  by (simp add: load_grant_def find_grant_def)

lemma claimed_db_loads:
  "load_grant ''grant-1'' claimed_db = Inr (DelegatedGrant_norm sample_grant, ''active'')"
  using granted_db_loads load_grant_same [of claimed_db granted_db "''grant-1''"]
  by (simp add: claimed_db_eq)

lemma revoked_db_state: "grant_state ''grant-1'' revoked_db = Some ''revoked''"
proof -
  have "dl_owner_id (DelegatedGrant_norm sample_grant) = ''owner''"
    by (simp add: DelegatedGrant_norm_def sample_grant_def)
  then have "revoked_db = logged ''grant-1'' ''grant_revoked'' [] grant_noon
      (ended ''grant-1'' grant_noon ''revoked'' claimed_db)"
    by (simp add: revoked_db_def revoke_def terminal_eq claimed_db_loads grant_times)
  then show ?thesis
    using load_grant_state [OF claimed_db_loads] grant_state_ended [of "''grant-1''" "''grant-1''"]
    by (metis grant_state_simps(1) option.map(2))
qed

text \<open>(C22) A revoked or killed grant is ended for good: over every further sequence of calls its
  state stays what it is, and no operation under it is claimed, completed or validated.\<close>

theorem ended_grant_stays_ended:
  assumes "grant_state i s = Some st" and "st \<noteq> ''active''"
  shows "grant_state i (delegation_calls cs s) = Some st \<and>
    (\<forall>links q. dq_grant_id q = i \<longrightarrow> \<not> returns (fst (claim links q (delegation_calls cs s)))) \<and>
    (\<forall>c now. dm_grant_id c = i \<longrightarrow> \<not> returns (fst (complete c now (delegation_calls cs s))) \<and>
       \<not> returns (fst (validate_claim c now (delegation_calls cs s))))"
proof -
  have "grant_state i (delegation_calls cs s) = Some st" using assms by (rule ended_forever)
  then show ?thesis using ended_refuses [of i "delegation_calls cs s" st] assms(2) by blast
qed

theorem ended_grant_stays_ended_witness:
  "\<not> returns (fst (claim (\<lambda>_. False) (sample_operation\<lparr>dq_operation_id := ''operation-2''\<rparr>)
       (delegation_calls [CActivate sample_grant sample_approval grant_noon] revoked_db)))"
proof -
  have "dq_grant_id (sample_operation\<lparr>dq_operation_id := ''operation-2''\<rparr>) = ''grant-1''"
    by (simp add: sample_operation_def)
  with ended_grant_stays_ended [OF revoked_db_state] show ?thesis by blast
qed

lemma completed_once:
  assumes ok: "ledger_ok s" and comp: "complete c now s = (Inr (), s')"
    and same: "dm_operation_id c' = dm_operation_id c"
  shows "\<not> returns (fst (complete c' now' (delegation_calls cs s')))"
proof -
  obtain r where "filter (updates c) (db_claims s) = [r]" and s': "s' = logged (dm_grant_id c)
      ''operation_completed'' (dm_operation c) now (finished c now s)"
    using comp by (auto simp: complete_Inr completable_def length_Suc_conv)
  then have r: "r \<in> set (db_claims s)" "updates c r"
    by (metis filter_eq_ConsD in_set_conv_decomp, metis filter_eq_ConsD)
  define row where "row = completed_row c (utc_text (dm_claimed_at c)) (utc_text now) r"
  have "row \<in> set (db_claims s')" using r by (auto simp: s' finished_def row_def)
  moreover have row: "cw_state row \<noteq> ''claimed''" "cw_operation_id row = dm_operation_id c"
    using r(2) by (simp_all add: row_def completed_row_def updates_def)
  ultimately have kept: "row \<in> set (db_claims (delegation_calls cs s'))"
    by (intro delegation_calls_keep [where P = "\<lambda>s. row \<in> set (db_claims s)"] completed_kept)
  have "ledger_ok s'" using complete_ledger [OF ok, of c now] comp by simp
  then have ok': "ledger_ok (delegation_calls cs s')" by (rule ledger_calls)
  have "\<not> updates c' x" if "x \<in> set (db_claims (delegation_calls cs s'))" for x
  proof
    assume x: "updates c' x"
    then have "cw_operation_id x = cw_operation_id row" using same row(2) by (simp add: updates_def)
    then have "x = row"
      using find_claim_distinct [OF ok' that] find_claim_distinct [OF ok' kept] by (metis option.inject)
    with x row(1) show False by (simp add: updates_def)
  qed
  then have "filter (updates c') (db_claims (delegation_calls cs s')) = []"
    by (simp add: filter_empty_conv)
  then have "\<not> completable c' now' (delegation_calls cs s')"
    unfolding completable_def by (metis list.size(3) zero_neq_one)
  then show ?thesis
    using complete_Inr [of c' now' "delegation_calls cs s'" "snd (complete c' now' (delegation_calls cs s'))"]
    by (cases "complete c' now' (delegation_calls cs s')"; cases "fst (complete c' now' (delegation_calls cs s'))")
      auto
qed

text \<open>(C23) An operation identifier is used once: after it was claimed, no sequence of calls lets it
  be claimed again, and after its claim was completed, none lets it be completed again.\<close>

theorem operation_single_use:
  assumes "ledger_ok s"
  shows "(claim links q s = (Inr c, s') \<longrightarrow> dq_operation_id q' = dq_operation_id q \<longrightarrow>
      \<not> returns (fst (claim links' q' (delegation_calls cs s')))) \<and>
    (complete m now s = (Inr (), s') \<longrightarrow> dm_operation_id m' = dm_operation_id m \<longrightarrow>
      \<not> returns (fst (complete m' now' (delegation_calls cs s'))))"
  using operation_used_once [OF claim_stores] completed_once [OF assms] by blast

lemma granted_db_ok: "ledger_ok granted_db"
  unfolding granted_db_def by (rule activate_ledger [OF ledger_empty])

theorem operation_single_use_witness:
  "claim (\<lambda>_. False) sample_operation granted_db = (Inr (claim_of sample_operation), claimed_db) \<and>
   \<not> returns (fst (claim (\<lambda>_. False) sample_operation (delegation_calls [] claimed_db)))"
  using operation_single_use [OF granted_db_ok] sample_claims by blast

section \<open>The audit chain\<close>

lemma audit_grows_step: "\<exists>rs. db_audit (delegation_step c s) = db_audit s @ rs"
  by (cases rule: step_cases [of c s]) auto

lemma audit_grows: "\<exists>rs. db_audit (delegation_calls cs s) = db_audit s @ rs"
proof (induction cs arbitrary: s)
  case (Cons c cs)
  then show ?case using audit_grows_step [of c s] by (metis append_assoc delegation_calls_simps(2))
qed simp

text \<open>(C24) The audit of the delegation store always verifies: after any sequence of calls on a new
  store, returning or raising, reading the events of a grant returns all of them in the order
  they were recorded, the log has only grown, and grant and operation identifiers are unique.\<close>

theorem delegation_audit_verifies:
  "audit_events i (delegation_calls cs empty_db) =
     (Inr (events_of i (delegation_calls cs empty_db)), delegation_calls cs empty_db) \<and>
   (\<exists>rs. db_audit (delegation_calls (cs @ cs') empty_db) =
      db_audit (delegation_calls cs empty_db) @ rs) \<and>
   distinct (map gw_grant_id (db_grants (delegation_calls cs empty_db))) \<and>
   distinct (map cw_operation_id (db_claims (delegation_calls cs empty_db)))"
proof -
  have ok: "ledger_ok (delegation_calls cs empty_db)" by (rule ledger_calls [OF ledger_empty])
  have "delegation_calls (cs @ cs') empty_db = delegation_calls cs' (delegation_calls cs empty_db)"
    by (simp add: delegation_calls_def)
  with audit_events_ledger [OF ok] audit_grows [of cs' "delegation_calls cs empty_db"] ledgerD [OF ok]
  show ?thesis by simp
qed

text \<open>(C25) The audit chain of a grant is tamper-evident: two tables whose chains both verify and
  end in the same event hash hold the same events of the grant, unless two of their events
  exhibit a SHA-256 collision.\<close>

theorem audit_chain_tamper_evident:
  assumes "fst (audit_events i s) = Inr evs" and "fst (audit_events i s') = Inr evs'"
    and "latest_hash [] (grant_events i s) = latest_hash [] (grant_events i s')"
  shows "grant_events i s = grant_events i s' \<or>
    (\<exists>r \<in> set (grant_events i s). \<exists>r' \<in> set (grant_events i s'). row_collision r r')"
proof -
  have "\<forall>r \<in> set (grant_events i s) \<union> set (grant_events i s'). aw_grant_id r = i"
    by (auto simp: grant_events_def)
  then show ?thesis
    using chain_commits [of i "grant_events i s" evs "grant_events i s'" evs'] assms
    by (auto simp: audit_events_def)
qed

theorem audit_chain_tamper_evident_witness:
  "grant_events ''grant-1'' claimed_db =
     grant_events ''grant-1'' (snd (validate_claim (claim_of sample_operation) grant_noon claimed_db)) \<or>
   (\<exists>r \<in> set (grant_events ''grant-1'' claimed_db).
      \<exists>r' \<in> set (grant_events ''grant-1'' claimed_db). row_collision r r')"
proof -
  have "ledger_ok claimed_db" unfolding claimed_db_def by (rule claim_ledger [OF granted_db_ok])
  then have "fst (audit_events ''grant-1'' claimed_db) = Inr (events_of ''grant-1'' claimed_db)"
    by (simp add: audit_events_ledger)
  moreover have "snd (validate_claim (claim_of sample_operation) grant_noon claimed_db) = claimed_db"
    by (simp add: validate_claim_def)
  ultimately show ?thesis
    using audit_chain_tamper_evident [of "''grant-1''" claimed_db] by metis
qed

section \<open>The life of a claim\<close>

text \<open>A claim can be read back: right after it is made, \<open>claim_record\<close> returns it, with its
  time in UTC, as claimed and not completed, and \<open>validate_claim\<close> accepts it exactly while the
  grant's window is open.\<close>

theorem claim_round_trip:
  assumes "claim links q s = (Inr c, s')" and "dt_ok (dq_requested_at q)" and "ledger_ok s"
  shows "\<exists>g. load_grant (dq_grant_id q) s' = Inr (g, ''active'') \<and>
    claim_record (dq_operation_id q) s' = (Inr \<lparr>dn_claim = c\<lparr>dm_claimed_at := to_utc (dm_claimed_at c)\<rparr>,
      dn_state = ''claimed'', dn_completed_at = None\<rparr>, s') \<and>
    (\<forall>now. returns (fst (validate_claim c now s')) \<longleftrightarrow> in_window g now = Inr True)"
proof -
  note new = claim_record_new [OF assms(1,2)]
  obtain g where load: "load_grant (dq_grant_id q) s = Inr (g, ''active'')"
    and s': "s' = logged (dq_grant_id q) ''operation_claimed'' (dq_operation q) (dq_requested_at q) (claimed q s)"
    using assms(1) by (rule claim_success)
  then have load': "load_grant (dq_grant_id q) s' = Inr (g, ''active'')"
    using load load_grant_same [of s' s] by (simp add: s')
  have "ledger_ok s'" using claim_ledger [OF assms(3), of links q] assms(1) by simp
  moreover have "new_claim_row q (utc_text (dq_requested_at q)) \<in> set (db_claims s')"
    by (simp add: s' claimed_def)
  ultimately have row: "grant_claim c s' = Some (new_claim_row q (utc_text (dq_requested_at q)))"
    using new(1) by (intro grant_claim_distinct) (simp_all add: new_claim_row_def claim_of_def)
  have ids: "dm_grant_id c = dq_grant_id q" "dm_operation c = dq_operation q"
    "dm_claimed_at c = dq_requested_at q"
    by (simp_all add: new(1) claim_of_def)
  have "returns (fst (validate_claim c now s')) \<longleftrightarrow> in_window g now = Inr True" for now
    by (cases "in_window g now")
      (simp_all add: validate_claim_def row ids load' verify_claim_def new_claim_row_def)
  then show ?thesis using load' new(3) by (simp add: new(1) claim_of_def)
qed

theorem claim_round_trip_witness:
  "\<exists>g. load_grant ''grant-1'' claimed_db = Inr (g, ''active'') \<and>
     returns (fst (claim_record ''operation-1'' claimed_db)) \<and>
     (\<forall>now. returns (fst (validate_claim (claim_of sample_operation) now claimed_db)) \<longleftrightarrow>
        in_window g now = Inr True)"
proof -
  have ids: "dq_grant_id sample_operation = ''grant-1''" "dq_operation_id sample_operation = ''operation-1''"
    "dq_requested_at sample_operation = grant_noon" by (simp_all add: sample_operation_def)
  from claim_round_trip [OF sample_claims _ granted_db_ok] show ?thesis
    unfolding ids using grant_times(2) by auto
qed

definition completion_text :: "DelegatedClaim \<Rightarrow> string \<Rightarrow> datetime \<Rightarrow> string" where
  \<comment> \<open>the text the integrity hash of a completed claim covers, for a claim time\<close>
  "completion_text c claimed_at now = canonical_json (JObj (claim_fields (dm_operation_id c)
     (dm_grant_id c) (dm_operation c) ''completed'' claimed_at (Some (utc_text now))))"

text \<open>(C30) A completed claim can be read back exactly when the caller's claim carries the claim time
  the row holds: \<open>complete\<close> computes the new integrity hash from the caller's \<open>claimed_at\<close> but
  keeps the row's, so after completing with another time \<open>claim_record\<close> raises (or the two
  texts exhibit a SHA-256 collision).\<close>

theorem completion_readable_iff:
  assumes "ledger_ok s" and "complete c now s = (Inr (), s')" and "dt_ok now"
    and "find_claim (dm_operation_id c) s = Some row"
    and "cw_claimed_at row = utc_text d" and "stamp d"
  shows "(utc_text (dm_claimed_at c) = cw_claimed_at row \<longrightarrow>
      returns (fst (claim_record (dm_operation_id c) s'))) \<and>
    (utc_text (dm_claimed_at c) \<noteq> cw_claimed_at row \<longrightarrow>
      \<not> returns (fst (claim_record (dm_operation_id c) s')) \<or>
      completion_text c (utc_text (dm_claimed_at c)) now \<noteq> completion_text c (cw_claimed_at row) now \<and>
      sha_text (completion_text c (utc_text (dm_claimed_at c)) now) =
        sha_text (completion_text c (cw_claimed_at row) now))"
  using completed_record [OF assms] unfolding claim_hash_eq completion_text_def
  by (simp add: claim_text_times del: canonical_json.simps)

definition late_claim :: DelegatedClaim where
  "late_claim = (claim_of sample_operation)\<lparr>dm_claimed_at := grant_start\<rparr>"

definition completed_db :: DelegationDB where
  "completed_db = snd (complete late_claim grant_noon claimed_db)"

lemma claimed_rows: "db_claims claimed_db = [new_claim_row sample_operation (utc_text grant_noon)]"
  by (simp add: claimed_db_eq claimed_def granted_db_eq granted_def empty_db_def)
    (simp add: sample_operation_def)

lemma late_claim_fields:
  "dm_operation_id late_claim = ''operation-1''" "dm_grant_id late_claim = ''grant-1''"
  "dm_operation late_claim = ''repository.write''" "dm_claimed_at late_claim = grant_start"
  by (simp_all add: late_claim_def claim_of_def sample_operation_def)

lemma sample_row_fields:
  "cw_operation_id (new_claim_row sample_operation t) = ''operation-1''"
  "cw_grant_id (new_claim_row sample_operation t) = ''grant-1''"
  "cw_operation (new_claim_row sample_operation t) = ''repository.write''"
  "cw_state (new_claim_row sample_operation t) = ''claimed''"
  "cw_claimed_at (new_claim_row sample_operation t) = t"
  "verify_claim (new_claim_row sample_operation t) = Inr ()"
  by (simp_all add: verify_claim_def) (simp_all add: new_claim_row_def sample_operation_def)

lemma late_completes: "complete late_claim grant_noon claimed_db = (Inr (), completed_db)"
proof -
  have "dl_starts_at (DelegatedGrant_norm sample_grant) = to_utc grant_start"
    "dl_expires_at (DelegatedGrant_norm sample_grant) = to_utc grant_end"
    by (simp_all add: DelegatedGrant_norm_def sample_grant_def)
  then have "in_window (DelegatedGrant_norm sample_grant) grant_noon = Inr True"
    by (simp add: in_window_def grant_times day_us_def)
  then have "completable late_claim grant_noon claimed_db"
    unfolding completable_def late_claim_fields claimed_db_loads
    by (simp add: claimed_rows grant_claim_def updates_def late_claim_fields sample_row_fields grant_times)
  then have "complete late_claim grant_noon claimed_db = (Inr (), logged (dm_grant_id late_claim)
      ''operation_completed'' (dm_operation late_claim) grant_noon
      (finished late_claim grant_noon claimed_db))"
    unfolding complete_Inr by simp
  then show ?thesis by (simp add: completed_db_def)
qed

theorem completion_readable_iff_witness:
  "(\<exists>e. fst (claim_record ''operation-1'' completed_db) = Inl e) \<or>
   completion_text late_claim (utc_text grant_start) grant_noon \<noteq>
     completion_text late_claim (utc_text grant_noon) grant_noon \<and>
   sha_text (completion_text late_claim (utc_text grant_start) grant_noon) =
     sha_text (completion_text late_claim (utc_text grant_noon) grant_noon)"
proof -
  have "ledger_ok claimed_db" unfolding claimed_db_def by (rule claim_ledger [OF granted_db_ok])
  moreover have "find_claim (dm_operation_id late_claim) claimed_db =
      Some (new_claim_row sample_operation (utc_text grant_noon))"
    by (simp add: find_claim_def claimed_rows late_claim_fields sample_row_fields)
  moreover have "utc_text grant_start \<noteq> utc_text grant_noon" by code_simp
  moreover have "stamp grant_noon" by (simp add: stamp_def grant_times)
  ultimately show ?thesis
    using completion_readable_iff [OF _ late_completes grant_times(2), of
        "new_claim_row sample_operation (utc_text grant_noon)" grant_noon]
    unfolding late_claim_fields sample_row_fields by (metis returns_simps(1) sum.exhaust)
qed

end
