(* ===== verification/CaptureModels.thy ===== *)
theory CaptureModels
  imports CaptureText
begin

text \<open>
  \<open>src/edn/work_capture/models.py\<close>: the enums, the reference classes, the follow-up, the project
  defaults, the draft of a capture and the canonical capture, with their constructors and codecs.
  A constructor that normalises its fields returns the normalised record. The class
  \<open>EvidenceRef\<close> of this module is \<open>CaptureEvidence\<close> here, because the core has another class of
  that name. Enum members carry a prefix per enum.
\<close>

section \<open>Enums\<close>

datatype WorkType = WT_SITE_WORK | WT_COMMISSIONING | WT_TESTING | WT_FAULT
  | WT_PROJECT_DELIVERY | WT_REMOTE_SUPPORT | WT_ENGINEERING | WT_OPERATIONAL | WT_OTHER

fun WorkType_value :: "WorkType \<Rightarrow> string" where
  "WorkType_value WT_SITE_WORK = ''site_work''"
| "WorkType_value WT_COMMISSIONING = ''commissioning''"
| "WorkType_value WT_TESTING = ''testing''"
| "WorkType_value WT_FAULT = ''fault''"
| "WorkType_value WT_PROJECT_DELIVERY = ''project_delivery''"
| "WorkType_value WT_REMOTE_SUPPORT = ''remote_support''"
| "WorkType_value WT_ENGINEERING = ''engineering''"
| "WorkType_value WT_OPERATIONAL = ''operational''"
| "WorkType_value WT_OTHER = ''other''"

definition WorkType_members :: "WorkType list" where
  "WorkType_members = [WT_SITE_WORK, WT_COMMISSIONING, WT_TESTING, WT_FAULT,
     WT_PROJECT_DELIVERY, WT_REMOTE_SUPPORT, WT_ENGINEERING, WT_OPERATIONAL, WT_OTHER]"

definition WorkType_of :: "json \<Rightarrow> WorkType result" where
  "WorkType_of = enum_of WorkType_members WorkType_value"

datatype OutcomeStatus = OS_COMPLETED | OS_PARTIAL | OS_BLOCKED | OS_UNSUCCESSFUL
  | OS_INFORMATION_ONLY

fun OutcomeStatus_value :: "OutcomeStatus \<Rightarrow> string" where
  "OutcomeStatus_value OS_COMPLETED = ''completed''"
| "OutcomeStatus_value OS_PARTIAL = ''partial''"
| "OutcomeStatus_value OS_BLOCKED = ''blocked''"
| "OutcomeStatus_value OS_UNSUCCESSFUL = ''unsuccessful''"
| "OutcomeStatus_value OS_INFORMATION_ONLY = ''information_only''"

definition OutcomeStatus_members :: "OutcomeStatus list" where
  "OutcomeStatus_members = [OS_COMPLETED, OS_PARTIAL, OS_BLOCKED, OS_UNSUCCESSFUL,
     OS_INFORMATION_ONLY]"

definition OutcomeStatus_of :: "json \<Rightarrow> OutcomeStatus result" where
  "OutcomeStatus_of = enum_of OutcomeStatus_members OutcomeStatus_value"

datatype BillingTreatment = BT_BILLABLE | BT_NON_BILLABLE | BT_REVIEW_REQUIRED

fun BillingTreatment_value :: "BillingTreatment \<Rightarrow> string" where
  "BillingTreatment_value BT_BILLABLE = ''billable''"
| "BillingTreatment_value BT_NON_BILLABLE = ''non_billable''"
| "BillingTreatment_value BT_REVIEW_REQUIRED = ''review_required''"

definition BillingTreatment_members :: "BillingTreatment list" where
  "BillingTreatment_members = [BT_BILLABLE, BT_NON_BILLABLE, BT_REVIEW_REQUIRED]"

definition BillingTreatment_of :: "json \<Rightarrow> BillingTreatment result" where
  "BillingTreatment_of = enum_of BillingTreatment_members BillingTreatment_value"

datatype RateClass = RC_STANDARD | RC_SCHEDULED_AFTER_HOURS | RC_NIGHT | RC_OTHER

fun RateClass_value :: "RateClass \<Rightarrow> string" where
  "RateClass_value RC_STANDARD = ''standard''"
| "RateClass_value RC_SCHEDULED_AFTER_HOURS = ''scheduled_after_hours''"
| "RateClass_value RC_NIGHT = ''night''"
| "RateClass_value RC_OTHER = ''other''"

definition RateClass_members :: "RateClass list" where
  "RateClass_members = [RC_STANDARD, RC_SCHEDULED_AFTER_HOURS, RC_NIGHT, RC_OTHER]"

definition RateClass_of :: "json \<Rightarrow> RateClass result" where
  "RateClass_of = enum_of RateClass_members RateClass_value"

datatype EvidenceRequirement = ER_NOT_REQUIRED | ER_OPTIONAL | ER_REQUIRED

fun EvidenceRequirement_value :: "EvidenceRequirement \<Rightarrow> string" where
  "EvidenceRequirement_value ER_NOT_REQUIRED = ''not_required''"
| "EvidenceRequirement_value ER_OPTIONAL = ''optional''"
| "EvidenceRequirement_value ER_REQUIRED = ''required''"

definition EvidenceRequirement_members :: "EvidenceRequirement list" where
  "EvidenceRequirement_members = [ER_NOT_REQUIRED, ER_OPTIONAL, ER_REQUIRED]"

definition EvidenceRequirement_of :: "json \<Rightarrow> EvidenceRequirement result" where
  "EvidenceRequirement_of = enum_of EvidenceRequirement_members EvidenceRequirement_value"

datatype EvidenceStatus = ES_NOT_REQUIRED | ES_NOT_SUPPLIED | ES_COMPLETE | ES_PENDING

fun EvidenceStatus_value :: "EvidenceStatus \<Rightarrow> string" where
  "EvidenceStatus_value ES_NOT_REQUIRED = ''not_required''"
| "EvidenceStatus_value ES_NOT_SUPPLIED = ''not_supplied''"
| "EvidenceStatus_value ES_COMPLETE = ''complete''"
| "EvidenceStatus_value ES_PENDING = ''pending''"

definition EvidenceStatus_members :: "EvidenceStatus list" where
  "EvidenceStatus_members = [ES_NOT_REQUIRED, ES_NOT_SUPPLIED, ES_COMPLETE, ES_PENDING]"

definition EvidenceStatus_of :: "json \<Rightarrow> EvidenceStatus result" where
  "EvidenceStatus_of = enum_of EvidenceStatus_members EvidenceStatus_value"

datatype PhotoPolicy = PP_ALLOWED | PP_RESTRICTED | PP_PROHIBITED

fun PhotoPolicy_value :: "PhotoPolicy \<Rightarrow> string" where
  "PhotoPolicy_value PP_ALLOWED = ''allowed''"
| "PhotoPolicy_value PP_RESTRICTED = ''restricted''"
| "PhotoPolicy_value PP_PROHIBITED = ''prohibited''"

definition PhotoPolicy_members :: "PhotoPolicy list" where
  "PhotoPolicy_members = [PP_ALLOWED, PP_RESTRICTED, PP_PROHIBITED]"

definition PhotoPolicy_of :: "json \<Rightarrow> PhotoPolicy result" where
  "PhotoPolicy_of = enum_of PhotoPolicy_members PhotoPolicy_value"

datatype CaptureMethod = CM_POWER_APPS | CM_MICROSOFT_LISTS | CM_WEB | CM_API | CM_IMPORT
  | CM_VOICE_TRANSCRIPT

fun CaptureMethod_value :: "CaptureMethod \<Rightarrow> string" where
  "CaptureMethod_value CM_POWER_APPS = ''power_apps''"
| "CaptureMethod_value CM_MICROSOFT_LISTS = ''microsoft_lists''"
| "CaptureMethod_value CM_WEB = ''web''"
| "CaptureMethod_value CM_API = ''api''"
| "CaptureMethod_value CM_IMPORT = ''import''"
| "CaptureMethod_value CM_VOICE_TRANSCRIPT = ''voice_transcript''"

definition CaptureMethod_members :: "CaptureMethod list" where
  "CaptureMethod_members = [CM_POWER_APPS, CM_MICROSOFT_LISTS, CM_WEB, CM_API, CM_IMPORT,
     CM_VOICE_TRANSCRIPT]"

definition CaptureMethod_of :: "json \<Rightarrow> CaptureMethod result" where
  "CaptureMethod_of = enum_of CaptureMethod_members CaptureMethod_value"

datatype EvidenceKind = EK_TEST_RESULT | EK_HANDOFF_PHOTO | EK_CONFIGURATION_FILE
  | EK_COMMISSIONING_RECORD | EK_TECHNICAL_ARTIFACT | EK_OTHER

fun EvidenceKind_value :: "EvidenceKind \<Rightarrow> string" where
  "EvidenceKind_value EK_TEST_RESULT = ''test_result''"
| "EvidenceKind_value EK_HANDOFF_PHOTO = ''handoff_photo''"
| "EvidenceKind_value EK_CONFIGURATION_FILE = ''configuration_file''"
| "EvidenceKind_value EK_COMMISSIONING_RECORD = ''commissioning_record''"
| "EvidenceKind_value EK_TECHNICAL_ARTIFACT = ''technical_artifact''"
| "EvidenceKind_value EK_OTHER = ''other''"

definition EvidenceKind_members :: "EvidenceKind list" where
  "EvidenceKind_members = [EK_TEST_RESULT, EK_HANDOFF_PHOTO, EK_CONFIGURATION_FILE,
     EK_COMMISSIONING_RECORD, EK_TECHNICAL_ARTIFACT, EK_OTHER]"

definition EvidenceKind_of :: "json \<Rightarrow> EvidenceKind result" where
  "EvidenceKind_of = enum_of EvidenceKind_members EvidenceKind_value"

datatype TechnicalValue = TV_NONE | TV_CANDIDATE

fun TechnicalValue_value :: "TechnicalValue \<Rightarrow> string" where
  "TechnicalValue_value TV_NONE = ''none''"
| "TechnicalValue_value TV_CANDIDATE = ''candidate''"

definition TechnicalValue_members :: "TechnicalValue list" where
  "TechnicalValue_members = [TV_NONE, TV_CANDIDATE]"

definition TechnicalValue_of :: "json \<Rightarrow> TechnicalValue result" where
  "TechnicalValue_of = enum_of TechnicalValue_members TechnicalValue_value"

section \<open>References\<close>

record EntityRef =
  et_stable_id :: string
  et_display_name :: string
  et_source_uri :: "string option"

definition EntityRef_init :: "EntityRef \<Rightarrow> EntityRef result" where
  "EntityRef_init r =
     rbind (construct [validate_identifier (et_stable_id r) ''stable_id''] ()) (\<lambda>_.
     rbind (clean_text (et_display_name r) ''display_name'' 200) (\<lambda>display_name.
     construct [when_some (et_source_uri r) (\<lambda>u. validate_reference_uri u ''source_uri'')]
       (r\<lparr>et_display_name := display_name\<rparr>)))"

definition EntityRef_to_dict :: "EntityRef \<Rightarrow> jobj" where
  "EntityRef_to_dict r =
     [(''stable_id'', JStr (et_stable_id r)),
      (''display_name'', JStr (et_display_name r)),
      (''source_uri'', opt JStr (et_source_uri r))]"

definition EntityRef_from_dict :: "jobj \<Rightarrow> EntityRef result" where
  "EntityRef_from_dict v =
     rbind (str_item v ''stable_id'') (\<lambda>stable_id.
     rbind (str_item v ''display_name'') (\<lambda>display_name.
     EntityRef_init \<lparr>et_stable_id = stable_id, et_display_name = display_name,
       et_source_uri = as_optional_str (getd v ''source_uri'')\<rparr>))"

record ActorRef =
  ac_principal_id :: string
  ac_display_name :: string
  ac_email :: "string option"

definition ActorRef_init :: "ActorRef \<Rightarrow> ActorRef result" where
  "ActorRef_init r =
     rbind (construct [validate_identifier (ac_principal_id r) ''principal_id''] ()) (\<lambda>_.
     rbind (clean_text (ac_display_name r) ''display_name'' 200) (\<lambda>display_name.
     construct [when_some (ac_email r) (\<lambda>e.
         require (\<not> (CHR ''@'' \<notin> set e \<or> multiline e)) ''email is not valid'')]
       (r\<lparr>ac_display_name := display_name\<rparr>)))"

definition ActorRef_to_dict :: "ActorRef \<Rightarrow> jobj" where
  "ActorRef_to_dict r =
     [(''principal_id'', JStr (ac_principal_id r)),
      (''display_name'', JStr (ac_display_name r)),
      (''email'', opt JStr (ac_email r))]"

definition ActorRef_from_dict :: "jobj \<Rightarrow> ActorRef result" where
  "ActorRef_from_dict v =
     rbind (str_item v ''principal_id'') (\<lambda>principal_id.
     rbind (str_item v ''display_name'') (\<lambda>display_name.
     ActorRef_init \<lparr>ac_principal_id = principal_id, ac_display_name = display_name,
       ac_email = as_optional_str (getd v ''email'')\<rparr>))"

record CaptureEvidence =
  ce_reference_id :: string
  ce_kind :: EvidenceKind
  ce_source_uri :: string
  ce_file_name :: "string option"
  ce_content_hash :: "string option"

definition CaptureEvidence_init :: "CaptureEvidence \<Rightarrow> CaptureEvidence result" where
  "CaptureEvidence_init r =
     rbind (construct [validate_identifier (ce_reference_id r) ''reference_id'',
         validate_reference_uri (ce_source_uri r) ''source_uri''] ()) (\<lambda>_.
     rbind (optional_text (ce_file_name r) ''file_name'' 255) (\<lambda>file_name.
     construct [when_some (ce_content_hash r) (\<lambda>h.
         require (is_sha256 h) ''content_hash must be a lowercase SHA-256 value'')]
       (r\<lparr>ce_file_name := file_name\<rparr>)))"

definition CaptureEvidence_to_dict :: "CaptureEvidence \<Rightarrow> jobj" where
  "CaptureEvidence_to_dict r =
     [(''reference_id'', JStr (ce_reference_id r)),
      (''kind'', JStr (EvidenceKind_value (ce_kind r))),
      (''source_uri'', JStr (ce_source_uri r)),
      (''file_name'', opt JStr (ce_file_name r)),
      (''content_hash'', opt JStr (ce_content_hash r))]"

definition str_of :: "(json \<Rightarrow> 'a result) \<Rightarrow> json \<Rightarrow> 'a result" where
  \<comment> \<open>\<open>SomeStrEnum(str(value))\<close>\<close>
  "str_of f v = f (JStr (py_str v))"

definition CaptureEvidence_from_dict :: "jobj \<Rightarrow> CaptureEvidence result" where
  "CaptureEvidence_from_dict v =
     rbind (str_item v ''reference_id'') (\<lambda>reference_id.
     rbind (rbind (item v ''kind'') (str_of EvidenceKind_of)) (\<lambda>kind.
     rbind (str_item v ''source_uri'') (\<lambda>source_uri.
     CaptureEvidence_init \<lparr>ce_reference_id = reference_id, ce_kind = kind,
       ce_source_uri = source_uri, ce_file_name = as_optional_str (getd v ''file_name''),
       ce_content_hash = as_optional_str (getd v ''content_hash'')\<rparr>)))"

section \<open>Follow-ups\<close>

definition capture_datetime :: "string \<Rightarrow> json \<Rightarrow> datetime result" where
  \<comment> \<open>\<open>_required_datetime\<close>\<close>
  "capture_datetime field v = rbind (parse_z (py_str v)) (\<lambda>d.
     if tzinfo_None d then Inl (ValueError (field @ '' must be timezone-aware'')) else Inr d)"

definition optional_capture_datetime :: "json \<Rightarrow> datetime option result" where
  \<comment> \<open>\<open>_optional_datetime\<close>\<close>
  "optional_capture_datetime v = (case v of JNull \<Rightarrow> Inr None
     | _ \<Rightarrow> rbind (capture_datetime ''datetime'' v) (\<lambda>d. Inr (Some d)))"

definition capture_object :: "string \<Rightarrow> json \<Rightarrow> jobj result" where
  \<comment> \<open>\<open>_object\<close>\<close>
  "capture_object field v = as_dict (field @ '' must be an object'') v"

definition optional_object :: "string \<Rightarrow> (jobj \<Rightarrow> 'a result) \<Rightarrow> json \<Rightarrow> 'a option result" where
  "optional_object field loader v = (case v of JNull \<Rightarrow> Inr None
     | _ \<Rightarrow> rbind (rbind (capture_object field v) loader) (\<lambda>x. Inr (Some x)))"

record FollowUp =
  fu_required :: bool
  fu_summary :: "string option"
  fu_due_at :: "datetime option"
  fu_owner :: "ActorRef option"

definition FollowUp_default :: FollowUp where
  "FollowUp_default = \<lparr>fu_required = False, fu_summary = None, fu_due_at = None, fu_owner = None\<rparr>"

definition FollowUp_init :: "FollowUp \<Rightarrow> FollowUp result" where
  "FollowUp_init f =
     rbind (construct [when_some (fu_due_at f) (\<lambda>d.
         require (\<not> tzinfo_None d) ''follow-up due_at must be timezone-aware'')] ()) (\<lambda>_.
     if fu_required f then (case fu_summary f of
         None \<Rightarrow> Inl (ValueError ''follow-up summary is required'')
       | Some s \<Rightarrow> rbind (clean_text s ''follow-up summary'' 500) (\<lambda>summary.
           Inr (f\<lparr>fu_summary := Some summary\<rparr>)))
     else if fu_summary f \<noteq> None \<or> fu_due_at f \<noteq> None \<or> fu_owner f \<noteq> None
       then Inl (ValueError ''follow-up details require required=true'')
     else Inr f)"

definition FollowUp_to_dict :: "FollowUp \<Rightarrow> jobj" where
  "FollowUp_to_dict f =
     [(''required'', JBool (fu_required f)),
      (''summary'', opt JStr (fu_summary f)),
      (''due_at'', opt (\<lambda>d. JStr (isoformat d)) (fu_due_at f)),
      (''owner'', opt (\<lambda>a. JObj (ActorRef_to_dict a)) (fu_owner f))]"

definition FollowUp_from_dict :: "jobj option \<Rightarrow> FollowUp result" where
  "FollowUp_from_dict value = (case value of None \<Rightarrow> FollowUp_init FollowUp_default
     | Some v \<Rightarrow>
       rbind (optional_capture_datetime (getd v ''due_at'')) (\<lambda>due_at.
       rbind (optional_object ''owner'' ActorRef_from_dict (getd v ''owner'')) (\<lambda>owner.
       FollowUp_init \<lparr>fu_required = (getd v ''required'' = JBool True),
         fu_summary = as_optional_str (getd v ''summary''), fu_due_at = due_at,
         fu_owner = owner\<rparr>)))"

section \<open>Project defaults\<close>

record ProjectDefaults =
  pd_profile_version :: string
  pd_project :: EntityRef
  pd_client :: "EntityRef option"
  pd_active :: bool
  pd_default_work_type :: WorkType
  pd_default_outcome :: OutcomeStatus
  pd_default_billing_treatment :: BillingTreatment
  pd_default_rate_class :: RateClass
  pd_default_billing_code :: "string option"
  pd_task_reference_required :: bool
  pd_default_evidence_requirement :: EvidenceRequirement
  pd_evidence_by_work_type :: "(WorkType \<times> EvidenceRequirement) list"
  pd_photo_policy :: PhotoPolicy
  pd_secure_site :: bool

definition ProjectDefaults_init :: "ProjectDefaults \<Rightarrow> ProjectDefaults result" where
  "ProjectDefaults_init p =
     rbind (construct [validate_identifier (pd_profile_version p) ''profile_version'',
         require (distinct (map fst (pd_evidence_by_work_type p)))
           ''evidence_by_work_type contains duplicate work types''] ()) (\<lambda>_.
     rbind (optional_text (pd_default_billing_code p) ''default_billing_code'' 100) (\<lambda>billing_code.
     Inr (p\<lparr>pd_default_billing_code := billing_code\<rparr>)))"

definition evidence_requirement_for :: "ProjectDefaults \<Rightarrow> WorkType \<Rightarrow> EvidenceRequirement" where
  "evidence_requirement_for p w = (case map_of (rev (pd_evidence_by_work_type p)) w of
     None \<Rightarrow> pd_default_evidence_requirement p | Some r \<Rightarrow> r)"

definition evidence_entry :: "string \<times> json \<Rightarrow> (WorkType \<times> EvidenceRequirement) result" where
  "evidence_entry = (\<lambda>(key, requirement).
     rbind (WorkType_of (JStr key)) (\<lambda>w.
     rbind (str_of EvidenceRequirement_of requirement) (\<lambda>r. Inr (w, r))))"

definition ProjectDefaults_from_dict :: "jobj \<Rightarrow> ProjectDefaults result" where
  "ProjectDefaults_from_dict v =
     rbind (as_dict ''evidence_by_work_type must be an object''
       (getdef v ''evidence_by_work_type'' (JObj []))) (\<lambda>evidence_value.
     rbind (str_item v ''profile_version'') (\<lambda>profile_version.
     rbind (rbind (rbind (item v ''project'') (capture_object ''project'')) EntityRef_from_dict) (\<lambda>project.
     rbind (optional_object ''client'' EntityRef_from_dict (getd v ''client'')) (\<lambda>client.
     rbind (rbind (item v ''default_work_type'') (str_of WorkType_of)) (\<lambda>work_type.
     rbind (str_of OutcomeStatus_of (getdef v ''default_outcome'' (JStr ''completed''))) (\<lambda>outcome.
     rbind (rbind (item v ''default_billing_treatment'') (str_of BillingTreatment_of)) (\<lambda>billing.
     rbind (str_of RateClass_of (getdef v ''default_rate_class'' (JStr ''standard''))) (\<lambda>rate_class.
     rbind (rbind (item v ''default_evidence_requirement'') (str_of EvidenceRequirement_of)) (\<lambda>requirement.
     rbind (traverse evidence_entry (sort_key fst evidence_value)) (\<lambda>by_work_type.
     rbind (rbind (item v ''photo_policy'') (str_of PhotoPolicy_of)) (\<lambda>photo_policy.
     ProjectDefaults_init
       \<lparr>pd_profile_version = profile_version, pd_project = project, pd_client = client,
        pd_active = (getd v ''active'' = JBool True), pd_default_work_type = work_type,
        pd_default_outcome = outcome, pd_default_billing_treatment = billing,
        pd_default_rate_class = rate_class,
        pd_default_billing_code = as_optional_str (getd v ''default_billing_code''),
        pd_task_reference_required = (getd v ''task_reference_required'' = JBool True),
        pd_default_evidence_requirement = requirement, pd_evidence_by_work_type = by_work_type,
        pd_photo_policy = photo_policy,
        pd_secure_site = (getd v ''secure_site'' = JBool True)\<rparr>)))))))))))"

section \<open>Drafts\<close>

record CaptureDraft =
  df_submission_key :: string
  df_project_id :: string
  df_engineer :: ActorRef
  df_work_date :: date
  df_duration_minutes :: int
  df_summary :: string
  df_captured_at :: datetime
  df_capture_method :: CaptureMethod
  df_source_app_version :: string
  df_work_started_at :: "datetime option"
  df_work_type :: "WorkType option"
  df_outcome :: "OutcomeStatus option"
  df_billing_treatment :: "BillingTreatment option"
  df_rate_class :: "RateClass option"
  df_billing_code :: "string option"
  df_task_reference :: "string option"
  df_follow_up :: FollowUp
  df_evidence_refs :: "CaptureEvidence list"
  df_photo_authorization_ref :: "string option"
  df_technical_value :: TechnicalValue
  df_technical_note :: "string option"
  df_revision :: int
  df_supersedes_capture_id :: "string option"
  df_correction_reason :: "string option"

definition submission_uuid :: "string \<Rightarrow> string result" where
  \<comment> \<open>the normalised submission key\<close>
  "submission_uuid key = (case parse_uuid key of
     Inl _ \<Rightarrow> Inl (ValueError ''submission_key must be a UUID'') | Inr n \<Rightarrow> Inr (uuid_text n))"

definition draft_times :: "CaptureDraft \<Rightarrow> check list" where
  "draft_times d =
     [validate_identifier (df_project_id d) ''project_id'',
      require (\<not> tzinfo_None (df_captured_at d)) ''captured_at must be timezone-aware'',
      when_some (df_work_started_at d) (\<lambda>t.
        require (\<not> tzinfo_None t) ''work_started_at must be timezone-aware''),
      when_some (df_work_started_at d) (\<lambda>t.
        require (\<not> instant (df_captured_at d) < instant t)
          ''work_started_at must not be later than captured_at''),
      when_some (df_work_started_at d) (\<lambda>t.
        require (date_of t = df_work_date d) ''work_started_at must fall on work_date''),
      require (\<not> date_of (df_captured_at d) < df_work_date d)
        ''work_date must not be later than captured_at'',
      require (1 \<le> df_duration_minutes d \<and> df_duration_minutes d \<le> 24 * 60)
        ''duration_minutes must be between 1 and 1440'']"

definition draft_evidence :: "CaptureDraft \<Rightarrow> check list" where
  "draft_evidence d =
     [require (\<not> 20 < length (df_evidence_refs d)) ''too many evidence references'',
      require (distinct (map ce_reference_id (df_evidence_refs d)))
        ''evidence reference IDs must be unique'',
      when_some (df_photo_authorization_ref d) (\<lambda>i.
        validate_identifier i ''photo_authorization_ref'')]"

definition noted :: "CaptureDraft \<Rightarrow> string option \<Rightarrow> string option" where
  \<comment> \<open>a candidate without a note gets the summary as its note\<close>
  "noted d note = (if df_technical_value d = TV_CANDIDATE \<and> (note = None \<or> note = Some [])
     then Some (df_summary d) else note)"

definition draft_lineage :: "CaptureDraft \<Rightarrow> check list" where
  "draft_lineage d =
     [require (\<not> (df_technical_value d = TV_NONE \<and> df_technical_note d \<noteq> None \<and>
          df_technical_note d \<noteq> Some []))
        ''technical_note requires technical_value=candidate'',
      require (\<not> df_revision d < 1) ''revision must be positive'',
      require (\<not> (df_revision d = 1 \<and>
          (df_supersedes_capture_id d \<noteq> None \<or> df_correction_reason d \<noteq> None)))
        ''original captures cannot supersede another capture'',
      require (\<not> (1 < df_revision d \<and>
          (df_supersedes_capture_id d = None \<or> df_correction_reason d = None)))
        ''corrections require supersedes_capture_id and correction_reason'',
      (if 1 < df_revision d then when_some (df_supersedes_capture_id d) (\<lambda>i.
          validate_identifier i ''supersedes_capture_id'') else None)]"

definition CaptureDraft_init :: "CaptureDraft \<Rightarrow> CaptureDraft result" where
  "CaptureDraft_init d0 =
     rbind (submission_uuid (df_submission_key d0)) (\<lambda>key.
     rbind (construct (draft_times d0) (d0\<lparr>df_submission_key := key\<rparr>)) (\<lambda>d1.
     rbind (clean_text (df_summary d1) ''summary'' 500) (\<lambda>summary.
     rbind (clean_text (df_source_app_version d1) ''source_app_version'' 50) (\<lambda>version.
     rbind (construct (draft_evidence d1)
       (d1\<lparr>df_summary := summary, df_source_app_version := version\<rparr>)) (\<lambda>d2.
     rbind (optional_text (df_billing_code d2) ''billing_code'' 100) (\<lambda>billing_code.
     rbind (optional_text (df_task_reference d2) ''task_reference'' 100) (\<lambda>task_reference.
     rbind (optional_text (df_technical_note d2) ''technical_note'' 1000) (\<lambda>note.
     rbind (let d3 = d2\<lparr>df_billing_code := billing_code, df_task_reference := task_reference,
         df_technical_note := noted d2 note\<rparr> in construct (draft_lineage d3) d3) (\<lambda>d3.
     if 1 < df_revision d3 then
       rbind (optional_text (df_correction_reason d3) ''correction_reason'' 500) (\<lambda>reason.
       Inr (d3\<lparr>df_correction_reason := reason\<rparr>))
     else Inr d3)))))))))"

definition evidence_item :: "json \<Rightarrow> CaptureEvidence result" where
  "evidence_item v = rbind (capture_object ''evidence reference'' v) CaptureEvidence_from_dict"

definition follow_up_item :: "json \<Rightarrow> FollowUp result" where
  "follow_up_item v = (case v of JNull \<Rightarrow> FollowUp_from_dict None
     | _ \<Rightarrow> rbind (capture_object ''follow_up'' v) (\<lambda>d. FollowUp_from_dict (Some d)))"

definition CaptureDraft_from_dict :: "jobj \<Rightarrow> CaptureDraft result" where
  "CaptureDraft_from_dict v =
     rbind (case getdef v ''evidence_refs'' (JList []) of JList xs \<Rightarrow> Inr xs
       | _ \<Rightarrow> Inl (ValueError ''evidence_refs must be a list'')) (\<lambda>evidence.
     rbind (str_item v ''submission_key'') (\<lambda>submission_key.
     rbind (str_item v ''project_id'') (\<lambda>project_id.
     rbind (rbind (rbind (item v ''engineer'') (capture_object ''engineer'')) ActorRef_from_dict) (\<lambda>engineer.
     rbind (rbind (str_item v ''work_date'') date_fromisoformat) (\<lambda>work_date.
     rbind (rbind (item v ''duration_minutes'') py_int) (\<lambda>duration.
     rbind (str_item v ''summary'') (\<lambda>summary.
     rbind (rbind (item v ''captured_at'') (capture_datetime ''captured_at'')) (\<lambda>captured_at.
     rbind (rbind (item v ''capture_method'') (str_of CaptureMethod_of)) (\<lambda>capture_method.
     rbind (str_item v ''source_app_version'') (\<lambda>version.
     rbind (optional_capture_datetime (getd v ''work_started_at'')) (\<lambda>work_started_at.
     rbind (optional_enum (str_of WorkType_of) (getd v ''work_type'')) (\<lambda>work_type.
     rbind (optional_enum (str_of OutcomeStatus_of) (getd v ''outcome'')) (\<lambda>outcome.
     rbind (optional_enum (str_of BillingTreatment_of) (getd v ''billing_treatment'')) (\<lambda>billing.
     rbind (optional_enum (str_of RateClass_of) (getd v ''rate_class'')) (\<lambda>rate_class.
     rbind (follow_up_item (getd v ''follow_up'')) (\<lambda>follow_up.
     rbind (traverse evidence_item evidence) (\<lambda>evidence_refs.
     rbind (str_of TechnicalValue_of (getdef v ''technical_value'' (JStr ''none''))) (\<lambda>technical_value.
     rbind (py_int (getdef v ''revision'' (JInt 1))) (\<lambda>revision.
     CaptureDraft_init
       \<lparr>df_submission_key = submission_key, df_project_id = project_id, df_engineer = engineer,
        df_work_date = work_date, df_duration_minutes = duration, df_summary = summary,
        df_captured_at = captured_at, df_capture_method = capture_method,
        df_source_app_version = version, df_work_started_at = work_started_at,
        df_work_type = work_type, df_outcome = outcome, df_billing_treatment = billing,
        df_rate_class = rate_class,
        df_billing_code = as_optional_str (getd v ''billing_code''),
        df_task_reference = as_optional_str (getd v ''task_reference''),
        df_follow_up = follow_up, df_evidence_refs = evidence_refs,
        df_photo_authorization_ref = as_optional_str (getd v ''photo_authorization_ref''),
        df_technical_value = technical_value,
        df_technical_note = as_optional_str (getd v ''technical_note''),
        df_revision = revision,
        df_supersedes_capture_id = as_optional_str (getd v ''supersedes_capture_id''),
        df_correction_reason = as_optional_str (getd v ''correction_reason'')\<rparr>)))))))))))))))))))"

section \<open>Canonical captures\<close>

record WorkCapture =
  wc_capture_id :: string
  wc_submission_key :: string
  wc_schema_version :: string
  wc_project :: EntityRef
  wc_client :: "EntityRef option"
  wc_engineer :: ActorRef
  wc_work_date :: date
  wc_work_started_at :: "datetime option"
  wc_duration_minutes :: int
  wc_work_type :: WorkType
  wc_summary :: string
  wc_outcome :: OutcomeStatus
  wc_billing_treatment :: BillingTreatment
  wc_rate_class :: RateClass
  wc_billing_code :: "string option"
  wc_task_reference :: "string option"
  wc_follow_up :: FollowUp
  wc_evidence_requirement :: EvidenceRequirement
  wc_evidence_status :: EvidenceStatus
  wc_evidence_refs :: "CaptureEvidence list"
  wc_technical_value :: TechnicalValue
  wc_technical_note :: "string option"
  wc_secure_site_applied :: bool
  wc_photo_policy_applied :: PhotoPolicy
  wc_photo_authorization_ref :: "string option"
  wc_capture_method :: CaptureMethod
  wc_source_app_version :: string
  wc_captured_at :: datetime
  wc_project_profile_version :: string
  wc_fact_origin :: string
  wc_defaulted_fields :: "string list"
  wc_revision :: int
  wc_supersedes_capture_id :: "string option"
  wc_correction_reason :: "string option"
  wc_payload_hash :: string
  wc_ai_inferences :: "json list"

definition WorkCapture_init :: "WorkCapture \<Rightarrow> WorkCapture result" where
  "WorkCapture_init c = construct
     [validate_identifier (wc_capture_id c) ''capture_id'',
      require (wc_schema_version c = SCHEMA_VERSION) ''unsupported work-capture schema version'',
      require (wc_fact_origin c = ''human_confirmed'')
        ''canonical capture facts must be human_confirmed'',
      require (wc_ai_inferences c = []) ''AI inferences must not be stored in canonical facts'',
      require (is_sha256 (wc_payload_hash c)) ''payload_hash must be a lowercase SHA-256 value''] c"

definition capture_facts :: "WorkCapture \<Rightarrow> jobj" where
  \<comment> \<open>the entries of \<open>to_dict\<close> before the payload hash\<close>
  "capture_facts c =
     [(''capture_id'', JStr (wc_capture_id c)),
      (''submission_key'', JStr (wc_submission_key c)),
      (''schema_version'', JStr (wc_schema_version c)),
      (''project'', JObj (EntityRef_to_dict (wc_project c))),
      (''client'', opt (\<lambda>e. JObj (EntityRef_to_dict e)) (wc_client c)),
      (''engineer'', JObj (ActorRef_to_dict (wc_engineer c))),
      (''work_date'', JStr (date_text (wc_work_date c))),
      (''work_started_at'', opt (\<lambda>d. JStr (isoformat d)) (wc_work_started_at c)),
      (''duration_minutes'', JInt (wc_duration_minutes c)),
      (''work_type'', JStr (WorkType_value (wc_work_type c))),
      (''summary'', JStr (wc_summary c)),
      (''outcome'', JStr (OutcomeStatus_value (wc_outcome c))),
      (''billing_treatment'', JStr (BillingTreatment_value (wc_billing_treatment c))),
      (''rate_class'', JStr (RateClass_value (wc_rate_class c))),
      (''billing_code'', opt JStr (wc_billing_code c)),
      (''task_reference'', opt JStr (wc_task_reference c)),
      (''follow_up'', JObj (FollowUp_to_dict (wc_follow_up c))),
      (''evidence_requirement'', JStr (EvidenceRequirement_value (wc_evidence_requirement c))),
      (''evidence_status'', JStr (EvidenceStatus_value (wc_evidence_status c))),
      (''evidence_refs'', JList (map (\<lambda>e. JObj (CaptureEvidence_to_dict e)) (wc_evidence_refs c))),
      (''technical_value'', JStr (TechnicalValue_value (wc_technical_value c))),
      (''technical_note'', opt JStr (wc_technical_note c)),
      (''secure_site_applied'', JBool (wc_secure_site_applied c)),
      (''photo_policy_applied'', JStr (PhotoPolicy_value (wc_photo_policy_applied c))),
      (''photo_authorization_ref'', opt JStr (wc_photo_authorization_ref c)),
      (''capture_method'', JStr (CaptureMethod_value (wc_capture_method c))),
      (''source_app_version'', JStr (wc_source_app_version c)),
      (''captured_at'', JStr (isoformat (wc_captured_at c))),
      (''project_profile_version'', JStr (wc_project_profile_version c)),
      (''fact_origin'', JStr (wc_fact_origin c)),
      (''defaulted_fields'', strs (wc_defaulted_fields c)),
      (''revision'', JInt (wc_revision c)),
      (''supersedes_capture_id'', opt JStr (wc_supersedes_capture_id c)),
      (''correction_reason'', opt JStr (wc_correction_reason c))]"

definition WorkCapture_to_dict :: "WorkCapture \<Rightarrow> jobj" where
  "WorkCapture_to_dict c = capture_facts c @
     [(''payload_hash'', JStr (wc_payload_hash c)), (''ai_inferences'', JList [])]"

definition WorkCapture_to_json :: "WorkCapture \<Rightarrow> string" where
  "WorkCapture_to_json c = stable_json (JObj (WorkCapture_to_dict c))"

end
