(* ===== verification/CaptureService.thy ===== *)
theory CaptureService
  imports CaptureModels
begin

text \<open>
  \<open>src/edn/work_capture/service.py\<close>: the compilation of a draft under the defaults of its project
  to one canonical capture and the plan of its downstream projections. Nothing is executed: a
  projection is an intent.
\<close>

definition PROJECTION_VERSION :: string where
  "PROJECTION_VERSION = ''1.0.0''"

datatype ProjectionDestination = PD_PROJECT_ACTIVITY | PD_ACTIONS | PD_EVIDENCE_TEST_RESULTS
  | PD_PROJECT_FILES | PD_ENGINEERING_KNOWLEDGE | PD_WEEKLY_SUMMARY | PD_BILLING_PREPARATION
  | PD_DAILY_INTELLIGENCE

fun ProjectionDestination_value :: "ProjectionDestination \<Rightarrow> string" where
  "ProjectionDestination_value PD_PROJECT_ACTIVITY = ''project_activity''"
| "ProjectionDestination_value PD_ACTIONS = ''actions''"
| "ProjectionDestination_value PD_EVIDENCE_TEST_RESULTS = ''evidence_test_results''"
| "ProjectionDestination_value PD_PROJECT_FILES = ''project_files''"
| "ProjectionDestination_value PD_ENGINEERING_KNOWLEDGE = ''engineering_knowledge''"
| "ProjectionDestination_value PD_WEEKLY_SUMMARY = ''weekly_summary''"
| "ProjectionDestination_value PD_BILLING_PREPARATION = ''billing_preparation''"
| "ProjectionDestination_value PD_DAILY_INTELLIGENCE = ''daily_intelligence''"

definition ProjectionDestination_members :: "ProjectionDestination list" where
  "ProjectionDestination_members = [PD_PROJECT_ACTIVITY, PD_ACTIONS, PD_EVIDENCE_TEST_RESULTS,
     PD_PROJECT_FILES, PD_ENGINEERING_KNOWLEDGE, PD_WEEKLY_SUMMARY, PD_BILLING_PREPARATION,
     PD_DAILY_INTELLIGENCE]"

datatype ProjectionMode = PM_REFERENCE | PM_CREATE_ONCE | PM_DERIVED_VIEW

fun ProjectionMode_value :: "ProjectionMode \<Rightarrow> string" where
  "ProjectionMode_value PM_REFERENCE = ''reference''"
| "ProjectionMode_value PM_CREATE_ONCE = ''create_once''"
| "ProjectionMode_value PM_DERIVED_VIEW = ''derived_view''"

definition ProjectionMode_members :: "ProjectionMode list" where
  "ProjectionMode_members = [PM_REFERENCE, PM_CREATE_ONCE, PM_DERIVED_VIEW]"

record ProjectionIntent =
  pi_projection_id :: string
  pi_projection_version :: string
  pi_source_capture_id :: string
  pi_source_payload_hash :: string
  pi_destination :: ProjectionDestination
  pi_mode :: ProjectionMode
  pi_reason :: string

definition ProjectionIntent_to_dict :: "ProjectionIntent \<Rightarrow> jobj" where
  "ProjectionIntent_to_dict i =
     [(''projection_id'', JStr (pi_projection_id i)),
      (''projection_version'', JStr (pi_projection_version i)),
      (''source_capture_id'', JStr (pi_source_capture_id i)),
      (''source_payload_hash'', JStr (pi_source_payload_hash i)),
      (''destination'', JStr (ProjectionDestination_value (pi_destination i))),
      (''mode'', JStr (ProjectionMode_value (pi_mode i))),
      (''reason'', JStr (pi_reason i))]"

record WorkCapturePlan =
  wp_canonical_owner :: string
  wp_capture :: WorkCapture
  wp_projections :: "ProjectionIntent list"

definition WorkCapturePlan_to_dict :: "WorkCapturePlan \<Rightarrow> jobj" where
  "WorkCapturePlan_to_dict p =
     [(''canonical_owner'', JStr (wp_canonical_owner p)),
      (''capture'', JObj (WorkCapture_to_dict (wp_capture p))),
      (''projections'', JList (map (\<lambda>i. JObj (ProjectionIntent_to_dict i)) (wp_projections p)))]"

definition WorkCapturePlan_to_json :: "WorkCapturePlan \<Rightarrow> string" where
  "WorkCapturePlan_to_json p = indented_json (JObj (WorkCapturePlan_to_dict p)) 0"

section \<open>Defaults, photos and evidence\<close>

definition resolved :: "'a option \<Rightarrow> 'a \<Rightarrow> 'a \<times> bool" where
  "resolved v fallback = (case v of None \<Rightarrow> (fallback, True) | Some x \<Rightarrow> (x, False))"

definition has_photo :: "CaptureDraft \<Rightarrow> bool" where
  "has_photo d = list_ex (\<lambda>e. ce_kind e = EK_HANDOFF_PHOTO) (df_evidence_refs d)"

definition validate_photo_policy :: "CaptureDraft \<Rightarrow> PhotoPolicy \<Rightarrow> check" where
  "validate_photo_policy d policy =
     (if has_photo d \<and> policy = PP_PROHIBITED
      then Some (PermissionError ''project policy prohibits photographic evidence'')
      else if has_photo d \<and> policy = PP_RESTRICTED \<and> df_photo_authorization_ref d = None
      then Some (PermissionError
        ''restricted photographic evidence requires an authorization reference'')
      else require (\<not> (df_photo_authorization_ref d \<noteq> None \<and> \<not> has_photo d))
        ''photo authorization is valid only when a photo is referenced'')"

definition evidence_status :: "EvidenceRequirement \<Rightarrow> bool \<Rightarrow> EvidenceStatus" where
  "evidence_status requirement has_references =
     (if has_references then ES_COMPLETE
      else if requirement = ER_REQUIRED then ES_PENDING
      else if requirement = ER_OPTIONAL then ES_NOT_SUPPLIED
      else ES_NOT_REQUIRED)"

definition payload_hash :: "WorkCapture \<Rightarrow> string" where
  "payload_hash c = digest (dict_del ''payload_hash'' (WorkCapture_to_dict c))"

section \<open>Projections\<close>

definition projection_id :: "string \<Rightarrow> ProjectionDestination \<Rightarrow> string" where
  "projection_id capture_id destination = ''WCP-'' @ take 24 (sha256_hex (utf8
     (capture_id @ '':'' @ ProjectionDestination_value destination @ '':'' @ PROJECTION_VERSION)))"

definition projection_values ::
  "WorkCapture \<Rightarrow> (ProjectionDestination \<times> ProjectionMode \<times> string) list" where
  "projection_values c =
     [(PD_PROJECT_ACTIVITY, PM_REFERENCE,
       ''Project history resolves the canonical Work Log record by project ID.''),
      (PD_WEEKLY_SUMMARY, PM_DERIVED_VIEW,
       ''Weekly time is calculated from canonical duration and work date.''),
      (PD_DAILY_INTELLIGENCE, PM_DERIVED_VIEW,
       ''Daily Intelligence may retrieve this source record under separate authority.'')] @
     (if wc_billing_treatment c \<in> {BT_BILLABLE, BT_REVIEW_REQUIRED} then
       [(PD_BILLING_PREPARATION, PM_DERIVED_VIEW,
         ''Invoice preparation derives time and billing classification without copying facts.'')]
      else []) @
     (if fu_required (wc_follow_up c) then
       [(PD_ACTIONS, PM_CREATE_ONCE, ''The engineer explicitly requested a follow-up action.'')]
      else []) @
     (if wc_evidence_refs c \<noteq> [] \<or> wc_evidence_requirement c = ER_REQUIRED then
       [(PD_EVIDENCE_TEST_RESULTS, PM_REFERENCE,
         ''Evidence status and source references remain linked to the capture.''),
        (PD_PROJECT_FILES, PM_REFERENCE,
         ''Project files retain binary content and a backlink to the capture.'')]
      else []) @
     (if wc_technical_value c = TV_CANDIDATE then
       [(PD_ENGINEERING_KNOWLEDGE, PM_CREATE_ONCE,
         ''Human marked the work as a reviewable knowledge candidate.'')]
      else [])"

definition projection_plan :: "WorkCapture \<Rightarrow> ProjectionIntent list" where
  "projection_plan c = map (\<lambda>(destination, mode, reason).
     \<lparr>pi_projection_id = projection_id (wc_capture_id c) destination,
      pi_projection_version = PROJECTION_VERSION,
      pi_source_capture_id = wc_capture_id c,
      pi_source_payload_hash = wc_payload_hash c,
      pi_destination = destination, pi_mode = mode, pi_reason = reason\<rparr>) (projection_values c)"

section \<open>Compilation\<close>

definition defaulted_fields :: "CaptureDraft \<Rightarrow> ProjectDefaults \<Rightarrow> string list" where
  "defaulted_fields d p = map fst (filter snd
     [(''work_type'', snd (resolved (df_work_type d) (pd_default_work_type p))),
      (''outcome'', snd (resolved (df_outcome d) (pd_default_outcome p))),
      (''billing_treatment'',
        snd (resolved (df_billing_treatment d) (pd_default_billing_treatment p))),
      (''rate_class'', snd (resolved (df_rate_class d) (pd_default_rate_class p))),
      (''billing_code'',
        snd (resolved (map_option Some (df_billing_code d)) (pd_default_billing_code p))),
      (''evidence_requirement'', True),
      (''client'', pd_client p \<noteq> None),
      (''secure_site_applied'', True),
      (''photo_policy_applied'', True)])"

definition draft_capture :: "CaptureDraft \<Rightarrow> ProjectDefaults \<Rightarrow> WorkCapture" where
  \<comment> \<open>the arguments of the constructor call; the hash is filled in afterwards\<close>
  "draft_capture d p =
     (let work_type = fst (resolved (df_work_type d) (pd_default_work_type p));
          requirement = evidence_requirement_for p work_type
      in \<lparr>wc_capture_id = ''WC-'' @ df_submission_key d,
          wc_submission_key = df_submission_key d,
          wc_schema_version = SCHEMA_VERSION,
          wc_project = pd_project p,
          wc_client = pd_client p,
          wc_engineer = df_engineer d,
          wc_work_date = df_work_date d,
          wc_work_started_at = df_work_started_at d,
          wc_duration_minutes = df_duration_minutes d,
          wc_work_type = work_type,
          wc_summary = df_summary d,
          wc_outcome = fst (resolved (df_outcome d) (pd_default_outcome p)),
          wc_billing_treatment =
            fst (resolved (df_billing_treatment d) (pd_default_billing_treatment p)),
          wc_rate_class = fst (resolved (df_rate_class d) (pd_default_rate_class p)),
          wc_billing_code =
            fst (resolved (map_option Some (df_billing_code d)) (pd_default_billing_code p)),
          wc_task_reference = df_task_reference d,
          wc_follow_up = df_follow_up d,
          wc_evidence_requirement = requirement,
          wc_evidence_status = evidence_status requirement (df_evidence_refs d \<noteq> []),
          wc_evidence_refs = df_evidence_refs d,
          wc_technical_value = df_technical_value d,
          wc_technical_note = df_technical_note d,
          wc_secure_site_applied = pd_secure_site p,
          wc_photo_policy_applied = pd_photo_policy p,
          wc_photo_authorization_ref = df_photo_authorization_ref d,
          wc_capture_method = df_capture_method d,
          wc_source_app_version = df_source_app_version d,
          wc_captured_at = df_captured_at d,
          wc_project_profile_version = pd_profile_version p,
          wc_fact_origin = ''human_confirmed'',
          wc_defaulted_fields = defaulted_fields d p,
          wc_revision = df_revision d,
          wc_supersedes_capture_id = df_supersedes_capture_id d,
          wc_correction_reason = df_correction_reason d,
          wc_payload_hash = replicate 64 (CHR ''0''),
          wc_ai_inferences = []\<rparr>)"

definition compile_capture :: "CaptureDraft \<Rightarrow> ProjectDefaults \<Rightarrow> WorkCapturePlan result" where
  "compile_capture d p =
     rbind (construct
       [require (pd_active p) ''project is not active for work capture'',
        require (df_project_id d = et_stable_id (pd_project p))
          ''draft project does not match the selected project profile'',
        require (\<not> (pd_task_reference_required p \<and>
            (df_task_reference d = None \<or> df_task_reference d = Some [])))
          ''task_reference is required by the project profile'',
        require (\<not> (fst (resolved (df_billing_treatment d) (pd_default_billing_treatment p)) =
            BT_BILLABLE \<and> pd_client p = None))
          ''billable work requires a client reference'',
        validate_photo_policy d (pd_photo_policy p)] ()) (\<lambda>_.
     rbind (WorkCapture_init (draft_capture d p)) (\<lambda>capture.
     rbind (WorkCapture_init (capture\<lparr>wc_payload_hash := payload_hash capture\<rparr>)) (\<lambda>capture.
     Inr \<lparr>wp_canonical_owner = ''Work Log'', wp_capture = capture,
          wp_projections = projection_plan capture\<rparr>)))"

end
