(* ===== verification/CaptureFacts.thy ===== *)
theory CaptureFacts
  imports CaptureService JsonText
begin

text \<open>
  The normal forms behind the work capture: cleaning a text is idempotent, a UUID text is read
  back, a constructed draft is a fixed point of its constructor, the reference classes survive a
  JSON round trip, and the JSON text of a capture determines the capture.
\<close>

section \<open>Words and clean texts\<close>

definition word :: "string \<Rightarrow> bool" where
  "word w \<longleftrightarrow> w \<noteq> [] \<and> list_all (\<lambda>c. \<not> py_space c) w"

lemma split_where_nonempty [simp]: "split_where P s \<noteq> []"
  by (induction s) (auto split: list.splits)

lemma split_where_plain: "list_all (\<lambda>c. \<not> P c) w \<Longrightarrow> split_where P w = [w]"
  by (induction w) auto

lemma split_where_append: "P x \<Longrightarrow> split_where P (a @ x # b) = split_where P a @ split_where P b"
proof (induction a)
  case (Cons y a)
  then show ?case by (cases "split_where P a") auto
qed simp

lemma split_where_parts: "w \<in> set (split_where P s) \<Longrightarrow> list_all (\<lambda>c. \<not> P c) w"
proof (induction s arbitrary: w)
  case (Cons x s)
  then show ?case by (cases "split_where P s") (auto split: if_splits)
qed simp

lemma py_words_words: "list_all word (py_words s)"
  by (auto simp: py_words_def word_def list_all_iff [of _ "filter _ _"] dest: split_where_parts)

lemma py_space_blank: "py_space (CHR '' '')"
  by code_simp

lemma py_words_join: "list_all word ws \<Longrightarrow> py_words (join '' '' ws) = ws"
proof (induction ws)
  case (Cons w ws)
  then have w: "split_where py_space w = [w]" "w \<noteq> []"
    by (auto simp: word_def split_where_plain)
  show ?case
  proof (cases ws)
    case (Cons v vs)
    have "join '' '' (w # ws) = w @ CHR '' '' # join '' '' ws" using Cons by simp
    then show ?thesis
      using Cons.IH Cons.prems w split_where_append [of py_space "CHR '' ''" w "join '' '' ws"] py_space_blank
      by (simp add: py_words_def)
  qed (use w in \<open>simp add: py_words_def\<close>)
qed (simp add: py_words_def)

definition clean :: "nat \<Rightarrow> string \<Rightarrow> bool" where
  \<comment> \<open>nonblank words separated by single spaces, within the length bound\<close>
  "clean n s \<longleftrightarrow> s \<noteq> [] \<and> length s \<le> n \<and> (\<exists>ws. list_all word ws \<and> s = join '' '' ws)"

definition opt_clean :: "nat \<Rightarrow> string option \<Rightarrow> bool" where
  "opt_clean n v \<longleftrightarrow> (case v of None \<Rightarrow> True | Some s \<Rightarrow> clean n s)"

lemma clean_text_clean: "clean_text v f n = Inr s \<Longrightarrow> clean n s"
  using py_words_words [of v] by (auto simp: clean_text_def clean_def Let_def split: if_splits)

lemma clean_text_id: "clean n s \<Longrightarrow> clean_text s f n = Inr s"
  by (auto simp: clean_text_def clean_def py_words_join)

lemma clean_iff: "clean n s \<longleftrightarrow> clean_text s f n = Inr s"
  using clean_text_clean clean_text_id by blast

lemma optional_text_clean: "optional_text v f n = Inr s \<Longrightarrow> opt_clean n s"
  by (auto simp: optional_text_def opt_clean_def rbind_Inr_iff split: option.splits
      dest: clean_text_clean)

lemma optional_text_id: "opt_clean n s \<Longrightarrow> optional_text s f n = Inr s"
  by (auto simp: optional_text_def opt_clean_def clean_text_id split: option.splits)

lemma optional_text_None: "optional_text v f n = Inr s \<Longrightarrow> s = None \<longleftrightarrow> v = None"
  by (auto simp: optional_text_def rbind_Inr_iff split: option.splits)

section \<open>UUIDs\<close>

lemma hex_digit_facts:
  assumes "n < 16"
  shows "is_hex (hex_digit n)" "hex_value (hex_digit n) = n" "is_alnum (hex_digit n)"
    "code (hex_digit n) < 128" "hex_digit n \<notin> set ''-+_xXuUrRnN:{}''"
    "\<not> py_space (hex_digit n)" "\<not> (9 \<le> code (hex_digit n) \<and> code (hex_digit n) \<le> 13)"
    "code (hex_digit n) \<noteq> 32"
proof -
  have "list_all (\<lambda>c. is_hex c \<and> is_alnum c \<and> code c < 128 \<and> c \<notin> set ''-+_xXuUrRnN:{}'' \<and>
      \<not> py_space c \<and> \<not> (9 \<le> code c \<and> code c \<le> 13) \<and> code c \<noteq> 32) ''0123456789abcdef''"
    by code_simp
  then have all: "is_hex (hex_digit n) \<and> is_alnum (hex_digit n) \<and>
      code (hex_digit n) < 128 \<and> hex_digit n \<notin> set ''-+_xXuUrRnN:{}'' \<and> \<not> py_space (hex_digit n) \<and>
      \<not> (9 \<le> code (hex_digit n) \<and> code (hex_digit n) \<le> 13) \<and> code (hex_digit n) \<noteq> 32"
    using hex_digit_hex [OF assms] unfolding list_all_iff by (rule bspec)
  show "is_hex (hex_digit n)" using all by (elim conjE)
  show "hex_value (hex_digit n) = n"
    using assms by (cases "n < 10") (auto simp: hex_value_def hex_digit_def is_digit_def code_char_of)
  show "is_alnum (hex_digit n)" using all by (elim conjE)
  show "code (hex_digit n) < 128" using all by (elim conjE)
  show "hex_digit n \<notin> set ''-+_xXuUrRnN:{}''" using all by (elim conjE)
  show "\<not> py_space (hex_digit n)" using all by (elim conjE)
  show "\<not> (9 \<le> code (hex_digit n) \<and> code (hex_digit n) \<le> 13)" using all by (elim conjE)
  show "code (hex_digit n) \<noteq> 32" using all by (elim conjE)
qed

lemma hex_word_all_chars:
  assumes "c \<in> set (hex_word k n)"
  obtains m where "m < 16" "c = hex_digit m"
  using hex_word_all [of "\<lambda>c. \<exists>m < 16. c = hex_digit m" k n] assms that
  by (auto simp: list_all_iff)

lemma hex_word_free: "x \<in> set ''-+_xXuUrRnN:{}'' \<Longrightarrow> x \<notin> set (hex_word k n)"
  by (metis hex_word_all_chars hex_digit_facts(5))

lemma hex_num_snoc: "hex_num (s @ [c]) = 16 * hex_num s + hex_value c"
  by (simp add: hex_num_def)

lemma hex_num_word: "n < 16 ^ k \<Longrightarrow> hex_num (hex_word k n) = n"
proof (induction k arbitrary: n)
  case (Suc k)
  then have "n div 16 < 16 ^ k" by (simp add: less_mult_imp_div_less)
  with Suc.IH show ?case by (simp add: hex_num_snoc hex_digit_facts(2))
qed (simp add: hex_num_def)

lemma hex_run_word: "0 < k \<Longrightarrow> n < 16 ^ k \<Longrightarrow> hex_run (hex_word k n) = Some n"
proof -
  assume k: "0 < k" "n < 16 ^ k"
  let ?w = "hex_word k n"
  have ne: "?w \<noteq> []" using k(1) by (metis length_hex_word length_greater_0_conv)
  have free: "CHR ''_'' \<notin> set ?w" by (rule hex_word_free) simp
  then have "filter (\<lambda>c. c \<noteq> CHR ''_'') ?w = ?w" by (auto simp: filter_id_conv)
  moreover have "list_all is_hex ?w"
    by (rule hex_word_all) (rule hex_digit_facts(1))
  moreover have "hd ?w \<noteq> CHR ''_''" "last ?w \<noteq> CHR ''_''" using ne free by (metis hd_in_set, metis last_in_set)
  moreover have "\<not> py_in ''__'' ?w" using free by (auto simp: py_in_iff)
  ultimately show ?thesis using ne k(2) by (simp add: hex_run_def hex_num_word)
qed

lemma dropWhile_none: "list_all (\<lambda>c. \<not> P c) s \<Longrightarrow> dropWhile P s = s"
  by (cases s) auto

lemma parse_hex_word:
  assumes "0 < k" "n < 16 ^ k"
  shows "parse_hex (hex_word k n) = Some (int n)"
proof -
  let ?w = "hex_word k n"
  have ne: "?w \<noteq> []" using assms(1) by (metis length_hex_word length_greater_0_conv)
  then obtain c r where w: "?w = c # r" by (cases ?w) auto
  have "list_all (\<lambda>c. \<not> int_space ?w c) ?w"
    by (rule hex_word_all) (simp add: int_space_def hex_digit_facts)
  then have "dropWhile (int_space ?w) ?w = ?w" "dropWhile (int_space ?w) (rev ?w) = rev ?w"
    by (simp_all add: dropWhile_none)
  moreover have "c \<noteq> CHR ''-''" "c \<noteq> CHR ''+''"
    using hex_word_free [of _ k n] w by force+
  then have "split_sign ?w = (False, ?w)" using w by (simp add: split_sign_def)
  moreover have "\<not> prefix ''0x'' ?w" "\<not> prefix ''0X'' ?w"
    using hex_word_free [of "CHR ''x''" k n] hex_word_free [of "CHR ''X''" k n]
    by (auto simp: prefix_def)
  then have "drop_hex_prefix ?w = ?w" by (simp add: drop_hex_prefix_def)
  ultimately show ?thesis using hex_run_word [OF assms] by (simp add: parse_hex_def)
qed

lemma py_replace_none: "c \<notin> set s \<Longrightarrow> py_replace (c # old) new s = s"
  using py_replace_skip [of c s old new "[]"] by simp

lemma strip_chars_none: "list_all (\<lambda>c. c \<notin> set cs) s \<Longrightarrow> strip_chars cs s = s"
  by (simp add: strip_chars_def dropWhile_none)

lemma replace_dash: "CHR ''-'' \<notin> set a \<Longrightarrow>
    py_replace ''-'' [] (a @ ''-'' @ s) = a @ py_replace ''-'' [] s"
  by (simp add: py_replace_skip)

lemma uuid_hex_text: "uuid_hex (uuid_text n) = hex_word 32 n"
proof -
  let ?w = "hex_word 32 n"
  have free: "x \<in> set ''+_xXuUrRnN:{}'' \<Longrightarrow> x \<notin> set (dashed ?w)" for x
    using hex_word_free [of x 32 n] by (auto simp: dashed_def dest!: in_set_takeD in_set_dropD)
  have dash: "CHR ''-'' \<notin> set (take i (drop j ?w))" "CHR ''-'' \<notin> set (drop j ?w)"
    "CHR ''-'' \<notin> set (take i ?w)" for i j
    using hex_word_free [of "CHR ''-''" 32 n] by (auto dest!: in_set_takeD in_set_dropD)
  have "py_replace ''urn:'' [] (dashed ?w) = dashed ?w" "py_replace ''uuid:'' [] (dashed ?w) = dashed ?w"
    using free by (simp_all add: py_replace_none)
  moreover have "strip_chars ''{}'' (dashed ?w) = dashed ?w"
    by (rule strip_chars_none) (use free in \<open>auto simp: list_all_iff\<close>)
  moreover have "py_replace ''-'' [] (dashed ?w) =
      take 8 ?w @ take 4 (drop 8 ?w) @ take 4 (drop 12 ?w) @ take 4 (drop 16 ?w) @ drop 20 ?w"
    unfolding dashed_def replace_dash [OF dash(1)] replace_dash [OF dash(3)]
      py_replace_none [OF dash(2)] ..
  moreover have "take 8 w @ take 4 (drop 8 w) @ take 4 (drop 12 w) @ take 4 (drop 16 w) @ drop 20 w = w"
    for w :: string
  proof -
    have "take 4 (drop k w) @ drop (k + 4) w = drop k w" for k
      using append_take_drop_id [of 4 "drop k w"] by (simp add: add.commute)
    from this [of 16] this [of 12] this [of 8] show ?thesis by simp
  qed
  ultimately show ?thesis by (simp add: uuid_hex_def uuid_text_def)
qed

lemma parse_uuid_text: "n < 2 ^ 128 \<Longrightarrow> parse_uuid (uuid_text n) = Inr n"
  using parse_hex_word [of 32 n] by (simp add: parse_uuid_def uuid_hex_text)

lemma parse_uuid_bound: "parse_uuid s = Inr n \<Longrightarrow> n < 2 ^ 128"
  by (auto simp: parse_uuid_def Let_def split: if_splits option.splits)

lemma uuid_text_inj: "m < 2 ^ 128 \<Longrightarrow> n < 2 ^ 128 \<Longrightarrow> uuid_text m = uuid_text n \<longleftrightarrow> m = n"
  using parse_uuid_text by (metis Inr_inject)

lemma submission_uuid_iff:
  "submission_uuid s = Inr k \<longleftrightarrow> (\<exists>n. parse_uuid s = Inr n \<and> n < 2 ^ 128 \<and> k = uuid_text n)"
  by (auto simp: submission_uuid_def split: sum.splits dest: parse_uuid_bound)

lemma submission_uuid_id: "submission_uuid s = Inr k \<Longrightarrow> submission_uuid k = Inr k"
  by (auto simp: submission_uuid_iff parse_uuid_text)

lemma submission_uuid_same:
  assumes "submission_uuid a = Inr k" "submission_uuid b = Inr l"
  shows "k = l \<longleftrightarrow> parse_uuid a = parse_uuid b"
  using assms by (auto simp: submission_uuid_iff uuid_text_inj)

lemma uuid_text_chars: "c \<in> set (uuid_text n) \<Longrightarrow> is_alnum c \<or> c = CHR ''-''"
  unfolding uuid_text_def dashed_def
  by (auto dest!: in_set_takeD in_set_dropD elim!: hex_word_all_chars simp: hex_digit_facts(3))

lemma length_uuid_text: "length (uuid_text n) = 36"
  by (simp add: uuid_text_def dashed_def)

section \<open>Enums\<close>

text \<open>Every enum is an interpretation of \<open>str_enum\<close>, so members are read back and values differ.\<close>

interpretation work_type: str_enum WorkType_members WorkType_value
proof
  show "x \<in> set WorkType_members" for x by (cases x) (simp_all add: WorkType_members_def)
qed (simp add: WorkType_members_def)

interpretation outcome_status: str_enum OutcomeStatus_members OutcomeStatus_value
proof
  show "x \<in> set OutcomeStatus_members" for x by (cases x) (simp_all add: OutcomeStatus_members_def)
qed (simp add: OutcomeStatus_members_def)

interpretation billing_treatment: str_enum BillingTreatment_members BillingTreatment_value
proof
  show "x \<in> set BillingTreatment_members" for x by (cases x) (simp_all add: BillingTreatment_members_def)
qed (simp add: BillingTreatment_members_def)

interpretation rate_class: str_enum RateClass_members RateClass_value
proof
  show "x \<in> set RateClass_members" for x by (cases x) (simp_all add: RateClass_members_def)
qed (simp add: RateClass_members_def)

interpretation evidence_requirement: str_enum EvidenceRequirement_members EvidenceRequirement_value
proof
  show "x \<in> set EvidenceRequirement_members" for x by (cases x) (simp_all add: EvidenceRequirement_members_def)
qed (simp add: EvidenceRequirement_members_def)

interpretation evidence_state: str_enum EvidenceStatus_members EvidenceStatus_value
proof
  show "x \<in> set EvidenceStatus_members" for x by (cases x) (simp_all add: EvidenceStatus_members_def)
qed (simp add: EvidenceStatus_members_def)

interpretation photo_policy: str_enum PhotoPolicy_members PhotoPolicy_value
proof
  show "x \<in> set PhotoPolicy_members" for x by (cases x) (simp_all add: PhotoPolicy_members_def)
qed (simp add: PhotoPolicy_members_def)

interpretation capture_method: str_enum CaptureMethod_members CaptureMethod_value
proof
  show "x \<in> set CaptureMethod_members" for x by (cases x) (simp_all add: CaptureMethod_members_def)
qed (simp add: CaptureMethod_members_def)

interpretation evidence_kind: str_enum EvidenceKind_members EvidenceKind_value
proof
  show "x \<in> set EvidenceKind_members" for x by (cases x) (simp_all add: EvidenceKind_members_def)
qed (simp add: EvidenceKind_members_def)

interpretation technical_value: str_enum TechnicalValue_members TechnicalValue_value
proof
  show "x \<in> set TechnicalValue_members" for x by (cases x) (simp_all add: TechnicalValue_members_def)
qed (simp add: TechnicalValue_members_def)

lemmas capture_enum_eq [simp] =
  inj_eq [OF injI [OF work_type.val_inj]]
  inj_eq [OF injI [OF outcome_status.val_inj]]
  inj_eq [OF injI [OF billing_treatment.val_inj]]
  inj_eq [OF injI [OF rate_class.val_inj]]
  inj_eq [OF injI [OF evidence_requirement.val_inj]]
  inj_eq [OF injI [OF evidence_state.val_inj]]
  inj_eq [OF injI [OF photo_policy.val_inj]]
  inj_eq [OF injI [OF capture_method.val_inj]]
  inj_eq [OF injI [OF evidence_kind.val_inj]]
  inj_eq [OF injI [OF technical_value.val_inj]]

lemmas capture_enum_of = WorkType_of_def OutcomeStatus_of_def BillingTreatment_of_def RateClass_of_def EvidenceRequirement_of_def EvidenceStatus_of_def PhotoPolicy_of_def CaptureMethod_of_def EvidenceKind_of_def TechnicalValue_of_def
  work_type.of_val outcome_status.of_val billing_treatment.of_val rate_class.of_val evidence_requirement.of_val evidence_state.of_val photo_policy.of_val capture_method.of_val evidence_kind.of_val technical_value.of_val

section \<open>References\<close>

lemma EntityRef_init_iff:
  "EntityRef_init r = Inr e \<longleftrightarrow> valid_identifier (et_stable_id r) \<and>
     (\<exists>t. clean_text (et_display_name r) ''display_name'' 200 = Inr t \<and> e = r\<lparr>et_display_name := t\<rparr>) \<and>
     (\<forall>u. et_source_uri r = Some u \<longrightarrow> validate_reference_uri u ''source_uri'' = None)"
  by (auto simp: EntityRef_init_def rbind_Inr_iff check_simps)

lemma EntityRef_init_self: "EntityRef_init r = Inr e \<Longrightarrow> EntityRef_init e = Inr e"
  by (auto simp: EntityRef_init_iff dest!: clean_text_clean intro!: exI clean_text_id)

lemma ActorRef_init_iff:
  "ActorRef_init r = Inr e \<longleftrightarrow> valid_identifier (ac_principal_id r) \<and>
     (\<exists>t. clean_text (ac_display_name r) ''display_name'' 200 = Inr t \<and> e = r\<lparr>ac_display_name := t\<rparr>) \<and>
     (\<forall>m. ac_email r = Some m \<longrightarrow> CHR ''@'' \<in> set m \<and> \<not> multiline m)"
  by (auto simp: ActorRef_init_def rbind_Inr_iff check_simps)

lemma ActorRef_init_self: "ActorRef_init r = Inr e \<Longrightarrow> ActorRef_init e = Inr e"
  by (auto simp: ActorRef_init_iff dest!: clean_text_clean intro!: exI clean_text_id)

lemma CaptureEvidence_init_iff:
  "CaptureEvidence_init r = Inr e \<longleftrightarrow> valid_identifier (ce_reference_id r) \<and>
     validate_reference_uri (ce_source_uri r) ''source_uri'' = None \<and>
     (\<exists>t. optional_text (ce_file_name r) ''file_name'' 255 = Inr t \<and> e = r\<lparr>ce_file_name := t\<rparr>) \<and>
     (\<forall>h. ce_content_hash r = Some h \<longrightarrow> is_sha256 h)"
  by (auto simp: CaptureEvidence_init_def rbind_Inr_iff check_simps)

lemma CaptureEvidence_init_self: "CaptureEvidence_init r = Inr e \<Longrightarrow> CaptureEvidence_init e = Inr e"
  by (auto simp: CaptureEvidence_init_iff dest!: optional_text_clean intro!: exI optional_text_id)

lemma reference_etas [simp]:
  "\<lparr>et_stable_id = et_stable_id e, et_display_name = et_display_name e, et_source_uri = et_source_uri e\<rparr> = e"
  "\<lparr>ac_principal_id = ac_principal_id a, ac_display_name = ac_display_name a, ac_email = ac_email a\<rparr> = a"
  "\<lparr>ce_reference_id = ce_reference_id c, ce_kind = ce_kind c, ce_source_uri = ce_source_uri c, ce_file_name = ce_file_name c, ce_content_hash = ce_content_hash c\<rparr> = c"
  "\<lparr>fu_required = fu_required f, fu_summary = fu_summary f, fu_due_at = fu_due_at f, fu_owner = fu_owner f\<rparr> = f"
  by simp_all

interpretation entity_codec: codec EntityRef_to_dict EntityRef_from_dict "\<lambda>e. EntityRef_init e = Inr e" id
  by unfold_locales (simp_all add: EntityRef_from_dict_def EntityRef_to_dict_def)

interpretation actor_codec: codec ActorRef_to_dict ActorRef_from_dict "\<lambda>e. ActorRef_init e = Inr e" id
  by unfold_locales (simp_all add: ActorRef_from_dict_def ActorRef_to_dict_def)

interpretation evidence_codec: codec CaptureEvidence_to_dict CaptureEvidence_from_dict
  "\<lambda>e. CaptureEvidence_init e = Inr e" id
  by unfold_locales (simp_all add: CaptureEvidence_from_dict_def CaptureEvidence_to_dict_def
      str_of_def EvidenceKind_of_def evidence_kind.of_val)

section \<open>Follow-ups\<close>

lemma iso_no_Z: "CHR ''Z'' \<notin> set (isoformat d)"
proof (cases d)
  case (Aware w off)
  have "\<not> is_digit (CHR ''Z'')" by code_simp
  then show ?thesis using Aware iso_wall_chars [of "CHR ''Z''" w]
    by (simp add: iso_offset_def pad_no_char)
next
  case (Naive w)
  have "\<not> is_digit (CHR ''Z'')" by code_simp
  then show ?thesis using Naive iso_wall_chars [of "CHR ''Z''" w] by simp
qed

lemma capture_datetime_iso: "stamp d \<Longrightarrow> capture_datetime f (JStr (isoformat d)) = Inr d"
  using py_replace_none [OF iso_no_Z [of d], of "[]" "''+00:00''"]
  by (simp add: capture_datetime_def parse_z_def) (simp add: stamp_def)

lemma isoformat_inj: "stamp d \<Longrightarrow> stamp e \<Longrightarrow> isoformat d = isoformat e \<longleftrightarrow> d = e"
  by (metis capture_datetime_iso Inr_inject)

lemma FollowUp_init_iff:
  "FollowUp_init f = Inr g \<longleftrightarrow>
     (\<forall>d. fu_due_at f = Some d \<longrightarrow> \<not> tzinfo_None d) \<and>
     (if fu_required f then \<exists>s t. fu_summary f = Some s \<and>
        clean_text s ''follow-up summary'' 500 = Inr t \<and> g = f\<lparr>fu_summary := Some t\<rparr>
      else fu_summary f = None \<and> fu_due_at f = None \<and> fu_owner f = None \<and> g = f)"
  by (auto simp: FollowUp_init_def rbind_Inr_iff check_simps split: option.splits)

lemma FollowUp_init_self: "FollowUp_init f = Inr g \<Longrightarrow> FollowUp_init g = Inr g"
  by (auto simp: FollowUp_init_iff split: if_splits dest!: clean_text_clean intro!: exI conjI clean_text_id)

definition FollowUp_wf :: "FollowUp \<Rightarrow> bool" where
  "FollowUp_wf f \<longleftrightarrow> FollowUp_init f = Inr f \<and> opt_stamp (fu_due_at f) \<and>
     (\<forall>a. fu_owner f = Some a \<longrightarrow> ActorRef_init a = Inr a)"

interpretation follow_up_codec: codec FollowUp_to_dict "\<lambda>d. FollowUp_from_dict (Some d)" FollowUp_wf id
proof
  show "FollowUp_wf f \<Longrightarrow> FollowUp_from_dict (Some (FollowUp_to_dict f)) = Inr (id f)" for f
  proof -
    assume wf: "FollowUp_wf f"
    then have "optional_capture_datetime (opt (\<lambda>d. JStr (isoformat d)) (fu_due_at f)) = Inr (fu_due_at f)"
      by (cases "fu_due_at f")
        (simp_all add: FollowUp_wf_def opt_stamp_def optional_capture_datetime_def capture_datetime_iso)
    moreover have "optional_object ''owner'' ActorRef_from_dict
        (opt (\<lambda>a. JObj (ActorRef_to_dict a)) (fu_owner f)) = Inr (fu_owner f)"
      using wf by (cases "fu_owner f")
        (simp_all add: FollowUp_wf_def optional_object_def capture_object_def actor_codec.dec_enc)
    ultimately show ?thesis
      using wf by (simp add: FollowUp_from_dict_def FollowUp_to_dict_def FollowUp_wf_def)
  qed
qed simp_all

section \<open>Drafts\<close>

text \<open>What the constructor of a draft makes of its arguments, field by field.\<close>

lemma CaptureDraft_init_cases:
  assumes "CaptureDraft_init d0 = Inr d"
  obtains key summary version billing_code task_reference memo reason where
    "submission_uuid (df_submission_key d0) = Inr key"
    "clean_text (df_summary d0) ''summary'' 500 = Inr summary"
    "clean_text (df_source_app_version d0) ''source_app_version'' 50 = Inr version"
    "optional_text (df_billing_code d0) ''billing_code'' 100 = Inr billing_code"
    "optional_text (df_task_reference d0) ''task_reference'' 100 = Inr task_reference"
    "optional_text (df_technical_note d0) ''technical_note'' 1000 = Inr memo"
    "if 1 < df_revision d0 then optional_text (df_correction_reason d0) ''correction_reason'' 500 = Inr reason
     else reason = df_correction_reason d0"
    "first_error (draft_times d0) = None" "first_error (draft_evidence d0) = None"
    "first_error (draft_lineage d) = None"
    "d = d0\<lparr>df_submission_key := key, df_summary := summary, df_source_app_version := version,
       df_billing_code := billing_code, df_task_reference := task_reference,
       df_technical_note := noted (d0\<lparr>df_summary := summary\<rparr>) memo, df_correction_reason := reason\<rparr>"
proof -
  obtain key d1 summary version d2 billing_code task_reference memo d3 where
    key: "submission_uuid (df_submission_key d0) = Inr key"
    and d1: "d1 = d0\<lparr>df_submission_key := key\<rparr>" "first_error (draft_times d0) = None"
    and summary: "clean_text (df_summary d1) ''summary'' 500 = Inr summary"
    and version: "clean_text (df_source_app_version d1) ''source_app_version'' 50 = Inr version"
    and d2: "d2 = d1\<lparr>df_summary := summary, df_source_app_version := version\<rparr>"
      "first_error (draft_evidence d1) = None"
    and texts: "optional_text (df_billing_code d2) ''billing_code'' 100 = Inr billing_code"
      "optional_text (df_task_reference d2) ''task_reference'' 100 = Inr task_reference"
      "optional_text (df_technical_note d2) ''technical_note'' 1000 = Inr memo"
    and d3: "d3 = d2\<lparr>df_billing_code := billing_code, df_task_reference := task_reference,
        df_technical_note := noted d2 memo\<rparr>" "first_error (draft_lineage d3) = None"
    and last: "(if 1 < df_revision d3 then
        rbind (optional_text (df_correction_reason d3) ''correction_reason'' 500) (\<lambda>reason.
          Inr (d3\<lparr>df_correction_reason := reason\<rparr>)) else Inr d3) = Inr d"
    using assms unfolding CaptureDraft_init_def Let_def rbind_Inr_iff construct_Inr_iff by blast
  define reason where "reason = df_correction_reason d"
  have d: "d = d3\<lparr>df_correction_reason := reason\<rparr>"
    and reason: "if 1 < df_revision d3
      then optional_text (df_correction_reason d3) ''correction_reason'' 500 = Inr reason
      else reason = df_correction_reason d3"
    using last by (auto simp: reason_def rbind_Inr_iff split: if_splits)
  have "first_error (draft_lineage d) = None"
  proof (cases "1 < df_revision d3")
    case True
    with reason have "reason = None \<longleftrightarrow> df_correction_reason d3 = None"
      using optional_text_None by auto
    with d3(2) True show ?thesis by (simp add: d draft_lineage_def check_simps)
  qed (use d3(2) reason in \<open>simp add: d draft_lineage_def check_simps\<close>)
  note lineage = this
  show thesis
  proof (rule that)
    show "clean_text (df_summary d0) ''summary'' 500 = Inr summary" using summary by (simp add: d1(1))
    show "clean_text (df_source_app_version d0) ''source_app_version'' 50 = Inr version"
      using version by (simp add: d1(1))
    show "optional_text (df_billing_code d0) ''billing_code'' 100 = Inr billing_code"
      "optional_text (df_task_reference d0) ''task_reference'' 100 = Inr task_reference"
      "optional_text (df_technical_note d0) ''technical_note'' 1000 = Inr memo"
      using texts by (simp_all add: d1(1) d2(1))
    show "if 1 < df_revision d0
        then optional_text (df_correction_reason d0) ''correction_reason'' 500 = Inr reason
        else reason = df_correction_reason d0"
      using reason by (simp add: d1(1) d2(1) d3(1) cong: if_cong)
    show "first_error (draft_evidence d0) = None" using d2(2) by (simp add: d1(1) draft_evidence_def)
    show "d = d0\<lparr>df_submission_key := key, df_summary := summary, df_source_app_version := version,
        df_billing_code := billing_code, df_task_reference := task_reference,
        df_technical_note := noted (d0\<lparr>df_summary := summary\<rparr>) memo, df_correction_reason := reason\<rparr>"
      by (auto simp: d d1(1) d2(1) d3(1) noted_def)
  qed (fact key d1(2) lineage)+
qed

lemma CaptureDraft_init_intro:
  assumes "submission_uuid (df_submission_key d) = Inr (df_submission_key d)"
    "clean 500 (df_summary d)" "clean 50 (df_source_app_version d)"
    "opt_clean 100 (df_billing_code d)" "opt_clean 100 (df_task_reference d)"
    "opt_clean 1000 (df_technical_note d)"
    "1 < df_revision d \<Longrightarrow> opt_clean 500 (df_correction_reason d)"
    "df_technical_value d = TV_CANDIDATE \<Longrightarrow> df_technical_note d \<noteq> None"
    "first_error (draft_times d) = None" "first_error (draft_evidence d) = None"
    "first_error (draft_lineage d) = None"
  shows "CaptureDraft_init d = Inr d"
proof -
  have "noted d (df_technical_note d) = df_technical_note d"
    using assms(6,8) by (auto simp: noted_def opt_clean_def clean_def split: option.splits)
  then show ?thesis
    using assms unfolding CaptureDraft_init_def
    by (auto simp: clean_text_id optional_text_id construct_ok Let_def)
qed

lemma CaptureDraft_init_checks:
  assumes "CaptureDraft_init d = Inr d"
  obtains "first_error (draft_times d) = None" "first_error (draft_evidence d) = None"
    "first_error (draft_lineage d) = None"
  using assms by (rule CaptureDraft_init_cases) (rule that)

lemma clean_mono: "clean m s \<Longrightarrow> m \<le> n \<Longrightarrow> clean n s"
  by (auto simp: clean_def)

definition normal_draft :: "CaptureDraft \<Rightarrow> bool" where
  \<comment> \<open>the texts of a draft are clean, its key is a canonical UUID and a candidate has a note\<close>
  "normal_draft d \<longleftrightarrow> (\<exists>n < 2 ^ 128. df_submission_key d = uuid_text n) \<and>
     clean 500 (df_summary d) \<and> clean 50 (df_source_app_version d) \<and>
     opt_clean 100 (df_billing_code d) \<and> opt_clean 100 (df_task_reference d) \<and>
     opt_clean 1000 (df_technical_note d) \<and>
     (df_technical_value d = TV_CANDIDATE \<longleftrightarrow> df_technical_note d \<noteq> None) \<and>
     (1 < df_revision d \<longrightarrow> opt_clean 500 (df_correction_reason d))"

lemma CaptureDraft_init_normal:
  assumes "CaptureDraft_init d0 = Inr d"
  shows "normal_draft d" "CaptureDraft_init d = Inr d"
proof -
  from assms obtain key summary version billing_code task_reference memo reason where c:
    "submission_uuid (df_submission_key d0) = Inr key"
    "clean_text (df_summary d0) ''summary'' 500 = Inr summary"
    "clean_text (df_source_app_version d0) ''source_app_version'' 50 = Inr version"
    "optional_text (df_billing_code d0) ''billing_code'' 100 = Inr billing_code"
    "optional_text (df_task_reference d0) ''task_reference'' 100 = Inr task_reference"
    "optional_text (df_technical_note d0) ''technical_note'' 1000 = Inr memo"
    and reason: "if 1 < df_revision d0
      then optional_text (df_correction_reason d0) ''correction_reason'' 500 = Inr reason
      else reason = df_correction_reason d0"
    and checks: "first_error (draft_times d0) = None" "first_error (draft_evidence d0) = None"
      "first_error (draft_lineage d) = None"
    and d: "d = d0\<lparr>df_submission_key := key, df_summary := summary, df_source_app_version := version,
       df_billing_code := billing_code, df_task_reference := task_reference,
       df_technical_note := noted (d0\<lparr>df_summary := summary\<rparr>) memo, df_correction_reason := reason\<rparr>"
    by (rule CaptureDraft_init_cases)
  note cleaned = c(2,3) [THEN clean_text_clean] c(4-6) [THEN optional_text_clean]
  have "opt_clean 1000 (df_technical_note d)"
    using cleaned(1,5) by (auto simp: d noted_def opt_clean_def intro: clean_mono split: option.splits)
  moreover have "df_technical_value d = TV_CANDIDATE \<longleftrightarrow> df_technical_note d \<noteq> None"
  proof (cases "df_technical_value d")
    case TV_NONE
    with checks(3) calculation show ?thesis
      by (cases "df_technical_note d") (auto simp: draft_lineage_def check_simps opt_clean_def clean_def)
  next
    case TV_CANDIDATE
    then show ?thesis by (auto simp: d noted_def)
  qed
  moreover have "1 < df_revision d \<longrightarrow> opt_clean 500 (df_correction_reason d)"
    using reason by (auto simp: d dest: optional_text_clean)
  ultimately show normal: "normal_draft d"
    using c(1) cleaned(1-4) by (auto simp: normal_draft_def submission_uuid_iff d)
  show "CaptureDraft_init d = Inr d"
  proof (rule CaptureDraft_init_intro)
    show "first_error (draft_times d) = None" using checks(1) by (simp add: d draft_times_def)
    show "first_error (draft_evidence d) = None" using checks(2) by (simp add: d draft_evidence_def)
    show "submission_uuid (df_submission_key d) = Inr (df_submission_key d)"
      using submission_uuid_id [OF c(1)] by (simp add: d)
  qed (use normal checks(3) in \<open>simp_all add: normal_draft_def\<close>)
qed

section \<open>The text of a capture determines the capture\<close>

lemma date_text_inj:
  assumes "1 \<le> m" "m \<le> 3652059" "1 \<le> n" "n \<le> 3652059"
  shows "date_text m = date_text n \<longleftrightarrow> m = n"
  using iso_date_less(2) [OF ord2ymd_valid [OF assms(1,2)] ord2ymd_valid [OF assms(3,4)]]
    ord2ymd_inverse [OF assms(1)] ord2ymd_inverse [OF assms(3)]
  unfolding date_text_def by metis

lemma sorted_opt_eq:
  assumes "\<And>x y. sorted_json (f x) = sorted_json (f y) \<longleftrightarrow> x = y" "\<And>x. sorted_json (f x) \<noteq> JNull"
  shows "sorted_json (opt f v) = sorted_json (opt f w) \<longleftrightarrow> v = w"
  using assms by (cases v; cases w) (auto dest: sym)

lemma sorted_opt_str [simp]: "sorted_json (opt JStr v) = sorted_json (opt JStr w) \<longleftrightarrow> v = w"
  by (rule sorted_opt_eq) simp_all

lemma sorted_opt_iso:
  assumes "opt_stamp v" "opt_stamp w"
  shows "sorted_json (opt (\<lambda>d. JStr (isoformat d)) v) = sorted_json (opt (\<lambda>d. JStr (isoformat d)) w)
    \<longleftrightarrow> v = w"
  using assms by (cases v; cases w) (auto simp: opt_stamp_def isoformat_inj)

lemma sorted_EntityRef:
  "sorted_json (JObj (EntityRef_to_dict e)) = sorted_json (JObj (EntityRef_to_dict e')) \<longleftrightarrow> e = e'"
proof
  assume "sorted_json (JObj (EntityRef_to_dict e)) = sorted_json (JObj (EntityRef_to_dict e'))"
  from sorted_fields [OF this] show "e = e'"
    by (cases e; cases e') (simp add: EntityRef_to_dict_def)
qed simp

lemma sorted_ActorRef:
  "sorted_json (JObj (ActorRef_to_dict e)) = sorted_json (JObj (ActorRef_to_dict e')) \<longleftrightarrow> e = e'"
proof
  assume "sorted_json (JObj (ActorRef_to_dict e)) = sorted_json (JObj (ActorRef_to_dict e'))"
  from sorted_fields [OF this] show "e = e'"
    by (cases e; cases e') (simp add: ActorRef_to_dict_def)
qed simp

lemma sorted_CaptureEvidence:
  "sorted_json (JObj (CaptureEvidence_to_dict e)) = sorted_json (JObj (CaptureEvidence_to_dict e'))
     \<longleftrightarrow> e = e'"
proof
  assume "sorted_json (JObj (CaptureEvidence_to_dict e)) = sorted_json (JObj (CaptureEvidence_to_dict e'))"
  from sorted_fields [OF this] show "e = e'"
    by (cases e; cases e') (simp add: CaptureEvidence_to_dict_def)
qed simp

lemma sorted_opt_EntityRef:
  "sorted_json (opt (\<lambda>e. JObj (EntityRef_to_dict e)) v) =
     sorted_json (opt (\<lambda>e. JObj (EntityRef_to_dict e)) w) \<longleftrightarrow> v = w"
  by (rule sorted_opt_eq [OF sorted_EntityRef]) simp

lemma sorted_opt_ActorRef:
  "sorted_json (opt (\<lambda>e. JObj (ActorRef_to_dict e)) v) =
     sorted_json (opt (\<lambda>e. JObj (ActorRef_to_dict e)) w) \<longleftrightarrow> v = w"
  by (rule sorted_opt_eq [OF sorted_ActorRef]) simp

lemma sorted_FollowUp:
  assumes "opt_stamp (fu_due_at f)" "opt_stamp (fu_due_at f')"
    and "sorted_json (JObj (FollowUp_to_dict f)) = sorted_json (JObj (FollowUp_to_dict f'))"
  shows "f = f'"
  using sorted_fields [OF assms(3)] sorted_opt_iso [OF assms(1,2)] sorted_opt_ActorRef
  by (cases f; cases f') (simp add: FollowUp_to_dict_def del: sorted_json.simps(7))

lemma sorted_evidence:
  "sorted_json (JList (map (\<lambda>e. JObj (CaptureEvidence_to_dict e)) xs)) =
     sorted_json (JList (map (\<lambda>e. JObj (CaptureEvidence_to_dict e)) ys)) \<longleftrightarrow> xs = ys"
  using inj_map_eq_map [OF injI [of "\<lambda>e. sorted_json (JObj (CaptureEvidence_to_dict e))"], of xs ys]
  by (simp add: comp_def sorted_CaptureEvidence del: sorted_json.simps(7))

lemma sorted_strs: "sorted_json (strs xs) = sorted_json (strs ys) \<longleftrightarrow> xs = ys"
  using inj_map_eq_map [OF injI [of JStr], of xs ys] by (simp add: strs_def comp_def)

definition facts_text :: "WorkCapture \<Rightarrow> string" where
  \<comment> \<open>the text the payload hash of a capture is the SHA-256 of\<close>
  "facts_text c = stable_json (JObj (dict_del ''payload_hash'' (WorkCapture_to_dict c)))"

lemma payload_hash_text: "payload_hash c = sha256_hex (utf8 (facts_text c))"
  by (simp add: payload_hash_def digest_def facts_text_def del: stable_json.simps)

definition representable :: "WorkCapture \<Rightarrow> bool" where
  \<comment> \<open>dates and times Python can represent\<close>
  "representable c \<longleftrightarrow> 1 \<le> wc_work_date c \<and> wc_work_date c \<le> 3652059 \<and> stamp (wc_captured_at c) \<and>
     opt_stamp (wc_work_started_at c) \<and> opt_stamp (fu_due_at (wc_follow_up c))"

lemma payload_dict:
  "dict_del ''payload_hash'' (WorkCapture_to_dict c) = capture_facts c @ [(''ai_inferences'', JList [])]"
  by (simp add: dict_del_def WorkCapture_to_dict_def capture_facts_def)

lemma capture_keys:
  "map fst (capture_facts c) = map fst (capture_facts c')" "distinct (map fst (capture_facts c))"
  "''ai_inferences'' \<notin> fst ` set (capture_facts c)"
  by (simp_all add: capture_facts_def)

lemma float_free_opt [simp]: "(\<And>x. float_free (f x)) \<Longrightarrow> float_free (opt f v)"
  by (cases v) simp_all

lemma float_free_strs [simp]: "float_free (strs xs)"
  by (simp add: strs_def list_all_iff)

lemma float_free_capture: "float_free (JObj (capture_facts c @ [(''ai_inferences'', JList [])]))"
  by (simp add: capture_facts_def EntityRef_to_dict_def ActorRef_to_dict_def FollowUp_to_dict_def
      CaptureEvidence_to_dict_def list_all_iff)

lemma facts_text_inj:
  assumes ok: "representable c" "representable c'" and eq: "facts_text c = facts_text c'"
    and ai: "wc_ai_inferences c = []" "wc_ai_inferences c' = []"
  shows "c\<lparr>wc_payload_hash := h\<rparr> = c'\<lparr>wc_payload_hash := h\<rparr>"
proof -
  have "sorted_json (JObj (capture_facts c @ [(''ai_inferences'', JList [])])) =
      sorted_json (JObj (capture_facts c' @ [(''ai_inferences'', JList [])]))"
    using eq unfolding facts_text_def payload_dict
    by (rule stable.doc_inj [OF float_free_capture float_free_capture])
  from sorted_fields [OF this] have fields: "map (sorted_json \<circ> snd) (capture_facts c) =
      map (sorted_json \<circ> snd) (capture_facts c')"
    using capture_keys by simp
  have date: "date_text (wc_work_date c) = date_text (wc_work_date c') \<longleftrightarrow> wc_work_date c = wc_work_date c'"
    using ok by (intro date_text_inj) (simp_all add: representable_def)
  have stamps: "stamp (wc_captured_at c)" "stamp (wc_captured_at c')"
    "opt_stamp (wc_work_started_at c)" "opt_stamp (wc_work_started_at c')"
    "opt_stamp (fu_due_at (wc_follow_up c))" "opt_stamp (fu_due_at (wc_follow_up c'))"
    using ok by (simp_all add: representable_def)
  note reads = sorted_EntityRef sorted_opt_EntityRef sorted_ActorRef sorted_evidence sorted_strs date
    isoformat_inj [OF stamps(1,2)] sorted_opt_iso [OF stamps(3,4)]
  have "wc_follow_up c = wc_follow_up c'"
    using fields stamps by (intro sorted_FollowUp)
      (simp_all add: capture_facts_def del: sorted_json.simps(6,7))
  moreover have "wc_work_date c = wc_work_date c'" "wc_work_started_at c = wc_work_started_at c'"
    "wc_captured_at c = wc_captured_at c'"
    using fields by (simp_all add: capture_facts_def reads del: sorted_json.simps(6,7))
  ultimately show ?thesis
    using fields ai
    by (cases c; cases c') (simp add: capture_facts_def reads(1-5) del: sorted_json.simps(6,7))
qed

section \<open>Compilation\<close>

definition photo_admissible :: "CaptureDraft \<Rightarrow> PhotoPolicy \<Rightarrow> bool" where
  \<comment> \<open>photos only where the policy allows them, an authorization only with a photo, and always
     with one under a restricted policy\<close>
  "photo_admissible d policy \<longleftrightarrow>
     (if has_photo d then policy = PP_ALLOWED \<or>
        policy = PP_RESTRICTED \<and> df_photo_authorization_ref d \<noteq> None
      else df_photo_authorization_ref d = None)"

lemma validate_photo_policy_None:
  "validate_photo_policy d policy = None \<longleftrightarrow> photo_admissible d policy"
  by (cases policy) (auto simp: validate_photo_policy_def photo_admissible_def check_simps)

definition billing_of :: "CaptureDraft \<Rightarrow> ProjectDefaults \<Rightarrow> BillingTreatment" where
  "billing_of d p = (case df_billing_treatment d of None \<Rightarrow> pd_default_billing_treatment p | Some b \<Rightarrow> b)"

lemma resolved_fst: "fst (resolved v x) = (case v of None \<Rightarrow> x | Some y \<Rightarrow> y)"
  and resolved_snd: "snd (resolved v x) \<longleftrightarrow> v = None"
  by (simp_all add: resolved_def split: option.splits)

definition compile_guards :: "CaptureDraft \<Rightarrow> ProjectDefaults \<Rightarrow> bool" where
  \<comment> \<open>the conditions before the photo policy\<close>
  "compile_guards d p \<longleftrightarrow> pd_active p \<and> df_project_id d = et_stable_id (pd_project p) \<and>
     (pd_task_reference_required p \<longrightarrow> df_task_reference d \<noteq> None) \<and>
     (billing_of d p = BT_BILLABLE \<longrightarrow> pd_client p \<noteq> None)"

definition admissible :: "CaptureDraft \<Rightarrow> ProjectDefaults \<Rightarrow> bool" where
  \<comment> \<open>the declarative conditions under which a draft compiles\<close>
  "admissible d p \<longleftrightarrow> compile_guards d p \<and> photo_admissible d (pd_photo_policy p)"

definition hashed :: "WorkCapture \<Rightarrow> WorkCapture" where
  "hashed c = c\<lparr>wc_payload_hash := payload_hash c\<rparr>"

definition compiled :: "CaptureDraft \<Rightarrow> ProjectDefaults \<Rightarrow> WorkCapturePlan" where
  \<comment> \<open>what an admissible draft compiles to\<close>
  "compiled d p = \<lparr>wp_canonical_owner = ''Work Log'', wp_capture = hashed (draft_capture d p),
     wp_projections = projection_plan (hashed (draft_capture d p))\<rparr>"

definition evidence_wanted :: "CaptureDraft \<Rightarrow> ProjectDefaults \<Rightarrow> bool" where
  \<comment> \<open>there is evidence, or the work type in force requires some\<close>
  "evidence_wanted d p \<longleftrightarrow> df_evidence_refs d \<noteq> [] \<or>
     evidence_requirement_for p (case df_work_type d of None \<Rightarrow> pd_default_work_type p | Some w \<Rightarrow> w) =
       ER_REQUIRED"

lemma projection_destinations:
  "map pi_destination (projection_plan c) =
     [PD_PROJECT_ACTIVITY, PD_WEEKLY_SUMMARY, PD_DAILY_INTELLIGENCE] @
     (if wc_billing_treatment c \<in> {BT_BILLABLE, BT_REVIEW_REQUIRED} then [PD_BILLING_PREPARATION] else []) @
     (if fu_required (wc_follow_up c) then [PD_ACTIONS] else []) @
     (if wc_evidence_refs c \<noteq> [] \<or> wc_evidence_requirement c = ER_REQUIRED
      then [PD_EVIDENCE_TEST_RESULTS, PD_PROJECT_FILES] else []) @
     (if wc_technical_value c = TV_CANDIDATE then [PD_ENGINEERING_KNOWLEDGE] else [])"
  by (simp add: projection_plan_def projection_values_def)

lemma capture_id_valid:
  assumes "df_submission_key d = uuid_text n"
  shows "valid_identifier (''WC-'' @ df_submission_key d)"
proof -
  let ?t = "uuid_text n"
  have plain: "c \<noteq> CHR ''.''" "c \<noteq> CHR '':''" if "c \<in> set ?t" for c
  proof -
    have "\<not> is_alnum (CHR ''.'')" "\<not> is_alnum (CHR '':'')" by code_simp+
    with uuid_text_chars [OF that] show "c \<noteq> CHR ''.''" "c \<noteq> CHR '':''" by auto
  qed
  have "?t \<noteq> []" using length_uuid_text [of n] by force
  moreover have "CHR '':'' \<notin> set ?t" using plain by blast
  ultimately have "\<not> py_in ''::'' (''WC-'' @ ?t)" by (auto simp: py_in_iff append_eq_Cons_conv Cons_eq_append_conv append_eq_append_conv2)
  moreover have "list_all identifier_char ?t"
    using uuid_text_chars by (fastforce simp: list_all_iff identifier_char_def)
  moreover have "is_alnum (CHR ''W'')" "identifier_char (CHR ''C'')" "identifier_char (CHR ''-'')"
    by code_simp+
  moreover have "last ?t \<in> set ?t" using \<open>?t \<noteq> []\<close> by simp
  ultimately show ?thesis
    using plain [of "last ?t"] \<open>?t \<noteq> []\<close> length_uuid_text [of n]
    by (simp add: assms valid_identifier_def identifier_match_def)
qed

lemma draft_capture_sel [simp]:
  "wc_capture_id (draft_capture d p) = ''WC-'' @ df_submission_key d"
  "wc_schema_version (draft_capture d p) = SCHEMA_VERSION"
  "wc_fact_origin (draft_capture d p) = ''human_confirmed''"
  "wc_ai_inferences (draft_capture d p) = []"
  "wc_payload_hash (draft_capture d p) = replicate 64 (CHR ''0'')"
  "wc_billing_treatment (draft_capture d p) = billing_of d p"
  "wc_follow_up (draft_capture d p) = df_follow_up d"
  "wc_evidence_refs (draft_capture d p) = df_evidence_refs d"
  "wc_technical_value (draft_capture d p) = df_technical_value d"
  "wc_evidence_requirement (draft_capture d p) = evidence_requirement_for p
     (case df_work_type d of None \<Rightarrow> pd_default_work_type p | Some w \<Rightarrow> w)"
  "wc_work_date (draft_capture d p) = df_work_date d"
  "wc_captured_at (draft_capture d p) = df_captured_at d"
  "wc_work_started_at (draft_capture d p) = df_work_started_at d"
  by (simp_all add: draft_capture_def Let_def resolved_fst billing_of_def)

lemma WorkCapture_init_draft:
  assumes "valid_identifier (''WC-'' @ df_submission_key d)"
  shows "WorkCapture_init (draft_capture d p) = Inr (draft_capture d p)"
    and "WorkCapture_init (hashed (draft_capture d p)) = Inr (hashed (draft_capture d p))"
proof -
  define z where "z = replicate 64 (CHR ''0'')"
  have "is_sha256 z" unfolding z_def by code_simp
  moreover have "wc_payload_hash (draft_capture d p) = z"
    by (simp only: draft_capture_sel z_def)
  ultimately show "WorkCapture_init (draft_capture d p) = Inr (draft_capture d p)"
    using assms
    by (simp add: WorkCapture_init_def construct_ok check_simps validate_identifier_def
        del: draft_capture_sel(5))
  show "WorkCapture_init (hashed (draft_capture d p)) = Inr (hashed (draft_capture d p))"
    using assms by (simp add: WorkCapture_init_def construct_ok check_simps validate_identifier_def
        hashed_def payload_hash_def)
qed

lemma validate_photo_policy_Permission:
  "(\<exists>m. validate_photo_policy d policy = Some (PermissionError m)) \<longleftrightarrow> has_photo d \<and>
     (policy = PP_PROHIBITED \<or> policy = PP_RESTRICTED \<and> df_photo_authorization_ref d = None)"
  by (cases policy) (auto simp: validate_photo_policy_def require_def)

lemma validate_photo_policy_kind:
  "validate_photo_policy d policy = Some e \<Longrightarrow> \<exists>m. e = PermissionError m \<or> e = ValueError m"
  by (auto simp: validate_photo_policy_def require_def split: if_splits)

lemma compile_capture_cases:
  assumes "normal_draft d"
  shows "if compile_guards d p then compile_capture d p =
      (case validate_photo_policy d (pd_photo_policy p) of
         None \<Rightarrow> Inr (compiled d p) | Some e \<Rightarrow> Inl e)
    else \<exists>m. compile_capture d p = Inl (ValueError m)"
proof -
  have task: "df_task_reference d \<noteq> Some []"
    using assms by (auto simp: normal_draft_def opt_clean_def clean_def)
  obtain n where "df_submission_key d = uuid_text n" using assms by (auto simp: normal_draft_def)
  note init = WorkCapture_init_draft [OF capture_id_valid [OF this], of p]
  show ?thesis
    using task init
    by (auto simp: compile_capture_def compile_guards_def construct_def require_def resolved_fst
        billing_of_def compiled_def hashed_def split: option.splits)
qed

lemma compile_admissible:
  assumes "normal_draft d"
  shows "compile_capture d p = Inr plan \<longleftrightarrow> admissible d p \<and> plan = compiled d p"
  using compile_capture_cases [OF assms, of p] validate_photo_policy_None [of d "pd_photo_policy p"]
  by (auto simp: admissible_def split: if_splits option.splits)

lemma compile_refused:
  assumes "normal_draft d"
  shows "((\<exists>m. compile_capture d p = Inl (PermissionError m)) \<longleftrightarrow>
       compile_guards d p \<and> has_photo d \<and> (pd_photo_policy p = PP_PROHIBITED \<or>
         pd_photo_policy p = PP_RESTRICTED \<and> df_photo_authorization_ref d = None))"
    and "compile_capture d p = Inl e \<Longrightarrow> \<exists>m. e = PermissionError m \<or> e = ValueError m"
  using compile_capture_cases [OF assms, of p] validate_photo_policy_Permission [of d "pd_photo_policy p"]
    validate_photo_policy_kind [of d "pd_photo_policy p"]
  by (auto split: if_splits option.splits)

end
