(* ===== verification/CaptureProperties.thy ===== *)
theory CaptureProperties
  imports CaptureFacts
begin

text \<open>
  The properties of work capture: the normal form of drafts, the exact conditions of compilation,
  what the payload hash binds, retries of one submission, the projections, and the JSON forms of
  the references, each with a concrete instance.
\<close>

section \<open>A sample submission\<close>

definition sample_key :: string where
  "sample_key = ''00000000-0000-0000-0000-00000000002a''"

definition sample_key_urn :: string where
  \<comment> \<open>another spelling of the same UUID\<close>
  "sample_key_urn = ''urn:uuid:{00000000-0000-00000000-00000000002a}''"

definition sample_engineer :: ActorRef where
  "sample_engineer = \<lparr>ac_principal_id = ''ada'', ac_display_name = ''Ada'', ac_email = None\<rparr>"

definition sample_project :: EntityRef where
  "sample_project = \<lparr>et_stable_id = ''P-1'', et_display_name = ''Plant'', et_source_uri = None\<rparr>"

definition sample_photo :: CaptureEvidence where
  "sample_photo = \<lparr>ce_reference_id = ''E-1'', ce_kind = EK_HANDOFF_PHOTO,
     ce_source_uri = ''https://files.example/photo'', ce_file_name = Some ''photo.jpg'', ce_content_hash = None\<rparr>"

definition sample_follow_up :: FollowUp where
  "sample_follow_up = \<lparr>fu_required = True, fu_summary = Some ''Call back'',
     fu_due_at = Some (Aware 0 0), fu_owner = Some sample_engineer\<rparr>"

definition sample_defaults :: ProjectDefaults where
  "sample_defaults = \<lparr>pd_profile_version = ''1.0.0'', pd_project = sample_project,
     pd_client = Some sample_project, pd_active = True, pd_default_work_type = hd WorkType_members,
     pd_default_outcome = hd OutcomeStatus_members, pd_default_billing_treatment = BT_BILLABLE,
     pd_default_rate_class = hd RateClass_members, pd_default_billing_code = None,
     pd_task_reference_required = False, pd_default_evidence_requirement = ER_OPTIONAL,
     pd_evidence_by_work_type = [], pd_photo_policy = PP_RESTRICTED, pd_secure_site = False\<rparr>"

definition submitted :: "string \<Rightarrow> int \<Rightarrow> CaptureDraft" where
  \<comment> \<open>the arguments of a submission under a key, lasting some minutes\<close>
  "submitted key minutes = \<lparr>df_submission_key = key, df_project_id = ''P-1'', df_engineer = sample_engineer,
     df_work_date = 1, df_duration_minutes = minutes, df_summary = ''  Fixed   pump'',
     df_captured_at = Aware 0 0, df_capture_method = hd CaptureMethod_members,
     df_source_app_version = ''1.0'', df_work_started_at = None, df_work_type = None,
     df_outcome = None, df_billing_treatment = None, df_rate_class = None, df_billing_code = None,
     df_task_reference = None, df_follow_up = sample_follow_up, df_evidence_refs = [sample_photo],
     df_photo_authorization_ref = Some ''AUTH-1'', df_technical_value = TV_CANDIDATE,
     df_technical_note = None, df_revision = 1, df_supersedes_capture_id = None,
     df_correction_reason = None\<rparr>"

definition sample_draft :: CaptureDraft where
  \<comment> \<open>the constructed draft: one spelling of the key, a clean summary, a note\<close>
  "sample_draft = (submitted sample_key 30)
     \<lparr>df_summary := ''Fixed pump'', df_technical_note := Some ''Fixed pump''\<rparr>"


definition sample_retry :: CaptureDraft where
  "sample_retry = sample_draft\<lparr>df_duration_minutes := 45\<rparr>"

lemma sample_keys: "submission_uuid sample_key = Inr sample_key"
  "submission_uuid sample_key_urn = Inr sample_key"
proof -
  have key: "sample_key = uuid_text 42" by code_simp
  have "uuid_hex sample_key_urn = uuid_hex sample_key" by code_simp
  then have urn: "parse_uuid sample_key_urn = parse_uuid sample_key" by (simp add: parse_uuid_def)
  show "submission_uuid sample_key = Inr sample_key" "submission_uuid sample_key_urn = Inr sample_key"
    using parse_uuid_text [of 42] by (simp_all add: submission_uuid_def urn key)
qed

lemma submitted_times: "first_error (draft_times (submitted k 30)) = None"
  "first_error (draft_times (submitted k 45)) = None"
  by code_simp+

lemma submitted_evidence: "first_error (draft_evidence (submitted k n)) = None"
  by code_simp

lemma submitted_texts:
  "clean_text ''  Fixed   pump'' ''summary'' 500 = Inr ''Fixed pump''"
  "clean_text ''1.0'' ''source_app_version'' 50 = Inr ''1.0''"
  by code_simp+

lemma submitted_drafts:
  "CaptureDraft_init (submitted sample_key 30) = Inr sample_draft"
  "CaptureDraft_init (submitted sample_key_urn 45) = Inr sample_retry"
  using submitted_times submitted_evidence submitted_texts
  by (simp_all add: CaptureDraft_init_def sample_keys construct_ok Let_def optional_text_def
      noted_def draft_lineage_def check_simps sample_draft_def sample_retry_def submitted_def)

lemma sample_plans:
  "compile_capture sample_draft sample_defaults = Inr (compiled sample_draft sample_defaults)"
  "compile_capture sample_retry sample_defaults = Inr (compiled sample_retry sample_defaults)"
proof -
  have "admissible sample_draft sample_defaults" "admissible sample_retry sample_defaults"
    by code_simp+
  then show "compile_capture sample_draft sample_defaults = Inr (compiled sample_draft sample_defaults)"
    "compile_capture sample_retry sample_defaults = Inr (compiled sample_retry sample_defaults)"
    using submitted_drafts [THEN CaptureDraft_init_normal(1)] by (simp_all add: compile_admissible)
qed

section \<open>Drafts\<close>

text \<open>A draft that could be constructed is in normal form: its submission key is the canonical
  text of a UUID, its texts are trimmed, free of repeated white space, not empty and within their
  bounds, a knowledge candidate and nothing else carries a note, it lasts from one minute to a day,
  it was not captured before the day of the work, and has at most twenty, distinct evidence
  references. An original capture supersedes nothing and a correction names what it corrects and
  why. Constructing the draft again from its own fields gives the same draft.\<close>
theorem draft_normal_form:
  assumes "CaptureDraft_init d0 = Inr d"
  shows "normal_draft d \<and> CaptureDraft_init d = Inr d \<and>
    1 \<le> df_duration_minutes d \<and> df_duration_minutes d \<le> 1440 \<and>
    df_work_date d \<le> date_of (df_captured_at d) \<and>
    (\<forall>t. df_work_started_at d = Some t \<longrightarrow>
       instant t \<le> instant (df_captured_at d) \<and> date_of t = df_work_date d) \<and>
    length (df_evidence_refs d) \<le> 20 \<and> distinct (map ce_reference_id (df_evidence_refs d)) \<and>
    1 \<le> df_revision d \<and>
    (df_revision d = 1 \<longleftrightarrow> df_supersedes_capture_id d = None) \<and>
    (df_revision d = 1 \<longleftrightarrow> df_correction_reason d = None)"
proof -
  note normal = CaptureDraft_init_normal [OF assms]
  obtain "first_error (draft_times d) = None" "first_error (draft_evidence d) = None"
    "first_error (draft_lineage d) = None"
    using normal(2) by (rule CaptureDraft_init_checks)
  with normal show ?thesis
    by (cases "df_work_started_at d")
      (auto simp: draft_times_def draft_evidence_def draft_lineage_def check_simps)
qed

theorem draft_normal_form_witness:
  "normal_draft sample_draft \<and> CaptureDraft_init sample_draft = Inr sample_draft \<and>
   length (df_evidence_refs sample_draft) \<le> 20"
  using draft_normal_form [OF submitted_drafts(1)] by blast

section \<open>Compilation\<close>

text \<open>(C31) A constructed draft compiles under the defaults of a project exactly when the project is
  active and the one the draft names, a task is named where the project asks for one, billable work
  has a client, and the photo policy admits its evidence; the plan is then the one stated field by
  field by the default resolution. It is refused with a permission error exactly when
  the other conditions on the project hold and a photo is prohibited, or restricted and not
  authorised; every other refusal is a value error.\<close>
theorem compile_exact:
  assumes "CaptureDraft_init d0 = Inr d"
  shows "(compile_capture d p = Inr plan \<longleftrightarrow> admissible d p \<and> plan = compiled d p) \<and>
    ((\<exists>m. compile_capture d p = Inl (PermissionError m)) \<longleftrightarrow>
       compile_guards d p \<and> has_photo d \<and> (pd_photo_policy p = PP_PROHIBITED \<or>
         pd_photo_policy p = PP_RESTRICTED \<and> df_photo_authorization_ref d = None)) \<and>
    (\<forall>e. compile_capture d p = Inl e \<longrightarrow> (\<exists>m. e = PermissionError m \<or> e = ValueError m))"
  using compile_admissible compile_refused CaptureDraft_init_normal(1) [OF assms] by blast

theorem compile_exact_witness:
  "compile_capture sample_draft sample_defaults = Inr (compiled sample_draft sample_defaults) \<and>
   (\<exists>m. compile_capture sample_draft (sample_defaults\<lparr>pd_photo_policy := PP_PROHIBITED\<rparr>) =
      Inl (PermissionError m))"
proof
  show "compile_capture sample_draft sample_defaults = Inr (compiled sample_draft sample_defaults)"
    using compile_exact [OF submitted_drafts(1)] sample_plans(1) by blast
  have "has_photo sample_draft" "compile_guards sample_draft (sample_defaults\<lparr>pd_photo_policy := PP_PROHIBITED\<rparr>)"
    by code_simp+
  then show "\<exists>m. compile_capture sample_draft (sample_defaults\<lparr>pd_photo_policy := PP_PROHIBITED\<rparr>) =
      Inl (PermissionError m)"
    using compile_exact [OF submitted_drafts(1),
        of "sample_defaults\<lparr>pd_photo_policy := PP_PROHIBITED\<rparr>"] by simp
qed

section \<open>What a compiled capture commits to\<close>

lemma payload_hash_hashed: "payload_hash (c\<lparr>wc_payload_hash := h\<rparr>) = payload_hash c"
  by (simp add: payload_hash_def payload_dict capture_facts_def)

lemma representable_hashed [simp]: "representable (c\<lparr>wc_payload_hash := h\<rparr>) = representable c"
  by (simp add: representable_def)

text \<open>(C32) The payload hash of a compiled capture binds every fact of the record. The capture in a
  plan is valid, holds confirmed facts and no inference, and its stored hash is the hash of its own
  content. A record without inferences whose content has that hash is the same capture, unless the
  two payload texts are different texts with the same SHA-256.\<close>
theorem capture_hash_binds:
  assumes "CaptureDraft_init d0 = Inr d" "compile_capture d p = Inr plan"
    "representable (wp_capture plan)" "representable c" "wc_ai_inferences c = []"
    "wc_payload_hash c = payload_hash c" "wc_payload_hash c = wc_payload_hash (wp_capture plan)"
  shows "WorkCapture_init (wp_capture plan) = Inr (wp_capture plan) \<and>
    wc_fact_origin (wp_capture plan) = ''human_confirmed'' \<and>
    wc_ai_inferences (wp_capture plan) = [] \<and>
    wc_payload_hash (wp_capture plan) = payload_hash (wp_capture plan) \<and>
    (c = wp_capture plan \<or> facts_text c \<noteq> facts_text (wp_capture plan) \<and>
      sha256_hex (utf8 (facts_text c)) = sha256_hex (utf8 (facts_text (wp_capture plan))))"
proof -
  have normal: "normal_draft d" using assms(1) by (rule CaptureDraft_init_normal)
  have plan: "wp_capture plan = hashed (draft_capture d p)"
    using assms(2) compile_admissible [OF normal] by (simp add: compiled_def)
  obtain n where "df_submission_key d = uuid_text n" using normal by (auto simp: normal_draft_def)
  note init = WorkCapture_init_draft(2) [OF capture_id_valid [OF this], of p]
  have self: "wc_payload_hash (wp_capture plan) = payload_hash (wp_capture plan)"
    by (simp add: plan hashed_def payload_hash_hashed)
  moreover have "c = wp_capture plan" if "facts_text c = facts_text (wp_capture plan)"
    using facts_text_inj [OF assms(4,3) that assms(5), of "wc_payload_hash c"] assms(7)
    by (simp add: plan hashed_def) (cases c; simp)
  ultimately show ?thesis
    using init assms(6,7) by (auto simp: plan hashed_def payload_hash_text [symmetric])
qed

theorem capture_hash_binds_witness:
  "WorkCapture_init (wp_capture (compiled sample_draft sample_defaults)) =
     Inr (wp_capture (compiled sample_draft sample_defaults)) \<and>
   wc_payload_hash (wp_capture (compiled sample_draft sample_defaults)) =
     payload_hash (wp_capture (compiled sample_draft sample_defaults))"
proof -
  have "representable (draft_capture sample_draft sample_defaults)" by code_simp
  then have ok: "representable (wp_capture (compiled sample_draft sample_defaults))"
    by (simp add: compiled_def hashed_def)
  have "wc_ai_inferences (wp_capture (compiled sample_draft sample_defaults)) = []"
    "wc_payload_hash (wp_capture (compiled sample_draft sample_defaults)) =
     payload_hash (wp_capture (compiled sample_draft sample_defaults))"
    by (simp_all add: compiled_def hashed_def payload_hash_hashed)
  from capture_hash_binds [OF submitted_drafts(1) sample_plans(1) ok ok this refl] show ?thesis by blast
qed

section \<open>Retries\<close>

text \<open>(C33) A submission can be retried. Two constructed drafts compile to captures with the same
  identity exactly when their submission keys denote the same UUID, whatever spelling of it each
  used, and then the projections to one destination have the same identity as well, although the
  rest of the drafts and the defaults may differ.\<close>
theorem submission_retry_safe:
  assumes "CaptureDraft_init d0 = Inr d" "CaptureDraft_init e0 = Inr e"
    "compile_capture d p = Inr plan" "compile_capture e q = Inr plan'"
  shows "(wc_capture_id (wp_capture plan) = wc_capture_id (wp_capture plan') \<longleftrightarrow>
      parse_uuid (df_submission_key d0) = parse_uuid (df_submission_key e0)) \<and>
    (parse_uuid (df_submission_key d0) = parse_uuid (df_submission_key e0) \<longrightarrow>
      (\<forall>i \<in> set (wp_projections plan). \<forall>j \<in> set (wp_projections plan').
         pi_destination i = pi_destination j \<longrightarrow> pi_projection_id i = pi_projection_id j))"
proof -
  have normal: "normal_draft d" "normal_draft e" using assms(1,2) by (auto dest: CaptureDraft_init_normal(1))
  have plans: "plan = compiled d p" "plan' = compiled e q"
    using assms(3,4) compile_admissible normal by blast+
  have keys: "submission_uuid (df_submission_key d0) = Inr (df_submission_key d)"
    "submission_uuid (df_submission_key e0) = Inr (df_submission_key e)"
    using assms(1,2) by (auto elim!: CaptureDraft_init_cases)
  from submission_uuid_same [OF this] show ?thesis
    by (auto simp: plans compiled_def hashed_def projection_plan_def)
qed

theorem submission_retry_safe_witness:
  "sample_key_urn \<noteq> sample_key \<and>
   wc_duration_minutes (wp_capture (compiled sample_draft sample_defaults)) \<noteq>
     wc_duration_minutes (wp_capture (compiled sample_retry sample_defaults)) \<and>
   wc_capture_id (wp_capture (compiled sample_draft sample_defaults)) =
     wc_capture_id (wp_capture (compiled sample_retry sample_defaults))"
proof (intro conjI)
  show "sample_key_urn \<noteq> sample_key" by (simp add: sample_key_def sample_key_urn_def)
  show "wc_duration_minutes (wp_capture (compiled sample_draft sample_defaults)) \<noteq>
     wc_duration_minutes (wp_capture (compiled sample_retry sample_defaults))"
    by (simp add: compiled_def hashed_def draft_capture_def Let_def sample_retry_def sample_draft_def
        submitted_def)
  have "parse_uuid (df_submission_key (submitted sample_key 30)) =
      parse_uuid (df_submission_key (submitted sample_key_urn 45))"
    using submission_uuid_same [OF sample_keys] by (simp add: submitted_def)
  with submission_retry_safe [OF submitted_drafts sample_plans]
  show "wc_capture_id (wp_capture (compiled sample_draft sample_defaults)) =
     wc_capture_id (wp_capture (compiled sample_retry sample_defaults))" by blast
qed

section \<open>Projections\<close>

definition wanted :: "CaptureDraft \<Rightarrow> ProjectDefaults \<Rightarrow> ProjectionDestination \<Rightarrow> bool" where
  \<comment> \<open>the destinations a submission feeds\<close>
  "wanted d p destination = (case destination of
       PD_BILLING_PREPARATION \<Rightarrow> billing_of d p \<noteq> BT_NON_BILLABLE
     | PD_ACTIONS \<Rightarrow> fu_required (df_follow_up d)
     | PD_ENGINEERING_KNOWLEDGE \<Rightarrow> df_technical_value d = TV_CANDIDATE
     | PD_EVIDENCE_TEST_RESULTS \<Rightarrow> evidence_wanted d p
     | PD_PROJECT_FILES \<Rightarrow> evidence_wanted d p
     | _ \<Rightarrow> True)"

text \<open>(C34) The projections of a plan are exactly the ones its capture calls for: at most one for each
  destination, the billing, action, evidence and knowledge destinations under their own condition
  and the three views of the work always. Something is created only where the engineer asked for it,
  as a follow-up or a knowledge candidate, every other projection is a view or a reference, and each
  one names the capture, its hash and the identity derived from capture and destination.\<close>
theorem projections_exact:
  assumes "CaptureDraft_init d0 = Inr d" "compile_capture d p = Inr plan"
  shows "distinct (map pi_destination (wp_projections plan)) \<and>
    (destination \<in> pi_destination ` set (wp_projections plan) \<longleftrightarrow> wanted d p destination) \<and>
    (\<forall>i \<in> set (wp_projections plan).
       (pi_mode i = PM_CREATE_ONCE \<longleftrightarrow> pi_destination i \<in> {PD_ACTIONS, PD_ENGINEERING_KNOWLEDGE}) \<and>
       pi_source_capture_id i = wc_capture_id (wp_capture plan) \<and>
       pi_source_payload_hash i = wc_payload_hash (wp_capture plan) \<and>
       pi_projection_id i = projection_id (wc_capture_id (wp_capture plan)) (pi_destination i))"
proof -
  have plan: "plan = compiled d p"
    using assms(2) compile_admissible [OF CaptureDraft_init_normal(1) [OF assms(1)]] by blast
  define c where "c = hashed (draft_capture d p)"
  have c: "wc_billing_treatment c = billing_of d p" "wc_follow_up c = df_follow_up d"
    "wc_technical_value c = df_technical_value d"
    "(wc_evidence_refs c \<noteq> [] \<or> wc_evidence_requirement c = ER_REQUIRED) = evidence_wanted d p"
    by (simp_all add: c_def hashed_def evidence_wanted_def)
  have "wp_projections plan = projection_plan c" "wp_capture plan = c"
    by (simp_all add: plan compiled_def c_def)
  moreover have "distinct (map pi_destination (projection_plan c))"
    unfolding projection_destinations by simp
  moreover have "destination \<in> set (map pi_destination (projection_plan c)) \<longleftrightarrow> wanted d p destination"
    unfolding projection_destinations wanted_def
    by (cases destination; cases "billing_of d p") (simp_all add: c(1-3) c(4) [symmetric])
  moreover have "\<forall>i \<in> set (projection_plan c).
       (pi_mode i = PM_CREATE_ONCE \<longleftrightarrow> pi_destination i \<in> {PD_ACTIONS, PD_ENGINEERING_KNOWLEDGE}) \<and>
       pi_source_capture_id i = wc_capture_id c \<and> pi_source_payload_hash i = wc_payload_hash c \<and>
       pi_projection_id i = projection_id (wc_capture_id c) (pi_destination i)"
    by (auto simp: projection_plan_def projection_values_def)
  ultimately show ?thesis by simp
qed

theorem projections_exact_witness:
  "PD_ACTIONS \<in> pi_destination ` set (wp_projections (compiled sample_draft sample_defaults)) \<and>
   distinct (map pi_destination (wp_projections (compiled sample_draft sample_defaults)))"
proof -
  have "wanted sample_draft sample_defaults PD_ACTIONS" by code_simp
  with projections_exact [OF submitted_drafts(1) sample_plans(1), of PD_ACTIONS] show ?thesis by blast
qed

section \<open>The JSON forms of the references\<close>

text \<open>The entity, actor, evidence and follow-up references survive their JSON form: what the
  constructor accepted is read back from its dictionary as the same value, a follow-up with the
  owner and the due time it was given.\<close>
theorem capture_reference_round_trip:
  assumes "EntityRef_init e0 = Inr e" "ActorRef_init a0 = Inr a"
    "CaptureEvidence_init r0 = Inr r" "FollowUp_init f0 = Inr f"
    "fu_owner f \<in> {None, Some a}" "opt_stamp (fu_due_at f)"
  shows "EntityRef_from_dict (EntityRef_to_dict e) = Inr e \<and>
    ActorRef_from_dict (ActorRef_to_dict a) = Inr a \<and>
    CaptureEvidence_from_dict (CaptureEvidence_to_dict r) = Inr r \<and>
    FollowUp_from_dict (Some (FollowUp_to_dict f)) = Inr f"
proof -
  note self = assms(1) [THEN EntityRef_init_self] assms(2) [THEN ActorRef_init_self]
    assms(3) [THEN CaptureEvidence_init_self] assms(4) [THEN FollowUp_init_self]
  have "FollowUp_wf f" using self assms(5,6) by (auto simp: FollowUp_wf_def)
  with self show ?thesis
    using entity_codec.dec_enc [of e] actor_codec.dec_enc [of a] evidence_codec.dec_enc [of r]
      follow_up_codec.dec_enc [of f] by simp
qed

theorem capture_reference_round_trip_witness:
  "CaptureEvidence_from_dict (CaptureEvidence_to_dict sample_photo) = Inr sample_photo \<and>
   FollowUp_from_dict (Some (FollowUp_to_dict sample_follow_up)) = Inr sample_follow_up"
proof -
  have parts: "EntityRef_init sample_project = Inr sample_project"
    "ActorRef_init sample_engineer = Inr sample_engineer"
    "CaptureEvidence_init sample_photo = Inr sample_photo"
    "FollowUp_init sample_follow_up = Inr sample_follow_up"
    "fu_owner sample_follow_up \<in> {None, Some sample_engineer}"
    "opt_stamp (fu_due_at sample_follow_up)"
    by code_simp+
  from capture_reference_round_trip [OF this] show ?thesis by blast
qed

end
