(* ===== verification/PyFloat.thy ===== *)
theory PyFloat
  imports Prelude
begin

text \<open>
  Python's floats: a finite float is the rational number it stands for, and the result of an
  operation is the exact result rounded to a double (53 significant bits, halves to even, with
  the subnormals below \<open>2 powi -1022\<close>). Infinities, NaN and the overflow to them are outside the
  model.
\<close>

section \<open>Rounding\<close>

function bits :: "int \<Rightarrow> nat" where
  \<comment> \<open>\<open>n.bit_length()\<close> of a natural number\<close>
  "bits n = (if n \<le> 0 then 0 else Suc (bits (n div 2)))"
  by pat_completeness auto
termination
  by (relation "measure nat") auto

declare bits.simps [simp del]

definition binade :: "rat \<Rightarrow> int" where
  \<comment> \<open>the exponent of the power of two at or below a positive number\<close>
  "binade q = (let (a, b) = quotient_of q; k = int (bits a) - int (bits b)
     in if 2 powi k \<le> q then k else k - 1)"

definition round_even :: "rat \<Rightarrow> int" where
  "round_even q = (let n = \<lfloor>q\<rfloor>; r = q - rat_of_int n in
     if r < 1 / 2 \<or> r = 1 / 2 \<and> even n then n else n + 1)"

definition float64 :: "rat \<Rightarrow> rat" where
  "float64 q = (if q = 0 then 0 else
     let e = max (binade \<bar>q\<bar> - 52) (- 1074)
     in rat_of_int (round_even (q / 2 powi e)) * 2 powi e)"

section \<open>The rounding error\<close>

lemma bits_bounds: "0 < n \<Longrightarrow> 2 ^ (bits n - 1) \<le> n \<and> n < 2 ^ bits n \<and> 0 < bits n"
proof (induction n rule: bits.induct)
  case (1 n)
  show ?case
  proof (cases "n = 1")
    case True
    then show ?thesis by (simp add: bits.simps [of 1] bits.simps [of 0])
  next
    case False
    with 1 have half: "2 ^ (bits (n div 2) - 1) \<le> n div 2" "n div 2 < 2 ^ bits (n div 2)"
      "0 < bits (n div 2)" and n: "bits n = Suc (bits (n div 2))"
      by (auto simp: bits.simps [of n])
    have "(2::int) ^ bits (n div 2) = 2 * 2 ^ (bits (n div 2) - 1)"
      using half(3) by (cases "bits (n div 2)") auto
    with half n show ?thesis by (simp; linarith)
  qed
qed

lemma binade_bounds:
  assumes "0 < q"
  shows "2 powi (binade q) \<le> q" "q < 2 powi (binade q + 1)"
proof -
  obtain a b where ab: "quotient_of q = (a, b)" by fastforce
  then have q: "q = of_int a / of_int b" and b: "0 < b"
    by (auto intro: quotient_of_div quotient_of_denom_pos)
  with assms have a: "0 < a" by (simp add: zero_less_divide_iff)
  define k where "k = int (bits a) - int (bits b)"
  obtain m n where mn: "bits a = Suc m" "bits b = Suc n"
    using bits_bounds [OF a] bits_bounds [OF b] by (cases "bits a"; cases "bits b") auto
  have "of_int (2 ^ m) \<le> (of_int a :: rat)" "of_int a < (of_int (2 ^ Suc m) :: rat)"
    "of_int (2 ^ n) \<le> (of_int b :: rat)" "of_int b < (of_int (2 ^ Suc n) :: rat)"
    using bits_bounds [OF a] bits_bounds [OF b] unfolding mn of_int_le_iff of_int_less_iff by simp_all
  then have sizes: "2 ^ m \<le> (of_int a :: rat)" "of_int a < (2 * 2 ^ m :: rat)"
    "2 ^ n \<le> (of_int b :: rat)" "of_int b < (2 * 2 ^ n :: rat)" by simp_all
  have pw: "(2::rat) powi k = 2 ^ m / 2 ^ n"
    by (simp add: k_def mn power_int_diff)
  have pos: "(0::rat) < 2 ^ n" "(0::rat) < of_int b" using b by simp_all
  have "of_int a * 2 ^ n < (2 * 2 ^ m) * (of_int b :: rat)"
    using sizes pos a by (intro mult_less_le_imp_less) auto
  then have upper: "q < 2 * 2 powi k"
    using pos by (simp add: q pw field_simps)
  have "2 ^ m * of_int b < (of_int a :: rat) * (2 * 2 ^ n)"
    using sizes a b by (intro mult_le_less_imp_less) auto
  then have lower: "2 powi k < 2 * q"
    using pos by (simp add: q pw field_simps)
  have half: "(2::rat) powi (k - 1) = 2 powi k / 2"
    by (simp add: power_int_diff)
  have bin: "binade q = (if 2 powi k \<le> q then k else k - 1)"
    by (simp add: binade_def ab k_def)
  show "2 powi (binade q) \<le> q" using lower by (simp add: bin half)
  show "q < 2 powi (binade q + 1)"
    using upper by (auto simp: bin power_int_add half not_le)
qed

lemma round_even_error: "\<bar>rat_of_int (round_even q) - q\<bar> \<le> 1 / 2"
proof -
  have "rat_of_int \<lfloor>q\<rfloor> \<le> q" "q < rat_of_int \<lfloor>q\<rfloor> + 1" by linarith+
  then show ?thesis by (auto simp: round_even_def Let_def abs_le_iff)
qed

lemma float64_error:
  assumes "2 powi (- 1022) \<le> \<bar>q\<bar>"
  shows "\<bar>float64 q - q\<bar> \<le> \<bar>q\<bar> / 2 ^ 53"
proof -
  have q: "0 < \<bar>q\<bar>" using assms zero_less_power_int [of "2::rat" "- 1022"] by linarith
  define k where "k = binade \<bar>q\<bar>"
  have k: "2 powi k \<le> \<bar>q\<bar>" "\<bar>q\<bar> < 2 powi (k + 1)" using binade_bounds [OF q] by (simp_all add: k_def)
  have "\<not> k + 1 \<le> - 1022"
    using power_int_increasing [of "k + 1" "- 1022" "2::rat"] k(2) assms by auto
  then have e: "max (k - 52) (- 1074) = k - 52" by simp
  define u :: rat where "u = 2 powi (k - 52)"
  have u: "0 < u" "u * 2 ^ 52 = 2 powi k" by (simp_all add: u_def power_int_diff)
  have "float64 q = rat_of_int (round_even (q / u)) * u"
    using q by (simp add: float64_def Let_def e [unfolded k_def] u_def k_def)
  then have "float64 q - q = (rat_of_int (round_even (q / u)) - q / u) * u"
    using u(1) by (simp add: left_diff_distrib)
  then have "\<bar>float64 q - q\<bar> = \<bar>rat_of_int (round_even (q / u)) - q / u\<bar> * u"
    using u(1) by (simp add: abs_mult)
  also have "\<dots> \<le> 1 / 2 * u"
    using round_even_error u(1) by (intro mult_right_mono) auto
  also have "\<dots> \<le> \<bar>q\<bar> / 2 ^ 53" using u k by (simp add: field_simps)
  finally show ?thesis .
qed

lemma float64_lower:
  assumes "2 powi (- 1022) \<le> q"
  shows "(1 - 1 / 2 ^ 53) * q \<le> float64 q"
proof -
  have "0 < q" using assms zero_less_power_int [of "2::rat" "- 1022"] by linarith
  define d where "d = q / 2 ^ 53"
  have "\<bar>float64 q - q\<bar> \<le> d" using float64_error [of q] assms \<open>0 < q\<close> by (simp add: d_def)
  then have "q - d \<le> float64 q" by linarith
  then show ?thesis by (simp add: d_def left_diff_distrib)
qed

lemma float64_nonneg: "0 \<le> q \<Longrightarrow> 0 \<le> float64 q"
  by (auto simp: float64_def Let_def round_even_def intro!: mult_nonneg_nonneg)

lemma float64_0 [simp]: "float64 0 = 0"
  by (simp add: float64_def)

end
