(* ===== verification/ProviderBudget.thy ===== *)
theory ProviderBudget
  imports DelegationModels CaptureText PyFloat
begin

text \<open>
  \<open>src/edn/intelligence/provider_budget_store.py\<close>: the durable ledger that reserves a budget for
  each attempt to call the model provider, with the configuration and the in-memory ledger of
  \<open>openai_provider.py\<close>. The tables of the SQLite file are lists of rows, each method is a state
  transformer and a \<open>BEGIN IMMEDIATE\<close> block a transaction. SQLite's \<open>SUM\<close> over real numbers is
  the parameter \<open>real_sum\<close>; what the checks of the directory and of the file see is an argument.
\<close>

section \<open>Configuration and estimates\<close>

definition OPENAI_INPUT_USD_PER_MILLION :: rat where
  "OPENAI_INPUT_USD_PER_MILLION = 1 / 4"

definition OPENAI_OUTPUT_USD_PER_MILLION :: rat where
  "OPENAI_OUTPUT_USD_PER_MILLION = 2"

record OpenAIPilotConfig =
  oc_enabled :: bool
  oc_model :: string
  oc_policy_id :: string
  oc_api_key_env :: string
  oc_max_requests_per_day :: int
  oc_max_successful_briefs_per_day :: int
  oc_max_retries_per_day :: int
  oc_max_context_chars :: int
  oc_max_output_tokens :: int
  oc_max_daily_spend_aud :: rat
  oc_max_monthly_spend_aud :: rat
  oc_usd_to_aud :: rat

definition OpenAIPilotConfig_default :: OpenAIPilotConfig where
  "OpenAIPilotConfig_default =
     \<lparr>oc_enabled = False, oc_model = ''gpt-5-mini-2025-08-07'',
      oc_policy_id = ''openai-daily-brief-pilot-v1'', oc_api_key_env = ''EDN_OPENAI_API_KEY'',
      oc_max_requests_per_day = 2, oc_max_successful_briefs_per_day = 1,
      oc_max_retries_per_day = 1, oc_max_context_chars = 4000, oc_max_output_tokens = 2000,
      oc_max_daily_spend_aud = 2, oc_max_monthly_spend_aud = 20,
      oc_usd_to_aud = float64 (8 / 5)\<rparr>"

definition OpenAIPilotConfig_init :: "OpenAIPilotConfig \<Rightarrow> OpenAIPilotConfig result" where
  "OpenAIPilotConfig_init c = construct
     [require (oc_model c \<noteq> [] \<and> oc_policy_id c \<noteq> [] \<and> oc_api_key_env c \<noteq> [])
        ''provider configuration identifiers are required'',
      require (0 \<le> oc_max_daily_spend_aud c \<and> 0 \<le> oc_max_monthly_spend_aud c)
        ''spend limits must not be negative'',
      require (1 \<le> oc_max_context_chars c \<and> 1 \<le> oc_max_output_tokens c)
        ''provider budgets must be positive''] c"

definition estimated_cost :: "OpenAIPilotConfig \<Rightarrow> int \<Rightarrow> rat" where
  \<comment> \<open>both terms and their sum are rounded to floats\<close>
  "estimated_cost config input_tokens = float64
     (float64 (float64 (rat_of_int input_tokens / 1000000) * OPENAI_INPUT_USD_PER_MILLION) +
      float64 (float64 (rat_of_int (oc_max_output_tokens config) / 1000000) *
        OPENAI_OUTPUT_USD_PER_MILLION))"

section \<open>The in-memory ledger\<close>

record BudgetDay =
  by_requests :: int
  by_successful_briefs :: int
  by_retries :: int
  by_estimated_usd :: rat

definition BudgetDay_default :: BudgetDay where
  "BudgetDay_default = \<lparr>by_requests = 0, by_successful_briefs = 0, by_retries = 0, by_estimated_usd = 0\<rparr>"

record PilotBudgetLedger =
  pb_daily :: "date \<Rightarrow> BudgetDay option"
  pb_monthly_usd :: "int \<times> int \<Rightarrow> rat option"

definition day_of :: "PilotBudgetLedger \<Rightarrow> date \<Rightarrow> BudgetDay" where
  "day_of s d = (case pb_daily s d of None \<Rightarrow> BudgetDay_default | Some b \<Rightarrow> b)"

definition month_usd :: "PilotBudgetLedger \<Rightarrow> int \<times> int \<Rightarrow> rat" where
  "month_usd s m = (case pb_monthly_usd s m of None \<Rightarrow> 0 | Some u \<Rightarrow> u)"

definition month_of :: "date \<Rightarrow> int \<times> int" where
  "month_of d = (let (y, m, _) = ord2ymd d in (y, m))"

definition pilot_admit ::
  "datetime \<Rightarrow> OpenAIPilotConfig \<Rightarrow> int \<Rightarrow> bool \<Rightarrow> (PilotBudgetLedger, rat) stm" where
  "pilot_admit now config input_tokens is_retry s =
     (let d = date_of now; day = day_of s d; month = month_of d;
          s' = s\<lparr>pb_daily := (pb_daily s)(d \<mapsto> day)\<rparr>;
          usd = estimated_cost config input_tokens;
          aud = float64 (usd * oc_usd_to_aud config)
      in if oc_max_requests_per_day config \<le> by_requests day \<or>
            oc_max_successful_briefs_per_day config \<le> by_successful_briefs day \<or>
            is_retry \<and> oc_max_retries_per_day config \<le> by_retries day \<or>
            oc_max_daily_spend_aud config <
              float64 (float64 (by_estimated_usd day * oc_usd_to_aud config) + aud) \<or>
            oc_max_monthly_spend_aud config <
              float64 (float64 (month_usd s month * oc_usd_to_aud config) + aud)
         then throw (DispatchError ''budget_exceeded'' []) s'
         else ret usd (s'\<lparr>
           pb_daily := (pb_daily s')(d \<mapsto> day\<lparr>by_requests := by_requests day + 1,
             by_retries := (if is_retry then by_retries day + 1 else by_retries day),
             by_estimated_usd := float64 (by_estimated_usd day + usd)\<rparr>),
           pb_monthly_usd := (pb_monthly_usd s')(month \<mapsto> float64 (month_usd s month + usd))\<rparr>))"

definition pilot_record_success :: "datetime \<Rightarrow> (PilotBudgetLedger, unit) stm" where
  "pilot_record_success now s = (let day = day_of s (date_of now) in
     ret () (s\<lparr>pb_daily := (pb_daily s)(date_of now \<mapsto>
       day\<lparr>by_successful_briefs := by_successful_briefs day + 1\<rparr>)\<rparr>))"

section \<open>The tables of the durable ledger\<close>

record Reservation =
  rv_request_id :: string
  rv_attempt :: int
  rv_day :: string
  rv_month :: string
  rv_is_retry :: int
  rv_estimated_usd :: rat
  rv_state :: string
  rv_success :: int
  rv_created_at :: string

record BudgetDB =
  bd_metadata :: "string dict"
  bd_reservations :: "Reservation list"

definition metadata_value :: "string \<Rightarrow> BudgetDB \<Rightarrow> string option" where
  "metadata_value k s = map_of (bd_metadata s) k"

record LedgerFiles =
  \<comment> \<open>what \<open>stat\<close> shows of the directory and of the file once they exist\<close>
  lf_root_is_dir :: bool
  lf_root_owned :: bool
  lf_root_mode :: int
  lf_path_is_symlink :: bool
  lf_file_is_regular :: bool
  lf_file_owned :: bool
  lf_file_mode :: int

definition ledger_connection :: "LedgerFiles \<Rightarrow> unit result" where
  \<comment> \<open>\<open>_connection\<close>; 448 and 384 are the modes \<open>0o700\<close> and \<open>0o600\<close>\<close>
  "ledger_connection f =
     (if \<not> lf_root_is_dir f \<or> \<not> lf_root_owned f \<or> lf_root_mode f \<noteq> 448
      then Inl (BudgetError ''durable budget directory is unsafe'')
      else if lf_path_is_symlink f then Inl (BudgetError ''durable budget path is unsafe'')
      else if \<not> lf_file_is_regular f \<or> \<not> lf_file_owned f \<or> lf_file_mode f \<noteq> 384
      then Inl (BudgetError ''durable budget ownership or mode is unsafe'')
      else Inr ())"

section \<open>The opening balance\<close>

definition OPENING_FIELDS :: "string list" where
  "OPENING_FIELDS = [''opening_status'', ''cutover_at'', ''authoritative_from'', ''opening_period'',
     ''historical_counters'', ''carry_in_aud'', ''monthly_limit_aud'', ''remaining_monthly_aud'',
     ''authority_ref'']"

definition opening_values :: "datetime \<Rightarrow> datetime \<Rightarrow> string \<Rightarrow> string \<Rightarrow> string dict" where
  "opening_values cutover_at daily_authority_from period authority_ref =
     [(''opening_status'', ''owner_attested''),
      (''cutover_at'', utc_text cutover_at),
      (''authoritative_from'', utc_text daily_authority_from),
      (''opening_period'', period),
      (''historical_counters'', ''unknown_pre_ledger''),
      (''carry_in_aud'', ''1.00''),
      (''monthly_limit_aud'', ''20.00''),
      (''remaining_monthly_aud'', ''19.00''),
      (''authority_ref'', authority_ref)]"

definition text_hash :: "string dict \<Rightarrow> string" where
  "text_hash d = canonical_hash (map (\<lambda>(k, v). (k, JStr v)) d)"

definition month_text :: "datetime \<Rightarrow> string" where
  \<comment> \<open>\<open>strftime("%Y-%m")\<close> of the UTC time\<close>
  "month_text d = take 7 (date_text (date_of (to_utc d)))"

definition opening_invalid ::
  "datetime \<Rightarrow> datetime \<Rightarrow> string \<Rightarrow> rat \<Rightarrow> rat \<Rightarrow> string \<Rightarrow> bool" where
  "opening_invalid cutover_at daily_authority_from period carry limit authority_ref =
     (tzinfo_None cutover_at \<or> tzinfo_None daily_authority_from \<or> period \<noteq> month_text cutover_at \<or>
      carry \<noteq> 1 \<or> limit \<noteq> 20 \<or>
      date_of (to_utc daily_authority_from) \<le> date_of (to_utc cutover_at) \<or> authority_ref = [])"

definition insert_metadata :: "string dict \<Rightarrow> (BudgetDB, unit) stm" where
  \<comment> \<open>\<open>executemany\<close> of inserts into a table whose primary key is the key\<close>
  "insert_metadata rows s =
     (if list_ex (\<lambda>(k, _). metadata_value k s \<noteq> None) rows \<or> \<not> distinct (map fst rows)
      then throw (IntegrityError ''UNIQUE constraint failed: metadata.key'') s
      else ret () (s\<lparr>bd_metadata := bd_metadata s @ rows\<rparr>))"

definition initialize_owner_opening_balance ::
  "LedgerFiles \<Rightarrow> datetime \<Rightarrow> datetime \<Rightarrow> string \<Rightarrow> rat \<Rightarrow> rat \<Rightarrow> string \<Rightarrow> (BudgetDB, unit) stm" where
  "initialize_owner_opening_balance files cutover_at daily_authority_from period carry limit authority_ref =
     (if opening_invalid cutover_at daily_authority_from period carry limit authority_ref
      then throw (BudgetError ''owner opening balance is invalid'')
      else let values = opening_values cutover_at daily_authority_from period authority_ref in
        sbind (lift (ledger_connection files)) (\<lambda>_.
        transaction (\<lambda>s. if metadata_value ''opening_status'' s \<noteq> None
          then throw (BudgetError ''owner opening balance already exists'') s
          else insert_metadata (values @ [(''opening_digest'', text_hash values)]) s)))"

definition opening_fields :: "string dict \<Rightarrow> string dict result" where
  "opening_fields values = traverse (\<lambda>k. case map_of values k of
     None \<Rightarrow> Inl (KeyError k) | Some v \<Rightarrow> Inr (k, v)) OPENING_FIELDS"

definition validate_opening :: "string dict \<Rightarrow> unit result" where
  "validate_opening values =
     (if map_of values ''opening_status'' \<noteq> Some ''owner_attested''
      then Inl (BudgetError ''owner opening balance is unavailable'')
      else rbind (opening_fields values) (\<lambda>fields.
        if map_of values ''opening_digest'' \<noteq> Some (text_hash fields) \<or>
           map_of fields ''historical_counters'' \<noteq> Some ''unknown_pre_ledger'' \<or>
           map_of fields ''carry_in_aud'' \<noteq> Some ''1.00'' \<or>
           map_of fields ''monthly_limit_aud'' \<noteq> Some ''20.00'' \<or>
           map_of fields ''remaining_monthly_aud'' \<noteq> Some ''19.00''
        then Inl (BudgetError ''owner opening balance is corrupt'') else Inr ()))"

definition opening_balance :: "LedgerFiles \<Rightarrow> (BudgetDB, string dict) stm" where
  "opening_balance files = sbind (lift (ledger_connection files)) (\<lambda>_ s.
     lift (rbind (validate_opening (bd_metadata s)) (\<lambda>_. Inr (bd_metadata s))) s)"

section \<open>Admission\<close>

definition next_month :: "datetime \<Rightarrow> datetime result" where
  \<comment> \<open>the first instant of the UTC month after a time\<close>
  "next_month now = (let (y, m, _) = ord2ymd (date_of (to_utc now));
       y' = (if m = 12 then y + 1 else y); m' = m mod 12 + 1 in
     if 9999 < y' then Inl (ValueError ''year must be in 1..9999'')
     else Inr (Aware ((ymd2ord (y', m', 1) - 1) * day_us) 0))"

definition budget_meta :: "datetime option \<Rightarrow> datetime \<Rightarrow> (BudgetDB, string) stm" where
  \<comment> \<open>\<open>_meta\<close>: an inserted cut-off is committed at once\<close>
  "budget_meta bootstrap now = transaction (\<lambda>s. case metadata_value ''authoritative_from'' s of
       Some v \<Rightarrow> ret v s
     | None \<Rightarrow> sbind (lift (case bootstrap of None \<Rightarrow> next_month now | Some c \<Rightarrow> Inr c)) (\<lambda>c.
         sbind (insert_metadata [(''authoritative_from'', utc_text c)]) (\<lambda>_. ret (utc_text c))) s)"

definition py_decimal :: "string \<Rightarrow> rat result" where
  \<comment> \<open>\<open>float\<close> of a plain decimal\<close>
  "py_decimal s = (let (a, found, b) = partition (CHR ''.'') s in
     if a \<noteq> [] \<and> list_all is_digit (a @ b) \<and> (found \<longrightarrow> b \<noteq> [])
     then Inr (float64 (of_nat (num (a @ b)) / 10 ^ length b))
     else Inl (ValueError ''could not convert string to float''))"

definition carry_in :: "string dict \<Rightarrow> string \<Rightarrow> rat result" where
  "carry_in metadata month = (if map_of metadata ''opening_period'' = Some month
     then (case map_of metadata ''carry_in_aud'' of
         None \<Rightarrow> Inl (KeyError ''carry_in_aud'') | Some v \<Rightarrow> py_decimal v)
     else Inr 0)"

definition day_rows :: "string \<Rightarrow> Reservation list \<Rightarrow> Reservation list" where
  "day_rows d = filter (\<lambda>r. rv_day r = d)"

definition month_rows :: "string \<Rightarrow> Reservation list \<Rightarrow> Reservation list" where
  "month_rows m = filter (\<lambda>r. rv_month r = m)"

definition sum_usd :: "(rat list \<Rightarrow> rat) \<Rightarrow> Reservation list \<Rightarrow> rat" where
  \<comment> \<open>\<open>COALESCE(SUM(estimated_usd),0)\<close>\<close>
  "sum_usd real_sum rs = (if rs = [] then 0 else real_sum (map rv_estimated_usd rs))"

definition spend_exceeded ::
  "(rat list \<Rightarrow> rat) \<Rightarrow> OpenAIPilotConfig \<Rightarrow> rat \<Rightarrow> Reservation list \<Rightarrow> string \<Rightarrow> rat \<Rightarrow> bool" where
  "spend_exceeded real_sum config carry rs day estimated =
     (oc_max_daily_spend_aud config <
        float64 (float64 (sum_usd real_sum (day_rows day rs) + estimated) * oc_usd_to_aud config) \<or>
      oc_max_monthly_spend_aud config < float64 (carry + float64 (float64
        (sum_usd real_sum (month_rows (take 7 day) rs) + estimated) * oc_usd_to_aud config)))"

definition counts_exceeded ::
  "OpenAIPilotConfig \<Rightarrow> Reservation list \<Rightarrow> string \<Rightarrow> bool \<Rightarrow> bool" where
  "counts_exceeded config rs day is_retry =
     (oc_max_requests_per_day config \<le> int (length (day_rows day rs)) \<or>
      oc_max_retries_per_day config <
        sum_list (map rv_is_retry (day_rows day rs)) + of_bool is_retry \<or>
      oc_max_successful_briefs_per_day config \<le> sum_list (map rv_success (day_rows day rs)))"

definition reservation ::
  "OpenAIPilotConfig \<Rightarrow> datetime \<Rightarrow> int \<Rightarrow> bool \<Rightarrow> string \<Rightarrow> int \<Rightarrow> Reservation" where
  "reservation config now input_tokens is_retry request_id attempt =
     (let day = date_text (date_of (to_utc now)) in
      \<lparr>rv_request_id = request_id, rv_attempt = attempt, rv_day = day, rv_month = take 7 day,
       rv_is_retry = of_bool is_retry, rv_estimated_usd = estimated_cost config input_tokens,
       rv_state = ''reserved'', rv_success = 0, rv_created_at = utc_text now\<rparr>)"

definition reserved :: "string \<Rightarrow> int \<Rightarrow> BudgetDB \<Rightarrow> bool" where
  "reserved request_id attempt s = list_ex (\<lambda>r. rv_request_id r = request_id \<and> rv_attempt r = attempt)
     (bd_reservations s)"

definition budget_reserve ::
  "(rat list \<Rightarrow> rat) \<Rightarrow> OpenAIPilotConfig \<Rightarrow> datetime \<Rightarrow> int \<Rightarrow> bool \<Rightarrow> string \<Rightarrow> int \<Rightarrow> string
     \<Rightarrow> (BudgetDB, rat) stm" where
  \<comment> \<open>the transaction of \<open>admit\<close> after \<open>_meta\<close>\<close>
  "budget_reserve real_sum config now input_tokens is_retry request_id attempt cutoff_text =
     transaction (
       sbind (lift (rbind (fromisoformat cutoff_text) (dt_less (to_utc now)))) (\<lambda>early.
       if early then throw (BudgetError ''historical provider activity is unresolved'')
       else (\<lambda>s. (let row = reservation config now input_tokens is_retry request_id attempt;
                rs = bd_reservations s in
         sbind (lift (validate_opening (bd_metadata s))) (\<lambda>_.
         sbind (lift (carry_in (bd_metadata s) (rv_month row))) (\<lambda>carry.
         if counts_exceeded config rs (rv_day row) is_retry \<or>
            spend_exceeded real_sum config carry rs (rv_day row) (rv_estimated_usd row)
         then throw (BudgetError ''durable provider budget exceeded'')
         else if reserved request_id attempt s
         then throw (BudgetError ''provider attempt replay is denied'')
         else (\<lambda>s. ret (rv_estimated_usd row) (s\<lparr>bd_reservations := rs @ [row]\<rparr>))))) s)))"

definition ledger_admit ::
  "(rat list \<Rightarrow> rat) \<Rightarrow> LedgerFiles \<Rightarrow> datetime option \<Rightarrow> datetime \<Rightarrow> OpenAIPilotConfig \<Rightarrow> int \<Rightarrow> bool
     \<Rightarrow> string \<Rightarrow> int \<Rightarrow> (BudgetDB, rat) stm" where
  "ledger_admit real_sum files bootstrap now config input_tokens is_retry request_id attempt =
     (if tzinfo_None now then throw (BudgetError ''durable budget admission is invalid'')
      else sbind (lift (ledger_connection files)) (\<lambda>_.
           sbind (budget_meta bootstrap now) (\<lambda>cutoff_text.
           budget_reserve real_sum config now input_tokens is_retry request_id attempt cutoff_text)))"

section \<open>Updates\<close>

definition budget_update :: "string \<Rightarrow> int \<Rightarrow> string \<Rightarrow> bool \<Rightarrow> (BudgetDB, unit) stm" where
  \<comment> \<open>\<open>_update\<close>; the primary key leaves at most one row to change\<close>
  "budget_update request_id attempt state success = transaction (\<lambda>s.
     if \<not> reserved request_id attempt s
     then throw (BudgetError ''durable budget reservation is missing'') s
     else ret () (s\<lparr>bd_reservations := map (\<lambda>r.
       if rv_request_id r = request_id \<and> rv_attempt r = attempt
       then r\<lparr>rv_state := state, rv_success := of_bool success\<rparr> else r) (bd_reservations s)\<rparr>))"

definition mark_transport_started :: "LedgerFiles \<Rightarrow> string \<Rightarrow> int \<Rightarrow> (BudgetDB, unit) stm" where
  "mark_transport_started files request_id attempt = sbind (lift (ledger_connection files)) (\<lambda>_.
     budget_update request_id attempt ''transport_started'' False)"

definition record_success :: "LedgerFiles \<Rightarrow> string \<Rightarrow> int \<Rightarrow> (BudgetDB, unit) stm" where
  "record_success files request_id attempt = sbind (lift (ledger_connection files)) (\<lambda>_.
     budget_update request_id attempt ''completed'' True)"

end
