(* ===== verification/BudgetRuns.thy ===== *)
theory BudgetRuns
  imports ProviderBudget
begin

text \<open>
  What each transaction of the provider budget does, sequences of transactions, and what they
  keep: every reservation was justified by the ones before it. The locale \<open>attempt_ledger\<close> bounds a
  counter that only an admission below the cap increases; both ledgers interpret it for their
  requests and for their retries.
\<close>

section \<open>A capped counter\<close>

locale attempt_ledger =
  fixes step :: "'s \<Rightarrow> 's \<Rightarrow> bool" and used :: "'s \<Rightarrow> 'd \<Rightarrow> int" and cap :: int
  assumes step_used: "step s t \<Longrightarrow> used t d = used s d \<or> used t d = used s d + 1 \<and> used t d \<le> cap"
begin

lemma used_mono: "step\<^sup>*\<^sup>* s t \<Longrightarrow> used s d \<le> used t d"
  by (induction rule: rtranclp_induct) (use step_used [of _ _ d] in fastforce)+

lemma used_bounded: "step\<^sup>*\<^sup>* s t \<Longrightarrow> used s d \<le> cap \<Longrightarrow> used t d \<le> cap"
  by (induction rule: rtranclp_induct) (use step_used [of _ _ d] in fastforce)+

end

section \<open>The effect of each transaction\<close>

lemma metadata_append:
  "metadata_value k (s\<lparr>bd_metadata := bd_metadata s @ rows\<rparr>) =
     (case metadata_value k s of None \<Rightarrow> map_of rows k | Some v \<Rightarrow> Some v)"
  by (simp add: metadata_value_def map_add_def split: option.splits)

lemma insert_metadata_iff:
  "insert_metadata rows s = (Inr u, t) \<longleftrightarrow> (\<forall>k \<in> fst ` set rows. metadata_value k s = None) \<and>
     distinct (map fst rows) \<and> t = s\<lparr>bd_metadata := bd_metadata s @ rows\<rparr>"
  "insert_metadata rows s = (Inl e, t) \<longleftrightarrow>
     ((\<exists>k \<in> fst ` set rows. metadata_value k s \<noteq> None) \<or> \<not> distinct (map fst rows)) \<and>
     e = IntegrityError ''UNIQUE constraint failed: metadata.key'' \<and> t = s"
  by (fastforce simp: insert_metadata_def list_ex_iff ret_iff throw_iff split: if_splits)+

lemma transaction_Inl_iff: "transaction m s = (Inl e, t) \<longleftrightarrow> t = s \<and> (\<exists>u. m s = (Inl e, u))"
  by (auto simp: transaction_def split: prod.splits sum.splits)

lemma budget_meta_known:
  "metadata_value ''authoritative_from'' s = Some v \<Longrightarrow> budget_meta b now s = (Inr v, s)"
  by (simp add: budget_meta_def transaction_def ret_def)

lemma budget_meta_effect:
  assumes "budget_meta b now s = (r, t)"
  shows "t = s \<or> metadata_value ''authoritative_from'' s = None \<and>
     (\<exists>v. r = Inr v \<and> t = s\<lparr>bd_metadata := bd_metadata s @ [(''authoritative_from'', v)]\<rparr>)"
proof (cases r)
  case (Inl e)
  with assms show ?thesis by (simp add: budget_meta_def transaction_Inl_iff)
next
  case (Inr v)
  with assms show ?thesis
    by (auto simp: budget_meta_def transaction_Inr_iff sbind_Inr_iff lift_iff ret_iff insert_metadata_iff
        split: option.splits)
qed

definition row_core :: "Reservation \<Rightarrow> string \<times> int \<times> string \<times> string \<times> int \<times> rat" where
  \<comment> \<open>the columns no update changes\<close>
  "row_core r = (rv_request_id r, rv_attempt r, rv_day r, rv_month r, rv_is_retry r, rv_estimated_usd r)"

lemma budget_update_effect:
  assumes "budget_update i n st ok s = (r, t)"
  shows "bd_metadata t = bd_metadata s \<and>
    map row_core (bd_reservations t) = map row_core (bd_reservations s)"
proof (cases r)
  case (Inl e)
  with assms show ?thesis by (simp add: budget_update_def transaction_Inl_iff)
next
  case (Inr v)
  with assms show ?thesis
    by (auto simp: budget_update_def transaction_Inr_iff ret_iff throw_iff row_core_def split: if_splits)
qed

lemma open_effect:
  assumes "initialize_owner_opening_balance f c d p carry limit ref s = (r, t)"
  shows "t = s \<or> metadata_value ''opening_status'' s = None \<and>
     metadata_value ''authoritative_from'' s = None \<and>
     t = s\<lparr>bd_metadata := bd_metadata s @ opening_values c d p ref @
       [(''opening_digest'', text_hash (opening_values c d p ref))]\<rparr> \<and>
     (\<forall>k \<in> fst ` set (opening_values c d p ref @ [(''opening_digest'', [])]). metadata_value k s = None)"
proof (cases r)
  case (Inl e)
  with assms show ?thesis
    by (auto simp: initialize_owner_opening_balance_def sbind_Inl_iff lift_iff throw_iff
        transaction_Inl_iff Let_def split: if_splits)
next
  case (Inr v)
  with assms show ?thesis
    by (auto simp: initialize_owner_opening_balance_def sbind_Inr_iff lift_iff throw_iff
        transaction_Inr_iff insert_metadata_iff opening_values_def Let_def split: if_splits)
qed

lemma budget_reserve_Inl: "budget_reserve rs c now n y i k cu s = (Inl e, t) \<Longrightarrow> t = s"
  by (simp add: budget_reserve_def transaction_Inl_iff)

lemma budget_reserve_Inr:
  "budget_reserve rs c now n y i k cu s = (Inr usd, t) \<longleftrightarrow>
     (\<exists>d. fromisoformat cu = Inr d \<and> dt_less (to_utc now) d = Inr False) \<and>
     validate_opening (bd_metadata s) = Inr () \<and>
     (\<exists>carry. carry_in (bd_metadata s) (rv_month (reservation c now n y i k)) = Inr carry \<and>
        \<not> spend_exceeded rs c carry (bd_reservations s) (rv_day (reservation c now n y i k))
           (estimated_cost c n)) \<and>
     \<not> counts_exceeded c (bd_reservations s) (rv_day (reservation c now n y i k)) y \<and>
     \<not> reserved i k s \<and> usd = estimated_cost c n \<and>
     t = s\<lparr>bd_reservations := bd_reservations s @ [reservation c now n y i k]\<rparr>"
proof -
  have est: "rv_estimated_usd (reservation c now n y i k) = estimated_cost c n"
    by (simp add: reservation_def Let_def)
  show ?thesis
    unfolding budget_reserve_def transaction_Inr_iff sbind_Inr_iff lift_iff Let_def est
    by (auto simp: sbind_Inr_iff lift_iff rbind_Inr_iff ret_iff throw_iff split: if_splits)
qed

lemma traverse_lookup:
  "traverse (\<lambda>k. case map_of m k of None \<Rightarrow> Inl (KeyError k) | Some v \<Rightarrow> Inr (k, v)) ks = Inr fs \<longleftrightarrow>
     map fst fs = ks \<and> (\<forall>(k, v) \<in> set fs. map_of m k = Some v)"
proof (induction ks arbitrary: fs)
  case (Cons k ks)
  then show ?case
    by (cases fs) (auto simp: rbind_Inr_iff split: option.splits)
qed auto

lemma opening_fields_iff:
  "opening_fields m = Inr fs \<longleftrightarrow>
     map fst fs = OPENING_FIELDS \<and> (\<forall>(k, v) \<in> set fs. map_of m k = Some v)"
  unfolding opening_fields_def by (rule traverse_lookup)

lemma opening_fields_lookup:
  assumes "opening_fields m = Inr fs" "k \<in> set OPENING_FIELDS"
  shows "map_of fs k = map_of m k \<and> map_of m k \<noteq> None"
proof -
  have "map fst fs = OPENING_FIELDS" and fs: "\<forall>(k, v) \<in> set fs. map_of m k = Some v"
    using assms(1) by (simp_all add: opening_fields_iff)
  then have "k \<in> fst ` set fs" using assms(2) by (metis set_map)
  then obtain v where "map_of fs k = Some v" using weak_map_of_SomeI by fastforce
  with fs show ?thesis using map_of_SomeD by fastforce
qed

lemma opening_valid:
  assumes "validate_opening m = Inr ()"
  shows "map_of m ''opening_status'' = Some ''owner_attested''"
    and "\<exists>v. map_of m ''authoritative_from'' = Some v"
    and "map_of m ''carry_in_aud'' = Some ''1.00''"
proof -
  obtain fs where fs: "opening_fields m = Inr fs" "map_of fs ''carry_in_aud'' = Some ''1.00''"
    using assms by (auto simp: validate_opening_def rbind_Inr_iff split: if_splits)
  show "map_of m ''opening_status'' = Some ''owner_attested''"
    using assms by (simp add: validate_opening_def split: if_splits)
  show "\<exists>v. map_of m ''authoritative_from'' = Some v" "map_of m ''carry_in_aud'' = Some ''1.00''"
    using fs opening_fields_lookup [OF fs(1)] by (auto simp: OPENING_FIELDS_def)
qed

lemma opened_valid:
  assumes "\<forall>(k, v) \<in> set (opening_values c d p ref). map_of m k = Some v"
    and "map_of m ''opening_digest'' = Some (text_hash (opening_values c d p ref))"
  shows "validate_opening m = Inr ()"
proof -
  have "opening_fields m = Inr (opening_values c d p ref)"
    using assms(1) by (simp add: opening_fields_iff opening_values_def OPENING_FIELDS_def)
  then show ?thesis
    using assms by (simp add: validate_opening_def opening_values_def)
qed

lemma carry_in_valid:
  assumes "validate_opening m = Inr ()"
  shows "carry_in m month = Inr (if map_of m ''opening_period'' = Some month then 1 else 0)"
proof -
  have "py_decimal ''1.00'' = Inr 1" by code_simp
  then show ?thesis using opening_valid(3) [OF assms] by (simp add: carry_in_def)
qed

section \<open>Sequences of transactions\<close>

inductive budget_step :: "(rat list \<Rightarrow> rat) \<Rightarrow> OpenAIPilotConfig \<Rightarrow> BudgetDB \<Rightarrow> BudgetDB \<Rightarrow> bool"
  for real_sum config where
  bs_meta: "budget_meta bootstrap now s = (r, t) \<Longrightarrow> budget_step real_sum config s t"
| bs_reserve: "budget_reserve real_sum config now input_tokens is_retry i n cu s = (r', t) \<Longrightarrow>
     0 \<le> input_tokens \<Longrightarrow> budget_step real_sum config s t"
| bs_update: "budget_update i n st ok s = (r'', t) \<Longrightarrow> budget_step real_sum config s t"
| bs_open: "initialize_owner_opening_balance files cutover_at daily_from period carry limit ref s =
     (r'', t) \<Longrightarrow> budget_step real_sum config s t"

lemma admit_steps:
  assumes "ledger_admit real_sum files b now config input_tokens is_retry i n s = (r, t)" "0 \<le> input_tokens"
  shows "(budget_step real_sum config)\<^sup>*\<^sup>* s t"
proof (cases "tzinfo_None now \<or> (\<exists>e. ledger_connection files = Inl e)")
  case True
  with assms show ?thesis
    by (auto simp: ledger_admit_def throw_iff lift_iff split: if_splits)
next
  case False
  obtain q u where meta: "budget_meta b now s = (q, u)" by fastforce
  from False assms(1) have "(case q of Inl e \<Rightarrow> (Inl e, u) | Inr cu \<Rightarrow>
      budget_reserve real_sum config now input_tokens is_retry i n cu u) = (r, t)"
    by (cases "ledger_connection files") (auto simp: ledger_admit_def sbind_def meta lift_def split: sum.splits)
  then have "budget_step real_sum config u t \<or> t = u"
    using assms(2) by (cases q) (auto intro: bs_reserve)
  moreover have "budget_step real_sum config s u" by (rule bs_meta [OF meta])
  ultimately show ?thesis by (auto intro: converse_rtranclp_into_rtranclp)
qed

lemma update_steps:
  assumes "mark_transport_started files i n s = (r, t) \<or> record_success files i n s = (r, t)"
  shows "(budget_step real_sum config)\<^sup>*\<^sup>* s t"
  using assms unfolding mark_transport_started_def record_success_def
  by (cases "ledger_connection files") (auto simp: throw_iff intro: bs_update)

inductive_cases budget_stepE: "budget_step real_sum config s t"

lemma budget_step_cases:
  assumes "budget_step real_sum config s t"
  obtains (meta) v where "metadata_value ''authoritative_from'' s = None"
      "t = s\<lparr>bd_metadata := bd_metadata s @ [(''authoritative_from'', v)]\<rparr>"
  | (reserve) now n y i k cu usd where "budget_reserve real_sum config now n y i k cu s = (Inr usd, t)"
      "0 \<le> n"
  | (update) "bd_metadata t = bd_metadata s"
      "map row_core (bd_reservations t) = map row_core (bd_reservations s)"
  | (opened) "metadata_value ''opening_status'' s = None"
      "metadata_value ''authoritative_from'' s = None" "bd_reservations t = bd_reservations s"
      "validate_opening (bd_metadata t) = Inr ()"
      "t = s\<lparr>bd_metadata := bd_metadata t\<rparr>"
  using assms
proof cases
  case (bs_meta b now r)
  then show ?thesis using budget_meta_effect [OF bs_meta] meta update by blast
next
  case (bs_reserve now n y i k cu r')
  then show ?thesis using budget_reserve_Inl reserve update by (cases r') blast+
next
  case (bs_update i n st ok r'')
  then show ?thesis using budget_update_effect update by blast
next
  case (bs_open files c d p carry limit ref r'')
  from open_effect [OF this] show ?thesis
  proof
    assume "t = s" then show ?thesis using update by blast
  next
    assume *: "metadata_value ''opening_status'' s = None \<and>
     metadata_value ''authoritative_from'' s = None \<and>
     t = s\<lparr>bd_metadata := bd_metadata s @ opening_values c d p ref @
       [(''opening_digest'', text_hash (opening_values c d p ref))]\<rparr> \<and>
     (\<forall>k \<in> fst ` set (opening_values c d p ref @ [(''opening_digest'', [])]). metadata_value k s = None)"
    then have "validate_opening (bd_metadata t) = Inr ()"
      by (intro opened_valid [of c d p ref])
        (auto simp: metadata_value_def map_add_def opening_values_def split: option.splits)
    then show ?thesis using * opened by auto
  qed
qed

section \<open>Every reservation was justified\<close>

definition opening_carry :: "string dict \<Rightarrow> string \<Rightarrow> rat" where
  "opening_carry m month = (if map_of m ''opening_period'' = Some month then 1 else 0)"

definition justified ::
  "(rat list \<Rightarrow> rat) \<Rightarrow> OpenAIPilotConfig \<Rightarrow> string dict \<Rightarrow> Reservation list \<Rightarrow> Reservation \<Rightarrow> bool" where
  \<comment> \<open>a reservation against the ones before it\<close>
  "justified real_sum config m earlier r \<longleftrightarrow>
     rv_month r = take 7 (rv_day r) \<and> rv_is_retry r \<in> {0, 1} \<and>
     (\<exists>n \<ge> 0. rv_estimated_usd r = estimated_cost config n) \<and>
     int (length (day_rows (rv_day r) earlier)) < oc_max_requests_per_day config \<and>
     sum_list (map rv_is_retry (day_rows (rv_day r) earlier)) + rv_is_retry r
       \<le> oc_max_retries_per_day config \<and>
     \<not> spend_exceeded real_sum config (opening_carry m (rv_month r)) earlier (rv_day r)
         (rv_estimated_usd r) \<and>
     (\<forall>q \<in> set earlier. \<not> (rv_request_id q = rv_request_id r \<and> rv_attempt q = rv_attempt r))"

definition budget_ok :: "(rat list \<Rightarrow> rat) \<Rightarrow> OpenAIPilotConfig \<Rightarrow> BudgetDB \<Rightarrow> bool" where
  "budget_ok real_sum config s \<longleftrightarrow>
     (bd_reservations s = [] \<or> validate_opening (bd_metadata s) = Inr ()) \<and>
     (\<forall>i < length (bd_reservations s). justified real_sum config (bd_metadata s)
        (take i (bd_reservations s)) (bd_reservations s ! i))"

lemma same_core_rows:
  assumes "map row_core xs = map row_core ys"
  shows "map row_core (day_rows d xs) = map row_core (day_rows d ys)"
    and "map row_core (month_rows m xs) = map row_core (month_rows m ys)"
proof -
  have "map row_core (day_rows d rs) = filter (\<lambda>(_, _, day, _). day = d) (map row_core rs)" for rs
    by (induction rs) (simp_all add: day_rows_def row_core_def)
  with assms show "map row_core (day_rows d xs) = map row_core (day_rows d ys)" by simp
  have "map row_core (month_rows m rs) = filter (\<lambda>(_, _, _, month, _). month = m) (map row_core rs)" for rs
    by (induction rs) (simp_all add: month_rows_def row_core_def)
  with assms show "map row_core (month_rows m xs) = map row_core (month_rows m ys)" by simp
qed

lemma same_core_columns:
  assumes "map row_core xs = map row_core ys"
  shows "length xs = length ys" "map rv_is_retry xs = map rv_is_retry ys"
    "map rv_estimated_usd xs = map rv_estimated_usd ys"
    "sum_usd f xs = sum_usd f ys"
    "(\<lambda>r. (rv_request_id r, rv_attempt r)) ` set xs = (\<lambda>r. (rv_request_id r, rv_attempt r)) ` set ys"
proof -
  have column: "map (\<lambda>r. g (row_core r)) xs = map (\<lambda>r. g (row_core r)) ys" for g :: "_ \<Rightarrow> 'c"
    using arg_cong [OF assms, of "map g"] by (simp add: comp_def)
  show "length xs = length ys" using assms by (metis length_map)
  then have empty: "xs = [] \<longleftrightarrow> ys = []" by auto
  show "map rv_is_retry xs = map rv_is_retry ys"
    using column [of "\<lambda>(_, _, _, _, y, _). y"] by (simp add: row_core_def)
  show usd: "map rv_estimated_usd xs = map rv_estimated_usd ys"
    using column [of "\<lambda>(_, _, _, _, _, u). u"] by (simp add: row_core_def)
  then show "sum_usd f xs = sum_usd f ys" by (simp only: sum_usd_def empty usd)
  have "map (\<lambda>r. (rv_request_id r, rv_attempt r)) xs = map (\<lambda>r. (rv_request_id r, rv_attempt r)) ys"
    using column [of "\<lambda>(i, n, _). (i, n)"] by (simp add: row_core_def)
  then show "(\<lambda>r. (rv_request_id r, rv_attempt r)) ` set xs = (\<lambda>r. (rv_request_id r, rv_attempt r)) ` set ys"
    by (metis set_map)
qed

lemma justified_core:
  assumes "map row_core xs = map row_core ys" "row_core r = row_core q"
  shows "justified real_sum config m xs r = justified real_sum config m ys q"
proof -
  have q: "rv_request_id r = rv_request_id q" "rv_attempt r = rv_attempt q" "rv_day r = rv_day q"
    "rv_month r = rv_month q" "rv_is_retry r = rv_is_retry q" "rv_estimated_usd r = rv_estimated_usd q"
    using assms(2) by (simp_all add: row_core_def)
  note rows = same_core_rows [OF assms(1)]
  have key: "(\<forall>p \<in> set zs. \<not> (rv_request_id p = i \<and> rv_attempt p = n)) \<longleftrightarrow>
      (i, n) \<notin> (\<lambda>r. (rv_request_id r, rv_attempt r)) ` set zs" for zs i n
    by auto
  show ?thesis
    unfolding justified_def q spend_exceeded_def
    by (simp only: key same_core_columns [OF rows(1)] same_core_columns(4) [OF rows(2)]
        same_core_columns(5) [OF assms(1)])
qed

lemma reservation_sel [simp]:
  "rv_request_id (reservation c now n y i k) = i" "rv_attempt (reservation c now n y i k) = k"
  "rv_month (reservation c now n y i k) = take 7 (rv_day (reservation c now n y i k))"
  "rv_is_retry (reservation c now n y i k) = of_bool y"
  "rv_estimated_usd (reservation c now n y i k) = estimated_cost c n"
  "rv_success (reservation c now n y i k) = 0"
  by (simp_all add: reservation_def Let_def)

lemma reserve_justified:
  assumes "budget_reserve real_sum c now n y i k cu s = (Inr usd, t)" "0 \<le> n"
  shows "justified real_sum c (bd_metadata s) (bd_reservations s) (reservation c now n y i k)"
proof -
  from assms(1) have valid: "validate_opening (bd_metadata s) = Inr ()"
    and counts: "\<not> counts_exceeded c (bd_reservations s) (rv_day (reservation c now n y i k)) y"
    and fresh: "\<not> reserved i k s"
    unfolding budget_reserve_Inr by simp_all
  have "\<not> spend_exceeded real_sum c (opening_carry (bd_metadata s) (rv_month (reservation c now n y i k)))
      (bd_reservations s) (rv_day (reservation c now n y i k)) (estimated_cost c n)"
    using assms(1) unfolding budget_reserve_Inr carry_in_valid [OF valid] opening_carry_def by auto
  then show ?thesis
    using counts fresh assms(2)
    by (auto simp: justified_def counts_exceeded_def reserved_def list_ex_iff)
qed

lemma metadata_fixed:
  assumes "budget_step real_sum config s t" "validate_opening (bd_metadata s) = Inr ()"
  shows "bd_metadata t = bd_metadata s"
  using assms(1)
proof (cases rule: budget_step_cases)
  case (meta v)
  with opening_valid(2) [OF assms(2)] show ?thesis by (simp add: metadata_value_def)
next
  case (reserve now n y i k cu usd)
  then show ?thesis unfolding budget_reserve_Inr by simp
next
  case opened
  with opening_valid(2) [OF assms(2)] show ?thesis by (simp add: metadata_value_def)
qed

lemma budget_ok_step:
  assumes "budget_step real_sum config s t" "budget_ok real_sum config s"
  shows "budget_ok real_sum config t"
  using assms(1)
proof (cases rule: budget_step_cases)
  case (meta v)
  then have "bd_reservations s = []"
    using assms(2) opening_valid(2) by (fastforce simp: budget_ok_def metadata_value_def)
  with meta show ?thesis by (simp add: budget_ok_def)
next
  case (reserve now n y i k cu usd)
  have t: "t = s\<lparr>bd_reservations := bd_reservations s @ [reservation config now n y i k]\<rparr>"
    and valid: "validate_opening (bd_metadata s) = Inr ()"
    using reserve(1) unfolding budget_reserve_Inr by simp_all
  show ?thesis
    using assms(2) reserve_justified [OF reserve] valid
    by (auto simp: budget_ok_def t nth_append less_Suc_eq)
next
  case update
  have "bd_reservations t = [] \<longleftrightarrow> bd_reservations s = []"
    using update(2) by (metis map_is_Nil_conv)
  moreover have "justified real_sum config m (take i (bd_reservations t)) (bd_reservations t ! i) =
      justified real_sum config m (take i (bd_reservations s)) (bd_reservations s ! i)"
    if "i < length (bd_reservations t)" for m i
  proof (rule justified_core)
    show "map row_core (take i (bd_reservations t)) = map row_core (take i (bd_reservations s))"
      using update(2) by (metis take_map)
    have "i < length (bd_reservations s)" using that same_core_columns(1) [OF update(2)] by simp
    then show "row_core (bd_reservations t ! i) = row_core (bd_reservations s ! i)"
      using that update(2) by (metis nth_map)
  qed
  ultimately show ?thesis
    using assms(2) same_core_columns(1) [OF update(2)] by (simp add: budget_ok_def update(1))
next
  case opened
  then have "bd_reservations s = []"
    using assms(2) opening_valid(1) by (fastforce simp: budget_ok_def metadata_value_def)
  with opened show ?thesis by (simp add: budget_ok_def)
qed

lemma budget_ok_run: "(budget_step real_sum config)\<^sup>*\<^sup>* s t \<Longrightarrow> budget_ok real_sum config s \<Longrightarrow>
    budget_ok real_sum config t"
  by (induction rule: rtranclp_induct) (auto intro: budget_ok_step)

definition opening_whole :: "BudgetDB \<Rightarrow> bool" where
  \<comment> \<open>an opening balance is stored together with its authoritative time\<close>
  "opening_whole s \<longleftrightarrow> metadata_value ''opening_status'' s \<noteq> None \<longrightarrow>
     metadata_value ''authoritative_from'' s \<noteq> None"

lemma opening_whole_step:
  assumes "budget_step real_sum config s t" "opening_whole s"
  shows "opening_whole t"
  using assms(1)
proof (cases rule: budget_step_cases)
  case (reserve now n y i k cu usd)
  with assms(2) show ?thesis unfolding budget_reserve_Inr opening_whole_def metadata_value_def by simp
next
  case opened
  then show ?thesis using opening_valid(2) by (fastforce simp: opening_whole_def metadata_value_def)
qed (use assms(2) in \<open>auto simp: opening_whole_def metadata_value_def\<close>)

lemma budget_meta_invalid:
  assumes "budget_meta b now s = (q, u)" "metadata_value ''authoritative_from'' s = None" "opening_whole s"
  shows "validate_opening (bd_metadata u) \<noteq> Inr ()"
proof -
  have "metadata_value ''opening_status'' s = None" using assms(2,3) by (auto simp: opening_whole_def)
  then have "metadata_value ''opening_status'' u = None"
    using budget_meta_effect [OF assms(1)] by (auto simp: metadata_append)
  then show ?thesis using opening_valid(1) by (fastforce simp: metadata_value_def)
qed

section \<open>A ledger that can never ledger_admit\<close>

definition locked :: "BudgetDB \<Rightarrow> bool" where
  \<comment> \<open>a cut-off is stored but no opening balance\<close>
  "locked s \<longleftrightarrow> metadata_value ''opening_status'' s = None \<and> metadata_value ''authoritative_from'' s \<noteq> None"

lemma locked_step:
  assumes "budget_step real_sum config s t" "locked s"
  shows "locked t \<and> map row_core (bd_reservations t) = map row_core (bd_reservations s)"
  using assms(1)
proof (cases rule: budget_step_cases)
  case (reserve now n y i k cu usd)
  then have "validate_opening (bd_metadata s) = Inr ()" unfolding budget_reserve_Inr by simp
  with assms(2) show ?thesis using opening_valid(1) by (fastforce simp: locked_def metadata_value_def)
qed (use assms(2) in \<open>auto simp: locked_def metadata_value_def\<close>)

lemma locked_run: "(budget_step real_sum config)\<^sup>*\<^sup>* s t \<Longrightarrow> locked s \<Longrightarrow>
    locked t \<and> map row_core (bd_reservations t) = map row_core (bd_reservations s)"
proof (induction rule: rtranclp_induct)
  case (step t u)
  then show ?case using locked_step [OF step(2)] by simp
qed simp

lemma locked_refuses:
  assumes "locked s"
  shows "ledger_admit real_sum files b now c n y i k s = (r, t) \<Longrightarrow> \<exists>e. r = Inl e"
    and "\<not> opening_invalid cu d p carry limit ref \<Longrightarrow> ledger_connection files = Inr () \<Longrightarrow>
      initialize_owner_opening_balance files cu d p carry limit ref s =
        (Inl (IntegrityError ''UNIQUE constraint failed: metadata.key''), s)"
proof -
  have invalid: "validate_opening (bd_metadata s) \<noteq> Inr ()"
    using assms opening_valid(1) by (fastforce simp: locked_def metadata_value_def)
  obtain v where v: "metadata_value ''authoritative_from'' s = Some v" using assms by (auto simp: locked_def)
  show "\<exists>e. r = Inl e" if "ledger_admit real_sum files b now c n y i k s = (r, t)"
  proof (cases r)
    case (Inr usd)
    then have "budget_reserve real_sum c now n y i k v s = (Inr usd, t)"
      using that by (auto simp: ledger_admit_def sbind_Inr_iff lift_iff throw_iff budget_meta_known [OF v]
          split: if_splits)
    with invalid show ?thesis unfolding budget_reserve_Inr by simp
  qed blast
  show "initialize_owner_opening_balance files cu d p carry limit ref s =
        (Inl (IntegrityError ''UNIQUE constraint failed: metadata.key''), s)"
    if "\<not> opening_invalid cu d p carry limit ref" "ledger_connection files = Inr ()"
    using that assms v
    by (simp add: initialize_owner_opening_balance_def Let_def transaction_def insert_metadata_def
        opening_values_def locked_def throw_def)
qed

lemma admit_locks:
  assumes "ledger_admit real_sum files b now c n y i k s = (r, t)" "ledger_connection files = Inr ()"
    and "\<not> tzinfo_None now" "metadata_value ''opening_status'' s = None"
    and "b \<noteq> None \<or> returns (next_month now)"
  shows "locked t"
proof -
  obtain q u where meta: "budget_meta b now s = (q, u)" by fastforce
  have "(case q of Inl e \<Rightarrow> (Inl e, u) | Inr cu \<Rightarrow> budget_reserve real_sum c now n y i k cu u) = (r, t)"
    using assms(1-3) by (simp add: ledger_admit_def sbind_def meta lift_def split: sum.splits)
  moreover have u: "locked u"
  proof (cases "metadata_value ''authoritative_from'' s")
    case None
    then show ?thesis
      using meta assms(4,5) by (cases b; cases "next_month now")
        (auto simp: budget_meta_def transaction_def insert_metadata_def locked_def metadata_append
          ret_def returns_def throw_def sbind_def lift_def)
  next
    case (Some v)
    with meta assms(4) show ?thesis by (simp add: budget_meta_known locked_def)
  qed
  moreover have "t = u" if "budget_reserve real_sum c now n y i k cu u = (r, t)" for cu
  proof (cases r)
    case (Inr usd)
    have "validate_opening (bd_metadata u) = Inr ()" using that unfolding Inr budget_reserve_Inr by simp
    with u show ?thesis using opening_valid(1) by (fastforce simp: locked_def metadata_value_def)
  qed (use that budget_reserve_Inl in blast)
  ultimately show ?thesis by (auto split: sum.splits)
qed

lemma admit_Inr_valid:
  "ledger_admit real_sum files b now c n y i k s = (Inr usd, t) \<Longrightarrow> validate_opening (bd_metadata t) = Inr ()"
  by (auto simp: ledger_admit_def sbind_Inr_iff throw_iff budget_reserve_Inr split: if_splits)

lemma justified_keys:
  assumes "budget_ok real_sum config s"
  shows "distinct (map (\<lambda>r. (rv_request_id r, rv_attempt r)) (bd_reservations s))"
proof -
  let ?rs = "bd_reservations s"
  have "distinct (map (\<lambda>r. (rv_request_id r, rv_attempt r)) (take i ?rs))" if "i \<le> length ?rs" for i
    using that
  proof (induction i)
    case (Suc i)
    have "justified real_sum config (bd_metadata s) (take i ?rs) (?rs ! i)"
      using assms Suc.prems by (simp add: budget_ok_def)
    with Suc show ?case by (auto simp: take_Suc_conv_app_nth justified_def)
  qed simp
  from this [of "length ?rs"] show ?thesis by simp
qed

lemma metadata_fixed_run:
  "(budget_step real_sum config)\<^sup>*\<^sup>* s t \<Longrightarrow> validate_opening (bd_metadata s) = Inr () \<Longrightarrow>
    bd_metadata t = bd_metadata s"
proof (induction rule: rtranclp_induct)
  case (step t u)
  then show ?case using metadata_fixed [OF step(2)] by simp
qed simp

section \<open>Requests and retries are capped\<close>

lemma step_rows:
  assumes "budget_step real_sum config s t"
  obtains (same) "map row_core (bd_reservations t) = map row_core (bd_reservations s)"
  | (grown) r where "bd_reservations t = bd_reservations s @ [r]"
      "justified real_sum config (bd_metadata s) (bd_reservations s) r"
  using assms
proof (cases rule: budget_step_cases)
  case (reserve now n y i k cu usd)
  from reserve_justified [OF this] reserve(1) show ?thesis
    unfolding budget_reserve_Inr using grown by simp
qed (auto intro: same)

definition requests_on :: "BudgetDB \<Rightarrow> string \<Rightarrow> int" where
  "requests_on s d = int (length (day_rows d (bd_reservations s)))"

definition retries_on :: "BudgetDB \<Rightarrow> string \<Rightarrow> int" where
  "retries_on s d = sum_list (map rv_is_retry (day_rows d (bd_reservations s)))"

lemma day_rows_snoc: "day_rows d (rs @ [r]) = day_rows d rs @ (if rv_day r = d then [r] else [])"
  by (simp add: day_rows_def)

lemma month_rows_snoc: "month_rows m (rs @ [r]) = month_rows m rs @ (if rv_month r = m then [r] else [])"
  by (simp add: month_rows_def)

interpretation durable_requests: attempt_ledger "budget_step real_sum config" requests_on
  "oc_max_requests_per_day config" for real_sum config
proof
  fix s t d
  assume "budget_step real_sum config s t"
  then show "requests_on t d = requests_on s d \<or>
      requests_on t d = requests_on s d + 1 \<and> requests_on t d \<le> oc_max_requests_per_day config"
  proof (cases rule: step_rows)
    case same
    then show ?thesis using same_core_columns(1) [OF same_core_rows(1) [OF same]]
      by (simp add: requests_on_def)
  next
    case (grown r)
    then show ?thesis by (auto simp: requests_on_def day_rows_snoc justified_def)
  qed
qed

interpretation durable_retries: attempt_ledger "budget_step real_sum config" retries_on
  "oc_max_retries_per_day config" for real_sum config
proof
  fix s t d
  assume "budget_step real_sum config s t"
  then show "retries_on t d = retries_on s d \<or>
      retries_on t d = retries_on s d + 1 \<and> retries_on t d \<le> oc_max_retries_per_day config"
  proof (cases rule: step_rows)
    case same
    then show ?thesis using same_core_columns(2) [OF same_core_rows(1) [OF same]]
      by (simp add: retries_on_def)
  next
    case (grown r)
    then show ?thesis by (auto simp: retries_on_def day_rows_snoc justified_def)
  qed
qed

inductive pilot_step :: "OpenAIPilotConfig \<Rightarrow> PilotBudgetLedger \<Rightarrow> PilotBudgetLedger \<Rightarrow> bool"
  for config where
  ps_admit: "pilot_admit now config n y s = (r, t) \<Longrightarrow> pilot_step config s t"
| ps_success: "pilot_record_success now s = (r', t) \<Longrightarrow> pilot_step config s t"

lemma day_of_update:
  "day_of (s\<lparr>pb_daily := (pb_daily s)(d \<mapsto> b)\<rparr>) e = (if e = d then b else day_of s e)"
  by (simp add: day_of_def)

lemma pilot_step_days:
  assumes "pilot_step config s t"
  shows "by_requests (day_of t d) = by_requests (day_of s d) \<and>
      by_retries (day_of t d) = by_retries (day_of s d) \<or>
    by_requests (day_of t d) = by_requests (day_of s d) + 1 \<and>
      by_requests (day_of t d) \<le> oc_max_requests_per_day config \<and>
      (by_retries (day_of t d) = by_retries (day_of s d) \<or>
       by_retries (day_of t d) = by_retries (day_of s d) + 1 \<and>
       by_retries (day_of t d) \<le> oc_max_retries_per_day config)"
  using assms
proof cases
  case (ps_admit now n y r)
  then show ?thesis
    by (auto simp: pilot_admit_def Let_def ret_iff throw_iff day_of_def split: if_splits option.splits)
next
  case (ps_success now r')
  then show ?thesis
    by (auto simp: pilot_record_success_def Let_def ret_iff day_of_def split: option.splits)
qed

interpretation pilot_requests: attempt_ledger "pilot_step config" "\<lambda>s d. by_requests (day_of s d)"
  "oc_max_requests_per_day config" for config
  by unfold_locales (use pilot_step_days in blast)

interpretation pilot_retries: attempt_ledger "pilot_step config" "\<lambda>s d. by_retries (day_of s d)"
  "oc_max_retries_per_day config" for config
  by unfold_locales (use pilot_step_days in blast)

section \<open>Spend is capped\<close>

definition unit_error :: rat where
  "unit_error = 1 / 2 ^ 53"

definition sum_accurate :: "rat \<Rightarrow> (rat list \<Rightarrow> rat) \<Rightarrow> bool" where
  \<comment> \<open>a sum of costs falls short of the exact sum by at most a relative error\<close>
  "sum_accurate err real_sum \<longleftrightarrow> 0 \<le> err \<and> err \<le> 1 \<and>
     (\<forall>xs. xs \<noteq> [] \<longrightarrow> (\<forall>x \<in> set xs. 0 \<le> x) \<longrightarrow> (1 - err) * sum_list xs \<le> real_sum xs)"

lemma normal_float: "1 / 10 ^ 20 \<le> q \<Longrightarrow> (1 - unit_error) * q \<le> float64 q"
  unfolding unit_error_def
proof (rule float64_lower)
  assume "1 / 10 ^ 20 \<le> q"
  moreover have "(2::rat) powi (- 1022) \<le> 2 powi (- 67)" by (rule power_int_increasing) simp_all
  moreover have "(2::rat) powi (- 67) \<le> 1 / 10 ^ 20" by (simp add: power_int_minus field_simps)
  ultimately show "2 powi (- 1022) \<le> q" by linarith
qed

lemma unit_error_bounds: "0 \<le> unit_error" "unit_error \<le> 1 / 10"
  by (simp_all add: unit_error_def)

lemma normal_float_nine: "1 / 10 ^ 20 \<le> q \<Longrightarrow> 9 / 10 * q \<le> float64 q"
proof -
  assume q: "1 / 10 ^ 20 \<le> q"
  then have "0 \<le> q" by (simp add: order_trans [rotated])
  then have "9 / 10 * q \<le> (1 - unit_error) * q"
    using unit_error_bounds by (intro mult_right_mono) simp_all
  then show ?thesis using normal_float [OF q] by linarith
qed

lemma estimated_cost_bound:
  assumes "1 \<le> oc_max_output_tokens c" "0 \<le> n"
  shows "1 / 10 ^ 7 \<le> estimated_cost c n"
proof -
  define a where "a = float64 (float64 (rat_of_int n / 1000000) * OPENAI_INPUT_USD_PER_MILLION)"
  define m where "m = rat_of_int (oc_max_output_tokens c) / 1000000"
  have a: "0 \<le> a"
    using assms(2) by (simp add: a_def OPENAI_INPUT_USD_PER_MILLION_def float64_nonneg)
  have m: "1 / 1000000 \<le> m" using assms(1) by (simp add: m_def)
  then have f1: "9 / 10 * m \<le> float64 m" by (intro normal_float_nine) simp
  then have f2: "9 / 10 * (float64 m * 2) \<le> float64 (float64 m * 2)"
    using m by (intro normal_float_nine) simp
  have "9 / 10 * (a + float64 (float64 m * 2)) \<le> float64 (a + float64 (float64 m * 2))"
    using f1 f2 m a by (intro normal_float_nine) simp
  moreover have "estimated_cost c n = float64 (a + float64 (float64 m * 2))"
    by (simp add: estimated_cost_def a_def m_def OPENAI_OUTPUT_USD_PER_MILLION_def)
  ultimately show ?thesis using f1 f2 m a by simp
qed

definition total_usd :: "Reservation list \<Rightarrow> rat" where
  "total_usd rs = sum_list (map rv_estimated_usd rs)"

lemma converted_spend:
  assumes "sum_accurate err real_sum" "\<forall>r \<in> set rs. 0 \<le> rv_estimated_usd r"
    and "1 / 10 ^ 7 \<le> est" "1 / 1000 \<le> rate"
  shows "(1 - unit_error)\<^sup>2 * (1 - err) * ((total_usd rs + est) * rate) \<le>
    float64 (float64 (sum_usd real_sum rs + est) * rate)" (is "_ \<le> ?f")
    and "1 / 10 ^ 12 \<le> float64 (float64 (sum_usd real_sum rs + est) * rate)"
proof -
  define x where "x = sum_usd real_sum rs + est"
  define T where "T = total_usd rs"
  have err: "0 \<le> err" "err \<le> 1" using assms(1) by (simp_all add: sum_accurate_def)
  have T: "0 \<le> T" using assms(2) by (auto simp: T_def total_usd_def intro!: sum_list_nonneg)
  have sum: "(1 - err) * T \<le> sum_usd real_sum rs"
    using assms(1,2) by (auto simp: sum_accurate_def sum_usd_def total_usd_def T_def)
  have "0 \<le> (1 - err) * T" using err T by simp
  from order_trans [OF this sum] have pos: "0 \<le> sum_usd real_sum rs" .
  have "(1 - err) * est \<le> 1 * est"
    using err assms(3) by (intro mult_right_mono) (simp_all add: order_trans [rotated, of _ est])
  from add_mono [OF sum this] have x: "(1 - err) * (T + est) \<le> x" "1 / 10 ^ 7 \<le> x"
    using add_increasing [OF pos assms(3)] by (simp_all only: x_def distrib_left mult_1)
  have f1: "(1 - unit_error) * x \<le> float64 x" "9 / 10 * x \<le> float64 x"
    using x(2) by (intro normal_float, simp) (intro normal_float_nine, use x(2) in simp)
  have small: "9 / 10 ^ 11 \<le> float64 x * rate"
  proof -
    have "(9 / 10 ^ 8) * (1 / 1000) \<le> float64 x * rate"
      using f1(2) x(2) assms(4) by (intro mult_mono) simp_all
    then show ?thesis by simp
  qed
  have f2: "(1 - unit_error) * (float64 x * rate) \<le> float64 (float64 x * rate)"
    "9 / 10 * (float64 x * rate) \<le> float64 (float64 x * rate)"
    using small by (intro normal_float, simp) (intro normal_float_nine, use small in simp)
  show "1 / 10 ^ 12 \<le> ?f" using small f2(2) by (simp add: x_def)
  have rate: "0 \<le> rate" using assms(4) by (simp add: order_trans [rotated])
  have u: "0 \<le> 1 - unit_error" using unit_error_bounds by simp
  have "(1 - unit_error) * ((1 - err) * (T + est)) \<le> float64 x"
    using mult_left_mono [OF x(1) u] f1(1) by linarith
  then have "(1 - unit_error) * ((1 - unit_error) * ((1 - err) * (T + est)) * rate) \<le>
      (1 - unit_error) * (float64 x * rate)"
    using rate u by (intro mult_left_mono mult_right_mono)
  then show "(1 - unit_error)\<^sup>2 * (1 - err) * ((total_usd rs + est) * rate) \<le> ?f"
    using f2(1) by (simp add: x_def T_def power2_eq_square algebra_simps)
qed

lemma justified_spend:
  assumes "justified real_sum c m rs r" "\<forall>q \<in> set rs. 0 \<le> rv_estimated_usd q"
    and "sum_accurate err real_sum" "1 \<le> oc_max_output_tokens c" "1 / 1000 \<le> oc_usd_to_aud c"
  shows "(1 - unit_error)\<^sup>2 * (1 - err) *
      (total_usd (day_rows (rv_day r) (rs @ [r])) * oc_usd_to_aud c) \<le> oc_max_daily_spend_aud c"
    and "(1 - unit_error) ^ 3 * (1 - err) * (opening_carry m (rv_month r) +
      total_usd (month_rows (rv_month r) (rs @ [r])) * oc_usd_to_aud c) \<le> oc_max_monthly_spend_aud c"
proof -
  let ?rate = "oc_usd_to_aud c"
  define est where "est = rv_estimated_usd r"
  obtain n where "0 \<le> n" "est = estimated_cost c n" using assms(1) by (auto simp: justified_def est_def)
  with estimated_cost_bound [OF assms(4)] have est: "1 / 10 ^ 7 \<le> est" by simp
  have nonneg: "\<forall>q \<in> set (day_rows d rs). 0 \<le> rv_estimated_usd q"
    "\<forall>q \<in> set (month_rows d rs). 0 \<le> rv_estimated_usd q" for d
    using assms(2) by (simp_all add: day_rows_def month_rows_def)
  have checks: "\<not> spend_exceeded real_sum c (opening_carry m (rv_month r)) rs (rv_day r) est"
    and month: "rv_month r = take 7 (rv_day r)"
    using assms(1) unfolding justified_def est_def by blast+
  show "(1 - unit_error)\<^sup>2 * (1 - err) *
      (total_usd (day_rows (rv_day r) (rs @ [r])) * ?rate) \<le> oc_max_daily_spend_aud c"
  proof -
    have "(1 - unit_error)\<^sup>2 * (1 - err) * (total_usd (day_rows (rv_day r) (rs @ [r])) * ?rate) \<le>
        float64 (float64 (sum_usd real_sum (day_rows (rv_day r) rs) + est) * ?rate)"
      using converted_spend(1) [OF assms(3) nonneg(1) est assms(5), of "rv_day r"]
      by (simp add: day_rows_snoc total_usd_def est_def)
    also have "\<dots> \<le> oc_max_daily_spend_aud c" using checks by (simp add: spend_exceeded_def)
    finally show ?thesis .
  qed
  define M where "M = total_usd (month_rows (rv_month r) rs) + est"
  define f where "f = float64 (float64 (sum_usd real_sum (month_rows (rv_month r) rs) + est) * ?rate)"
  define carry where "carry = opening_carry m (rv_month r)"
  have carry: "0 \<le> carry" by (simp add: carry_def opening_carry_def)
  have f: "(1 - unit_error)\<^sup>2 * (1 - err) * (M * ?rate) \<le> f" "1 / 10 ^ 12 \<le> f"
    using converted_spend [OF assms(3) nonneg(2) est assms(5)] by (simp_all add: f_def M_def)
  have k: "0 \<le> (1 - unit_error)\<^sup>2 * (1 - err)" "(1 - unit_error)\<^sup>2 * (1 - err) \<le> 1"
    using unit_error_bounds assms(3)
    by (auto simp: sum_accurate_def intro!: mult_nonneg_nonneg mult_le_one power_le_one)
  have "(1 - unit_error)\<^sup>2 * (1 - err) * carry \<le> carry"
    using mult_right_mono [OF k(2) carry] by simp
  with f(1) have "(1 - unit_error)\<^sup>2 * (1 - err) * (carry + M * ?rate) \<le> carry + f"
    by (simp only: distrib_left)
  then have "(1 - unit_error) * ((1 - unit_error)\<^sup>2 * (1 - err) * (carry + M * ?rate)) \<le>
      (1 - unit_error) * (carry + f)"
    using unit_error_bounds by (intro mult_left_mono) simp_all
  also have "\<dots> \<le> float64 (carry + f)"
    using f(2) carry by (intro normal_float) (simp add: order_trans [rotated, of _ f])
  also have "\<dots> \<le> oc_max_monthly_spend_aud c"
    using checks by (simp add: spend_exceeded_def carry_def f_def month)
  finally show "(1 - unit_error) ^ 3 * (1 - err) * (opening_carry m (rv_month r) +
      total_usd (month_rows (rv_month r) (rs @ [r])) * ?rate) \<le> oc_max_monthly_spend_aud c"
    by (simp add: carry_def M_def month_rows_snoc total_usd_def est_def power3_eq_cube
        power2_eq_square mult.assoc)
qed

lemma spend_bounded:
  assumes "budget_ok real_sum c s" "sum_accurate err real_sum" "OpenAIPilotConfig_init c = Inr c"
    and "1 / 1000 \<le> oc_usd_to_aud c"
  shows "(1 - unit_error)\<^sup>2 * (1 - err) *
      (total_usd (day_rows d (bd_reservations s)) * oc_usd_to_aud c) \<le> oc_max_daily_spend_aud c"
    and "month_rows m (bd_reservations s) = [] \<or> (1 - unit_error) ^ 3 * (1 - err) * (opening_carry (bd_metadata s) m +
      total_usd (month_rows m (bd_reservations s)) * oc_usd_to_aud c) \<le> oc_max_monthly_spend_aud c"
proof -
  let ?rs = "bd_reservations s"
  have config: "1 \<le> oc_max_output_tokens c" "0 \<le> oc_max_daily_spend_aud c" "0 \<le> oc_max_monthly_spend_aud c"
    using assms(3) by (simp_all add: OpenAIPilotConfig_init_def check_simps)
  have just: "justified real_sum c (bd_metadata s) (take i ?rs) (?rs ! i)" if "i < length ?rs" for i
    using assms(1) that by (simp add: budget_ok_def)
  have positive: "0 \<le> rv_estimated_usd q" if "q \<in> set ?rs" for q
  proof -
    from that obtain i where "i < length ?rs" "q = ?rs ! i" by (auto simp: in_set_conv_nth)
    with just [of i] estimated_cost_bound [OF config(1)] show ?thesis
      by (fastforce simp: justified_def)
  qed
  have "(1 - unit_error)\<^sup>2 * (1 - err) * (total_usd (day_rows d (take i ?rs)) * oc_usd_to_aud c)
        \<le> oc_max_daily_spend_aud c \<and>
      (month_rows m (take i ?rs) = [] \<or> (1 - unit_error) ^ 3 * (1 - err) * (opening_carry (bd_metadata s) m +
        total_usd (month_rows m (take i ?rs)) * oc_usd_to_aud c) \<le> oc_max_monthly_spend_aud c)" if "i \<le> length ?rs" for i
    using that
  proof (induction i)
    case 0
    then show ?case using config by (simp add: day_rows_def month_rows_def total_usd_def)
  next
    case (Suc i)
    then have i: "i < length ?rs" by simp
    define r where "r = ?rs ! i"
    have grown: "take (Suc i) ?rs = take i ?rs @ [r]" using i by (simp add: r_def take_Suc_conv_app_nth)
    have "\<forall>q \<in> set (take i ?rs). 0 \<le> rv_estimated_usd q" using positive by (auto dest: in_set_takeD)
    note spend = justified_spend [OF just [OF i, folded r_def] this assms(2) config(1) assms(4)]
    show ?case
    proof (intro conjI)
      show "(1 - unit_error)\<^sup>2 * (1 - err) * (total_usd (day_rows d (take (Suc i) ?rs)) * oc_usd_to_aud c)
        \<le> oc_max_daily_spend_aud c"
        using spend(1) Suc by (cases "rv_day r = d") (simp_all add: grown day_rows_snoc)
      show "month_rows m (take (Suc i) ?rs) = [] \<or> (1 - unit_error) ^ 3 * (1 - err) * (opening_carry (bd_metadata s) m +
        total_usd (month_rows m (take (Suc i) ?rs)) * oc_usd_to_aud c) \<le> oc_max_monthly_spend_aud c"
        using spend(2) Suc by (cases "rv_month r = m") (simp_all add: grown month_rows_snoc)
    qed
  qed
  from this [of "length ?rs"]
  show "(1 - unit_error)\<^sup>2 * (1 - err) *
      (total_usd (day_rows d ?rs) * oc_usd_to_aud c) \<le> oc_max_daily_spend_aud c"
    and "month_rows m ?rs = [] \<or> (1 - unit_error) ^ 3 * (1 - err) * (opening_carry (bd_metadata s) m +
      total_usd (month_rows m ?rs) * oc_usd_to_aud c) \<le> oc_max_monthly_spend_aud c"
    by simp_all
qed

end
