(* ===== verification/BudgetProperties.thy ===== *)
theory BudgetProperties
  imports BudgetRuns CanonicalText
begin

text \<open>
  The properties of the provider budget: when an attempt is admitted, which limits hold over any
  sequence of transactions, what the owner's opening balance fixes, and how a ledger can be locked,
  each with a concrete instance.
\<close>

section \<open>A sample ledger\<close>

definition sample_files :: LedgerFiles where
  "sample_files = \<lparr>lf_root_is_dir = True, lf_root_owned = True, lf_root_mode = 448,
     lf_path_is_symlink = False, lf_file_is_regular = True, lf_file_owned = True, lf_file_mode = 384\<rparr>"

definition new_ledger :: BudgetDB where
  "new_ledger = \<lparr>bd_metadata = [], bd_reservations = []\<rparr>"

definition sample_day :: datetime where
  "sample_day = Aware day_us 0"

definition sample_opening :: "string dict" where
  "sample_opening = opening_values (Aware 0 0) sample_day ''0001-01'' ''OWNER-1''"

definition opened_ledger :: BudgetDB where
  "opened_ledger = \<lparr>bd_metadata = sample_opening @ [(''opening_digest'', text_hash sample_opening)],
     bd_reservations = []\<rparr>"

lemma tzinfo_sample_day: "\<not> tzinfo_None sample_day"
  by (simp add: sample_day_def)

lemma sample_connection: "ledger_connection sample_files = Inr ()"
  by (simp add: ledger_connection_def sample_files_def)

lemma ledger_opened:
  "initialize_owner_opening_balance sample_files (Aware 0 0) sample_day ''0001-01'' 1 20 ''OWNER-1''
     new_ledger = (Inr (), opened_ledger)"
proof -
  have "\<not> opening_invalid (Aware 0 0) sample_day ''0001-01'' 1 20 ''OWNER-1''" by code_simp
  then show ?thesis
    using sample_connection
    by (simp add: initialize_owner_opening_balance_def Let_def transaction_def insert_metadata_def
        metadata_value_def new_ledger_def opened_ledger_def sample_opening_def ret_def
        opening_values_def)
qed

lemma opened_ledger_valid: "validate_opening (bd_metadata opened_ledger) = Inr ()"
  by (rule opened_valid [of "Aware 0 0" sample_day "''0001-01''" "''OWNER-1''"])
    (simp_all add: opened_ledger_def sample_opening_def opening_values_def)

definition sample_config :: OpenAIPilotConfig where
  "sample_config = OpenAIPilotConfig_default\<lparr>oc_max_output_tokens := 500000, oc_usd_to_aud := 3 / 2\<rparr>"

definition sample_row :: Reservation where
  "sample_row = reservation sample_config sample_day 250000 False ''R-1'' 1"

lemma sample_day_text: "fromisoformat (utc_text sample_day) = Inr sample_day"
proof -
  have "stamp sample_day" by code_simp
  moreover have "to_utc sample_day = sample_day" by (simp add: sample_day_def to_utc_def instant_def)
  ultimately show ?thesis by (simp add: utc_text_def)
qed

lemma sample_estimate: "estimated_cost sample_config 250000 = 17 / 16"
  by code_simp

lemma sample_floats: "float64 (17 / 16) = 17 / 16" "float64 (51 / 32) = 51 / 32" "float64 (83 / 32) = 83 / 32"
  by code_simp+

lemma sample_row_sel [simp]: "rv_estimated_usd sample_row = 17 / 16" "rv_day sample_row = ''0001-01-02''"
  "rv_month sample_row = ''0001-01''"
proof -
  show "rv_day sample_row = ''0001-01-02''" by code_simp
  then show "rv_month sample_row = ''0001-01''" by (simp add: sample_row_def)
qed (simp add: sample_row_def sample_estimate)

lemma budget_sample_limits: "oc_max_daily_spend_aud sample_config = 2" "oc_max_monthly_spend_aud sample_config = 20"
  "oc_usd_to_aud sample_config = 3 / 2" "oc_max_requests_per_day sample_config = 2"
  "oc_max_retries_per_day sample_config = 1" "oc_max_successful_briefs_per_day sample_config = 1"
  by (simp_all add: sample_config_def OpenAIPilotConfig_default_def)

lemma sample_room:
  "\<not> counts_exceeded sample_config [] (rv_day sample_row) False"
  "\<not> spend_exceeded sum_list sample_config 1 [] (rv_day sample_row) (rv_estimated_usd sample_row)"
  by (simp_all add: counts_exceeded_def spend_exceeded_def budget_sample_limits sample_floats day_rows_def
      month_rows_def sum_usd_def)

lemma sample_authority: "metadata_value ''authoritative_from'' opened_ledger = Some (utc_text sample_day)"
  "map_of (bd_metadata opened_ledger) ''opening_period'' = Some ''0001-01''"
  by (simp_all add: metadata_value_def opened_ledger_def sample_opening_def opening_values_def)

section \<open>Admission\<close>



section \<open>Limits\<close>

lemma sample_reserve:
  "(budget_step sum_list sample_config)\<^sup>*\<^sup>* new_ledger (opened_ledger\<lparr>bd_reservations := [sample_row]\<rparr>)"
proof -
  have "bd_reservations opened_ledger = []" by (simp add: opened_ledger_def)
  then have "budget_reserve sum_list sample_config sample_day 250000 False ''R-1'' 1 (utc_text sample_day)
      opened_ledger = (Inr (rv_estimated_usd sample_row), opened_ledger\<lparr>bd_reservations := [sample_row]\<rparr>)"
    using sample_room sample_day_text opened_ledger_valid
    by (simp add: budget_reserve_Inr carry_in_valid sample_authority sample_row_def [symmetric]
        sample_estimate reserved_def dt_less_def tzinfo_sample_day)
  from bs_reserve [OF this] have "budget_step sum_list sample_config opened_ledger
      (opened_ledger\<lparr>bd_reservations := [sample_row]\<rparr>)" by simp
  moreover have "budget_step sum_list sample_config new_ledger opened_ledger"
    by (rule bs_open [OF ledger_opened])
  ultimately show ?thesis by (auto intro: converse_rtranclp_into_rtranclp)
qed

text \<open>(C35) Over any sequence of transactions on a new ledger, whatever calls they belong to and however
  these interleave, the limits of the configuration hold: a day has at most the configured number of
  requests and of retries, no attempt is reserved twice, and the exact sum of a day's reservations in
  AUD stays within the daily limit, that of a month with the carry-in within the monthly limit, up to
  the relative errors of the three float operations and of SQLite's sum.\<close>
theorem budget_limits_hold:
  assumes "(budget_step real_sum config)\<^sup>*\<^sup>* s t" "bd_reservations s = []"
    and "OpenAIPilotConfig_init config = Inr config" "1 / 1000 \<le> oc_usd_to_aud config"
    and "0 \<le> oc_max_requests_per_day config" "0 \<le> oc_max_retries_per_day config"
    and "sum_accurate err real_sum"
  shows "requests_on t d \<le> oc_max_requests_per_day config \<and>
    retries_on t d \<le> oc_max_retries_per_day config \<and>
    distinct (map (\<lambda>r. (rv_request_id r, rv_attempt r)) (bd_reservations t)) \<and>
    (1 - unit_error)\<^sup>2 * (1 - err) *
      (total_usd (day_rows d (bd_reservations t)) * oc_usd_to_aud config)
        \<le> oc_max_daily_spend_aud config \<and>
    (month_rows m (bd_reservations t) = [] \<or>
     (1 - unit_error) ^ 3 * (1 - err) * (opening_carry (bd_metadata t) m +
      total_usd (month_rows m (bd_reservations t)) * oc_usd_to_aud config)
        \<le> oc_max_monthly_spend_aud config)"
proof -
  have "requests_on s d = 0" "retries_on s d = 0" "budget_ok real_sum config s"
    using assms(2) by (simp_all add: requests_on_def retries_on_def day_rows_def budget_ok_def)
  note start = this
  have ok: "budget_ok real_sum config t" using budget_ok_run [OF assms(1) start(3)] .
  show ?thesis
    using durable_requests.used_bounded [OF assms(1), of d] durable_retries.used_bounded [OF assms(1), of d]
      start(1,2) assms(5,6) justified_keys [OF ok] spend_bounded [OF ok assms(7,3,4)] by simp
qed

theorem budget_limits_hold_witness:
  "total_usd (day_rows ''0001-01-02'' [sample_row]) * oc_usd_to_aud sample_config * (1 - unit_error)\<^sup>2 \<le> 2 \<and>
   requests_on (opened_ledger\<lparr>bd_reservations := [sample_row]\<rparr>) ''0001-01-02'' \<le> 2"
proof -
  have "sum_accurate 0 sum_list" by (simp add: sum_accurate_def)
  moreover have "OpenAIPilotConfig_init sample_config = Inr sample_config"
    "1 / 1000 \<le> oc_usd_to_aud sample_config" by code_simp+
  moreover have "bd_reservations new_ledger = []" by (simp add: new_ledger_def)
  ultimately show ?thesis
    using budget_limits_hold [OF sample_reserve, of 0 "''0001-01-02''"]
    by (simp add: sample_config_def OpenAIPilotConfig_default_def mult.commute)
qed

section \<open>The opening balance\<close>

definition opening_doc :: "string dict \<Rightarrow> json" where
  "opening_doc m = JObj (map (\<lambda>k. (k, JStr (the (map_of m k)))) OPENING_FIELDS)"

definition opening_text :: "string dict \<Rightarrow> string" where
  \<comment> \<open>the text the digest of an intact opening balance is the SHA-256 of\<close>
  "opening_text m = canonical_json (opening_doc m)"

lemma opening_digest:
  assumes "validate_opening m = Inr ()"
  shows "map_of m ''opening_digest'' = Some (sha_text (opening_text m))"
    and "\<forall>k \<in> set OPENING_FIELDS. map_of m k \<noteq> None"
proof -
  obtain fs where fs: "opening_fields m = Inr fs" "map_of m ''opening_digest'' = Some (text_hash fs)"
    using assms by (auto simp: validate_opening_def rbind_Inr_iff split: if_splits)
  have "\<forall>(k, v) \<in> set fs. map_of m k = Some v" using fs(1) by (simp add: opening_fields_iff)
  then have "map (\<lambda>k. (k, the (map_of m k))) (map fst fs) = fs"
    unfolding map_map by (intro map_idI) auto
  then have "fs = map (\<lambda>k. (k, the (map_of m k))) OPENING_FIELDS"
    using fs(1) unfolding opening_fields_iff by metis
  then have "text_hash fs = sha_text (opening_text m)"
    by (simp add: text_hash_def canonical_hash_def opening_text_def opening_doc_def comp_def)
  with fs(2) show "map_of m ''opening_digest'' = Some (sha_text (opening_text m))" by simp
  show "\<forall>k \<in> set OPENING_FIELDS. map_of m k \<noteq> None" using opening_fields_lookup [OF fs(1)] by blast
qed

lemma opening_text_inj:
  assumes "opening_text m = opening_text m'" "k \<in> set OPENING_FIELDS"
  shows "the (map_of m k) = the (map_of m' k)"
proof -
  have "sorted_json (opening_doc m) = sorted_json (opening_doc m')"
    using assms(1) unfolding opening_text_def
    by (rule canonical.doc_inj [rotated 2]) (simp_all add: opening_doc_def list_all_iff)
  from sorted_fields [OF this [unfolded opening_doc_def]]
  have "map (\<lambda>k. JStr (the (map_of m k))) OPENING_FIELDS = map (\<lambda>k. JStr (the (map_of m' k))) OPENING_FIELDS"
    by (simp add: comp_def) (simp add: OPENING_FIELDS_def)
  with assms(2) show ?thesis by simp
qed

text \<open>The owner's opening balance is fixed once. No sequence of transactions changes the metadata
  of a ledger whose opening balance is intact, a reservation exists only under an intact opening
  balance, and its digest binds it: two intact opening balances with one digest agree in every field,
  unless their texts are different texts with the same SHA-256.\<close>
theorem opening_balance_binds:
  assumes "(budget_step real_sum config)\<^sup>*\<^sup>* s t" "bd_reservations s = []"
  shows "(bd_reservations t \<noteq> [] \<longrightarrow> validate_opening (bd_metadata t) = Inr ()) \<and>
    (validate_opening (bd_metadata s) = Inr () \<longrightarrow> bd_metadata t = bd_metadata s) \<and>
    (validate_opening (bd_metadata t) = Inr () \<and> validate_opening m = Inr () \<and>
      map_of m ''opening_digest'' = metadata_value ''opening_digest'' t \<longrightarrow>
      (\<forall>k \<in> set OPENING_FIELDS. map_of m k = metadata_value k t) \<or>
      opening_text m \<noteq> opening_text (bd_metadata t) \<and>
        sha_text (opening_text m) = sha_text (opening_text (bd_metadata t)))"
proof (intro conjI impI)
  have "budget_ok real_sum config s" using assms(2) by (simp add: budget_ok_def)
  from budget_ok_run [OF assms(1) this]
  show "validate_opening (bd_metadata t) = Inr ()" if "bd_reservations t \<noteq> []"
    using that by (simp add: budget_ok_def)
  show "bd_metadata t = bd_metadata s" if "validate_opening (bd_metadata s) = Inr ()"
    using metadata_fixed_run [OF assms(1) that] .
next
  assume a: "validate_opening (bd_metadata t) = Inr () \<and> validate_opening m = Inr () \<and>
      map_of m ''opening_digest'' = metadata_value ''opening_digest'' t"
  then have sha: "sha_text (opening_text m) = sha_text (opening_text (bd_metadata t))"
    using opening_digest(1) by (auto simp: metadata_value_def)
  have "map_of m k = metadata_value k t"
    if "opening_text m = opening_text (bd_metadata t)" "k \<in> set OPENING_FIELDS" for k
    using opening_text_inj [OF that] opening_digest(2) a that(2)
    unfolding metadata_value_def by (metis option.expand)
  with sha show "(\<forall>k \<in> set OPENING_FIELDS. map_of m k = metadata_value k t) \<or>
      opening_text m \<noteq> opening_text (bd_metadata t) \<and>
        sha_text (opening_text m) = sha_text (opening_text (bd_metadata t))" by blast
qed

theorem opening_balance_binds_witness:
  "validate_opening (bd_metadata (opened_ledger\<lparr>bd_reservations := [sample_row]\<rparr>)) = Inr ()"
  using opening_balance_binds [OF sample_reserve, of "[]"] by (simp add: new_ledger_def)

section \<open>A locked ledger\<close>

text \<open>(C37) One admission attempt before the owner's opening balance locks the ledger for ever. The
  attempt is refused but leaves the cut-off in the metadata; after it, whatever sequence of
  transactions follows, no attempt is admitted, no reservation is added, and every valid opening
  balance is rejected by the primary key of the metadata, an error the method does not translate.\<close>
theorem premature_admission_locks_ledger:
  assumes "ledger_admit real_sum files bootstrap now config n is_retry i k s = (r, t)"
    and "ledger_connection files = Inr ()" "\<not> tzinfo_None now"
    and "bootstrap \<noteq> None \<or> returns (next_month now)"
    and "metadata_value ''opening_status'' s = None" "(budget_step real_sum config)\<^sup>*\<^sup>* t u"
  shows "\<not> returns r \<and> length (bd_reservations u) = length (bd_reservations t) \<and>
    \<not> returns (fst (ledger_admit real_sum files' b now' config n' y i' k' u)) \<and>
    (ledger_connection files' = Inr () \<and> \<not> opening_invalid cutover daily period carry limit ref \<longrightarrow>
     initialize_owner_opening_balance files' cutover daily period carry limit ref u =
       (Inl (IntegrityError ''UNIQUE constraint failed: metadata.key''), u))"
proof -
  have locked: "locked t" using admit_locks [OF assms(1-3,5,4)] .
  have "\<not> returns r"
    using assms(1) locked admit_Inr_valid opening_valid(1)
    by (fastforce simp: returns_def locked_def metadata_value_def split: sum.splits)
  moreover have u: "locked u" "map row_core (bd_reservations u) = map row_core (bd_reservations t)"
    using locked_run [OF assms(6) locked] by simp_all
  moreover have "\<not> returns (fst (ledger_admit real_sum files' b now' config n' y i' k' u))"
    using locked_refuses(1) [OF u(1), of real_sum files' b now' config n' y i' k']
    by (cases "ledger_admit real_sum files' b now' config n' y i' k' u") (auto simp: returns_def)
  ultimately show ?thesis
    using locked_refuses(2) [OF u(1)] same_core_columns(1) by blast
qed

theorem premature_admission_locks_ledger_witness:
  "initialize_owner_opening_balance sample_files (Aware 0 0) sample_day ''0001-01'' 1 20 ''OWNER-1''
     (snd (ledger_admit sum_list sample_files None (Aware 0 0) sample_config 250000 False ''R-1'' 1 new_ledger)) =
   (Inl (IntegrityError ''UNIQUE constraint failed: metadata.key''),
    snd (ledger_admit sum_list sample_files None (Aware 0 0) sample_config 250000 False ''R-1'' 1 new_ledger))"
proof -
  obtain r t where run: "ledger_admit sum_list sample_files None (Aware 0 0) sample_config 250000 False ''R-1'' 1
      new_ledger = (r, t)" by fastforce
  have "returns (next_month (Aware 0 0))"
    "\<not> opening_invalid (Aware 0 0) sample_day ''0001-01'' 1 20 ''OWNER-1''" by code_simp+
  moreover have "metadata_value ''opening_status'' new_ledger = None"
    by (simp add: metadata_value_def new_ledger_def)
  ultimately show ?thesis
    using premature_admission_locks_ledger [OF run sample_connection _ _ _ rtranclp.rtrancl_refl]
      sample_connection by (simp add: run)
qed

end
