(* ===== verification/IntelligenceModels.thy ===== *)
theory IntelligenceModels
  imports References CapabilityUse
begin

text \<open>
  \<open>src/edn/intelligence/models.py\<close> and \<open>src/edn/connectors/admission.py\<close>: the requests, evidence,
  statements, coverage and briefs of the intelligence package, with the checks of their
  constructors. A score is \<open>None\<close> when it is not a finite float. Enum members carry a prefix per
  enum.
\<close>

section \<open>Enums\<close>

datatype AdmissionOutcome = AM_ADMITTED | AM_REJECTED | AM_UNAVAILABLE

fun AdmissionOutcome_value :: "AdmissionOutcome \<Rightarrow> string" where
  "AdmissionOutcome_value AM_ADMITTED = ''admitted''"
| "AdmissionOutcome_value AM_REJECTED = ''rejected''"
| "AdmissionOutcome_value AM_UNAVAILABLE = ''unavailable''"

definition AdmissionOutcome_members :: "AdmissionOutcome list" where
  "AdmissionOutcome_members = [AM_ADMITTED, AM_REJECTED, AM_UNAVAILABLE]"

datatype StatementKind = SK_FACT | SK_INFERENCE | SK_RECOMMENDATION | SK_PROPOSED_ACTION
  | SK_UNKNOWN

fun StatementKind_value :: "StatementKind \<Rightarrow> string" where
  "StatementKind_value SK_FACT = ''fact''"
| "StatementKind_value SK_INFERENCE = ''inference''"
| "StatementKind_value SK_RECOMMENDATION = ''recommendation''"
| "StatementKind_value SK_PROPOSED_ACTION = ''proposed_action''"
| "StatementKind_value SK_UNKNOWN = ''unknown''"

definition StatementKind_members :: "StatementKind list" where
  "StatementKind_members = [SK_FACT, SK_INFERENCE, SK_RECOMMENDATION, SK_PROPOSED_ACTION,
     SK_UNKNOWN]"

datatype FreshnessState = FS_CURRENT | FS_AGEING | FS_STALE | FS_UNKNOWN

fun FreshnessState_value :: "FreshnessState \<Rightarrow> string" where
  "FreshnessState_value FS_CURRENT = ''current''"
| "FreshnessState_value FS_AGEING = ''ageing''"
| "FreshnessState_value FS_STALE = ''stale''"
| "FreshnessState_value FS_UNKNOWN = ''unknown_freshness''"

definition FreshnessState_members :: "FreshnessState list" where
  "FreshnessState_members = [FS_CURRENT, FS_AGEING, FS_STALE, FS_UNKNOWN]"

datatype TemporalState = TS_FUTURE | TS_CURRENT_RECENT | TS_STALE_HISTORICAL
  | TS_EXPIRED_PAST_EVENT | TS_UNKNOWN_UNDETERMINED

fun TemporalState_value :: "TemporalState \<Rightarrow> string" where
  "TemporalState_value TS_FUTURE = ''future''"
| "TemporalState_value TS_CURRENT_RECENT = ''current_recent''"
| "TemporalState_value TS_STALE_HISTORICAL = ''stale_historical''"
| "TemporalState_value TS_EXPIRED_PAST_EVENT = ''expired_past_event''"
| "TemporalState_value TS_UNKNOWN_UNDETERMINED = ''unknown_undetermined''"

definition TemporalState_members :: "TemporalState list" where
  "TemporalState_members = [TS_FUTURE, TS_CURRENT_RECENT, TS_STALE_HISTORICAL,
     TS_EXPIRED_PAST_EVENT, TS_UNKNOWN_UNDETERMINED]"

datatype BriefSectionKind = BS_EXECUTIVE_SUMMARY | BS_IMMEDIATE_ATTENTION
  | BS_UPCOMING_COMMITMENTS | BS_RECENT_COMMUNICATIONS | BS_PROJECT_CONTEXT | BS_RISKS_GAPS
  | BS_SUGGESTED_ACTIONS

fun BriefSectionKind_value :: "BriefSectionKind \<Rightarrow> string" where
  "BriefSectionKind_value BS_EXECUTIVE_SUMMARY = ''executive_summary''"
| "BriefSectionKind_value BS_IMMEDIATE_ATTENTION = ''immediate_attention''"
| "BriefSectionKind_value BS_UPCOMING_COMMITMENTS = ''today_upcoming_commitments''"
| "BriefSectionKind_value BS_RECENT_COMMUNICATIONS = ''recent_communications_commitments''"
| "BriefSectionKind_value BS_PROJECT_CONTEXT = ''project_operational_context''"
| "BriefSectionKind_value BS_RISKS_GAPS = ''risks_gaps_stale_evidence''"
| "BriefSectionKind_value BS_SUGGESTED_ACTIONS = ''suggested_internal_actions_decisions''"

definition BriefSectionKind_members :: "BriefSectionKind list" where
  "BriefSectionKind_members = [BS_EXECUTIVE_SUMMARY, BS_IMMEDIATE_ATTENTION,
     BS_UPCOMING_COMMITMENTS, BS_RECENT_COMMUNICATIONS, BS_PROJECT_CONTEXT, BS_RISKS_GAPS,
     BS_SUGGESTED_ACTIONS]"

section \<open>Admission audits\<close>

record AdmissionSourceCoverage =
  as_source_id :: string
  as_state :: string
  as_checked_at :: "datetime option"
  as_relationship_count :: int

record AdmissionDecision =
  am_record_key :: string
  am_policy_id :: string
  am_outcome :: AdmissionOutcome
  am_reasons :: "string list"
  am_relationship_evidence :: "EvidenceRef list"

definition AdmissionDecision_init :: "AdmissionDecision \<Rightarrow> AdmissionDecision result" where
  "AdmissionDecision_init d = construct
     [require (am_record_key d \<noteq> [] \<and> am_policy_id d \<noteq> [] \<and> am_reasons d \<noteq> [])
        ''admission audit requires record, policy and reasons'',
      require (\<not> (am_outcome d \<noteq> AM_ADMITTED \<and> am_relationship_evidence d \<noteq> []))
        ''non-admitted records cannot contribute evidence''] d"

section \<open>Requests and evidence\<close>

record IntelligenceRequest =
  iq_query :: string
  iq_principal :: PrincipalContext
  iq_purpose :: Purpose
  iq_security_domain :: SecurityDomain
  iq_classification :: Classification
  iq_resource_scope :: "string list"
  iq_retrieval_mode :: string

definition IntelligenceRequest_init :: "IntelligenceRequest \<Rightarrow> IntelligenceRequest result" where
  "IntelligenceRequest_init q = construct
     [require (\<not> blank (iq_query q)) ''query must not be blank'',
      require (iq_retrieval_mode q \<in> {''search'', ''recent''}) ''unsupported retrieval mode'',
      require (allows_domain (iq_principal q) (iq_security_domain q))
        ''requested domain is not active for this principal''] q"

record BusinessFacts =
  bf_kind :: string
  bf_record_id :: string
  bf_status :: string
  bf_due_date :: "int option"  \<comment> \<open>a date by its ordinal\<close>
  bf_project_id :: string
  bf_client_id :: string
  bf_owner :: string

definition BusinessFacts_init :: "BusinessFacts \<Rightarrow> BusinessFacts result" where
  "BusinessFacts_init b = construct
     [require (bf_kind b \<in> {''project'', ''client'', ''action''} \<and> bf_record_id b \<noteq> [])
        ''invalid business record identity''] b"

record ContextEvidence =
  cx_context_id :: string
  cx_capability_id :: string
  cx_source_label :: string
  cx_title :: string
  cx_excerpt :: string
  cx_score :: "rat option"
  cx_provenance :: "EvidenceRef list"
  cx_source_timestamp :: "datetime option"
  cx_timestamp_kind :: "string option"
  cx_freshness_state :: FreshnessState
  cx_temporal_start :: "datetime option"
  cx_temporal_end :: "datetime option"
  cx_source_instance_id :: string
  cx_business_facts :: "BusinessFacts option"

definition ContextEvidence_init :: "ContextEvidence \<Rightarrow> ContextEvidence result" where
  "ContextEvidence_init e = construct
     [require (cx_context_id e \<noteq> [] \<and> cx_capability_id e \<noteq> [])
        ''context and capability IDs must not be blank'',
      require (\<not> blank (cx_source_label e) \<and> \<not> blank (cx_title e))
        ''source label and title must not be blank'',
      require (\<not> blank (cx_excerpt e) \<and> length (cx_excerpt e) \<le> 2000)
        ''evidence excerpt must be bounded and nonblank'',
      require (cx_provenance e \<noteq> []) ''private evidence requires provenance'',
      when_some (cx_source_timestamp e) (\<lambda>t.
        require (\<not> tzinfo_None t) ''source timestamp must be timezone-aware''),
      require ((cx_source_timestamp e = None) = (cx_timestamp_kind e = None))
        ''source timestamp and timestamp kind must be declared together'',
      when_some (cx_temporal_start e) (\<lambda>t.
        require (\<not> tzinfo_None t) ''temporal boundaries must be timezone-aware''),
      when_some (cx_temporal_end e) (\<lambda>t.
        require (\<not> tzinfo_None t) ''temporal boundaries must be timezone-aware''),
      require ((cx_temporal_start e = None) = (cx_temporal_end e = None))
        ''temporal start and end must be declared together'',
      when_some (cx_temporal_start e) (\<lambda>a. when_some (cx_temporal_end e) (\<lambda>b.
        require (\<not> instant b < instant a) ''temporal end must not precede temporal start''))] e"

definition UniversalRecordRef_eq :: "UniversalRecordRef \<Rightarrow> UniversalRecordRef \<Rightarrow> bool" where
  "UniversalRecordRef_eq a b = (ur_source a = ur_source b \<and>
     ur_source_record_key a = ur_source_record_key b \<and>
     SecurityDomain_eq (ur_security_domain a) (ur_security_domain b) \<and>
     Classification_eq (ur_classification a) (ur_classification b) \<and>
     ur_record_type a = ur_record_type b \<and> ur_source_uri a = ur_source_uri b \<and>
     ur_source_version a = ur_source_version b)"

definition EvidenceRef_eq :: "EvidenceRef \<Rightarrow> EvidenceRef \<Rightarrow> bool" where
  "EvidenceRef_eq a b = (ev_evidence_id a = ev_evidence_id b \<and>
     UniversalRecordRef_eq (ev_record a) (ev_record b) \<and> ev_locator a = ev_locator b \<and>
     ev_transformation_id a = ev_transformation_id b \<and>
     ev_transformation_version a = ev_transformation_version b \<and>
     ev_content_hash a = ev_content_hash b)"

definition opt_dt_eq :: "datetime option \<Rightarrow> datetime option \<Rightarrow> bool" where
  "opt_dt_eq a b = rel_option dt_eq a b"

definition ContextEvidence_eq :: "ContextEvidence \<Rightarrow> ContextEvidence \<Rightarrow> bool" where
  \<comment> \<open>the generated \<open>__eq__\<close>, for finite scores\<close>
  "ContextEvidence_eq a b = (cx_context_id a = cx_context_id b \<and>
     cx_capability_id a = cx_capability_id b \<and> cx_source_label a = cx_source_label b \<and>
     cx_title a = cx_title b \<and> cx_excerpt a = cx_excerpt b \<and> cx_score a = cx_score b \<and>
     list_all2 EvidenceRef_eq (cx_provenance a) (cx_provenance b) \<and>
     opt_dt_eq (cx_source_timestamp a) (cx_source_timestamp b) \<and>
     cx_timestamp_kind a = cx_timestamp_kind b \<and> cx_freshness_state a = cx_freshness_state b \<and>
     opt_dt_eq (cx_temporal_start a) (cx_temporal_start b) \<and>
     opt_dt_eq (cx_temporal_end a) (cx_temporal_end b) \<and>
     cx_source_instance_id a = cx_source_instance_id b \<and>
     cx_business_facts a = cx_business_facts b)"

record GlobalKnowledge =
  gk_knowledge_id :: string
  gk_text :: string
  gk_source_label :: string

definition GlobalKnowledge_init :: "GlobalKnowledge \<Rightarrow> GlobalKnowledge result" where
  "GlobalKnowledge_init g = construct
     [require (gk_knowledge_id g \<noteq> [] \<and> \<not> blank (gk_text g))
        ''global knowledge ID and text must not be blank''] g"

record IntelligenceStatement =
  it_kind :: StatementKind
  it_text :: string
  it_evidence_ids :: "string list"
  it_global_knowledge_ids :: "string list"
  it_confidence :: string

definition IntelligenceStatement_init :: "IntelligenceStatement \<Rightarrow> IntelligenceStatement result" where
  "IntelligenceStatement_init t = construct
     [require (\<not> blank (it_text t)) ''statement text must not be blank'',
      require (\<not> (it_kind t = SK_FACT \<and> it_evidence_ids t = [])) ''facts require private evidence'',
      require (\<not> (it_kind t = SK_UNKNOWN \<and>
          (it_evidence_ids t \<noteq> [] \<or> it_global_knowledge_ids t \<noteq> [])))
        ''unknown statements must not claim supporting sources'',
      require (\<not> (it_kind t = SK_FACT \<and> it_global_knowledge_ids t \<noteq> []))
        ''global knowledge must not be represented as private fact''] t"

section \<open>Coverage and batches\<close>

record SourceCoverage =
  sv_capability_id :: string
  sv_status :: string
  sv_returned_count :: int
  sv_admitted_count :: int
  sv_selected_count :: int
  sv_reasons :: "string list"
  sv_source_instance_id :: string
  sv_pre_filter_count :: "int option"
  sv_checked_at :: "datetime option"
  sv_freshness :: string
  sv_admission_decisions :: "AdmissionDecision list"
  sv_relationship_sources :: "AdmissionSourceCoverage list"

definition SourceCoverage_init :: "SourceCoverage \<Rightarrow> SourceCoverage result" where
  "SourceCoverage_init v = construct
     [require (sv_status v \<in> {''retrieved'', ''empty'', ''unavailable'', ''partial''})
        ''invalid source coverage status'',
      require (0 \<le> sv_selected_count v \<and> sv_selected_count v \<le> sv_admitted_count v \<and>
          sv_admitted_count v \<le> sv_returned_count v) ''invalid source coverage counts'',
      when_some (sv_pre_filter_count v) (\<lambda>n.
        require (\<not> n < sv_returned_count v) ''pre-filter count cannot be below returned count'')] v"

record SourceBatch =
  sx_evidence :: "ContextEvidence list"
  sx_pre_filter_count :: int
  sx_checked_at :: datetime
  sx_truncated :: bool
  sx_reasons :: "string list"
  sx_freshness :: string
  sx_admission_decisions :: "AdmissionDecision list"
  sx_relationship_sources :: "AdmissionSourceCoverage list"

definition SourceBatch_init :: "SourceBatch \<Rightarrow> SourceBatch result" where
  "SourceBatch_init b = construct
     [require (\<not> sx_pre_filter_count b < int (length (sx_evidence b))) ''invalid pre-filter count'',
      require (\<not> tzinfo_None (sx_checked_at b)) ''source check time must be timezone-aware''] b"

record AssembledContext =
  ax_request :: IntelligenceRequest
  ax_evidence :: "ContextEvidence list"
  ax_unavailable_capabilities :: "string list"
  ax_global_knowledge :: "GlobalKnowledge list"
  ax_source_coverage :: "SourceCoverage list"

section \<open>Briefs and responses\<close>

record IntelligencePriority =
  ip_title :: string
  ip_why_it_matters :: string
  ip_evidence_ids :: "string list"
  ip_timeframe :: "string option"
  ip_confidence :: string
  ip_recommended_next_step :: string
  ip_missing_information :: "string list"

definition IntelligencePriority_init :: "IntelligencePriority \<Rightarrow> IntelligencePriority result" where
  "IntelligencePriority_init p = construct
     [require (\<not> blank (ip_title p) \<and> \<not> blank (ip_why_it_matters p))
        ''priority title and rationale must not be blank'',
      require (ip_evidence_ids p \<noteq> []) ''priority requires private evidence''] p"

record DailyBriefItem =
  bi_item_id :: string
  bi_section :: BriefSectionKind
  bi_kind :: StatementKind
  bi_title :: string
  bi_text :: string
  bi_evidence_ids :: "string list"
  bi_freshness :: FreshnessState
  bi_rank_score :: int
  bi_rank_reasons :: "string list"
  bi_proposal_only :: bool

definition DailyBriefItem_init :: "DailyBriefItem \<Rightarrow> DailyBriefItem result" where
  "DailyBriefItem_init i = construct
     [require (bi_item_id i \<noteq> [] \<and> \<not> blank (bi_title i) \<and> \<not> blank (bi_text i))
        ''brief item identity and content must not be blank'',
      require (\<not> (bi_kind i = SK_FACT \<and> bi_evidence_ids i = [])) ''brief facts require evidence'',
      require (\<not> (bi_kind i = SK_UNKNOWN \<and> bi_evidence_ids i \<noteq> []))
        ''brief gaps must not claim supporting evidence'',
      require (\<not> bi_rank_score i < 0) ''brief rank score must not be negative'',
      require (\<not> (bi_proposal_only i \<and> bi_kind i \<notin> {SK_RECOMMENDATION, SK_PROPOSED_ACTION}))
        ''proposal-only items must be recommendations or proposals''] i"

record DailyBriefSection =
  bx_kind :: BriefSectionKind
  bx_title :: string
  bx_items :: "DailyBriefItem list"

record DailyIntelligenceBrief =
  dg_generated_at :: datetime
  dg_sections :: "DailyBriefSection list"

definition DailyIntelligenceBrief_init :: "DailyIntelligenceBrief \<Rightarrow> DailyIntelligenceBrief result" where
  "DailyIntelligenceBrief_init b = construct
     [require (\<not> tzinfo_None (dg_generated_at b)) ''brief generation time must be timezone-aware'',
      require (map bx_kind (dg_sections b) = BriefSectionKind_members)
        ''brief sections must use the canonical deterministic order''] b"

definition brief_items :: "DailyIntelligenceBrief \<Rightarrow> DailyBriefItem list" where
  "brief_items b = concat (map bx_items (dg_sections b))"

record 'proposal IntelligenceResponse =
  ir_statements :: "IntelligenceStatement list"
  ir_evidence :: "ContextEvidence list"
  ir_global_knowledge :: "GlobalKnowledge list"
  ir_unavailable_capabilities :: "string list"
  ir_session_id :: string
  ir_priorities :: "IntelligencePriority list"
  ir_proposed_actions :: "'proposal list"
  ir_daily_brief :: "DailyIntelligenceBrief option"
  ir_source_coverage :: "SourceCoverage list"

definition source_families :: "'proposal IntelligenceResponse \<Rightarrow> string list" where
  "source_families r = sort (remdups (map cx_source_label (ir_evidence r)))"

end
