(* ===== verification/ContextAssembly.thy ===== *)
theory ContextAssembly
  imports IntelligenceModels PolicySpec
begin

text \<open>
  \<open>src/edn/intelligence/context.py\<close>: the permission-first assembly of evidence from source
  adapters. An adapter is a record of its attributes and of its \<open>retrieve\<close> method, an arbitrary
  function that returns or raises. A Python set of reasons is a list that is sorted without
  duplicates where the code sorts it.
\<close>

section \<open>Adapters\<close>

datatype retrieved = Evidence "ContextEvidence list" | Batch SourceBatch

record SourceAdapter =
  sa_capability_id :: string
  sa_operation :: string
  sa_resource_scope :: "string list"
  sa_source_instance_id :: string
  sa_retrieve :: "IntelligenceRequest \<Rightarrow> int \<Rightarrow> datetime \<Rightarrow> CapabilityUseDecision \<Rightarrow> retrieved result"

record ContextAssembler =
  xa_registry :: registry
  xa_policy :: PolicySet
  xa_adapters :: "SourceAdapter list"
  xa_per_source_limit :: int
  xa_total_limit :: int

definition adapter_key :: "SourceAdapter \<Rightarrow> string \<times> string" where
  "adapter_key a = (sa_capability_id a, sa_source_instance_id a)"

definition ContextAssembler_checks :: "ContextAssembler \<Rightarrow> check list" where
  \<comment> \<open>\<open>_validate\<close>\<close>
  "ContextAssembler_checks x =
     [require (1 \<le> xa_per_source_limit x \<and> xa_per_source_limit x \<le> 25 \<and>
         1 \<le> xa_total_limit x \<and> xa_total_limit x \<le> 100)
        ''context limits must be positive and bounded'',
      require (distinct (map adapter_key (xa_adapters x)))
        ''context adapters must have unique capability/instance IDs'']"

definition context_request :: "IntelligenceRequest \<Rightarrow> SourceAdapter \<Rightarrow> PermissionRequest result" where
  "context_request q a = PermissionRequest_init
     \<lparr>pr_request_id = ''context:'' @ sa_capability_id a, pr_principal = iq_principal q,
      pr_purpose = iq_purpose q, pr_capability_id = sa_capability_id a,
      pr_operation = sa_operation a, pr_security_domain = iq_security_domain q,
      pr_classification = iq_classification q, pr_resource_scope = sa_resource_scope a,
      pr_requested_duration_seconds = None\<rparr>"

section \<open>One source\<close>

record SourceAdmission =
  sn_seen :: "ContextEvidence dict"
  sn_conflicts :: "string list"
  sn_reasons :: "string list"

definition out_of_scope :: "IntelligenceRequest \<Rightarrow> ContextEvidence \<Rightarrow> bool" where
  "out_of_scope q e = list_ex (\<lambda>ref.
     \<not> SecurityDomain_eq (ur_security_domain (ev_record ref)) (iq_security_domain q) \<or>
     \<not> Classification_eq (ur_classification (ev_record ref)) (iq_classification q)) (cx_provenance e)"

definition consider_item ::
  "IntelligenceRequest \<Rightarrow> SourceAdapter \<Rightarrow> ContextEvidence \<Rightarrow> SourceAdmission \<Rightarrow> SourceAdmission" where
  \<comment> \<open>the body of the loop over the retrieved items; the item was constructed, so \<open>replace\<close> of its
     instance does not raise\<close>
  "consider_item q a e s =
     (let add = (\<lambda>reason. s\<lparr>sn_reasons := reason # sn_reasons s\<rparr>) in
      if cx_source_instance_id e \<noteq> [] \<and> cx_source_instance_id e \<noteq> sa_source_instance_id a
      then add ''evidence_instance_mismatch''
      else let e = e\<lparr>cx_source_instance_id := sa_source_instance_id a\<rparr>; i = cx_context_id e in
        if cx_capability_id e \<noteq> sa_capability_id a then add ''evidence_capability_mismatch''
        else if cx_score e = None then add ''invalid_evidence_score''
        else if out_of_scope q e then add ''evidence_scope_mismatch''
        else if (case map_of (sn_seen s) i of None \<Rightarrow> False | Some other \<Rightarrow> \<not> ContextEvidence_eq other e)
        then (add ''conflicting_evidence_id'')\<lparr>sn_conflicts := i # sn_conflicts s\<rparr>
        else s\<lparr>sn_seen := dict_set i e (sn_seen s)\<rparr>)"

definition retrieved_items :: "retrieved \<Rightarrow> ContextEvidence list" where
  "retrieved_items r = (case r of Evidence es \<Rightarrow> es | Batch b \<Rightarrow> sx_evidence b)"

definition batch_reasons :: "retrieved \<Rightarrow> string list" where
  "batch_reasons r = (case r of Evidence _ \<Rightarrow> [] | Batch b \<Rightarrow> sx_reasons b @
     (if sx_truncated b then [''source_truncated''] else []) @
     (if int (length (sx_evidence b)) < sx_pre_filter_count b then [''source_records_filtered''] else []))"

definition admission ::
  "ContextAssembler \<Rightarrow> IntelligenceRequest \<Rightarrow> SourceAdapter \<Rightarrow> retrieved \<Rightarrow> SourceAdmission" where
  "admission x q a r = fold (consider_item q a)
     (take (nat (xa_per_source_limit x)) (retrieved_items r))
     \<lparr>sn_seen = [], sn_conflicts = [], sn_reasons = batch_reasons r @
        (if xa_per_source_limit x \<le> int (length (retrieved_items r)) then [''source_limit_reached'']
         else [])\<rparr>"

definition admitted_items :: "SourceAdmission \<Rightarrow> ContextEvidence list" where
  "admitted_items s = map snd (filter (\<lambda>(i, e). i \<notin> set (sn_conflicts s)) (sn_seen s))"

definition unavailable_source :: "SourceAdapter \<Rightarrow> string \<Rightarrow> SourceCoverage result" where
  "unavailable_source a reason = SourceCoverage_init
     \<lparr>sv_capability_id = sa_capability_id a, sv_status = ''unavailable'', sv_returned_count = 0,
      sv_admitted_count = 0, sv_selected_count = 0, sv_reasons = [reason],
      sv_source_instance_id = sa_source_instance_id a, sv_pre_filter_count = None,
      sv_checked_at = None, sv_freshness = ''unknown'', sv_admission_decisions = [],
      sv_relationship_sources = []\<rparr>"

definition sorted_set :: "string list \<Rightarrow> string list" where
  "sorted_set xs = sort (remdups xs)"

definition source_coverage ::
  "SourceAdapter \<Rightarrow> retrieved \<Rightarrow> SourceAdmission \<Rightarrow> SourceCoverage result" where
  "source_coverage a r s = SourceCoverage_init
     \<lparr>sv_capability_id = sa_capability_id a,
      sv_status = (if sn_reasons s \<noteq> [] then ''partial''
        else if admitted_items s \<noteq> [] then ''retrieved'' else ''empty''),
      sv_returned_count = int (length (retrieved_items r)),
      sv_admitted_count = int (length (admitted_items s)), sv_selected_count = 0,
      sv_reasons = sorted_set (sn_reasons s), sv_source_instance_id = sa_source_instance_id a,
      sv_pre_filter_count = (case r of Batch b \<Rightarrow> Some (sx_pre_filter_count b) | _ \<Rightarrow> None),
      sv_checked_at = (case r of Batch b \<Rightarrow> Some (sx_checked_at b) | _ \<Rightarrow> None),
      sv_freshness = (case r of Batch b \<Rightarrow> sx_freshness b | _ \<Rightarrow> ''unknown''),
      sv_admission_decisions = (case r of Batch b \<Rightarrow> sx_admission_decisions b | _ \<Rightarrow> []),
      sv_relationship_sources = (case r of Batch b \<Rightarrow> sx_relationship_sources b | _ \<Rightarrow> [])\<rparr>"

record SourceOutcome =
  so_evidence :: "ContextEvidence list"
  so_unavailable :: "string list"
  so_coverage :: SourceCoverage

definition refused_source :: "SourceAdapter \<Rightarrow> string \<Rightarrow> SourceOutcome result" where
  "refused_source a reason = rbind (unavailable_source a reason) (\<lambda>v.
     Inr \<lparr>so_evidence = [], so_unavailable = [sa_capability_id a @ '':'' @ reason], so_coverage = v\<rparr>)"

definition assemble_source ::
  "ContextAssembler \<Rightarrow> IntelligenceRequest \<Rightarrow> datetime \<Rightarrow> SourceAdapter \<Rightarrow> SourceOutcome result" where
  \<comment> \<open>the body of the loop over the adapters\<close>
  "assemble_source x q now a =
     rbind (context_request q a) (\<lambda>p.
     rbind (evaluate_capability_use (xa_registry x) (xa_policy x) p now) (\<lambda>decision.
     if \<not> CapabilityUseDecision_is_usable decision then refused_source a (ud_reason_code decision)
     else case sa_retrieve a q (xa_per_source_limit x) now decision of
         Inl (ConnectorExc _ _ _ _) \<Rightarrow> refused_source a ''connector_failure''
       | Inl e \<Rightarrow> Inl e
       | Inr r \<Rightarrow> (let s = admission x q a r in
           rbind (source_coverage a r s) (\<lambda>v.
           Inr \<lparr>so_evidence = admitted_items s,
             so_unavailable = map (\<lambda>reason. sa_capability_id a @ '':'' @ reason) (sn_reasons s),
             so_coverage = v\<rparr>))))"

section \<open>Collisions between sources\<close>

definition from_source :: "SourceCoverage \<Rightarrow> ContextEvidence \<Rightarrow> bool" where
  "from_source v e = (cx_capability_id e = sv_capability_id v \<and>
     cx_source_instance_id e = sv_source_instance_id v)"

definition colliding :: "ContextEvidence list \<Rightarrow> string \<Rightarrow> bool" where
  "colliding evidence i = (1 < length (filter (\<lambda>e. cx_context_id e = i) evidence))"

definition removed_from :: "ContextEvidence list \<Rightarrow> SourceCoverage \<Rightarrow> nat" where
  "removed_from evidence v =
     length (filter (\<lambda>e. from_source v e \<and> colliding evidence (cx_context_id e)) evidence)"

definition collide :: "ContextEvidence list \<Rightarrow> SourceCoverage \<Rightarrow> SourceCoverage result" where
  "collide evidence v = (let removed = removed_from evidence v in
     if removed = 0 then Inr v
     else SourceCoverage_init (v\<lparr>sv_status := ''partial'',
       sv_admitted_count := sv_admitted_count v - int removed,
       sv_reasons := sorted_set (''conflicting_evidence_id'' # sv_reasons v)\<rparr>))"

definition collision_notes :: "ContextEvidence list \<Rightarrow> SourceCoverage list \<Rightarrow> string list" where
  "collision_notes evidence vs = map (\<lambda>v. sv_capability_id v @ '':conflicting_evidence_id'')
     (filter (\<lambda>v. removed_from evidence v \<noteq> 0) vs)"

section \<open>Balancing\<close>

type_synonym family = "(string \<times> string) \<times> ContextEvidence list"

definition family_key :: "ContextEvidence \<Rightarrow> string \<times> string" where
  "family_key e = (cx_capability_id e, cx_source_instance_id e)"

definition by_score :: "ContextEvidence list \<Rightarrow> ContextEvidence list" where
  \<comment> \<open>every admitted score is finite\<close>
  "by_score es = sort_key (\<lambda>e. (- the (cx_score e), cx_context_id e)) es"

definition families_of :: "ContextEvidence list \<Rightarrow> family list" where
  \<comment> \<open>in the order of \<open>sorted(families)\<close>, which deleting exhausted families keeps\<close>
  "families_of es = map (\<lambda>k. (k, filter (\<lambda>e. family_key e = k) (by_score es)))
     (sort (remdups (map family_key es)))"

fun balance_pass :: "nat \<Rightarrow> family list \<Rightarrow> ContextEvidence list \<Rightarrow> family list \<times> ContextEvidence list" where
  \<comment> \<open>the \<open>for\<close> loop over the families of one pass, with its \<open>break\<close>\<close>
  "balance_pass limit [] balanced = ([], balanced)"
| "balance_pass limit ((k, items) # fs) balanced =
     (let balanced = balanced @ take 1 items;
          kept = (if tl items = [] then [] else [(k, tl items)])
      in if limit \<le> length balanced then (kept @ fs, balanced)
         else let (fs', balanced) = balance_pass limit fs balanced in (kept @ fs', balanced))"

definition pending :: "family list \<Rightarrow> nat" where
  "pending fs = length (concat (map snd fs)) + length fs"

lemma pending_simps [simp]:
  "pending [] = 0" "pending ((k, items) # fs) = Suc (length items + pending fs)"
  "pending (fs @ gs) = pending fs + pending gs"
  by (simp_all add: pending_def)

lemma pending_kept: "pending (if tl items = [] then [] else [(k, tl items)]) \<le> length items"
  by (cases items) auto

lemma balance_pass_pending:
  "pending (fst (balance_pass limit fs b)) \<le> pending fs \<and>
   (fs \<noteq> [] \<longrightarrow> pending (fst (balance_pass limit fs b)) < pending fs)"
proof (induction limit fs b rule: balance_pass.induct)
  case (2 limit k items fs b)
  show ?case
  proof (cases "limit \<le> length (b @ take 1 items)")
    case True
    then show ?thesis using pending_kept [of items k] by (simp add: Let_def)
  next
    case False
    obtain fs' b' where pass: "balance_pass limit fs (b @ take 1 items) = (fs', b')" by fastforce
    have "balance_pass limit ((k, items) # fs) b =
        ((if tl items = [] then [] else [(k, tl items)]) @ fs', b')"
      using False by (simp add: Let_def pass del: One_nat_def)
    moreover have "pending fs' \<le> pending fs" using 2 [OF refl refl False] by (simp add: pass del: One_nat_def)
    ultimately show ?thesis using pending_kept [of items k] by (simp del: balance_pass.simps)
  qed
qed simp

function balance :: "nat \<Rightarrow> family list \<Rightarrow> ContextEvidence list \<Rightarrow> ContextEvidence list" where
  "balance limit fs balanced = (if fs \<noteq> [] \<and> length balanced < limit
     then balance limit (fst (balance_pass limit fs balanced)) (snd (balance_pass limit fs balanced))
     else balanced)"
  by pat_completeness auto
termination
  by (relation "measure (\<lambda>(limit, fs, b). pending fs)") (simp_all add: case_prod_beta balance_pass_pending)

declare balance.simps [simp del]

section \<open>Assembly\<close>

definition selected_from :: "ContextEvidence list \<Rightarrow> SourceCoverage \<Rightarrow> nat" where
  "selected_from balanced v = length (filter (from_source v) balanced)"

definition select_coverage :: "ContextEvidence list \<Rightarrow> SourceCoverage \<Rightarrow> SourceCoverage result" where
  "select_coverage balanced v =
     (let selected = int (selected_from balanced v);
          reasons = (if selected < sv_admitted_count v
            then sorted_set (''context_limit_reached'' # sv_reasons v) else sv_reasons v)
      in SourceCoverage_init (v\<lparr>sv_selected_count := selected, sv_reasons := reasons,
           sv_status := (if reasons \<noteq> [] \<and> sv_status v \<noteq> ''unavailable'' then ''partial''
             else sv_status v)\<rparr>))"

definition assemble ::
  "ContextAssembler \<Rightarrow> IntelligenceRequest \<Rightarrow> datetime \<Rightarrow> GlobalKnowledge list \<Rightarrow> AssembledContext result" where
  "assemble x q now global_knowledge =
     rbind (construct (ContextAssembler_checks x @
       [require (\<not> tzinfo_None now) ''context reference time must be timezone-aware'']) ()) (\<lambda>_.
     rbind (traverse (assemble_source x q now) (sort_key adapter_key (xa_adapters x))) (\<lambda>outcomes.
     let evidence = concat (map so_evidence outcomes);
         coverage = map so_coverage outcomes;
         kept = filter (\<lambda>e. \<not> colliding evidence (cx_context_id e)) evidence;
         balanced = balance (nat (xa_total_limit x)) (families_of kept) [];
         unavailable = concat (map so_unavailable outcomes) @ collision_notes evidence coverage
     in rbind (traverse (collide evidence) coverage) (\<lambda>coverage.
        rbind (traverse (select_coverage balanced) coverage) (\<lambda>coverage.
        Inr \<lparr>ax_request = q, ax_evidence = balanced,
          ax_unavailable_capabilities = sorted_set unavailable,
          ax_global_knowledge = global_knowledge, ax_source_coverage = coverage\<rparr>))))"

end
