(* ===== verification/ContextFacts.thy ===== *)
theory ContextFacts
  imports ContextAssembly
begin

text \<open>
  What the assembly of a context selects: the items a source contributes are admissible and bear
  distinct identifiers, the selection is a prefix of the layers of the families (the best item of
  every family, then the second best, and so on), and it is fair to the families.
\<close>

section \<open>The items of one source\<close>

definition admissible_item :: "IntelligenceRequest \<Rightarrow> SourceAdapter \<Rightarrow> ContextEvidence \<Rightarrow> bool" where
  "admissible_item q a e \<longleftrightarrow> cx_capability_id e = sa_capability_id a \<and>
     cx_source_instance_id e = sa_source_instance_id a \<and> cx_score e \<noteq> None \<and> \<not> out_of_scope q e"

definition admission_ok ::
  "IntelligenceRequest \<Rightarrow> SourceAdapter \<Rightarrow> ContextEvidence list \<Rightarrow> SourceAdmission \<Rightarrow> bool" where
  "admission_ok q a items s \<longleftrightarrow> distinct (map fst (sn_seen s)) \<and>
     length (sn_seen s) \<le> length items \<and>
     (\<forall>(i, e) \<in> set (sn_seen s). cx_context_id e = i \<and> admissible_item q a e \<and>
        (\<exists>item \<in> set items. e = item\<lparr>cx_source_instance_id := sa_source_instance_id a\<rparr>))"

lemma length_dict_set: "length (dict_set k v d) \<le> Suc (length d)"
  by (induction k v d rule: dict_set.induct) auto

lemma set_dict_set: "set (dict_set k v d) \<subseteq> insert (k, v) (set d)"
  by (induction k v d rule: dict_set.induct) auto

lemma consider_item_ok:
  assumes "admission_ok q a items s"
  shows "admission_ok q a (items @ [e]) (consider_item q a e s)"
proof -
  define e' where "e' = e\<lparr>cx_source_instance_id := sa_source_instance_id a\<rparr>"
  have keep: "admission_ok q a (items @ [e]) (s\<lparr>sn_reasons := r\<rparr>)"
    "admission_ok q a (items @ [e]) (s\<lparr>sn_reasons := r, sn_conflicts := c\<rparr>)" for r c
    using assms by (auto simp: admission_ok_def)
  have add: "admission_ok q a (items @ [e]) (s\<lparr>sn_seen := dict_set (cx_context_id e') e' (sn_seen s)\<rparr>)"
    if "cx_capability_id e' = sa_capability_id a" "cx_score e' \<noteq> None" "\<not> out_of_scope q e'"
  proof -
    have "admissible_item q a e'" using that by (simp add: admissible_item_def e'_def)
    then show ?thesis
      using assms set_dict_set [of "cx_context_id e'" e' "sn_seen s"]
        length_dict_set [of "cx_context_id e'" e' "sn_seen s"]
      by (fastforce simp: admission_ok_def distinct_dict_set e'_def)
  qed
  show ?thesis
    using keep add by (auto simp: consider_item_def Let_def e'_def [symmetric])
qed

lemma fold_consider_ok:
  "admission_ok q a items s \<Longrightarrow> admission_ok q a (items @ es) (fold (consider_item q a) es s)"
proof (induction es arbitrary: items s)
  case (Cons e es)
  from Cons.IH [OF consider_item_ok [OF Cons.prems]] show ?case by simp
qed simp

lemma admission_is_ok:
  "admission_ok q a (take (nat (xa_per_source_limit x)) (retrieved_items r)) (admission x q a r)"
  unfolding admission_def
  by (rule fold_consider_ok [of q a "[]", unfolded append_Nil]) (simp add: admission_ok_def)

lemma admitted_items_facts:
  fixes x q a r
  defines "es \<equiv> admitted_items (admission x q a r)"
  shows "e \<in> set es \<Longrightarrow> admissible_item q a e \<and>
      (\<exists>item \<in> set (retrieved_items r). e = item\<lparr>cx_source_instance_id := sa_source_instance_id a\<rparr>)"
    and "distinct (map cx_context_id es)"
    and "length es \<le> nat (xa_per_source_limit x)" "length es \<le> length (retrieved_items r)"
proof -
  let ?s = "admission x q a r"
  note ok = admission_is_ok [of q a x r, unfolded admission_ok_def]
  show "admissible_item q a e \<and>
      (\<exists>item \<in> set (retrieved_items r). e = item\<lparr>cx_source_instance_id := sa_source_instance_id a\<rparr>)"
    if "e \<in> set es"
    using that ok by (fastforce simp: es_def admitted_items_def dest: in_set_takeD)
  have "map cx_context_id es = map fst (filter (\<lambda>(i, e). i \<notin> set (sn_conflicts ?s)) (sn_seen ?s))"
    unfolding es_def admitted_items_def map_map using ok by (intro map_cong) auto
  then show "distinct (map cx_context_id es)" using ok by (simp add: distinct_map_filter)
  have "length es \<le> length (sn_seen ?s)"
    by (simp add: es_def admitted_items_def)
  with ok show "length es \<le> nat (xa_per_source_limit x)" "length es \<le> length (retrieved_items r)"
    by auto
qed

section \<open>Balancing takes layers\<close>

definition layer :: "nat \<Rightarrow> family list \<Rightarrow> ContextEvidence list" where
  \<comment> \<open>the item of rank \<open>j\<close> of every family, in the order of the families\<close>
  "layer j fs = concat (map (\<lambda>(k, items). take 1 (drop j items)) fs)"

definition layers :: "nat \<Rightarrow> family list \<Rightarrow> ContextEvidence list" where
  "layers n fs = concat (map (\<lambda>j. layer j fs) [0..<n])"

definition tails :: "family list \<Rightarrow> family list" where
  "tails fs = concat (map (\<lambda>(k, items). if tl items = [] then [] else [(k, tl items)]) fs)"

lemma layer_simps [simp]:
  "layer j [] = []" "layer j ((k, items) # fs) = take 1 (drop j items) @ layer j fs"
  by (simp_all add: layer_def)

lemma tails_simps [simp]:
  "tails [] = []"
  "tails ((k, items) # fs) = (if tl items = [] then [] else [(k, tl items)]) @ tails fs"
  by (simp_all add: tails_def)

lemma layer_tails: "layer j (tails fs) = layer (Suc j) fs"
proof (induction fs)
  case (Cons f fs)
  then show ?case by (cases f; cases "snd f") auto
qed simp

lemma layers_Suc: "layers (Suc n) fs = layer 0 fs @ layers n (tails fs)"
  by (simp add: layers_def layer_tails upt_conv_Cons map_Suc_upt [symmetric] comp_def del: upt_Suc)

lemma length_layer_0: "(\<forall>(k, items) \<in> set fs. items \<noteq> []) \<Longrightarrow> length (layer 0 fs) = length fs"
proof (induction fs)
  case (Cons f fs)
  then show ?case by (cases f; cases "snd f") auto
qed simp

lemma balance_pass_layer:
  assumes "length b < limit" "\<forall>(k, items) \<in> set fs. items \<noteq> []"
  shows "snd (balance_pass limit fs b) = b @ take (limit - length b) (layer 0 fs) \<and>
    (length b + length fs < limit \<longrightarrow> fst (balance_pass limit fs b) = tails fs)"
  using assms
proof (induction fs arbitrary: b)
  case (Cons f fs)
  obtain k e es where f: "f = (k, e # es)" using Cons.prems(2) by (cases f; cases "snd f") auto
  show ?case
  proof (cases "limit \<le> length (b @ [e])")
    case True
    then have "limit - length b = Suc 0" using Cons.prems(1) by simp
    with True show ?thesis by (simp add: f Let_def)
  next
    case False
    note IH = Cons.IH [of "b @ [e]"]
    have "limit - length b = Suc (limit - length (b @ [e]))" using False by simp
    moreover have "length (b @ [e]) < limit" using False by simp
    ultimately show ?thesis
      using IH Cons.prems(2) by (auto simp: f Let_def case_prod_beta)
  qed
qed simp

lemma balance_layers:
  assumes "\<forall>(k, items) \<in> set fs. items \<noteq> [] \<and> length items \<le> n"
  shows "balance limit fs b = b @ take (limit - length b) (layers n fs)"
  using assms
proof (induction n arbitrary: fs b)
  case 0
  then have "fs = []" by (cases fs) auto
  then show ?case by (simp add: balance.simps layers_def)
next
  case (Suc n)
  have nonempty: "\<forall>(k, items) \<in> set fs. items \<noteq> []" using Suc.prems by auto
  show ?case
  proof (cases "fs \<noteq> [] \<and> length b < limit")
    case False
    then show ?thesis by (auto simp: balance.simps [of limit fs] layers_def layer_def)
  next
    case True
    note pass = balance_pass_layer [OF _ nonempty, of b limit]
    have len: "length (layer 0 fs) = length fs" using length_layer_0 [OF nonempty] .
    have step: "balance limit fs b = balance limit (fst (balance_pass limit fs b))
        (snd (balance_pass limit fs b))"
      using True by (simp add: balance.simps [of limit fs])
    show ?thesis
    proof (cases "length b + length fs < limit")
      case more: True
      have "\<forall>(k, items) \<in> set (tails fs). items \<noteq> [] \<and> length items \<le> n"
        using Suc.prems by (fastforce simp: tails_def split: if_splits)
      from Suc.IH [OF this] show ?thesis
        using True pass more len by (simp add: step layers_Suc)
    next
      case False
      then have "length (snd (balance_pass limit fs b)) = limit" using True pass len by auto
      then have "balance limit fs b = snd (balance_pass limit fs b)"
        by (simp add: step balance.simps [of limit "fst (balance_pass limit fs b)"])
      then show ?thesis using True pass False len by (simp add: layers_Suc)
    qed
  qed
qed

lemma mset_layers:
  assumes "\<forall>(k, items) \<in> set fs. length items \<le> n"
  shows "mset (layers n fs) = mset (concat (map snd fs))"
  using assms
proof (induction n arbitrary: fs)
  case 0
  then show ?case by (induction fs) (auto simp: layers_def)
next
  case (Suc n)
  have "\<forall>(k, items) \<in> set (tails fs). length items \<le> n"
    using Suc.prems by (fastforce simp: tails_def split: if_splits)
  from Suc.IH [OF this] have "mset (layers n (tails fs)) = mset (concat (map snd (tails fs)))" .
  moreover have "mset (layer 0 fs) + mset (concat (map snd (tails fs))) = mset (concat (map snd fs))"
    for fs :: "family list"
  proof (induction fs)
    case (Cons f fs)
    then show ?case by (cases f; cases "snd f") auto
  qed simp
  ultimately show ?case by (simp add: layers_Suc)
qed

section \<open>The families of the evidence\<close>

lemma mset_partition:
  "distinct ks \<Longrightarrow> mset (concat (map (\<lambda>k. filter (\<lambda>e. g e = k) xs) ks)) =
     filter_mset (\<lambda>e. g e \<in> set ks) (mset xs)"
proof (induction ks)
  case (Cons k ks)
  have "filter_mset (\<lambda>e. g e = k \<or> g e \<in> set ks) (mset xs) =
      filter_mset (\<lambda>e. g e = k) (mset xs) + filter_mset (\<lambda>e. g e \<in> set ks) (mset xs)"
    using Cons.prems by (intro multiset_eqI) auto
  with Cons show ?case by simp
qed simp

lemma families_of_mset: "mset (concat (map snd (families_of es))) = mset es"
proof -
  have "mset (concat (map snd (families_of es))) =
      filter_mset (\<lambda>e. family_key e \<in> family_key ` set es) (mset (by_score es))"
    using mset_partition [of "sort (remdups (map family_key es))" family_key "by_score es"]
    by (simp add: families_of_def comp_def)
  also have "\<dots> = mset es" by (simp add: by_score_def filter_mset_eq_conv)
  finally show ?thesis .
qed

lemma families_of_items: "(k, items) \<in> set (families_of es) \<Longrightarrow> items \<noteq> [] \<and> length items \<le> length es"
proof -
  assume "(k, items) \<in> set (families_of es)"
  then have items: "items = filter (\<lambda>e. family_key e = k) (by_score es)" "k \<in> family_key ` set es"
    by (auto simp: families_of_def)
  have "set (by_score es) = set es" "length (by_score es) = length es" by (simp_all add: by_score_def)
  with items show ?thesis
    by (auto simp: filter_empty_conv) (metis length_filter_le)
qed

definition fair_selection :: "nat \<Rightarrow> ContextEvidence list \<Rightarrow> ContextEvidence list" where
  \<comment> \<open>first the best item of every family, then the second best of every family, and so on\<close>
  "fair_selection limit es = take limit (layers (length es) (families_of es))"

lemma balance_fair: "balance limit (families_of es) [] = fair_selection limit es"
  using balance_layers [of "families_of es" "length es" limit "[]"] families_of_items
  by (fastforce simp: fair_selection_def)

lemma fair_selection_mset: "mset (fair_selection limit es) \<subseteq># mset es"
  and fair_selection_length: "length (fair_selection limit es) = min limit (length es)"
proof -
  have layers: "mset (layers (length es) (families_of es)) = mset es"
    using mset_layers [of "families_of es" "length es"] families_of_items families_of_mset by fastforce
  have "mset (take limit xs) \<subseteq># mset xs" for xs :: "ContextEvidence list"
    by (metis append_take_drop_id mset_append mset_subset_eq_add_left)
  with layers show "mset (fair_selection limit es) \<subseteq># mset es" by (metis fair_selection_def)
  show "length (fair_selection limit es) = min limit (length es)"
    using layers by (simp add: fair_selection_def) (metis min.commute size_mset)
qed

section \<open>Collisions\<close>

definition cleared :: "ContextEvidence list \<Rightarrow> ContextEvidence list" where
  \<comment> \<open>the evidence whose identifier no other item of any source has\<close>
  "cleared es = filter (\<lambda>e. \<not> colliding es (cx_context_id e)) es"

lemma few_distinct: "(\<And>x. x \<in> set xs \<Longrightarrow> length (filter (\<lambda>y. f y = f x) xs) \<le> 1) \<Longrightarrow> distinct (map f xs)"
proof (induction xs)
  case (Cons x xs)
  have "f x \<notin> f ` set xs"
    using Cons.prems [of x] by (auto simp: filter_empty_conv)
  moreover have "length (filter (\<lambda>y. f y = f z) xs) \<le> 1" if "z \<in> set xs" for z
    using Cons.prems [of z] that by (simp split: if_splits)
  ultimately show ?case using Cons.IH by simp
qed simp

lemma cleared_distinct: "distinct (map cx_context_id (cleared es))"
proof (rule few_distinct)
  fix x assume "x \<in> set (cleared es)"
  then have "length (filter (\<lambda>y. cx_context_id y = cx_context_id x) es) \<le> 1"
    by (simp add: cleared_def colliding_def)
  moreover have "length (filter P (filter Q es)) \<le> length (filter P es)" for P Q :: "ContextEvidence \<Rightarrow> bool"
    by (induction es) auto
  ultimately show "length (filter (\<lambda>y. cx_context_id y = cx_context_id x) (cleared es)) \<le> 1"
    unfolding cleared_def by (meson le_trans)
qed

lemma distinct_mset_count: "distinct xs \<longleftrightarrow> (\<forall>x. count (mset xs) x \<le> 1)"
proof
  assume few: "\<forall>x. count (mset xs) x \<le> 1"
  have "count (mset xs) x = (if x \<in> set xs then 1 else 0)" for x
  proof (cases "x \<in> set xs")
    case True
    then have "0 < count (mset xs) x" by (simp add: count_greater_zero_iff)
    with few True show ?thesis by (metis One_nat_def Suc_leI le_antisym)
  qed (simp add: count_eq_zero_iff)
  then show "distinct xs" by (simp add: distinct_count_atmost_1)
qed (simp add: distinct_count_atmost_1)

lemma fair_cleared_distinct: "distinct (map cx_context_id (fair_selection limit (cleared es)))"
proof -
  have "mset (map cx_context_id (fair_selection limit (cleared es))) \<subseteq># mset (map cx_context_id (cleared es))"
    using image_mset_subseteq_mono [OF fair_selection_mset, of cx_context_id] by simp
  from mset_subset_eq_count [OF this] show ?thesis
    using cleared_distinct [of es] unfolding distinct_mset_count by (meson le_trans)
qed

section \<open>Fairness\<close>

definition family_items :: "string \<times> string \<Rightarrow> ContextEvidence list \<Rightarrow> ContextEvidence list" where
  "family_items k es = filter (\<lambda>e. family_key e = k) es"

lemma family_layer:
  assumes "distinct (map fst fs)" "\<forall>(l, items) \<in> set fs. \<forall>e \<in> set items. family_key e = l"
  shows "family_items k (layer j fs) =
    (case map_of fs k of None \<Rightarrow> [] | Some items \<Rightarrow> take 1 (drop j items))"
  using assms
proof (induction fs)
  case (Cons f fs)
  obtain l items where f: "f = (l, items)" by (cases f)
  have own: "\<forall>e \<in> set (take 1 (drop j items)). family_key e = l"
    using Cons.prems(2) f by (auto dest!: in_set_takeD in_set_dropD)
  have "map_of fs l = None" using Cons.prems(1) f by (simp add: map_of_eq_None_iff)
  with Cons own show ?case
    by (cases "k = l") (auto simp: f family_items_def filter_True filter_False simp del: One_nat_def)
qed (simp add: family_items_def)

lemma family_layer_of:
  "family_items k (layer j (families_of es)) = take 1 (drop j (family_items k (by_score es)))"
proof -
  let ?ks = "sort (remdups (map family_key es))"
  have "map_of (families_of es) k =
      (if k \<in> set ?ks then Some (family_items k (by_score es)) else None)"
    unfolding families_of_def family_items_def by (simp add: map_of_map_restrict restrict_map_def)
  moreover have "k \<notin> set ?ks \<Longrightarrow> family_items k (by_score es) = []"
    by (auto simp: family_items_def by_score_def filter_empty_conv)
  moreover have "distinct (map fst (families_of es))" by (simp add: families_of_def comp_def)
  moreover have "\<forall>(l, items) \<in> set (families_of es). \<forall>e \<in> set items. family_key e = l"
    by (auto simp: families_of_def)
  ultimately show ?thesis
    using family_layer [of "families_of es" k j] by (auto simp del: One_nat_def)
qed

lemma family_layers:
  "family_items k (layers n (families_of es)) = take n (family_items k (by_score es))"
proof (induction n)
  case (Suc n)
  have "layers (Suc n) fs = layers n fs @ layer n fs" for fs by (simp add: layers_def)
  then show ?case
    using Suc family_layer_of [of k n es] by (simp add: family_items_def take_add [of n 1, simplified])
qed (simp add: layers_def family_items_def)

lemma take_layers: "\<exists>m r. take limit (layers n fs) = layers m fs @ take r (layer m fs)"
proof (induction n)
  case 0
  have "take limit (layers 0 fs) = layers 0 fs @ take 0 (layer 0 fs)" by (simp add: layers_def)
  then show ?case by blast
next
  case (Suc n)
  have Suc_layers: "layers (Suc n) fs = layers n fs @ layer n fs" by (simp add: layers_def)
  show ?case
  proof (cases "limit \<le> length (layers n fs)")
    case True
    with Suc show ?thesis by (simp add: Suc_layers)
  next
    case False
    then have "take limit (layers (Suc n) fs) =
        layers n fs @ take (limit - length (layers n fs)) (layer n fs)"
      by (simp add: Suc_layers)
    then show ?thesis by blast
  qed
qed

lemma fair_prefix:
  "\<exists>m. \<forall>k. family_items k (fair_selection limit es) = take m (family_items k (by_score es)) \<or>
     family_items k (fair_selection limit es) = take (Suc m) (family_items k (by_score es))"
proof -
  let ?fs = "families_of es"
  obtain m r where sel: "fair_selection limit es = layers m ?fs @ take r (layer m ?fs)"
    using take_layers [of limit "length es" ?fs] by (auto simp: fair_selection_def)
  have "family_items k (take r (layer m ?fs)) = [] \<or>
      family_items k (take r (layer m ?fs)) = family_items k (layer m ?fs)" for k
  proof -
    have "family_items k (layer m ?fs) =
        family_items k (take r (layer m ?fs)) @ family_items k (drop r (layer m ?fs))"
      by (metis append_take_drop_id family_items_def filter_append)
    moreover have "length (family_items k (layer m ?fs)) \<le> 1" by (simp add: family_layer_of)
    ultimately show ?thesis
      by (cases "family_items k (take r (layer m ?fs))") auto
  qed
  moreover have "family_items k (layers m ?fs) @ family_items k (layer m ?fs) =
      take (Suc m) (family_items k (by_score es))" for k
    by (simp add: family_layers family_layer_of take_add [of m 1, simplified])
  ultimately have "family_items k (fair_selection limit es) = take m (family_items k (by_score es)) \<or>
     family_items k (fair_selection limit es) = take (Suc m) (family_items k (by_score es))" for k
    by (metis sel append_Nil2 family_items_def family_layers filter_append)
  then show ?thesis by blast
qed

lemma family_items_by_score: "length (family_items k (by_score es)) = length (family_items k es)"
  by (simp add: family_items_def by_score_def flip: size_mset)

lemma fair_selection_best:
  "family_items k (fair_selection limit es) =
     take (length (family_items k (fair_selection limit es))) (family_items k (by_score es))"
  using fair_prefix [of limit es] by (metis append_eq_conv_conj append_take_drop_id)

lemma fair_selection_even:
  assumes "length (family_items k (fair_selection limit es)) < length (family_items k es)"
  shows "length (family_items l (fair_selection limit es)) \<le>
    Suc (length (family_items k (fair_selection limit es)))"
proof -
  obtain m where m: "\<And>k. family_items k (fair_selection limit es) = take m (family_items k (by_score es)) \<or>
     family_items k (fair_selection limit es) = take (Suc m) (family_items k (by_score es))"
    using fair_prefix by blast
  have "m \<le> length (family_items k (fair_selection limit es))"
    using m [of k] assms by (auto simp: family_items_by_score)
  moreover have "length (family_items l (fair_selection limit es)) \<le> Suc m"
    using m [of l] by auto
  ultimately show ?thesis by simp
qed

end
