(* ===== verification/ContextCoverage.thy ===== *)
theory ContextCoverage
  imports ContextFacts
begin

text \<open>
  The coverage of an assembled context: what one source contributes and reports, that the counts
  of the coverage add up, that an item left out shows in it, and when assembly returns.
\<close>

section \<open>One source\<close>

definition source_answer ::
  "ContextAssembler \<Rightarrow> IntelligenceRequest \<Rightarrow> datetime \<Rightarrow> SourceAdapter \<Rightarrow> retrieved option" where
  \<comment> \<open>what a source answers when it may be asked and does not raise\<close>
  "source_answer x q now a =
     (case rbind (context_request q a) (\<lambda>p.
        evaluate_capability_use (xa_registry x) (xa_policy x) p now) of
        Inl _ \<Rightarrow> None
      | Inr d \<Rightarrow> if CapabilityUseDecision_is_usable d
          then (case sa_retrieve a q (xa_per_source_limit x) now d of Inl _ \<Rightarrow> None | Inr r \<Rightarrow> Some r)
          else None)"

lemma source_answer_Some:
  "source_answer x q now a = Some r \<longleftrightarrow> (\<exists>p d. context_request q a = Inr p \<and>
     evaluate_capability_use (xa_registry x) (xa_policy x) p now = Inr d \<and>
     CapabilityUseDecision_is_usable d \<and> sa_retrieve a q (xa_per_source_limit x) now d = Inr r)"
  by (auto simp: source_answer_def rbind_Inr_iff split: sum.splits)

lemma SourceCoverage_init_Inr:
  "SourceCoverage_init v = Inr w \<Longrightarrow> w = v"
  by (simp add: SourceCoverage_init_def construct_Inr_iff)

lemma SourceCoverage_counts:
  "SourceCoverage_init v = Inr w \<Longrightarrow>
     sv_selected_count w \<le> sv_admitted_count w \<and> sv_admitted_count w \<le> sv_returned_count w"
  by (simp add: SourceCoverage_init_def check_simps)

definition outcome_ok :: "IntelligenceRequest \<Rightarrow> SourceAdapter \<Rightarrow> SourceOutcome \<Rightarrow> bool" where
  "outcome_ok q a o' \<longleftrightarrow>
     sv_capability_id (so_coverage o') = sa_capability_id a \<and>
     sv_source_instance_id (so_coverage o') = sa_source_instance_id a \<and>
     sv_admitted_count (so_coverage o') = int (length (so_evidence o')) \<and>
     sv_selected_count (so_coverage o') = 0 \<and>
     (sv_reasons (so_coverage o') \<noteq> [] \<longrightarrow>
        sv_status (so_coverage o') \<in> {''partial'', ''unavailable''}) \<and>
     (\<forall>e \<in> set (so_evidence o'). admissible_item q a e) \<and>
     distinct (map cx_context_id (so_evidence o'))"

lemma refused_source_ok:
  "refused_source a reason = Inr o' \<Longrightarrow> outcome_ok q a o' \<and> so_evidence o' = [] \<and>
     so_coverage o' = \<lparr>sv_capability_id = sa_capability_id a, sv_status = ''unavailable'',
      sv_returned_count = 0, sv_admitted_count = 0, sv_selected_count = 0, sv_reasons = [reason],
      sv_source_instance_id = sa_source_instance_id a, sv_pre_filter_count = None,
      sv_checked_at = None, sv_freshness = ''unknown'', sv_admission_decisions = [],
      sv_relationship_sources = []\<rparr>"
  by (auto simp: refused_source_def unavailable_source_def outcome_ok_def rbind_Inr_iff
      dest: SourceCoverage_init_Inr)

lemma source_coverage_Inr:
  "source_coverage a r s = Inr v \<Longrightarrow> sv_capability_id v = sa_capability_id a \<and>
     sv_source_instance_id v = sa_source_instance_id a \<and>
     sv_admitted_count v = int (length (admitted_items s)) \<and> sv_selected_count v = 0 \<and>
     sv_returned_count v = int (length (retrieved_items r)) \<and>
     sv_reasons v = sorted_set (sn_reasons s) \<and>
     (sn_reasons s \<noteq> [] \<longrightarrow> sv_status v = ''partial'') \<and> sv_status v \<noteq> ''unavailable''"
  unfolding source_coverage_def by (drule SourceCoverage_init_Inr) simp

lemma sorted_set_simps [simp]:
  "set (sorted_set xs) = set xs" "sorted_set xs = [] \<longleftrightarrow> xs = []"
proof -
  show "set (sorted_set xs) = set xs" by (simp add: sorted_set_def)
  then show "sorted_set xs = [] \<longleftrightarrow> xs = []" by (metis set_empty)
qed

lemma answered_source_ok:
  assumes "source_coverage a r (admission x q a r) = Inr v"
  shows "outcome_ok q a \<lparr>so_evidence = admitted_items (admission x q a r), so_unavailable = u,
    so_coverage = v\<rparr>"
  using source_coverage_Inr [OF assms] admitted_items_facts(1) [where x = x and q = q and a = a and r = r]
    admitted_items_facts(2) [where x = x and q = q and a = a and r = r]
  by (auto simp: outcome_ok_def)

lemma assemble_source_cases:
  assumes "assemble_source x q now a = Inr o'"
  obtains (answered) r v where "source_answer x q now a = Some r"
      "source_coverage a r (admission x q a r) = Inr v"
      "o' = \<lparr>so_evidence = admitted_items (admission x q a r),
        so_unavailable = map (\<lambda>reason. sa_capability_id a @ '':'' @ reason)
          (sn_reasons (admission x q a r)), so_coverage = v\<rparr>"
    | (refused) reason where "source_answer x q now a = None" "refused_source a reason = Inr o'"
proof -
  obtain p d where p: "context_request q a = Inr p"
      "evaluate_capability_use (xa_registry x) (xa_policy x) p now = Inr d"
    using assms unfolding assemble_source_def
    by (elim rbind_InrE) (rule that)
  note unfolded = assms [unfolded assemble_source_def p rbind_simps]
  show thesis
  proof (cases "CapabilityUseDecision_is_usable d")
    case False
    with refused unfolded p show thesis by (simp add: source_answer_def)
  next
    case usable: True
    show thesis
    proof (cases "sa_retrieve a q (xa_per_source_limit x) now d")
      case (Inl e)
      with usable unfolded have "refused_source a ''connector_failure'' = Inr o'"
        by (cases e) (simp_all)
      with refused usable Inl p show thesis by (simp add: source_answer_def)
    next
      case (Inr r)
      with answered usable unfolded p show thesis
        by (auto simp: source_answer_def Let_def rbind_Inr_iff)
    qed
  qed
qed

lemma assemble_source_ok: "assemble_source x q now a = Inr o' \<Longrightarrow> outcome_ok q a o'"
  by (erule assemble_source_cases) (simp_all add: answered_source_ok refused_source_ok)

lemma consider_item_reports:
  "sn_reasons s \<noteq> [] \<Longrightarrow> sn_reasons (consider_item q a e s) \<noteq> []"
  "sn_reasons (consider_item q a e s) = [] \<Longrightarrow>
     sn_conflicts (consider_item q a e s) = sn_conflicts s \<and>
     cx_context_id e \<in> fst ` set (sn_seen (consider_item q a e s)) \<and>
     fst ` set (sn_seen s) \<subseteq> fst ` set (sn_seen (consider_item q a e s))"
  by (auto simp: consider_item_def Let_def keys_dict_set)

lemma fold_consider_reports:
  "sn_reasons (fold (consider_item q a) es s) = [] \<Longrightarrow>
     sn_reasons s = [] \<and> sn_conflicts (fold (consider_item q a) es s) = sn_conflicts s \<and>
     cx_context_id ` set es \<union> fst ` set (sn_seen s) \<subseteq>
       fst ` set (sn_seen (fold (consider_item q a) es s))"
proof (induction es arbitrary: s)
  case (Cons e es)
  let ?t = "consider_item q a e s"
  have rest: "sn_reasons (fold (consider_item q a) es ?t) = []" using Cons.prems by simp
  note IH = Cons.IH [OF rest]
  have "sn_reasons s = []" using IH consider_item_reports(1) by blast
  moreover note step = consider_item_reports(2) [of q a e s, OF conjunct1 [OF IH]]
  have "cx_context_id e \<in> fst ` set (sn_seen (fold (consider_item q a) es ?t))"
      "fst ` set (sn_seen s) \<subseteq> fst ` set (sn_seen (fold (consider_item q a) es ?t))"
      "cx_context_id ` set es \<subseteq> fst ` set (sn_seen (fold (consider_item q a) es ?t))"
    using IH step by (meson Un_subset_iff subsetD subset_trans)+
  ultimately show ?case using IH step by simp
qed simp

lemma admission_reports:
  assumes "sn_reasons (admission x q a r) = []" "i \<in> set (retrieved_items r)"
  shows "\<exists>e \<in> set (admitted_items (admission x q a r)). cx_context_id e = cx_context_id i"
proof -
  let ?s = "admission x q a r"
  note facts = fold_consider_reports [OF assms(1) [unfolded admission_def], folded admission_def]
  have "take (nat (xa_per_source_limit x)) (retrieved_items r) = retrieved_items r"
    using facts by (auto split: if_splits)
  with facts assms(2) have "cx_context_id i \<in> fst ` set (sn_seen ?s)" "sn_conflicts ?s = []"
    by (auto simp del: take_all_iff)
  moreover have "cx_context_id e = k" if "(k, e) \<in> set (sn_seen ?s)" for k e
    using that admission_is_ok [of q a x r] by (auto simp: admission_ok_def)
  ultimately obtain e where "(cx_context_id i, e) \<in> set (sn_seen ?s)" "cx_context_id e = cx_context_id i"
      "e \<in> set (admitted_items ?s)"
    by (force simp: admitted_items_def)
  then show ?thesis by blast
qed

lemma answered_reports:
  assumes "assemble_source x q now a = Inr o'" "source_answer x q now a = Some r"
    "i \<in> set (retrieved_items r)" "sv_reasons (so_coverage o') = []"
  shows "\<exists>e \<in> set (so_evidence o'). cx_context_id e = cx_context_id i"
  using assms(1)
proof (cases rule: assemble_source_cases)
  case (answered r' v)
  with assms show ?thesis
    using admission_reports [of x q a r i] source_coverage_Inr [OF answered(2)] by auto
qed (use assms(2) in simp)

section \<open>The coverage of the whole context\<close>

lemma list_all2_right: "list_all2 P xs ys \<Longrightarrow> y \<in> set ys \<Longrightarrow> \<exists>x \<in> set xs. P x y"
  by (induction rule: list_all2_induct) auto

lemma outcome_families:
  "list_all2 (\<lambda>a o'. assemble_source x q now a = Inr o') as outcomes \<Longrightarrow>
     list_all2 (\<lambda>a o'. \<forall>e \<in> set (so_evidence o'). family_key e = adapter_key a) as outcomes"
  by (erule list_all2_mono)
    (auto dest!: assemble_source_ok simp: outcome_ok_def admissible_item_def family_key_def adapter_key_def)

lemma own_evidence:
  assumes "list_all2 (\<lambda>a o'. \<forall>e \<in> set (so_evidence o'). family_key e = adapter_key a) as os"
    and "distinct (map adapter_key as)" "n < length as"
  shows "filter (\<lambda>e. family_key e = adapter_key (as ! n)) (concat (map so_evidence os)) =
    so_evidence (os ! n)"
  using assms
proof (induction arbitrary: n rule: list_all2_induct)
  case (Cons a as o' os)
  have other: "filter (\<lambda>e. family_key e = k) (concat (map so_evidence os)) = []"
    if "k \<notin> adapter_key ` set as" for k
  proof -
    have "family_key e \<noteq> k" if "e \<in> set (concat (map so_evidence os))" for e
    proof -
      from that obtain m where m: "m < length os" "e \<in> set (so_evidence (os ! m))"
        by (auto simp: in_set_conv_nth [of _ os])
      then have "family_key e = adapter_key (as ! m)" "as ! m \<in> set as"
        using Cons.hyps(2) by (simp_all add: list_all2_conv_all_nth)
      with \<open>k \<notin> adapter_key ` set as\<close> show ?thesis by (metis image_eqI)
    qed
    then show ?thesis by (intro filter_False ballI)
  qed
  show ?case
  proof (cases n)
    case 0
    with Cons.hyps(1) Cons.prems(1) other [of "adapter_key a"] show ?thesis by (simp add: filter_True)
  next
    case (Suc m)
    then have "as ! m \<in> set as" "adapter_key a \<notin> adapter_key ` set as" using Cons.prems by simp_all
    then have "adapter_key (as ! m) \<noteq> adapter_key a" by (metis image_eqI)
    with Cons.hyps(1) have "filter (\<lambda>e. family_key e = adapter_key (as ! m)) (so_evidence o') = []"
      by (auto simp: filter_empty_conv)
    with Cons Suc show ?thesis by simp
  qed
qed simp

lemma collide_Inr:
  assumes "collide evidence v = Inr w"
  shows "sv_capability_id w = sv_capability_id v" "sv_source_instance_id w = sv_source_instance_id v"
    "sv_admitted_count w = sv_admitted_count v - int (removed_from evidence v)"
    "set (sv_reasons v) \<subseteq> set (sv_reasons w)"
    "removed_from evidence v \<noteq> 0 \<Longrightarrow> sv_reasons w \<noteq> [] \<and> sv_status w = ''partial''"
    "removed_from evidence v = 0 \<Longrightarrow> w = v"
  using assms by (auto simp: collide_def Let_def split: if_splits dest!: SourceCoverage_init_Inr)

lemma select_coverage_Inr:
  assumes "select_coverage balanced v = Inr w"
  shows "sv_capability_id w = sv_capability_id v" "sv_source_instance_id w = sv_source_instance_id v"
    "sv_selected_count w = int (selected_from balanced v)"
    "sv_admitted_count w = sv_admitted_count v"
    "set (sv_reasons v) \<subseteq> set (sv_reasons w)"
    "sv_selected_count w < sv_admitted_count w \<Longrightarrow> sv_reasons w \<noteq> []"
    "sv_reasons w \<noteq> [] \<Longrightarrow> sv_status v \<noteq> ''unavailable'' \<Longrightarrow> sv_status w = ''partial''"
    "sv_selected_count w \<le> sv_admitted_count w \<and> sv_admitted_count w \<le> sv_returned_count w"
    "sv_selected_count w = sv_admitted_count w \<Longrightarrow> sv_reasons w = sv_reasons v"
    "sv_status v = ''unavailable'' \<Longrightarrow> sv_status w = ''unavailable''"
  using assms SourceCoverage_counts [OF assms [unfolded select_coverage_def Let_def]]
  by (auto simp: select_coverage_def Let_def split: if_splits dest!: SourceCoverage_init_Inr)

lemma filter_conj_length:
  "length (filter P xs) = length (filter (\<lambda>x. P x \<and> Q x) xs) + length (filter (\<lambda>x. P x \<and> \<not> Q x) xs)"
  by (induction xs) auto

lemma from_source_key:
  "sv_capability_id v = sa_capability_id a \<Longrightarrow> sv_source_instance_id v = sa_source_instance_id a \<Longrightarrow>
     from_source v e \<longleftrightarrow> family_key e = adapter_key a"
  by (simp add: from_source_def family_key_def adapter_key_def)

definition selection :: "ContextAssembler \<Rightarrow> SourceOutcome list \<Rightarrow> ContextEvidence list" where
  "selection x outcomes =
     fair_selection (nat (xa_total_limit x)) (cleared (concat (map so_evidence outcomes)))"

definition sources :: "ContextAssembler \<Rightarrow> SourceAdapter list" where
  "sources x = sort_key adapter_key (xa_adapters x)"

lemma assembleE:
  assumes "assemble x q now gk = Inr c"
  obtains outcomes vs where
    "first_error (ContextAssembler_checks x) = None"
    "\<not> tzinfo_None now"
    "list_all2 (\<lambda>a o'. assemble_source x q now a = Inr o') (sources x) outcomes"
    "list_all2 (\<lambda>o' v. collide (concat (map so_evidence outcomes)) (so_coverage o') = Inr v) outcomes vs"
    "list_all2 (\<lambda>v w. select_coverage (selection x outcomes) v = Inr w) vs (ax_source_coverage c)"
    "ax_evidence c = selection x outcomes" "ax_request c = q" "ax_global_knowledge c = gk"
    "ax_unavailable_capabilities c = sorted_set (concat (map so_unavailable outcomes) @
       collision_notes (concat (map so_evidence outcomes)) (map so_coverage outcomes))"
proof -
  from assms obtain outcomes where checks: "first_error (ContextAssembler_checks x @
      [require (\<not> tzinfo_None now) ''context reference time must be timezone-aware'']) = None"
    and outcomes: "traverse (assemble_source x q now) (sources x) = Inr outcomes"
    and rest: "(let evidence = concat (map so_evidence outcomes);
         coverage = map so_coverage outcomes;
         kept = filter (\<lambda>e. \<not> colliding evidence (cx_context_id e)) evidence;
         balanced = balance (nat (xa_total_limit x)) (families_of kept) [];
         unavailable = concat (map so_unavailable outcomes) @ collision_notes evidence coverage
     in rbind (traverse (collide evidence) coverage) (\<lambda>coverage.
        rbind (traverse (select_coverage balanced) coverage) (\<lambda>coverage.
        Inr \<lparr>ax_request = q, ax_evidence = balanced,
          ax_unavailable_capabilities = sorted_set unavailable,
          ax_global_knowledge = gk, ax_source_coverage = coverage\<rparr>))) = Inr c"
    unfolding assemble_def sources_def by (elim rbind_InrE) (simp only: construct_Inr_iff)
  from rest obtain vs where
      vs: "traverse (collide (concat (map so_evidence outcomes))) (map so_coverage outcomes) = Inr vs"
      "traverse (select_coverage (selection x outcomes)) vs = Inr (ax_source_coverage c)"
      "ax_evidence c = selection x outcomes" "ax_request c = q" "ax_global_knowledge c = gk"
      "ax_unavailable_capabilities c = sorted_set (concat (map so_unavailable outcomes) @
       collision_notes (concat (map so_evidence outcomes)) (map so_coverage outcomes))"
    by (auto simp: Let_def rbind_Inr_iff balance_fair selection_def cleared_def)
  have "first_error (ContextAssembler_checks x) = None" "\<not> tzinfo_None now"
    using checks by (simp_all add: ContextAssembler_checks_def check_simps)
  then show thesis
    using that outcomes vs by (simp add: traverse_Inr_iff traverse_map comp_def)
qed

lemma sources_facts:
  assumes "first_error (ContextAssembler_checks x) = None"
  shows "distinct (map adapter_key (sources x))" "set (sources x) = set (xa_adapters x)"
    "1 \<le> xa_per_source_limit x" "xa_per_source_limit x \<le> 25"
    "1 \<le> xa_total_limit x" "xa_total_limit x \<le> 100"
proof -
  show "distinct (map adapter_key (sources x))"
    using assms by (simp add: ContextAssembler_checks_def check_simps sources_def distinct_map)
qed (use assms in \<open>simp_all add: ContextAssembler_checks_def check_simps sources_def\<close>)

lemma context_coverage:
  fixes x
  assumes "list_all2 (\<lambda>a o'. assemble_source x q now a = Inr o') (sources x) outcomes"
    and "list_all2 (\<lambda>o' v. collide (concat (map so_evidence outcomes)) (so_coverage o') = Inr v) outcomes vs"
    and "list_all2 (\<lambda>v w. select_coverage (selection x outcomes) v = Inr w) vs ws"
    and "distinct (map adapter_key (sources x))" "n < length (sources x)"
  defines "evidence \<equiv> concat (map so_evidence outcomes)" and "own \<equiv> (\<lambda>e. family_key e = adapter_key (sources x ! n))"
  shows "length ws = length (sources x)"
    "sv_capability_id (ws ! n) = sa_capability_id (sources x ! n)"
    "sv_source_instance_id (ws ! n) = sa_source_instance_id (sources x ! n)"
    "sv_selected_count (ws ! n) = int (length (filter own (selection x outcomes)))"
    "sv_admitted_count (ws ! n) = int (length (filter own (cleared evidence)))"
    "sv_admitted_count (ws ! n) \<le> sv_returned_count (ws ! n)"
    "filter own evidence = so_evidence (outcomes ! n)"
    "sv_reasons (ws ! n) = [] \<Longrightarrow> sv_reasons (so_coverage (outcomes ! n)) = [] \<and>
       filter own (cleared evidence) = so_evidence (outcomes ! n) \<and>
       sv_selected_count (ws ! n) = sv_admitted_count (ws ! n)"
    "sv_reasons (ws ! n) \<noteq> [] \<Longrightarrow> sv_status (so_coverage (outcomes ! n)) \<noteq> ''unavailable'' \<Longrightarrow>
       sv_status (ws ! n) = ''partial''"
proof -
  let ?a = "sources x ! n" and ?o = "outcomes ! n" and ?v = "vs ! n" and ?w = "ws ! n"
  have len: "length outcomes = length (sources x)" "length vs = length (sources x)"
      "length ws = length (sources x)"
    using assms(1-3) by (simp_all add: list_all2_lengthD)
  have o': "assemble_source x q now ?a = Inr ?o" and v: "collide evidence (so_coverage ?o) = Inr ?v"
    and w: "select_coverage (selection x outcomes) ?v = Inr ?w"
    using assms(1-3,5) len by (simp_all add: list_all2_conv_all_nth evidence_def)
  note ok = assemble_source_ok [OF o', unfolded outcome_ok_def]
  note vs = collide_Inr [OF v] and ws = select_coverage_Inr [OF w]
  have from': "from_source (so_coverage ?o) = own" "from_source ?v = own"
    using ok vs(1,2) from_source_key by (auto simp: own_def fun_eq_iff)
  note families = outcome_families [OF assms(1)]
  show owned: "filter own evidence = so_evidence ?o"
    using own_evidence [OF families assms(4,5)] by (simp add: own_def evidence_def)
  have split: "length (so_evidence ?o) = removed_from evidence (so_coverage ?o) +
      length (filter own (cleared evidence))"
    using filter_conj_length [of own evidence "\<lambda>e. colliding evidence (cx_context_id e)"]
    by (simp add: owned removed_from_def from' cleared_def conj_commute)
  show "sv_capability_id ?w = sa_capability_id ?a" "sv_source_instance_id ?w = sa_source_instance_id ?a"
    using ok vs(1,2) ws(1,2) by simp_all
  show "sv_selected_count ?w = int (length (filter own (selection x outcomes)))"
    using ws(3) by (simp add: selected_from_def from')
  show admitted: "sv_admitted_count ?w = int (length (filter own (cleared evidence)))"
    using ok vs(3) ws(4) split by simp
  show "sv_admitted_count ?w \<le> sv_returned_count ?w" using ws(8) by simp
  show "sv_reasons (so_coverage ?o) = [] \<and> filter own (cleared evidence) = so_evidence ?o \<and>
      sv_selected_count ?w = sv_admitted_count ?w" if none: "sv_reasons ?w = []"
  proof -
    have "sv_reasons ?v = []" using none ws(5) by auto
    then have "removed_from evidence (so_coverage ?o) = 0" using vs(5) by auto
    then have "filter own (cleared evidence) = so_evidence ?o"
      by (simp add: removed_from_def from' filter_empty_conv cleared_def owned [symmetric])
        (rule filter_cong, auto)
    moreover have "sv_reasons (so_coverage ?o) = []" using \<open>sv_reasons ?v = []\<close> vs(4) by auto
    moreover have "sv_selected_count ?w = sv_admitted_count ?w" using ws(6,8) none by force
    ultimately show ?thesis by blast
  qed
  show "sv_status ?w = ''partial''"
    if "sv_reasons ?w \<noteq> []" "sv_status (so_coverage ?o) \<noteq> ''unavailable''"
  proof -
    have "sv_status ?v \<noteq> ''unavailable''"
      using that(2) vs(5,6) by (cases "removed_from evidence (so_coverage ?o) = 0") auto
    with that(1) ws(7) show ?thesis by blast
  qed
  show "length ws = length (sources x)" using len by simp
qed

lemma context_refused:
  fixes x
  assumes "list_all2 (\<lambda>a o'. assemble_source x q now a = Inr o') (sources x) outcomes"
    and "list_all2 (\<lambda>o' v. collide (concat (map so_evidence outcomes)) (so_coverage o') = Inr v) outcomes vs"
    and "list_all2 (\<lambda>v w. select_coverage (selection x outcomes) v = Inr w) vs ws"
    and "distinct (map adapter_key (sources x))" "n < length (sources x)"
    and none: "source_answer x q now (sources x ! n) = None"
  obtains reason where "sv_reasons (ws ! n) = [reason]" "sv_status (ws ! n) = ''unavailable''"
    "so_unavailable (outcomes ! n) = [sa_capability_id (sources x ! n) @ '':'' @ reason]"
proof -
  let ?evidence = "concat (map so_evidence outcomes)"
  let ?a = "sources x ! n" and ?o = "outcomes ! n" and ?v = "vs ! n" and ?w = "ws ! n"
  note cov = context_coverage [OF assms(1-5)]
  have len: "length outcomes = length (sources x)" "length vs = length (sources x)"
    using assms(1,2) by (simp_all add: list_all2_lengthD)
  have o': "assemble_source x q now ?a = Inr ?o" and v: "collide ?evidence (so_coverage ?o) = Inr ?v"
    and w: "select_coverage (selection x outcomes) ?v = Inr ?w"
    using assms(1-3,5) len by (simp_all add: list_all2_conv_all_nth)
  from o' obtain reason where reason: "refused_source ?a reason = Inr ?o"
    by (rule assemble_source_cases) (simp_all add: none)
  note refused = refused_source_ok [OF reason]
  have unavailable: "so_unavailable ?o = [sa_capability_id ?a @ '':'' @ reason]"
    using reason unfolding refused_source_def by (elim rbind_InrE) (metis SourceOutcome.select_convs(2) sum.inject(2))
  have "removed_from ?evidence (so_coverage ?o) = 0"
    using cov(7) refused from_source_key [of "so_coverage ?o" ?a]
    by (auto simp: removed_from_def filter_empty_conv)
  then have same: "?v = so_coverage ?o" using collide_Inr(6) [OF v] by simp
  note selected = select_coverage_Inr [OF w, unfolded same]
  have "sv_admitted_count ?w = 0" using selected(4) refused by simp
  moreover have "0 \<le> sv_selected_count ?w" using selected(3) by simp
  ultimately have "sv_selected_count ?w = sv_admitted_count ?w" using selected(8) by simp
  then show thesis using that unavailable selected(9,10) refused by simp
qed

section \<open>The evidence that was admitted\<close>

definition admitted_evidence ::
  "ContextAssembler \<Rightarrow> IntelligenceRequest \<Rightarrow> datetime \<Rightarrow> ContextEvidence list" where
  \<comment> \<open>what the sources that answer contribute, in the order of the sources\<close>
  "admitted_evidence x q now = concat (map (\<lambda>a.
     case source_answer x q now a of None \<Rightarrow> [] | Some r \<Rightarrow> admitted_items (admission x q a r)) (sources x))"

lemma admitted_evidence_outcomes:
  assumes "list_all2 (\<lambda>a o'. assemble_source x q now a = Inr o') (sources x) outcomes"
  shows "concat (map so_evidence outcomes) = admitted_evidence x q now"
proof -
  have "so_evidence o' = (case source_answer x q now a of None \<Rightarrow> [] | Some r \<Rightarrow>
      admitted_items (admission x q a r))" if "assemble_source x q now a = Inr o'" for a o'
    using that by (rule assemble_source_cases) (simp_all add: refused_source_ok)
  with assms have "list_all2 (\<lambda>a o'. so_evidence o' = (case source_answer x q now a of None \<Rightarrow> []
      | Some r \<Rightarrow> admitted_items (admission x q a r))) (sources x) outcomes"
    by (auto elim: list_all2_mono)
  then have "map so_evidence outcomes = map (\<lambda>a. case source_answer x q now a of None \<Rightarrow> []
      | Some r \<Rightarrow> admitted_items (admission x q a r)) (sources x)"
    by (induction rule: list_all2_induct) simp_all
  then show ?thesis by (simp add: admitted_evidence_def)
qed

lemma admitted_evidence_item:
  assumes "e \<in> set (admitted_evidence x q now)"
  obtains a r i where "a \<in> set (xa_adapters x)" "source_answer x q now a = Some r"
    "admissible_item q a e" "i \<in> set (retrieved_items r)"
    "e = i\<lparr>cx_source_instance_id := sa_source_instance_id a\<rparr>"
proof -
  from assms obtain a where a: "a \<in> set (sources x)" "e \<in> set (case source_answer x q now a of
      None \<Rightarrow> [] | Some r \<Rightarrow> admitted_items (admission x q a r))"
    by (auto simp: admitted_evidence_def)
  then obtain r where "source_answer x q now a = Some r" "a \<in> set (sources x)"
      "e \<in> set (admitted_items (admission x q a r))"
    by (cases "source_answer x q now a") auto
  with admitted_items_facts(1) [OF this(3)] that show thesis by (auto simp: sources_def)
qed

section \<open>When assembly returns\<close>

definition adapter_wf :: "SourceAdapter \<Rightarrow> bool" where
  \<comment> \<open>the attributes are identifiers and \<open>retrieve\<close> keeps its contract: evidence, a constructed
     batch, or a connector error\<close>
  "adapter_wf a \<longleftrightarrow> valid_identifier (sa_capability_id a) \<and> valid_identifier (sa_operation a) \<and>
     list_all valid_identifier (sa_resource_scope a) \<and>
     (\<forall>q l now d. case sa_retrieve a q l now d of
        Inl e \<Rightarrow> (case e of ConnectorExc _ _ _ _ \<Rightarrow> True | _ \<Rightarrow> False)
      | Inr (Evidence es) \<Rightarrow> True
      | Inr (Batch b) \<Rightarrow> returns (SourceBatch_init b))"

definition context_wf :: "ContextAssembler \<Rightarrow> IntelligenceRequest \<Rightarrow> datetime \<Rightarrow> bool" where
  "context_wf x q now \<longleftrightarrow> first_error (ContextAssembler_checks x) = None \<and>
     registry_ok (xa_registry x) \<and> PolicySet_wf (xa_policy x) \<and> stamp now \<and>
     returns (IntelligenceRequest_init q) \<and> PrincipalContext_wf (iq_principal q) \<and>
     Purpose_wf (iq_purpose q) \<and> SecurityDomain_wf (iq_security_domain q) \<and>
     Classification_wf (iq_classification q) \<and>
     tenant_admits (pc_tenant_id (iq_principal q)) (iq_security_domain q)"

lemma context_request_returns:
  assumes "context_wf x q now"
  shows "adapter_wf a \<Longrightarrow> returns (context_request q a) \<longleftrightarrow> length (sa_capability_id a) \<le> 120"
    and "context_request q a = Inr p \<Longrightarrow> PermissionRequest_wf p \<and>
      pr_capability_id p = sa_capability_id a \<and> pr_operation p = sa_operation a \<and>
      pr_security_domain p = iq_security_domain q \<and> pr_principal p = iq_principal q"
proof -
  show "returns (context_request q a) \<longleftrightarrow> length (sa_capability_id a) \<le> 120" if "adapter_wf a"
  proof -
    have "valid_identifier ''context''" by code_simp
    then have "valid_identifier (''context'' @ '':'' @ sa_capability_id a) \<longleftrightarrow>
        length (sa_capability_id a) \<le> 120"
      using that by (simp only: valid_join adapter_wf_def) simp
    then show ?thesis
      using assms that
      by (auto simp: context_request_def PermissionRequest_init_iff context_wf_def adapter_wf_def)
  qed
  show "PermissionRequest_wf p \<and> pr_capability_id p = sa_capability_id a \<and>
      pr_operation p = sa_operation a \<and> pr_security_domain p = iq_security_domain q \<and>
      pr_principal p = iq_principal q" if "context_request q a = Inr p"
    using that assms
    by (auto simp: context_request_def PermissionRequest_init_def PermissionRequest_wf_def
        context_wf_def construct_ok construct_Inr_iff)
qed

lemma context_decision:
  assumes "context_wf x q now" "context_request q a = Inr p"
  obtains d where "evaluate_capability_use (xa_registry x) (xa_policy x) p now = Inr d"
    "CapabilityUseDecision_is_usable d \<longleftrightarrow>
       (\<exists>c. map_of (xa_registry x) (sa_capability_id a) = Some c \<and>
          usable_now c (sa_operation a) (iq_security_domain q)) \<and> policy_grants (xa_policy x) p now"
  using context_request_returns(2) [OF assms] use_ready_iff [of "xa_registry x" "xa_policy x" p now]
    assms(1)
  by (auto simp: context_wf_def)

lemma refused_source_returns: "returns (refused_source a reason)"
  by (simp add: refused_source_def unavailable_source_def SourceCoverage_init_def construct_ok check_simps)

lemma source_coverage_returns:
  assumes "case r of Evidence es \<Rightarrow> True | Batch b \<Rightarrow> returns (SourceBatch_init b)"
  shows "returns (source_coverage a r (admission x q a r))"
proof -
  have "length (admitted_items (admission x q a r)) \<le> length (retrieved_items r)"
    using admitted_items_facts(4) .
  with assms show ?thesis
    by (auto simp: source_coverage_def SourceCoverage_init_def SourceBatch_init_def check_simps
        retrieved_items_def split: retrieved.splits)
qed

lemma assemble_source_returns:
  assumes "context_wf x q now" "adapter_wf a"
  shows "returns (assemble_source x q now a) \<longleftrightarrow> length (sa_capability_id a) \<le> 120"
proof (cases "context_request q a")
  case (Inl e)
  then show ?thesis
    using context_request_returns(1) [OF assms] by (simp add: assemble_source_def)
next
  case (Inr p)
  obtain d where d: "evaluate_capability_use (xa_registry x) (xa_policy x) p now = Inr d"
    using context_decision [OF assms(1) Inr] by blast
  have "returns (assemble_source x q now a)"
  proof (cases "CapabilityUseDecision_is_usable d")
    case False
    then show ?thesis by (simp add: assemble_source_def Inr d refused_source_returns)
  next
    case usable: True
    have contract: "case sa_retrieve a q (xa_per_source_limit x) now d of
        Inl e \<Rightarrow> (case e of ConnectorExc _ _ _ _ \<Rightarrow> True | _ \<Rightarrow> False)
      | Inr (Evidence es) \<Rightarrow> True
      | Inr (Batch b) \<Rightarrow> returns (SourceBatch_init b)"
      using assms(2) by (simp add: adapter_wf_def)
    show ?thesis
    proof (cases "sa_retrieve a q (xa_per_source_limit x) now d")
      case (Inl e)
      with contract usable show ?thesis
        by (cases e) (simp_all add: assemble_source_def Inr d refused_source_returns)
    next
      case ans: (Inr r)
      then obtain v where "source_coverage a r (admission x q a r) = Inr v"
        using contract source_coverage_returns [of r a x q]
        by (auto simp: returns_ok split: retrieved.splits)
      with ans usable show ?thesis by (simp add: assemble_source_def Inr d Let_def)
    qed
  qed
  then show ?thesis using context_request_returns(1) [OF assms] Inr by simp
qed

lemma outcome_coverage_init:
  assumes "assemble_source x q now a = Inr o'"
  shows "SourceCoverage_init (so_coverage o') = Inr (so_coverage o')"
  using assms
proof (cases rule: assemble_source_cases)
  case (answered r v)
  then show ?thesis by (auto simp: source_coverage_def SourceCoverage_init_def construct_Inr_iff construct_ok)
next
  case (refused reason)
  then show ?thesis
    by (auto simp: refused_source_def unavailable_source_def rbind_Inr_iff SourceCoverage_init_def
        construct_Inr_iff construct_ok)
qed

lemma collide_returns:
  assumes "SourceCoverage_init v = Inr v" "sv_selected_count v = 0"
    and "int (removed_from evidence v) \<le> sv_admitted_count v"
  obtains w where "collide evidence v = Inr w" "SourceCoverage_init w = Inr w"
proof (cases "removed_from evidence v = 0")
  case True
  with assms(1) that show thesis by (simp add: collide_def)
next
  case False
  from assms False have "returns (collide evidence v)"
    by (auto simp: collide_def Let_def SourceCoverage_init_def check_simps)
  then obtain w where w: "collide evidence v = Inr w" by (auto simp: returns_ok)
  with False have "SourceCoverage_init w = Inr w"
    by (auto simp: collide_def Let_def SourceCoverage_init_def construct_Inr_iff construct_ok)
  with w that show thesis by blast
qed

lemma select_coverage_returns:
  assumes "SourceCoverage_init v = Inr v" "int (selected_from balanced v) \<le> sv_admitted_count v"
  shows "returns (select_coverage balanced v)"
  using assms by (auto simp: select_coverage_def Let_def SourceCoverage_init_def check_simps)

lemma traverse_Inr_ex:
  assumes "\<And>a. a \<in> set as \<Longrightarrow> \<exists>b. f a = Inr b"
  obtains bs where "traverse f as = Inr bs"
  using traverse_Inr [of as f "\<lambda>a. SOME b. f a = Inr b"] assms by (metis (mono_tags, lifting) someI_ex)

lemma coverage_returns:
  assumes outcomes: "traverse (assemble_source x q now) (sources x) = Inr outcomes"
    and keys: "distinct (map adapter_key (sources x))"
  defines "evidence \<equiv> concat (map so_evidence outcomes)"
  obtains vs where "traverse (collide evidence) (map so_coverage outcomes) = Inr vs"
    "returns (traverse (select_coverage (selection x outcomes)) vs)"
proof -
  have rel: "list_all2 (\<lambda>a o'. assemble_source x q now a = Inr o') (sources x) outcomes"
    using outcomes by (simp add: traverse_Inr_iff)
  note families = outcome_families [OF rel]
  have counts: "int (removed_from evidence v) \<le> sv_admitted_count v \<and>
      int (length (filter (from_source v) (cleared evidence))) =
        sv_admitted_count v - int (removed_from evidence v) \<and>
      sv_selected_count v = 0 \<and> SourceCoverage_init v = Inr v"
    if v: "v \<in> set (map so_coverage outcomes)" for v
  proof -
    from v obtain n where n: "n < length outcomes" "v = so_coverage (outcomes ! n)"
      by (auto simp: in_set_conv_nth)
    have o': "assemble_source x q now (sources x ! n) = Inr (outcomes ! n)" "n < length (sources x)"
      using rel n(1) by (simp_all add: list_all2_conv_all_nth)
    note ok = assemble_source_ok [OF o'(1), unfolded outcome_ok_def]
    have own: "from_source v = (\<lambda>e. family_key e = adapter_key (sources x ! n))"
      using ok n(2) from_source_key by (auto simp: fun_eq_iff)
    have "filter (from_source v) evidence = so_evidence (outcomes ! n)"
      using own_evidence [OF families keys o'(2)] by (simp add: own evidence_def)
    then have "length (so_evidence (outcomes ! n)) = removed_from evidence v +
        length (filter (from_source v) (cleared evidence))"
      using filter_conj_length [of "from_source v" evidence "\<lambda>e. colliding evidence (cx_context_id e)"]
      by (simp add: removed_from_def cleared_def conj_commute)
    then show ?thesis using ok n(2) outcome_coverage_init [OF o'(1)] by simp
  qed
  obtain vs where vs: "traverse (collide evidence) (map so_coverage outcomes) = Inr vs"
    using traverse_Inr_ex [of "map so_coverage outcomes" "collide evidence"] counts collide_returns
    by metis
  have "returns (select_coverage (selection x outcomes) w)" if w: "w \<in> set vs" for w
  proof -
    obtain v where v: "v \<in> set (map so_coverage outcomes)" "collide evidence v = Inr w"
      using that list_all2_right [OF vs [unfolded traverse_Inr_iff] w] by blast
    note collided = collide_Inr [OF v(2)]
    have "SourceCoverage_init w = Inr w"
      using collide_returns [of v evidence] counts [OF v(1)] v(2) by auto
    moreover have "from_source w = from_source v"
      using collided(1,2) by (simp add: from_source_def fun_eq_iff)
    moreover have "length (filter (from_source w) (selection x outcomes)) \<le>
        length (filter (from_source w) (cleared evidence))"
    proof -
      have "mset (filter (from_source w) (selection x outcomes)) \<subseteq>#
          mset (filter (from_source w) (cleared evidence))"
        using multiset_filter_mono [OF fair_selection_mset]
        by (simp add: selection_def evidence_def)
      from size_mset_mono [OF this] show ?thesis by (simp only: size_mset)
    qed
    ultimately show ?thesis
      using counts [OF v(1)] collided(3) by (intro select_coverage_returns) (auto simp: selected_from_def)
  qed
  then have "returns (traverse (select_coverage (selection x outcomes)) vs)"
    by (metis traverse_Inr_ex returns_ok)
  with vs show thesis by (rule that)
qed

lemma assemble_returns:
  assumes "context_wf x q now" "\<forall>a \<in> set (xa_adapters x). adapter_wf a"
  shows "returns (assemble x q now gk) \<longleftrightarrow> (\<forall>a \<in> set (xa_adapters x). length (sa_capability_id a) \<le> 120)"
proof -
  have checks: "first_error (ContextAssembler_checks x) = None" and aware: "\<not> tzinfo_None now"
    using assms(1) by (auto simp: context_wf_def stamp_def)
  note facts = sources_facts [OF checks]
  have construct: "construct (ContextAssembler_checks x @
      [require (\<not> tzinfo_None now) ''context reference time must be timezone-aware'']) () = Inr ()"
    using checks aware by (intro construct_ok) (simp add: ContextAssembler_checks_def check_simps)
  have sources: "returns (assemble_source x q now a) \<longleftrightarrow> length (sa_capability_id a) \<le> 120"
    if "a \<in> set (sources x)" for a
    using assemble_source_returns [OF assms(1)] assms(2) that facts(2) by blast
  show ?thesis
  proof (cases "traverse (assemble_source x q now) (sources x)")
    case (Inl e)
    then have "\<not> (\<forall>a \<in> set (sources x). length (sa_capability_id a) \<le> 120)"
      using sources traverse_Inr_ex by (metis Inl_Inr_False returns_ok)
    then show ?thesis using Inl facts(2) by (simp add: assemble_def construct sources_def [symmetric])
  next
    case (Inr outcomes)
    then have "\<forall>a \<in> set (sources x). returns (assemble_source x q now a)"
      by (auto simp: traverse_Inr_iff list_all2_conv_all_nth in_set_conv_nth returns_ok)
    then have short: "\<forall>a \<in> set (xa_adapters x). length (sa_capability_id a) \<le> 120"
      using sources facts(2) by blast
    from coverage_returns [OF Inr facts(1)] obtain vs ws where
      "traverse (collide (concat (map so_evidence outcomes))) (map so_coverage outcomes) = Inr vs"
      "traverse (select_coverage (selection x outcomes)) vs = Inr ws"
      by (metis returns_ok)
    then have "returns (assemble x q now gk)"
      using Inr
      by (simp add: assemble_def construct sources_def [symmetric] balance_fair Let_def selection_def
          cleared_def)
    with short show ?thesis by blast
  qed
qed

end
