(* ===== verification/ContextProperties.thy ===== *)
theory ContextProperties
  imports ContextCoverage Samples
begin

text \<open>
  The properties of the context assembly: only evidence the principal may use now is selected, the
  selection is fair to the sources, an omission shows in the coverage, and when assembly returns.
\<close>

section \<open>Samples\<close>

definition context_item :: "string \<Rightarrow> rat \<Rightarrow> ContextEvidence" where
  "context_item i score = \<lparr>cx_context_id = i, cx_capability_id = ''files.ingest'',
     cx_source_label = ''Files'', cx_title = ''Title'', cx_excerpt = ''Text'', cx_score = Some score,
     cx_provenance = [sample_evidence], cx_source_timestamp = None, cx_timestamp_kind = None,
     cx_freshness_state = FS_UNKNOWN, cx_temporal_start = None, cx_temporal_end = None,
     cx_source_instance_id = [], cx_business_facts = None\<rparr>"

definition sample_item :: "string \<Rightarrow> rat \<Rightarrow> ContextEvidence" where
  "sample_item i score = context_item i score\<lparr>cx_source_instance_id := ''one''\<rparr>"

definition foreign_item :: ContextEvidence where
  "foreign_item = (context_item ''c'' 9)\<lparr>cx_provenance := [foreign_evidence]\<rparr>"

definition sample_source :: SourceAdapter where
  "sample_source = \<lparr>sa_capability_id = ''files.ingest'', sa_operation = ''ingest'',
     sa_resource_scope = [''inbox''], sa_source_instance_id = ''one'',
     sa_retrieve = (\<lambda>q l now d. Inr (Evidence [context_item ''a'' 1, foreign_item, context_item ''b'' 2]))\<rparr>"

definition sample_assembler :: ContextAssembler where
  "sample_assembler = \<lparr>xa_registry = sample_registry, xa_policy = sample_policy,
     xa_adapters = [sample_source], xa_per_source_limit = 5, xa_total_limit = 10\<rparr>"

definition sample_query :: IntelligenceRequest where
  "sample_query = \<lparr>iq_query = ''Status'', iq_principal = sample_principal, iq_purpose = sample_purpose,
     iq_security_domain = sample_domain, iq_classification = sample_classification,
     iq_resource_scope = [], iq_retrieval_mode = ''search''\<rparr>"

lemma sample_context_wf: "context_wf sample_assembler sample_query sample_now"
proof -
  have "allows_domain sample_principal sample_domain"
    by (simp add: sample_defs allows_domain_def tenant_admits_def SecurityDomain_eq_def)
  then show ?thesis
    using sample_wf sample_stamp sample_admits
    by (simp add: context_wf_def sample_assembler_def sample_query_def ContextAssembler_checks_def
        check_simps IntelligenceRequest_init_def sample_texts blank_def)
qed

lemma sample_source_wf: "adapter_wf sample_source"
  by (simp add: adapter_wf_def sample_source_def sample_ids)

lemma sample_assembled: "\<exists>c. assemble sample_assembler sample_query sample_now gk = Inr c"
  using assemble_returns [OF sample_context_wf, of gk] sample_source_wf
  by (simp add: returns_ok sample_assembler_def) (simp add: sample_source_def)

lemma policy_grants_request_id: "policy_grants p (q\<lparr>pr_request_id := i\<rparr>) now = policy_grants p q now"
  by (simp add: policy_grants_def prohibited_by_def most_specific_def matching_def PolicyRule_matches_def)

lemma sample_answer:
  "source_answer sample_assembler sample_query sample_now sample_source =
     Some (Evidence [context_item ''a'' 1, foreign_item, context_item ''b'' 2])"
proof -
  have "returns (context_request sample_query sample_source)"
    using context_request_returns(1) [OF sample_context_wf sample_source_wf] by (simp add: sample_source_def)
  then obtain p where p: "context_request sample_query sample_source = Inr p" by (auto simp: returns_ok)
  then have "p = sample_request\<lparr>pr_request_id := ''context:files.ingest''\<rparr>"
    by (simp add: context_request_def PermissionRequest_init_def construct_Inr_iff sample_query_def
        sample_source_def sample_request_def)
  with sample_grants have "policy_grants sample_policy p sample_now" by (simp add: policy_grants_request_id)
  moreover have "map_of sample_registry ''files.ingest'' = Some sample_capability"
    using sample_lookup(1) by blast
  ultimately obtain d where "evaluate_capability_use sample_registry sample_policy p sample_now = Inr d"
      "CapabilityUseDecision_is_usable d"
    using context_decision [OF sample_context_wf p] sample_usable
    by (auto simp: sample_assembler_def sample_source_def sample_query_def)
  with p have "source_answer sample_assembler sample_query sample_now sample_source = Some r
      \<longleftrightarrow> r = Evidence [context_item ''a'' 1, foreign_item, context_item ''b'' 2]" for r
    by (auto simp: source_answer_Some sample_assembler_def) (simp_all add: sample_source_def)
  then show ?thesis by blast
qed

lemma sample_admitted:
  "admitted_evidence sample_assembler sample_query sample_now =
     [sample_item ''a'' 1, sample_item ''b'' 2]"
proof -
  have "\<not> SecurityDomain_eq foreign_domain sample_domain"
    by (simp add: sample_defs SecurityDomain_eq_def)
  then have scope: "out_of_scope sample_query foreign_item"
      "\<not> out_of_scope sample_query (context_item i score)" 
      "\<not> out_of_scope sample_query (context_item i score\<lparr>cx_source_instance_id := k\<rparr>)" 
      "out_of_scope sample_query (foreign_item\<lparr>cx_source_instance_id := k\<rparr>)" for i score k
    by (simp_all add: out_of_scope_def foreign_item_def context_item_def sample_query_def
        sample_evidence_def foreign_evidence_def sample_record_def SecurityDomain_eq_def Classification_eq_def)
  let ?stamp = "\<lambda>e. e\<lparr>cx_source_instance_id := ''one''\<rparr>"
  have keep: "consider_item sample_query sample_source (context_item i score) t =
      t\<lparr>sn_seen := dict_set i (?stamp (context_item i score)) (sn_seen t)\<rparr>"
    if "map_of (sn_seen t) i = None" for i score t
    using that scope by (simp add: consider_item_def Let_def sample_source_def)
      (simp add: context_item_def)
  have reject: "consider_item sample_query sample_source foreign_item t =
      t\<lparr>sn_reasons := ''evidence_scope_mismatch'' # sn_reasons t\<rparr>" for t
    using scope by (simp add: consider_item_def Let_def sample_source_def)
      (simp add: foreign_item_def context_item_def)
  have "sources sample_assembler = [sample_source]" by (simp add: sources_def sample_assembler_def)
  then have "admitted_evidence sample_assembler sample_query sample_now = admitted_items
      (admission sample_assembler sample_query sample_source
        (Evidence [context_item ''a'' 1, foreign_item, context_item ''b'' 2]))"
    by (simp add: admitted_evidence_def sample_answer)
  moreover have "admitted_items (admission sample_assembler sample_query sample_source
        (Evidence [context_item ''a'' 1, foreign_item, context_item ''b'' 2])) =
      [sample_item ''a'' 1, sample_item ''b'' 2]"
    by (simp add: admission_def admitted_items_def keep reject retrieved_items_def
        sample_assembler_def sample_item_def)
  ultimately show ?thesis by simp
qed

lemma sample_cleared:
  "cleared [sample_item ''a'' 1, sample_item ''b'' 2] = [sample_item ''a'' 1, sample_item ''b'' 2]"
  "by_score [sample_item ''a'' 1, sample_item ''b'' 2] = [sample_item ''b'' 2, sample_item ''a'' 1]"
  by (simp_all add: cleared_def colliding_def by_score_def sample_item_def context_item_def)

section \<open>Lemmas\<close>

lemma evidence_selection:
  assumes "assemble x q now gk = Inr c"
  shows "ax_evidence c = fair_selection (nat (xa_total_limit x)) (cleared (admitted_evidence x q now))"
    and "first_error (ContextAssembler_checks x) = None"
proof -
  from assms obtain outcomes vs where
    rel: "list_all2 (\<lambda>a o'. assemble_source x q now a = Inr o') (sources x) outcomes"
    and "ax_evidence c = selection x outcomes"
    and checks: "first_error (ContextAssembler_checks x) = None"
    by (rule assembleE)
  then show "ax_evidence c = fair_selection (nat (xa_total_limit x)) (cleared (admitted_evidence x q now))"
    by (simp add: selection_def admitted_evidence_outcomes [OF rel])
  show "first_error (ContextAssembler_checks x) = None" by (rule checks)
qed

lemma selected_admitted:
  "assemble x q now gk = Inr c \<Longrightarrow> set (ax_evidence c) \<subseteq> set (admitted_evidence x q now)"
  using evidence_selection(1) set_mset_mono [OF fair_selection_mset]
  by (fastforce simp: cleared_def)

lemma selected_item:
  assumes "context_wf x q now" "assemble x q now gk = Inr c" "e \<in> set (ax_evidence c)"
  shows "(\<forall>ref \<in> set (cx_provenance e).
       SecurityDomain_eq (ur_security_domain (ev_record ref)) (iq_security_domain q) \<and>
       Classification_eq (ur_classification (ev_record ref)) (iq_classification q)) \<and>
     (\<exists>a \<in> set (xa_adapters x). \<exists>p d r i cap.
     context_request q a = Inr p \<and>
     map_of (xa_registry x) (sa_capability_id a) = Some cap \<and>
     usable_now cap (sa_operation a) (iq_security_domain q) \<and> policy_grants (xa_policy x) p now \<and>
     sa_retrieve a q (xa_per_source_limit x) now d = Inr r \<and> i \<in> set (retrieved_items r) \<and>
     e = i\<lparr>cx_source_instance_id := sa_source_instance_id a\<rparr> \<and>
     cx_capability_id e = sa_capability_id a)"
proof -
  obtain a r i where a: "a \<in> set (xa_adapters x)" "source_answer x q now a = Some r"
      "admissible_item q a e" "i \<in> set (retrieved_items r)"
      "e = i\<lparr>cx_source_instance_id := sa_source_instance_id a\<rparr>"
    using selected_admitted [OF assms(2)] assms(3) admitted_evidence_item by blast
  from a(2) obtain p d where p: "context_request q a = Inr p"
      "evaluate_capability_use (xa_registry x) (xa_policy x) p now = Inr d"
      "CapabilityUseDecision_is_usable d" "sa_retrieve a q (xa_per_source_limit x) now d = Inr r"
    by (auto simp: source_answer_Some)
  from context_decision [OF assms(1) p(1)] p(2,3) obtain cap where
      "map_of (xa_registry x) (sa_capability_id a) = Some cap"
      "usable_now cap (sa_operation a) (iq_security_domain q)" "policy_grants (xa_policy x) p now"
    by auto
  moreover have "\<forall>ref \<in> set (cx_provenance e).
       SecurityDomain_eq (ur_security_domain (ev_record ref)) (iq_security_domain q) \<and>
       Classification_eq (ur_classification (ev_record ref)) (iq_classification q)"
    using a(3) by (auto simp: admissible_item_def out_of_scope_def list_ex_iff)
  moreover have "cx_capability_id e = sa_capability_id a" using a(3) by (simp add: admissible_item_def)
  ultimately show ?thesis using a p by blast
qed

lemma selected_per_source:
  assumes "assemble x q now gk = Inr c" "a \<in> set (xa_adapters x)"
  shows "int (length (family_items (adapter_key a) (ax_evidence c))) \<le> xa_per_source_limit x"
proof -
  from assms(1) obtain outcomes vs where
    checks: "first_error (ContextAssembler_checks x) = None"
    and rel: "list_all2 (\<lambda>a o'. assemble_source x q now a = Inr o') (sources x) outcomes"
    and sel: "ax_evidence c = selection x outcomes"
    by (rule assembleE)
  note facts = sources_facts [OF checks]
  from assms(2) facts(2) obtain n where n: "n < length (sources x)" "a = sources x ! n"
    by (metis in_set_conv_nth)
  let ?evidence = "concat (map so_evidence outcomes)"
  have "assemble_source x q now a = Inr (outcomes ! n)"
    using rel n by (simp add: list_all2_conv_all_nth)
  then have "length (so_evidence (outcomes ! n)) \<le> nat (xa_per_source_limit x)"
    by (rule assemble_source_cases)
      (use admitted_items_facts(3) in \<open>simp_all add: refused_source_ok\<close>)
  moreover have "family_items (adapter_key a) ?evidence = so_evidence (outcomes ! n)"
    using own_evidence [OF outcome_families [OF rel] facts(1) n(1)] n(2) by (simp add: family_items_def)
  moreover have "length (family_items k (fair_selection l (cleared es))) \<le> length (family_items k es)" for k l es
  proof -
    have "mset (cleared es) \<subseteq># mset es" by (simp add: cleared_def)
    then have "mset (fair_selection l (cleared es)) \<subseteq># mset es"
      using fair_selection_mset subset_mset.order_trans by blast
    from size_mset_mono [OF multiset_filter_mono [OF this]] show ?thesis
      by (metis family_items_def mset_filter size_mset)
  qed
  ultimately show ?thesis
    using facts(3) unfolding sel selection_def by (smt (verit) int_nat_eq le_trans of_nat_mono)
qed

definition coverage_entry ::
  "ContextAssembler \<Rightarrow> IntelligenceRequest \<Rightarrow> datetime \<Rightarrow> AssembledContext \<Rightarrow> SourceAdapter \<Rightarrow>
     SourceCoverage \<Rightarrow> bool" where
  \<comment> \<open>what the coverage of one source says of the context\<close>
  "coverage_entry x q now c a v \<longleftrightarrow>
     sv_capability_id v = sa_capability_id a \<and> sv_source_instance_id v = sa_source_instance_id a \<and>
     sv_selected_count v = int (length (filter (from_source v) (ax_evidence c))) \<and>
     sv_selected_count v \<le> sv_admitted_count v \<and> sv_admitted_count v \<le> sv_returned_count v \<and>
     (case source_answer x q now a of
        None \<Rightarrow> sv_status v = ''unavailable'' \<and> (\<exists>reason. sv_reasons v = [reason] \<and>
          sa_capability_id a @ '':'' @ reason \<in> set (ax_unavailable_capabilities c))
      | Some r \<Rightarrow> (\<forall>i \<in> set (retrieved_items r).
          (\<exists>e \<in> set (ax_evidence c). from_source v e \<and> cx_context_id e = cx_context_id i) \<or>
          sv_status v = ''partial'' \<and> sv_reasons v \<noteq> []))"

lemma submset_filter_all:
  assumes "mset xs \<subseteq># mset ys" "length (filter P xs) = length (filter P ys)" "y \<in> set ys" "P y"
  shows "y \<in> set xs"
proof -
  have "filter_mset P (mset xs) \<subseteq># filter_mset P (mset ys)" using assms(1) by (rule multiset_filter_mono)
  moreover have "size (filter_mset P (mset xs)) = size (filter_mset P (mset ys))"
    using assms(2) by (metis mset_filter size_mset)
  ultimately have "filter_mset P (mset xs) = filter_mset P (mset ys)"
    using mset_subset_size subset_mset.le_neq_trans by force
  moreover have "y \<in># filter_mset P (mset ys)" using assms(3,4) by simp
  ultimately have "y \<in># filter_mset P (mset xs)" by (simp only:)
  then show ?thesis by simp
qed

lemma coverage_entry_holds:
  fixes x
  assumes rel: "list_all2 (\<lambda>a o'. assemble_source x q now a = Inr o') (sources x) outcomes"
      "list_all2 (\<lambda>o' v. collide (concat (map so_evidence outcomes)) (so_coverage o') = Inr v) outcomes vs"
      "list_all2 (\<lambda>v w. select_coverage (selection x outcomes) v = Inr w) vs (ax_source_coverage c)"
    and keys: "distinct (map adapter_key (sources x))" and n: "n < length (sources x)"
    and sel: "ax_evidence c = selection x outcomes"
    and unavailable: "ax_unavailable_capabilities c = sorted_set (concat (map so_unavailable outcomes) @
       collision_notes (concat (map so_evidence outcomes)) (map so_coverage outcomes))"
  shows "coverage_entry x q now c (sources x ! n) (ax_source_coverage c ! n)"
proof -
  let ?a = "sources x ! n" and ?w = "ax_source_coverage c ! n" and ?o = "outcomes ! n"
  let ?evidence = "concat (map so_evidence outcomes)"
  note cov = context_coverage [OF rel keys n]
  have o': "assemble_source x q now ?a = Inr ?o" "n < length outcomes"
    using rel n by (simp_all add: list_all2_conv_all_nth)
  have own: "from_source ?w = (\<lambda>e. family_key e = adapter_key ?a)"
    using cov(2,3) from_source_key by (auto simp: fun_eq_iff)
  have sub: "mset (ax_evidence c) \<subseteq># mset (cleared ?evidence)"
    by (simp add: sel selection_def fair_selection_mset)
  from multiset_filter_mono [OF this, of "from_source ?w"]
  have "length (filter (from_source ?w) (ax_evidence c)) \<le> length (filter (from_source ?w) (cleared ?evidence))"
    by (metis mset_filter size_mset size_mset_mono)
  then have counts: "sv_selected_count ?w \<le> sv_admitted_count ?w"
    using cov(4,5) by (simp add: own sel)
  show ?thesis
  proof (cases "source_answer x q now ?a")
    case None
    from context_refused [OF rel keys n this] obtain reason where
      "sv_reasons ?w = [reason]" "sv_status ?w = ''unavailable''"
      "so_unavailable ?o = [sa_capability_id ?a @ '':'' @ reason]" .
    moreover from this(3) o'(2) have "sa_capability_id ?a @ '':'' @ reason \<in> set (ax_unavailable_capabilities c)"
      unfolding unavailable using nth_mem [OF o'(2)] by (auto intro!: bexI [of _ ?o])
    ultimately show ?thesis
      using cov counts None by (simp add: coverage_entry_def own sel)
  next
    case (Some r)
    have "(\<exists>e \<in> set (ax_evidence c). from_source ?w e \<and> cx_context_id e = cx_context_id i) \<or>
        sv_status ?w = ''partial'' \<and> sv_reasons ?w \<noteq> []" if i: "i \<in> set (retrieved_items r)" for i
    proof (cases "sv_reasons ?w = []")
      case True
      note all = cov(8) [OF True]
      obtain e where e: "e \<in> set (so_evidence ?o)" "cx_context_id e = cx_context_id i"
        using answered_reports [OF o'(1) Some i] all by blast
      then have "e \<in> set (filter (\<lambda>e. family_key e = adapter_key ?a) (cleared ?evidence))"
        using all by (simp only:)
      then have "e \<in> set (cleared ?evidence)" "from_source ?w e" by (simp_all add: own)
      moreover have "length (filter (from_source ?w) (ax_evidence c)) =
          length (filter (from_source ?w) (cleared ?evidence))"
        using cov(4,5) all by (simp add: own sel)
      ultimately show ?thesis using submset_filter_all [OF sub] e(2) by blast
    next
      case False
      have "sv_status (so_coverage ?o) \<noteq> ''unavailable''"
        using o'(1) Some by (cases rule: assemble_source_cases) (auto dest: source_coverage_Inr)
      with cov(9) False show ?thesis by blast
    qed
    with Some cov counts show ?thesis by (simp add: coverage_entry_def own sel)
  qed
qed

section \<open>Properties\<close>

text \<open>
  (C11) Every item a context contains was returned by an adapter whose capability is registered and
  usable now for its operation in the requested domain and whose request the policy grants now;
  it bears that adapter's capability and instance, and every record it cites lies in the requested
  domain, which is active for the principal, and classification. No two items share an identifier,
  and the context respects its total limit and the limit per source.
\<close>

theorem context_authorised:
  assumes "context_wf x q now" and "assemble x q now gk = Inr c"
  shows "distinct (map cx_context_id (ax_evidence c)) \<and>
    int (length (ax_evidence c)) \<le> xa_total_limit x \<and>
    (\<forall>a \<in> set (xa_adapters x).
       int (length (family_items (adapter_key a) (ax_evidence c))) \<le> xa_per_source_limit x) \<and>
    allows_domain (iq_principal q) (iq_security_domain q) \<and>
    (\<forall>e \<in> set (ax_evidence c).
      (\<forall>ref \<in> set (cx_provenance e).
         SecurityDomain_eq (ur_security_domain (ev_record ref)) (iq_security_domain q) \<and>
         Classification_eq (ur_classification (ev_record ref)) (iq_classification q)) \<and>
      (\<exists>a \<in> set (xa_adapters x). \<exists>p d r i cap.
         context_request q a = Inr p \<and>
         map_of (xa_registry x) (sa_capability_id a) = Some cap \<and>
         usable_now cap (sa_operation a) (iq_security_domain q) \<and> policy_grants (xa_policy x) p now \<and>
         sa_retrieve a q (xa_per_source_limit x) now d = Inr r \<and> i \<in> set (retrieved_items r) \<and>
         e = i\<lparr>cx_source_instance_id := sa_source_instance_id a\<rparr> \<and>
         cx_capability_id e = sa_capability_id a))"
proof -
  note limits = sources_facts [OF evidence_selection(2) [OF assms(2)]]
  note selection = evidence_selection(1) [OF assms(2)]
  note items = selected_item [OF assms]
  have "int (length (family_items (adapter_key a) (ax_evidence c))) \<le> xa_per_source_limit x"
    if "a \<in> set (xa_adapters x)" for a
    using selected_per_source [OF assms(2) that] .
  moreover have "int (length (ax_evidence c)) \<le> xa_total_limit x"
    using limits(5) by (simp add: selection fair_selection_length)
  ultimately show ?thesis
    using assms(1) fair_cleared_distinct items
    by (simp add: selection context_wf_def IntelligenceRequest_init_def check_simps)
qed

text \<open>
  Three of the sample's items were returned; the one that cites a foreign tenant's record is not
  in the context.
\<close>

theorem context_authorised_witness:
  "\<exists>c. assemble sample_assembler sample_query sample_now [] = Inr c \<and> int (length (ax_evidence c)) \<le> 10 \<and>
     foreign_item\<lparr>cx_source_instance_id := ''one''\<rparr> \<notin> set (ax_evidence c)"
proof -
  obtain c where c: "assemble sample_assembler sample_query sample_now [] = Inr c"
    using sample_assembled by blast
  note facts = context_authorised [OF sample_context_wf c]
  have "\<not> SecurityDomain_eq foreign_domain sample_domain"
    by (simp add: sample_defs SecurityDomain_eq_def)
  moreover have "SecurityDomain_eq foreign_domain sample_domain"
    if "foreign_item\<lparr>cx_source_instance_id := ''one''\<rparr> \<in> set (ax_evidence c)"
  proof -
    have "\<forall>ref \<in> set (cx_provenance (foreign_item\<lparr>cx_source_instance_id := ''one''\<rparr>)).
        SecurityDomain_eq (ur_security_domain (ev_record ref)) (iq_security_domain sample_query)"
      using facts that by blast
    then show ?thesis by (simp add: foreign_item_def foreign_evidence_def sample_query_def)
  qed
  moreover have "int (length (ax_evidence c)) \<le> 10" using facts by (simp add: sample_assembler_def)
  ultimately show ?thesis using c by blast
qed

text \<open>
  (C39) The context is the fair selection from the admitted evidence whose identifiers do not
  collide: as many items as the limit allows, from every source its best items by score and
  identifier, and a source gets two items more than another only when the other has no more.
\<close>

theorem context_balanced:
  assumes "assemble x q now gk = Inr c"
  shows "mset (ax_evidence c) \<subseteq># mset (cleared (admitted_evidence x q now)) \<and>
    length (ax_evidence c) = min (nat (xa_total_limit x)) (length (cleared (admitted_evidence x q now))) \<and>
    (\<forall>k. family_items k (ax_evidence c) = take (length (family_items k (ax_evidence c)))
       (family_items k (by_score (cleared (admitted_evidence x q now))))) \<and>
    (\<forall>k l. length (family_items k (ax_evidence c)) <
         length (family_items k (cleared (admitted_evidence x q now))) \<longrightarrow>
       length (family_items l (ax_evidence c)) \<le> Suc (length (family_items k (ax_evidence c))))"
  unfolding evidence_selection(1) [OF assms]
  using fair_selection_mset fair_selection_length fair_selection_best fair_selection_even by metis

theorem context_balanced_witness:
  "\<exists>c. assemble sample_assembler sample_query sample_now [] = Inr c \<and>
     family_items (''files.ingest'', ''one'') (ax_evidence c) = [sample_item ''b'' 2, sample_item ''a'' 1]"
proof -
  obtain c where c: "assemble sample_assembler sample_query sample_now [] = Inr c"
    using sample_assembled by blast
  let ?k = "(''files.ingest'', ''one'')"
  note facts = context_balanced [OF c, unfolded sample_admitted sample_cleared]
  have "family_items ?k [sample_item ''a'' 1, sample_item ''b'' 2] = [sample_item ''a'' 1, sample_item ''b'' 2]"
      "family_items ?k [sample_item ''b'' 2, sample_item ''a'' 1] = [sample_item ''b'' 2, sample_item ''a'' 1]"
    by (simp_all add: family_items_def family_key_def sample_item_def context_item_def)
  moreover have same: "mset (ax_evidence c) = mset [sample_item ''a'' 1, sample_item ''b'' 2]"
  proof (rule ccontr)
    assume "mset (ax_evidence c) \<noteq> mset [sample_item ''a'' 1, sample_item ''b'' 2]"
    then have "mset (ax_evidence c) \<subset># mset [sample_item ''a'' 1, sample_item ''b'' 2]"
      using conjunct1 [OF facts] by (rule subset_mset.le_neq_trans [rotated])
    from mset_subset_size [OF this] show False using facts by (simp add: sample_assembler_def)
  qed
  moreover from same have "length (family_items ?k (ax_evidence c)) =
      length (family_items ?k [sample_item ''a'' 1, sample_item ''b'' 2])"
    unfolding family_items_def size_mset [symmetric] mset_filter by (simp only:)
  moreover have "family_items ?k (ax_evidence c) = take (length (family_items ?k (ax_evidence c)))
      (family_items ?k [sample_item ''b'' 2, sample_item ''a'' 1])"
    using facts by blast
  ultimately have "family_items ?k (ax_evidence c) = [sample_item ''b'' 2, sample_item ''a'' 1]" by simp
  with c show ?thesis by blast
qed

text \<open>
  (C38) The coverage has an entry for every adapter, in order, whose counts are those of the
  context: selected at most admitted at most returned. A source that may not be asked or fails is
  unavailable, with its reason in the entry and in the list of unavailable capabilities. Of a source
  that answers, an item that is not in the context makes the entry partial, with a reason.
\<close>

theorem context_omissions_reported:
  assumes "assemble x q now gk = Inr c"
  shows "length (ax_source_coverage c) = length (xa_adapters x) \<and>
    (\<forall>(a, v) \<in> set (zip (sources x) (ax_source_coverage c)).
       sv_capability_id v = sa_capability_id a \<and> sv_source_instance_id v = sa_source_instance_id a \<and>
       sv_selected_count v = int (length (filter (from_source v) (ax_evidence c))) \<and>
       sv_selected_count v \<le> sv_admitted_count v \<and> sv_admitted_count v \<le> sv_returned_count v \<and>
       (case source_answer x q now a of
          None \<Rightarrow> sv_status v = ''unavailable'' \<and> (\<exists>reason. sv_reasons v = [reason] \<and>
            sa_capability_id a @ '':'' @ reason \<in> set (ax_unavailable_capabilities c))
        | Some r \<Rightarrow> (\<forall>i \<in> set (retrieved_items r).
            (\<exists>e \<in> set (ax_evidence c). from_source v e \<and> cx_context_id e = cx_context_id i) \<or>
            sv_status v = ''partial'' \<and> sv_reasons v \<noteq> [])))"
proof -
  from assms obtain outcomes vs where
    checks: "first_error (ContextAssembler_checks x) = None"
    and rel: "list_all2 (\<lambda>a o'. assemble_source x q now a = Inr o') (sources x) outcomes"
      "list_all2 (\<lambda>o' v. collide (concat (map so_evidence outcomes)) (so_coverage o') = Inr v) outcomes vs"
      "list_all2 (\<lambda>v w. select_coverage (selection x outcomes) v = Inr w) vs (ax_source_coverage c)"
    and sel: "ax_evidence c = selection x outcomes"
    and unavailable: "ax_unavailable_capabilities c = sorted_set (concat (map so_unavailable outcomes) @
       collision_notes (concat (map so_evidence outcomes)) (map so_coverage outcomes))"
    by (rule assembleE)
  note keys = sources_facts(1) [OF checks]
  have entry: "coverage_entry x q now c (sources x ! n) (ax_source_coverage c ! n)"
    if n: "n < length (sources x)" for n
    using coverage_entry_holds [OF rel keys n sel unavailable] .
  have len: "length (ax_source_coverage c) = length (sources x)"
    using rel by (simp add: list_all2_lengthD)
  have "coverage_entry x q now c a v" if "(a, v) \<in> set (zip (sources x) (ax_source_coverage c))" for a v
    using that entry len by (auto simp: set_zip)
  with len show ?thesis unfolding coverage_entry_def by (auto simp: sources_def)
qed

text \<open>
  Of the sample's three items one is not in the context, and the source's entry says so.
\<close>

theorem context_omissions_reported_witness:
  "\<exists>c v. assemble sample_assembler sample_query sample_now [] = Inr c \<and>
     ax_source_coverage c = [v] \<and> sv_status v = ''partial'' \<and> sv_reasons v \<noteq> []"
proof -
  obtain c where c: "assemble sample_assembler sample_query sample_now [] = Inr c"
    using sample_assembled by blast
  note facts = context_omissions_reported [OF c]
  have src: "sources sample_assembler = [sample_source]" by (simp add: sources_def sample_assembler_def)
  obtain v where v: "ax_source_coverage c = [v]"
    using facts by (auto simp: sample_assembler_def length_Suc_conv)
  have "foreign_item \<in> set (retrieved_items (Evidence [context_item ''a'' 1, foreign_item, context_item ''b'' 2]))"
    by (simp add: retrieved_items_def)
  then have "(\<exists>e \<in> set (ax_evidence c). from_source v e \<and> cx_context_id e = cx_context_id foreign_item) \<or>
      sv_status v = ''partial'' \<and> sv_reasons v \<noteq> []"
    using facts by (simp add: v src sample_answer) blast
  moreover have "cx_context_id e \<noteq> cx_context_id foreign_item" if "e \<in> set (ax_evidence c)" for e
    using selected_admitted [OF c] that
    by (auto simp: sample_admitted sample_item_def foreign_item_def context_item_def)
  ultimately show ?thesis using c v by blast
qed

text \<open>
  (C40) With adapters that keep their contract, assembly returns exactly when every adapter's
  capability identifier has at most 120 characters: a longer one makes the identifier
  \<open>context:{id}\<close> of its permission request invalid, and one such adapter makes the whole assembly
  raise, the sources before it included.
\<close>

theorem context_assembly_total:
  assumes "context_wf x q now" and "\<forall>a \<in> set (xa_adapters x). adapter_wf a"
  shows "(\<exists>c. assemble x q now gk = Inr c) \<longleftrightarrow>
    (\<forall>a \<in> set (xa_adapters x). length (sa_capability_id a) \<le> 120)"
  using assemble_returns [OF assms] by (simp add: returns_ok)

theorem context_assembly_total_witness:
  "\<exists>c. assemble sample_assembler sample_query sample_now [] = Inr c"
  using context_assembly_total [OF sample_context_wf, of "[]"] sample_source_wf
  by (simp add: sample_assembler_def) (simp add: sample_source_def)

end
