(* ===== verification/Spec2Isabelle.thy ===== *)
theory Spec2Isabelle
  imports AuthorityProperties UseProperties ConnectorProperties JobProperties WorkerProperties
    DevProperties DelegationProperties CaptureProperties BudgetProperties
    ContextProperties
begin

text \<open>
  \<^bold>\<open>EDN OS: authority, connectors, durable jobs, governed development, work capture, the provider budget and context assembly\<close>

  EDN OS runs connectors (files, mail, calendars) on behalf of principals of several tenants. Its
  core decides who may use which capability on which data (\<open>src/edn/core\<close>), fixes the shape of
  everything a connector declares, receives and returns (\<open>src/edn/connectors\<close>), and executes
  connector operations as durable, restartable jobs in an SQLite store (\<open>src/edn/jobs\<close>). Its
  development package (\<open>src/edn/development\<close>) runs an engineering agent over a roadmap under
  standing authority and keeps the owner's delegated grants; its work capture
  (\<open>src/edn/work_capture\<close>) turns what an engineer submits into one canonical record; the budget
  ledgers of its intelligence package (\<open>src/edn/intelligence\<close>) decide which call of the remote model
  may be paid for, and its context assembly decides which evidence the model may see. This development
  models these packages and parts and proves what makes them correct. All paths below are relative to \<open>src/src\<close>.

  \<^bold>\<open>How the parts interact.\<close> A connector's manifest registers capabilities
  (\<open>register_manifest_capabilities\<close>) in the registry; the registry says whether a capability can be
  used now (\<open>CapabilityRegistry.resolve\<close>); the policy evaluator says whether a request is permitted
  (\<open>PermissionEvaluator.evaluate\<close>); \<open>CapabilityUseEvaluator\<close> composes both to a use decision, and
  only a READY decision lets a \<open>ConnectorRequest\<close> be built. A job (\<open>jobs/models.py\<close>) names a
  capability, an operation, a principal and possibly a plan with its approval; the service
  (\<open>jobs/service.py\<close>) creates, approves, pauses, cancels, resumes and recovers jobs; the worker
  (\<open>jobs/worker.py\<close>) takes the oldest claimable job, reauthorizes it, claims it, calls the connector,
  and records the outcome. All state of jobs is in the store (\<open>jobs/storage.py\<close>). In the
  development package, \<open>AutonomousDevelopmentOrchestrator.run\<close> selects the next task of the roadmap
  that standing authority allows, lets the agent implement it in bounded repair cycles of agent,
  validation and review, records every step in the audit sink and writes the state file when a
  task is completed. Independently, \<open>DelegatedAuthorityStore\<close> holds grants an owner approved;
  each operation under a grant is claimed once, inside the grant's bounds, and every decision is
  an event of a hash-chained audit. \<open>compile_capture\<close> combines a \<open>CaptureDraft\<close> with the defaults
  of its project to a hashed \<open>WorkCapture\<close> and the intents of its projections; it executes nothing.
  \<open>DurablePilotBudgetLedger\<close> reserves requests, retries and spend for each attempt to call the
  provider, once the owner has attested an opening balance. \<open>ContextAssembler.assemble\<close> asks the use
  decision for every source adapter, calls only those that may be used, checks every returned item,
  and balances the selection between the sources.

  \<^bold>\<open>The theories.\<close>
  \<^item> \<open>Prelude\<close>: results (\<open>Inl\<close> is the raised exception), constructor checks in the order of
    \<open>__post_init__\<close>, state transformers and transactions, Python strings, insertion-ordered
    dictionaries; the collections \<open>check_simps\<close>, \<open>stm_simps\<close> and \<open>codec_simps\<close>.
  \<^item> \<open>PyTime\<close>: \<open>datetime\<close> as wall time and offset in integers, \<open>isoformat\<close> and \<open>fromisoformat\<close>,
    with their round trip and order. \<open>Json\<close>: JSON documents and the readers of the \<open>from_dict\<close>
    methods; the locales \<open>codec\<close> (encode, decode, well-formed, normal form) and \<open>str_enum\<close> that
    every class and enum interprets. \<open>Digest\<close>: \<open>_stable_json\<close>, its UTF-8 bytes and SHA-256 on
    32-bit words. \<open>Uri\<close>: the \<open>urllib.parse\<close> functions the URI guards use.
  \<^item> \<open>Security\<close>, \<open>Capabilities\<close>, \<open>Registry\<close>, \<open>Permissions\<close>, \<open>Policy\<close>, \<open>CapabilityUse\<close>,
    \<open>References\<close>, \<open>Onboarding\<close>: the modules of \<open>edn/core\<close> of these names (\<open>Policy\<close> and
    \<open>CapabilityUse\<close> are the two halves of \<open>policy.py\<close>).
  \<^item> \<open>Connectors\<close>: \<open>connectors/models.py\<close> and \<open>errors.py\<close>. \<open>Conformance\<close>: \<open>base.py\<close> and
    \<open>conformance.py\<close>; a connector is a record of optional methods.
  \<^item> \<open>JobModels\<close>, \<open>JobStore\<close>, \<open>JobService\<close>, \<open>JobWorker\<close>: the modules of \<open>edn/jobs\<close>.
  \<^item> \<open>PolicySpec\<close>, \<open>WorkerSpec\<close>: the declarative specifications, which the evaluator and the worker
    are shown to implement. \<open>StoreInvariants\<close>: the integrity invariant \<open>store_ok\<close>, the exact effect
    of every writing method, and the locales \<open>store_invariant\<close> and \<open>store_history\<close>.
    \<open>JobLifecycle\<close>: the step relation \<open>job_step\<close> of the whole job system and what every sequence
    of steps keeps. \<open>JobRuns\<close>: what each call does, exactly, on a live store.
  \<^item> \<open>DevModels\<close>, \<open>DevAuthority\<close>, \<open>DevRoadmap\<close>, \<open>DevOrchestrator\<close>: \<open>edn/development\<close>: models and
    limits; authority, review and agent; roadmap, selection and state file; the orchestrator.
    \<open>DevRuns\<close>: the specification \<open>dev_history\<close> of a run, the refinement \<open>run_reported\<close>, the
    budgets and the passes of the loop.
  \<^item> \<open>DelegationModels\<close>, \<open>DelegationStore\<close>: \<open>development/delegation.py\<close>, data and store.
    \<open>DelegationLedger\<close>: the exact effect of every call, the invariant \<open>ledger_ok\<close> and sequences
    of calls. \<open>CanonicalText\<close>: the canonical JSON text determines an audit event, and a chain that
    verifies commits to all its events.
    \<open>JsonText\<close>: the printed JSON texts determine the documents; its locales \<open>json_escape\<close> and
    \<open>json_text\<close> are interpreted for the ASCII and for the Unicode printer.
  \<^item> \<open>CaptureText\<close>: the cleaning of texts, reference URIs, UUIDs, ISO dates and indented JSON of
    \<open>edn/work_capture\<close>; \<open>CaptureModels\<close>, \<open>CaptureService\<close>: its \<open>models.py\<close> and \<open>service.py\<close>.
    \<open>CaptureFacts\<close>: what the texts, keys and codecs do, the normal form of drafts, the exact
    result of a compilation, and that the hashed text determines the capture.
  \<^item> \<open>PyFloat\<close>: rounding to doubles and its error. \<open>ProviderBudget\<close>:
    \<open>intelligence/provider_budget_store.py\<close> with the configuration and the in-memory ledger of
    \<open>openai_provider.py\<close>. \<open>BudgetRuns\<close>: the locale \<open>attempt_ledger\<close> of capped counters, which both
    ledgers interpret, the step relation \<open>budget_step\<close>, and the invariant that every reservation was
    justified by the ones before it.
  \<^item> \<open>IntelligenceModels\<close>: \<open>intelligence/models.py\<close> and \<open>connectors/admission.py\<close>.
    \<open>ContextAssembly\<close>: \<open>intelligence/context.py\<close>; an adapter is a record with a \<open>retrieve\<close> function.
    \<open>ContextFacts\<close>: the items of a source, and the balanced selection as a prefix of layers.
    \<open>ContextCoverage\<close>: the entries of the coverage, and when assembly returns.
  \<^item> \<open>AuthorityProperties\<close>, \<open>UseProperties\<close>, \<open>ConnectorProperties\<close>, \<open>JobProperties\<close>,
    \<open>WorkerProperties\<close>, \<open>DevProperties\<close>, \<open>DelegationProperties\<close>, \<open>CaptureProperties\<close>,
    \<open>BudgetProperties\<close>, \<open>ContextProperties\<close>: the properties C1 to C40 and
    further theorems of the same kind, with witnesses on the values of \<open>Samples\<close> or on sample
    values of the theory.

  \<^bold>\<open>Correspondence.\<close> A dataclass is a record whose fields carry a prefix per class
  (\<open>Job.status\<close> is \<open>jb_status\<close>). \<open>Class_init x\<close> is the constructor: it returns \<open>x\<close> or the first
  exception of \<open>__post_init__\<close>. \<open>Class_to_dict\<close> and \<open>Class_from_dict\<close> are the codecs;
  \<open>Class_wf\<close> holds of the values the constructor can produce from well-formed parts, and \<open>Class_norm\<close> is
  what a JSON round trip makes of one (timestamps in UTC, the principal's domains sorted). A
  \<open>frozenset\<close> is an \<open>fset\<close>, a dictionary an association list in insertion order. A method of the
  registry, the store, the service or the worker is a state transformer
  \<open>state \<Rightarrow> result \<times> state\<close>; a \<open>with connection\<close> block is \<open>transaction\<close>, which rolls back on an
  exception. The orchestrator's surroundings (repository inspector, agent, validator, clocks,
  identifiers) are functions of an arbitrary state \<open>'w\<close>, which may raise; its state file is a JSON
  document and its audit sink a list. In the delegation store a payload column is the canonical
  text of a JSON document or a text that is the canonical text of none (\<open>payload_text\<close>), and
  which paths are symbolic links is an argument of \<open>claim\<close>. A date is its proleptic ordinal, a UUID its number below \<open>2 ^ 128\<close>.
  Python's integers are \<open>int\<close>, its finite floats \<open>rat\<close>; where the code calculates with floats (the
  budget), each operation is rounded by \<open>float64\<close>. Machine words occur only in SHA-256.

  \<^bold>\<open>What is shown.\<close> Policy: the search for the most specific rule equals its declarative meaning,
  prohibitions win, decisions do not depend on the order of rules, and missing context fails closed.
  Use: READY means registered, usable and granted, and candidates and evidence never leak across
  tenants or domains. Connectors: a request exists only under current, exactly bound authority; manifests and
  plans are bound to their digests; checkpoints resume only where they were made. Jobs: over every
  sequence of calls the store keeps its integrity, the audit log is append-only, a status only moves
  along the lifecycle and a finished job never changes; claims are exclusive; each service call does
  exactly what its guard allows and touches no other job; a worker run attempts only authorised jobs
  and completes a job only on verification. Development runs: a run follows a history of governed
  selections whatever its surroundings do; it starts only authorised tasks, records only
  accepted work, stays within its budgets and ends. Delegation: a claim is made exactly when the
  request lies within an intact, active grant; grants that ended stay ended; operations are used
  once; the audit always verifies and two chains with one final hash agree up to a SHA-256
  collision, which is stated for the very texts of their events. Work capture: a draft has a normal
  form, it compiles exactly under the project's conditions, the payload hash binds every fact, a
  retried submission keeps its identity, and the projections are those the capture calls for. Budget:
  the limits hold over every sequence of transactions, an attempt is admitted exactly under its
  conditions, and the opening balance never changes. Context: every item is authorised now and in scope, the
  selection is fair between the sources, and what is left out shows in the coverage. Several properties state limits of the code: plans that
  cannot be reloaded, identifiers that become too long inside derived requests, jobs that stay
  RUNNING for ever, retry times compared as text, completed claims that cannot be read back, and
  a budget that one early call locks for ever.

  \<^bold>\<open>Bounds and termination.\<close> No definition of the code uses fuel: every one is total.
  \<open>year_from\<close>, \<open>py_replace\<close>, \<open>bits\<close>, \<open>run_loop\<close> and \<open>balance\<close> have termination proofs, the other recursion is structural.
  \<open>run_passes\<close> counts the passes of the orchestrator's loop; one more than the roadmap has tasks
  is proved enough. The length bounds (128 for
  identifiers, 512 for safe texts, 100 candidates per run) are the code's.

  \<^bold>\<open>Assumptions.\<close> \<open>uuid4\<close> is an arbitrary stream \<open>st_uuid\<close> in the store; the safety
  properties need nothing about it, and the properties that say a call succeeds assume \<open>live k s\<close>: the store is
  intact and writable and the next \<open>k\<close> identifiers are valid, distinct and unused. Connector
  methods are arbitrary functions that return or raise; \<open>worker_ok\<close> asks only that a checkpoint they
  return was constructed, which Python's types ensure. Source adapters are arbitrary as well;
  \<open>adapter_wf\<close>, which only totality needs, asks that they raise nothing but connector errors and return
  constructed batches. SQLite is taken at its contract: a
  transaction is atomic and isolated (\<open>BEGIN IMMEDIATE\<close>), so concurrent workers interleave by
  whole transactions; \<open>job_step\<close> interleaves whole calls, and \<open>claim_exclusive\<close> covers the transaction
  in which two workers meet. SQLite's \<open>AVG\<close> of \<open>julianday\<close> differences is a parameter of \<open>metrics\<close>, and
  its \<open>SUM\<close> of real numbers one of the budget ledger: \<open>sum_accurate\<close> asks that a sum of costs is short of
  the exact sum by a bounded relative error.

  \<^bold>\<open>Not modelled.\<close> Code points above 255 in strings (the checks treat them as the code's tables do for
  Latin-1 text only); arguments of wrong Python types passed around the annotations; the file
  permissions, pragmas and busy time-outs of the stores; a crash inside SQLite; opening and
  writing the state, audit and roadmap files and the Git subprocess of the development package.
  Other packages are outside this development so far: the concrete connectors (clients of the
  file system and of Microsoft Graph), the rest of the intelligence package (the
  adapters, the dispatch to the remote model), the knowledge, memory, retrieval and
  operations packages, the command lines and the user interface; the manifest lists each with the
  reason.
\<close>

end
